(* ===== verification/Prelude.thy ===== *)
theory Prelude
  imports Main "HOL-Library.Word" "HOL-Library.List_Lexorder"
begin

text \<open>
  Shared vocabulary of the development: the machine integers of the Rust code, the
  results of fallible code, the state-and-error computations that thread the wallet
  through a handler, and the list, word and byte lemmas the components share.
\<close>

unbundle bit_operations_syntax

named_theorems res_simps \<open>equations and inversions of the result type\<close>
named_theorems keeps_intros \<open>rules that a computation keeps a predicate of the state\<close>
named_theorems byte_simps \<open>lengths and inverses of the byte encodings\<close>

section \<open>Machine integers and byte strings\<close>

type_synonym u8 = "8 word"
type_synonym u16 = "16 word"
type_synonym u32 = "32 word"
type_synonym u64 = "64 word"
type_synonym bytes = "u8 list"

text \<open>Rust's \<open>checked_sub\<close> and \<open>saturating_sub\<close> on \<open>u64\<close>\<close>

definition checked_sub64 :: "u64 \<Rightarrow> u64 \<Rightarrow> u64 option" where
  "checked_sub64 a b = (if b \<le> a then Some (a - b) else None)"

definition saturating_sub64 :: "u64 \<Rightarrow> u64 \<Rightarrow> u64" where
  "saturating_sub64 a b = (if b \<le> a then a - b else 0)"

lemma checked_sub64_SomeD: "checked_sub64 a b = Some c \<Longrightarrow> b \<le> a \<and> c = a - b"
  by (simp add: checked_sub64_def split: if_splits)

lemma unat_saturating_sub64: "unat (saturating_sub64 a b) = unat a - unat b"
  by (simp add: saturating_sub64_def unat_sub word_le_nat_alt)

text \<open>Decimal text of an unsigned number, as \<open>to_string\<close> prints it\<close>

fun nat_to_string :: "nat \<Rightarrow> string" where
  "nat_to_string n =
     (if n < 10 then [char_of (48 + n)] else nat_to_string (n div 10) @ [char_of (48 + n mod 10)])"

declare nat_to_string.simps [simp del]

section \<open>Results\<close>

text \<open>
  \<open>Ok\<close> and \<open>Err\<close> are Rust's \<open>Result\<close>; \<open>Panic\<close> is a panic of the code (an \<open>unwrap\<close> of
  nothing, an index out of range, a division by zero), which ends the call without a value.
\<close>

datatype ('e, 'a) res = is_Ok: Ok (the_Ok: 'a) | is_Err: Err 'e | is_Panic: Panic

definition rbind :: "('e, 'a) res \<Rightarrow> ('a \<Rightarrow> ('e, 'b) res) \<Rightarrow> ('e, 'b) res" where
  "rbind m f = (case m of Ok a \<Rightarrow> f a | Err e \<Rightarrow> Err e | Panic \<Rightarrow> Panic)"

lemma is_Ok_ex: "is_Ok r \<longleftrightarrow> (\<exists>a. r = Ok a)"
  by (cases r) auto

lemma rbind_simps [simp, res_simps]:
  "rbind (Ok a) f = f a" "rbind (Err e) f = Err e" "rbind Panic f = Panic"
  by (simp_all add: rbind_def)

lemma rbind_eq_Ok [res_simps]: "rbind m f = Ok b \<longleftrightarrow> (\<exists>a. m = Ok a \<and> f a = Ok b)"
  by (cases m) auto

lemma rbind_eq_Panic [res_simps]: "rbind m f = Panic \<longleftrightarrow> m = Panic \<or> (\<exists>a. m = Ok a \<and> f a = Panic)"
  by (cases m) auto

lemma rbind_assoc [res_simps]: "rbind (rbind m f) g = rbind m (\<lambda>x. rbind (f x) g)"
  by (cases m) auto

lemma rbind_cong [fundef_cong]:
  "m = m' \<Longrightarrow> (\<And>a. m' = Ok a \<Longrightarrow> f a = f' a) \<Longrightarrow> rbind m f = rbind m' f'"
  by (cases m') auto

text \<open>\<open>ok_or\<close>: an option as a result; \<open>unwrap\<close>: an option whose absence panics\<close>

definition ok_or :: "'e \<Rightarrow> 'a option \<Rightarrow> ('e, 'a) res" where
  "ok_or e v = (case v of Some a \<Rightarrow> Ok a | None \<Rightarrow> Err e)"

definition unwrap :: "'a option \<Rightarrow> ('e, 'a) res" where
  "unwrap v = (case v of Some a \<Rightarrow> Ok a | None \<Rightarrow> Panic)"

lemma ok_or_simps [simp, res_simps]: "ok_or e (Some a) = Ok a" "ok_or e None = Err e"
  by (simp_all add: ok_or_def)

lemma ok_or_eq_Ok [res_simps]: "ok_or e v = Ok a \<longleftrightarrow> v = Some a"
  by (simp add: ok_or_def split: option.splits)

lemma unwrap_simps [simp, res_simps]: "unwrap (Some a) = Ok a" "unwrap None = Panic"
  by (simp_all add: unwrap_def)

lemma unwrap_eq_Ok [res_simps]: "unwrap v = Ok a \<longleftrightarrow> v = Some a"
  by (simp add: unwrap_def split: option.splits)

text \<open>\<open>unwrap\<close> of a result: an error panics\<close>

definition must :: "('e, 'a) res \<Rightarrow> ('e, 'a) res" where
  "must r = (case r of Ok a \<Rightarrow> Ok a | _ \<Rightarrow> Panic)"

lemma must_eq_Ok [res_simps]: "must r = Ok a \<longleftrightarrow> r = Ok a"
  by (cases r) (simp_all add: must_def)

text \<open>A loop that stops at the first failure\<close>

fun rmap :: "('a \<Rightarrow> ('e, 'b) res) \<Rightarrow> 'a list \<Rightarrow> ('e, 'b list) res" where
  "rmap f [] = Ok []"
| "rmap f (x # xs) = rbind (f x) (\<lambda>y. rbind (rmap f xs) (\<lambda>ys. Ok (y # ys)))"

lemma rmap_eq_map: "(\<And>x. x \<in> set xs \<Longrightarrow> f x = Ok (g x)) \<Longrightarrow> rmap f xs = Ok (map g xs)"
  by (induction xs) auto

lemma rmap_length: "rmap f xs = Ok ys \<Longrightarrow> length ys = length xs"
  by (induction xs arbitrary: ys) (auto simp: res_simps)

section \<open>Computations over a state\<close>

text \<open>
  A handler of the wallet takes the state and returns its result with the new state. The
  state survives an error: what a handler committed before it failed stays committed.
\<close>

type_synonym ('s, 'e, 'a) comp = "'s \<Rightarrow> ('e, 'a) res \<times> 's"

definition sret :: "'a \<Rightarrow> ('s, 'e, 'a) comp" where
  "sret a s = (Ok a, s)"

definition slift :: "('e, 'a) res \<Rightarrow> ('s, 'e, 'a) comp" where
  "slift r s = (r, s)"

definition sfail :: "'e \<Rightarrow> ('s, 'e, 'a) comp" where
  "sfail e s = (Err e, s)"

definition sread :: "('s \<Rightarrow> 'a) \<Rightarrow> ('s, 'e, 'a) comp" where
  "sread f s = (Ok (f s), s)"

definition smodify :: "('s \<Rightarrow> 's) \<Rightarrow> ('s, 'e, unit) comp" where
  "smodify f s = (Ok (), f s)"

definition sbind :: "('s, 'e, 'a) comp \<Rightarrow> ('a \<Rightarrow> ('s, 'e, 'b) comp) \<Rightarrow> ('s, 'e, 'b) comp" where
  "sbind m f s = (case m s of (Ok a, s') \<Rightarrow> f a s' | (Err e, s') \<Rightarrow> (Err e, s') | (Panic, s') \<Rightarrow> (Panic, s'))"

fun sfor :: "'a list \<Rightarrow> ('a \<Rightarrow> ('s, 'e, unit) comp) \<Rightarrow> ('s, 'e, unit) comp" where
  "sfor [] f = sret ()"
| "sfor (x # xs) f = sbind (f x) (\<lambda>_. sfor xs f)"

fun smap :: "('a \<Rightarrow> ('s, 'e, 'b) comp) \<Rightarrow> 'a list \<Rightarrow> ('s, 'e, 'b list) comp" where
  "smap f [] = sret []"
| "smap f (x # xs) = sbind (f x) (\<lambda>y. sbind (smap f xs) (\<lambda>ys. sret (y # ys)))"

lemmas comp_defs = sret_def slift_def sfail_def sread_def smodify_def

lemma sbind_eq_Ok [res_simps]:
  "sbind m f s = (Ok b, t) \<longleftrightarrow> (\<exists>a s'. m s = (Ok a, s') \<and> f a s' = (Ok b, t))"
  by (auto simp: sbind_def split: prod.splits res.splits)

lemma sbind_simps [res_simps]:
  "sbind (sret a) f s = f a s"
  "sbind (sread g) f s = f (g s) s"
  "sbind (smodify h) k s = k () (h s)"
  "sbind (sfail e) f s = (Err e, s)"
  "sbind (slift (Ok a)) f s = f a s"
  "sbind (slift (Err e)) f s = (Err e, s)"
  "sbind (slift Panic) f s = (Panic, s)"
  by (simp_all add: sbind_def comp_defs)

lemma comp_eq_Ok [res_simps]:
  "sret a s = (Ok b, t) \<longleftrightarrow> b = a \<and> t = s"
  "slift r s = (Ok b, t) \<longleftrightarrow> r = Ok b \<and> t = s"
  "sfail e s = (Ok b, t) \<longleftrightarrow> False"
  "sread g s = (Ok b, t) \<longleftrightarrow> b = g s \<and> t = s"
  "smodify h s = (Ok u, t) \<longleftrightarrow> t = h s"
  by (auto simp: comp_defs)

text \<open>
  \<open>keeps P m\<close>: whatever \<open>m\<close> returns, a value, an error or a panic, the state it leaves
  satisfies \<open>P\<close> if the state it started in did.
\<close>

definition keeps :: "('s \<Rightarrow> bool) \<Rightarrow> ('s, 'e, 'a) comp \<Rightarrow> bool" where
  "keeps P m \<longleftrightarrow> (\<forall>s. P s \<longrightarrow> P (snd (m s)))"

lemma keepsI: "(\<And>s. P s \<Longrightarrow> P (snd (m s))) \<Longrightarrow> keeps P m"
  by (simp add: keeps_def)

lemma keepsD: "keeps P m \<Longrightarrow> P s \<Longrightarrow> m s = (r, t) \<Longrightarrow> P t"
  by (auto simp: keeps_def dest: spec [of _ s])

lemma keeps_basic [keeps_intros]:
  "keeps P (sret a)" "keeps P (slift r)" "keeps P (sfail e)" "keeps P (sread g)"
  by (simp_all add: keeps_def comp_defs)

lemma keeps_smodify: "(\<And>s. P s \<Longrightarrow> P (h s)) \<Longrightarrow> keeps P (smodify h)"
  by (simp add: keeps_def comp_defs)

lemma keeps_sbind [keeps_intros]: "keeps P m \<Longrightarrow> (\<And>a. keeps P (f a)) \<Longrightarrow> keeps P (sbind m f)"
  by (auto simp: keeps_def sbind_def split: prod.splits res.splits)

lemma keeps_sfor [keeps_intros]: "(\<And>x. x \<in> set xs \<Longrightarrow> keeps P (f x)) \<Longrightarrow> keeps P (sfor xs f)"
  by (induction xs) (auto intro: keeps_intros)

lemma keeps_smap [keeps_intros]: "(\<And>x. x \<in> set xs \<Longrightarrow> keeps P (f x)) \<Longrightarrow> keeps P (smap f xs)"
  by (induction xs) (auto intro: keeps_intros)

section \<open>Big-endian integers\<close>

text \<open>\<open>write_u16\<close>, \<open>write_u32\<close> and \<open>write_u64\<close> write big-endian bytes.\<close>

fun be :: "nat \<Rightarrow> 'a::len word \<Rightarrow> bytes" where
  "be 0 w = []"
| "be (Suc n) w = be n (drop_bit 8 w) @ [ucast w]"

definition be16 :: "u16 \<Rightarrow> bytes" where "be16 w = be 2 w"
definition be32 :: "u32 \<Rightarrow> bytes" where "be32 w = be 4 w"
definition be64 :: "u64 \<Rightarrow> bytes" where "be64 w = be 8 w"

definition of_be :: "bytes \<Rightarrow> 'a::len word" where
  "of_be bs = foldl (\<lambda>acc b. push_bit 8 acc OR ucast b) 0 bs"

lemma of_be_snoc: "of_be (bs @ [b]) = push_bit 8 (of_be bs) OR ucast b"
  by (simp add: of_be_def)

lemma of_be_be: "of_be (be n w) = take_bit (8 * n) w"
proof (induction n w rule: be.induct)
  case (2 n w)
  show ?case
    by (rule bit_word_eqI) (auto simp: of_be_snoc 2 bit_simps)
qed (simp add: of_be_def)

lemma length_be [simp, byte_simps]: "length (be n w) = n"
  by (induction n w rule: be.induct) auto

lemma length_be_words [simp, byte_simps]:
  "length (be16 a) = 2" "length (be32 b) = 4" "length (be64 c) = 8"
  by (simp_all add: be16_def be32_def be64_def)

lemma of_be_words [simp, byte_simps]:
  "of_be (be16 a) = a" "of_be (be32 b) = b" "of_be (be64 c) = c"
  by (simp_all add: be16_def be32_def be64_def of_be_be take_bit_word_eq_self)

lemma be64_inject [simp]: "be64 a = be64 b \<longleftrightarrow> a = b"
  by (metis of_be_words(3))

section \<open>Lists\<close>

lemma takeWhile_filter_id: "(\<And>x. x \<in> set xs \<Longrightarrow> P x) \<Longrightarrow> takeWhile P (xs @ y # ys) = xs @ takeWhile P (y # ys)"
  by (simp add: takeWhile_append)

lemma find_SomeD: "List.find P xs = Some x \<Longrightarrow> x \<in> set xs \<and> P x"
  by (induction xs) (auto split: if_splits)

lemma find_None_iff': "List.find P xs = None \<longleftrightarrow> (\<forall>x \<in> set xs. \<not> P x)"
  by (induction xs) auto

end
