(* ===== verification/Ordered_Store.thy ===== *)
theory Ordered_Store
  imports Prelude
begin

text \<open>
  The tables of the wallet database. The database itself (\<open>grin_store\<close>, over LMDB) is not
  part of the repository; what the wallet relies on is the contract of an ordered key-value
  store: a read returns the last write of its key, a delete removes the key, and iteration
  visits every entry once, in the order of the keys. The contract is the locale
  \<open>kv_store\<close>; what the wallet code concludes from it is proved inside. The provider is an
  association list kept sorted by key, so that iteration has the order the store has.
\<close>

section \<open>The contract\<close>

locale kv_store =
  fixes get :: "'t \<Rightarrow> 'k::linorder \<Rightarrow> 'v option"
    and put :: "'k \<Rightarrow> 'v \<Rightarrow> 't \<Rightarrow> 't"
    and del :: "'k \<Rightarrow> 't \<Rightarrow> 't"
    and entries :: "'t \<Rightarrow> ('k \<times> 'v) list"
    and vals :: "'t \<Rightarrow> 'v list"
    and wf :: "'t \<Rightarrow> bool"
  assumes get_put: "wf t \<Longrightarrow> get (put k v t) j = (if j = k then Some v else get t j)"
    and get_del: "wf t \<Longrightarrow> get (del k t) j = (if j = k then None else get t j)"
    and wf_put: "wf t \<Longrightarrow> wf (put k v t)"
    and wf_del: "wf t \<Longrightarrow> wf (del k t)"
    and entries_get: "wf t \<Longrightarrow> (k, v) \<in> set (entries t) \<longleftrightarrow> get t k = Some v"
    and entries_order: "wf t \<Longrightarrow> sorted_wrt (<) (map fst (entries t))"
    and vals_eq: "vals t = map snd (entries t)"
begin

lemma entries_distinct: "wf t \<Longrightarrow> distinct (map fst (entries t))"
  using entries_order strict_sorted_iff by blast

lemma vals_iff: "wf t \<Longrightarrow> v \<in> set (vals t) \<longleftrightarrow> (\<exists>k. get t k = Some v)"
  by (force simp: vals_eq entries_get [symmetric])

lemma vals_put_subset: "wf t \<Longrightarrow> set (vals (put k v t)) \<subseteq> insert v (set (vals t))"
  by (auto simp: vals_iff wf_put get_put split: if_splits)

lemma vals_del_subset: "wf t \<Longrightarrow> set (vals (del k t)) \<subseteq> set (vals t)"
  by (auto simp: vals_iff wf_del get_del split: if_splits)

lemma all_vals_put: "wf t \<Longrightarrow> \<forall>x \<in> set (vals t). P x \<Longrightarrow> P v \<Longrightarrow> \<forall>x \<in> set (vals (put k v t)). P x"
  using vals_put_subset by blast

lemma put_put: "wf t \<Longrightarrow> get (put k v (put k u t)) j = get (put k v t) j"
  by (simp add: get_put wf_put)

lemma put_del: "wf t \<Longrightarrow> get (del k (put k v t)) j = get (del k t) j"
  by (simp add: get_put get_del wf_put)

end

section \<open>The provider: a sorted association list\<close>

type_synonym 'v table = "(bytes \<times> 'v) list"

fun tbl_get :: "'v table \<Rightarrow> bytes \<Rightarrow> 'v option" where
  "tbl_get [] j = None"
| "tbl_get ((k, v) # t) j = (if j = k then Some v else tbl_get t j)"

fun tbl_put :: "bytes \<Rightarrow> 'v \<Rightarrow> 'v table \<Rightarrow> 'v table" where
  "tbl_put j u [] = [(j, u)]"
| "tbl_put j u ((k, v) # t) =
     (if j < k then (j, u) # (k, v) # t else if j = k then (j, u) # t else (k, v) # tbl_put j u t)"

fun tbl_del :: "bytes \<Rightarrow> 'v table \<Rightarrow> 'v table" where
  "tbl_del j [] = []"
| "tbl_del j ((k, v) # t) = (if j = k then t else (k, v) # tbl_del j t)"

definition tbl_entries :: "'v table \<Rightarrow> (bytes \<times> 'v) list" where
  "tbl_entries t = t"

definition tbl_vals :: "'v table \<Rightarrow> 'v list" where
  "tbl_vals t = map snd t"

definition tbl_wf :: "'v table \<Rightarrow> bool" where
  "tbl_wf t \<longleftrightarrow> sorted_wrt (<) (map fst t)"

lemma tbl_get_in: "tbl_get t k = Some v \<Longrightarrow> (k, v) \<in> set t"
  by (induction t k rule: tbl_get.induct) (auto split: if_splits)

lemma tbl_get_absent: "k \<notin> fst ` set t \<Longrightarrow> tbl_get t k = None"
  by (induction t k rule: tbl_get.induct) auto

lemma tbl_get_Some_iff: "tbl_wf t \<Longrightarrow> (k, v) \<in> set t \<longleftrightarrow> tbl_get t k = Some v"
proof (induction t k rule: tbl_get.induct)
  case (2 k' v' t j)
  then show ?case by (force simp: tbl_wf_def)
qed simp

lemma tbl_put_keys: "fst ` set (tbl_put k v t) = insert k (fst ` set t)"
  by (induction k v t rule: tbl_put.induct) auto

lemma tbl_del_keys: "fst ` set (tbl_del k t) \<subseteq> fst ` set t"
  by (induction k t rule: tbl_del.induct) auto

lemma tbl_wf_put: "tbl_wf t \<Longrightarrow> tbl_wf (tbl_put k v t)"
proof (induction k v t rule: tbl_put.induct)
  case (2 j u k v t)
  have keys: "x \<in> fst ` set (tbl_put j u t) \<Longrightarrow> x = j \<or> x \<in> fst ` set t" for x
    by (simp add: tbl_put_keys)
  from 2 keys show ?case
    by (fastforce simp: tbl_wf_def)
qed (simp add: tbl_wf_def)

lemma tbl_wf_del: "tbl_wf t \<Longrightarrow> tbl_wf (tbl_del k t)"
proof (induction k t rule: tbl_del.induct)
  case (2 j k v t)
  then show ?case
    using tbl_del_keys [of j t] by (fastforce simp: tbl_wf_def)
qed (simp add: tbl_wf_def)

lemma tbl_get_put: "tbl_get (tbl_put k v t) j = (if j = k then Some v else tbl_get t j)"
  by (induction k v t rule: tbl_put.induct) auto

lemma tbl_get_del: "tbl_wf t \<Longrightarrow> tbl_get (tbl_del k t) j = (if j = k then None else tbl_get t j)"
proof (induction k t rule: tbl_del.induct)
  case (2 i k v t)
  have "i = k \<Longrightarrow> tbl_get t k = None"
    using 2(2) by (auto simp: tbl_wf_def intro!: tbl_get_absent)
  with 2 show ?case by (auto simp: tbl_wf_def)
qed simp

interpretation tbl: kv_store tbl_get tbl_put tbl_del tbl_entries tbl_vals tbl_wf
  by unfold_locales
     (simp_all add: tbl_get_put tbl_get_del tbl_entries_def tbl_vals_def tbl_wf_put tbl_wf_del
        tbl_get_Some_iff, simp add: tbl_wf_def)

lemma tbl_wf_Nil [simp]: "tbl_wf []"
  by (simp add: tbl_wf_def)

lemmas tbl_simps = tbl_get_put tbl_get_del tbl_wf_put tbl_wf_del

end
