(* ===== verification/Errors.thy ===== *)
theory Errors
  imports Prelude
begin

text \<open>
  The error type of the wallet library (\<open>libwallet/src/error.rs\<close>). The variants of the enum are
  grouped by the layer that raises them: failures of a library the wallet calls, failures of
  the communication with nodes, parties and clients, failures of a wallet operation, failures of the transaction exchange, and failures of the Slatepack
  encodings. A variant that wraps the error of another crate carries its text.
\<close>

datatype lib_error =
    Fee string
  | LibTX string
  | Keychain string
  | Transaction string
  | Secp string
  | OnionV3Address string
  | Backend string
  | Format string
  | Deser string
  | IO string
  | Signature string
  | Committed string
  | Commit string
  | ED25519Key string
  | GenericError string

datatype comms_error =
    ClientCallback string
  | CallbackImpl string
  | Node
  | WalletComms string
  | Hyper
  | Uri
  | APIEncryption string
  | CommitDeser string
  | ServerKeyDeser string
  | U64Deser string
  | TorProcess string
  | TorConfig string

datatype wallet_error =
    NotEnoughFunds (available: u64) (available_disp: string) (needed: u64) (needed_disp: string)
  | BigAmountError u64 u64 u32
  | Restore
  | WalletSeedExists string
  | WalletSeedDoesntExist
  | WalletSeedDecryption
  | InvalidBIP32Depth
  | AccountLabelAlreadyExists string
  | UnknownAccountLabel string
  | KeychainDoesntExist
  | Lifecycle string
  | InvalidKeychainMask
  | RewindHash string
  | Nonce string
  | StoredTx string

datatype tx_error =
    DuplicateTransactionId
  | TransactionDoesntExist string
  | TransactionNotCancellable string
  | TransactionCancellationError string
  | TransactionDumpError string
  | TransactionAlreadyConfirmed
  | TransactionAlreadyReceived string
  | TransactionWasCancelled string
  | TransactionBuildingNotCompleted u32
  | PaymentProof string
  | PaymentProofRetrieval string
  | PaymentProofParsing string
  | TransactionExpired
  | KernelFeaturesMissing string
  | UnknownKernelFeatures u8
  | InvalidKernelFeatures u8

datatype slate_error =
    SlateVersionParse
  | SlateSer
  | SlateDeser
  | SlateState
  | SlatepackSer
  | SlatepackDeser string
  | SlateVersion u16
  | SlateTransactionRequired
  | SlateInvalidDowngrade string
  | Compatibility string
  | AddressDecoding string
  | InvalidSlatepackData string
  | SlatepackEncryption string
  | SlatepackDecryption string
  | Age string
  | SlatepackAddress string

datatype error =
    Lib lib_error
  | Com comms_error
  | Wal wallet_error
  | Txn tx_error
  | Slt slate_error

type_synonym 'a result = "(error, 'a) res"

end
