(* ===== verification/External.thy ===== *)
theory External
  imports Errors
begin

text \<open>
  What the wallet uses of code that is not in the repository: the data of the node's and the
  keychain's types, whose fields the wallet reads and writes, and the functions it calls,
  which are the fields of the parameter record \<open>ext\<close>. Every definition that calls one takes
  an \<open>ext\<close>; a theorem that relies on what a function does states it as a hypothesis on the
  fields it uses. Keys, commitments, signatures, proofs and identifiers are byte arrays.
\<close>

type_synonym ident = bytes
type_synonym commitment = bytes
type_synonym secret_key = bytes
type_synonym public_key = bytes
type_synonym signature = bytes
type_synonym dalek_pubkey = bytes
type_synonym dalek_sig = bytes
type_synonym range_proof = bytes
type_synonym blinding_factor = bytes
type_synonym uuid = bytes
type_synonym keychain = bytes
type_synonym fee_fields = u64
type_synonym timestamp = int
type_synonym duration = nat

text \<open>A derivation path (\<open>ExtKeychainPath\<close>) and how much of it is used\<close>

record key_path =
  kp_depth :: u8
  kp_path :: "u32 list"

text \<open>The transaction types of \<open>grin_core\<close>\<close>

datatype output_features = OF_Plain | OF_Coinbase

datatype kernel_features =
    KF_Plain (kf_fee: fee_fields)
  | KF_Coinbase
  | KF_HeightLocked (kf_fee: fee_fields) (kf_lock_height: u64)
  | KF_NoRecentDuplicate (kf_fee: fee_fields) (kf_relative_height: u64)

record tx_input =
  in_features :: output_features
  in_commit :: commitment

datatype tx_inputs = CommitOnly "commitment list" | FeaturesAndCommit "tx_input list"

record tx_output =
  ou_features :: output_features
  ou_commit :: commitment
  ou_proof :: range_proof

record tx_kernel =
  k_features :: kernel_features
  k_excess :: commitment
  k_excess_sig :: signature

record transaction =
  t_offset :: blinding_factor
  t_inputs :: tx_inputs
  t_outputs :: "tx_output list"
  t_kernels :: "tx_kernel list"

text \<open>The elements handed to \<open>libtx::build\<close>\<close>

datatype build_elem =
    build_input u64 ident
  | build_coinbase_input u64 ident
  | build_output u64 ident

datatype switch_commitment = Switch_None | Switch_Regular

text \<open>The sum of blinding factors a \<open>BlindSum\<close> collects: those to add, those to subtract\<close>

record blind_sum =
  bs_pos :: "blinding_factor list"
  bs_neg :: "blinding_factor list"

section \<open>The functions\<close>

text \<open>Text forms, consensus and fees\<close>

record chain_ext =
  x_to_hex :: "bytes \<Rightarrow> string"
  x_from_hex :: "string \<Rightarrow> bytes option"
  x_amount_hr :: "u64 \<Rightarrow> bool \<Rightarrow> string"
  x_uuid_str :: "uuid \<Rightarrow> string"
  x_ident_str :: "ident \<Rightarrow> string"
  x_store_not_found :: "string \<Rightarrow> string"
  x_io_not_found :: string
  x_tx_fee :: "nat \<Rightarrow> nat \<Rightarrow> nat \<Rightarrow> u64"
  x_weight_by_iok :: "u64 \<Rightarrow> u64 \<Rightarrow> u64 \<Rightarrow> u64"
  x_max_tx_weight :: u64
  x_coinbase_maturity :: u64
  x_reward :: "u64 \<Rightarrow> u64"
  x_week_height :: u64
  x_valid_header_version :: "u64 \<Rightarrow> u16 \<Rightarrow> bool"
  x_fee :: "fee_fields \<Rightarrow> u64"
  x_fee_new :: "u64 \<Rightarrow> u64 \<Rightarrow> fee_fields result"
  x_fee_try_from :: "u64 \<Rightarrow> fee_fields option"
  x_fee_as_opt :: "fee_fields \<Rightarrow> fee_fields option"
  x_chain_type :: string
  x_to_base32 :: "bytes \<Rightarrow> bytes"
  x_from_base32 :: "bytes \<Rightarrow> bytes result"
  x_bech32_encode :: "string \<Rightarrow> bytes \<Rightarrow> string result"
  x_bech32_decode :: "string \<Rightarrow> (string \<times> bytes) result"

text \<open>Derivation paths and the keychain\<close>

record key_ext = chain_ext +
  x_to_path :: "ident \<Rightarrow> key_path"
  x_derive_key_id :: "u8 \<Rightarrow> u32 \<Rightarrow> u32 \<Rightarrow> u32 \<Rightarrow> u32 \<Rightarrow> ident"
  x_from_path :: "key_path \<Rightarrow> ident"
  x_parent_path :: "ident \<Rightarrow> ident"
  x_last_path_index :: "key_path \<Rightarrow> u32"
  x_mask_key :: "keychain \<Rightarrow> secret_key \<Rightarrow> keychain result"
  x_derive_key :: "keychain \<Rightarrow> u64 \<Rightarrow> ident \<Rightarrow> switch_commitment \<Rightarrow> secret_key result"
  x_root_key_id :: ident
  x_commit :: "keychain \<Rightarrow> u64 \<Rightarrow> ident \<Rightarrow> switch_commitment \<Rightarrow> commitment result"
  x_commit_from_vec :: "bytes \<Rightarrow> commitment"
  x_commit_value :: "u64 \<Rightarrow> commitment result"
  x_commit_sum :: "commitment list \<Rightarrow> commitment list \<Rightarrow> commitment result"
  x_blind_sum :: "keychain \<Rightarrow> blind_sum \<Rightarrow> blinding_factor result"
  x_blake2b :: "nat \<Rightarrow> bytes \<Rightarrow> bytes \<Rightarrow> bytes"

text \<open>The curve, aggregate signatures and ed25519\<close>

record crypto_ext = key_ext +
  x_pk_of_sk :: "secret_key \<Rightarrow> public_key result"
  x_pk_combine :: "public_key list \<Rightarrow> public_key result"
  x_commit_of_pk :: "public_key \<Rightarrow> commitment result"
  x_sign_partial :: "secret_key \<Rightarrow> secret_key \<Rightarrow> public_key \<Rightarrow> public_key option \<Rightarrow> bytes \<Rightarrow> signature result"
  x_verify_partial :: "signature \<Rightarrow> public_key \<Rightarrow> public_key \<Rightarrow> public_key option \<Rightarrow> bytes \<Rightarrow> unit result"
  x_add_signatures :: "signature list \<Rightarrow> public_key \<Rightarrow> signature result"
  x_verify_completed :: "signature \<Rightarrow> public_key \<Rightarrow> public_key option \<Rightarrow> bytes \<Rightarrow> unit result"
  x_sk_from_slice :: "bytes \<Rightarrow> secret_key result"
  x_dalek_pk :: "bytes \<Rightarrow> dalek_pubkey"
  x_dalek_pk_valid :: "bytes \<Rightarrow> bool"
  x_dalek_err :: "bytes \<Rightarrow> string"
  x_dalek_sign :: "bytes \<Rightarrow> bytes \<Rightarrow> dalek_sig"
  x_dalek_verify :: "dalek_pubkey \<Rightarrow> bytes \<Rightarrow> dalek_sig \<Rightarrow> bool"

text \<open>Transactions\<close>

record ext = crypto_ext +
  x_tx_empty :: transaction
  x_nrd_height :: "u64 \<Rightarrow> u64 result"
  x_kernel_msg :: "kernel_features \<Rightarrow> bytes result"
  x_kernel_with_features :: "kernel_features \<Rightarrow> tx_kernel"
  x_replace_kernel :: "transaction \<Rightarrow> tx_kernel \<Rightarrow> transaction"
  x_with_kernel :: "transaction \<Rightarrow> tx_kernel \<Rightarrow> transaction"
  x_replace_inputs :: "transaction \<Rightarrow> tx_inputs \<Rightarrow> transaction"
  x_replace_outputs :: "transaction \<Rightarrow> tx_output list \<Rightarrow> transaction"
  x_partial_transaction :: "transaction \<Rightarrow> build_elem list \<Rightarrow> keychain \<Rightarrow> (transaction \<times> blinding_factor) result"
  x_reward_output :: "keychain \<Rightarrow> ident \<Rightarrow> u64 \<Rightarrow> bool \<Rightarrow> (tx_output \<times> tx_kernel) result"
  x_tx_to_hex :: "transaction \<Rightarrow> string"
  x_tx_of_hex :: "string \<Rightarrow> transaction option"
  x_tx_fee_total :: "transaction \<Rightarrow> u64"
  x_kernel_verify :: "tx_kernel \<Rightarrow> unit result"
  x_tx_validate :: "transaction \<Rightarrow> unit result"
  x_aggregate_fee :: "transaction \<Rightarrow> fee_fields option"
  x_rewind :: "keychain \<Rightarrow> bool \<Rightarrow> commitment \<Rightarrow> range_proof \<Rightarrow> (u64 \<times> ident \<times> switch_commitment) option result"
  x_rewind_bp :: "commitment \<Rightarrow> secret_key \<Rightarrow> range_proof \<Rightarrow> u64 option"
  x_rewind_hash :: "keychain \<Rightarrow> string"
  x_commit_blind :: "u64 \<Rightarrow> secret_key \<Rightarrow> commitment result"
  x_proof_create :: "keychain \<Rightarrow> u64 \<Rightarrow> ident \<Rightarrow> switch_commitment \<Rightarrow> commitment \<Rightarrow> range_proof result"
  x_blind_split :: "blinding_factor \<Rightarrow> blinding_factor \<Rightarrow> blinding_factor result"

section \<open>The node\<close>

text \<open>
  What the wallet asks its node (\<open>NodeClient\<close> in \<open>libwallet/src/types.rs\<close>): the tip with its
  hash, the chain's record of outputs (hash, height, position), a kernel with its height and
  position, the outputs of a range of positions, the positions of a range of heights, and to post a transaction. One
  call of the wallet sees one state of the chain.
\<close>

record chain_output =
  co_commit :: commitment
  co_proof :: range_proof
  co_is_coinbase :: bool
  co_height :: u64
  co_mmr_index :: u64

record node =
  n_chain_tip :: "(u64 \<times> string) result"
  n_version :: "u16 option"
  n_outputs :: "commitment list \<Rightarrow> (commitment \<times> string \<times> u64 \<times> u64) list result"
  n_kernel :: "commitment \<Rightarrow> u64 option \<Rightarrow> u64 option \<Rightarrow> (tx_kernel \<times> u64 \<times> u64) option result"
  n_outputs_by_pmmr_index :: "u64 \<Rightarrow> u64 option \<Rightarrow> u64 \<Rightarrow> (u64 \<times> u64 \<times> chain_output list) result"
  n_height_range_to_pmmr_indices :: "u64 \<Rightarrow> u64 option \<Rightarrow> (u64 \<times> u64) result"
  n_post_tx :: "transaction \<Rightarrow> bool \<Rightarrow> unit result"

end
