(* ===== verification/Types.thy ===== *)
theory Types
  imports External "HOL-Library.Product_Lexorder"
begin

text \<open>
  The data of the wallet library: outputs and their status, the private context of a
  transaction, the transaction log entry, the account paths, the scan bookmark and the
  argument structures of the owner interface (\<open>libwallet/src/types.rs\<close> and
  \<open>libwallet/src/api_impl/types.rs\<close>). \<open>mark_unspent\<close>, \<open>mark_spent\<close>, \<open>mark_reverted\<close> and
  \<open>output_lock\<close> are the only writers of an output's status; the step relation \<open>out_step\<close>
  is the state machine they make.
\<close>

section \<open>Outputs\<close>

datatype output_status = Unconfirmed | Unspent | Locked | Spent | Reverted

record output_data =
  out_root_key_id :: ident
  out_key_id :: ident
  out_n_child :: u32
  out_commit :: "string option"
  out_mmr_index :: "u64 option"
  out_value :: u64
  out_status :: output_status
  out_height :: u64
  out_lock_height :: u64
  out_is_coinbase :: bool
  out_tx_log_entry :: "u32 option"

text \<open>The derived order of the status, by the position of the variant\<close>

fun status_rank :: "output_status \<Rightarrow> nat" where
  "status_rank Unconfirmed = 0"
| "status_rank Unspent = 1"
| "status_rank Locked = 2"
| "status_rank Spent = 3"
| "status_rank Reverted = 4"

lemma status_rank_inject: "status_rank a = status_rank b \<longleftrightarrow> a = b"
  by (cases a; cases b) simp_all

instantiation output_status :: linorder
begin

definition less_eq_output_status :: "output_status \<Rightarrow> output_status \<Rightarrow> bool" where
  "less_eq_output_status a b \<longleftrightarrow> status_rank a \<le> status_rank b"

definition less_output_status :: "output_status \<Rightarrow> output_status \<Rightarrow> bool" where
  "less_output_status a b \<longleftrightarrow> status_rank a < status_rank b"

instance
  by standard (auto simp: less_eq_output_status_def less_output_status_def status_rank_inject [symmetric])

end

definition output_lock :: "output_data \<Rightarrow> output_data" where
  "output_lock o' = o'\<lparr>out_status := Locked\<rparr>"

definition num_confirmations :: "output_data \<Rightarrow> u64 \<Rightarrow> u64" where
  "num_confirmations o' current_height =
     (if out_height o' > current_height then 0
      else if out_status o' = Unconfirmed then 0
      else 1 + (current_height - out_height o'))"

definition eligible_to_spend :: "output_data \<Rightarrow> u64 \<Rightarrow> u64 \<Rightarrow> bool" where
  "eligible_to_spend o' current_height minimum_confirmations =
     (if out_status o' \<in> set [Spent, Locked]
         \<or> out_status o' = Unconfirmed \<and> out_is_coinbase o'
         \<or> out_lock_height o' > current_height
      then False
      else (out_status o' = Unspent \<and> num_confirmations o' current_height \<ge> minimum_confirmations)
           \<or> out_status o' = Unconfirmed \<and> minimum_confirmations = 0)"

definition mark_unspent :: "output_data \<Rightarrow> output_data" where
  "mark_unspent o' = (if out_status o' \<in> {Unconfirmed, Reverted} then o'\<lparr>out_status := Unspent\<rparr> else o')"

definition mark_spent :: "output_data \<Rightarrow> output_data" where
  "mark_spent o' = (if out_status o' \<in> {Unspent, Locked} then o'\<lparr>out_status := Spent\<rparr> else o')"

definition mark_reverted :: "output_data \<Rightarrow> output_data" where
  "mark_reverted o' = (if out_status o' = Unspent then o'\<lparr>out_status := Reverted\<rparr> else o')"

lemma num_confirmations_unat:
  assumes "out_status o' \<noteq> Unconfirmed" "out_height o' \<le> h" "h - out_height o' \<noteq> -1"
  shows "unat (num_confirmations o' h) = Suc (unat h - unat (out_height o'))"
  using assms unatSuc [of "h - out_height o'"]
  by (simp add: num_confirmations_def unat_sub word_le_nat_alt not_less eq_neg_iff_add_eq_0 add.commute)

text \<open>An output of a spend has reached its lock height and is not the coin of another one.\<close>

lemma eligible_to_spend_iff:
  "eligible_to_spend o' h mc \<longleftrightarrow>
     out_lock_height o' \<le> h \<and>
     (out_status o' = Unspent \<and> mc \<le> num_confirmations o' h
      \<or> out_status o' = Unconfirmed \<and> \<not> out_is_coinbase o' \<and> mc = 0)"
  by (cases "out_status o'") (auto simp: eligible_to_spend_def)

lemma eligible_status: "eligible_to_spend o' h mc \<Longrightarrow> out_status o' \<in> {Unspent, Unconfirmed}"
  by (auto simp: eligible_to_spend_iff)

subsection \<open>The state machine of an output\<close>

text \<open>One step: what one of the four operations does to the status.\<close>

inductive out_step :: "output_status \<Rightarrow> output_status \<Rightarrow> bool" where
  lock: "out_step s Locked"
| confirm: "s \<in> {Unconfirmed, Reverted} \<Longrightarrow> out_step s Unspent"
| spend: "s \<in> {Unspent, Locked} \<Longrightarrow> out_step s Spent"
| revert: "out_step Unspent Reverted"

inductive_simps out_step_from [simp]: "out_step s t"
inductive_cases out_step_toE: "out_step s Unspent" "out_step s Spent" "out_step s Reverted"

lemma status_ops_step:
  "out_step (out_status o') (out_status (output_lock o'))"
  "out_status (mark_unspent o') \<noteq> out_status o' \<Longrightarrow> out_step (out_status o') (out_status (mark_unspent o'))"
  "out_status (mark_spent o') \<noteq> out_status o' \<Longrightarrow> out_step (out_status o') (out_status (mark_spent o'))"
  "out_status (mark_reverted o') \<noteq> out_status o' \<Longrightarrow> out_step (out_status o') (out_status (mark_reverted o'))"
  by (auto simp: output_lock_def mark_unspent_def mark_spent_def mark_reverted_def split: if_splits)

text \<open>No step of the machine makes an output unconfirmed.\<close>

lemma out_step_not_unconfirmed: "out_step\<^sup>*\<^sup>* s t \<Longrightarrow> t = Unconfirmed \<Longrightarrow> s = Unconfirmed"
  by (induction rule: rtranclp_induct) (auto)

text \<open>The ways back to spendable: a spent output needs a lock before anything else happens to it.\<close>

lemma spent_needs_lock: "out_step Spent t \<Longrightarrow> t = Locked"
  by auto

section \<open>Argument structures of the owner interface\<close>

record slatepack_address =
  sa_hrp :: string
  sa_pub_key :: dalek_pubkey

record init_tx_send_args =
  isa_dest :: string
  isa_post_tx :: bool
  isa_fluff :: bool
  isa_skip_tor :: "bool option"

record init_tx_args =
  ita_src_acct_name :: "string option"
  ita_amount :: u64
  ita_amount_includes_fee :: "bool option"
  ita_minimum_confirmations :: u64
  ita_max_outputs :: u32
  ita_num_change_outputs :: u32
  ita_selection_strategy_is_use_all :: bool
  ita_refresh_outputs_from_node :: bool
  ita_target_slate_version :: "u16 option"
  ita_ttl_blocks :: "u64 option"
  ita_payment_proof_recipient_address :: "slatepack_address option"
  ita_estimate_only :: "bool option"
  ita_late_lock :: "bool option"
  ita_send_args :: "init_tx_send_args option"

definition init_tx_args_default :: init_tx_args where
  "init_tx_args_default = \<lparr>
     ita_src_acct_name = None, ita_amount = 0, ita_amount_includes_fee = None,
     ita_minimum_confirmations = 10, ita_max_outputs = 500, ita_num_change_outputs = 1,
     ita_selection_strategy_is_use_all = True, ita_refresh_outputs_from_node = True,
     ita_target_slate_version = None, ita_ttl_blocks = None,
     ita_payment_proof_recipient_address = None, ita_estimate_only = Some False,
     ita_late_lock = Some False, ita_send_args = None\<rparr>"

record issue_invoice_tx_args =
  iia_dest_acct_name :: "string option"
  iia_amount :: u64
  iia_target_slate_version :: "u16 option"

definition issue_invoice_tx_args_default :: issue_invoice_tx_args where
  "issue_invoice_tx_args_default =
     \<lparr>iia_dest_acct_name = None, iia_amount = 0, iia_target_slate_version = None\<rparr>"

section \<open>The private context of a transaction\<close>

type_synonym ctx_id = "ident \<times> u64 option \<times> u64"

record "context" =
  ctx_parent_key_id :: ident
  ctx_sec_key :: secret_key
  ctx_sec_nonce :: secret_key
  ctx_initial_sec_key :: secret_key
  ctx_initial_sec_nonce :: secret_key
  ctx_output_ids :: "ctx_id list"
  ctx_input_ids :: "ctx_id list"
  ctx_amount :: u64
  ctx_fee :: "fee_fields option"
  ctx_payment_proof_derivation_index :: "u32 option"
  ctx_late_lock_args :: "init_tx_args option"
  ctx_calculated_excess :: "commitment option"

text \<open>
  A fresh secret key and a fresh nonce: what the random number generator, or with the test
  flag the fixed one, hands to \<open>Context::new\<close>.
\<close>

record draw =
  dr_key :: secret_key
  dr_nonce :: secret_key

definition context_with_excess :: "draw \<Rightarrow> secret_key \<Rightarrow> ident \<Rightarrow> context" where
  "context_with_excess d sec_key parent_key_id = \<lparr>
     ctx_parent_key_id = parent_key_id,
     ctx_sec_key = sec_key, ctx_sec_nonce = dr_nonce d,
     ctx_initial_sec_key = sec_key, ctx_initial_sec_nonce = dr_nonce d,
     ctx_output_ids = [], ctx_input_ids = [], ctx_amount = 0, ctx_fee = None,
     ctx_payment_proof_derivation_index = None, ctx_late_lock_args = None,
     ctx_calculated_excess = None\<rparr>"

definition context_new :: "draw \<Rightarrow> ident \<Rightarrow> context" where
  "context_new d parent_key_id = context_with_excess d (dr_key d) parent_key_id"

definition add_output :: "ident \<Rightarrow> u64 option \<Rightarrow> u64 \<Rightarrow> context \<Rightarrow> context" where
  "add_output output_id mmr_index amount c =
     c\<lparr>ctx_output_ids := ctx_output_ids c @ [(output_id, mmr_index, amount)]\<rparr>"

definition get_outputs :: "context \<Rightarrow> ctx_id list" where
  "get_outputs c = ctx_output_ids c"

definition add_input :: "ident \<Rightarrow> u64 option \<Rightarrow> u64 \<Rightarrow> context \<Rightarrow> context" where
  "add_input input_id mmr_index amount c =
     c\<lparr>ctx_input_ids := ctx_input_ids c @ [(input_id, mmr_index, amount)]\<rparr>"

definition get_inputs :: "context \<Rightarrow> ctx_id list" where
  "get_inputs c = ctx_input_ids c"

definition get_private_keys :: "context \<Rightarrow> secret_key \<times> secret_key" where
  "get_private_keys c = (ctx_sec_key c, ctx_sec_nonce c)"

definition get_public_keys :: "ext \<Rightarrow> context \<Rightarrow> (public_key \<times> public_key) result" where
  "get_public_keys X c =
     (case (x_pk_of_sk X (ctx_sec_key c), x_pk_of_sk X (ctx_sec_nonce c)) of
        (Ok p, Ok q) \<Rightarrow> Ok (p, q) | _ \<Rightarrow> Panic)"

section \<open>The states a slate goes through\<close>

datatype slate_state =
  Unknown | Standard1 | Standard2 | Standard3 | Invoice1 | Invoice2 | Invoice3

fun slate_state_str :: "slate_state \<Rightarrow> string" where
  "slate_state_str Unknown = ''UN''"
| "slate_state_str Standard1 = ''S1''"
| "slate_state_str Standard2 = ''S2''"
| "slate_state_str Standard3 = ''S3''"
| "slate_state_str Invoice1 = ''I1''"
| "slate_state_str Invoice2 = ''I2''"
| "slate_state_str Invoice3 = ''I3''"

section \<open>The transaction log\<close>

datatype tx_log_entry_type =
  ConfirmedCoinbase | TxReceived | TxSent | TxReceivedCancelled | TxSentCancelled | TxReverted

record stored_proof_info =
  spi_receiver_address :: dalek_pubkey
  spi_receiver_signature :: "dalek_sig option"
  spi_sender_address_path :: u32
  spi_sender_address :: dalek_pubkey
  spi_sender_signature :: "dalek_sig option"

record tx_log_entry =
  txe_parent_key_id :: ident
  txe_id :: u32
  txe_tx_slate_id :: "uuid option"
  txe_tx_slate_state :: "slate_state option"
  txe_tx_type :: tx_log_entry_type
  txe_creation_ts :: timestamp
  txe_confirmation_ts :: "timestamp option"
  txe_confirmed :: bool
  txe_num_inputs :: nat
  txe_num_outputs :: nat
  txe_amount_credited :: u64
  txe_amount_debited :: u64
  txe_fee :: "fee_fields option"
  txe_ttl_cutoff_height :: "u64 option"
  txe_stored_tx :: "string option"
  txe_kernel_excess :: "commitment option"
  txe_kernel_lookup_min_height :: "u64 option"
  txe_payment_proof :: "stored_proof_info option"
  txe_reverted_after :: "duration option"

definition tx_log_entry_new :: "timestamp \<Rightarrow> ident \<Rightarrow> tx_log_entry_type \<Rightarrow> u32 \<Rightarrow> tx_log_entry" where
  "tx_log_entry_new now parent_key_id t i = \<lparr>
     txe_parent_key_id = parent_key_id, txe_id = i, txe_tx_slate_id = None,
     txe_tx_slate_state = None, txe_tx_type = t, txe_creation_ts = now,
     txe_confirmation_ts = None, txe_confirmed = False, txe_num_inputs = 0,
     txe_num_outputs = 0, txe_amount_credited = 0, txe_amount_debited = 0, txe_fee = None,
     txe_ttl_cutoff_height = None, txe_stored_tx = None, txe_kernel_excess = None,
     txe_kernel_lookup_min_height = None, txe_payment_proof = None, txe_reverted_after = None\<rparr>"

definition sum_confirmed :: "tx_log_entry list \<Rightarrow> u64 \<times> u64" where
  "sum_confirmed txs =
     foldl (\<lambda>acc tx. if txe_confirmed tx
              then (fst acc + txe_amount_credited tx, snd acc + txe_amount_debited tx) else acc) (0, 0) txs"

definition update_confirmation_ts :: "timestamp \<Rightarrow> tx_log_entry \<Rightarrow> tx_log_entry" where
  "update_confirmation_ts now tx = tx\<lparr>txe_confirmation_ts := Some now\<rparr>"

lemma sum_confirmed_eq:
  "sum_confirmed txs =
     (\<Sum>tx\<leftarrow>filter txe_confirmed txs. txe_amount_credited tx,
      \<Sum>tx\<leftarrow>filter txe_confirmed txs. txe_amount_debited tx)"
proof -
  have "foldl (\<lambda>acc tx. if txe_confirmed tx
          then (fst acc + txe_amount_credited tx, snd acc + txe_amount_debited tx) else acc) (a, b) txs =
        (a + (\<Sum>tx\<leftarrow>filter txe_confirmed txs. txe_amount_credited tx),
         b + (\<Sum>tx\<leftarrow>filter txe_confirmed txs. txe_amount_debited tx))" for a b
    by (induction txs arbitrary: a b) (simp_all add: algebra_simps)
  then show ?thesis by (simp add: sum_confirmed_def)
qed

section \<open>Accounts, the scan bookmark and summaries\<close>

record acct_path_mapping =
  acct_label :: string
  acct_path :: ident

record scanned_block_info =
  sbi_height :: u64
  sbi_hash :: string
  sbi_start_pmmr_index :: u64
  sbi_last_pmmr_index :: u64

datatype wallet_init_status = InitNeedsScanning | InitNoScanning | InitComplete

record wallet_info =
  wi_last_confirmed_height :: u64
  wi_minimum_confirmations :: u64
  wi_total :: u64
  wi_amount_awaiting_finalization :: u64
  wi_amount_awaiting_confirmation :: u64
  wi_amount_immature :: u64
  wi_amount_currently_spendable :: u64
  wi_amount_locked :: u64
  wi_amount_reverted :: u64

record cb_data =
  cb_output :: tx_output
  cb_kernel :: tx_kernel
  cb_key_id :: "ident option"

record block_fees =
  bf_fees :: u64
  bf_height :: u64
  bf_key_id :: "ident option"

record output_commit_mapping =
  ocm_output :: output_data
  ocm_commit :: commitment

record view_wallet_output_result =
  vwo_commit :: string
  vwo_value :: u64
  vwo_height :: u64
  vwo_mmr_index :: u64
  vwo_is_coinbase :: bool
  vwo_lock_height :: u64

record view_wallet =
  vw_rewind_hash :: string
  vw_output_result :: "view_wallet_output_result list"
  vw_total_balance :: u64
  vw_last_pmmr_index :: u64

definition vwo_num_confirmations :: "view_wallet_output_result \<Rightarrow> u64 \<Rightarrow> u64" where
  "vwo_num_confirmations o' tip_height =
     (if vwo_height o' > tip_height then 0 else 1 + (tip_height - vwo_height o'))"

section \<open>Reading a length-prefixed record in chunks\<close>

text \<open>
  \<open>read_bytes_len_prefix\<close> reads the length and then the bytes, at most \<open>read_limit\<close> at a time
  when the reader has one. The reader is the rest of the input; \<open>fixed\<close> is its
  \<open>read_fixed_bytes\<close> and may refuse a length.
\<close>

definition MAX_CONTEXT_SIZE :: nat where
  "MAX_CONTEXT_SIZE = 4 * 1024 * 1024"

function read_chunks ::
  "(bytes \<Rightarrow> nat \<Rightarrow> (bytes \<times> bytes) result) \<Rightarrow> nat \<Rightarrow> bytes \<Rightarrow> nat \<Rightarrow> bytes \<Rightarrow> (bytes \<times> bytes) result" where
  "read_chunks fixed limit rest len data =
     (if limit = 0 \<or> len = 0 then Ok (data, rest)
      else let read_size = min len limit in
        rbind (fixed rest read_size) (\<lambda>(read_data, rest').
          read_chunks fixed limit rest' (len - read_size) (data @ read_data)))"
  by pat_completeness auto

termination by (relation "measure (\<lambda>(fixed, limit, rest, len, data). len)") auto

declare read_chunks.simps [simp del]

definition read_bytes_len_prefix ::
  "error \<Rightarrow> (bytes \<Rightarrow> nat \<Rightarrow> (bytes \<times> bytes) result) \<Rightarrow> nat option \<Rightarrow> u64 \<Rightarrow> bytes \<Rightarrow> (bytes \<times> bytes) result" where
  "read_bytes_len_prefix too_large fixed limit len rest =
     (if unat len > MAX_CONTEXT_SIZE then Err too_large
      else case limit of
        None \<Rightarrow> fixed rest (unat len)
      | Some l \<Rightarrow> if l = 0 then fixed rest (unat len) else read_chunks fixed l rest (unat len) [])"

text \<open>Reading in chunks is reading at once, for a reader that splits its input.\<close>

lemma read_chunks_split:
  assumes fixed: "\<And>r n. n \<le> limit \<Longrightarrow> n \<le> length r \<Longrightarrow> fixed r n = Ok (take n r, drop n r)"
    and "limit \<noteq> 0" "len \<le> length rest"
  shows "read_chunks fixed limit rest len data = Ok (data @ take len rest, drop len rest)"
  using assms(3)
proof (induction len arbitrary: rest data rule: less_induct)
  case (less len)
  show ?case
  proof (cases "len = 0")
    case False
    define n where "n = min len limit"
    have n: "n \<le> limit" "n \<le> len" "0 < n" "n \<le> length rest"
      using False assms(2) less.prems by (auto simp: n_def)
    have "read_chunks fixed limit rest len data =
          read_chunks fixed limit (drop n rest) (len - n) (data @ take n rest)"
      using False assms(2) n by (subst read_chunks.simps) (simp add: n_def [symmetric] fixed)
    also have "... = Ok ((data @ take n rest) @ take (len - n) (drop n rest), drop (len - n) (drop n rest))"
      using n less.prems by (intro less.IH) auto
    finally show ?thesis
      using n by (simp add: take_drop [symmetric] take_add [symmetric])
  qed (simp add: read_chunks.simps)
qed

end
