(* ===== verification/Backend.thy ===== *)
theory Backend
  imports Ordered_Store Types
begin

text \<open>
  The wallet backend (\<open>libwallet/src/backend.rs\<close>): the database tables, the wallet that owns
  them and the keychain, the write batch, and the operations on both. The database has one
  table for each key prefix of the code; a table is keyed by the bytes after the prefix. A
  record of the transaction log that cannot be read back is \<open>None\<close> in its table, since the
  log's readers skip such records; the other tables hold what was written to them. Failures
  of the disk are not modelled.
\<close>

section \<open>State\<close>

record db =
  db_outputs :: "output_data table"
  db_deriv :: "u32 table"
  db_confirmed :: "u64 table"
  db_contexts :: "context table"
  db_tx_log :: "tx_log_entry option table"
  db_tx_log_id :: "u32 table"
  db_accts :: "acct_path_mapping table"
  db_last_scanned :: "scanned_block_info option"
  db_init_status :: "wallet_init_status option"

definition db_empty :: db where
  "db_empty = \<lparr>db_outputs = [], db_deriv = [], db_confirmed = [], db_contexts = [], db_tx_log = [],
     db_tx_log_id = [], db_accts = [], db_last_scanned = None, db_init_status = None\<rparr>"

definition db_wf :: "db \<Rightarrow> bool" where
  "db_wf d \<longleftrightarrow> tbl_wf (db_outputs d) \<and> tbl_wf (db_deriv d) \<and> tbl_wf (db_confirmed d) \<and>
     tbl_wf (db_contexts d) \<and> tbl_wf (db_tx_log d) \<and> tbl_wf (db_tx_log_id d) \<and> tbl_wf (db_accts d)"

record wallet =
  w_db :: db
  w_files :: "string \<Rightarrow> string option"
  w_keychain :: "keychain option"
  w_master_checksum :: "bytes option"
  w_parent_key_id :: ident

definition w_wf :: "wallet \<Rightarrow> bool" where
  "w_wf w \<longleftrightarrow> db_wf (w_db w)"

type_synonym 'a batch = "(db, error, 'a) comp"
type_synonym 'a wop = "(wallet, error, 'a) comp"

text \<open>The bytes of a label or of an ASCII string\<close>

definition as_bytes :: "string \<Rightarrow> bytes" where
  "as_bytes s = map of_char s"

definition to_key_u64 :: "bytes \<Rightarrow> u64 \<Rightarrow> bytes" where
  "to_key_u64 k val = k @ be64 val"

definition output_key :: "ident \<Rightarrow> u64 option \<Rightarrow> bytes" where
  "output_key key_id mmr_index = (case mmr_index of Some i \<Rightarrow> to_key_u64 key_id i | None \<Rightarrow> key_id)"

lemma to_key_u64_inject [simp]: "to_key_u64 k v = to_key_u64 k' v' \<longleftrightarrow> k = k' \<and> v = v'"
  by (auto simp: to_key_u64_def append_eq_append_conv)

lemma output_key_inject:
  "length a = length b \<Longrightarrow> output_key a m = output_key b n \<longleftrightarrow> a = b \<and> m = n"
  by (auto simp: output_key_def to_key_u64_def split: option.splits
        dest!: arg_cong [where f = length])

section \<open>Reading and writing the tables\<close>

definition not_found :: "ext \<Rightarrow> string \<Rightarrow> error" where
  "not_found X msg = Lib (Backend (x_store_not_found X msg))"

definition batch_get :: "ext \<Rightarrow> ident \<Rightarrow> u64 option \<Rightarrow> output_data batch" where
  "batch_get X key_id mmr_index d =
     (ok_or (not_found X (''Key ID: '' @ x_ident_str X key_id)) (tbl_get (db_outputs d) (output_key key_id mmr_index)), d)"

definition batch_iter :: "db \<Rightarrow> output_data list" where
  "batch_iter d = tbl_vals (db_outputs d)"

definition batch_save :: "output_data \<Rightarrow> unit batch" where
  "batch_save out = smodify (\<lambda>d. d\<lparr>db_outputs :=
     tbl_put (output_key (out_key_id out) (out_mmr_index out)) out (db_outputs d)\<rparr>)"

definition batch_delete :: "ident \<Rightarrow> u64 option \<Rightarrow> unit batch" where
  "batch_delete key_id mmr_index =
     smodify (\<lambda>d. d\<lparr>db_outputs := tbl_del (output_key key_id mmr_index) (db_outputs d)\<rparr>)"

definition save_child_index :: "ident \<Rightarrow> u32 \<Rightarrow> unit batch" where
  "save_child_index parent_id child_n = smodify (\<lambda>d. d\<lparr>db_deriv := tbl_put parent_id child_n (db_deriv d)\<rparr>)"

definition save_last_confirmed_height :: "ident \<Rightarrow> u64 \<Rightarrow> unit batch" where
  "save_last_confirmed_height parent_key_id height =
     smodify (\<lambda>d. d\<lparr>db_confirmed := tbl_put parent_key_id height (db_confirmed d)\<rparr>)"

definition save_last_scanned_block :: "scanned_block_info \<Rightarrow> unit batch" where
  "save_last_scanned_block info = smodify (\<lambda>d. d\<lparr>db_last_scanned := Some info\<rparr>)"

definition save_init_status :: "wallet_init_status \<Rightarrow> unit batch" where
  "save_init_status v = smodify (\<lambda>d. d\<lparr>db_init_status := Some v\<rparr>)"

definition current_tx_log_id :: "db \<Rightarrow> ident \<Rightarrow> u32" where
  "current_tx_log_id d parent_key_id =
     (case tbl_get (db_tx_log_id d) parent_key_id of Some i \<Rightarrow> i | None \<Rightarrow> 0)"

definition next_tx_log_id :: "ident \<Rightarrow> u32 batch" where
  "next_tx_log_id parent_key_id d =
     (let last_tx_log_id = current_tx_log_id d parent_key_id in
      (Ok last_tx_log_id,
       d\<lparr>db_tx_log_id := tbl_put parent_key_id (last_tx_log_id + 1) (db_tx_log_id d)\<rparr>))"

definition tx_log_iter :: "db \<Rightarrow> tx_log_entry option list" where
  "tx_log_iter d = tbl_vals (db_tx_log d)"

text \<open>The readable records, in the order of the store\<close>

definition tx_log :: "db \<Rightarrow> tx_log_entry list" where
  "tx_log d = List.map_filter (\<lambda>r. r) (tx_log_iter d)"

definition save_tx_log_entry :: "tx_log_entry \<Rightarrow> ident \<Rightarrow> unit batch" where
  "save_tx_log_entry tx_in parent_id =
     smodify (\<lambda>d. d\<lparr>db_tx_log := tbl_put (to_key_u64 parent_id (ucast (txe_id tx_in))) (Some tx_in) (db_tx_log d)\<rparr>)"

definition delete_tx_log_entry :: "u32 \<Rightarrow> ident \<Rightarrow> unit batch" where
  "delete_tx_log_entry tx_id parent_id =
     smodify (\<lambda>d. d\<lparr>db_tx_log := tbl_del (to_key_u64 parent_id (ucast tx_id)) (db_tx_log d)\<rparr>)"

definition save_acct_path :: "acct_path_mapping \<Rightarrow> unit batch" where
  "save_acct_path mapping =
     smodify (\<lambda>d. d\<lparr>db_accts := tbl_put (as_bytes (acct_label mapping)) mapping (db_accts d)\<rparr>)"

definition acct_path_iter :: "db \<Rightarrow> acct_path_mapping list" where
  "acct_path_iter d = tbl_vals (db_accts d)"

definition lock_output :: "output_data \<Rightarrow> unit batch" where
  "lock_output out = batch_save (output_lock out)"

section \<open>The private context\<close>

definition SECRET_KEY_SIZE :: nat where
  "SECRET_KEY_SIZE = 32"

definition xor_bytes :: "bytes \<Rightarrow> bytes \<Rightarrow> bytes" where
  "xor_bytes a b = map2 (XOR) a b"

definition private_ctx_xor_keys :: "ext \<Rightarrow> keychain \<Rightarrow> bytes \<Rightarrow> (bytes \<times> bytes) result" where
  "private_ctx_xor_keys X k slate_id =
     rbind (x_derive_key X k 0 (x_root_key_id X) Switch_Regular) (\<lambda>root_key.
       let blind_xor_key = x_blake2b X SECRET_KEY_SIZE [] (root_key @ slate_id @ as_bytes ''blind'');
           nonce_xor_key = x_blake2b X SECRET_KEY_SIZE [] (root_key @ slate_id @ as_bytes ''nonce'')
       in Ok (take SECRET_KEY_SIZE blind_xor_key, take SECRET_KEY_SIZE nonce_xor_key))"

text \<open>The context with its two secrets masked: masking twice gives the context back.\<close>

definition mask_context :: "bytes \<times> bytes \<Rightarrow> context \<Rightarrow> context" where
  "mask_context ks c = c\<lparr>ctx_sec_key := xor_bytes (ctx_sec_key c) (fst ks),
     ctx_sec_nonce := xor_bytes (ctx_sec_nonce c) (snd ks)\<rparr>"

definition save_private_context :: "ext \<Rightarrow> keychain \<Rightarrow> bytes \<Rightarrow> context \<Rightarrow> unit batch" where
  "save_private_context X k slate_id c =
     sbind (slift (private_ctx_xor_keys X k slate_id)) (\<lambda>ks.
       smodify (\<lambda>d. d\<lparr>db_contexts := tbl_put (to_key_u64 slate_id 0) (mask_context ks c) (db_contexts d)\<rparr>))"

definition delete_private_context :: "bytes \<Rightarrow> unit batch" where
  "delete_private_context slate_id =
     smodify (\<lambda>d. d\<lparr>db_contexts := tbl_del (to_key_u64 slate_id 0) (db_contexts d)\<rparr>)"

section \<open>The wallet\<close>

definition default_path :: "ext \<Rightarrow> ident" where
  "default_path X = x_derive_key_id X 2 0 0 0 0"

definition backend_new :: "ext \<Rightarrow> db \<Rightarrow> (string \<Rightarrow> string option) \<Rightarrow> wallet result" where
  "backend_new X store files =
     (let default_account = \<lparr>acct_label = ''default'', acct_path = default_path X\<rparr>;
          (r, d) = save_acct_path default_account store
      in rbind r (\<lambda>_. Ok \<lparr>w_db = d, w_files = files, w_keychain = None, w_master_checksum = None,
           w_parent_key_id = default_path X\<rparr>))"

definition root_checksum :: "ext \<Rightarrow> keychain \<Rightarrow> bytes result" where
  "root_checksum X k =
     rbind (x_derive_key X k 0 (x_root_key_id X) Switch_Regular) (\<lambda>root_key.
       Ok (x_blake2b X SECRET_KEY_SIZE [] root_key))"

text \<open>\<open>kmask\<close> is the drawn mask value when the caller asked for one.\<close>

definition set_keychain :: "ext \<Rightarrow> keychain \<Rightarrow> secret_key option \<Rightarrow> secret_key option wop" where
  "set_keychain X k kmask =
     sbind (slift (root_checksum X k)) (\<lambda>sum.
     sbind (smodify (\<lambda>w. w\<lparr>w_master_checksum := Some sum\<rparr>)) (\<lambda>_.
     sbind (slift (case kmask of None \<Rightarrow> Ok k | Some m \<Rightarrow> x_mask_key X k m)) (\<lambda>k'.
     sbind (smodify (\<lambda>w. w\<lparr>w_keychain := Some k'\<rparr>)) (\<lambda>_. sret kmask))))"

definition close :: "unit wop" where
  "close = smodify (\<lambda>w. w\<lparr>w_keychain := None\<rparr>)"

definition wallet_keychain :: "ext \<Rightarrow> secret_key option \<Rightarrow> wallet \<Rightarrow> keychain result" where
  "wallet_keychain X kmask w =
     (case w_keychain w of
        None \<Rightarrow> Err (Wal KeychainDoesntExist)
      | Some k \<Rightarrow>
          rbind (case kmask of None \<Rightarrow> Ok k | Some m \<Rightarrow> x_mask_key X k m) (\<lambda>k_masked.
          rbind (root_checksum X k_masked) (\<lambda>sum.
            if w_master_checksum w \<noteq> Some sum then Err (Wal InvalidKeychainMask) else Ok k_masked)))"

definition the_keychain :: "ext \<Rightarrow> secret_key option \<Rightarrow> keychain wop" where
  "the_keychain X kmask w = (wallet_keychain X kmask w, w)"

definition calc_commit_for_cache :: "ext \<Rightarrow> secret_key option \<Rightarrow> u64 \<Rightarrow> ident \<Rightarrow> string option wop" where
  "calc_commit_for_cache X kmask amount key_id =
     sbind (the_keychain X kmask) (\<lambda>k.
     sbind (slift (x_commit X k amount key_id Switch_Regular)) (\<lambda>c. sret (Some (x_to_hex X c))))"

definition set_parent_key_id :: "ident \<Rightarrow> unit wop" where
  "set_parent_key_id key_id = smodify (\<lambda>w. w\<lparr>w_parent_key_id := key_id\<rparr>)"

definition set_parent_key_id_by_name :: "string \<Rightarrow> unit wop" where
  "set_parent_key_id_by_name label w =
     (case find (\<lambda>l. acct_label l = label) (acct_path_iter (w_db w)) of
        Some a \<Rightarrow> set_parent_key_id (acct_path a) w
      | None \<Rightarrow> (Err (Wal (UnknownAccountLabel label)), w))"

definition wallet_get :: "ext \<Rightarrow> ident \<Rightarrow> u64 option \<Rightarrow> output_data wop" where
  "wallet_get X key_id mmr_index w =
     (ok_or (not_found X (''Key Id: '' @ x_ident_str X key_id))
        (tbl_get (db_outputs (w_db w)) (output_key key_id mmr_index)), w)"

definition wallet_iter :: "wallet \<Rightarrow> output_data list" where
  "wallet_iter w = batch_iter (w_db w)"

definition wallet_tx_log :: "wallet \<Rightarrow> tx_log_entry list" where
  "wallet_tx_log w = tx_log (w_db w)"

definition get_private_context :: "ext \<Rightarrow> secret_key option \<Rightarrow> bytes \<Rightarrow> context wop" where
  "get_private_context X kmask slate_id =
     sbind (the_keychain X kmask) (\<lambda>k.
     sbind (slift (private_ctx_xor_keys X k slate_id)) (\<lambda>ks.
     sbind (sread (\<lambda>w. tbl_get (db_contexts (w_db w)) (to_key_u64 slate_id 0))) (\<lambda>c.
     sbind (slift (ok_or (not_found X (''Slate id: '' @ x_to_hex X slate_id)) c)) (\<lambda>c.
       sret (mask_context ks c)))))"

definition get_acct_path :: "string \<Rightarrow> wallet \<Rightarrow> acct_path_mapping option" where
  "get_acct_path label w = tbl_get (db_accts (w_db w)) (as_bytes label)"

definition grintx :: "string \<Rightarrow> string" where
  "grintx uuid = uuid @ ''.grintx''"

definition store_tx :: "ext \<Rightarrow> string \<Rightarrow> transaction \<Rightarrow> unit wop" where
  "store_tx X uuid tx = smodify (\<lambda>w. w\<lparr>w_files := (w_files w)(grintx uuid \<mapsto> x_tx_to_hex X tx)\<rparr>)"

definition get_stored_tx :: "ext \<Rightarrow> string \<Rightarrow> transaction option wop" where
  "get_stored_tx X uuid =
     sbind (sread (\<lambda>w. w_files w (grintx uuid))) (\<lambda>f.
     sbind (slift (ok_or (Lib (IO (x_io_not_found X))) f)) (\<lambda>content.
     sbind (slift (unwrap (x_tx_of_hex X content))) (\<lambda>tx. sret (Some tx))))"

text \<open>
  A batch works on a copy of the tables. Its last action in the code is \<open>commit\<close>: the copy
  becomes the database when the body has succeeded, and is dropped when it has not.
\<close>

definition run_batch :: "'a batch \<Rightarrow> 'a wop" where
  "run_batch body w =
     (case body (w_db w) of
        (Ok a, d) \<Rightarrow> (Ok a, w\<lparr>w_db := d\<rparr>)
      | (Err e, _) \<Rightarrow> (Err e, w)
      | (Panic, _) \<Rightarrow> (Panic, w))"

definition with_batch :: "ext \<Rightarrow> secret_key option \<Rightarrow> (keychain \<Rightarrow> 'a batch) \<Rightarrow> 'a wop" where
  "with_batch X kmask body = sbind (the_keychain X kmask) (\<lambda>k. run_batch (body k))"

definition with_batch_no_mask :: "'a batch \<Rightarrow> 'a wop" where
  "with_batch_no_mask body = run_batch body"

definition current_child_index :: "wallet \<Rightarrow> ident \<Rightarrow> u32" where
  "current_child_index w parent_key_id =
     (case tbl_get (db_deriv (w_db w)) parent_key_id of Some i \<Rightarrow> i | None \<Rightarrow> 0)"

text \<open>The path one level below a path, at the given index; a path has four levels.\<close>

definition child_path :: "key_path \<Rightarrow> u32 \<Rightarrow> key_path result" where
  "child_path p idx =
     (let depth = kp_depth p + 1 in
      if 0 < depth \<and> unat depth - 1 < length (kp_path p)
      then Ok \<lparr>kp_depth = depth, kp_path = (kp_path p)[unat depth - 1 := idx]\<rparr>
      else Panic)"

definition next_child :: "ext \<Rightarrow> secret_key option \<Rightarrow> ident wop" where
  "next_child X kmask =
     sbind (sread w_parent_key_id) (\<lambda>parent_key_id.
     sbind (sread (\<lambda>w. current_child_index w parent_key_id)) (\<lambda>deriv_idx.
     sbind (slift (child_path (x_to_path X parent_key_id) deriv_idx)) (\<lambda>return_path.
     sbind (with_batch X kmask (\<lambda>_. save_child_index parent_key_id (deriv_idx + 1))) (\<lambda>_.
       sret (x_from_path X return_path)))))"

definition last_confirmed_height_for_parent :: "wallet \<Rightarrow> ident \<Rightarrow> u64" where
  "last_confirmed_height_for_parent w parent_key_id =
     (case tbl_get (db_confirmed (w_db w)) parent_key_id of Some h \<Rightarrow> h | None \<Rightarrow> 0)"

definition last_confirmed_height :: "wallet \<Rightarrow> u64" where
  "last_confirmed_height w = last_confirmed_height_for_parent w (w_parent_key_id w)"

definition last_scanned_block :: "wallet \<Rightarrow> scanned_block_info" where
  "last_scanned_block w = (case db_last_scanned (w_db w) of Some b \<Rightarrow> b | None \<Rightarrow>
     \<lparr>sbi_height = 0, sbi_hash = '''', sbi_start_pmmr_index = 0, sbi_last_pmmr_index = 0\<rparr>)"

definition init_status :: "wallet \<Rightarrow> wallet_init_status" where
  "init_status w = (case db_init_status (w_db w) of Some s \<Rightarrow> s | None \<Rightarrow> InitComplete)"

end
