(* ===== verification/Backend_Laws.thy ===== *)
theory Backend_Laws
  imports Backend
begin

text \<open>
  What the other components rely on of the backend: the output table as a store keyed by
  identifier and position (locale \<open>output_store\<close>), the counters that number log entries and
  child keys (locale \<open>counter\<close>), the batch and its effect on the wallet, the masking of the
  keychain and of the private context, and the well-formedness of the tables, which every
  operation keeps.
\<close>

named_theorems wallet_ops \<open>the operations of the wallet as functions of its state\<close>

section \<open>Outputs as a store\<close>

locale output_store =
  fixes fetch :: "'s \<Rightarrow> ident \<Rightarrow> u64 option \<Rightarrow> output_data option"
    and store :: "output_data \<Rightarrow> 's \<Rightarrow> 's"
    and remove :: "ident \<Rightarrow> u64 option \<Rightarrow> 's \<Rightarrow> 's"
    and all :: "'s \<Rightarrow> output_data list"
    and good :: "'s \<Rightarrow> bool"
  assumes fetch_store: "good s \<Longrightarrow> length i = length (out_key_id out) \<Longrightarrow>
        fetch (store out s) i m =
          (if i = out_key_id out \<and> m = out_mmr_index out then Some out else fetch s i m)"
    and fetch_remove: "good s \<Longrightarrow> length i = length j \<Longrightarrow>
        fetch (remove j n s) i m = (if i = j \<and> m = n then None else fetch s i m)"
    and good_store: "good s \<Longrightarrow> good (store out s)"
    and good_remove: "good s \<Longrightarrow> good (remove j n s)"
    and fetch_all: "good s \<Longrightarrow> fetch s i m = Some out \<Longrightarrow> out \<in> set (all s)"
    and all_store: "good s \<Longrightarrow> set (all (store out s)) \<subseteq> insert out (set (all s))"
    and all_remove: "good s \<Longrightarrow> set (all (remove j n s)) \<subseteq> set (all s)"
begin

text \<open>A run of writes: each output is read back unless a later write has its key.\<close>

lemma fetch_fold_other:
  "good s \<Longrightarrow> (\<forall>out \<in> set outs. length (out_key_id out) = length i) \<Longrightarrow>
   (\<forall>out \<in> set outs. (out_key_id out, out_mmr_index out) \<noteq> (i, m)) \<Longrightarrow>
   good (fold store outs s) \<and> fetch (fold store outs s) i m = fetch s i m"
proof (induction outs arbitrary: s)
  case (Cons out outs)
  have "fetch (store out s) i m = fetch s i m"
    using Cons.prems by (subst fetch_store) auto
  with Cons.IH [of "store out s"] Cons.prems show ?case
    by (simp add: good_store)
qed simp

lemma fetch_fold:
  assumes "good s" "distinct (map (\<lambda>out. (out_key_id out, out_mmr_index out)) outs)"
    and "\<forall>out \<in> set outs. length (out_key_id out) = n" "out \<in> set outs"
  shows "fetch (fold store outs s) (out_key_id out) (out_mmr_index out) = Some out"
  using assms
proof (induction outs arbitrary: s)
  case (Cons out' outs)
  show ?case
  proof (cases "out = out'")
    case True
    have "fetch (fold store outs (store out s)) (out_key_id out) (out_mmr_index out) =
          fetch (store out s) (out_key_id out) (out_mmr_index out)"
      by (rule conjunct2 [OF fetch_fold_other]) (use Cons.prems True in \<open>auto simp: good_store rev_image_eqI\<close>)
    then show ?thesis using True Cons.prems by (simp add: fetch_store)
  next
    case False
    then show ?thesis using Cons by (simp add: good_store)
  qed
qed simp

lemma all_fold: "good s \<Longrightarrow> set (all (fold store outs s)) \<subseteq> set outs \<union> set (all s) \<and> good (fold store outs s)"
proof (induction outs arbitrary: s)
  case (Cons out outs)
  from Cons.IH [OF good_store [OF Cons.prems, of out]] all_store [OF Cons.prems, of out]
  show ?case by auto
qed simp

end

definition db_fetch :: "db \<Rightarrow> ident \<Rightarrow> u64 option \<Rightarrow> output_data option" where
  "db_fetch d key_id m = tbl_get (db_outputs d) (output_key key_id m)"

definition db_store :: "output_data \<Rightarrow> db \<Rightarrow> db" where
  "db_store out d = snd (batch_save out d)"

definition db_remove :: "ident \<Rightarrow> u64 option \<Rightarrow> db \<Rightarrow> db" where
  "db_remove key_id m d = snd (batch_delete key_id m d)"

lemma batch_save_eq: "batch_save out d = (Ok (), db_store out d)"
  by (simp add: db_store_def batch_save_def smodify_def)

lemma batch_delete_eq: "batch_delete i m d = (Ok (), db_remove i m d)"
  by (simp add: db_remove_def batch_delete_def smodify_def)

lemma batch_get_eq: "batch_get X i m d = (ok_or (not_found X (''Key ID: '' @ x_ident_str X i)) (db_fetch d i m), d)"
  by (simp add: batch_get_def db_fetch_def)

lemma db_store_frame [simp]:
  "db_deriv (db_store out d) = db_deriv d" "db_confirmed (db_store out d) = db_confirmed d"
  "db_contexts (db_store out d) = db_contexts d" "db_tx_log (db_store out d) = db_tx_log d"
  "db_tx_log_id (db_store out d) = db_tx_log_id d" "db_accts (db_store out d) = db_accts d"
  "db_last_scanned (db_store out d) = db_last_scanned d" "db_init_status (db_store out d) = db_init_status d"
  by (simp_all add: db_store_def batch_save_def smodify_def)

lemma db_remove_frame [simp]:
  "db_deriv (db_remove i m d) = db_deriv d" "db_confirmed (db_remove i m d) = db_confirmed d"
  "db_contexts (db_remove i m d) = db_contexts d" "db_tx_log (db_remove i m d) = db_tx_log d"
  "db_tx_log_id (db_remove i m d) = db_tx_log_id d" "db_accts (db_remove i m d) = db_accts d"
  "db_last_scanned (db_remove i m d) = db_last_scanned d" "db_init_status (db_remove i m d) = db_init_status d"
  by (simp_all add: db_remove_def batch_delete_def smodify_def)

lemma db_wf_tables:
  assumes "db_wf d"
  shows "tbl_wf (db_outputs d)" "tbl_wf (db_deriv d)" "tbl_wf (db_confirmed d)" "tbl_wf (db_contexts d)"
    "tbl_wf (db_tx_log d)" "tbl_wf (db_tx_log_id d)" "tbl_wf (db_accts d)"
  using assms by (simp_all add: db_wf_def)

interpretation outs: output_store db_fetch db_store db_remove batch_iter db_wf
proof unfold_locales
  fix d i m out j n
  assume d: "db_wf d"
  note t = db_wf_tables [OF d]
  show "length i = length (out_key_id out) \<Longrightarrow> db_fetch (db_store out d) i m =
      (if i = out_key_id out \<and> m = out_mmr_index out then Some out else db_fetch d i m)"
    by (simp add: db_fetch_def db_store_def batch_save_def smodify_def tbl_get_put output_key_inject)
  show "length i = length j \<Longrightarrow> db_fetch (db_remove j n d) i m = (if i = j \<and> m = n then None else db_fetch d i m)"
    by (simp add: db_fetch_def db_remove_def batch_delete_def smodify_def tbl_get_del t output_key_inject)
  show "db_wf (db_store out d)"
    using d by (simp add: db_wf_def db_store_def batch_save_def smodify_def tbl_wf_put)
  show "db_wf (db_remove j n d)"
    using d by (simp add: db_wf_def db_remove_def batch_delete_def smodify_def tbl_wf_del)
  show "db_fetch d i m = Some out \<Longrightarrow> out \<in> set (batch_iter d)"
    using tbl.vals_iff [OF t(1)] by (auto simp: db_fetch_def batch_iter_def)
  show "set (batch_iter (db_store out d)) \<subseteq> insert out (set (batch_iter d))"
    using tbl.vals_put_subset [OF t(1)] by (simp add: batch_iter_def db_store_def batch_save_def smodify_def)
  show "set (batch_iter (db_remove j n d)) \<subseteq> set (batch_iter d)"
    using tbl.vals_del_subset [OF t(1)] by (simp add: batch_iter_def db_remove_def batch_delete_def smodify_def)
qed

section \<open>Counters\<close>

text \<open>A counter hands out its value and moves to the next one.\<close>

locale counter =
  fixes cur :: "'s \<Rightarrow> u32"
    and advance :: "'s \<Rightarrow> u32 \<times> 's"
  assumes next_value: "fst (advance s) = cur s"
    and next_cur: "cur (snd (advance s)) = cur s + 1"
begin

fun draws :: "nat \<Rightarrow> 's \<Rightarrow> u32 list" where
  "draws 0 s = []"
| "draws (Suc n) s = fst (advance s) # draws n (snd (advance s))"

lemma draws_eq: "draws n s = map (\<lambda>i. cur s + of_nat i) [0..<n]"
proof (induction n arbitrary: s)
  case (Suc n)
  have "[0..<Suc n] = 0 # map Suc [0..<n]"
    by (simp only: map_Suc_upt upt_conv_Cons zero_less_Suc One_nat_def)
  then show ?case
    by (simp only: draws.simps Suc next_cur next_value) (simp add: algebra_simps)
qed simp

text \<open>No value is handed out twice within \<open>2\<^sup>3\<^sup>2\<close> draws.\<close>

lemma draws_distinct: "n \<le> 2 ^ 32 \<Longrightarrow> distinct (draws n s)"
proof -
  assume n: "n \<le> 2 ^ 32"
  have "inj_on (\<lambda>i. cur s + of_nat i) {0..<n}"
  proof (rule inj_onI)
    fix i j
    assume ij: "i \<in> {0..<n}" "j \<in> {0..<n}" and eq: "cur s + (of_nat i :: u32) = cur s + of_nat j"
    from eq have "(of_nat i :: u32) = of_nat j" by simp
    then show "i = j"
      using ij n by (simp add: word_of_nat_eq_iff take_bit_nat_eq_self_iff take_bit_nat_def)
  qed
  then show ?thesis by (simp add: draws_eq distinct_map)
qed

end

definition log_counter :: "ident \<Rightarrow> db \<Rightarrow> u32 \<times> db" where
  "log_counter p d = (case next_tx_log_id p d of (Ok i, d') \<Rightarrow> (i, d') | (_, d') \<Rightarrow> (0, d'))"

lemma next_tx_log_id_eq: "next_tx_log_id p d = (Ok (current_tx_log_id d p),
    d\<lparr>db_tx_log_id := tbl_put p (current_tx_log_id d p + 1) (db_tx_log_id d)\<rparr>)"
  by (simp add: next_tx_log_id_def Let_def)

interpretation log_ids: counter "\<lambda>d. current_tx_log_id d p" "log_counter p" for p
  by unfold_locales (simp_all add: log_counter_def next_tx_log_id_eq, simp add: current_tx_log_id_def tbl_get_put)

definition child_counter :: "ident \<Rightarrow> wallet \<Rightarrow> u32 \<times> wallet" where
  "child_counter p w =
     (let i = current_child_index w p in (i, snd (run_batch (save_child_index p (i + 1)) w)))"

interpretation child_ids: counter "\<lambda>w. current_child_index w p" "child_counter p" for p
  by unfold_locales
     (simp_all add: child_counter_def Let_def current_child_index_def run_batch_def save_child_index_def
        smodify_def tbl_get_put)

section \<open>Batches\<close>

lemma is_Ok_run: "is_Ok (fst (m s)) \<Longrightarrow> \<exists>a. m s = (Ok a, snd (m s))"
  by (cases "m s") (auto simp: is_Ok_ex)

lemma run_batch_Ok: "run_batch b w = (Ok a, w') \<longleftrightarrow> (\<exists>d. b (w_db w) = (Ok a, d) \<and> w' = w\<lparr>w_db := d\<rparr>)"
  by (auto simp: run_batch_def split: prod.splits res.splits)

lemma run_batch_fail: "run_batch b w = (r, w') \<Longrightarrow> (\<forall>a. r \<noteq> Ok a) \<Longrightarrow> w' = w"
  by (auto simp: run_batch_def split: prod.splits res.splits)

lemma with_batch_Ok:
  "with_batch X km b w = (Ok a, w') \<longleftrightarrow>
     (\<exists>k d. wallet_keychain X km w = Ok k \<and> b k (w_db w) = (Ok a, d) \<and> w' = w\<lparr>w_db := d\<rparr>)"
  by (auto simp: with_batch_def sbind_eq_Ok the_keychain_def run_batch_Ok)

lemma with_batch_fail: "with_batch X km b w = (r, w') \<Longrightarrow> (\<forall>a. r \<noteq> Ok a) \<Longrightarrow> w' = w"
  by (auto simp: with_batch_def sbind_def the_keychain_def split: prod.splits res.splits dest: run_batch_fail)

lemma with_batch_frame:
  "with_batch X km b w = (r, w') \<Longrightarrow> w_files w' = w_files w \<and> w_keychain w' = w_keychain w \<and>
     w_master_checksum w' = w_master_checksum w \<and> w_parent_key_id w' = w_parent_key_id w"
  by (auto simp: with_batch_def sbind_def the_keychain_def run_batch_def split: prod.splits res.splits)

section \<open>Well-formed tables\<close>

text \<open>Every operation on the tables keeps them well formed, and so does a batch of them.\<close>

lemma keeps_db_wf [keeps_intros]:
  "keeps db_wf (batch_get X i m)" "keeps db_wf (batch_save out)" "keeps db_wf (batch_delete i m)"
  "keeps db_wf (save_child_index i n)" "keeps db_wf (save_last_confirmed_height i h)"
  "keeps db_wf (save_last_scanned_block b)" "keeps db_wf (save_init_status v)"
  "keeps db_wf (next_tx_log_id i)" "keeps db_wf (save_tx_log_entry t i)"
  "keeps db_wf (delete_tx_log_entry n i)" "keeps db_wf (save_acct_path a)" "keeps db_wf (lock_output out)"
  "keeps db_wf (delete_private_context s)"
  by (auto simp: keeps_def db_wf_def tbl_simps batch_get_def batch_save_def batch_delete_def
      save_child_index_def save_last_confirmed_height_def save_last_scanned_block_def
      save_init_status_def next_tx_log_id_eq save_tx_log_entry_def delete_tx_log_entry_def
      save_acct_path_def lock_output_def delete_private_context_def smodify_def)

lemma keeps_db_wf_context [keeps_intros]: "keeps db_wf (save_private_context X k s c)"
  unfolding save_private_context_def
  by (intro keeps_intros keeps_smodify) (simp add: db_wf_def tbl_simps)

lemma keeps_run_batch [keeps_intros]: "keeps db_wf b \<Longrightarrow> keeps w_wf (run_batch b)"
  by (auto simp: keeps_def w_wf_def run_batch_def split: prod.splits res.splits)

lemma keeps_the_keychain [keeps_intros]: "keeps P (the_keychain X km)"
  by (simp add: keeps_def the_keychain_def)

lemma keeps_with_batch [keeps_intros]: "(\<And>k. keeps db_wf (b k)) \<Longrightarrow> keeps w_wf (with_batch X km b)"
  unfolding with_batch_def by (intro keeps_intros)

lemma keeps_w_wf_frame: "(\<And>w. w_db (h w) = w_db w) \<Longrightarrow> keeps w_wf (smodify h)"
  by (rule keeps_smodify) (simp add: w_wf_def)

lemma keeps_w_wf_read:
  "(\<And>w. snd (m w) = w) \<Longrightarrow> keeps w_wf m"
  by (simp add: keeps_def)

lemma keeps_wallet [keeps_intros]:
  "keeps w_wf (wallet_get X i m)" "keeps w_wf (set_parent_key_id i)" "keeps w_wf (store_tx X u t)"
  "keeps w_wf close"
  by (auto simp: keeps_def w_wf_def wallet_get_def set_parent_key_id_def store_tx_def close_def smodify_def)

lemma keeps_wallet_ops [keeps_intros]:
  "keeps w_wf (next_child X km)" "keeps w_wf (get_private_context X km s)"
  "keeps w_wf (calc_commit_for_cache X km a i)" "keeps w_wf (get_stored_tx X u)"
  unfolding next_child_def get_private_context_def calc_commit_for_cache_def get_stored_tx_def
  by (intro keeps_intros)+

lemma keeps_set_keychain [keeps_intros]: "keeps w_wf (set_keychain X k v)"
  unfolding set_keychain_def by (intro keeps_intros keeps_w_wf_frame) simp_all

section \<open>Masks\<close>

lemma xor_bytes_involutive: "length a = length b \<Longrightarrow> xor_bytes (xor_bytes a b) b = a"
  by (induction a b rule: list_induct2) (simp_all add: xor_bytes_def xor.assoc)

lemma mask_context_involutive:
  "length (ctx_sec_key c) = length (fst ks) \<Longrightarrow> length (ctx_sec_nonce c) = length (snd ks) \<Longrightarrow>
     mask_context ks (mask_context ks c) = c"
  by (simp add: mask_context_def xor_bytes_involutive)

text \<open>A keychain that the wallet hands out has the checksum set when the wallet was opened.\<close>

lemma wallet_keychain_Ok:
  "wallet_keychain X km w = Ok k \<longleftrightarrow>
     (\<exists>k0. w_keychain w = Some k0 \<and> (case km of None \<Rightarrow> Ok k0 | Some m \<Rightarrow> x_mask_key X k0 m) = Ok k \<and>
       (\<exists>sum. root_checksum X k = Ok sum \<and> w_master_checksum w = Some sum))"
  by (auto simp: wallet_keychain_def res_simps split: option.splits if_splits)

lemma wallet_keychain_frame:
  "w_keychain w' = w_keychain w \<Longrightarrow> w_master_checksum w' = w_master_checksum w \<Longrightarrow>
     wallet_keychain X km w' = wallet_keychain X km w"
  by (cases "w_keychain w") (simp_all add: wallet_keychain_def)

end
