(* ===== verification/Sample.thy ===== *)
theory Sample
  imports Types
begin

text \<open>
  A small concrete instance of the external functions, on which the hypotheses of the
  development are evaluated: keys are byte strings, a public key is its secret key under a
  tag, a signature shows the keys that made it, sums are byte-wise, fees and weights are the
  ones of the chain. It plays no part in the model.
\<close>

definition pad :: "nat \<Rightarrow> bytes \<Rightarrow> bytes" where
  "pad n b = take n (b @ replicate n 0)"

fun add_all :: "nat \<Rightarrow> bytes list \<Rightarrow> bytes" where
  "add_all n [] = replicate n 0"
| "add_all n (b # bs) = map2 (+) (pad n b) (add_all n bs)"

fun words_of :: "nat \<Rightarrow> bytes \<Rightarrow> u32 list" where
  "words_of 0 b = []"
| "words_of (Suc n) b = of_be (take 4 b) # words_of n (drop 4 b)"

definition sample_to_path :: "ident \<Rightarrow> key_path" where
  "sample_to_path b = \<lparr>kp_depth = hd (pad 1 b), kp_path = words_of 4 (drop 1 b)\<rparr>"

definition sample_from_path :: "key_path \<Rightarrow> ident" where
  "sample_from_path p = kp_depth p # concat (map be32 (kp_path p))"

definition sample_last_index :: "key_path \<Rightarrow> u32" where
  "sample_last_index p = (if kp_depth p = 0 then 0 else kp_path p ! (unat (kp_depth p) - 1))"

definition sample_parent :: "ident \<Rightarrow> ident" where
  "sample_parent b = (let p = sample_to_path b in
     if kp_depth p = 0 then b
     else sample_from_path \<lparr>kp_depth = kp_depth p - 1, kp_path = (kp_path p)[unat (kp_depth p) - 1 := 0]\<rparr>)"

definition sample_commit :: "u64 \<Rightarrow> ident \<Rightarrow> commitment" where
  "sample_commit v i = pad 33 (8 # i @ be64 v)"

fun sample_build :: "build_elem list \<Rightarrow> transaction \<Rightarrow> transaction" where
  "sample_build [] tx = tx"
| "sample_build (e # es) tx = sample_build es (case e of
     build_input v i \<Rightarrow> tx\<lparr>t_inputs := (case t_inputs tx of
         CommitOnly cs \<Rightarrow> CommitOnly (cs @ [sample_commit v i])
       | FeaturesAndCommit fs \<Rightarrow> FeaturesAndCommit (fs @ [\<lparr>in_features = OF_Plain, in_commit = sample_commit v i\<rparr>]))\<rparr>
   | build_coinbase_input v i \<Rightarrow> tx\<lparr>t_inputs := (case t_inputs tx of
         CommitOnly cs \<Rightarrow> CommitOnly (cs @ [sample_commit v i])
       | FeaturesAndCommit fs \<Rightarrow> FeaturesAndCommit (fs @ [\<lparr>in_features = OF_Coinbase, in_commit = sample_commit v i\<rparr>]))\<rparr>
   | build_output v i \<Rightarrow> tx\<lparr>t_outputs := t_outputs tx @ [\<lparr>ou_features = OF_Plain, ou_commit = sample_commit v i, ou_proof = []\<rparr>]\<rparr>)"

definition sample_tx :: transaction where
  "sample_tx = \<lparr>t_offset = replicate 32 0, t_inputs = FeaturesAndCommit [], t_outputs = [], t_kernels = []\<rparr>"

definition sample_kernel :: "kernel_features \<Rightarrow> tx_kernel" where
  "sample_kernel f = \<lparr>k_features = f, k_excess = replicate 33 0, k_excess_sig = replicate 64 0\<rparr>"

definition sample_ext :: ext where
  "sample_ext = \<lparr>
     x_to_hex = map (\<lambda>b. char_of (unat b)),
     x_from_hex = (\<lambda>s. Some (map of_char s)),
     x_amount_hr = (\<lambda>a t. nat_to_string (unat a)),
     x_uuid_str = map (\<lambda>b. char_of (unat b)),
     x_ident_str = map (\<lambda>b. char_of (unat b)),
     x_store_not_found = (\<lambda>s. s),
     x_io_not_found = ''not found'',
     x_tx_fee = (\<lambda>i o' k. of_nat (i + 21 * o' + 3 * k)),
     x_weight_by_iok = (\<lambda>i o' k. i + 21 * o' + 3 * k),
     x_max_tx_weight = 40000,
     x_coinbase_maturity = 1440,
     x_reward = (\<lambda>f. 60000000000 + f),
     x_week_height = 10080,
     x_valid_header_version = (\<lambda>h v. True),
     x_fee = (\<lambda>f. f),
     x_fee_new = (\<lambda>s f. Ok f),
     x_fee_try_from = (\<lambda>f. if f = 0 then None else Some f),
     x_fee_as_opt = (\<lambda>f. if f = 0 then None else Some f),
     x_chain_type = ''Mainnet'',
     x_to_base32 = (\<lambda>b. b),
     x_from_base32 = (\<lambda>b. Ok b),
     x_bech32_encode = (\<lambda>h b. Ok (h @ ''1'' @ map (\<lambda>b. char_of (unat b)) b)),
     x_bech32_decode = (\<lambda>s. Ok (takeWhile (\<lambda>c. c \<noteq> CHR ''1'') s, map of_char (tl (dropWhile (\<lambda>c. c \<noteq> CHR ''1'') s)))),
     x_to_path = sample_to_path,
     x_derive_key_id = (\<lambda>d a b c e. sample_from_path \<lparr>kp_depth = d, kp_path = [a, b, c, e]\<rparr>),
     x_from_path = sample_from_path,
     x_parent_path = sample_parent,
     x_last_path_index = sample_last_index,
     x_mask_key = (\<lambda>k m. Ok (map2 (XOR) k m)),
     x_derive_key = (\<lambda>k a i s. Ok (map2 (+) (pad 32 k) (pad 32 i))),
     x_root_key_id = replicate 17 0,
     x_commit = (\<lambda>k v i s. Ok (sample_commit v i)),
     x_commit_from_vec = pad 33,
     x_commit_value = (\<lambda>v. Ok (sample_commit v [])),
     x_commit_sum = (\<lambda>ps ns. Ok (map2 (-) (add_all 33 ps) (add_all 33 ns))),
     x_blind_sum = (\<lambda>k bs. Ok (map2 (-) (add_all 32 (bs_pos bs)) (add_all 32 (bs_neg bs)))),
     x_blake2b = (\<lambda>n key d. pad n d),
     x_pk_of_sk = (\<lambda>sk. Ok (2 # sk)),
     x_pk_combine = (\<lambda>ps. Ok (add_all 33 ps)),
     x_commit_of_pk = (\<lambda>p. Ok p),
     x_sign_partial = (\<lambda>sk n ns ps m. Ok (sk @ tl ns)),
     x_verify_partial = (\<lambda>s n p ps m. if s = tl p @ tl n then Ok () else Err (Lib (Signature ''partial''))),
     x_add_signatures = (\<lambda>ss n. Ok (concat ss)),
     x_verify_completed = (\<lambda>s p ps m. if s = [] then Err (Lib (Signature ''final'')) else Ok ()),
     x_sk_from_slice = (\<lambda>b. if length b = 32 then Ok b else Err (Lib (Secp ''slice''))),
     x_dalek_pk = (\<lambda>b. b),
     x_dalek_pk_valid = (\<lambda>b. length b = 32),
     x_dalek_err = (\<lambda>b. ''length''),
     x_dalek_sign = (\<lambda>sk m. sk @ m),
     x_dalek_verify = (\<lambda>p m s. s = p @ m),
     x_tx_empty = sample_tx,
     x_nrd_height = (\<lambda>h. if h = 0 \<or> 10080 < h then Err (Lib (GenericError ''nrd'')) else Ok h),
     x_kernel_msg = (\<lambda>f. Ok []),
     x_kernel_with_features = sample_kernel,
     x_replace_kernel = (\<lambda>tx k. tx\<lparr>t_kernels := [k]\<rparr>),
     x_with_kernel = (\<lambda>tx k. tx\<lparr>t_kernels := t_kernels tx @ [k]\<rparr>),
     x_replace_inputs = (\<lambda>tx i. tx\<lparr>t_inputs := i\<rparr>),
     x_replace_outputs = (\<lambda>tx o'. tx\<lparr>t_outputs := o'\<rparr>),
     x_partial_transaction = (\<lambda>tx es k. Ok (sample_build es tx, replicate 32 0)),
     x_reward_output = (\<lambda>k i f t. Ok (\<lparr>ou_features = OF_Coinbase, ou_commit = sample_commit (60000000000 + f) i, ou_proof = []\<rparr>,
        sample_kernel KF_Coinbase)),
     x_tx_to_hex = (\<lambda>tx. ''''),
     x_tx_of_hex = (\<lambda>s. Some sample_tx),
     x_tx_fee_total = (\<lambda>tx. \<Sum>k\<leftarrow>t_kernels tx. (case k_features k of KF_Coinbase \<Rightarrow> 0 | f \<Rightarrow> kf_fee f)),
     x_kernel_verify = (\<lambda>k. Ok ()),
     x_tx_validate = (\<lambda>tx. Ok ()),
     x_aggregate_fee = (\<lambda>tx. Some (\<Sum>k\<leftarrow>t_kernels tx. (case k_features k of KF_Coinbase \<Rightarrow> 0 | f \<Rightarrow> kf_fee f))),
     x_rewind = (\<lambda>k legacy c p. Ok (case p of v # i \<Rightarrow> if legacy then None else Some (ucast v, i, Switch_Regular) | [] \<Rightarrow> None)),
     x_rewind_bp = (\<lambda>c n p. case p of v # i \<Rightarrow> Some (ucast v) | [] \<Rightarrow> None),
     x_rewind_hash = (\<lambda>k. ''''),
     x_commit_blind = (\<lambda>v b. Ok (sample_commit v b)),
     x_proof_create = (\<lambda>k v i s c. Ok i),
     x_blind_split = (\<lambda>a b. Ok (map2 (-) (pad 32 a) (pad 32 b)))\<rparr>"

text \<open>A node at height 50 that knows no output and no kernel and accepts every transaction\<close>

definition quiet_node :: node where
  "quiet_node = \<lparr>n_chain_tip = Ok (50, ''''), n_version = Some 3, n_outputs = (\<lambda>_. Ok []), n_kernel = (\<lambda>_ _ _. Ok None),
     n_outputs_by_pmmr_index = (\<lambda>_ _ _. Ok (0, 0, [])), n_height_range_to_pmmr_indices = (\<lambda>_ _. Ok (0, 0)),
     n_post_tx = (\<lambda>_ _. Ok ())\<rparr>"

text \<open>Characters as bytes, and back\<close>

lemma of_char_word: "(of_char c :: u8) = of_nat (of_char c)"
  by (cases c) (simp add: of_char_def split: char.splits)

lemma unat_of_char: "unat (of_char c :: u8) = of_char c"
  by (simp add: of_char_word unsigned_of_nat take_bit_nat_eq_self)

lemma of_char_u8_eq: "(of_char c :: u8) = of_char d \<longleftrightarrow> c = d"
  by (metis unat_of_char of_char_eq_iff)

lemma char_of_unat: "of_char (char_of (unat (b :: u8))) = b"
proof -
  have "unat b < 256" using unsigned_less [of b] by simp
  then have "(of_char (char_of (unat b)) :: nat) = unat b" by simp
  then show ?thesis by (simp add: of_char_word)
qed

lemma length_pad [simp]: "length (pad n b) = n"
  by (simp add: pad_def)

lemma sample_from_path_inject:
  "length (kp_path p) = length (kp_path q) \<Longrightarrow> sample_from_path p = sample_from_path q \<longleftrightarrow> p = q"
proof -
  assume len: "length (kp_path p) = length (kp_path q)"
  have "concat (map be32 xs) = concat (map be32 ys) \<longleftrightarrow> xs = ys" if "length xs = length ys" for xs ys
    using that by (induction xs ys rule: list_induct2) (auto, metis of_be_words(2))
  with len show ?thesis by (auto simp: sample_from_path_def)
qed

end
