(* ===== verification/Backend_Props.thy ===== *)
theory Backend_Props
  imports Backend_Laws Sample
begin

text \<open>
  The properties of the backend: what is saved is read back, keys and log identifiers are
  never handed out twice, secrets at rest are masked, and a wrong keychain mask is refused.
\<close>

section \<open>The output table\<close>

text \<open>An output saved in a batch is read back under its own identifier and position and
  under no other, whatever position or identifier (of the same length) is asked for; the
  output of another key is still the one stored before, or still missing.\<close>

theorem saved_output_is_read_back:
  assumes "db_wf d" "length i = length (out_key_id out)" "batch_save out d = (Ok (), d')"
  shows "batch_get X i m d' =
    (if i = out_key_id out \<and> m = out_mmr_index out then Ok out else fst (batch_get X i m d), d')"
  using assms by (simp add: batch_save_eq batch_get_eq outs.fetch_store split: option.split)
    (auto simp: outs.fetch_store)

definition sample_output :: "u8 \<Rightarrow> u64 \<Rightarrow> output_status \<Rightarrow> output_data" where
  "sample_output n v s = \<lparr>out_root_key_id = sample_from_path \<lparr>kp_depth = 2, kp_path = [0, 0, 0, 0]\<rparr>,
     out_key_id = sample_from_path \<lparr>kp_depth = 3, kp_path = [0, 0, ucast n, 0]\<rparr>, out_n_child = ucast n,
     out_commit = None, out_mmr_index = None, out_value = v, out_status = s, out_height = 10,
     out_lock_height = 0, out_is_coinbase = False, out_tx_log_entry = None\<rparr>"

definition sample_db :: db where
  "sample_db = db_empty\<lparr>db_outputs := [(out_key_id (sample_output 1 5 Unspent), sample_output 1 5 Unspent)]\<rparr>"

lemma sample_db_wf: "db_wf sample_db"
  by (simp add: sample_db_def db_wf_def db_empty_def tbl_wf_def)

theorem saved_output_is_read_back_witness:
  "batch_get sample_ext (out_key_id (sample_output 2 7 Unspent)) None
     (snd (batch_save (sample_output 2 7 Unspent) sample_db)) =
   (Ok (sample_output 2 7 Unspent), snd (batch_save (sample_output 2 7 Unspent) sample_db))"
  using saved_output_is_read_back [of sample_db "out_key_id (sample_output 2 7 Unspent)"
      "sample_output 2 7 Unspent" _ sample_ext None, OF sample_db_wf refl batch_save_eq]
  by (simp add: batch_save_eq) (simp add: sample_output_def)

section \<open>Child keys\<close>

lemma next_child_Ok:
  "next_child X km w = (Ok c, w') \<longleftrightarrow>
     (\<exists>k rp. wallet_keychain X km w = Ok k \<and>
        child_path (x_to_path X (w_parent_key_id w)) (current_child_index w (w_parent_key_id w)) = Ok rp \<and>
        c = x_from_path X rp \<and> w' = snd (child_counter (w_parent_key_id w) w))"
  by (auto simp: next_child_def res_simps with_batch_Ok child_counter_def Let_def run_batch_def
      save_child_index_def smodify_def split: prod.splits res.splits)

lemma child_counter_frame [simp]:
  "w_parent_key_id (snd (child_counter p w)) = w_parent_key_id w"
  "w_keychain (snd (child_counter p w)) = w_keychain w"
  by (simp_all add: child_counter_def Let_def run_batch_def save_child_index_def smodify_def)

lemma child_path_inject:
  "child_path p i = Ok a \<Longrightarrow> child_path p j = Ok b \<Longrightarrow>
     length (kp_path a) = length (kp_path p) \<and> (a = b \<longleftrightarrow> i = j)"
  by (auto simp: child_path_def Let_def split: if_splits)
     (metis nth_list_update_eq)

lemma children_eq:
  "smap (\<lambda>_. next_child X km) (replicate n u) w = (Ok ids, w') \<Longrightarrow>
     length ids = n \<and> (\<forall>j < n. \<exists>rp. child_path (x_to_path X (w_parent_key_id w))
        (child_ids.draws (w_parent_key_id w) n w ! j) = Ok rp \<and> ids ! j = x_from_path X rp)"
proof (induction n arbitrary: w ids)
  case (Suc n)
  let ?p = "w_parent_key_id w"
  obtain i0 w1 ids1 where 1: "next_child X km w = (Ok i0, w1)"
    "smap (\<lambda>_. next_child X km) (replicate n u) w1 = (Ok ids1, w')" "ids = i0 # ids1"
    using Suc.prems by (auto simp: res_simps)
  have w1: "w1 = snd (child_counter ?p w)" using 1(1) by (auto simp: next_child_Ok)
  note IH = Suc.IH [OF 1(2), unfolded w1 child_counter_frame]
  show ?case
    using IH 1(1,3) by (auto simp: next_child_Ok nth_Cons' child_ids.next_value gr0_conv_Suc)
qed (auto simp: res_simps)

text \<open>The keys that successive calls of \<open>next_child\<close> return under one parent are
  all different, as long as a parent has fewer than \<open>2\<^sup>3\<^sup>2\<close> children; the writing of a path into
  an identifier is assumed to be injective on paths of four levels.\<close>

theorem next_child_distinct:
  assumes "smap (\<lambda>_. next_child X km) (replicate n ()) w = (Ok ids, w')" "n \<le> 2 ^ 32"
    and "length (kp_path (x_to_path X (w_parent_key_id w))) = 4"
    and "inj_on (x_from_path X) {p. length (kp_path p) = 4}"
  shows "distinct ids \<and> length ids = n"
proof -
  let ?p = "w_parent_key_id w"
  note ids = children_eq [OF assms(1)]
  have len: "length (child_ids.draws ?p n w) = n" by (simp add: child_ids.draws_eq)
  have "ids ! i \<noteq> ids ! j" if ij: "i < n" "j < n" "i \<noteq> j" for i j
  proof -
    obtain a b where ab: "child_path (x_to_path X ?p) (child_ids.draws ?p n w ! i) = Ok a"
      "child_path (x_to_path X ?p) (child_ids.draws ?p n w ! j) = Ok b"
      "ids ! i = x_from_path X a" "ids ! j = x_from_path X b"
      using ids ij by meson
    have "child_ids.draws ?p n w ! i \<noteq> child_ids.draws ?p n w ! j"
      using child_ids.draws_distinct [OF assms(2), of ?p w] ij len by (simp add: distinct_conv_nth)
    then have "a \<noteq> b" using child_path_inject [OF ab(1,2)] by blast
    moreover have "length (kp_path a) = 4" "length (kp_path b) = 4"
      using child_path_inject [OF ab(1,1)] child_path_inject [OF ab(2,2)] assms(3) by auto
    ultimately show ?thesis
      using assms(4) ab(3,4) by (auto dest: inj_onD)
  qed
  then show ?thesis using ids by (auto simp: distinct_conv_nth)
qed

definition sample_wallet :: wallet where
  "sample_wallet = \<lparr>w_db = sample_db, w_files = (\<lambda>f. None), w_keychain = Some (replicate 32 1),
     w_master_checksum = Some (pad 32 (replicate 32 1)),
     w_parent_key_id = out_root_key_id (sample_output 1 5 Unspent)\<rparr>"

theorem next_child_distinct_witness:
  "\<exists>ids w'. smap (\<lambda>_. next_child sample_ext None) (replicate 2 ()) sample_wallet = (Ok ids, w') \<and> distinct ids"
proof -
  have "is_Ok (fst (smap (\<lambda>_. next_child sample_ext None) (replicate 2 ()) sample_wallet))"
    by code_simp
  then obtain ids w' where ids: "smap (\<lambda>_. next_child sample_ext None) (replicate 2 ()) sample_wallet = (Ok ids, w')"
    by (metis is_Ok_ex prod.collapse)
  moreover have "inj_on (x_from_path sample_ext) {p. length (kp_path p) = 4}"
    by (auto intro!: inj_onI simp: sample_ext_def sample_from_path_inject)
  moreover have "length (kp_path (x_to_path sample_ext (w_parent_key_id sample_wallet))) = 4"
    by code_simp
  ultimately have "distinct ids \<and> length ids = 2"
    by (intro next_child_distinct [where X = sample_ext and km = None and w = sample_wallet]) auto
  with ids show ?thesis by blast
qed

section \<open>Log identifiers\<close>

text \<open>Every entry of a parent's log has an identifier below the parent's counter.\<close>

definition log_fresh :: "ident \<Rightarrow> db \<Rightarrow> bool" where
  "log_fresh p d \<longleftrightarrow> (\<forall>i. tbl_get (db_tx_log d) (to_key_u64 p (ucast i)) \<noteq> None \<longrightarrow> i < current_tx_log_id d p)"

lemma ucast_32_64_inject [simp]: "(ucast (i :: u32) :: u64) = ucast j \<longleftrightarrow> i = j"
proof -
  have "(ucast (ucast i :: u64) :: u32) = i" for i :: u32 by transfer simp
  then show ?thesis by metis
qed

lemma save_tx_log_entry_eq: "save_tx_log_entry t p d =
    (Ok (), d\<lparr>db_tx_log := tbl_put (to_key_u64 p (ucast (txe_id t))) (Some t) (db_tx_log d)\<rparr>)"
  by (simp add: save_tx_log_entry_def smodify_def)

lemma current_tx_log_id_bump:
  "current_tx_log_id (d\<lparr>db_tx_log_id := tbl_put p v (db_tx_log_id d), db_tx_log := l\<rparr>) q =
     (if q = p then v else current_tx_log_id d q)"
  "current_tx_log_id (d\<lparr>db_tx_log := l, db_tx_log_id := tbl_put p v (db_tx_log_id d)\<rparr>) q =
     (if q = p then v else current_tx_log_id d q)"
  "current_tx_log_id (d\<lparr>db_tx_log_id := tbl_put p v (db_tx_log_id d)\<rparr>) q =
     (if q = p then v else current_tx_log_id d q)"
  by (simp_all add: current_tx_log_id_def tbl_get_put)

text \<open>Recording a new entry never overwrites one. While a parent's log holds only
  identifiers below its counter, the identifier \<open>next_tx_log_id\<close> returns has no entry; saving an
  entry under it leaves every other entry of every parent as it was, and keeps all the logs below
  their counters, up to the \<open>2\<^sup>3\<^sup>2\<close>-th entry of a parent.\<close>

theorem next_tx_log_id_fresh:
  assumes "\<forall>q. log_fresh q d" "current_tx_log_id d p \<noteq> -1"
    and "next_tx_log_id p d = (Ok i, d1)" "save_tx_log_entry (t\<lparr>txe_id := i\<rparr>) p d1 = (Ok (), d2)"
  shows "tbl_get (db_tx_log d) (to_key_u64 p (ucast i)) = None \<and>
    tbl_get (db_tx_log d2) (to_key_u64 p (ucast i)) = Some (Some (t\<lparr>txe_id := i\<rparr>)) \<and>
    (\<forall>q j. (q, j) \<noteq> (p, i) \<longrightarrow>
       tbl_get (db_tx_log d2) (to_key_u64 q (ucast j)) = tbl_get (db_tx_log d) (to_key_u64 q (ucast j))) \<and>
    (\<forall>q. log_fresh q d2)"
proof -
  have i: "i = current_tx_log_id d p" using assms(3) by (simp add: next_tx_log_id_eq)
  have d2: "d2 = d\<lparr>db_tx_log_id := tbl_put p (i + 1) (db_tx_log_id d),
      db_tx_log := tbl_put (to_key_u64 p (ucast i)) (Some (t\<lparr>txe_id := i\<rparr>)) (db_tx_log d)\<rparr>"
    using assms(3,4) by (auto simp: next_tx_log_id_eq save_tx_log_entry_eq)
  have less: "i < i + 1" and mono: "j < i \<Longrightarrow> j < i + 1" for j
    using assms(2) i by (simp_all add: word_less_nat_alt unatSuc eq_neg_iff_add_eq_0 add.commute)
  have "log_fresh q d2" for q
    using assms(1) [rule_format, of q] less mono
    by (auto simp: log_fresh_def d2 tbl_get_put current_tx_log_id_bump i split: if_splits)
  moreover have "tbl_get (db_tx_log d) (to_key_u64 p (ucast i)) = None"
    using assms(1) [rule_format, of p] i by (auto simp: log_fresh_def)
  ultimately show ?thesis
    by (simp add: d2 tbl_get_put)
qed

definition sample_entry :: "u32 \<Rightarrow> uuid \<Rightarrow> tx_log_entry_type \<Rightarrow> tx_log_entry" where
  "sample_entry i u t = (tx_log_entry_new 0 (out_root_key_id (sample_output 1 5 Unspent)) t i)\<lparr>txe_tx_slate_id := Some u\<rparr>"

theorem next_tx_log_id_fresh_witness:
  "(\<forall>q. log_fresh q sample_db) \<and>
   tbl_get (db_tx_log (snd (save_tx_log_entry ((sample_entry 7 [] TxSent)\<lparr>txe_id := 0\<rparr>) [9] (snd (next_tx_log_id [9] sample_db)))))
     (to_key_u64 [9] 0) = Some (Some ((sample_entry 7 [] TxSent)\<lparr>txe_id := 0\<rparr>))"
proof -
  have fresh: "\<forall>q. log_fresh q sample_db"
    by (simp add: log_fresh_def sample_db_def db_empty_def)
  show ?thesis
    using next_tx_log_id_fresh [OF fresh, of "[9]" 0 "snd (next_tx_log_id [9] sample_db)" "sample_entry 7 [] TxSent"
        "snd (save_tx_log_entry ((sample_entry 7 [] TxSent)\<lparr>txe_id := 0\<rparr>) [9] (snd (next_tx_log_id [9] sample_db)))"] fresh
    by (simp add: next_tx_log_id_eq save_tx_log_entry_eq current_tx_log_id_def sample_db_def db_empty_def)
qed

section \<open>Masked secrets\<close>

text \<open>A private context saved in a batch is given back by \<open>get_private_context\<close>
  with its secret key and nonce as they were, for the slate it was saved for; what the database
  holds are the two secrets combined by exclusive or with keys derived from the seed and the
  slate's identifier. Secrets are 32 bytes, and so is the hash.\<close>

theorem private_context_roundtrip:
  assumes "with_batch X km (\<lambda>k. save_private_context X k slate_id c) w = (Ok (), w')"
    and "length (ctx_sec_key c) = 32" "length (ctx_sec_nonce c) = 32"
    and "\<And>b. length (x_blake2b X 32 [] b) = 32"
  shows "get_private_context X km slate_id w' = (Ok c, w') \<and>
    (\<exists>k ks. wallet_keychain X km w = Ok k \<and> private_ctx_xor_keys X k slate_id = Ok ks \<and>
       tbl_get (db_contexts (w_db w')) (to_key_u64 slate_id 0) = Some (mask_context ks c))"
proof -
  obtain k ks where k: "wallet_keychain X km w = Ok k" "private_ctx_xor_keys X k slate_id = Ok ks"
    and w': "w' = w\<lparr>w_db := (w_db w)\<lparr>db_contexts :=
        tbl_put (to_key_u64 slate_id 0) (mask_context ks c) (db_contexts (w_db w))\<rparr>\<rparr>"
    using assms(1) by (auto simp: with_batch_Ok save_private_context_def res_simps)
  have "wallet_keychain X km w' = Ok k"
    using k(1) by (simp add: w' wallet_keychain_frame [of "w\<lparr>w_db := _\<rparr>" w])
  moreover have "length (fst ks) = 32" "length (snd ks) = 32"
    using k(2) assms(4) by (auto simp: private_ctx_xor_keys_def res_simps Let_def SECRET_KEY_SIZE_def)
  ultimately show ?thesis
    using k assms(2,3) by (simp add: get_private_context_def res_simps the_keychain_def sbind_def slift_def sread_def
        sret_def w' tbl_get_put mask_context_involutive) (metis prod.collapse)
qed

definition sample_context :: "context" where
  "sample_context = context_new \<lparr>dr_key = replicate 32 3, dr_nonce = replicate 32 4\<rparr> [0]"

theorem private_context_roundtrip_witness:
  "fst (get_private_context sample_ext None [1, 2]
     (snd (with_batch sample_ext None (\<lambda>k. save_private_context sample_ext k [1, 2] sample_context) sample_wallet)))
   = Ok sample_context"
proof -
  define w' where "w' = snd (with_batch sample_ext None (\<lambda>k. save_private_context sample_ext k [1, 2] sample_context) sample_wallet)"
  have "is_Ok (fst (with_batch sample_ext None (\<lambda>k. save_private_context sample_ext k [1, 2] sample_context) sample_wallet))"
    by code_simp
  then have ok: "with_batch sample_ext None (\<lambda>k. save_private_context sample_ext k [1, 2] sample_context) sample_wallet = (Ok (), w')"
    by (auto simp: w'_def is_Ok_ex intro: prod_eqI)
  have len: "length (ctx_sec_key sample_context) = 32" "length (ctx_sec_nonce sample_context) = 32"
    by (code_simp, code_simp)
  have "get_private_context sample_ext None [1, 2] w' = (Ok sample_context, w')"
    by (rule conjunct1 [OF private_context_roundtrip [OF ok len]]) (simp add: sample_ext_def)
  then show ?thesis by (simp add: w'_def)
qed

text \<open>After \<open>set_keychain\<close> with a mask, the keychain comes back with that same mask
  and only a keychain whose root key has the stored checksum ever comes back: any other mask is
  refused with \<open>InvalidKeychainMask\<close> when the keychain it unmasks to has another checksum. Masking
  is assumed to be its own inverse.\<close>

theorem wallet_keychain_mask:
  assumes "set_keychain X k (Some m) w = (Ok r, w')"
    and "\<And>k k' m. x_mask_key X k m = Ok k' \<Longrightarrow> x_mask_key X k' m = Ok k"
  shows "r = Some m \<and> wallet_keychain X (Some m) w' = Ok k \<and>
    (\<forall>m' k0 k' sum. w_keychain w' = Some k0 \<and> x_mask_key X k0 m' = Ok k' \<and> root_checksum X k' = Ok sum \<and>
       root_checksum X k \<noteq> Ok sum \<longrightarrow> wallet_keychain X (Some m') w' = Err (Wal InvalidKeychainMask))"
proof -
  obtain sum km where s: "root_checksum X k = Ok sum" "x_mask_key X k m = Ok km" "r = Some m"
    and w': "w_keychain w' = Some km" "w_master_checksum w' = Some sum"
    using assms(1) by (auto simp: set_keychain_def res_simps)
  show ?thesis
    using s w' assms(2) [OF s(2)] by (auto simp: wallet_keychain_def)
qed

lemma map2_xor_involutive: "length a \<le> length b \<Longrightarrow> map2 (XOR) (map2 (XOR) a b) b = (a :: bytes)"
  by (induction a b rule: list_induct2') (simp_all add: xor.assoc)

text \<open>On the sample keys, of any length, the mask is cut or padded to the key it masks.\<close>

definition mask_ext :: ext where
  "mask_ext = sample_ext\<lparr>x_mask_key := (\<lambda>k m. Ok (map2 (XOR) k (pad (length k) m)))\<rparr>"

theorem wallet_keychain_mask_witness:
  "wallet_keychain mask_ext (Some (replicate 32 9))
     (snd (set_keychain mask_ext (replicate 32 1) (Some (replicate 32 9)) sample_wallet)) = Ok (replicate 32 1)"
proof -
  have "is_Ok (fst (set_keychain mask_ext (replicate 32 1) (Some (replicate 32 9)) sample_wallet))"
    by code_simp
  then obtain r where ok: "set_keychain mask_ext (replicate 32 1) (Some (replicate 32 9)) sample_wallet =
      (Ok r, snd (set_keychain mask_ext (replicate 32 1) (Some (replicate 32 9)) sample_wallet))"
    by (rule is_Ok_run [elim_format]) blast
  show ?thesis
    by (rule wallet_keychain_mask [OF ok, THEN conjunct2, THEN conjunct1])
       (auto simp: mask_ext_def map2_xor_involutive)
qed

end
