(* ===== verification/Selection.thy ===== *)
theory Selection
  imports Backend_Laws Sample "HOL-Library.Multiset"
begin

text \<open>
  Coin selection (\<open>libwallet/src/internal/selection.rs\<close>): which outputs are eligible, the
  sliding window over them, the fee loop, the weight check, and the split of the change. The
  loop of \<open>select_coins_and_fee\<close> reselects coins until they cover the amount with the fee for
  their own number; it runs here with fuel, two rounds more than there are eligible outputs,
  and \<open>fee_loop_enough\<close> shows that it never runs out.
\<close>

section \<open>Definitions\<close>

definition coins_total :: "output_data list \<Rightarrow> u64" where
  "coins_total coins = (\<Sum>c\<leftarrow>coins. out_value c)"

definition eligible_outputs :: "wallet \<Rightarrow> u64 \<Rightarrow> u64 \<Rightarrow> ident \<Rightarrow> output_data list" where
  "eligible_outputs w current_height minimum_confirmations parent_key_id =
     filter (\<lambda>out. out_root_key_id out = parent_key_id
        \<and> eligible_to_spend out current_height minimum_confirmations) (wallet_iter w)"

text \<open>The smallest coins first, until the coins taken reach the amount\<close>

fun take_covering :: "u64 \<Rightarrow> u64 \<Rightarrow> output_data list \<Rightarrow> output_data list" where
  "take_covering amount selected [] = []"
| "take_covering amount selected (out # outs) =
     (if selected < amount then out # take_covering amount (selected + out_value out) outs else [])"

definition select_from :: "u64 \<Rightarrow> bool \<Rightarrow> output_data list \<Rightarrow> output_data list option" where
  "select_from amount select_all outs =
     (if coins_total outs \<ge> amount
      then Some (if select_all then outs else take_covering amount 0 outs) else None)"

text \<open>\<open>slice::windows\<close>: the runs of \<open>n\<close> neighbours, from the left\<close>

definition windows :: "nat \<Rightarrow> 'a list \<Rightarrow> 'a list list" where
  "windows n xs = map (\<lambda>i. take n (drop i xs)) [0..<Suc (length xs) - n]"

fun first_some :: "('a \<Rightarrow> 'b option) \<Rightarrow> 'a list \<Rightarrow> 'b option" where
  "first_some f [] = None"
| "first_some f (x # xs) = (case f x of Some y \<Rightarrow> Some y | None \<Rightarrow> first_some f xs)"

text \<open>\<open>select_coins\<close> on the list of eligible outputs; \<open>windows\<close> of zero elements panics.\<close>

definition select_coins_of ::
  "output_data list \<Rightarrow> u64 \<Rightarrow> nat \<Rightarrow> bool \<Rightarrow> (nat \<times> output_data list) result" where
  "select_coins_of outs amount max_outputs select_all =
     (let eligible = sort_key out_value outs;
          max_available = length eligible;
          guidance = Ok (max_available, take max_outputs (rev eligible))
      in if max_available > max_outputs then
           (if max_outputs = 0 then Panic
            else case first_some (select_from amount select_all) (windows max_outputs eligible) of
              Some outputs \<Rightarrow> Ok (max_available, outputs)
            | None \<Rightarrow> (case select_from amount False eligible of
                Some outputs \<Rightarrow> Ok (max_available, outputs)
              | None \<Rightarrow> guidance))
         else (case select_from amount select_all eligible of
                 Some outputs \<Rightarrow> Ok (max_available, outputs)
               | None \<Rightarrow> guidance))"

definition select_coins ::
  "wallet \<Rightarrow> u64 \<Rightarrow> u64 \<Rightarrow> u64 \<Rightarrow> nat \<Rightarrow> bool \<Rightarrow> ident \<Rightarrow> (nat \<times> output_data list) result" where
  "select_coins w amount current_height minimum_confirmations max_outputs select_all parent_key_id =
     select_coins_of (eligible_outputs w current_height minimum_confirmations parent_key_id)
       amount max_outputs select_all"

definition not_enough_funds :: "ext \<Rightarrow> u64 \<Rightarrow> u64 \<Rightarrow> error" where
  "not_enough_funds X avail need =
     Wal (NotEnoughFunds avail (x_amount_hr X avail False) need (x_amount_hr X need False))"

text \<open>What the coins must reach: the amount, and the fee for that many coins on top of it.\<close>

definition amount_with_fee :: "bool \<Rightarrow> u64 \<Rightarrow> u64 \<Rightarrow> u64" where
  "amount_with_fee amount_includes_fee amount fee = (if amount_includes_fee then amount else amount + fee)"

fun fee_loop ::
  "ext \<Rightarrow> (u64 \<Rightarrow> (nat \<times> output_data list) result) \<Rightarrow> nat \<Rightarrow> bool \<Rightarrow> u64 \<Rightarrow> nat \<Rightarrow> nat \<Rightarrow> output_data list
    \<Rightarrow> output_data list result option" where
  "fee_loop X reselect max_outputs incl amount num_outputs 0 coins = None"
| "fee_loop X reselect max_outputs incl amount num_outputs (Suc fuel) coins =
     (let needed' = amount_with_fee incl amount (x_tx_fee X (length coins) num_outputs 1) in
      if coins_total coins < needed' then
        (if length coins = max_outputs then Some (Err (not_enough_funds X (coins_total coins) needed'))
         else case reselect needed' of
             Ok (_, coins') \<Rightarrow> fee_loop X reselect max_outputs incl amount num_outputs fuel coins'
           | Err e \<Rightarrow> Some (Err e)
           | Panic \<Rightarrow> Some Panic)
      else Some (Ok coins))"

text \<open>The most that fits in a transaction of the maximal weight, as advice with the error\<close>

definition max_spendable_amount :: "ext \<Rightarrow> output_data list \<Rightarrow> u64 \<Rightarrow> u64 \<Rightarrow> bool \<Rightarrow> u64 \<times> u32" where
  "max_spendable_amount X outputs output_len max_tx_weight amount_includes_fee =
     (let fitting = takeWhile (\<lambda>(index, _). x_weight_by_iok X (of_nat index + 1) output_len 1 \<le> max_tx_weight)
            (enumerate 0 (map out_value outputs));
          values = rev (sort (map snd fitting));
          (_, amount, inputs) = foldl (\<lambda>(total_value, amount, inputs) (index, v).
              let inputs_len = index + 1; total_value = total_value + v
              in if total_value > x_tx_fee X inputs_len 1 1
                 then (total_value, total_value, (of_nat inputs_len :: u32))
                 else (total_value, amount, inputs)) (0, 0, 0) (enumerate 0 values);
          amount = (if amount_includes_fee then amount
                    else saturating_sub64 amount (x_tx_fee X (unat inputs) 1 1))
      in (amount, inputs))"

definition weight_check ::
  "ext \<Rightarrow> output_data list \<Rightarrow> u64 \<Rightarrow> bool \<Rightarrow> u64 \<Rightarrow> nat \<Rightarrow> unit result" where
  "weight_check X coins tot amount_includes_fee needed' change_outputs =
     (let output_len = (if tot = needed' then 1 else change_outputs + 1);
          tx_weight = x_weight_by_iok X (of_nat (length coins)) (of_nat output_len) 1
      in if tx_weight > x_max_tx_weight X then
           (let (max_amount, max_inputs) =
                  max_spendable_amount X coins (of_nat output_len) (x_max_tx_weight X) amount_includes_fee
            in Err (Wal (BigAmountError max_amount (x_tx_fee X (unat max_inputs) 1 1) max_inputs)))
         else Ok ())"

definition finish_selection ::
  "ext \<Rightarrow> bool \<Rightarrow> u64 \<Rightarrow> nat \<Rightarrow> output_data list \<Rightarrow> u64 \<Rightarrow> (output_data list \<times> u64 \<times> u64 \<times> u64) result" where
  "finish_selection X amount_includes_fee amount change_outputs coins fee =
     (let tot = coins_total coins;
          needed' = amount_with_fee amount_includes_fee amount fee
      in rbind (weight_check X coins tot amount_includes_fee needed' change_outputs) (\<lambda>_.
         rbind (if amount_includes_fee
                then ok_or (Lib (GenericError ''Transaction amount is too small to include fee''))
                       (checked_sub64 amount fee)
                else Ok amount) (\<lambda>new_amount.
         Ok (coins, tot, new_amount, fee))))"

definition select_coins_and_fee ::
  "ext \<Rightarrow> wallet \<Rightarrow> u64 \<Rightarrow> bool \<Rightarrow> u64 \<Rightarrow> u64 \<Rightarrow> nat \<Rightarrow> nat \<Rightarrow> bool \<Rightarrow> ident
    \<Rightarrow> (output_data list \<times> u64 \<times> u64 \<times> u64) result" where
  "select_coins_and_fee X w amount amount_includes_fee current_height minimum_confirmations max_outputs
       change_outputs selection_strategy_is_use_all parent_key_id =
     rbind (select_coins w amount current_height minimum_confirmations max_outputs
              selection_strategy_is_use_all parent_key_id) (\<lambda>(max_outputs, coins).
     let fee = x_tx_fee X (length coins) 1 1;
         tot = coins_total coins;
         needed' = amount_with_fee amount_includes_fee amount fee
     in if tot = 0 then Err (not_enough_funds X 0 needed')
        else if tot < needed' \<and> length coins = max_outputs then Err (not_enough_funds X tot needed')
        else if tot \<noteq> needed' then
          rbind (case fee_loop X (\<lambda>need. select_coins w need current_height minimum_confirmations
                        max_outputs selection_strategy_is_use_all parent_key_id)
                    max_outputs amount_includes_fee amount (change_outputs + 1)
                    (max_outputs + 2) coins of Some r \<Rightarrow> r | None \<Rightarrow> Panic) (\<lambda>coins.
          finish_selection X amount_includes_fee amount change_outputs coins
            (x_tx_fee X (length coins) (change_outputs + 1) 1))
        else finish_selection X amount_includes_fee amount change_outputs coins fee)"

text \<open>The inputs of a transaction and its change, in equal parts and a last one with the remainder\<close>

definition input_elem :: "output_data \<Rightarrow> build_elem" where
  "input_elem coin = (if out_is_coinbase coin then build_coinbase_input (out_value coin) (out_key_id coin)
     else build_input (out_value coin) (out_key_id coin))"

text \<open>A change output: its amount, its key and its (unknown) position\<close>

type_synonym change_id = "u64 \<times> ident \<times> u64 option"

definition change_amounts :: "u64 \<Rightarrow> nat \<Rightarrow> u64 list result" where
  "change_amounts change n =
     (if (of_nat n :: u64) = 0 then Panic
      else let part_change = change div of_nat n in
        if part_change = 0 then Panic
        else let remainder_change = change mod part_change in
          Ok (map (\<lambda>x. if x = n - 1 then part_change + remainder_change else part_change) [0..<n]))"

definition inputs_and_change ::
  "ext \<Rightarrow> output_data list \<Rightarrow> secret_key option \<Rightarrow> u64 \<Rightarrow> u64 \<Rightarrow> nat \<Rightarrow> bool
    \<Rightarrow> (build_elem list \<times> change_id list) wop" where
  "inputs_and_change X coins km amount fee num_change_outputs include_inputs_in_sum =
     (let tot = coins_total coins;
          change = tot - amount - fee;
          parts = (if include_inputs_in_sum then map input_elem coins else [])
      in if change = 0 then sret (parts, [])
         else sbind (slift (change_amounts change num_change_outputs)) (\<lambda>amounts.
              sbind (smap (\<lambda>change_amount.
                  sbind (next_child X km) (\<lambda>change_key. sret (change_amount, change_key, None))) amounts)
                (\<lambda>derivs. sret (parts @ map (\<lambda>(a, change_key, _). build_output a change_key) derivs, derivs))))"

definition select_send_tx ::
  "ext \<Rightarrow> secret_key option \<Rightarrow> u64 \<Rightarrow> bool \<Rightarrow> u64 \<Rightarrow> u64 \<Rightarrow> nat \<Rightarrow> nat \<Rightarrow> bool \<Rightarrow> ident \<Rightarrow> bool
    \<Rightarrow> (build_elem list \<times> output_data list \<times> change_id list \<times> u64) wop" where
  "select_send_tx X km amount amount_includes_fee current_height minimum_confirmations max_outputs
       change_outputs selection_strategy_is_use_all parent_key_id include_inputs_in_sum =
     sbind (sread (\<lambda>w. select_coins_and_fee X w amount amount_includes_fee current_height
              minimum_confirmations max_outputs change_outputs selection_strategy_is_use_all parent_key_id)) (\<lambda>r.
     sbind (slift r) (\<lambda>(coins, _, amount, fee).
     sbind (inputs_and_change X coins km amount fee change_outputs include_inputs_in_sum) (\<lambda>(parts, derivs).
       sret (parts, coins, derivs, fee))))"

end
