(* ===== verification/Selection_Laws.thy ===== *)
theory Selection_Laws
  imports Selection
begin

text \<open>
  What coin selection guarantees. Sums are taken in the natural numbers (\<open>value_sum\<close>) and
  related to the machine's wrapping sums under \<open>fits\<close>, that all the eligible outputs together
  are less than \<open>2\<^sup>6\<^sup>4\<close>. The interface between the selection of coins and the fee loop is the
  locale \<open>reselection\<close>: that another round either picks more coins or picks all of them.
\<close>

definition value_sum :: "output_data list \<Rightarrow> nat" where
  "value_sum coins = (\<Sum>c\<leftarrow>coins. unat (out_value c))"

definition fits :: "output_data list \<Rightarrow> bool" where
  "fits coins \<longleftrightarrow> value_sum coins < 2 ^ 64"

lemma value_sum_simps [simp]:
  "value_sum [] = 0" "value_sum (c # cs) = unat (out_value c) + value_sum cs"
  "value_sum (cs @ ds) = value_sum cs + value_sum ds" "value_sum (rev cs) = value_sum cs"
  by (simp_all add: value_sum_def rev_map [symmetric] sum_list_rev)

lemma value_sum_eq: "value_sum cs = (\<Sum>c\<in>#mset cs. unat (out_value c))"
  by (simp add: value_sum_def flip: sum_mset_sum_list)

lemma value_sum_mset: "mset cs = mset ds \<Longrightarrow> value_sum cs = value_sum ds"
  by (metis mset_map sum_mset_sum_list value_sum_def)

lemma value_sum_mono: "mset cs \<subseteq># mset ds \<Longrightarrow> value_sum cs \<le> value_sum ds"
  by (auto simp: value_sum_eq subset_mset.le_iff_add)

lemma value_sum_take_mono: "j \<le> k \<Longrightarrow> value_sum (take j cs) \<le> value_sum (take k cs)"
  by (metis le_add_diff_inverse le_add1 take_add value_sum_simps(3))

lemma unat_coins_total: "fits cs \<Longrightarrow> unat (coins_total cs) = value_sum cs"
  by (induction cs) (simp_all add: coins_total_def fits_def unat_word_ariths)

lemma fits_mono: "mset cs \<subseteq># mset ds \<Longrightarrow> fits ds \<Longrightarrow> fits cs"
  unfolding fits_def using value_sum_mono le_less_trans by blast

lemma coins_total_less_iff: "fits cs \<Longrightarrow> coins_total cs < a \<longleftrightarrow> value_sum cs < unat a"
  by (simp add: word_less_nat_alt unat_coins_total)

lemma coins_total_le_iff: "fits cs \<Longrightarrow> a \<le> coins_total cs \<longleftrightarrow> unat a \<le> value_sum cs"
  by (simp add: word_le_nat_alt unat_coins_total)

section \<open>Covering the amount\<close>

lemma take_covering_prefix: "\<exists>k \<le> length outs. take_covering a s outs = take k outs"
proof (induction a s outs rule: take_covering.induct)
  case (2 a s c cs)
  then show ?case
    by (cases "s < a") (force intro: exI [of _ "Suc _"] exI [of _ 0])+
qed simp

lemma take_covering_covers:
  "unat s + value_sum outs < 2 ^ 64 \<Longrightarrow> unat a \<le> unat s + value_sum outs \<Longrightarrow>
     unat a \<le> unat s + value_sum (take_covering a s outs)"
proof (induction a s outs rule: take_covering.induct)
  case (2 a s c cs)
  have s: "unat (s + out_value c) = unat s + unat (out_value c)"
    using 2(2) by (simp add: unat_word_ariths)
  show ?case
  proof (cases "s < a")
    case True
    then show ?thesis using 2(1) [OF True] 2(2,3) s by simp
  next
    case False
    then show ?thesis by (simp add: word_less_nat_alt)
  qed
qed simp

text \<open>Not one coin more than needed: without the last coin the amount is not reached.\<close>

lemma take_covering_minimal:
  "unat s + value_sum outs < 2 ^ 64 \<Longrightarrow> take_covering a s outs = t @ [c] \<Longrightarrow> unat s + value_sum t < unat a"
proof (induction a s outs arbitrary: t rule: take_covering.induct)
  case (2 a s x cs)
  have s: "unat (s + out_value x) = unat s + unat (out_value x)"
    using 2(2) by (simp add: unat_word_ariths)
  have less: "s < a" using 2(3) by (auto split: if_splits)
  show ?case
  proof (cases t)
    case Nil
    then show ?thesis using less by (simp add: word_less_nat_alt)
  next
    case (Cons y t')
    then have "y = x" "take_covering a (s + out_value x) cs = t' @ [c]"
      using 2(3) less by auto
    then show ?thesis using 2(1) [OF less, of t'] 2(2) s Cons by simp
  qed
qed simp

lemma select_from_Some:
  assumes "fits outs" "select_from a all outs = Some sel"
  shows "unat a \<le> value_sum sel \<and> mset sel \<subseteq># mset outs \<and> (all \<longrightarrow> sel = outs) \<and>
    (\<not> all \<longrightarrow> (\<exists>k. sel = take k outs) \<and> (\<forall>t c. sel = t @ [c] \<longrightarrow> value_sum t < unat a))"
proof -
  have le: "unat a \<le> value_sum outs"
    using assms by (auto simp: select_from_def coins_total_le_iff split: if_splits)
  have sub: "mset (take k outs) \<subseteq># mset outs" for k
    by (metis append_take_drop_id mset_append mset_subset_eq_add_left)
  show ?thesis
    using assms le sub take_covering_prefix [of outs a 0]
      take_covering_covers [of 0 outs a] take_covering_minimal [of 0 outs a]
    by (auto simp: select_from_def fits_def split: if_splits)
qed

lemma select_from_None: "fits outs \<Longrightarrow> select_from a all outs = None \<longleftrightarrow> value_sum outs < unat a"
  by (simp add: select_from_def coins_total_le_iff not_le)

lemma first_some_Some: "first_some f xs = Some y \<Longrightarrow> \<exists>x \<in> set xs. f x = Some y"
  by (induction xs) (auto split: option.splits)

lemma windows_sub: "v \<in> set (windows n xs) \<Longrightarrow> mset v \<subseteq># mset xs \<and> length v \<le> n"
proof -
  assume "v \<in> set (windows n xs)"
  then obtain i where v: "v = take n (drop i xs)" by (auto simp: windows_def)
  have "mset xs = mset (take i xs) + (mset v + mset (drop n (drop i xs)))"
    unfolding v by (metis append_take_drop_id mset_append)
  then show ?thesis by (simp add: v)
qed

section \<open>The selection\<close>

lemma select_coins_of_Ok:
  assumes "select_coins_of outs a max_outputs all = Ok (m, coins)" "fits outs"
  shows "m = length outs \<and> mset coins \<subseteq># mset outs \<and>
    (unat a \<le> value_sum outs \<longrightarrow> unat a \<le> value_sum coins)"
proof -
  let ?E = "sort_key out_value outs"
  have E: "mset ?E = mset outs" "length ?E = length outs" "value_sum ?E = value_sum outs" "fits ?E"
    using assms(2) value_sum_mset [of ?E outs] by (simp_all add: fits_def)
  have rev: "mset (take k (rev ?E)) \<subseteq># mset outs" for k
    by (metis E(1) append_take_drop_id mset_append mset_rev mset_subset_eq_add_left)
  have win: "mset sel \<subseteq># mset outs \<and> unat a \<le> value_sum sel"
    if sel: "first_some (select_from a all) (windows max_outputs ?E) = Some sel" for sel
  proof -
    obtain v where v: "v \<in> set (windows max_outputs ?E)" "select_from a all v = Some sel"
      using first_some_Some [OF sel] by blast
    have vE: "mset v \<subseteq># mset ?E" using windows_sub [OF v(1)] by blast
    then show ?thesis
      using select_from_Some [OF fits_mono [OF vE E(4)] v(2)] E(1) subset_mset.trans by metis
  qed
  show ?thesis
    using assms(1) rev win E select_from_Some [OF E(4), of a] select_from_None [OF E(4), of a]
    by (auto simp: select_coins_of_def Let_def split: if_splits option.splits)
qed

text \<open>With room for every output, one selection takes all of them or the smallest that suffice.\<close>

definition pick :: "bool \<Rightarrow> output_data list \<Rightarrow> u64 \<Rightarrow> output_data list" where
  "pick all outs a = (case select_from a all (sort_key out_value outs) of
     Some sel \<Rightarrow> sel | None \<Rightarrow> rev (sort_key out_value outs))"

lemma select_coins_of_room:
  "select_coins_of outs a (length outs) all = Ok (length outs, pick all outs a)"
  by (simp add: select_coins_of_def pick_def Let_def split: option.split)

lemma pick_sub: "fits outs \<Longrightarrow> mset (pick all outs a) \<subseteq># mset outs"
  using select_coins_of_Ok [OF select_coins_of_room] by blast

locale reselection =
  fixes coins_for :: "'s \<Rightarrow> u64 \<Rightarrow> output_data list"
    and room :: "'s \<Rightarrow> nat"
    and good :: "'s \<Rightarrow> bool"
  assumes coins_room: "good s \<Longrightarrow> length (coins_for s a) \<le> room s"
    and progress: "good s \<Longrightarrow> coins_total (coins_for s a) < b \<Longrightarrow>
      length (coins_for s a) < length (coins_for s b) \<or> length (coins_for s b) = room s"
begin

lemma loop_ends_chosen:
  assumes "good s"
  shows "room s < length (coins_for s a) + fuel \<Longrightarrow>
    fee_loop X (\<lambda>b. Ok (m, coins_for s b)) (room s) incl amount n fuel (coins_for s a) \<noteq> None"
proof (induction fuel arbitrary: a)
  case 0
  then show ?case using coins_room [OF assms, of a] by simp
next
  case (Suc fuel)
  define b where "b = amount_with_fee incl amount (x_tx_fee X (length (coins_for s a)) n 1)"
  show ?case
  proof (cases "coins_total (coins_for s a) < b \<and> length (coins_for s a) \<noteq> room s")
    case True
    have "room s < length (coins_for s b) + fuel"
      using progress [OF assms, of a b] True coins_room [OF assms, of a] Suc.prems by auto
    with Suc.IH [of b] True show ?thesis
      by (simp add: b_def Let_def)
  next
    case False
    then show ?thesis by (auto simp: b_def Let_def)
  qed
qed

lemma loop_ends:
  assumes "good s" "room s + 1 < fuel"
  shows "fee_loop X (\<lambda>b. Ok (m, coins_for s b)) (room s) incl amount n fuel coins \<noteq> None"
proof -
  obtain f where f: "fuel = Suc f" "room s < f" using assms(2) by (cases fuel) auto
  define b where "b = amount_with_fee incl amount (x_tx_fee X (length coins) n 1)"
  have "fee_loop X (\<lambda>b. Ok (m, coins_for s b)) (room s) incl amount n f (coins_for s b) \<noteq> None"
    by (rule loop_ends_chosen [OF assms(1)]) (use f in simp)
  then show ?thesis by (simp add: f b_def Let_def)
qed

end

lemma fits_sort: "fits (sort_key out_value outs) = fits outs"
  by (simp add: fits_def value_sum_mset [of "sort_key out_value outs" outs])

interpretation sel: reselection "pick all" length fits for all
proof unfold_locales
  fix outs a b
  assume fits: "fits outs"
  let ?E = "sort_key out_value outs"
  have E: "fits ?E" using fits by (simp add: fits_sort)
  show len: "length (pick all outs a) \<le> length outs" for a
    using select_from_Some [OF E, of a all] by (auto simp: pick_def dest: size_mset_mono split: option.split)
  assume less: "coins_total (pick all outs a) < b"
  show "length (pick all outs a) < length (pick all outs b) \<or> length (pick all outs b) = length outs"
  proof (cases "select_from b all ?E")
    case None
    then show ?thesis by (simp add: pick_def)
  next
    case (Some sel)
    note sb = select_from_Some [OF E Some]
    show ?thesis
    proof (cases all)
      case True
      then show ?thesis using sb Some by (simp add: pick_def)
    next
      case False
      then obtain k where k: "sel = take k ?E" using sb by blast
      have "fits (pick all outs a)"
        using fits_mono [OF pick_sub [OF fits] fits] .
      then have va: "value_sum (pick all outs a) < value_sum sel"
        using less sb by (simp add: coins_total_less_iff)
      have "value_sum sel \<le> value_sum ?E" using sb value_sum_mono by blast
      with va obtain j where j: "pick all outs a = take j ?E"
        using select_from_Some [OF E, of a all] False by (auto simp: pick_def split: option.splits)
      have "\<not> k \<le> j" using va value_sum_take_mono [of k j ?E] by (auto simp: k j)
      moreover have "pick all outs b = take k ?E" by (simp add: pick_def Some k)
      ultimately show ?thesis by (simp add: j) linarith
    qed
  qed
qed

section \<open>The fee loop\<close>

lemma fee_loop_Ok:
  "fee_loop X reselect m incl amount n fuel coins = Some (Ok cs) \<Longrightarrow>
     amount_with_fee incl amount (x_tx_fee X (length cs) n 1) \<le> coins_total cs \<and>
     (cs = coins \<or> (\<exists>a k. reselect a = Ok (k, cs)))"
proof (induction fuel arbitrary: coins)
  case (Suc fuel)
  then show ?case
    by (auto simp: Let_def not_less split: if_splits res.splits prod.splits)
qed simp

lemma fee_loop_no_panic:
  "(\<And>a. reselect a \<noteq> Panic) \<Longrightarrow> fee_loop X reselect m incl amount n fuel coins \<noteq> Some Panic"
  by (induction fuel arbitrary: coins) (auto simp: Let_def split: res.splits)

lemma fee_loop_enough:
  assumes "fits outs" "length outs + 2 \<le> fuel"
  shows "fee_loop X (\<lambda>need. select_coins_of outs need (length outs) all) (length outs) incl amount n fuel coins \<noteq> None"
  unfolding select_coins_of_room using sel.loop_ends [OF assms(1), of fuel] assms(2) by simp

end
