(* ===== verification/Selection_Props.thy ===== *)
theory Selection_Props
  imports Selection_Laws Backend_Props
begin

text \<open>
  The properties of coin selection: what a selection returns pays for the amount and its fee
  out of eligible coins, the search ends and finds the funds when they are there, and the
  change outputs add up exactly when the remainder is smaller than a part.
\<close>

section \<open>Amounts and fees\<close>

lemma finish_selection_Ok:
  "finish_selection X incl amount co coins fee = Ok (cs, t, new_amount, f) \<longleftrightarrow>
     cs = coins \<and> t = coins_total coins \<and> f = fee \<and>
     is_Ok (weight_check X coins t incl (amount_with_fee incl amount fee) co) \<and>
     (if incl then fee \<le> amount \<and> new_amount = amount - fee else new_amount = amount)"
  by (auto simp: finish_selection_def Let_def res_simps is_Ok_ex checked_sub64_def split: if_splits)

lemma weight_check_Ok:
  "is_Ok (weight_check X coins t incl needed' co) \<longleftrightarrow>
     x_weight_by_iok X (of_nat (length coins)) (of_nat (if t = needed' then 1 else co + 1)) 1 \<le> x_max_tx_weight X"
  by (auto simp: weight_check_def Let_def split: prod.split)

text \<open>The two ways a selection ends: with no change, or after the fee loop.\<close>

lemma select_coins_and_fee_Ok:
  assumes "select_coins_and_fee X w amount incl h mc mx co all p = Ok (coins, t, new_amount, fee)"
  shows "\<exists>m. (\<exists>a mx'. select_coins w a h mc mx' all p = Ok (m, coins)) \<and>
    t = coins_total coins \<and>
    fee \<in> {x_tx_fee X (length coins) 1 1, x_tx_fee X (length coins) (co + 1) 1} \<and>
    amount_with_fee incl amount fee \<le> t \<and>
    is_Ok (weight_check X coins t incl (amount_with_fee incl amount fee) co) \<and>
    (if incl then fee \<le> amount \<and> new_amount = amount - fee else new_amount = amount)"
proof -
  obtain m cs where sel: "select_coins w amount h mc mx all p = Ok (m, cs)"
    using assms by (auto simp: select_coins_and_fee_def res_simps)
  show ?thesis
  proof (cases "coins_total cs = amount_with_fee incl amount (x_tx_fee X (length cs) 1 1)")
    case True
    then show ?thesis
      using assms sel by (auto simp: select_coins_and_fee_def Let_def finish_selection_Ok split: if_splits)
  next
    case False
    then obtain r where r: "fee_loop X (\<lambda>need. select_coins w need h mc m all p) m incl amount (co + 1) (m + 2) cs = Some (Ok r)"
      and fin: "finish_selection X incl amount co r (x_tx_fee X (length r) (co + 1) 1) = Ok (coins, t, new_amount, fee)"
      using assms sel
      by (auto simp: select_coins_and_fee_def Let_def res_simps split: if_splits option.splits)
    then show ?thesis
      using fee_loop_Ok [OF r] sel by (auto simp: finish_selection_Ok)
  qed
qed


definition rich_wallet :: wallet where
  "rich_wallet = sample_wallet\<lparr>w_db := foldr db_store
     [sample_output 1 500 Unspent, sample_output 2 300 Unspent, sample_output 3 200 Unspent] db_empty\<rparr>"

lemma rich_sum: "value_sum (eligible_outputs rich_wallet 20 1 (w_parent_key_id rich_wallet)) = 1000"
  by code_simp

lemma rich_fits: "fits (eligible_outputs rich_wallet 20 1 (w_parent_key_id rich_wallet))"
  by (simp add: fits_def rich_sum)


section \<open>Finding the funds\<close>

lemma fee_loop_no_Err:
  assumes "fits outs" "mset coins \<subseteq># mset outs"
    and "unat (amount_with_fee incl amount (x_tx_fee X (length outs) n 1)) \<le> value_sum outs"
  shows "fee_loop X (\<lambda>need. select_coins_of outs need (length outs) all) (length outs) incl amount n fuel coins \<noteq> Some (Err e)"
  using assms(2)
proof (induction fuel arbitrary: coins)
  case (Suc fuel)
  let ?b = "amount_with_fee incl amount (x_tx_fee X (length coins) n 1)"
  have "mset coins = mset outs" if "length coins = length outs"
    using Suc.prems that by (metis size_mset mset_subset_size subset_mset.le_imp_less_or_eq nless_le)
  then have "\<not> (coins_total coins < ?b \<and> length coins = length outs)"
    using assms(1,3) value_sum_mset [of coins outs] coins_total_less_iff [OF fits_mono [OF Suc.prems assms(1)], of ?b]
    by auto
  moreover have "mset (pick all outs ?b) \<subseteq># mset outs" by (rule pick_sub [OF assms(1)])
  ultimately show ?case
    using Suc.IH [of "pick all outs ?b"] by (simp add: Let_def select_coins_of_room)
qed simp


lemma sample_fee: "i + 21 * o' + 3 * k < 2 ^ 64 \<Longrightarrow> unat (x_tx_fee sample_ext i o' k) = i + 21 * o' + 3 * k"
  by (simp add: sample_ext_def unsigned_of_nat take_bit_nat_eq_self del: of_nat_add of_nat_mult)


section \<open>Change\<close>

lemma sum_parts:
  assumes "0 < n"
  shows "(\<Sum>x\<leftarrow>[0..<n]. if x = n - 1 then p + r else p) = n * p + (r :: nat)"
proof -
  obtain k where k: "n = Suc k" using assms by (cases n) auto
  have "sum_list (map (\<lambda>x. if x = k then p + r else p) [0..<k]) = sum_list (map (\<lambda>x. p) [0..<k])"
    by (intro arg_cong [where f = sum_list] map_cong) auto
  then show ?thesis by (simp add: k sum_list_triv)
qed

lemma change_amounts_Ok:
  assumes "change_amounts change n = Ok xs" "n < 2 ^ 64"
  shows "length xs = n \<and> 0 < n \<and> 0 < unat change div n \<and>
    sum_list (map unat xs) = n * (unat change div n) + unat change mod (unat change div n)"
proof -
  have un: "unat (of_nat n :: u64) = n" using assms(2) by (simp add: unsigned_of_nat take_bit_nat_eq_self)
  define p where "p = change div of_nat n"
  have p: "unat p = unat change div n" by (simp add: p_def unat_div un)
  have n0: "(of_nat n :: u64) \<noteq> 0" and p0: "p \<noteq> 0"
    and xs: "xs = map (\<lambda>x. if x = n - 1 then p + change mod p else p) [0..<n]"
    using assms(1) by (auto simp: change_amounts_def Let_def p_def split: if_splits)
  have n: "0 < n" using n0 by (cases n) auto
  have pos: "0 < unat p" using p0 by (simp add: word_neq_0_conv unat_gt_0)
  have "unat p + unat change mod unat p \<le> unat change"
    using div_mult_mod_eq [of "unat change" "unat p"] pos p div_le_dividend [of "unat change" n]
    by (metis Suc_leI add_le_mono1 div_greater_zero_iff mult_1 mult_le_mono1 One_nat_def)
  moreover have "unat change < 2 ^ 64"
    by (rule order_less_le_trans [OF unsigned_less]) simp
  ultimately have sum: "unat (p + change mod p) = unat p + unat change mod unat p"
    by (simp add: unat_word_ariths unat_mod)
  have "sum_list (map unat xs) = (\<Sum>x\<leftarrow>[0..<n]. if x = n - 1 then unat p + unat change mod unat p else unat p)"
    unfolding xs map_map by (intro arg_cong [where f = sum_list] map_cong) (auto simp: sum)
  also have "... = n * unat p + unat change mod unat p" by (rule sum_parts [OF n])
  finally show ?thesis using n pos by (simp add: p) (simp add: xs)
qed

text \<open>The change is split into as many parts as asked for, but the parts add up to the
  change exactly when the remainder of the division is smaller than a part; otherwise the parts
  fall short and the rest is lost. Splitting panics when the change is smaller than the number of
  parts, or that number is zero.\<close>

theorem change_adds_up:
  assumes "n < 2 ^ 64"
  shows "case change_amounts change n of
      Ok xs \<Rightarrow> length xs = n \<and> n \<le> unat change \<and> sum_list (map unat xs) \<le> unat change \<and>
        (sum_list (map unat xs) = unat change \<longleftrightarrow> unat change mod n < unat change div n)
    | Err e \<Rightarrow> False
    | Panic \<Rightarrow> n = 0 \<or> unat change < n"
proof -
  have un: "unat (of_nat n :: u64) = n" using assms by (simp add: unsigned_of_nat take_bit_nat_eq_self)
  show ?thesis
  proof (cases "change_amounts change n")
    case (Ok xs)
    define p r where "p = unat change div n" and "r = unat change mod n"
    note xs = change_amounts_Ok [OF Ok assms, folded p_def]
    have c: "unat change = n * p + r" by (simp add: p_def r_def)
    have "unat change mod p = r mod p" by (simp add: c)
    then have sum: "sum_list (map unat xs) = n * p + r mod p" using xs by simp
    have "r mod p = r \<longleftrightarrow> r < p" using xs by (metis mod_less mod_less_divisor)
    moreover have "n \<le> n * p" "r mod p \<le> r" using xs by simp_all
    ultimately have "n \<le> unat change" "sum_list (map unat xs) \<le> unat change"
      "sum_list (map unat xs) = unat change \<longleftrightarrow> r < p"
      unfolding sum c by linarith+
    then show ?thesis
      using Ok xs by (simp add: p_def [symmetric] r_def [symmetric])
  next
    case Panic
    then show ?thesis
      by (auto simp: change_amounts_def Let_def un word_unat_eq_iff unat_div div_eq_0_iff split: if_splits)
  qed (auto simp: change_amounts_def Let_def split: if_splits)
qed

theorem change_adds_up_witness:
  "change_amounts 5 3 = Ok [1, 1, 1] \<and> change_amounts 2 3 = Panic \<and>
   (case change_amounts 5 3 of Ok xs \<Rightarrow> sum_list (map unat xs) \<noteq> 5 | _ \<Rightarrow> False)"
  using change_adds_up [of 3 5] by (simp add: change_amounts_def upt_rec)

lemma smap_change_Ok:
  "smap (\<lambda>a. sbind (next_child X km) (\<lambda>k. sret (a, k, None))) amounts w = (Ok ds, w') \<Longrightarrow>
     map fst ds = amounts \<and> w_keychain w' = w_keychain w"
  by (induction amounts arbitrary: w ds) (auto simp: res_simps next_child_Ok)

lemma inputs_and_change_eq:
  "coins_total coins - amount - fee = change \<Longrightarrow>
   inputs_and_change X coins km amount fee n incl =
     (let parts = (if incl then map input_elem coins else []) in
      if change = 0 then sret (parts, [])
      else sbind (slift (change_amounts change n)) (\<lambda>amounts.
           sbind (smap (\<lambda>a. sbind (next_child X km) (\<lambda>k. sret (a, k, None))) amounts)
             (\<lambda>derivs. sret (parts @ map (\<lambda>(a, k, _). build_output a k) derivs, derivs))))"
  unfolding inputs_and_change_def Let_def by (erule subst) (rule refl)



end
