(* ===== verification/Keys.thy ===== *)
theory Keys
  imports Backend_Laws
begin

text \<open>
  Keys and accounts (\<open>libwallet/src/internal/keys.rs\<close> and \<open>address.rs\<close>): the next key under the
  active account, the accounts and their paths, and the key behind a payment proof address.
  A new account takes the first path component above all the others.
\<close>

definition next_available_key :: "ext \<Rightarrow> secret_key option \<Rightarrow> ident wop" where
  "next_available_key X km = next_child X km"

definition retrieve_existing_key :: "ext \<Rightarrow> ident \<Rightarrow> u64 option \<Rightarrow> (ident \<times> u32) wop" where
  "retrieve_existing_key X key_id mmr_index =
     sbind (wallet_get X key_id mmr_index) (\<lambda>existing. sret (out_key_id existing, out_n_child existing))"

definition accounts :: "wallet \<Rightarrow> acct_path_mapping list" where
  "accounts w = acct_path_iter (w_db w)"

text \<open>The first component of an account's path, and \<open>max_by\<close>: the last of the greatest\<close>

definition acct_index :: "ext \<Rightarrow> acct_path_mapping \<Rightarrow> u32" where
  "acct_index X a = kp_path (x_to_path X (acct_path a)) ! 0"

definition max_by :: "('a \<Rightarrow> 'b::linorder) \<Rightarrow> 'a list \<Rightarrow> 'a option" where
  "max_by f xs = foldl (\<lambda>acc x. case acc of None \<Rightarrow> Some x | Some a \<Rightarrow> if f x \<ge> f a then Some x else Some a) None xs"

lemma max_by_Some:
  "(max_by f xs = None \<longleftrightarrow> xs = []) \<and> (\<forall>a. max_by f xs = Some a \<longrightarrow> a \<in> set xs \<and> (\<forall>x \<in> set xs. f x \<le> f a))"
proof (induction xs rule: rev_induct)
  case (snoc x xs)
  have "max_by f (xs @ [x]) =
      (case max_by f xs of None \<Rightarrow> Some x | Some a \<Rightarrow> if f x \<ge> f a then Some x else Some a)"
    by (simp add: max_by_def)
  with snoc show ?case
    by (auto split: option.splits if_splits)
qed (simp add: max_by_def)

definition new_acct_path :: "ext \<Rightarrow> secret_key option \<Rightarrow> string \<Rightarrow> ident wop" where
  "new_acct_path X km label =
     sbind (sread accounts) (\<lambda>accts.
       if \<exists>l \<in> set accts. acct_label l = label then sfail (Wal (AccountLabelAlreadyExists label))
       else
         let return_id = (case max_by (acct_index X) accts of
               Some e \<Rightarrow> (let p = x_to_path X (acct_path e)
                          in x_from_path X (p\<lparr>kp_path := (kp_path p)[0 := kp_path p ! 0 + 1]\<rparr>))
             | None \<Rightarrow> x_derive_key_id X 2 0 0 0 0)
         in sbind (with_batch X km (\<lambda>_. save_acct_path \<lparr>acct_label = label, acct_path = return_id\<rparr>)) (\<lambda>_.
            sret return_id))"

definition set_acct_path :: "ext \<Rightarrow> secret_key option \<Rightarrow> string \<Rightarrow> ident \<Rightarrow> unit wop" where
  "set_acct_path X km label path =
     with_batch X km (\<lambda>_. save_acct_path \<lparr>acct_label = label, acct_path = path\<rparr>)"

text \<open>The secret key of the address at an index of an account; a path has four levels.\<close>

definition address_from_derivation_path :: "ext \<Rightarrow> keychain \<Rightarrow> ident \<Rightarrow> u32 \<Rightarrow> secret_key result" where
  "address_from_derivation_path X k parent_key_id index =
     (let key_path = x_to_path X parent_key_id;
          depth = kp_depth key_path + 1
      in if 0 < depth \<and> unat depth - 1 < length (kp_path key_path) \<and> 1 < length (kp_path key_path) then
           let key_id = x_from_path X
                 \<lparr>kp_depth = depth, kp_path = (kp_path key_path)[1 := 1, unat depth - 1 := index]\<rparr>
           in rbind (x_derive_key X k 0 key_id Switch_None) (\<lambda>sec_key.
              x_sk_from_slice X (x_blake2b X 32 [] sec_key))
         else Panic)"

lemma keeps_keys [keeps_intros]:
  "keeps w_wf (next_available_key X km)" "keeps w_wf (retrieve_existing_key X i m)"
  "keeps w_wf (set_acct_path X km l p)"
  unfolding next_available_key_def retrieve_existing_key_def set_acct_path_def
  by (intro keeps_intros)+

lemma keeps_new_acct_path [keeps_intros]: "keeps w_wf (new_acct_path X km l)"
  unfolding new_acct_path_def
  by (rule keeps_sbind) (auto simp: Let_def intro!: keeps_intros)

end
