(* ===== verification/Updater.thy ===== *)
theory Updater
  imports Keys "HOL-Library.AList" "HOL-Library.Option_ord"
begin

text \<open>
  The updater (\<open>libwallet/src/internal/updater.rs\<close>): listing outputs and transactions,
  cancelling, refreshing the outputs from what the node knows, the summary of an account, and
  coinbase outputs. A hash map is an association list, whose order stands for the unspecified
  order in which the code visits it.
\<close>

section \<open>Listing outputs\<close>

text \<open>The cached commitment of an output, or the one its key gives\<close>

definition cached_commit :: "ext \<Rightarrow> keychain \<Rightarrow> output_data \<Rightarrow> commitment result" where
  "cached_commit X k out = (case out_commit out of
     Some c \<Rightarrow> rbind (unwrap (x_from_hex X c)) (\<lambda>v. Ok (x_commit_from_vec X v))
   | None \<Rightarrow> must (x_commit X k (out_value out) (out_key_id out) Switch_Regular))"

definition retrieve_outputs ::
  "ext \<Rightarrow> secret_key option \<Rightarrow> bool \<Rightarrow> u32 option \<Rightarrow> ident option \<Rightarrow> output_commit_mapping list wop" where
  "retrieve_outputs X km show_spent tx_id parent_key_id =
     sbind (sread (\<lambda>w. filter (\<lambda>out. show_spent \<or> out_status out \<noteq> Spent) (wallet_iter w))) (\<lambda>outputs.
     let outputs = (case tx_id of Some i \<Rightarrow> filter (\<lambda>out. out_tx_log_entry out = Some i) outputs | None \<Rightarrow> outputs);
         outputs = (case parent_key_id of Some k \<Rightarrow> filter (\<lambda>o'. out_root_key_id o' = k) outputs | None \<Rightarrow> outputs);
         outputs = sort_key out_n_child outputs
     in sbind (the_keychain X km) (\<lambda>k.
        slift (rmap (\<lambda>output. rbind (cached_commit X k output) (\<lambda>c.
          Ok \<lparr>ocm_output = output, ocm_commit = c\<rparr>)) outputs)))"

section \<open>Listing transactions\<close>

datatype sort_order = Asc | Desc

datatype sort_field =
  SF_Id | SF_CreationTimestamp | SF_ConfirmationTimestamp | SF_TotalAmount | SF_AmountCredited | SF_AmountDebited

record retrieve_tx_query_args =
  q_min_id :: "u32 option"
  q_max_id :: "u32 option"
  q_limit :: "u32 option"
  q_exclude_cancelled :: "bool option"
  q_include_outstanding_only :: "bool option"
  q_include_confirmed_only :: "bool option"
  q_include_sent_only :: "bool option"
  q_include_received_only :: "bool option"
  q_include_coinbase_only :: "bool option"
  q_include_reverted_only :: "bool option"
  q_min_amount :: "u64 option"
  q_max_amount :: "u64 option"
  q_min_creation_timestamp :: "timestamp option"
  q_max_creation_timestamp :: "timestamp option"
  q_min_confirmed_timestamp :: "timestamp option"
  q_max_confirmed_timestamp :: "timestamp option"
  q_sort_field :: "sort_field option"
  q_sort_order :: "sort_order option"

definition query_args_default :: retrieve_tx_query_args where
  "query_args_default = \<lparr>
     q_min_id = None, q_max_id = None, q_limit = None, q_exclude_cancelled = Some False,
     q_include_outstanding_only = Some False, q_include_confirmed_only = Some False,
     q_include_sent_only = Some False, q_include_received_only = Some False,
     q_include_coinbase_only = Some False, q_include_reverted_only = Some False,
     q_min_amount = None, q_max_amount = None, q_min_creation_timestamp = None,
     q_max_creation_timestamp = None, q_min_confirmed_timestamp = None,
     q_max_confirmed_timestamp = None, q_sort_field = Some SF_Id, q_sort_order = Some Asc\<rparr>"

definition flag :: "bool option \<Rightarrow> bool \<Rightarrow> bool" where
  "flag v c = (case v of Some v \<Rightarrow> (if v then c else True) | None \<Rightarrow> True)"

definition bound :: "'a option \<Rightarrow> ('a \<Rightarrow> bool) \<Rightarrow> bool" where
  "bound v c = (case v of Some v \<Rightarrow> c v | None \<Rightarrow> True)"

text \<open>The net amount of an entry: what a sent transaction cost, what any other brought\<close>

definition net_amount :: "tx_log_entry \<Rightarrow> int" where
  "net_amount tx =
     (if txe_tx_type tx = TxSent \<or> txe_tx_type tx = TxSentCancelled
      then uint (txe_amount_debited tx) - uint (txe_amount_credited tx)
      else uint (txe_amount_credited tx) - uint (txe_amount_debited tx))"

definition tx_query_filter :: "ident option \<Rightarrow> retrieve_tx_query_args \<Rightarrow> tx_log_entry \<Rightarrow> bool" where
  "tx_query_filter parent_key_id q tx \<longleftrightarrow>
     bound parent_key_id (\<lambda>k. txe_parent_key_id tx = k) \<and>
     flag (q_exclude_cancelled q) (txe_tx_type tx \<noteq> TxReceivedCancelled \<and> txe_tx_type tx \<noteq> TxSentCancelled) \<and>
     flag (q_include_outstanding_only q) (\<not> txe_confirmed tx) \<and>
     flag (q_include_confirmed_only q) (txe_confirmed tx) \<and>
     flag (q_include_sent_only q) (txe_tx_type tx = TxSent \<or> txe_tx_type tx = TxSentCancelled) \<and>
     flag (q_include_received_only q) (txe_tx_type tx = TxReceived \<or> txe_tx_type tx = TxReceivedCancelled) \<and>
     flag (q_include_coinbase_only q) (txe_tx_type tx = ConfirmedCoinbase) \<and>
     flag (q_include_reverted_only q) (txe_tx_type tx = TxReverted) \<and>
     bound (q_min_id q) (\<lambda>v. txe_id tx \<ge> v) \<and>
     bound (q_max_id q) (\<lambda>v. txe_id tx \<le> v) \<and>
     bound (q_min_amount q) (\<lambda>v. net_amount tx \<ge> uint v) \<and>
     bound (q_max_amount q) (\<lambda>v. net_amount tx \<le> uint v) \<and>
     bound (q_min_creation_timestamp q) (\<lambda>v. txe_creation_ts tx \<ge> v) \<and>
     bound (q_min_confirmed_timestamp q) (\<lambda>v. txe_creation_ts tx \<le> v) \<and>
     bound (q_min_confirmed_timestamp q) (\<lambda>v. bound (txe_confirmation_ts tx) (\<lambda>t. t \<ge> v)) \<and>
     bound (q_max_confirmed_timestamp q) (\<lambda>v. bound (txe_confirmation_ts tx) (\<lambda>t. t \<le> v))"

definition sort_txs :: "sort_field option \<Rightarrow> tx_log_entry list \<Rightarrow> tx_log_entry list" where
  "sort_txs field txs = (case field of
     Some SF_Id \<Rightarrow> sort_key txe_id txs
   | Some SF_CreationTimestamp \<Rightarrow> sort_key txe_creation_ts txs
   | Some SF_ConfirmationTimestamp \<Rightarrow> sort_key txe_confirmation_ts txs
   | Some SF_TotalAmount \<Rightarrow> sort_key net_amount txs
   | Some SF_AmountCredited \<Rightarrow> sort_key txe_amount_credited txs
   | Some SF_AmountDebited \<Rightarrow> sort_key txe_amount_debited txs
   | None \<Rightarrow> sort_key txe_id txs)"

definition apply_advanced_tx_list_filtering ::
  "wallet \<Rightarrow> ident option \<Rightarrow> retrieve_tx_query_args \<Rightarrow> tx_log_entry list" where
  "apply_advanced_tx_list_filtering w parent_key_id q =
     (let return_txs = filter (tx_query_filter parent_key_id q) (wallet_tx_log w);
          return_txs = sort_txs (q_sort_field q) return_txs;
          return_txs = (case q_sort_order q of Some Desc \<Rightarrow> rev return_txs | _ \<Rightarrow> return_txs)
      in case q_limit q of Some l \<Rightarrow> take (unat l) return_txs | None \<Rightarrow> return_txs)"

definition outstanding :: "tx_log_entry \<Rightarrow> bool" where
  "outstanding tx \<longleftrightarrow> \<not> txe_confirmed tx \<and>
     (txe_tx_type tx = TxReceived \<or> txe_tx_type tx = TxSent \<or> txe_tx_type tx = TxReverted)"

definition retrieve_txs ::
  "wallet \<Rightarrow> u32 option \<Rightarrow> uuid option \<Rightarrow> retrieve_tx_query_args option \<Rightarrow> ident option \<Rightarrow> bool \<Rightarrow> tx_log_entry list" where
  "retrieve_txs w tx_id tx_slate_id query_args parent_key_id outstanding_only =
     (case query_args of
        Some q \<Rightarrow>
          if tx_id = None \<and> tx_slate_id = None then apply_advanced_tx_list_filtering w parent_key_id q
          else sort_key txe_creation_ts (filter (\<lambda>tx.
            bound parent_key_id (\<lambda>k. txe_parent_key_id tx = k) \<and> bound tx_id (\<lambda>i. txe_id tx = i) \<and>
            bound tx_slate_id (\<lambda>t. txe_tx_slate_id tx = Some t) \<and> (outstanding_only \<longrightarrow> outstanding tx)) (wallet_tx_log w))
      | None \<Rightarrow> sort_key txe_creation_ts (filter (\<lambda>tx.
            bound parent_key_id (\<lambda>k. txe_parent_key_id tx = k) \<and> bound tx_id (\<lambda>i. txe_id tx = i) \<and>
            bound tx_slate_id (\<lambda>t. txe_tx_slate_id tx = Some t) \<and> (outstanding_only \<longrightarrow> outstanding tx)) (wallet_tx_log w)))"

section \<open>Cancelling\<close>

definition cancel_output :: "output_data \<Rightarrow> unit batch" where
  "cancel_output o' =
     sbind (if out_status o' = Unconfirmed \<or> out_status o' = Reverted
            then batch_delete (out_key_id o') (out_mmr_index o') else sret ()) (\<lambda>_.
     if out_status o' = Locked then batch_save (o'\<lparr>out_status := Unspent\<rparr>) else sret ())"

fun cancelled_type :: "tx_log_entry_type \<Rightarrow> tx_log_entry_type" where
  "cancelled_type TxSent = TxSentCancelled"
| "cancelled_type TxReceived = TxReceivedCancelled"
| "cancelled_type TxReverted = TxReceivedCancelled"
| "cancelled_type t = t"

definition cancel_tx_and_outputs ::
  "ext \<Rightarrow> secret_key option \<Rightarrow> tx_log_entry \<Rightarrow> output_data list \<Rightarrow> ident \<Rightarrow> unit wop" where
  "cancel_tx_and_outputs X km tx outputs parent_key_id =
     with_batch X km (\<lambda>_.
       sbind (sfor outputs cancel_output) (\<lambda>_.
         save_tx_log_entry (tx\<lparr>txe_tx_type := cancelled_type (txe_tx_type tx)\<rparr>) parent_key_id))"

section \<open>Refreshing outputs\<close>

type_synonym output_info = "ident \<times> u64 option \<times> u32 option \<times> bool"
type_synonym output_map = "(commitment \<times> output_info) list"
type_synonym api_map = "(commitment \<times> string \<times> u64 \<times> u64) list"

definition map_wallet_outputs :: "ext \<Rightarrow> secret_key option \<Rightarrow> ident \<Rightarrow> bool \<Rightarrow> output_map wop" where
  "map_wallet_outputs X km parent_key_id update_all =
     sbind (the_keychain X km) (\<lambda>k.
     sbind (sread (\<lambda>w.
       let unspents = filter (\<lambda>x. out_root_key_id x = parent_key_id \<and> out_status x \<noteq> Spent) (wallet_iter w);
           tx_entries = retrieve_txs w None None None (Some parent_key_id) True
       in if update_all then unspents
          else filter (\<lambda>x. case out_tx_log_entry x of
                 Some t \<Rightarrow> (\<exists>te \<in> set tx_entries. txe_id te = t) | None \<Rightarrow> True) unspents)) (\<lambda>unspents.
     sbind (slift (rmap (\<lambda>out. rbind (cached_commit X k out) (\<lambda>commit.
         Ok (commit, out_key_id out, out_mmr_index out, out_tx_log_entry out, out_status out = Unspent))) unspents)) (\<lambda>pairs.
       sret (fold (\<lambda>(commit, v) m. AList.update commit v m) pairs []))))"

text \<open>A coinbase output seen on the chain for the first time: a new confirmed log entry\<close>

definition record_coinbase ::
  "ext \<Rightarrow> timestamp \<Rightarrow> u64 \<Rightarrow> ident \<Rightarrow> commitment \<Rightarrow> output_data \<Rightarrow> output_data batch" where
  "record_coinbase X now height parent_key_id commit output =
     sbind (next_tx_log_id parent_key_id) (\<lambda>log_id.
     sbind (slift (rbind (x_commit_value X (out_value output)) (\<lambda>over_commit.
                   x_commit_sum X [commit] [over_commit]))) (\<lambda>excess.
     let t = update_confirmation_ts now
           ((tx_log_entry_new now parent_key_id ConfirmedCoinbase log_id)
             \<lparr>txe_confirmed := True, txe_amount_credited := out_value output, txe_amount_debited := 0,
              txe_num_outputs := 1, txe_kernel_excess := Some excess,
              txe_kernel_lookup_min_height := Some height\<rparr>)
     in sbind (save_tx_log_entry t parent_key_id) (\<lambda>_.
        sret (output\<lparr>out_tx_log_entry := Some log_id\<rparr>))))"

text \<open>The transaction an output belongs to is confirmed with it.\<close>

definition confirm_entry :: "timestamp \<Rightarrow> tx_log_entry \<Rightarrow> tx_log_entry" where
  "confirm_entry now t =
     (update_confirmation_ts now
       (if txe_tx_type t = TxReverted then t\<lparr>txe_tx_type := TxReceived, txe_reverted_after := None\<rparr> else t))
     \<lparr>txe_confirmed := True\<rparr>"

definition confirm_tx_of :: "timestamp \<Rightarrow> ident \<Rightarrow> output_data \<Rightarrow> unit batch" where
  "confirm_tx_of now parent_key_id output d =
     (case find (\<lambda>t. Some (txe_id t) = out_tx_log_entry output \<and> txe_parent_key_id t = parent_key_id) (tx_log d) of
        Some t \<Rightarrow> save_tx_log_entry (confirm_entry now t) parent_key_id d
      | None \<Rightarrow> (Ok (), d))"

definition apply_api_output ::
  "ext \<Rightarrow> timestamp \<Rightarrow> api_map \<Rightarrow> u32 list \<Rightarrow> u64 \<Rightarrow> ident \<Rightarrow> commitment \<times> output_info \<Rightarrow> unit batch" where
  "apply_api_output X now api_outputs reverted_kernels height parent_key_id = (\<lambda>(commit, key_id, mmr_index, _, _) d.
     case fst (batch_get X key_id mmr_index d) of
       Ok output \<Rightarrow>
         (case map_of api_outputs commit of
            Some (_, o_height, _) \<Rightarrow>
              sbind (if out_is_coinbase output \<and> out_status output = Unconfirmed
                     then record_coinbase X now height parent_key_id commit output else sret output) (\<lambda>output.
              sbind (if \<not> out_is_coinbase output \<and> (out_status output = Unconfirmed \<or> out_status output = Reverted)
                     then confirm_tx_of now parent_key_id output else sret ()) (\<lambda>_.
              batch_save (mark_unspent (output\<lparr>out_height := o_height\<rparr>)))) d
          | None \<Rightarrow>
              batch_save (if \<not> out_is_coinbase output \<and>
                  (case out_tx_log_entry output of Some i \<Rightarrow> i \<in> set reverted_kernels | None \<Rightarrow> False)
                then mark_reverted output else mark_spent output) d)
     | _ \<Rightarrow> (Ok (), d))"

definition revert_entry :: "timestamp \<Rightarrow> tx_log_entry \<Rightarrow> tx_log_entry" where
  "revert_entry now tx = tx\<lparr>txe_tx_type := TxReverted,
     txe_reverted_after := (case txe_confirmation_ts tx of
        Some t \<Rightarrow> (if now - t \<ge> 0 then Some (nat (now - t)) else None) | None \<Rightarrow> None),
     txe_confirmed := False\<rparr>"

definition apply_api_outputs ::
  "ext \<Rightarrow> timestamp \<Rightarrow> secret_key option \<Rightarrow> output_map \<Rightarrow> api_map \<Rightarrow> u32 list \<Rightarrow> u64 \<Rightarrow> ident \<Rightarrow> unit wop" where
  "apply_api_outputs X now km wallet_outputs api_outputs reverted_kernels height parent_key_id =
     sbind (sread (\<lambda>w. last_confirmed_height_for_parent w parent_key_id)) (\<lambda>last_confirmed_height.
       if height < last_confirmed_height then sret ()
       else with_batch X km (\<lambda>_.
         sbind (sfor wallet_outputs (apply_api_output X now api_outputs reverted_kernels height parent_key_id)) (\<lambda>_.
         sbind (sread (\<lambda>d. map (revert_entry now)
             (filter (\<lambda>tx. txe_id tx \<in> set reverted_kernels \<and> txe_parent_key_id tx = parent_key_id) (tx_log d)))) (\<lambda>txs_to_save.
         sbind (sfor txs_to_save (\<lambda>tx. save_tx_log_entry tx parent_key_id)) (\<lambda>_.
           save_last_confirmed_height parent_key_id height)))))"

definition disappeared_txs :: "output_map \<Rightarrow> api_map \<Rightarrow> u32 list" where
  "disappeared_txs wallet_outputs api_outputs =
     List.map_filter (\<lambda>(commit, _, _, tx_id, was_unspent).
       if was_unspent \<and> map_of api_outputs commit = None then tx_id else None) wallet_outputs"

definition find_reverted_kernels :: "node \<Rightarrow> output_map \<Rightarrow> api_map \<Rightarrow> ident \<Rightarrow> u32 list wop" where
  "find_reverted_kernels N wallet_outputs api_outputs parent_key_id w =
     (let ids = disappeared_txs wallet_outputs api_outputs;
          kernels = List.map_filter (\<lambda>t. map_option (\<lambda>e. (txe_id t, e, txe_kernel_lookup_min_height t)) (txe_kernel_excess t))
            (filter (\<lambda>t. txe_id t \<in> set ids \<and> txe_parent_key_id t = parent_key_id \<and> txe_tx_type t = TxReceived)
              (wallet_tx_log w))
      in (rbind (rmap (\<lambda>(i, excess, min_height).
              rbind (n_kernel N excess min_height None) (\<lambda>k. Ok (if k = None then Some i else None))) kernels)
            (\<lambda>rs. Ok (List.map_filter (\<lambda>r. r) rs)), w))"

definition clean_old_unconfirmed :: "ext \<Rightarrow> secret_key option \<Rightarrow> u64 \<Rightarrow> unit wop" where
  "clean_old_unconfirmed X km height =
     (if height < 50 then sret ()
      else sbind (sread (\<lambda>w. map out_key_id (filter (\<lambda>out. out_status out = Unconfirmed \<and> out_height out > 0
              \<and> out_height out < height - 50 \<and> out_is_coinbase out) (wallet_iter w)))) (\<lambda>ids_to_del.
           with_batch X km (\<lambda>_. sfor ids_to_del (\<lambda>i. batch_delete i None))))"

definition refresh_output_state ::
  "ext \<Rightarrow> node \<Rightarrow> timestamp \<Rightarrow> secret_key option \<Rightarrow> u64 \<Rightarrow> ident \<Rightarrow> bool \<Rightarrow> unit wop" where
  "refresh_output_state X N now km height parent_key_id update_all =
     sbind (map_wallet_outputs X km parent_key_id update_all) (\<lambda>wallet_outputs.
     sbind (slift (n_outputs N (map fst wallet_outputs))) (\<lambda>api_outputs.
     sbind (find_reverted_kernels N wallet_outputs api_outputs parent_key_id) (\<lambda>reverted_kernels.
     sbind (apply_api_outputs X now km wallet_outputs api_outputs reverted_kernels height parent_key_id) (\<lambda>_.
       clean_old_unconfirmed X km height))))"

definition refresh_outputs :: "ext \<Rightarrow> node \<Rightarrow> timestamp \<Rightarrow> secret_key option \<Rightarrow> ident \<Rightarrow> bool \<Rightarrow> unit wop" where
  "refresh_outputs X N now km parent_key_id update_all =
     sbind (slift (n_chain_tip N)) (\<lambda>tip.
       refresh_output_state X N now km (fst tip) parent_key_id update_all)"

section \<open>The summary of an account\<close>

record totals =
  to_unspent :: u64
  to_immature :: u64
  to_awaiting_finalization :: u64
  to_unconfirmed :: u64
  to_locked :: u64
  to_reverted :: u64

definition add_to_totals :: "u64 \<Rightarrow> u64 \<Rightarrow> totals \<Rightarrow> output_data \<Rightarrow> totals" where
  "add_to_totals current_height minimum_confirmations t out = (case out_status out of
     Unspent \<Rightarrow>
       (if out_is_coinbase out \<and> out_lock_height out > current_height
        then t\<lparr>to_immature := to_immature t + out_value out\<rparr>
        else if num_confirmations out current_height < minimum_confirmations
        then t\<lparr>to_unconfirmed := to_unconfirmed t + out_value out\<rparr>
        else t\<lparr>to_unspent := to_unspent t + out_value out\<rparr>)
   | Unconfirmed \<Rightarrow>
       (if \<not> out_is_coinbase out
        then (if minimum_confirmations = 0
              then t\<lparr>to_unconfirmed := to_unconfirmed t + out_value out\<rparr>
              else t\<lparr>to_awaiting_finalization := to_awaiting_finalization t + out_value out\<rparr>)
        else t)
   | Locked \<Rightarrow> t\<lparr>to_locked := to_locked t + out_value out\<rparr>
   | Reverted \<Rightarrow> t\<lparr>to_reverted := to_reverted t + out_value out\<rparr>
   | Spent \<Rightarrow> t)"

definition retrieve_info :: "wallet \<Rightarrow> ident \<Rightarrow> u64 \<Rightarrow> wallet_info" where
  "retrieve_info w parent_key_id minimum_confirmations =
     (let current_height = last_confirmed_height_for_parent w parent_key_id;
          outputs = filter (\<lambda>out. out_root_key_id out = parent_key_id) (wallet_iter w);
          t = foldl (add_to_totals current_height minimum_confirmations)
                \<lparr>to_unspent = 0, to_immature = 0, to_awaiting_finalization = 0, to_unconfirmed = 0,
                 to_locked = 0, to_reverted = 0\<rparr> outputs
      in \<lparr>wi_last_confirmed_height = current_height, wi_minimum_confirmations = minimum_confirmations,
          wi_total = to_unspent t + to_unconfirmed t + to_immature t,
          wi_amount_awaiting_finalization = to_awaiting_finalization t,
          wi_amount_awaiting_confirmation = to_unconfirmed t,
          wi_amount_immature = to_immature t,
          wi_amount_currently_spendable = to_unspent t,
          wi_amount_locked = to_locked t,
          wi_amount_reverted = to_reverted t\<rparr>)"

section \<open>Coinbase outputs\<close>

text \<open>\<open>catching m h\<close>: what \<open>m\<close> returns, or \<open>h\<close> when it returns an error\<close>

definition catching :: "'a wop \<Rightarrow> 'a wop \<Rightarrow> 'a wop" where
  "catching m h w = (case m w of (Err e, w') \<Rightarrow> h w' | r \<Rightarrow> r)"

definition receive_coinbase ::
  "ext \<Rightarrow> secret_key option \<Rightarrow> block_fees \<Rightarrow> bool \<Rightarrow> (tx_output \<times> tx_kernel \<times> block_fees) wop" where
  "receive_coinbase X km bf test_mode =
     (let height = bf_height bf;
          lock_height = height + x_coinbase_maturity X
      in sbind (sread w_parent_key_id) (\<lambda>parent_key_id.
         sbind (case bf_key_id bf of
             Some key_id \<Rightarrow> catching (sbind (retrieve_existing_key X key_id None) (\<lambda>k. sret (fst k)))
                              (next_available_key X km)
           | None \<Rightarrow> next_available_key X km) (\<lambda>key_id.
         let amount = x_reward X (bf_fees bf)
         in sbind (calc_commit_for_cache X km amount key_id) (\<lambda>commit.
            sbind (with_batch X km (\<lambda>_. batch_save \<lparr>
                out_root_key_id = parent_key_id, out_key_id = key_id,
                out_n_child = x_last_path_index X (x_to_path X key_id), out_commit = commit,
                out_mmr_index = None, out_value = amount, out_status = Unconfirmed, out_height = height,
                out_lock_height = lock_height, out_is_coinbase = True, out_tx_log_entry = None\<rparr>)) (\<lambda>_.
            sbind (the_keychain X km) (\<lambda>k.
            sbind (slift (x_reward_output X k key_id (bf_fees bf) test_mode)) (\<lambda>(out, kern).
              sret (out, kern, bf\<lparr>bf_key_id := Some key_id\<rparr>))))))))"

definition build_coinbase :: "ext \<Rightarrow> secret_key option \<Rightarrow> block_fees \<Rightarrow> bool \<Rightarrow> cb_data wop" where
  "build_coinbase X km bf test_mode =
     sbind (receive_coinbase X km bf test_mode) (\<lambda>(out, kern, bf).
       sret \<lparr>cb_output = out, cb_kernel = kern, cb_key_id = bf_key_id bf\<rparr>)"

end
