(* ===== verification/Updater_Props.thy ===== *)
theory Updater_Props
  imports Updater Backend_Props Selection_Props
begin

text \<open>
  The properties of the updater: what cancelling releases, what a refresh does to each output,
  that the summary agrees with what can be spent, and what the listing of transactions filters.
\<close>

section \<open>Loops over outputs\<close>

context output_store
begin

text \<open>
  A loop whose step for \<open>x\<close> rewrites the output under \<open>key x\<close> by \<open>upd x\<close>, and nothing else of
  the outputs: after the loop each of the keys has been rewritten once.
\<close>

lemma sfor_pointwise:
  assumes "\<And>x s s'. x \<in> set xs \<Longrightarrow> good s \<Longrightarrow> Q s \<Longrightarrow> f x s = (Ok (), s') \<Longrightarrow> good s' \<and> Q s' \<and>
      (\<forall>i m. length i = n \<longrightarrow> fetch s' i m = (if (i, m) = key x then upd x (fetch s i m) else fetch s i m))"
    and "distinct (map key xs)" "\<forall>x \<in> set xs. length (fst (key x)) = n"
    and "good s" "Q s" "sfor xs f s = (Ok (), s')"
  shows "good s' \<and> Q s' \<and> (\<forall>i m. length i = n \<longrightarrow> fetch s' i m =
     (case find (\<lambda>x. key x = (i, m)) xs of Some x \<Rightarrow> upd x (fetch s i m) | None \<Rightarrow> fetch s i m))"
  using assms
proof (induction xs arbitrary: s)
  case (Cons x xs)
  obtain s1 where s1: "f x s = (Ok (), s1)" "sfor xs f s1 = (Ok (), s')"
    using Cons.prems(6) by (auto simp: res_simps)
  have step: "good s1" "Q s1" "\<And>i m. length i = n \<Longrightarrow>
      fetch s1 i m = (if (i, m) = key x then upd x (fetch s i m) else fetch s i m)"
    using Cons.prems(1) [OF _ Cons.prems(4,5) s1(1)] by auto
  have IH: "good s' \<and> Q s' \<and> (\<forall>i m. length i = n \<longrightarrow> fetch s' i m =
     (case find (\<lambda>x. key x = (i, m)) xs of Some x \<Rightarrow> upd x (fetch s1 i m) | None \<Rightarrow> fetch s1 i m))"
    by (rule Cons.IH) (use Cons.prems step s1 in auto)
  have "find (\<lambda>y. key y = key x) xs = None"
    using Cons.prems(2) by (auto simp: find_None_iff' image_iff)
  then show ?case
    using IH step(3) by (auto split: option.split dest: find_SomeD)
qed (auto simp: res_simps)

end

lemma find_key: "x \<in> set xs \<Longrightarrow> distinct (map key xs) \<Longrightarrow> find (\<lambda>y. key y = key x) xs = Some x"
  by (induction xs) (auto simp: image_iff)

lemma find_no_key: "(i, m) \<notin> key ` set xs \<Longrightarrow> find (\<lambda>y. key y = (i, m)) xs = None"
  by (force simp: find_None_iff')

definition out_key :: "output_data \<Rightarrow> ident \<times> u64 option" where
  "out_key out = (out_key_id out, out_mmr_index out)"

lemma save_tx_log_entry_fetch:
  "save_tx_log_entry t p d = (Ok (), d') \<Longrightarrow> db_fetch d' i m = db_fetch d i m \<and> (db_wf d \<longrightarrow> db_wf d')"
  by (auto simp: save_tx_log_entry_def smodify_def db_fetch_def db_wf_def tbl_simps)

lemma sfor_save_tx_fetch:
  "sfor ts (\<lambda>t. save_tx_log_entry t p) d = (Ok (), d') \<Longrightarrow> db_fetch d' i m = db_fetch d i m \<and> (db_wf d \<longrightarrow> db_wf d')"
proof (induction ts arbitrary: d)
  case (Cons t ts)
  then obtain d1 where "save_tx_log_entry t p d = (Ok (), d1)" "sfor ts (\<lambda>t. save_tx_log_entry t p) d1 = (Ok (), d')"
    by (auto simp: res_simps)
  then show ?case using Cons.IH save_tx_log_entry_fetch by metis
qed (auto simp: res_simps)

section \<open>Cancelling\<close>

text \<open>What cancelling leaves of an output of the transaction\<close>

definition cancelled_output :: "output_data \<Rightarrow> output_data option \<Rightarrow> output_data option" where
  "cancelled_output out old = (case out_status out of
     Unconfirmed \<Rightarrow> None | Reverted \<Rightarrow> None | Locked \<Rightarrow> Some (out\<lparr>out_status := Unspent\<rparr>)
   | Unspent \<Rightarrow> old | Spent \<Rightarrow> old)"

lemma cancel_output_step:
  assumes "db_wf d" "cancel_output out d = (Ok (), d')" "length i = length (out_key_id out)"
  shows "db_wf d' \<and> db_fetch d' i m = (if (i, m) = out_key out then cancelled_output out (db_fetch d i m) else db_fetch d i m)"
  using assms
  by (cases "out_status out")
    (auto simp: cancel_output_def res_simps batch_save_eq batch_delete_eq outs.fetch_store outs.fetch_remove
      outs.good_store outs.good_remove cancelled_output_def out_key_def sbind_eq_Ok)

lemma cancel_effect:
  assumes "cancel_tx_and_outputs X km tx outputs p w = (Ok (), w')" "w_wf w"
    and "distinct (map out_key outputs)" "\<forall>out \<in> set outputs. length (out_key_id out) = n"
  shows "(\<forall>out \<in> set outputs. db_fetch (w_db w') (out_key_id out) (out_mmr_index out) =
        cancelled_output out (db_fetch (w_db w) (out_key_id out) (out_mmr_index out))) \<and>
    (\<forall>i m. length i = n \<longrightarrow> (i, m) \<notin> out_key ` set outputs \<longrightarrow> db_fetch (w_db w') i m = db_fetch (w_db w) i m) \<and>
    tbl_get (db_tx_log (w_db w')) (to_key_u64 p (ucast (txe_id tx))) =
      Some (Some (tx\<lparr>txe_tx_type := cancelled_type (txe_tx_type tx)\<rparr>)) \<and> w_wf w'"
proof -
  obtain d1 d2 where d: "sfor outputs cancel_output (w_db w) = (Ok (), d1)"
    "save_tx_log_entry (tx\<lparr>txe_tx_type := cancelled_type (txe_tx_type tx)\<rparr>) p d1 = (Ok (), d2)" "w' = w\<lparr>w_db := d2\<rparr>"
    using assms(1) by (auto simp: cancel_tx_and_outputs_def with_batch_Ok res_simps)
  have wf: "db_wf (w_db w)" using assms(2) by (simp add: w_wf_def)
  have "db_wf d1 \<and> True \<and> (\<forall>i m. length i = n \<longrightarrow> db_fetch d1 i m =
     (case find (\<lambda>x. out_key x = (i, m)) outputs of Some x \<Rightarrow> cancelled_output x (db_fetch (w_db w) i m)
      | None \<Rightarrow> db_fetch (w_db w) i m))"
    by (rule outs.sfor_pointwise [where f = cancel_output and Q = "\<lambda>_. True", OF _ assms(3) _ wf TrueI d(1)])
       (use assms(4) cancel_output_step in \<open>auto simp: out_key_def\<close>)
  moreover have "db_fetch d2 i m = db_fetch d1 i m \<and> (db_wf d1 \<longrightarrow> db_wf d2)" for i m
    using save_tx_log_entry_fetch [OF d(2)] .
  moreover have "tbl_get (db_tx_log d2) (to_key_u64 p (ucast (txe_id tx))) =
      Some (Some (tx\<lparr>txe_tx_type := cancelled_type (txe_tx_type tx)\<rparr>))"
    using d(2) by (auto simp: save_tx_log_entry_eq tbl_get_put)
  ultimately show ?thesis
    using assms(4) find_key [OF _ assms(3)] find_no_key [of _ _ out_key outputs]
    by (auto simp: d(3) w_wf_def) (simp add: out_key_def)
qed

text \<open>C4: cancelling a transaction deletes its unconfirmed and reverted outputs,
  makes its locked outputs spendable again, leaves its other outputs and every output of another
  transaction as they were, and records the entry under the type that says it was cancelled.\<close>

theorem cancel_releases_outputs:
  assumes "cancel_tx_and_outputs X km tx outputs p w = (Ok (), w')" "w_wf w"
    and "distinct (map out_key outputs)" "\<forall>out \<in> set outputs. length (out_key_id out) = n"
  shows "(\<forall>out \<in> set outputs. db_fetch (w_db w') (out_key_id out) (out_mmr_index out) =
        cancelled_output out (db_fetch (w_db w) (out_key_id out) (out_mmr_index out))) \<and>
    (\<forall>i m. length i = n \<longrightarrow> (i, m) \<notin> out_key ` set outputs \<longrightarrow> db_fetch (w_db w') i m = db_fetch (w_db w) i m) \<and>
    tbl_get (db_tx_log (w_db w')) (to_key_u64 p (ucast (txe_id tx))) =
      Some (Some (tx\<lparr>txe_tx_type := cancelled_type (txe_tx_type tx)\<rparr>)) \<and> w_wf w'"
  using assms by (rule cancel_effect)

definition locked_wallet :: wallet where
  "locked_wallet = sample_wallet\<lparr>w_db := foldr db_store
     [sample_output 1 500 Locked, sample_output 2 70 Unconfirmed, sample_output 3 200 Unspent] db_empty\<rparr>"

lemma db_empty_wf: "db_wf db_empty"
  by (simp add: db_wf_def db_empty_def)

lemma locked_wallet_wf: "w_wf locked_wallet"
  by (simp add: w_wf_def locked_wallet_def sample_wallet_def outs.good_store db_empty_wf)

theorem cancel_releases_outputs_witness:
  "\<exists>w'. cancel_tx_and_outputs sample_ext None (sample_entry 0 [1] TxSent)
      [sample_output 1 500 Locked, sample_output 2 70 Unconfirmed] [9] locked_wallet = (Ok (), w') \<and>
    db_fetch (w_db w') (out_key_id (sample_output 2 70 Unconfirmed)) None = None"
proof -
  let ?c = "cancel_tx_and_outputs sample_ext None (sample_entry 0 [1] TxSent)
      [sample_output 1 500 Locked, sample_output 2 70 Unconfirmed] [9]"
  have "is_Ok (fst (?c locked_wallet))" by code_simp
  then obtain u where "?c locked_wallet = (Ok u, snd (?c locked_wallet))"
    by (rule is_Ok_run [elim_format]) blast
  then have ok: "?c locked_wallet = (Ok (), snd (?c locked_wallet))" by simp
  have dist: "distinct (map out_key [sample_output 1 500 Locked, sample_output 2 70 Unconfirmed])"
    by code_simp
  have len: "\<forall>out \<in> set [sample_output 1 500 Locked, sample_output 2 70 Unconfirmed]. length (out_key_id out) = 17"
    by code_simp
  note r = cancel_releases_outputs [OF ok locked_wallet_wf dist len, THEN conjunct1]
  then have "db_fetch (w_db (snd (?c locked_wallet))) (out_key_id (sample_output 2 70 Unconfirmed)) None = None"
    by (simp add: cancelled_output_def sample_output_def)
  with ok show ?thesis by blast
qed

section \<open>Refreshing\<close>

text \<open>An output is stored under its own key; an output's identifier has \<open>n\<close> bytes.\<close>

definition keyed :: "nat \<Rightarrow> db \<Rightarrow> bool" where
  "keyed n d \<longleftrightarrow> (\<forall>i m out. length i = n \<longrightarrow> db_fetch d i m = Some out \<longrightarrow> out_key out = (i, m))"

text \<open>What a refresh does to an output, by whether the node has it and its kernel is gone\<close>

definition refreshed_output :: "api_map \<Rightarrow> u32 list \<Rightarrow> commitment \<Rightarrow> output_data \<Rightarrow> output_data \<Rightarrow> bool" where
  "refreshed_output api reverted commit out out' \<longleftrightarrow>
     (case map_of api commit of
        Some (_, h, _) \<Rightarrow> out_height out' = h \<and>
          out_status out' = (if out_status out \<in> {Unconfirmed, Reverted} then Unspent else out_status out)
      | None \<Rightarrow> out_height out' = out_height out \<and>
          out_status out' =
            (if \<not> out_is_coinbase out \<and> (\<exists>i \<in> set reverted. out_tx_log_entry out = Some i)
             then (if out_status out = Unspent then Reverted else out_status out)
             else (if out_status out \<in> {Unspent, Locked} then Spent else out_status out))) \<and>
     out_key out' = out_key out \<and> out_value out' = out_value out \<and> out_root_key_id out' = out_root_key_id out \<and>
     out_is_coinbase out' = out_is_coinbase out"

lemma record_coinbase_Ok:
  "record_coinbase X now h p c out d = (Ok out', d') \<Longrightarrow>
     (\<exists>i. out' = out\<lparr>out_tx_log_entry := Some i\<rparr>) \<and> db_outputs d' = db_outputs d \<and> (db_wf d \<longrightarrow> db_wf d')"
  by (auto simp: record_coinbase_def res_simps next_tx_log_id_eq save_tx_log_entry_eq Let_def db_wf_def tbl_simps)

lemma confirm_tx_of_Ok:
  "confirm_tx_of now p out d = (r, d') \<Longrightarrow> db_outputs d' = db_outputs d \<and> (db_wf d \<longrightarrow> db_wf d')"
  by (auto simp: confirm_tx_of_def save_tx_log_entry_eq db_wf_def tbl_simps split: option.splits)

lemma db_fetch_cong: "db_outputs d' = db_outputs d \<Longrightarrow> db_fetch d' i m = db_fetch d i m"
  by (simp add: db_fetch_def)

lemma apply_api_output_step:
  assumes "apply_api_output X now api rvt h p (commit, i0, m0, z) d = (Ok (), d')"
    and "db_wf d" "keyed n d" "length i0 = n"
  shows "db_wf d' \<and> keyed n d' \<and>
    (\<forall>i m. length i = n \<longrightarrow> (i, m) \<noteq> (i0, m0) \<longrightarrow> db_fetch d' i m = db_fetch d i m) \<and>
    (case db_fetch d i0 m0 of None \<Rightarrow> db_fetch d' i0 m0 = None
     | Some out \<Rightarrow> \<exists>out'. db_fetch d' i0 m0 = Some out' \<and> refreshed_output api rvt commit out out')"
proof (cases "db_fetch d i0 m0")
  case None
  then show ?thesis
    using assms by (auto simp: apply_api_output_def batch_get_eq split: prod.splits)
next
  case (Some out)
  have key: "out_key out = (i0, m0)" using assms(3,4) Some by (simp add: keyed_def)
  have "\<exists>d1 out'. d' = db_store out' d1 \<and> db_outputs d1 = db_outputs d \<and> db_wf d1 \<and> refreshed_output api rvt commit out out'"
  proof (cases "map_of api commit")
    case None
    have ref: "refreshed_output api rvt commit out (if \<not> out_is_coinbase out \<and>
          (case out_tx_log_entry out of Some i \<Rightarrow> i \<in> set rvt | None \<Rightarrow> False)
        then mark_reverted out else mark_spent out)"
      using None by (auto simp: refreshed_output_def mark_reverted_def mark_spent_def out_key_def split: option.splits)
    have d': "d' = db_store (if \<not> out_is_coinbase out \<and>
          (case out_tx_log_entry out of Some i \<Rightarrow> i \<in> set rvt | None \<Rightarrow> False)
        then mark_reverted out else mark_spent out) d"
      using assms(1) Some None by (simp add: apply_api_output_def batch_get_eq batch_save_eq split_def)
    show ?thesis using d' ref assms(2) by blast
  next
    case (Some a)
    then obtain a1 oh a2 where a: "map_of api commit = Some (a1, oh, a2)" by (cases a) auto
    obtain out1 d1 u d2 where
      1: "(if out_is_coinbase out \<and> out_status out = Unconfirmed
           then record_coinbase X now h p commit out else sret out) d = (Ok out1, d1)"
      and 2: "(if \<not> out_is_coinbase out1 \<and> (out_status out1 = Unconfirmed \<or> out_status out1 = Reverted)
           then confirm_tx_of now p out1 else sret ()) d1 = (Ok u, d2)"
      and 3: "d' = db_store (mark_unspent (out1\<lparr>out_height := oh\<rparr>)) d2"
      using assms(1) \<open>db_fetch d i0 m0 = Some out\<close> a
      by (auto simp: apply_api_output_def batch_get_eq res_simps batch_save_eq)
    have d1: "out1 = out \<or> (\<exists>i. out1 = out\<lparr>out_tx_log_entry := Some i\<rparr>)" "db_outputs d1 = db_outputs d" "db_wf d1"
      using 1 assms(2) record_coinbase_Ok [of X now h p commit out d out1 d1] by (auto simp: res_simps split: if_splits)
    have d2: "db_outputs d2 = db_outputs d1" "db_wf d2"
      using 2 d1(3) confirm_tx_of_Ok [of now p out1 d1 "Ok u" d2] by (auto simp: res_simps split: if_splits)
    have "refreshed_output api rvt commit out (mark_unspent (out1\<lparr>out_height := oh\<rparr>))"
      using d1(1) a by (auto simp: refreshed_output_def mark_unspent_def out_key_def)
    with 3 d2 d1 show ?thesis by (intro exI [of _ d2] exI conjI) auto
  qed
  then obtain d1 out' where d: "d' = db_store out' d1" "db_outputs d1 = db_outputs d" "db_wf d1"
    and ref: "refreshed_output api rvt commit out out'" by blast
  have key': "out_key_id out' = i0" "out_mmr_index out' = m0"
    using ref key by (auto simp: refreshed_output_def out_key_def)
  have f: "db_fetch d' i m = (if i = i0 \<and> m = m0 then Some out' else db_fetch d i m)" if "length i = n" for i m
    using that outs.fetch_store [OF d(3), of i out' m] assms(4) key' db_fetch_cong [OF d(2)] by (simp add: d(1))
  show ?thesis
    using f ref Some outs.good_store [OF d(3)] assms(3,4) key' by (auto simp: d(1) keyed_def out_key_def)
qed

lemma refresh_loop:
  assumes "sfor outputs (apply_api_output X now api rvt h p) d = (Ok (), d')" "db_wf d" "keyed n d"
    and "distinct (map (\<lambda>(c, i, m, z). (i, m)) outputs)" "\<forall>(c, i, m, z) \<in> set outputs. length i = n"
  shows "(\<forall>(c, i, m, z) \<in> set outputs. case db_fetch d i m of
        None \<Rightarrow> db_fetch d' i m = None
      | Some out \<Rightarrow> \<exists>out'. db_fetch d' i m = Some out' \<and> refreshed_output api rvt c out out') \<and>
    (\<forall>i m. length i = n \<longrightarrow> (\<forall>(c, i', m', z) \<in> set outputs. (i, m) \<noteq> (i', m')) \<longrightarrow> db_fetch d' i m = db_fetch d i m)"
  using assms
proof (induction outputs arbitrary: d)
  case Nil
  then show ?case by (simp add: res_simps)
next
  case (Cons x outputs)
  obtain c i0 m0 z where x: "x = (c, i0, m0, z)" by (cases x) auto
  obtain d1 where d1: "apply_api_output X now api rvt h p (c, i0, m0, z) d = (Ok (), d1)"
    "sfor outputs (apply_api_output X now api rvt h p) d1 = (Ok (), d')"
    using Cons.prems(1) x by (auto simp: res_simps)
  have len: "length i0 = n" using Cons.prems(5) x by simp
  note step = apply_api_output_step [OF d1(1) Cons.prems(2,3) len]
  have new: "\<forall>(c, i, m, z) \<in> set outputs. (i, m) \<noteq> (i0, m0) \<and> length i = n"
    using Cons.prems(4,5) x by force
  note IH = Cons.IH [OF d1(2) step [THEN conjunct1] step [THEN conjunct2, THEN conjunct1] _ _]
  have IH: "(\<forall>(c, i, m, z) \<in> set outputs. case db_fetch d1 i m of
        None \<Rightarrow> db_fetch d' i m = None
      | Some out \<Rightarrow> \<exists>out'. db_fetch d' i m = Some out' \<and> refreshed_output api rvt c out out') \<and>
    (\<forall>i m. length i = n \<longrightarrow> (\<forall>(c, i', m', z) \<in> set outputs. (i, m) \<noteq> (i', m')) \<longrightarrow> db_fetch d' i m = db_fetch d1 i m)"
    by (rule IH) (use Cons.prems(4,5) in auto)
  have same: "db_fetch d1 i m = db_fetch d i m" if "(c, i, m, z) \<in> set outputs" for c i m z
    using step new that by blast
  have head: "db_fetch d' i0 m0 = db_fetch d1 i0 m0" using IH len new by blast
  show ?case
    unfolding x using IH step head same by (auto split: option.splits)
qed

text \<open>C3: applying the node's answer moves each output of the query exactly one step:
  an output on the chain takes its height and becomes unspent if it was unconfirmed or reverted,
  an absent one becomes spent if it was unspent or locked, or reverted if it was unspent and its
  transaction's kernel is gone; every other output keeps its state, none disappears, and the
  account's confirmed height becomes the node's. A node that is behind the account's confirmed
  height changes nothing.\<close>

theorem refresh_updates_each_output:
  assumes "apply_api_outputs X now km outputs api rvt h p w = (Ok (), w')" "w_wf w" "keyed n (w_db w)"
    and "distinct (map (\<lambda>(c, i, m, z). (i, m)) outputs)" "\<forall>(c, i, m, z) \<in> set outputs. length i = n"
  shows "if h < last_confirmed_height_for_parent w p then w' = w else
    (\<forall>(c, i, m, z) \<in> set outputs. case db_fetch (w_db w) i m of
        None \<Rightarrow> db_fetch (w_db w') i m = None
      | Some out \<Rightarrow> \<exists>out'. db_fetch (w_db w') i m = Some out' \<and> refreshed_output api rvt c out out') \<and>
    (\<forall>i m. length i = n \<longrightarrow> (\<forall>(c, i', m', z) \<in> set outputs. (i, m) \<noteq> (i', m')) \<longrightarrow>
      db_fetch (w_db w') i m = db_fetch (w_db w) i m) \<and>
    last_confirmed_height_for_parent w' p = h"
proof (cases "h < last_confirmed_height_for_parent w p")
  case True
  then show ?thesis using assms(1) by (simp add: apply_api_outputs_def res_simps)
next
  case False
  then obtain d1 d2 ts where d1: "sfor outputs (apply_api_output X now api rvt h p) (w_db w) = (Ok (), d1)"
    and d2: "sfor ts (\<lambda>tx. save_tx_log_entry tx p) d1 = (Ok (), d2)"
    and w': "w' = w\<lparr>w_db := d2\<lparr>db_confirmed := tbl_put p h (db_confirmed d2)\<rparr>\<rparr>"
    using assms(1) by (auto simp: apply_api_outputs_def res_simps with_batch_Ok save_last_confirmed_height_def)
  have wf: "db_wf (w_db w)" using assms(2) by (simp add: w_wf_def)
  note loop = refresh_loop [OF d1 wf assms(3-5)]
  have f: "db_fetch (w_db w') i m = db_fetch d1 i m" for i m
    using sfor_save_tx_fetch [OF d2, of i m] by (simp add: w' db_fetch_def)
  have "last_confirmed_height_for_parent w' p = h"
    by (simp add: last_confirmed_height_for_parent_def w' tbl_get_put)
  then show ?thesis unfolding f using False loop by simp
qed

lemma sample_key_length: "length (out_key_id (sample_output k v s)) = 17"
  by (simp add: sample_output_def sample_from_path_def)

lemma keyed_store:
  assumes "db_wf d" "length (out_key_id out) = n" "keyed n d"
  shows "keyed n (db_store out d)"
  unfolding keyed_def
proof (intro allI impI)
  fix i m out'
  assume i: "length i = n" "db_fetch (db_store out d) i m = Some out'"
  have "db_fetch (db_store out d) i m =
      (if i = out_key_id out \<and> m = out_mmr_index out then Some out else db_fetch d i m)"
    using assms(2) i(1) by (intro outs.fetch_store [OF assms(1)]) simp
  with i assms(3) show "out_key out' = (i, m)"
    unfolding keyed_def by (metis option.inject out_key_def)
qed

lemma keyed_empty: "keyed n db_empty"
  by (simp add: keyed_def db_fetch_def db_empty_def)

lemma locked_keyed: "keyed 17 (w_db locked_wallet)"
proof -
  have "w_db locked_wallet = db_store (sample_output 1 500 Locked) (db_store (sample_output 2 70 Unconfirmed)
      (db_store (sample_output 3 200 Unspent) db_empty))"
    by (simp add: locked_wallet_def sample_wallet_def)
  then show ?thesis
    using keyed_empty [of 17] by (simp add: keyed_store sample_key_length outs.good_store db_empty_wf)
qed

lemma be32_inject [simp]: "be32 a = be32 b \<longleftrightarrow> a = b"
  by (metis of_be_words(2))

lemma locked_fetch: "db_fetch (w_db locked_wallet) (out_key_id (sample_output 2 70 Unconfirmed)) None =
    Some (sample_output 2 70 Unconfirmed)"
  by (simp add: locked_wallet_def sample_wallet_def outs.fetch_store sample_key_length outs.good_store db_empty_wf)
     (simp add: sample_output_def sample_from_path_def)

theorem refresh_updates_each_output_witness:
  "\<exists>w'. apply_api_outputs sample_ext 0 None
      [([], out_key_id (sample_output 1 500 Locked), None, None, False),
       ([1], out_key_id (sample_output 2 70 Unconfirmed), None, None, False)]
      [([1], '''', 33, 0)] [] 40 [9] locked_wallet = (Ok (), w') \<and>
    (\<exists>out'. db_fetch (w_db w') (out_key_id (sample_output 2 70 Unconfirmed)) None = Some out' \<and>
       out_status out' = Unspent \<and> out_height out' = 33)"
proof -
  let ?os = "[([], out_key_id (sample_output 1 500 Locked), None, None, False),
       ([1], out_key_id (sample_output 2 70 Unconfirmed), None, None, False)] :: output_map"
  let ?c = "apply_api_outputs sample_ext 0 None ?os [([1], '''', 33, 0)] [] 40 [9]"
  have "is_Ok (fst (?c locked_wallet))" by code_simp
  then obtain u where "?c locked_wallet = (Ok u, snd (?c locked_wallet))"
    by (rule is_Ok_run [elim_format]) blast
  then have ok: "?c locked_wallet = (Ok (), snd (?c locked_wallet))" by simp
  have dist: "distinct (map (\<lambda>(c, i, m, z). (i, m)) ?os)" by code_simp
  have len: "\<forall>(c, i, m, z) \<in> set ?os. length i = 17" by code_simp
  have h: "last_confirmed_height_for_parent locked_wallet [9] = 0" by code_simp
  have "case db_fetch (w_db locked_wallet) (out_key_id (sample_output 2 70 Unconfirmed)) None of
        None \<Rightarrow> False
      | Some out \<Rightarrow> \<exists>out'. db_fetch (w_db (snd (?c locked_wallet))) (out_key_id (sample_output 2 70 Unconfirmed)) None
          = Some out' \<and> refreshed_output [([1], '''', 33, 0)] [] [1] out out'"
    using refresh_updates_each_output [OF ok locked_wallet_wf locked_keyed dist len]
    by (simp add: h locked_fetch)
  then obtain out' where "db_fetch (w_db (snd (?c locked_wallet))) (out_key_id (sample_output 2 70 Unconfirmed)) None = Some out'"
      "refreshed_output [([1], '''', 33, 0)] [] [1] (sample_output 2 70 Unconfirmed) out'"
    by (auto simp: locked_fetch)
  moreover have "out_status (sample_output 2 70 Unconfirmed) = Unconfirmed" by (simp add: sample_output_def)
  ultimately show ?thesis using ok by (intro exI conjI) (auto simp: refreshed_output_def)
qed

section \<open>The summary\<close>

text \<open>What the summary counts as spendable, and what it counts at all\<close>

definition counted_spendable :: "u64 \<Rightarrow> u64 \<Rightarrow> output_data \<Rightarrow> bool" where
  "counted_spendable h mc out \<longleftrightarrow> out_status out = Unspent \<and> \<not> (out_is_coinbase out \<and> out_lock_height out > h) \<and>
     mc \<le> num_confirmations out h"

definition counted :: "output_data \<Rightarrow> bool" where
  "counted out \<longleftrightarrow> out_status out \<noteq> Spent \<and> \<not> (out_status out = Unconfirmed \<and> out_is_coinbase out)"

definition totals_sum :: "totals \<Rightarrow> u64" where
  "totals_sum t = to_unspent t + to_unconfirmed t + to_immature t + to_awaiting_finalization t + to_locked t + to_reverted t"

lemma coins_total_simps: "coins_total [] = 0" "coins_total (c # cs) = out_value c + coins_total cs"
  by (simp_all add: coins_total_def)

lemma add_to_totals_unspent:
  "to_unspent (add_to_totals h mc t out) = to_unspent t + (if counted_spendable h mc out then out_value out else 0)"
  by (auto simp: add_to_totals_def counted_spendable_def not_less split: output_status.split)

lemma add_to_totals_sum:
  "totals_sum (add_to_totals h mc t out) = totals_sum t + (if counted out then out_value out else 0)"
  by (auto simp: add_to_totals_def counted_def totals_sum_def split: output_status.split)

lemmas add_to_totals_step = add_to_totals_unspent add_to_totals_sum

lemma foldl_totals:
  "to_unspent (foldl (add_to_totals h mc) t outs) = to_unspent t + coins_total (filter (counted_spendable h mc) outs)"
  "totals_sum (foldl (add_to_totals h mc) t outs) = totals_sum t + coins_total (filter counted outs)"
  by (induction outs arbitrary: t) (simp_all add: coins_total_simps add_to_totals_step algebra_simps)



section \<open>Stale coinbases\<close>

lemma sfor_delete_None:
  "db_wf d \<Longrightarrow> \<forall>j \<in> set ids. length j = length i \<Longrightarrow> sfor ids (\<lambda>i. batch_delete i None) d = (Ok (), d') \<Longrightarrow>
     db_wf d' \<and> db_fetch d' i m = (if m = None \<and> i \<in> set ids then None else db_fetch d i m)"
proof (induction ids arbitrary: d)
  case (Cons j ids)
  obtain u d1 where d1: "batch_delete j None d = (Ok u, d1)" "sfor ids (\<lambda>i. batch_delete i None) d1 = (Ok (), d')"
    using Cons.prems(3) by (auto simp: sbind_eq_Ok)
  then have "sfor ids (\<lambda>i. batch_delete i None) (db_remove j None d) = (Ok (), d')"
    by (simp add: batch_delete_eq)
  moreover have "db_fetch (db_remove j None d) i m = (if i = j \<and> m = None then None else db_fetch d i m)"
    by (rule outs.fetch_remove [OF Cons.prems(1)]) (use Cons.prems(2) in simp)
  moreover have "\<forall>j \<in> set ids. length j = length i" using Cons.prems(2) by simp
  ultimately show ?case
    using Cons.IH [OF outs.good_remove [OF Cons.prems(1), of j None]] by auto
qed (auto simp: res_simps)

text \<open>The cleanup after a refresh deletes only what it should: an output that is
  gone afterwards had no position and the identifier of an unconfirmed coinbase more than fifty
  blocks old; every other output is untouched, and below height fifty nothing is.\<close>

theorem only_stale_coinbases_are_cleaned:
  assumes "clean_old_unconfirmed X km h w = (Ok (), w')" "w_wf w" "\<forall>out \<in> set (wallet_iter w). length (out_key_id out) = n"
    and "length i = n" "db_fetch (w_db w') i m \<noteq> db_fetch (w_db w) i m"
  shows "50 \<le> h \<and> m = None \<and> db_fetch (w_db w') i m = None \<and>
    (\<exists>out \<in> set (wallet_iter w). out_key_id out = i \<and> out_status out = Unconfirmed \<and> out_is_coinbase out \<and>
       0 < out_height out \<and> out_height out < h - 50)"
proof -
  let ?ids = "map out_key_id (filter (\<lambda>out. out_status out = Unconfirmed \<and> out_height out > 0
              \<and> out_height out < h - 50 \<and> out_is_coinbase out) (wallet_iter w))"
  have h: "\<not> h < 50" using assms(1,5) by (auto simp: clean_old_unconfirmed_def res_simps)
  then obtain d where d: "sfor ?ids (\<lambda>i. batch_delete i None) (w_db w) = (Ok (), d)" "w' = w\<lparr>w_db := d\<rparr>"
    using assms(1) by (auto simp: clean_old_unconfirmed_def res_simps with_batch_Ok)
  have "db_fetch d i m = (if m = None \<and> i \<in> set ?ids then None else db_fetch (w_db w) i m)"
    by (rule conjunct2 [OF sfor_delete_None [OF _ _ d(1)]]) (use assms(2-4) in \<open>auto simp: w_wf_def\<close>)
  then show ?thesis
    using assms(5) h by (auto simp: d(2) not_less split: if_splits)
qed

definition stale_wallet :: wallet where
  "stale_wallet = sample_wallet\<lparr>w_db := db_store ((sample_output 4 60 Unconfirmed)\<lparr>out_is_coinbase := True\<rparr>) db_empty\<rparr>"

theorem only_stale_coinbases_are_cleaned_witness:
  "\<exists>w'. clean_old_unconfirmed sample_ext None 100 stale_wallet = (Ok (), w') \<and> (50 :: u64) \<le> 100 \<and>
    db_fetch (w_db w') (out_key_id (sample_output 4 60 Unconfirmed)) None = None"
proof -
  let ?c = "clean_old_unconfirmed sample_ext None 100"
  have "is_Ok (fst (?c stale_wallet))" by code_simp
  then obtain u where "?c stale_wallet = (Ok u, snd (?c stale_wallet))" by (rule is_Ok_run [elim_format]) blast
  then have ok: "?c stale_wallet = (Ok (), snd (?c stale_wallet))" by simp
  have wf: "w_wf stale_wallet"
    by (simp add: stale_wallet_def sample_wallet_def w_wf_def outs.good_store db_empty_wf)
  have len: "\<forall>out \<in> set (wallet_iter stale_wallet). length (out_key_id out) = 17" by code_simp
  have gone: "db_fetch (w_db (snd (?c stale_wallet))) (out_key_id (sample_output 4 60 Unconfirmed)) None = None \<and>
      db_fetch (w_db stale_wallet) (out_key_id (sample_output 4 60 Unconfirmed)) None \<noteq> None"
    by code_simp
  then have "50 \<le> (100 :: u64) \<and> None = (None :: u64 option) \<and> db_fetch (w_db (snd (?c stale_wallet)))
      (out_key_id (sample_output 4 60 Unconfirmed)) None = None"
    using only_stale_coinbases_are_cleaned [OF ok wf len sample_key_length, of 4 60 Unconfirmed None] by metis
  with ok show ?thesis by blast
qed

section \<open>Listing transactions\<close>

lemma sort_txs_set: "mset (sort_txs f txs) = mset txs"
  by (simp add: sort_txs_def split: option.split sort_field.split)

lemma listed_iff: "tx \<in> set (apply_advanced_tx_list_filtering w p q) \<Longrightarrow> tx \<in> set (wallet_tx_log w) \<and> tx_query_filter p q tx"
proof -
  assume tx: "tx \<in> set (apply_advanced_tx_list_filtering w p q)"
  have "set (apply_advanced_tx_list_filtering w p q) \<subseteq>
      set (sort_txs (q_sort_field q) (filter (tx_query_filter p q) (wallet_tx_log w)))"
    by (auto simp: apply_advanced_tx_list_filtering_def Let_def dest: in_set_takeD
        split: option.splits sort_order.splits)
  moreover have "set (sort_txs (q_sort_field q) (filter (tx_query_filter p q) (wallet_tx_log w))) =
      set (filter (tx_query_filter p q) (wallet_tx_log w))"
    by (rule mset_eq_setD [OF sort_txs_set])
  ultimately show ?thesis using tx by auto
qed

text \<open>The listing of transactions applies the query's filters, except one: the
  upper bound on the creation time has no effect at all, and the lower bound on the confirmation
  time is applied in its place, so that no transaction created after that bound is ever listed.\<close>

theorem creation_bound_is_not_applied:
  "apply_advanced_tx_list_filtering w p (q\<lparr>q_max_creation_timestamp := x\<rparr>) =
     apply_advanced_tx_list_filtering w p q \<and>
   (\<forall>tx \<in> set (apply_advanced_tx_list_filtering w p q).
      tx \<in> set (wallet_tx_log w) \<and> tx_query_filter p q tx \<and>
      (\<forall>v. q_min_confirmed_timestamp q = Some v \<longrightarrow> txe_creation_ts tx \<le> v))"
proof -
  have "tx_query_filter p (q\<lparr>q_max_creation_timestamp := x\<rparr>) = tx_query_filter p q"
    by (rule ext) (simp add: tx_query_filter_def)
  then have "apply_advanced_tx_list_filtering w p (q\<lparr>q_max_creation_timestamp := x\<rparr>) =
      apply_advanced_tx_list_filtering w p q"
    by (simp add: apply_advanced_tx_list_filtering_def)
  moreover have "tx_query_filter p q tx \<Longrightarrow> q_min_confirmed_timestamp q = Some v \<Longrightarrow> txe_creation_ts tx \<le> v" for tx v
    by (simp add: tx_query_filter_def bound_def)
  ultimately show ?thesis using listed_iff by blast
qed

definition logged_wallet :: wallet where
  "logged_wallet = sample_wallet\<lparr>w_db := db_empty\<lparr>db_tx_log :=
     [([1], Some ((sample_entry 0 [1] TxSent)\<lparr>txe_creation_ts := 5, txe_confirmation_ts := Some 9\<rparr>))]\<rparr>\<rparr>"

theorem creation_bound_is_not_applied_witness:
  "length (apply_advanced_tx_list_filtering logged_wallet None (query_args_default\<lparr>q_max_creation_timestamp := Some 1\<rparr>)) = 1 \<and>
   apply_advanced_tx_list_filtering logged_wallet None (query_args_default\<lparr>q_min_confirmed_timestamp := Some 4\<rparr>) = []"
proof -
  have "length (apply_advanced_tx_list_filtering logged_wallet None query_args_default) = 1" by code_simp
  moreover have "apply_advanced_tx_list_filtering logged_wallet None (query_args_default\<lparr>q_min_confirmed_timestamp := Some 4\<rparr>) = []"
    by code_simp
  ultimately show ?thesis
    using creation_bound_is_not_applied [where w = logged_wallet and p = None and q = query_args_default and x = "Some 1"]
    by simp
qed

section \<open>Accounts and coinbases\<close>

text \<open>A new account gets a label that no account has and a path whose first component
  is above that of every existing account, so that no two accounts share keys; the other accounts
  are unchanged. (A path is read back from its identifier as it was written, and no account has the
  last possible component.)\<close>

theorem new_account_path_is_fresh:
  assumes "new_acct_path X km label w = (Ok i, w')" "accounts w \<noteq> []"
    and "\<forall>a \<in> set (accounts w). acct_index X a \<noteq> -1"
    and "\<And>p. length (kp_path p) = 4 \<Longrightarrow> x_to_path X (x_from_path X p) = p"
    and "\<forall>a \<in> set (accounts w). length (kp_path (x_to_path X (acct_path a))) = 4"
  shows "label \<notin> acct_label ` set (accounts w) \<and>
    (\<forall>a \<in> set (accounts w). acct_index X a < acct_index X \<lparr>acct_label = label, acct_path = i\<rparr>) \<and>
    get_acct_path label w' = Some \<lparr>acct_label = label, acct_path = i\<rparr> \<and>
    (\<forall>l. as_bytes l \<noteq> as_bytes label \<longrightarrow> get_acct_path l w' = get_acct_path l w)"
proof -
  obtain e where e: "max_by (acct_index X) (accounts w) = Some e" "e \<in> set (accounts w)"
    "\<forall>a \<in> set (accounts w). acct_index X a \<le> acct_index X e"
    using max_by_Some [of "acct_index X" "accounts w"] assms(2) by (cases "max_by (acct_index X) (accounts w)") auto
  define p where "p = x_to_path X (acct_path e)"
  have fresh: "label \<notin> acct_label ` set (accounts w)"
    and i: "i = x_from_path X (p\<lparr>kp_path := (kp_path p)[0 := kp_path p ! 0 + 1]\<rparr>)"
    and w': "w_db w' = snd (save_acct_path \<lparr>acct_label = label, acct_path = i\<rparr> (w_db w))"
    using assms(1) e(1) by (auto simp: new_acct_path_def res_simps p_def Let_def with_batch_Ok split: if_splits)
  have "acct_index X \<lparr>acct_label = label, acct_path = i\<rparr> = acct_index X e + 1"
    using assms(5) e(2) by (simp add: acct_index_def i assms(4) p_def)
  moreover have "acct_index X e < acct_index X e + 1"
    using assms(3) e(2) by (simp add: word_less_nat_alt unatSuc eq_neg_iff_add_eq_0 add.commute)
  ultimately show ?thesis
    using fresh e(3) w' by (auto simp: get_acct_path_def save_acct_path_def smodify_def tbl_get_put intro: le_less_trans)
qed

lemma sample_path_roundtrip: "length (kp_path p) = 4 \<Longrightarrow> sample_to_path (sample_from_path p) = p"
proof -
  assume "length (kp_path p) = 4"
  then obtain a b c e where "kp_path p = [a, b, c, e]"
    by (auto simp: length_Suc_conv eval_nat_numeral)
  then show ?thesis
    by (cases p) (simp add: sample_to_path_def sample_from_path_def pad_def eval_nat_numeral)
qed

definition acct_wallet :: wallet where
  "acct_wallet = sample_wallet\<lparr>w_db := db_empty\<lparr>db_accts :=
     [(as_bytes ''default'', \<lparr>acct_label = ''default'', acct_path = w_parent_key_id sample_wallet\<rparr>)]\<rparr>\<rparr>"

theorem new_account_path_is_fresh_witness:
  "\<exists>i w'. new_acct_path sample_ext None ''b'' acct_wallet = (Ok i, w') \<and>
     acct_index sample_ext \<lparr>acct_label = ''default'', acct_path = w_parent_key_id sample_wallet\<rparr> <
     acct_index sample_ext \<lparr>acct_label = ''b'', acct_path = i\<rparr>"
proof -
  let ?c = "new_acct_path sample_ext None ''b''"
  have "is_Ok (fst (?c acct_wallet))" by code_simp
  then obtain i where ok: "?c acct_wallet = (Ok i, snd (?c acct_wallet))" by (rule is_Ok_run [elim_format]) blast
  have acc: "accounts acct_wallet = [\<lparr>acct_label = ''default'', acct_path = w_parent_key_id sample_wallet\<rparr>]"
    by code_simp
  have idx: "acct_index sample_ext \<lparr>acct_label = ''default'', acct_path = w_parent_key_id sample_wallet\<rparr> = 0"
    by code_simp
  have len: "length (kp_path (x_to_path sample_ext (w_parent_key_id sample_wallet))) = 4" by code_simp
  have rt: "length (kp_path p) = 4 \<Longrightarrow> x_to_path sample_ext (x_from_path sample_ext p) = p" for p
    by (simp add: sample_ext_def sample_path_roundtrip)
  have "\<forall>a \<in> set (accounts acct_wallet). acct_index sample_ext a < acct_index sample_ext \<lparr>acct_label = ''b'', acct_path = i\<rparr>"
    using new_account_path_is_fresh [OF ok _ _ rt] by (simp add: acc idx len)
  then show ?thesis using ok by (auto simp: acc)
qed

text \<open>Building a coinbase records its output as unconfirmed, locked until maturity,
  with the reward for the fees; it is recorded under the key the miner passed if the wallet has an
  output of that key, whatever the state of that output was, and under a fresh key otherwise. The
  transaction log and the private contexts are untouched.\<close>

theorem coinbase_output_is_recorded:
  assumes "receive_coinbase X km bf t w = (Ok (out, kern, bf'), w')" "w_wf w"
  shows "\<exists>key commit. bf' = bf\<lparr>bf_key_id := Some key\<rparr> \<and>
    (\<forall>k old. bf_key_id bf = Some k \<and> db_fetch (w_db w) k None = Some old \<longrightarrow> key = out_key_id old) \<and>
    db_fetch (w_db w') key None = Some \<lparr>
       out_root_key_id = w_parent_key_id w, out_key_id = key,
       out_n_child = x_last_path_index X (x_to_path X key), out_commit = commit,
       out_mmr_index = None, out_value = x_reward X (bf_fees bf), out_status = Unconfirmed,
       out_height = bf_height bf, out_lock_height = bf_height bf + x_coinbase_maturity X,
       out_is_coinbase = True, out_tx_log_entry = None\<rparr> \<and>
    db_tx_log (w_db w') = db_tx_log (w_db w) \<and> db_contexts (w_db w') = db_contexts (w_db w)"
proof -
  obtain key w1 commit w2 where
    1: "(case bf_key_id bf of
             Some key_id \<Rightarrow> catching (sbind (retrieve_existing_key X key_id None) (\<lambda>k. sret (fst k)))
                              (next_available_key X km)
           | None \<Rightarrow> next_available_key X km) w = (Ok key, w1)"
    and 2: "calc_commit_for_cache X km (x_reward X (bf_fees bf)) key w1 = (Ok commit, w2)"
    and 3: "\<exists>k. w' = w2\<lparr>w_db := db_store \<lparr>
                out_root_key_id = w_parent_key_id w, out_key_id = key,
                out_n_child = x_last_path_index X (x_to_path X key), out_commit = commit,
                out_mmr_index = None, out_value = x_reward X (bf_fees bf), out_status = Unconfirmed,
                out_height = bf_height bf, out_lock_height = bf_height bf + x_coinbase_maturity X,
                out_is_coinbase = True, out_tx_log_entry = None\<rparr> (w_db w2)\<rparr>"
    and bf': "bf' = bf\<lparr>bf_key_id := Some key\<rparr>"
    using assms(1)
    by (auto simp: receive_coinbase_def Let_def res_simps with_batch_Ok batch_save_eq the_keychain_def
        split: prod.splits)
  have w2: "w2 = w1" using 2 by (auto simp: calc_commit_for_cache_def res_simps the_keychain_def)
  have fresh: "db_tx_log (w_db w1) = db_tx_log (w_db w) \<and> db_contexts (w_db w1) = db_contexts (w_db w) \<and> w_wf w1"
    if "next_available_key X km w = (Ok key, w1)"
    using that keepsD [OF keeps_keys(1) assms(2) that]
    by (auto simp: next_available_key_def next_child_Ok child_counter_def Let_def run_batch_def save_child_index_def
        smodify_def)
  have get: "wallet_get X k None w = (ok_or (not_found X (''Key Id: '' @ x_ident_str X k)) (db_fetch (w_db w) k None), w)" for k
    by (simp add: wallet_get_def db_fetch_def)
  have key: "(\<forall>k old. bf_key_id bf = Some k \<and> db_fetch (w_db w) k None = Some old \<longrightarrow> key = out_key_id old) \<and>
      db_tx_log (w_db w1) = db_tx_log (w_db w) \<and> db_contexts (w_db w1) = db_contexts (w_db w) \<and> w_wf w1"
  proof (cases "bf_key_id bf")
    case None
    then show ?thesis using 1 fresh by simp
  next
    case (Some k)
    show ?thesis
    proof (cases "db_fetch (w_db w) k None")
      case None
      then show ?thesis using 1 fresh Some
        by (simp add: catching_def retrieve_existing_key_def sbind_def get)
    next
      case (Some old)
      then show ?thesis using 1 assms(2) \<open>bf_key_id bf = Some k\<close>
        by (simp add: catching_def retrieve_existing_key_def sbind_def get sret_def)
    qed
  qed
  have wf: "db_wf (w_db w2)" using key w2 by (simp add: w_wf_def)
  show ?thesis
    using 3 bf' key w2 outs.fetch_store [OF wf]
    by (intro exI [of _ key] exI [of _ commit]) auto
qed

theorem coinbase_output_is_recorded_witness:
  "\<exists>r w'. receive_coinbase sample_ext None \<lparr>bf_fees = 7, bf_height = 20, bf_key_id = Some (out_key_id (sample_output 3 200 Unspent))\<rparr>
      True locked_wallet = (Ok r, w') \<and> db_tx_log (w_db w') = [] \<and>
    (\<exists>out. db_fetch (w_db w') (out_key_id (sample_output 3 200 Unspent)) None = Some out \<and> out_status out = Unconfirmed)"
proof -
  let ?c = "receive_coinbase sample_ext None \<lparr>bf_fees = 7, bf_height = 20, bf_key_id = Some (out_key_id (sample_output 3 200 Unspent))\<rparr> True"
  have "is_Ok (fst (?c locked_wallet))" by code_simp
  then obtain r where "?c locked_wallet = (Ok r, snd (?c locked_wallet))" by (rule is_Ok_run [elim_format]) blast
  then have ok: "?c locked_wallet = (Ok (fst r, fst (snd r), snd (snd r)), snd (?c locked_wallet))" by simp
  have f: "db_fetch (w_db locked_wallet) (out_key_id (sample_output 3 200 Unspent)) None = Some (sample_output 3 200 Unspent)"
    by code_simp
  have "db_tx_log (w_db locked_wallet) = []" by code_simp
  then show ?thesis
    using coinbase_output_is_recorded [OF ok locked_wallet_wf] f ok by fastforce
qed

end
