(* ===== verification/Slate.thy ===== *)
theory Slate
  imports Keys
begin

text \<open>
  The slate (\<open>libwallet/src/slate.rs\<close>): the transaction the parties build together, its two
  signing rounds and its completion. A slate is a value: an operation returns the new slate.
\<close>

section \<open>Data\<close>

record payment_info =
  pi_sender_address :: dalek_pubkey
  pi_receiver_address :: dalek_pubkey
  pi_receiver_signature :: "dalek_sig option"

record participant_data =
  pd_public_blind_excess :: public_key
  pd_public_nonce :: public_key
  pd_part_sig :: "signature option"

record kernel_features_args =
  kfa_lock_height :: u64

record version_compat_info =
  vci_version :: u16
  vci_block_header_version :: u16

record slate =
  sl_version_info :: version_compat_info
  sl_num_participants :: u8
  sl_id :: uuid
  sl_state :: slate_state
  sl_tx :: "transaction option"
  sl_amount :: u64
  sl_fee_fields :: fee_fields
  sl_ttl_cutoff_height :: u64
  sl_kernel_features :: u8
  sl_offset :: blinding_factor
  sl_participant_data :: "participant_data list"
  sl_payment_proof :: "payment_info option"
  sl_kernel_features_args :: "kernel_features_args option"

definition CURRENT_SLATE_VERSION :: u16 where
  "CURRENT_SLATE_VERSION = 4"

definition GRIN_BLOCK_HEADER_VERSION :: u16 where
  "GRIN_BLOCK_HEADER_VERSION = 3"

definition is_complete :: "participant_data \<Rightarrow> bool" where
  "is_complete p \<longleftrightarrow> pd_part_sig p \<noteq> None"

definition tx_or_err :: "slate \<Rightarrow> transaction result" where
  "tx_or_err s = ok_or (Slt SlateTransactionRequired) (sl_tx s)"

definition num_participants :: "slate \<Rightarrow> u8" where
  "num_participants s = (if sl_num_participants s = 0 then 2 else sl_num_participants s)"

definition compact :: "slate \<Rightarrow> slate" where
  "compact s = s\<lparr>sl_tx := None\<rparr>"

definition empty_transaction :: "ext \<Rightarrow> transaction" where
  "empty_transaction X = x_replace_inputs X (x_tx_empty X) (FeaturesAndCommit [])"

definition zero_blind :: blinding_factor where
  "zero_blind = replicate 32 0"

text \<open>\<open>uuid\<close> is the fresh identifier of the slate.\<close>

definition slate_blank :: "ext \<Rightarrow> uuid \<Rightarrow> u8 \<Rightarrow> bool \<Rightarrow> slate" where
  "slate_blank X uuid num_parts is_invoice = \<lparr>
     sl_version_info = \<lparr>vci_version = CURRENT_SLATE_VERSION, vci_block_header_version = GRIN_BLOCK_HEADER_VERSION\<rparr>,
     sl_num_participants = (if num_parts = 0 then 2 else num_parts),
     sl_id = uuid,
     sl_state = (if is_invoice then Invoice1 else Standard1),
     sl_tx = Some (empty_transaction X),
     sl_amount = 0, sl_fee_fields = 0, sl_ttl_cutoff_height = 0, sl_kernel_features = 0,
     sl_offset = zero_blind, sl_participant_data = [], sl_payment_proof = None,
     sl_kernel_features_args = None\<rparr>"

section \<open>The kernel and the elements of the transaction\<close>

text \<open>The features: 0 plain, 1 coinbase (invalid), 2 height locked, 3 no recent duplicate\<close>

definition kernel_features :: "ext \<Rightarrow> slate \<Rightarrow> kernel_features result" where
  "kernel_features X s =
     (let n = sl_kernel_features s; fee = sl_fee_fields s; args = sl_kernel_features_args s in
      if n = 0 then Ok (KF_Plain fee)
      else if n = 1 then Err (Txn (InvalidKernelFeatures 1))
      else if n = 2 then
        (case args of Some a \<Rightarrow> Ok (KF_HeightLocked fee (kfa_lock_height a))
         | None \<Rightarrow> Err (Txn (KernelFeaturesMissing ''lock_height'')))
      else if n = 3 then
        (case args of Some a \<Rightarrow> rbind (x_nrd_height X (kfa_lock_height a)) (\<lambda>h. Ok (KF_NoRecentDuplicate fee h))
         | None \<Rightarrow> Err (Txn (KernelFeaturesMissing ''lock_height'')))
      else Err (Txn (UnknownKernelFeatures n)))"

definition update_kernel :: "ext \<Rightarrow> slate \<Rightarrow> slate result" where
  "update_kernel X s =
     rbind (tx_or_err s) (\<lambda>tx. rbind (kernel_features X s) (\<lambda>f.
       Ok (s\<lparr>sl_tx := Some (x_replace_kernel X tx (x_kernel_with_features X f))\<rparr>)))"

text \<open>The new slate with the blinding factor the elements leave\<close>

definition add_transaction_elements ::
  "ext \<Rightarrow> keychain \<Rightarrow> build_elem list \<Rightarrow> slate \<Rightarrow> (slate \<times> blinding_factor) result" where
  "add_transaction_elements X k elems s =
     rbind (update_kernel X s) (\<lambda>s.
       if elems = [] then Ok (s, zero_blind)
       else rbind (tx_or_err s) (\<lambda>tx.
            rbind (x_partial_transaction X tx elems k) (\<lambda>(tx, blind).
              Ok (s\<lparr>sl_tx := Some tx\<rparr>, blind))))"

definition msg_to_sign :: "ext \<Rightarrow> slate \<Rightarrow> bytes result" where
  "msg_to_sign X s = rbind (kernel_features X s) (x_kernel_msg X)"

section \<open>The signing rounds\<close>

definition pub_nonce_sum :: "ext \<Rightarrow> slate \<Rightarrow> public_key result" where
  "pub_nonce_sum X s =
     (let pub_nonces = map pd_public_nonce (sl_participant_data s) in
      if pub_nonces = [] then Err (Lib (Commit ''Participant nonces cannot be empty''))
      else x_pk_combine X pub_nonces)"

definition pub_blind_sum :: "ext \<Rightarrow> slate \<Rightarrow> public_key result" where
  "pub_blind_sum X s =
     (let pub_blinds = map pd_public_blind_excess (sl_participant_data s) in
      if pub_blinds = [] then Err (Lib (Commit ''Participant Blind sums cannot be empty''))
      else x_pk_combine X pub_blinds)"

definition part_sigs :: "slate \<Rightarrow> signature list" where
  "part_sigs s = List.map_filter pd_part_sig (sl_participant_data s)"

definition is_mine :: "public_key \<Rightarrow> public_key \<Rightarrow> participant_data \<Rightarrow> bool" where
  "is_mine pub_key pub_nonce v \<longleftrightarrow> pd_public_nonce v = pub_nonce \<and> pd_public_blind_excess v = pub_key"

definition remove_other_sigdata :: "ext \<Rightarrow> secret_key \<Rightarrow> secret_key \<Rightarrow> slate \<Rightarrow> slate result" where
  "remove_other_sigdata X sec_nonce sec_key s =
     rbind (x_pk_of_sk X sec_nonce) (\<lambda>pub_nonce. rbind (x_pk_of_sk X sec_key) (\<lambda>pub_key.
       Ok (s\<lparr>sl_participant_data := filter (is_mine pub_key pub_nonce) (sl_participant_data s)\<rparr>)))"

text \<open>An existing entry of ours is replaced, its signature kept unless a new one is given.\<close>

definition kept_sig :: "public_key \<Rightarrow> public_key \<Rightarrow> signature option \<Rightarrow> participant_data list \<Rightarrow> signature option" where
  "kept_sig pub_key pub_nonce part_sig ps =
     foldl (\<lambda>sig v. if is_mine pub_key pub_nonce v \<and> sig = None then pd_part_sig v else sig) part_sig ps"

definition add_participant_info :: "ext \<Rightarrow> context \<Rightarrow> signature option \<Rightarrow> slate \<Rightarrow> slate result" where
  "add_participant_info X c part_sig s =
     rbind (x_pk_of_sk X (ctx_sec_key c)) (\<lambda>pub_key. rbind (x_pk_of_sk X (ctx_sec_nonce c)) (\<lambda>pub_nonce.
       Ok (s\<lparr>sl_participant_data :=
             filter (\<lambda>v. \<not> is_mine pub_key pub_nonce v) (sl_participant_data s) @
             [\<lparr>pd_public_blind_excess = pub_key, pd_public_nonce = pub_nonce,
               pd_part_sig = kept_sig pub_key pub_nonce part_sig (sl_participant_data s)\<rparr>]\<rparr>)))"

definition fill_round_1 :: "ext \<Rightarrow> context \<Rightarrow> slate \<Rightarrow> slate result" where
  "fill_round_1 X c s = add_participant_info X c None s"

definition verify_part_sigs :: "ext \<Rightarrow> slate \<Rightarrow> unit result" where
  "verify_part_sigs X s =
     rbind (rmap (\<lambda>p. case pd_part_sig p of
         None \<Rightarrow> Ok ()
       | Some sig \<Rightarrow>
           rbind (pub_nonce_sum X s) (\<lambda>nonce_sum. rbind (pub_blind_sum X s) (\<lambda>blind_sum.
           rbind (msg_to_sign X s) (\<lambda>msg.
             x_verify_partial X sig nonce_sum (pd_public_blind_excess p) (Some blind_sum) msg)))) (sl_participant_data s))
     (\<lambda>_. Ok ())"

text \<open>
  The first entry of ours among the first \<open>num_participants\<close> gets the signature; the code
  indexes the list, so a slate with fewer entries than participants panics unless our entry
  comes first.
\<close>

fun sign_mine :: "public_key \<Rightarrow> public_key \<Rightarrow> signature \<Rightarrow> nat \<Rightarrow> participant_data list \<Rightarrow> participant_data list result" where
  "sign_mine pub_key pub_nonce sig 0 ps = Ok ps"
| "sign_mine pub_key pub_nonce sig (Suc n) [] = Panic"
| "sign_mine pub_key pub_nonce sig (Suc n) (p # ps) =
     (if is_mine pub_key pub_nonce p then Ok (p\<lparr>pd_part_sig := Some sig\<rparr> # ps)
      else rbind (sign_mine pub_key pub_nonce sig n ps) (\<lambda>ps. Ok (p # ps)))"

definition fill_round_2 :: "ext \<Rightarrow> secret_key \<Rightarrow> secret_key \<Rightarrow> slate \<Rightarrow> slate result" where
  "fill_round_2 X sec_key sec_nonce s =
     rbind (verify_part_sigs X s) (\<lambda>_.
     rbind (pub_nonce_sum X s) (\<lambda>nonce_sum. rbind (pub_blind_sum X s) (\<lambda>blind_sum. rbind (msg_to_sign X s) (\<lambda>msg.
     rbind (x_sign_partial X sec_key sec_nonce nonce_sum (Some blind_sum) msg) (\<lambda>sig_part.
     rbind (x_pk_of_sk X sec_key) (\<lambda>pub_excess. rbind (x_pk_of_sk X sec_nonce) (\<lambda>pub_nonce.
     rbind (sign_mine pub_excess pub_nonce sig_part (unat (num_participants s)) (sl_participant_data s)) (\<lambda>ps.
       Ok (s\<lparr>sl_participant_data := ps\<rparr>)))))))))"

section \<open>The offset\<close>

definition adjust_offset :: "ext \<Rightarrow> keychain \<Rightarrow> context \<Rightarrow> slate \<Rightarrow> slate result" where
  "adjust_offset X k c s =
     rbind (rmap (\<lambda>(i, _, amount). x_derive_key X k amount i Switch_Regular) (ctx_input_ids c)) (\<lambda>ins.
     rbind (rmap (\<lambda>(i, _, amount). x_derive_key X k amount i Switch_Regular) (ctx_output_ids c)) (\<lambda>outs.
     rbind (x_blind_sum X k \<lparr>bs_pos = sl_offset s # outs, bs_neg = ctx_initial_sec_key c # ins\<rparr>) (\<lambda>off.
       Ok (s\<lparr>sl_offset := off\<rparr>))))"

section \<open>Completion\<close>

definition inputs_len :: "tx_inputs \<Rightarrow> nat" where
  "inputs_len i = (case i of CommitOnly cs \<Rightarrow> length cs | FeaturesAndCommit fs \<Rightarrow> length fs)"

definition check_fees :: "ext \<Rightarrow> slate \<Rightarrow> unit result" where
  "check_fees X s =
     rbind (tx_or_err s) (\<lambda>tx.
       let fee = x_tx_fee X (inputs_len (t_inputs tx)) (length (t_outputs tx)) (length (t_kernels tx)) in
       if fee > x_tx_fee_total X tx then
         Err (Lib (Fee (''Fee Dispute Error: '' @ nat_to_string (unat (x_tx_fee_total X tx)) @ '', '' @ nat_to_string (unat fee))))
       else if fee > sl_amount s + x_fee X (sl_fee_fields s) then
         Err (Lib (Fee (''Rejected the transfer because transaction fee ('' @ x_amount_hr X fee False @
           '') exceeds received amount ('' @ x_amount_hr X (sl_amount s + x_fee X (sl_fee_fields s)) False @ '').'')))
       else Ok ())"

definition calc_excess :: "ext \<Rightarrow> slate \<Rightarrow> commitment result" where
  "calc_excess X s = rbind (pub_blind_sum X s) (x_commit_of_pk X)"

definition finalize_signature :: "ext \<Rightarrow> slate \<Rightarrow> signature result" where
  "finalize_signature X s =
     rbind (verify_part_sigs X s) (\<lambda>_.
     rbind (pub_nonce_sum X s) (\<lambda>nonce_sum. rbind (pub_blind_sum X s) (\<lambda>final_pubkey.
     rbind (x_add_signatures X (part_sigs s) nonce_sum) (\<lambda>final_sig.
     rbind (msg_to_sign X s) (\<lambda>msg.
     rbind (x_verify_completed X final_sig final_pubkey (Some final_pubkey) msg) (\<lambda>_. Ok final_sig))))))"

definition finalize_transaction :: "ext \<Rightarrow> signature \<Rightarrow> slate \<Rightarrow> slate result" where
  "finalize_transaction X final_sig s =
     rbind (check_fees X s) (\<lambda>_.
     rbind (calc_excess X s) (\<lambda>final_excess.
     rbind (tx_or_err s) (\<lambda>tx.
       case t_kernels tx of
         [kern] \<Rightarrow>
           let final_tx = x_replace_kernel X tx (kern\<lparr>k_excess := final_excess, k_excess_sig := final_sig\<rparr>) in
           (case t_kernels final_tx of
              [] \<Rightarrow> Panic
            | k0 # _ \<Rightarrow>
                rbind (x_kernel_verify X k0) (\<lambda>_.
                rbind (x_tx_validate X final_tx) (\<lambda>_. Ok (s\<lparr>sl_tx := Some final_tx\<rparr>))))
       | _ \<Rightarrow> Panic)))"

definition finalize :: "ext \<Rightarrow> slate \<Rightarrow> slate result" where
  "finalize X s = rbind (finalize_signature X s) (\<lambda>final_sig. finalize_transaction X final_sig s)"

end
