(* ===== verification/Slate_V4.thy ===== *)
theory Slate_V4
  imports Slate
begin

text \<open>
  The version 4 form of a slate (\<open>libwallet/src/slate_versions/v4.rs\<close>) and its conversions
  (\<open>libwallet/src/slate.rs\<close>): what is sent to the other party. The transaction travels as a list
  of commitments, and is rebuilt from it on receipt.
\<close>

section \<open>Data\<close>

datatype slate_state_v4 =
  V4_Unknown | V4_Standard1 | V4_Standard2 | V4_Standard3 | V4_Invoice1 | V4_Invoice2 | V4_Invoice3

record kernel_features_args_v4 =
  v4a_lock_hgt :: u64

record version_compat_info_v4 =
  v4i_version :: u16
  v4i_block_header_version :: u16

record participant_data_v4 =
  v4p_xs :: public_key
  v4p_nonce :: public_key
  v4p_part :: "signature option"

record payment_info_v4 =
  v4y_saddr :: dalek_pubkey
  v4y_raddr :: dalek_pubkey
  v4y_rsig :: "dalek_sig option"

record commits_v4 =
  v4c_f :: u8
  v4c_c :: commitment
  v4c_p :: "range_proof option"

record slate_v4 =
  v4_ver :: version_compat_info_v4
  v4_id :: uuid
  v4_sta :: slate_state_v4
  v4_off :: blinding_factor
  v4_num_parts :: u8
  v4_amt :: u64
  v4_fee :: fee_fields
  v4_feat :: u8
  v4_ttl :: u64
  v4_sigs :: "participant_data_v4 list"
  v4_coms :: "commits_v4 list option"
  v4_proof :: "payment_info_v4 option"
  v4_feat_args :: "kernel_features_args_v4 option"

datatype versioned_slate = VersionedV4 slate_v4

section \<open>To version 4\<close>

definition features_to_v4 :: "output_features \<Rightarrow> u8" where
  "features_to_v4 f = (case f of OF_Plain \<Rightarrow> 0 | OF_Coinbase \<Rightarrow> 1)"

definition output_to_v4 :: "tx_output \<Rightarrow> commits_v4" where
  "output_to_v4 out = \<lparr>v4c_f = features_to_v4 (ou_features out), v4c_c = ou_commit out, v4c_p = Some (ou_proof out)\<rparr>"

definition input_to_v4 :: "tx_input \<Rightarrow> commits_v4" where
  "input_to_v4 i = \<lparr>v4c_f = features_to_v4 (in_features i), v4c_c = in_commit i, v4c_p = None\<rparr>"

definition coms_of_slate :: "slate \<Rightarrow> commits_v4 list option result" where
  "coms_of_slate s = (case sl_tx s of
     None \<Rightarrow> Ok None
   | Some tx \<Rightarrow> (case t_inputs tx of
        CommitOnly _ \<Rightarrow> Panic
      | FeaturesAndCommit inputs \<Rightarrow> Ok (Some (map input_to_v4 inputs @ map output_to_v4 (t_outputs tx)))))"

definition participant_to_v4 :: "participant_data \<Rightarrow> participant_data_v4" where
  "participant_to_v4 p = \<lparr>v4p_xs = pd_public_blind_excess p, v4p_nonce = pd_public_nonce p, v4p_part = pd_part_sig p\<rparr>"

fun state_to_v4 :: "slate_state \<Rightarrow> slate_state_v4" where
  "state_to_v4 Unknown = V4_Unknown"
| "state_to_v4 Standard1 = V4_Standard1"
| "state_to_v4 Standard2 = V4_Standard2"
| "state_to_v4 Standard3 = V4_Standard3"
| "state_to_v4 Invoice1 = V4_Invoice1"
| "state_to_v4 Invoice2 = V4_Invoice2"
| "state_to_v4 Invoice3 = V4_Invoice3"

definition args_to_v4 :: "kernel_features_args \<Rightarrow> kernel_features_args_v4" where
  "args_to_v4 a = \<lparr>v4a_lock_hgt = kfa_lock_height a\<rparr>"

definition version_to_v4 :: "version_compat_info \<Rightarrow> version_compat_info_v4" where
  "version_to_v4 v = \<lparr>v4i_version = vci_version v, v4i_block_header_version = vci_block_header_version v\<rparr>"

definition payment_to_v4 :: "payment_info \<Rightarrow> payment_info_v4" where
  "payment_to_v4 p = \<lparr>v4y_saddr = pi_sender_address p, v4y_raddr = pi_receiver_address p,
     v4y_rsig = pi_receiver_signature p\<rparr>"

definition slate_to_v4 :: "slate \<Rightarrow> slate_v4 result" where
  "slate_to_v4 s = rbind (coms_of_slate s) (\<lambda>coms. Ok \<lparr>
     v4_ver = version_to_v4 (sl_version_info s), v4_id = sl_id s, v4_sta = state_to_v4 (sl_state s),
     v4_off = sl_offset s, v4_num_parts = sl_num_participants s, v4_amt = sl_amount s,
     v4_fee = sl_fee_fields s, v4_feat = sl_kernel_features s, v4_ttl = sl_ttl_cutoff_height s,
     v4_sigs = map participant_to_v4 (sl_participant_data s), v4_coms = coms,
     v4_proof = map_option payment_to_v4 (sl_payment_proof s),
     v4_feat_args = map_option args_to_v4 (sl_kernel_features_args s)\<rparr>)"

section \<open>From version 4\<close>

definition features_of_v4 :: "u8 \<Rightarrow> output_features" where
  "features_of_v4 f = (if f = 1 then OF_Coinbase else OF_Plain)"

definition participant_of_v4 :: "participant_data_v4 \<Rightarrow> participant_data" where
  "participant_of_v4 p = \<lparr>pd_public_blind_excess = v4p_xs p, pd_public_nonce = v4p_nonce p, pd_part_sig = v4p_part p\<rparr>"

fun state_of_v4 :: "slate_state_v4 \<Rightarrow> slate_state" where
  "state_of_v4 V4_Unknown = Unknown"
| "state_of_v4 V4_Standard1 = Standard1"
| "state_of_v4 V4_Standard2 = Standard2"
| "state_of_v4 V4_Standard3 = Standard3"
| "state_of_v4 V4_Invoice1 = Invoice1"
| "state_of_v4 V4_Invoice2 = Invoice2"
| "state_of_v4 V4_Invoice3 = Invoice3"

definition args_of_v4 :: "kernel_features_args_v4 \<Rightarrow> kernel_features_args" where
  "args_of_v4 a = \<lparr>kfa_lock_height = v4a_lock_hgt a\<rparr>"

definition version_of_v4 :: "version_compat_info_v4 \<Rightarrow> version_compat_info" where
  "version_of_v4 v = \<lparr>vci_version = v4i_version v, vci_block_header_version = v4i_block_header_version v\<rparr>"

definition payment_of_v4 :: "payment_info_v4 \<Rightarrow> payment_info" where
  "payment_of_v4 p = \<lparr>pi_sender_address = v4y_saddr p, pi_receiver_address = v4y_raddr p,
     pi_receiver_signature = v4y_rsig p\<rparr>"

text \<open>The features of the rebuilt kernel: 1 is read as height locked, all the others as plain.\<close>

definition v4_kernel_features :: "slate_v4 \<Rightarrow> kernel_features" where
  "v4_kernel_features v =
     (if v4_feat v = 0 then KF_Plain (v4_fee v)
      else if v4_feat v = 1 then
        KF_HeightLocked (v4_fee v) (case v4_feat_args v of Some a \<Rightarrow> v4a_lock_hgt a | None \<Rightarrow> 0)
      else KF_Plain (v4_fee v))"

text \<open>An error of the excess or of the signature is replaced by a blank one; a panic is a panic.\<close>

definition or_blank :: "'a result \<Rightarrow> 'a \<Rightarrow> 'a result" where
  "or_blank r b = (case r of Ok a \<Rightarrow> Ok a | Err _ \<Rightarrow> Ok b | Panic \<Rightarrow> Panic)"

definition is_output :: "commits_v4 \<Rightarrow> bool" where
  "is_output c \<longleftrightarrow> v4c_p c \<noteq> None"

definition tx_from_slate_v4 :: "ext \<Rightarrow> slate_v4 \<Rightarrow> transaction option result" where
  "tx_from_slate_v4 X v = (case v4_coms v of
     None \<Rightarrow> Ok None
   | Some coms \<Rightarrow>
       let calc_slate = (slate_blank X [] 2 False)\<lparr>sl_fee_fields := v4_fee v,
             sl_participant_data := map participant_of_v4 (v4_sigs v)\<rparr>
       in rbind (or_blank (calc_excess X calc_slate) (x_commit_from_vec X [0])) (\<lambda>excess.
          rbind (or_blank (finalize_signature X calc_slate) (replicate 64 0)) (\<lambda>excess_sig.
          let kern = \<lparr>k_features = v4_kernel_features v, k_excess = excess, k_excess_sig = excess_sig\<rparr>;
              tx = x_with_kernel X (empty_transaction X) kern;
              outputs = map (\<lambda>c. \<lparr>ou_features = features_of_v4 (v4c_f c), ou_commit = v4c_c c,
                    ou_proof = the (v4c_p c)\<rparr>) (filter is_output coms);
              inputs = map (\<lambda>c. \<lparr>in_features = features_of_v4 (v4c_f c), in_commit = v4c_c c\<rparr>)
                    (filter (\<lambda>c. \<not> is_output c) coms);
              tx = x_replace_outputs X (x_replace_inputs X tx (FeaturesAndCommit inputs)) outputs
          in Ok (Some (tx\<lparr>t_offset := v4_off v\<rparr>)))))"

definition slate_of_v4 :: "ext \<Rightarrow> slate_v4 \<Rightarrow> slate result" where
  "slate_of_v4 X v = rbind (tx_from_slate_v4 X v) (\<lambda>tx. Ok \<lparr>
     sl_version_info = version_of_v4 (v4_ver v), sl_num_participants = v4_num_parts v, sl_id = v4_id v,
     sl_state = state_of_v4 (v4_sta v), sl_tx = tx, sl_amount = v4_amt v, sl_fee_fields = v4_fee v,
     sl_ttl_cutoff_height = v4_ttl v, sl_kernel_features = v4_feat v, sl_offset = v4_off v,
     sl_participant_data = map participant_of_v4 (v4_sigs v),
     sl_payment_proof = map_option payment_of_v4 (v4_proof v),
     sl_kernel_features_args = map_option args_of_v4 (v4_feat_args v)\<rparr>)"

definition into_version :: "slate \<Rightarrow> versioned_slate result" where
  "into_version s = rbind (slate_to_v4 s) (\<lambda>v. Ok (VersionedV4 v))"

definition slate_upgrade :: "ext \<Rightarrow> versioned_slate \<Rightarrow> slate result" where
  "slate_upgrade X v = (case v of VersionedV4 s \<Rightarrow> slate_of_v4 X s)"

section \<open>Inverses\<close>

lemma state_v4_inverse [simp]: "state_of_v4 (state_to_v4 s) = s"
  by (cases s) simp_all

lemma to_v4_inverse [simp]:
  "features_of_v4 (features_to_v4 f) = f" "participant_of_v4 (participant_to_v4 p) = p"
  "args_of_v4 (args_to_v4 a) = a" "version_of_v4 (version_to_v4 i) = i" "payment_of_v4 (payment_to_v4 y) = y"
  by (cases f; simp add: features_of_v4_def features_to_v4_def)
     (simp_all add: participant_of_v4_def participant_to_v4_def args_of_v4_def args_to_v4_def
        version_of_v4_def version_to_v4_def payment_of_v4_def payment_to_v4_def)

lemma or_blank_Ok: "r \<noteq> Panic \<Longrightarrow> \<exists>a. or_blank r b = Ok a"
  by (cases r) (simp_all add: or_blank_def)

lemma is_output_to_v4 [simp]: "is_output (output_to_v4 out)" "\<not> is_output (input_to_v4 i)"
  by (simp_all add: is_output_def output_to_v4_def input_to_v4_def)

lemma v4_commits_back:
  "map (\<lambda>c. \<lparr>ou_features = features_of_v4 (v4c_f c), ou_commit = v4c_c c, ou_proof = the (v4c_p c)\<rparr>)
     (filter is_output (map input_to_v4 ins @ map output_to_v4 outs)) = outs"
  "map (\<lambda>c. \<lparr>in_features = features_of_v4 (v4c_f c), in_commit = v4c_c c\<rparr>)
     (filter (\<lambda>c. \<not> is_output c) (map input_to_v4 ins @ map output_to_v4 outs)) = ins"
  by (simp_all add: filter_map comp_def) (simp_all add: output_to_v4_def input_to_v4_def map_idI)

end
