(* ===== verification/Slate_Props.thy ===== *)
theory Slate_Props
  imports Slate_V4 Sample
begin

text \<open>
  The properties of the slate: a party has one entry, signing verifies the others and changes
  only that entry, a completed transaction carries the checked aggregate, and a slate sent in
  version 4 arrives as it was sent, up to its kernel.
\<close>

section \<open>Entries of the participants\<close>

lemma kept_sig_given: "kept_sig pk pn (Some sig) ps = Some sig"
  by (induction ps) (simp_all add: kept_sig_def)

lemma kept_sig_Cons: "kept_sig pk pn None (p # ps) =
    (if is_mine pk pn p then (case pd_part_sig p of Some s \<Rightarrow> Some s | None \<Rightarrow> kept_sig pk pn None ps)
     else kept_sig pk pn None ps)"
  using kept_sig_given [of pk pn _ ps] by (simp add: kept_sig_def split: option.split)

lemma kept_sig_iff: "kept_sig pk pn None ps = None \<longleftrightarrow> (\<forall>p \<in> set ps. is_mine pk pn p \<longrightarrow> pd_part_sig p = None)"
  by (induction ps) (auto simp: kept_sig_Cons kept_sig_def [of _ _ _ "[]"] split: option.splits)

lemma kept_sig_source: "kept_sig pk pn None ps = Some sig \<Longrightarrow> \<exists>p \<in> set ps. is_mine pk pn p \<and> pd_part_sig p = Some sig"
  by (induction ps) (auto simp: kept_sig_Cons kept_sig_def [of _ _ _ "[]"] split: option.splits if_splits)

text \<open>After a party has added its public data to the slate it has exactly one entry,
  the last one; the entries of the others are the same, in the same order; and a signature it had
  already given is kept, unless a new one is passed.\<close>

theorem one_entry_for_each_party:
  assumes "add_participant_info X c sig s = Ok s'"
    and "x_pk_of_sk X (ctx_sec_key c) = Ok pk" "x_pk_of_sk X (ctx_sec_nonce c) = Ok pn"
  shows "\<exists>me. filter (is_mine pk pn) (sl_participant_data s') = [me] \<and> last (sl_participant_data s') = me \<and>
    filter (\<lambda>p. \<not> is_mine pk pn p) (sl_participant_data s') = filter (\<lambda>p. \<not> is_mine pk pn p) (sl_participant_data s) \<and>
    (case sig of Some g \<Rightarrow> pd_part_sig me = Some g
     | None \<Rightarrow> (pd_part_sig me \<noteq> None \<longleftrightarrow> (\<exists>p \<in> set (sl_participant_data s). is_mine pk pn p \<and> pd_part_sig p \<noteq> None)) \<and>
              (\<forall>g. pd_part_sig me = Some g \<longrightarrow> (\<exists>p \<in> set (sl_participant_data s). is_mine pk pn p \<and> pd_part_sig p = Some g))) \<and>
    s' = s\<lparr>sl_participant_data := sl_participant_data s'\<rparr>"
proof -
  define me where "me = \<lparr>pd_public_blind_excess = pk, pd_public_nonce = pn,
      pd_part_sig = kept_sig pk pn sig (sl_participant_data s)\<rparr>"
  have s': "s' = s\<lparr>sl_participant_data := filter (\<lambda>p. \<not> is_mine pk pn p) (sl_participant_data s) @ [me]\<rparr>"
    using assms by (simp add: add_participant_info_def me_def)
  have mine: "is_mine pk pn me" by (simp add: me_def is_mine_def)
  show ?thesis
    using mine kept_sig_iff [of pk pn "sl_participant_data s"] kept_sig_source [of pk pn "sl_participant_data s"]
    by (intro exI [of _ me]) (auto simp: s' me_def kept_sig_given split: option.split)
qed

definition sample_participant :: "u8 \<Rightarrow> signature option \<Rightarrow> participant_data" where
  "sample_participant n sig = \<lparr>pd_public_blind_excess = 2 # replicate 32 n, pd_public_nonce = 2 # replicate 32 (n + 1),
     pd_part_sig = sig\<rparr>"

definition sample_slate :: slate where
  "sample_slate = (slate_blank sample_ext [7] 2 False)\<lparr>sl_amount := 100, sl_fee_fields := 40,
     sl_participant_data := [sample_participant 3 None, sample_participant 5 None]\<rparr>"

definition slate_context :: "context" where
  "slate_context = context_new \<lparr>dr_key = replicate 32 3, dr_nonce = replicate 32 4\<rparr> [0]"

theorem one_entry_for_each_party_witness:
  "\<exists>s'. add_participant_info sample_ext slate_context None sample_slate = Ok s' \<and>
    last (sl_participant_data s') = sample_participant 3 None"
proof -
  have pk: "x_pk_of_sk sample_ext (ctx_sec_key slate_context) = Ok (2 # replicate 32 3)"
    "x_pk_of_sk sample_ext (ctx_sec_nonce slate_context) = Ok (2 # replicate 32 4)"
    by (simp_all add: sample_ext_def slate_context_def context_new_def context_with_excess_def)
  obtain s' where ok: "add_participant_info sample_ext slate_context None sample_slate = Ok s'"
    by (simp add: add_participant_info_def pk)
  obtain me where me: "filter (is_mine (2 # replicate 32 3) (2 # replicate 32 4)) (sl_participant_data s') = [me]"
    "last (sl_participant_data s') = me" "pd_part_sig me = None"
    using one_entry_for_each_party [OF ok pk] by (auto simp: sample_slate_def sample_participant_def)
  have "is_mine (2 # replicate 32 3) (2 # replicate 32 4) me"
    using me(1) by (metis Cons_eq_filter_iff)
  then have "me = sample_participant 3 None"
    using me(3) by (cases me) (auto simp: is_mine_def sample_participant_def)
  with ok me(2) show ?thesis by blast
qed

section \<open>Signing\<close>

lemma verify_part_sigs_Ok:
  "verify_part_sigs X s = Ok () \<longleftrightarrow> (\<forall>p \<in> set (sl_participant_data s). \<forall>sig. pd_part_sig p = Some sig \<longrightarrow>
     (\<exists>ns bs msg. pub_nonce_sum X s = Ok ns \<and> pub_blind_sum X s = Ok bs \<and> msg_to_sign X s = Ok msg \<and>
        x_verify_partial X sig ns (pd_public_blind_excess p) (Some bs) msg = Ok ()))"
proof -
  have "(\<exists>ys. rmap f xs = Ok ys) \<longleftrightarrow> (\<forall>x \<in> set xs. \<exists>y. f x = Ok y)" for f :: "participant_data \<Rightarrow> unit result" and xs
    by (induction xs) (auto simp: res_simps)
  then show ?thesis
    by (simp add: verify_part_sigs_def res_simps Bex_def split: option.split)
qed

lemma sign_mine_Ok:
  "sign_mine pk pn sig n ps = Ok qs \<Longrightarrow> length qs = length ps \<and>
     (\<forall>i < length ps. qs ! i = ps ! i \<or> is_mine pk pn (ps ! i) \<and> qs ! i = (ps ! i)\<lparr>pd_part_sig := Some sig\<rparr>) \<and>
     ((\<exists>p \<in> set (take n ps). is_mine pk pn p) \<longrightarrow> (\<exists>q \<in> set qs. is_mine pk pn q \<and> pd_part_sig q = Some sig))"
proof (induction pk pn sig n ps arbitrary: qs rule: sign_mine.induct)
  case (3 pk pn sig n p ps)
  show ?case
  proof (cases "is_mine pk pn p")
    case True
    then show ?thesis using 3 by (auto simp: is_mine_def nth_Cons' intro: exI [of _ "p\<lparr>pd_part_sig := Some sig\<rparr>"])
  next
    case False
    then obtain rs where "sign_mine pk pn sig n ps = Ok rs" "qs = p # rs"
      using 3(2) by (auto simp: res_simps)
    then show ?thesis using 3(1) [OF False] False by (auto simp: nth_Cons' less_Suc_eq_0_disj)
  qed
qed auto

text \<open>C7: a party signs only when every partial signature already on the slate verifies
  against the sums of the public data and the kernel's message; its own entry then carries its
  partial signature over that message, and no other entry and no other field changes.\<close>

theorem signing_checks_and_signs:
  assumes "fill_round_2 X sk sn s = Ok s'"
  shows "\<exists>ns bs msg sig pk pn. pub_nonce_sum X s = Ok ns \<and> pub_blind_sum X s = Ok bs \<and> msg_to_sign X s = Ok msg \<and>
    x_sign_partial X sk sn ns (Some bs) msg = Ok sig \<and> x_pk_of_sk X sk = Ok pk \<and> x_pk_of_sk X sn = Ok pn \<and>
    (\<forall>p \<in> set (sl_participant_data s). \<forall>g. pd_part_sig p = Some g \<longrightarrow>
       x_verify_partial X g ns (pd_public_blind_excess p) (Some bs) msg = Ok ()) \<and>
    s' = s\<lparr>sl_participant_data := sl_participant_data s'\<rparr> \<and>
    length (sl_participant_data s') = length (sl_participant_data s) \<and>
    (\<forall>i < length (sl_participant_data s). let p = sl_participant_data s ! i; q = sl_participant_data s' ! i in
       q = p \<or> is_mine pk pn p \<and> q = p\<lparr>pd_part_sig := Some sig\<rparr>) \<and>
    ((\<exists>p \<in> set (take (unat (num_participants s)) (sl_participant_data s)). is_mine pk pn p) \<longrightarrow>
       (\<exists>q \<in> set (sl_participant_data s'). is_mine pk pn q \<and> pd_part_sig q = Some sig))"
proof -
  obtain ns bs msg sig pk pn ps where
    v: "verify_part_sigs X s = Ok ()" and
    k: "pub_nonce_sum X s = Ok ns" "pub_blind_sum X s = Ok bs" "msg_to_sign X s = Ok msg"
      "x_sign_partial X sk sn ns (Some bs) msg = Ok sig" "x_pk_of_sk X sk = Ok pk" "x_pk_of_sk X sn = Ok pn"
    and ps: "sign_mine pk pn sig (unat (num_participants s)) (sl_participant_data s) = Ok ps"
    and s': "s' = s\<lparr>sl_participant_data := ps\<rparr>"
    using assms by (auto simp: fill_round_2_def res_simps)
  have "\<forall>p \<in> set (sl_participant_data s). \<forall>g. pd_part_sig p = Some g \<longrightarrow>
       x_verify_partial X g ns (pd_public_blind_excess p) (Some bs) msg = Ok ()"
    using v k unfolding verify_part_sigs_Ok by auto
  then show ?thesis
    using k sign_mine_Ok [OF ps] by (intro exI conjI) (auto simp: s' Let_def)
qed

theorem signing_checks_and_signs_witness:
  "\<exists>s'. fill_round_2 sample_ext (replicate 32 5) (replicate 32 6) sample_slate = Ok s' \<and>
    (\<exists>q \<in> set (sl_participant_data s'). pd_part_sig q \<noteq> None)"
proof -
  have "is_Ok (fill_round_2 sample_ext (replicate 32 5) (replicate 32 6) sample_slate)" by code_simp
  then obtain s' where ok: "fill_round_2 sample_ext (replicate 32 5) (replicate 32 6) sample_slate = Ok s'"
    by (auto simp: is_Ok_ex)
  have pk: "x_pk_of_sk sample_ext (replicate 32 n) = Ok (2 # replicate 32 n)" for n
    by (simp add: sample_ext_def)
  have "\<exists>p \<in> set (take (unat (num_participants sample_slate)) (sl_participant_data sample_slate)).
      is_mine (2 # replicate 32 5) (2 # replicate 32 6) p"
    by code_simp
  with signing_checks_and_signs [OF ok] have "\<exists>q \<in> set (sl_participant_data s'). pd_part_sig q \<noteq> None"
    by (auto simp: pk)
  with ok show ?thesis by blast
qed

text \<open>C6: completing a slate succeeds only when every partial signature verifies, the fee of the
  transaction pays for its size and does not exceed the amount received, and the aggregate signature
  verifies for the sum of the public excesses; the one kernel then carries that signature and the
  commitment to that sum, it verifies and the whole transaction is valid. Nothing else of the slate
  changes.\<close>

theorem completion_is_checked:
  assumes "finalize X s = Ok s'"
  shows "\<exists>tx k final_tx ns bs msg sig ex. sl_tx s = Some tx \<and> t_kernels tx = [k] \<and>
    verify_part_sigs X s = Ok () \<and>
    pub_nonce_sum X s = Ok ns \<and> pub_blind_sum X s = Ok bs \<and> msg_to_sign X s = Ok msg \<and>
    x_add_signatures X (part_sigs s) ns = Ok sig \<and> x_verify_completed X sig bs (Some bs) msg = Ok () \<and>
    x_commit_of_pk X bs = Ok ex \<and>
    x_tx_fee X (inputs_len (t_inputs tx)) (length (t_outputs tx)) 1 \<le> x_tx_fee_total X tx \<and>
    x_tx_fee X (inputs_len (t_inputs tx)) (length (t_outputs tx)) 1 \<le> sl_amount s + x_fee X (sl_fee_fields s) \<and>
    final_tx = x_replace_kernel X tx (k\<lparr>k_excess := ex, k_excess_sig := sig\<rparr>) \<and>
    x_kernel_verify X (hd (t_kernels final_tx)) = Ok () \<and> x_tx_validate X final_tx = Ok () \<and>
    s' = s\<lparr>sl_tx := Some final_tx\<rparr>"
proof -
  obtain sig where fs: "finalize_signature X s = Ok sig" and ft: "finalize_transaction X sig s = Ok s'"
    using assms by (auto simp: finalize_def res_simps)
  obtain ns bs msg where sig: "verify_part_sigs X s = Ok ()" "pub_nonce_sum X s = Ok ns" "pub_blind_sum X s = Ok bs"
    "x_add_signatures X (part_sigs s) ns = Ok sig" "msg_to_sign X s = Ok msg"
    "x_verify_completed X sig bs (Some bs) msg = Ok ()"
    using fs by (auto simp: finalize_signature_def res_simps)
  obtain ex tx where tx: "check_fees X s = Ok ()" "x_commit_of_pk X bs = Ok ex" "sl_tx s = Some tx"
    using ft sig(3) by (auto simp: finalize_transaction_def calc_excess_def tx_or_err_def res_simps)
  obtain k where k: "t_kernels tx = [k]"
    using ft sig(3) tx by (auto simp: finalize_transaction_def calc_excess_def tx_or_err_def res_simps split: list.splits)
  obtain k0 ks where "t_kernels (x_replace_kernel X tx (k\<lparr>k_excess := ex, k_excess_sig := sig\<rparr>)) = k0 # ks"
    "x_kernel_verify X k0 = Ok ()" "x_tx_validate X (x_replace_kernel X tx (k\<lparr>k_excess := ex, k_excess_sig := sig\<rparr>)) = Ok ()"
    "s' = s\<lparr>sl_tx := Some (x_replace_kernel X tx (k\<lparr>k_excess := ex, k_excess_sig := sig\<rparr>))\<rparr>"
    using ft sig(3) tx k
    by (auto simp: finalize_transaction_def calc_excess_def tx_or_err_def res_simps Let_def split: list.splits)
  moreover have "x_tx_fee X (inputs_len (t_inputs tx)) (length (t_outputs tx)) 1 \<le> x_tx_fee_total X tx"
    "x_tx_fee X (inputs_len (t_inputs tx)) (length (t_outputs tx)) 1 \<le> sl_amount s + x_fee X (sl_fee_fields s)"
    using tx(1,3) k by (auto simp: check_fees_def tx_or_err_def Let_def not_less split: if_splits)
  ultimately show ?thesis
    using sig tx k by (intro exI conjI) auto
qed

definition signed_slate :: slate where
  "signed_slate = sample_slate\<lparr>sl_tx := Some (sample_tx\<lparr>t_kernels := [sample_kernel (KF_Plain 40)],
       t_outputs := [\<lparr>ou_features = OF_Plain, ou_commit = [], ou_proof = []\<rparr>]\<rparr>),
     sl_participant_data := [sample_participant 3 (Some (replicate 32 3 @ replicate 32 4))]\<rparr>"

theorem completion_is_checked_witness:
  "\<exists>s' tx k. finalize sample_ext signed_slate = Ok s' \<and> sl_tx signed_slate = Some tx \<and> t_kernels tx = [k] \<and>
     s' = s'\<lparr>sl_amount := sl_amount signed_slate\<rparr>"
proof -
  have "is_Ok (finalize sample_ext signed_slate)" by code_simp
  then obtain s' where ok: "finalize sample_ext signed_slate = Ok s'" by (auto simp: is_Ok_ex)
  show ?thesis
    using completion_is_checked [OF ok] ok by auto
qed

section \<open>Version 4\<close>

text \<open>C9: a slate sent in version 4 is received as it was sent in every field but the
  transaction; a compact slate comes back the same; and when there is a transaction, it is rebuilt
  with the same inputs and outputs (features, commitments and proofs, in order), the slate's offset
  and one kernel. The receiver's rebuilding is assumed not to panic.\<close>

theorem v4_roundtrip:
  assumes "slate_to_v4 s = Ok v" "slate_of_v4 X v = Ok s'"
    and "\<And>tx i. t_inputs (x_replace_inputs X tx i) = i \<and> t_kernels (x_replace_inputs X tx i) = t_kernels tx"
    and "\<And>tx out. t_outputs (x_replace_outputs X tx out) = out \<and> t_inputs (x_replace_outputs X tx out) = t_inputs tx \<and>
          t_kernels (x_replace_outputs X tx out) = t_kernels tx"
    and "\<And>tx k. t_kernels (x_with_kernel X tx k) = t_kernels tx @ [k]" "t_kernels (x_tx_empty X) = []"
  shows "s' = s\<lparr>sl_tx := sl_tx s'\<rparr> \<and>
    (case sl_tx s of None \<Rightarrow> s' = s
     | Some tx \<Rightarrow> \<exists>tx' k. sl_tx s' = Some tx' \<and> t_inputs tx' = t_inputs tx \<and> t_outputs tx' = t_outputs tx \<and>
         t_offset tx' = sl_offset s \<and> t_kernels tx' = [k] \<and> k_features k = v4_kernel_features v)"
proof -
  obtain coms where coms: "coms_of_slate s = Ok coms" and v: "v = \<lparr>
     v4_ver = version_to_v4 (sl_version_info s), v4_id = sl_id s, v4_sta = state_to_v4 (sl_state s),
     v4_off = sl_offset s, v4_num_parts = sl_num_participants s, v4_amt = sl_amount s,
     v4_fee = sl_fee_fields s, v4_feat = sl_kernel_features s, v4_ttl = sl_ttl_cutoff_height s,
     v4_sigs = map participant_to_v4 (sl_participant_data s), v4_coms = coms,
     v4_proof = map_option payment_to_v4 (sl_payment_proof s),
     v4_feat_args = map_option args_to_v4 (sl_kernel_features_args s)\<rparr>"
    using assms(1) by (auto simp: slate_to_v4_def res_simps)
  obtain otx where otx: "tx_from_slate_v4 X v = Ok otx" and s': "s' = s\<lparr>sl_tx := otx\<rparr>"
    using assms(2) by (auto simp: slate_of_v4_def res_simps v comp_def option.map_comp option.map_ident)
  show ?thesis
  proof (cases "sl_tx s")
    case None
    then have "coms = None" using coms by (simp add: coms_of_slate_def)
    then have "otx = None" using otx by (simp add: tx_from_slate_v4_def v)
    then show ?thesis using None s' by simp
  next
    case (Some tx)
    then obtain ins where ins: "t_inputs tx = FeaturesAndCommit ins"
      "coms = Some (map input_to_v4 ins @ map output_to_v4 (t_outputs tx))"
      using coms by (auto simp: coms_of_slate_def split: tx_inputs.splits)
    then have vc: "v4_coms v = Some (map input_to_v4 ins @ map output_to_v4 (t_outputs tx))" by (simp add: v)
    have off: "v4_off v = sl_offset s" by (simp add: v)
    obtain ex sig where "otx = Some ((x_replace_outputs X (x_replace_inputs X
        (x_with_kernel X (empty_transaction X) \<lparr>k_features = v4_kernel_features v, k_excess = ex, k_excess_sig = sig\<rparr>)
        (FeaturesAndCommit ins)) (t_outputs tx))\<lparr>t_offset := v4_off v\<rparr>)"
      using otx unfolding tx_from_slate_v4_def vc option.case Let_def v4_commits_back by (auto simp: res_simps)
    then show ?thesis
      using Some s' assms(3-6) ins(1) off by (auto simp: empty_transaction_def)
  qed
qed

theorem v4_roundtrip_witness:
  "\<exists>v s'. slate_to_v4 signed_slate = Ok v \<and> slate_of_v4 sample_ext v = Ok s' \<and> s' = signed_slate\<lparr>sl_tx := sl_tx s'\<rparr>"
proof -
  have "is_Ok (slate_to_v4 signed_slate)" "is_Ok (rbind (slate_to_v4 signed_slate) (slate_of_v4 sample_ext))"
    by (code_simp, code_simp)
  then obtain v s' where ok: "slate_to_v4 signed_slate = Ok v" "slate_of_v4 sample_ext v = Ok s'"
    by (auto simp: is_Ok_ex res_simps)
  have "s' = signed_slate\<lparr>sl_tx := sl_tx s'\<rparr>"
    by (rule conjunct1 [OF v4_roundtrip [OF ok]]) (simp_all add: sample_ext_def sample_tx_def)
  with ok show ?thesis by blast
qed

text \<open>A slate whose kernel is height locked is rebuilt by its receiver with a plain
  kernel, whatever its lock height, although the kernel it signs for is height locked; the code for
  height locking is taken for the coinbase's, which no slate can have.\<close>

theorem v4_loses_lock_height:
  assumes "sl_kernel_features s = 2" "sl_kernel_features_args s = Some a" "slate_to_v4 s = Ok v"
  shows "kernel_features X s = Ok (KF_HeightLocked (sl_fee_fields s) (kfa_lock_height a)) \<and>
    v4_kernel_features v = KF_Plain (sl_fee_fields s) \<and>
    (\<forall>s''. sl_kernel_features s'' = 1 \<longrightarrow> kernel_features X s'' = Err (Txn (InvalidKernelFeatures 1)))"
  using assms by (auto simp: kernel_features_def v4_kernel_features_def slate_to_v4_def res_simps)

theorem v4_loses_lock_height_witness:
  "\<exists>v. slate_to_v4 (sample_slate\<lparr>sl_kernel_features := 2, sl_kernel_features_args := Some \<lparr>kfa_lock_height = 50\<rparr>\<rparr>) = Ok v \<and>
     v4_kernel_features v = KF_Plain 40"
proof -
  let ?s = "sample_slate\<lparr>sl_kernel_features := 2, sl_kernel_features_args := Some \<lparr>kfa_lock_height = 50\<rparr>\<rparr>"
  have "is_Ok (slate_to_v4 ?s)" by code_simp
  then obtain v where ok: "slate_to_v4 ?s = Ok v" by (auto simp: is_Ok_ex)
  then show ?thesis
    using v4_loses_lock_height [of ?s "\<lparr>kfa_lock_height = 50\<rparr>", OF _ _ ok] by (simp add: sample_slate_def)
qed

end
