(* ===== verification/Codec.thy ===== *)
theory Codec
  imports Prelude
begin

text \<open>
  Binary serialization: the writer appends bytes, the reader takes them off its input. The
  contract between a writer and its reader is the locale \<open>codec\<close>: reading what was written,
  with anything behind it, gives the value and leaves the rest. It is proved for the integers
  here, and carried to lists and to the records of the slate and the Slatepack by the theories
  that define them.
\<close>

datatype ser_error = SE_Eof | SE_CorruptedData | SE_TooLargeReadErr | SE_Other string

type_synonym 'a rd = "(bytes, ser_error, 'a) comp"

text \<open>\<open>read_fixed_bytes\<close> of the binary reader refuses more than 100000 bytes at once.\<close>

definition MAX_FIXED_READ :: nat where
  "MAX_FIXED_READ = 100000"

definition read_fixed_bytes :: "nat \<Rightarrow> bytes rd" where
  "read_fixed_bytes n bs =
     (if n > MAX_FIXED_READ then (Err SE_TooLargeReadErr, bs)
      else if length bs < n then (Err SE_Eof, bs)
      else (Ok (take n bs), drop n bs))"

definition read_u8 :: "u8 rd" where
  "read_u8 bs = (case bs of [] \<Rightarrow> (Err SE_Eof, bs) | b # bs \<Rightarrow> (Ok b, bs))"

definition read_u16 :: "u16 rd" where
  "read_u16 = sbind (read_fixed_bytes 2) (\<lambda>b. sret (of_be b))"

definition read_u32 :: "u32 rd" where
  "read_u32 = sbind (read_fixed_bytes 4) (\<lambda>b. sret (of_be b))"

definition read_u64 :: "u64 rd" where
  "read_u64 = sbind (read_fixed_bytes 8) (\<lambda>b. sret (of_be b))"

fun read_many :: "nat \<Rightarrow> 'a rd \<Rightarrow> 'a list rd" where
  "read_many 0 f = sret []"
| "read_many (Suc n) f = sbind f (\<lambda>x. sbind (read_many n f) (\<lambda>xs. sret (x # xs)))"

lemma read_fixed_bytes_append [simp, byte_simps]:
  "length b = n \<Longrightarrow> n \<le> MAX_FIXED_READ \<Longrightarrow> read_fixed_bytes n (b @ rest) = (Ok b, rest)"
  by (simp add: read_fixed_bytes_def)

lemma read_u8_Cons [simp, byte_simps]: "read_u8 (b # rest) = (Ok b, rest)"
  by (simp add: read_u8_def)

lemma sbind_run: "m bs = (Ok a, rest) \<Longrightarrow> sbind m f bs = f a rest"
  by (simp add: sbind_def)

lemma sbind_run_Err: "m bs = (Err e, rest) \<Longrightarrow> sbind m f bs = (Err e, rest)"
  by (simp add: sbind_def)

lemma sbind_sret [simp]: "sbind (sret a) f = f a"
  by (rule ext) (simp add: sbind_def sret_def)

lemma sbind_assoc [simp]: "sbind (sbind m f) g = sbind m (\<lambda>x. sbind (f x) g)"
  by (rule ext) (auto simp: sbind_def split: prod.split res.split)

lemma sbind_fixed [simp]:
  "length b = n \<Longrightarrow> n \<le> MAX_FIXED_READ \<Longrightarrow> sbind (read_fixed_bytes n) f (b @ rest) = f b rest"
  by (simp add: sbind_def)

lemma sbind_u8 [simp]: "sbind read_u8 f (b # rest) = f b rest"
  by (simp add: sbind_def)

locale codec =
  fixes put :: "'a \<Rightarrow> bytes"
    and get :: "'a rd"
    and ok :: "'a \<Rightarrow> bool"
  assumes get_put: "ok a \<Longrightarrow> get (put a @ rest) = (Ok a, rest)"
begin

lemma get_put_end: "ok a \<Longrightarrow> get (put a) = (Ok a, [])"
  using get_put [of a "[]"] by simp

lemma bind_get: "ok a \<Longrightarrow> sbind get f (put a @ rest) = f a rest"
  by (simp add: sbind_def get_put)

lemma put_inject: "ok a \<Longrightarrow> ok b \<Longrightarrow> put a = put b \<Longrightarrow> a = b"
  by (metis get_put_end prod.inject res.inject(1))

text \<open>No encoding is the beginning of another one.\<close>

lemma put_prefix_free: "ok a \<Longrightarrow> ok b \<Longrightarrow> put a @ r = put b @ s \<Longrightarrow> a = b \<and> r = s"
  by (metis get_put prod.inject res.inject(1))

lemma read_many_put:
  "\<forall>x \<in> set xs. ok x \<Longrightarrow> read_many (length xs) get (concat (map put xs) @ rest) = (Ok xs, rest)"
  by (induction xs) (simp_all add: sbind_def get_put sret_def)

lemma bind_read_many:
  "\<forall>x \<in> set xs. ok x \<Longrightarrow> sbind (read_many (length xs) get) f (concat (map put xs) @ rest) = f xs rest"
  by (simp add: sbind_def read_many_put)

end

definition any :: "'a \<Rightarrow> bool" where "any x = True"

interpretation cu8: codec "\<lambda>b. [b]" read_u8 any
  by unfold_locales simp

interpretation cu16: codec be16 read_u16 any
  by unfold_locales (simp add: read_u16_def sbind_def sret_def MAX_FIXED_READ_def)

interpretation cu32: codec be32 read_u32 any
  by unfold_locales (simp add: read_u32_def sbind_def sret_def MAX_FIXED_READ_def)

interpretation cu64: codec be64 read_u64 any
  by unfold_locales (simp add: read_u64_def sbind_def sret_def MAX_FIXED_READ_def)

lemmas int_reads [simp] = cu16.bind_get [unfolded any_def, OF TrueI] cu32.bind_get [unfolded any_def, OF TrueI]
  cu64.bind_get [unfolded any_def, OF TrueI]

text \<open>A field written only when it differs from its default\<close>

lemma optional_field:
  assumes "\<And>r. b \<Longrightarrow> m (p @ r) = (Ok x, r)"
  shows "sbind (if b then m else sret d) f ((if b then p else []) @ r) = f (if b then x else d) r"
  using assms by (cases b) (simp_all add: sbind_def sret_def)

lemma optional_u8: "sbind (if b then read_u8 else sret d) f ((if b then [x] else []) @ r) = f (if b then x else d) r"
  by (rule optional_field) simp

lemma optional_u64: "sbind (if b then read_u64 else sret d) f ((if b then be64 x else []) @ r) = f (if b then x else d) r"
  by (rule optional_field) (simp add: cu64.get_put any_def)

end
