(* ===== verification/Slate_Bin.thy ===== *)
theory Slate_Bin
  imports Codec Slate_V4
begin

text \<open>
  The binary form of a version 4 slate (\<open>libwallet/src/slate_versions/v4_bin.rs\<close>). The forms of
  keys, signatures, commitments, proofs and fees belong to other crates: \<open>ser_ext\<close> holds their
  writers and readers, and \<open>ser_ok\<close> says that each pair is a codec.
\<close>

record ser_ext =
  e_put_pk :: "public_key \<Rightarrow> bytes"
  e_get_pk :: "public_key rd"
  e_put_sig :: "signature \<Rightarrow> bytes"
  e_get_sig :: "signature rd"
  e_put_blind :: "blinding_factor \<Rightarrow> bytes"
  e_get_blind :: "blinding_factor rd"
  e_put_fee :: "fee_fields \<Rightarrow> bytes"
  e_get_fee :: "fee_fields rd"
  e_put_features :: "output_features \<Rightarrow> bytes"
  e_get_features :: "output_features rd"
  e_put_commit :: "commitment \<Rightarrow> bytes"
  e_get_commit :: "commitment rd"
  e_put_rproof :: "range_proof \<Rightarrow> bytes"
  e_get_rproof :: "range_proof rd"
  e_fee_of :: "fee_fields \<Rightarrow> u64"
  e_dalek_pk_valid :: "bytes \<Rightarrow> bool"
  e_dalek_sig_valid :: "bytes \<Rightarrow> bool"

section \<open>State and identifier\<close>

fun put_state :: "slate_state_v4 \<Rightarrow> bytes" where
  "put_state V4_Unknown = [0]"
| "put_state V4_Standard1 = [1]"
| "put_state V4_Standard2 = [2]"
| "put_state V4_Standard3 = [3]"
| "put_state V4_Invoice1 = [4]"
| "put_state V4_Invoice2 = [5]"
| "put_state V4_Invoice3 = [6]"

definition get_state :: "slate_state_v4 rd" where
  "get_state = sbind read_u8 (\<lambda>b. sret
     (if b = 0 then V4_Unknown else if b = 1 then V4_Standard1 else if b = 2 then V4_Standard2
      else if b = 3 then V4_Standard3 else if b = 4 then V4_Invoice1 else if b = 5 then V4_Invoice2
      else if b = 6 then V4_Invoice3 else V4_Unknown))"

definition put_uuid :: "uuid \<Rightarrow> bytes" where
  "put_uuid u = u"

definition get_uuid :: "uuid rd" where
  "get_uuid = sbind (read_fixed_bytes 16) (\<lambda>b. sret (take 16 b))"

section \<open>Optional fields\<close>

record slate_opt_fields =
  of_num_parts :: u8
  of_amt :: u64
  of_fee :: fee_fields
  of_feat :: u8
  of_ttl :: u64

definition opt_fields_status :: "ser_ext \<Rightarrow> slate_opt_fields \<Rightarrow> u8" where
  "opt_fields_status E f =
     (if of_num_parts f \<noteq> 2 then 0x01 else 0) OR (if of_amt f > 0 then 0x02 else 0) OR
     (if e_fee_of E (of_fee f) > 0 then 0x04 else 0) OR (if of_feat f > 0 then 0x08 else 0) OR
     (if of_ttl f > 0 then 0x10 else 0)"

definition put_opt_fields :: "ser_ext \<Rightarrow> slate_opt_fields \<Rightarrow> bytes" where
  "put_opt_fields E f =
     (let status = opt_fields_status E f in
      [status] @
      (if status AND 0x01 > 0 then [of_num_parts f] else []) @
      (if status AND 0x02 > 0 then be64 (of_amt f) else []) @
      (if status AND 0x04 > 0 then e_put_fee E (of_fee f) else []) @
      (if status AND 0x08 > 0 then [of_feat f] else []) @
      (if status AND 0x10 > 0 then be64 (of_ttl f) else []))"

definition get_opt_fields :: "ser_ext \<Rightarrow> slate_opt_fields rd" where
  "get_opt_fields E =
     sbind read_u8 (\<lambda>status.
     sbind (if status AND 0x01 > 0 then read_u8 else sret 2) (\<lambda>num_parts.
     sbind (if status AND 0x02 > 0 then read_u64 else sret 0) (\<lambda>amt.
     sbind (if status AND 0x04 > 0 then e_get_fee E else sret 0) (\<lambda>fee.
     sbind (if status AND 0x08 > 0 then read_u8 else sret 0) (\<lambda>feat.
     sbind (if status AND 0x10 > 0 then read_u64 else sret 0) (\<lambda>ttl.
       sret \<lparr>of_num_parts = num_parts, of_amt = amt, of_fee = fee, of_feat = feat, of_ttl = ttl\<rparr>))))))"

section \<open>Signatures\<close>

definition put_participant :: "ser_ext \<Rightarrow> participant_data_v4 \<Rightarrow> bytes" where
  "put_participant E s = [if v4p_part s \<noteq> None then 1 else 0] @ e_put_pk E (v4p_xs s) @ e_put_pk E (v4p_nonce s) @
     (case v4p_part s of Some sig \<Rightarrow> e_put_sig E sig | None \<Rightarrow> [])"

definition get_participant :: "ser_ext \<Rightarrow> participant_data_v4 rd" where
  "get_participant E =
     sbind read_u8 (\<lambda>has_partial.
     sbind (e_get_pk E) (\<lambda>xs.
     sbind (e_get_pk E) (\<lambda>nonce.
     sbind (if has_partial = 1 then sbind (e_get_sig E) (\<lambda>s. sret (Some s)) else sret None) (\<lambda>part.
       sret \<lparr>v4p_xs = xs, v4p_nonce = nonce, v4p_part = part\<rparr>))))"

text \<open>The number of entries is cut to a byte.\<close>

definition put_sigs :: "ser_ext \<Rightarrow> participant_data_v4 list \<Rightarrow> bytes" where
  "put_sigs E sigs = [of_nat (length sigs)] @ concat (map (put_participant E) sigs)"

definition get_sigs :: "ser_ext \<Rightarrow> participant_data_v4 list rd" where
  "get_sigs E = sbind read_u8 (\<lambda>sigs_len. read_many (unat sigs_len) (get_participant E))"

section \<open>Commitments and payment proof\<close>

definition put_com :: "ser_ext \<Rightarrow> commits_v4 \<Rightarrow> bytes" where
  "put_com E c = [if v4c_p c \<noteq> None then 1 else 0] @ e_put_features E (features_of_v4 (v4c_f c)) @
     e_put_commit E (v4c_c c) @ (case v4c_p c of Some p \<Rightarrow> e_put_rproof E p | None \<Rightarrow> [])"

definition get_com :: "ser_ext \<Rightarrow> commits_v4 rd" where
  "get_com E =
     sbind read_u8 (\<lambda>is_out.
     sbind (e_get_features E) (\<lambda>f.
     sbind (e_get_commit E) (\<lambda>c.
     sbind (if is_out = 1 then sbind (e_get_rproof E) (\<lambda>p. sret (Some p)) else sret None) (\<lambda>p.
       sret \<lparr>v4c_f = features_to_v4 f, v4c_c = c, v4c_p = p\<rparr>))))"

definition put_coms :: "ser_ext \<Rightarrow> commits_v4 list \<Rightarrow> bytes" where
  "put_coms E coms = be16 (of_nat (length coms)) @ concat (map (put_com E) coms)"

definition get_coms :: "ser_ext \<Rightarrow> commits_v4 list rd" where
  "get_coms E = sbind read_u16 (\<lambda>coms_len. read_many (unat coms_len) (get_com E))"

definition put_proof :: "payment_info_v4 \<Rightarrow> bytes" where
  "put_proof p = v4y_saddr p @ v4y_raddr p @ (case v4y_rsig p of Some s \<Rightarrow> [1] @ s | None \<Rightarrow> [0])"

definition get_dalek_pk :: "ser_ext \<Rightarrow> dalek_pubkey rd" where
  "get_dalek_pk E = sbind (read_fixed_bytes 32) (\<lambda>b.
     if e_dalek_pk_valid E b then sret b else sfail SE_CorruptedData)"

definition get_proof :: "ser_ext \<Rightarrow> payment_info_v4 rd" where
  "get_proof E =
     sbind (get_dalek_pk E) (\<lambda>saddr.
     sbind (get_dalek_pk E) (\<lambda>raddr.
     sbind read_u8 (\<lambda>b.
     sbind (if b = 0 then sret None
            else sbind (read_fixed_bytes 64) (\<lambda>s.
              if e_dalek_sig_valid E s then sret (Some s) else sfail SE_CorruptedData)) (\<lambda>rsig.
       sret \<lparr>v4y_saddr = saddr, v4y_raddr = raddr, v4y_rsig = rsig\<rparr>))))"

record slate_opt_structs =
  os_coms :: "commits_v4 list option"
  os_proof :: "payment_info_v4 option"

definition put_opt_structs :: "ser_ext \<Rightarrow> slate_opt_structs \<Rightarrow> bytes" where
  "put_opt_structs E o' =
     [(if os_coms o' \<noteq> None then 0x01 else 0) OR (if os_proof o' \<noteq> None then 0x02 else 0)] @
     (case os_coms o' of Some c \<Rightarrow> put_coms E c | None \<Rightarrow> []) @
     (case os_proof o' of Some p \<Rightarrow> put_proof p | None \<Rightarrow> [])"

definition get_opt_structs :: "ser_ext \<Rightarrow> slate_opt_structs rd" where
  "get_opt_structs E =
     sbind read_u8 (\<lambda>status.
     sbind (if status AND 0x01 > 0 then sbind (get_coms E) (\<lambda>c. sret (Some c)) else sret None) (\<lambda>coms.
     sbind (if status AND 0x02 > 0 then sbind (get_proof E) (\<lambda>p. sret (Some p)) else sret None) (\<lambda>proof.
       sret \<lparr>os_coms = coms, os_proof = proof\<rparr>)))"

section \<open>The slate\<close>

definition put_slate :: "ser_ext \<Rightarrow> slate_v4 \<Rightarrow> bytes" where
  "put_slate E v = be16 (v4i_version (v4_ver v)) @ be16 (v4i_block_header_version (v4_ver v)) @
     put_uuid (v4_id v) @ put_state (v4_sta v) @ e_put_blind E (v4_off v) @
     put_opt_fields E \<lparr>of_num_parts = v4_num_parts v, of_amt = v4_amt v, of_fee = v4_fee v,
        of_feat = v4_feat v, of_ttl = v4_ttl v\<rparr> @
     put_sigs E (v4_sigs v) @
     put_opt_structs E \<lparr>os_coms = v4_coms v, os_proof = v4_proof v\<rparr> @
     (if v4_feat v = 2 then be64 (case v4_feat_args v of Some l \<Rightarrow> v4a_lock_hgt l | None \<Rightarrow> 0) else [])"

definition get_slate :: "ser_ext \<Rightarrow> slate_v4 rd" where
  "get_slate E =
     sbind read_u16 (\<lambda>version. sbind read_u16 (\<lambda>block_header_version.
     sbind get_uuid (\<lambda>uuid. sbind get_state (\<lambda>sta. sbind (e_get_blind E) (\<lambda>off.
     sbind (get_opt_fields E) (\<lambda>opts. sbind (get_sigs E) (\<lambda>sigs. sbind (get_opt_structs E) (\<lambda>opt_structs.
     sbind (if of_feat opts = 2 then sbind read_u64 (\<lambda>h. sret (Some \<lparr>v4a_lock_hgt = h\<rparr>)) else sret None) (\<lambda>feat_args.
       sret \<lparr>v4_ver = \<lparr>v4i_version = version, v4i_block_header_version = block_header_version\<rparr>, v4_id = uuid,
         v4_sta = sta, v4_off = off, v4_num_parts = of_num_parts opts, v4_amt = of_amt opts, v4_fee = of_fee opts,
         v4_feat = of_feat opts, v4_ttl = of_ttl opts, v4_sigs = sigs, v4_coms = os_coms opt_structs,
         v4_proof = os_proof opt_structs, v4_feat_args = feat_args\<rparr>)))))))))"

section \<open>Codecs\<close>

text \<open>What is assumed of the forms of the other crates, for the values that occur\<close>

definition ser_ok :: "ser_ext \<Rightarrow> bool" where
  "ser_ok E \<longleftrightarrow>
     (\<forall>a r. length a = 33 \<longrightarrow> e_get_pk E (e_put_pk E a @ r) = (Ok a, r)) \<and>
     (\<forall>a r. length a = 64 \<longrightarrow> e_get_sig E (e_put_sig E a @ r) = (Ok a, r)) \<and>
     (\<forall>a r. length a = 32 \<longrightarrow> e_get_blind E (e_put_blind E a @ r) = (Ok a, r)) \<and>
     (\<forall>a r. e_fee_of E a > 0 \<longrightarrow> e_get_fee E (e_put_fee E a @ r) = (Ok a, r)) \<and>
     (\<forall>a r. e_get_features E (e_put_features E a @ r) = (Ok a, r)) \<and>
     (\<forall>a r. length a = 33 \<longrightarrow> e_get_commit E (e_put_commit E a @ r) = (Ok a, r)) \<and>
     (\<forall>a r. length a \<le> 675 \<longrightarrow> e_get_rproof E (e_put_rproof E a @ r) = (Ok a, r))"

definition participant_ok :: "participant_data_v4 \<Rightarrow> bool" where
  "participant_ok p \<longleftrightarrow> length (v4p_xs p) = 33 \<and> length (v4p_nonce p) = 33 \<and> (\<forall>s. v4p_part p = Some s \<longrightarrow> length s = 64)"

definition com_ok :: "commits_v4 \<Rightarrow> bool" where
  "com_ok c \<longleftrightarrow> v4c_f c \<le> 1 \<and> length (v4c_c c) = 33 \<and> (\<forall>p. v4c_p c = Some p \<longrightarrow> length p \<le> 675)"

definition proof_ok :: "ser_ext \<Rightarrow> payment_info_v4 \<Rightarrow> bool" where
  "proof_ok E p \<longleftrightarrow> length (v4y_saddr p) = 32 \<and> e_dalek_pk_valid E (v4y_saddr p) \<and>
     length (v4y_raddr p) = 32 \<and> e_dalek_pk_valid E (v4y_raddr p) \<and>
     (\<forall>s. v4y_rsig p = Some s \<longrightarrow> length s = 64 \<and> e_dalek_sig_valid E s)"

definition opt_fields_ok :: "ser_ext \<Rightarrow> slate_opt_fields \<Rightarrow> bool" where
  "opt_fields_ok E f \<longleftrightarrow> of_fee f = 0 \<or> e_fee_of E (of_fee f) > 0"

definition opt_structs_ok :: "ser_ext \<Rightarrow> slate_opt_structs \<Rightarrow> bool" where
  "opt_structs_ok E o' \<longleftrightarrow> (\<forall>cs. os_coms o' = Some cs \<longrightarrow> length cs < 2 ^ 16 \<and> (\<forall>c \<in> set cs. com_ok c)) \<and>
     (\<forall>p. os_proof o' = Some p \<longrightarrow> proof_ok E p)"

interpretation state: codec put_state get_state any
proof unfold_locales
  fix s rest show "get_state (put_state s @ rest) = (Ok s, rest)"
    by (cases s) (simp_all add: get_state_def sret_def)
qed

interpretation participant: codec "put_participant E" "get_participant E" "\<lambda>p. ser_ok E \<and> participant_ok p" for E
proof unfold_locales
  fix p rest assume "ser_ok E \<and> participant_ok p"
  then show "get_participant E (put_participant E p @ rest) = (Ok p, rest)"
    by (cases "v4p_part p")
      (simp_all add: get_participant_def put_participant_def ser_ok_def participant_ok_def sbind_run sret_def)
qed

interpretation com: codec "put_com E" "get_com E" "\<lambda>c. ser_ok E \<and> com_ok c" for E
proof unfold_locales
  fix c rest assume c: "ser_ok E \<and> com_ok c"
  then have f: "features_to_v4 (features_of_v4 (v4c_f c)) = v4c_f c"
    by (auto simp: com_ok_def features_to_v4_def features_of_v4_def word_le_nat_alt word_unat_eq_iff le_Suc_eq)
  from c f show "get_com E (put_com E c @ rest) = (Ok c, rest)"
    by (cases "v4c_p c") (simp_all add: get_com_def put_com_def ser_ok_def com_ok_def sbind_run sret_def)
qed

interpretation payment: codec put_proof "get_proof E" "proof_ok E" for E
proof unfold_locales
  fix p rest assume "proof_ok E p"
  then show "get_proof E (put_proof p @ rest) = (Ok p, rest)"
    by (cases "v4y_rsig p")
      (simp_all add: get_proof_def put_proof_def get_dalek_pk_def proof_ok_def MAX_FIXED_READ_def sret_def)
qed

lemma opt_fields_bits:
  "(opt_fields_status E f AND 0x01 > 0) = (of_num_parts f \<noteq> 2)" "(opt_fields_status E f AND 0x02 > 0) = (of_amt f > 0)"
  "(opt_fields_status E f AND 0x04 > 0) = (e_fee_of E (of_fee f) > 0)" "(opt_fields_status E f AND 0x08 > 0) = (of_feat f > 0)"
  "(opt_fields_status E f AND 0x10 > 0) = (of_ttl f > 0)"
  unfolding opt_fields_status_def by (simp_all split: if_splits)

interpretation opt_fields: codec "put_opt_fields E" "get_opt_fields E" "\<lambda>f. ser_ok E \<and> opt_fields_ok E f" for E
proof unfold_locales
  fix f rest assume f: "ser_ok E \<and> opt_fields_ok E f"
  have fee: "sbind (if e_fee_of E (of_fee f) > 0 then e_get_fee E else sret 0) h
      ((if e_fee_of E (of_fee f) > 0 then e_put_fee E (of_fee f) else []) @ r) = h (of_fee f) r"
    for h :: "fee_fields \<Rightarrow> slate_opt_fields rd" and r
  proof -
    have "(if e_fee_of E (of_fee f) > 0 then of_fee f else 0) = of_fee f"
      using f by (auto simp: opt_fields_ok_def)
    then show ?thesis
      using f optional_field [of "e_fee_of E (of_fee f) > 0" "e_get_fee E" "e_put_fee E (of_fee f)" "of_fee f" 0 h r]
      by (simp add: ser_ok_def)
  qed
  have defaults: "(if of_num_parts f \<noteq> 2 then of_num_parts f else 2) = of_num_parts f"
    "(if of_amt f > 0 then of_amt f else 0) = of_amt f" "(if of_feat f > 0 then of_feat f else 0) = of_feat f"
    "(if of_ttl f > 0 then of_ttl f else 0) = of_ttl f"
    by (auto simp: word_gt_0)
  show "get_opt_fields E (put_opt_fields E f @ rest) = (Ok f, rest)"
    unfolding get_opt_fields_def put_opt_fields_def Let_def append_assoc append_Cons append_Nil sbind_u8
      opt_fields_bits optional_u8 optional_u64 fee defaults
    by (simp add: sret_def)
qed

interpretation sigs: codec "put_sigs E" "get_sigs E"
    "\<lambda>s. ser_ok E \<and> length s < 256 \<and> (\<forall>p \<in> set s. participant_ok p)" for E
proof unfold_locales
  fix s rest assume s: "ser_ok E \<and> length s < 256 \<and> (\<forall>p \<in> set s. participant_ok p)"
  then have "unat (of_nat (length s) :: u8) = length s"
    by (simp add: unsigned_of_nat take_bit_nat_eq_self)
  with s show "get_sigs E (put_sigs E s @ rest) = (Ok s, rest)"
    by (simp add: get_sigs_def put_sigs_def participant.read_many_put)
qed

interpretation coms: codec "put_coms E" "get_coms E"
    "\<lambda>cs. ser_ok E \<and> length cs < 2 ^ 16 \<and> (\<forall>c \<in> set cs. com_ok c)" for E
proof unfold_locales
  fix cs rest assume cs: "ser_ok E \<and> length cs < 2 ^ 16 \<and> (\<forall>c \<in> set cs. com_ok c)"
  then have "unat (of_nat (length cs) :: u16) = length cs"
    by (simp add: unsigned_of_nat take_bit_nat_eq_self)
  with cs show "get_coms E (put_coms E cs @ rest) = (Ok cs, rest)"
    by (simp add: get_coms_def put_coms_def com.read_many_put)
qed

lemma opt_structs_bits:
  "((if a then 0x01 else 0) OR (if b then 0x02 else (0 :: u8))) AND 0x01 > 0 \<longleftrightarrow> a"
  "((if a then 0x01 else 0) OR (if b then 0x02 else (0 :: u8))) AND 0x02 > 0 \<longleftrightarrow> b"
  by (simp_all split: if_splits)

lemma optional_some:
  assumes "\<And>x r. v = Some x \<Longrightarrow> m (p x @ r) = (Ok x, r)"
  shows "sbind (if v \<noteq> None then sbind m (\<lambda>x. sret (Some x)) else sret None) f
      ((case v of Some x \<Rightarrow> p x | None \<Rightarrow> []) @ r) = f v r"
  using assms by (cases v) (simp_all add: sbind_def sret_def)

interpretation opt_structs: codec "put_opt_structs E" "get_opt_structs E" "\<lambda>o'. ser_ok E \<and> opt_structs_ok E o'" for E
proof unfold_locales
  fix o' rest assume o': "ser_ok E \<and> opt_structs_ok E o'"
  have c: "sbind (if os_coms o' \<noteq> None then sbind (get_coms E) (\<lambda>x. sret (Some x)) else sret None) f
      ((case os_coms o' of Some x \<Rightarrow> put_coms E x | None \<Rightarrow> []) @ r) = f (os_coms o') r"
    for f :: "commits_v4 list option \<Rightarrow> slate_opt_structs rd" and r
    by (rule optional_some) (use o' in \<open>auto simp: opt_structs_ok_def intro!: coms.get_put\<close>)
  have p: "sbind (if os_proof o' \<noteq> None then sbind (get_proof E) (\<lambda>x. sret (Some x)) else sret None) f
      ((case os_proof o' of Some x \<Rightarrow> put_proof x | None \<Rightarrow> []) @ r) = f (os_proof o') r"
    for f :: "payment_info_v4 option \<Rightarrow> slate_opt_structs rd" and r
    by (rule optional_some) (use o' in \<open>auto simp: opt_structs_ok_def intro!: payment.get_put\<close>)
  show "get_opt_structs E (put_opt_structs E o' @ rest) = (Ok o', rest)"
    unfolding get_opt_structs_def put_opt_structs_def append_assoc append_Cons append_Nil sbind_u8
      opt_structs_bits c p
    by (simp add: sret_def)
qed

text \<open>The kernel arguments that survive: only those of a height locked kernel\<close>

definition bin_feat_args :: "slate_v4 \<Rightarrow> kernel_features_args_v4 option" where
  "bin_feat_args v = (if v4_feat v = 2
     then Some \<lparr>v4a_lock_hgt = (case v4_feat_args v of Some l \<Rightarrow> v4a_lock_hgt l | None \<Rightarrow> 0)\<rparr> else None)"

definition slate_bin_ok :: "ser_ext \<Rightarrow> slate_v4 \<Rightarrow> bool" where
  "slate_bin_ok E v \<longleftrightarrow> ser_ok E \<and> length (v4_id v) = 16 \<and> length (v4_off v) = 32 \<and>
     (v4_fee v = 0 \<or> e_fee_of E (v4_fee v) > 0) \<and>
     length (v4_sigs v) < 256 \<and> (\<forall>p \<in> set (v4_sigs v). participant_ok p) \<and>
     opt_structs_ok E \<lparr>os_coms = v4_coms v, os_proof = v4_proof v\<rparr>"

lemma get_put_slate:
  assumes "slate_bin_ok E v"
  shows "get_slate E (put_slate E v @ rest) = (Ok (v\<lparr>v4_feat_args := bin_feat_args v\<rparr>), rest)"
proof -
  have o': "ser_ok E \<and> opt_fields_ok E \<lparr>of_num_parts = v4_num_parts v, of_amt = v4_amt v, of_fee = v4_fee v,
        of_feat = v4_feat v, of_ttl = v4_ttl v\<rparr>"
    "ser_ok E \<and> opt_structs_ok E \<lparr>os_coms = v4_coms v, os_proof = v4_proof v\<rparr>"
    "ser_ok E \<and> length (v4_sigs v) < 256 \<and> (\<forall>p \<in> set (v4_sigs v). participant_ok p)"
    using assms by (simp_all add: slate_bin_ok_def opt_fields_ok_def)
  have u: "sbind get_uuid f (put_uuid (v4_id v) @ r) = f (v4_id v) r" for f :: "uuid \<Rightarrow> slate_v4 rd" and r
    using assms by (simp add: get_uuid_def put_uuid_def slate_bin_ok_def MAX_FIXED_READ_def)
  have b: "sbind (e_get_blind E) f (e_put_blind E (v4_off v) @ r) = f (v4_off v) r"
    for f :: "blinding_factor \<Rightarrow> slate_v4 rd" and r
    using assms by (simp add: slate_bin_ok_def ser_ok_def sbind_run)
  show ?thesis
    unfolding get_slate_def put_slate_def append_assoc int_reads u b state.bind_get [unfolded any_def, OF TrueI]
      opt_fields.bind_get [OF o'(1)] sigs.bind_get [OF o'(3)] opt_structs.bind_get [OF o'(2)]
    by (simp add: bin_feat_args_def sret_def)
qed

interpretation slate_bin: codec "put_slate E" "get_slate E" "\<lambda>v. slate_bin_ok E v \<and> v4_feat_args v = bin_feat_args v" for E
proof unfold_locales
  fix v rest assume v: "slate_bin_ok E v \<and> v4_feat_args v = bin_feat_args v"
  have "v\<lparr>v4_feat_args := v4_feat_args v\<rparr> = v" by simp
  with v show "get_slate E (put_slate E v @ rest) = (Ok v, rest)" by (simp add: get_put_slate)
qed

end
