(* ===== verification/Slate_Bin_Props.thy ===== *)
theory Slate_Bin_Props
  imports Slate_Bin Slate_Props
begin

text \<open>The properties of the binary slate: what is read back, and what is lost on the way.\<close>

section \<open>Round trip\<close>

text \<open>C8: a slate written in the binary form is read back with every field, whatever
  bytes follow, and the reader leaves exactly those bytes; only the kernel arguments come back
  changed: those of a height locked kernel are kept (a missing one as height zero), and those of
  any other kernel are dropped. The forms of keys, signatures, commitments and proofs are assumed
  to be read back by their own crates, and the lists to fit their counts.\<close>

theorem binary_slate_roundtrip:
  assumes "slate_bin_ok E v"
  shows "get_slate E (put_slate E v @ rest) = (Ok (v\<lparr>v4_feat_args := bin_feat_args v\<rparr>), rest) \<and>
    (v4_feat v \<notin> {2, 3} \<and> v4_feat_args v = None \<or> v4_feat v = 2 \<and> v4_feat_args v \<noteq> None \<longrightarrow>
       get_slate E (put_slate E v @ rest) = (Ok v, rest))"
proof -
  have "v4_feat_args v = bin_feat_args v"
    if "v4_feat v \<notin> {2, 3} \<and> v4_feat_args v = None \<or> v4_feat v = 2 \<and> v4_feat_args v \<noteq> None"
    using that by (auto simp: bin_feat_args_def)
  then show ?thesis
    using get_put_slate [OF assms] slate_bin.get_put [of E v rest] assms by blast
qed

text \<open>Forms of fixed length, as the sample for the other crates'\<close>

definition fixed :: "nat \<Rightarrow> bytes rd" where
  "fixed n = read_fixed_bytes n"

definition sample_ser :: ser_ext where
  "sample_ser = \<lparr>
     e_put_pk = (\<lambda>b. b), e_get_pk = fixed 33, e_put_sig = (\<lambda>b. b), e_get_sig = fixed 64,
     e_put_blind = (\<lambda>b. b), e_get_blind = fixed 32, e_put_fee = be64, e_get_fee = read_u64,
     e_put_features = (\<lambda>f. [features_to_v4 f]), e_get_features = sbind read_u8 (\<lambda>b. sret (features_of_v4 b)),
     e_put_commit = (\<lambda>b. b), e_get_commit = fixed 33,
     e_put_rproof = (\<lambda>b. be16 (of_nat (length b)) @ b),
     e_get_rproof = sbind read_u16 (\<lambda>n. read_fixed_bytes (unat n)),
     e_fee_of = (\<lambda>f. f), e_dalek_pk_valid = (\<lambda>b. True), e_dalek_sig_valid = (\<lambda>b. True)\<rparr>"

lemma sample_ser_ok: "ser_ok sample_ser"
proof -
  have "unat (of_nat (length b) :: u16) = length b" if "length b \<le> 675" for b :: bytes
    using that by (simp add: unsigned_of_nat take_bit_nat_eq_self)
  then show ?thesis
    by (simp add: ser_ok_def sample_ser_def fixed_def MAX_FIXED_READ_def cu64.get_put [unfolded any_def] sret_def)
qed

definition sample_v4 :: slate_v4 where
  "sample_v4 = \<lparr>v4_ver = \<lparr>v4i_version = 4, v4i_block_header_version = 3\<rparr>, v4_id = replicate 16 7,
     v4_sta = V4_Standard1, v4_off = replicate 32 0, v4_num_parts = 2, v4_amt = 100, v4_fee = 40, v4_feat = 3,
     v4_ttl = 0, v4_sigs = [participant_to_v4 (sample_participant 3 None)],
     v4_coms = Some [\<lparr>v4c_f = 0, v4c_c = replicate 33 8, v4c_p = Some [1, 2]\<rparr>], v4_proof = None,
     v4_feat_args = Some \<lparr>v4a_lock_hgt = 50\<rparr>\<rparr>"

lemma sample_v4_ok: "slate_bin_ok sample_ser sample_v4"
  by (simp add: slate_bin_ok_def sample_ser_ok sample_v4_def participant_ok_def participant_to_v4_def
      sample_participant_def opt_structs_ok_def com_ok_def)
    (simp add: sample_ser_def)

theorem binary_slate_roundtrip_witness:
  "get_slate sample_ser (put_slate sample_ser sample_v4 @ [9]) = (Ok (sample_v4\<lparr>v4_feat_args := None\<rparr>), [9])"
  using binary_slate_roundtrip [OF sample_v4_ok, of "[9]"] by (simp add: bin_feat_args_def sample_v4_def)

text \<open>A slate for a kernel without recent duplicates cannot be sent in the binary form:
  its relative height is not written, and the slate its receiver rebuilds fails with a missing lock
  height where the sender's has a kernel.\<close>

theorem binary_slate_loses_nrd_height:
  assumes "sl_kernel_features s = 3" "sl_kernel_features_args s = Some a" "x_nrd_height X (kfa_lock_height a) = Ok h"
    and "slate_to_v4 s = Ok v" "slate_bin_ok E v"
    and "get_slate E (put_slate E v) = (Ok v', [])" "slate_of_v4 X v' = Ok s'"
  shows "kernel_features X s = Ok (KF_NoRecentDuplicate (sl_fee_fields s) h) \<and>
    kernel_features X s' = Err (Txn (KernelFeaturesMissing ''lock_height''))"
proof -
  have v: "v4_feat v = 3" using assms(1,4) by (auto simp: slate_to_v4_def res_simps)
  have "v' = v\<lparr>v4_feat_args := None\<rparr>"
    using get_put_slate [OF assms(5), of "[]"] assms(6) v by (simp add: bin_feat_args_def)
  then have "sl_kernel_features s' = 3" "sl_kernel_features_args s' = None"
    using assms(7) v by (auto simp: slate_of_v4_def res_simps)
  then show ?thesis using assms(1-3) by (simp add: kernel_features_def)
qed

definition nrd_slate :: slate where
  "nrd_slate = sample_slate\<lparr>sl_id := replicate 16 7, sl_tx := None, sl_kernel_features := 3,
     sl_kernel_features_args := Some \<lparr>kfa_lock_height = 50\<rparr>\<rparr>"

theorem binary_slate_loses_nrd_height_witness:
  "kernel_features sample_ext nrd_slate = Ok (KF_NoRecentDuplicate 40 50) \<and>
   (\<exists>v v' s'. slate_to_v4 nrd_slate = Ok v \<and> get_slate sample_ser (put_slate sample_ser v) = (Ok v', []) \<and>
     slate_of_v4 sample_ext v' = Ok s' \<and>
     kernel_features sample_ext s' = Err (Txn (KernelFeaturesMissing ''lock_height'')))"
proof -
  have "is_Ok (slate_to_v4 nrd_slate)" by code_simp
  then obtain v where v: "slate_to_v4 nrd_slate = Ok v" by (auto simp: is_Ok_ex)
  have ok: "slate_bin_ok sample_ser v"
    using v by (auto simp: slate_to_v4_def res_simps slate_bin_ok_def sample_ser_ok opt_structs_ok_def nrd_slate_def
        sample_slate_def participant_ok_def participant_to_v4_def sample_participant_def slate_blank_def zero_blind_def
        coms_of_slate_def) (simp_all add: sample_ser_def)
  define v' where "v' = v\<lparr>v4_feat_args := bin_feat_args v\<rparr>"
  have g: "get_slate sample_ser (put_slate sample_ser v) = (Ok v', [])"
    using get_put_slate [OF ok, of "[]"] by (simp add: v'_def)
  have "v4_coms v' = None"
    using v by (auto simp: v'_def slate_to_v4_def res_simps coms_of_slate_def nrd_slate_def)
  then obtain s' where s': "slate_of_v4 sample_ext v' = Ok s'"
    by (simp add: slate_of_v4_def tx_from_slate_v4_def)
  have "x_nrd_height sample_ext 50 = Ok 50" by (simp add: sample_ext_def)
  then show ?thesis
    using binary_slate_loses_nrd_height [of nrd_slate "\<lparr>kfa_lock_height = 50\<rparr>" sample_ext 50 v sample_ser v' s'] v ok g s'
    by (auto simp: nrd_slate_def sample_slate_def)
qed

end
