(* ===== verification/Send.thy ===== *)
theory Send
  imports Slate Selection
begin

text \<open>
  The two sides of a transaction in the wallet (\<open>libwallet/src/internal/selection.rs\<close>): choosing
  the coins of a slate, locking them with the change outputs and the log entry, the output of a
  recipient, and filling a slate again from its private context.
\<close>

section \<open>Shared pieces\<close>

text \<open>\<open>if let Ok(e) = r\<close>: an error is dropped, a panic is a panic.\<close>

definition ok_of :: "'a result \<Rightarrow> 'a option result" where
  "ok_of r = (case r of Ok a \<Rightarrow> Ok (Some a) | Err _ \<Rightarrow> Ok None | Panic \<Rightarrow> Panic)"

text \<open>\<open>unwrap\<close> of the result of an operation: an error panics, after the operation ran.\<close>

definition smust :: "'a wop \<Rightarrow> 'a wop" where
  "smust m w = (case m w of (Ok a, w') \<Rightarrow> (Ok a, w') | (_, w') \<Rightarrow> (Panic, w'))"

definition ttl_opt :: "u64 \<Rightarrow> u64 option" where
  "ttl_opt h = (if h = 0 then None else Some h)"

text \<open>The address of a secret key (\<open>util/src/ov3.rs\<close>): the ed25519 public key of its bytes\<close>

definition ov3_from_private :: "ext \<Rightarrow> secret_key \<Rightarrow> bytes" where
  "ov3_from_private X key = x_dalek_pk X key"

definition ov3_to_ed25519 :: "ext \<Rightarrow> bytes \<Rightarrow> dalek_pubkey result" where
  "ov3_to_ed25519 X a =
     (if x_dalek_pk_valid X a then Ok a
      else Err (Lib (OnionV3Address (''Invalid Private Key: Unable to create dalek public key: '' @ x_dalek_err X a))))"

section \<open>Choosing the coins\<close>

definition remember_inputs :: "output_data list \<Rightarrow> context \<Rightarrow> context" where
  "remember_inputs inputs c =
     fold (\<lambda>i c. add_input (out_key_id i) (out_mmr_index i) (out_value i) c) inputs c"

definition remember_outputs :: "change_id list \<Rightarrow> context \<Rightarrow> context" where
  "remember_outputs outs c = fold (\<lambda>(amount, i, m) c. add_output i m amount c) outs c"

definition build_send_tx ::
  "ext \<Rightarrow> keychain \<Rightarrow> secret_key option \<Rightarrow> draw \<Rightarrow> slate \<Rightarrow> u64 \<Rightarrow> u64 \<Rightarrow> nat \<Rightarrow> nat \<Rightarrow> bool \<Rightarrow> u64 option
    \<Rightarrow> ident \<Rightarrow> bool \<Rightarrow> (slate \<times> context) wop" where
  "build_send_tx X k km d s current_height minimum_confirmations max_outputs change_outputs
       selection_strategy_is_use_all fixed_fee parent_key_id amount_includes_fee =
     sbind (select_send_tx X km (sl_amount s) amount_includes_fee current_height minimum_confirmations
              max_outputs change_outputs selection_strategy_is_use_all parent_key_id False) (\<lambda>(elems, inputs, change, fee).
     sbind (slift (if amount_includes_fee
              then rbind (ok_or (Lib (GenericError ''Transaction amount is too small to include fee''))
                      (checked_sub64 (sl_amount s) fee)) (\<lambda>a. Ok (s\<lparr>sl_amount := a\<rparr>))
              else Ok s)) (\<lambda>s.
     if (case fixed_fee of Some f \<Rightarrow> fee \<noteq> f | None \<Rightarrow> False)
     then sfail (Lib (Fee ''The initially selected fee is not sufficient''))
     else
       sbind (slift (unwrap (x_fee_try_from X fee))) (\<lambda>fee_fields.
       sbind (slift (add_transaction_elements X k elems (s\<lparr>sl_fee_fields := fee_fields\<rparr>))) (\<lambda>(s, _).
       let c = remember_inputs inputs
             ((context_new d parent_key_id)\<lparr>ctx_fee := Some (sl_fee_fields s), ctx_amount := sl_amount s\<rparr>)
       in sbind (smap (\<lambda>(amount, i, m). calc_commit_for_cache X km amount i) change) (\<lambda>_.
            sret (s, remember_outputs change c))))))"

section \<open>Locking\<close>

text \<open>The change outputs by identifier, each with its cached commitment and amount\<close>

definition cached_outputs ::
  "ext \<Rightarrow> secret_key option \<Rightarrow> ctx_id list \<Rightarrow> (ident \<times> string option \<times> u64) list wop" where
  "cached_outputs X km outs =
     smap (\<lambda>(i, _, amount). sbind (calc_commit_for_cache X km amount i) (\<lambda>commit. sret (i, commit, amount))) outs"

definition lock_inputs :: "ext \<Rightarrow> u32 \<Rightarrow> ctx_id list \<Rightarrow> u64 list batch" where
  "lock_inputs X log_id ids =
     smap (\<lambda>(i, m, _). sbind (batch_get X i m) (\<lambda>coin.
        sbind (lock_output (coin\<lparr>out_tx_log_entry := Some log_id\<rparr>)) (\<lambda>_. sret (out_value coin)))) ids"

definition proof_to_store :: "ext \<Rightarrow> keychain \<Rightarrow> context \<Rightarrow> slate \<Rightarrow> stored_proof_info option result" where
  "proof_to_store X k c s = (case sl_payment_proof s of
     None \<Rightarrow> Ok None
   | Some p \<Rightarrow>
       rbind (ok_or (Txn (PaymentProof ''Payment proof derivation index required''))
                (ctx_payment_proof_derivation_index c)) (\<lambda>sender_address_path.
       rbind (address_from_derivation_path X k (ctx_parent_key_id c) sender_address_path) (\<lambda>sender_key.
       rbind (ov3_to_ed25519 X (ov3_from_private X sender_key)) (\<lambda>sender_address.
         Ok (Some \<lparr>spi_receiver_address = pi_receiver_address p, spi_receiver_signature = pi_receiver_signature p,
              spi_sender_address_path = sender_address_path, spi_sender_address = sender_address,
              spi_sender_signature = None\<rparr>)))))"

text \<open>An output of ours that is not on the chain yet\<close>

definition fresh_output :: "ext \<Rightarrow> ident \<Rightarrow> ident \<Rightarrow> string option \<Rightarrow> u64 \<Rightarrow> u64 \<Rightarrow> u32 \<Rightarrow> output_data" where
  "fresh_output X parent_key_id i commit amount height log_id = \<lparr>
     out_root_key_id = parent_key_id, out_key_id = i, out_n_child = x_last_path_index X (x_to_path X i),
     out_commit = commit, out_mmr_index = None, out_value = amount, out_status = Unconfirmed,
     out_height = height, out_lock_height = 0, out_is_coinbase = False, out_tx_log_entry = Some log_id\<rparr>"

definition save_change ::
  "ext \<Rightarrow> ident \<Rightarrow> (ident \<times> string option \<times> u64) list \<Rightarrow> u64 \<Rightarrow> u32 \<Rightarrow> ctx_id list \<Rightarrow> u64 list batch" where
  "save_change X parent_key_id commits height log_id outs =
     smap (\<lambda>(i, _, _). sbind (slift (unwrap (map_of (rev commits) i))) (\<lambda>(commit, change_amount).
        sbind (batch_save (fresh_output X parent_key_id i commit change_amount height log_id)) (\<lambda>_.
          sret change_amount))) outs"

definition sent_entry ::
  "ext \<Rightarrow> timestamp \<Rightarrow> slate \<Rightarrow> context \<Rightarrow> u64 \<Rightarrow> u32 \<Rightarrow> commitment option \<Rightarrow> u64 list \<Rightarrow> stored_proof_info option
    \<Rightarrow> u64 list \<Rightarrow> tx_log_entry" where
  "sent_entry X now s c current_height log_id excess debited proof credited =
     (tx_log_entry_new now (ctx_parent_key_id c) TxSent log_id)\<lparr>
        txe_tx_slate_id := Some (sl_id s), txe_tx_slate_state := Some (sl_state s),
        txe_stored_tx := Some (grintx (x_uuid_str X (sl_id s))), txe_fee := ctx_fee c,
        txe_ttl_cutoff_height := ttl_opt (sl_ttl_cutoff_height s), txe_kernel_excess := excess,
        txe_kernel_lookup_min_height := Some current_height, txe_num_inputs := length (get_inputs c),
        txe_amount_debited := sum_list debited, txe_payment_proof := proof,
        txe_num_outputs := length (get_outputs c), txe_amount_credited := sum_list credited\<rparr>"

definition lock_tx_context ::
  "ext \<Rightarrow> timestamp \<Rightarrow> secret_key option \<Rightarrow> slate \<Rightarrow> u64 \<Rightarrow> context \<Rightarrow> commitment option \<Rightarrow> unit wop" where
  "lock_tx_context X now km s current_height c excess_override =
     sbind (cached_outputs X km (get_outputs c)) (\<lambda>output_commits.
     sbind (the_keychain X km) (\<lambda>k.
     sbind (with_batch X km (\<lambda>_.
         sbind (next_tx_log_id (ctx_parent_key_id c)) (\<lambda>log_id.
         sbind (slift (ok_of (calc_excess X s))) (\<lambda>excess.
         sbind (lock_inputs X log_id (get_inputs c)) (\<lambda>debited.
         sbind (slift (proof_to_store X k c s)) (\<lambda>proof.
         sbind (save_change X (ctx_parent_key_id c) output_commits current_height log_id (get_outputs c)) (\<lambda>credited.
           save_tx_log_entry
             (sent_entry X now s c current_height log_id
                (if excess_override = None then excess else excess_override) debited proof credited)
             (ctx_parent_key_id c))))))))
     (\<lambda>_.
     sbind (slift (tx_or_err s)) (\<lambda>tx. store_tx X (x_uuid_str X (sl_id s)) tx))))"

section \<open>The recipient\<close>

definition received_entry ::
  "timestamp \<Rightarrow> slate \<Rightarrow> ident \<Rightarrow> u64 \<Rightarrow> u32 \<Rightarrow> commitment option \<Rightarrow> tx_log_entry" where
  "received_entry now s parent_key_id current_height log_id excess =
     (tx_log_entry_new now parent_key_id TxReceived log_id)\<lparr>
        txe_tx_slate_id := Some (sl_id s), txe_tx_slate_state := Some (sl_state s),
        txe_amount_credited := sl_amount s, txe_num_outputs := 1,
        txe_ttl_cutoff_height := ttl_opt (sl_ttl_cutoff_height s), txe_kernel_excess := excess,
        txe_kernel_lookup_min_height := Some current_height\<rparr>"

definition build_recipient_output ::
  "ext \<Rightarrow> timestamp \<Rightarrow> secret_key option \<Rightarrow> draw \<Rightarrow> slate \<Rightarrow> u64 \<Rightarrow> ident
    \<Rightarrow> (slate \<times> ident \<times> context \<times> tx_log_entry) wop" where
  "build_recipient_output X now km d s current_height parent_key_id =
     sbind (smust (next_available_key X km)) (\<lambda>key_id.
     sbind (the_keychain X km) (\<lambda>k.
     let amount = sl_amount s in
     sbind (slift (add_transaction_elements X k [build_output amount key_id] s)) (\<lambda>(s, _).
     let c = (add_output key_id None amount (context_new d parent_key_id))
           \<lparr>ctx_amount := amount, ctx_fee := x_fee_as_opt X (sl_fee_fields s)\<rparr>
     in sbind (calc_commit_for_cache X km amount key_id) (\<lambda>commit.
        sbind (with_batch X km (\<lambda>_.
            sbind (next_tx_log_id parent_key_id) (\<lambda>log_id.
            sbind (slift (ok_of (calc_excess X s))) (\<lambda>excess.
            sbind (batch_save (fresh_output X parent_key_id key_id commit amount current_height log_id)) (\<lambda>_.
            let t = received_entry now s parent_key_id current_height log_id excess
            in sbind (save_tx_log_entry t parent_key_id) (\<lambda>_. sret t)))))) (\<lambda>t.
          sret (s, key_id, c, t))))))"

section \<open>Filling a slate from its context\<close>

definition own_output :: "wallet \<Rightarrow> ident \<Rightarrow> output_data option" where
  "own_output w i = find (\<lambda>out. out_key_id out = i) (wallet_iter w)"

definition context_elems :: "ext \<Rightarrow> context \<Rightarrow> wallet \<Rightarrow> build_elem list" where
  "context_elems X c w =
     List.map_filter (\<lambda>(i, m, value).
        map_option (\<lambda>out. if out_is_coinbase out then build_coinbase_input value (out_key_id out)
                          else build_input value (out_key_id out))
          (case fst (wallet_get X i m w) of Ok out \<Rightarrow> Some out | _ \<Rightarrow> own_output w i)) (get_inputs c) @
     List.map_filter (\<lambda>(i, _, value). map_option (\<lambda>out. build_output value (out_key_id out)) (own_output w i))
       (get_outputs c)"

definition repopulate_tx :: "ext \<Rightarrow> secret_key option \<Rightarrow> slate \<Rightarrow> context \<Rightarrow> bool \<Rightarrow> slate wop" where
  "repopulate_tx X km s c update_fee =
     (let s = s\<lparr>sl_amount := ctx_amount c\<rparr> in
      sbind (slift (if update_fee
               then rbind (ok_or (Lib (Fee ''Missing fee fields'')) (ctx_fee c)) (\<lambda>f. Ok (s\<lparr>sl_fee_fields := f\<rparr>))
               else Ok s)) (\<lambda>s.
      sbind (the_keychain X km) (\<lambda>k.
      sbind (slift (add_participant_info X c None s)) (\<lambda>s.
      sbind (sread (context_elems X c)) (\<lambda>parts.
      sbind (slift (add_transaction_elements X k parts s)) (\<lambda>(s, _).
      sbind (slift (tx_or_err s)) (\<lambda>tx.
        sret (s\<lparr>sl_tx := Some (tx\<lparr>t_offset := sl_offset s\<rparr>)\<rparr>))))))))"

end
