(* ===== verification/Send_Props.thy ===== *)
theory Send_Props
  imports Send Updater_Props
begin

text \<open>
  The properties of sending and receiving: locking reserves exactly the coins of the context,
  records the change and the log entry, and does all of it or nothing; the recipient's output
  and entry are recorded; a slate is filled again with the elements its context remembers.
\<close>

section \<open>Reading steps\<close>

lemma calc_commit_state: "calc_commit_for_cache X km a i w = (r, w') \<Longrightarrow> w' = w"
  by (auto simp: calc_commit_for_cache_def sbind_def the_keychain_def slift_def sret_def
      split: prod.splits res.splits)

lemma the_keychain_state: "the_keychain X km w = (r, w') \<Longrightarrow> w' = w \<and> r = wallet_keychain X km w"
  by (auto simp: the_keychain_def)

lemma cached_outputs_Ok:
  "cached_outputs X km outs w = (Ok l, w') \<Longrightarrow>
     w' = w \<and> map (\<lambda>(i, c, a). (i, a)) l = map (\<lambda>(i, _, a). (i, a)) outs"
proof (induction outs arbitrary: l w)
  case (Cons out outs)
  then show ?case
    by (cases out) (auto simp: cached_outputs_def res_simps dest!: calc_commit_state)
qed (auto simp: cached_outputs_def res_simps)

lemma cached_outputs_state: "cached_outputs X km outs w = (r, w') \<Longrightarrow> w' = w"
proof (induction outs arbitrary: r w w')
  case (Cons out outs)
  obtain i m a where out: "out = (i, m, a)" by (cases out)
  show ?case
  proof (cases "calc_commit_for_cache X km a i w")
    case (Pair r1 w1)
    then have w1: "w1 = w" by (rule calc_commit_state)
    obtain r2 w2 where 2: "cached_outputs X km outs w = (r2, w2)" by (cases "cached_outputs X km outs w")
    then have "w2 = w" by (rule Cons.IH)
    with Cons.prems show ?thesis
      by (cases r1; cases r2) (auto simp: cached_outputs_def out sbind_def Pair w1 2 [unfolded cached_outputs_def] sret_def)
  qed
qed (auto simp: cached_outputs_def sret_def)

section \<open>Locking the inputs\<close>

definition locked_for :: "u32 \<Rightarrow> output_data \<Rightarrow> output_data" where
  "locked_for log_id coin = output_lock (coin\<lparr>out_tx_log_entry := Some log_id\<rparr>)"

lemma locked_for_key [simp]:
  "out_key_id (locked_for l coin) = out_key_id coin" "out_mmr_index (locked_for l coin) = out_mmr_index coin"
  "out_value (locked_for l coin) = out_value coin" "out_status (locked_for l coin) = Locked"
  by (simp_all add: locked_for_def output_lock_def)

definition id_key :: "ctx_id \<Rightarrow> ident \<times> u64 option" where
  "id_key x = (fst x, fst (snd x))"

definition same_logs :: "db \<Rightarrow> db \<Rightarrow> bool" where
  "same_logs d d' \<longleftrightarrow> db_tx_log d' = db_tx_log d \<and> db_tx_log_id d' = db_tx_log_id d \<and> db_deriv d' = db_deriv d \<and>
     db_confirmed d' = db_confirmed d \<and> db_contexts d' = db_contexts d \<and> db_accts d' = db_accts d"

lemma same_logs_refl [simp]: "same_logs d d" and same_logs_store [simp]: "same_logs d (db_store out d') = same_logs d d'"
  by (simp_all add: same_logs_def)

lemma same_logs_trans: "same_logs a b \<Longrightarrow> same_logs b c \<Longrightarrow> same_logs a c"
  by (simp add: same_logs_def)

lemma lock_inputs_Nil: "lock_inputs X l [] d = (Ok vs, d') \<longleftrightarrow> vs = [] \<and> d' = d"
  by (auto simp: lock_inputs_def res_simps)

lemma lock_inputs_Cons:
  "lock_inputs X l ((i, m, v) # ids) d = (Ok vs, d') \<longleftrightarrow>
     (\<exists>coin vs'. db_fetch d i m = Some coin \<and> vs = out_value coin # vs' \<and>
        lock_inputs X l ids (db_store (locked_for l coin) d) = (Ok vs', d'))"
  by (auto simp: lock_inputs_def res_simps batch_get_eq lock_output_def batch_save_eq locked_for_def)

lemma lock_inputs_Ok:
  assumes "lock_inputs X l ids d = (Ok vs, d')" "db_wf d" "keyed n d"
    and "distinct (map id_key ids)" "\<forall>x \<in> set ids. length (fst x) = n"
  shows "db_wf d' \<and> keyed n d' \<and> same_logs d d' \<and>
    (\<forall>i m. length i = n \<longrightarrow> db_fetch d' i m =
       (if (i, m) \<in> id_key ` set ids then map_option (locked_for l) (db_fetch d i m) else db_fetch d i m)) \<and>
    (\<forall>x \<in> set ids. db_fetch d (fst x) (fst (snd x)) \<noteq> None) \<and>
    vs = map (\<lambda>x. out_value (the (db_fetch d (fst x) (fst (snd x))))) ids"
  using assms
proof (induction ids arbitrary: d vs)
  case Nil
  then show ?case by (auto simp: lock_inputs_Nil)
next
  case (Cons x ids)
  obtain i0 m0 v where x: "x = (i0, m0, v)" by (cases x)
  obtain coin vs' where c: "db_fetch d i0 m0 = Some coin" "vs = out_value coin # vs'"
    "lock_inputs X l ids (db_store (locked_for l coin) d) = (Ok vs', d')"
    using Cons.prems(1) unfolding x lock_inputs_Cons by blast
  have len: "length i0 = n" using Cons.prems(5) x by simp
  have key: "out_key_id coin = i0" "out_mmr_index coin = m0"
    using Cons.prems(3) c(1) len by (auto simp: keyed_def out_key_def)
  let ?d = "db_store (locked_for l coin) d"
  have wf: "db_wf ?d" using outs.good_store [OF Cons.prems(2)] .
  have kd: "keyed n ?d" using keyed_store [OF Cons.prems(2) _ Cons.prems(3)] key len by simp
  have f: "db_fetch ?d i m = (if (i, m) = (i0, m0) then Some (locked_for l coin) else db_fetch d i m)"
    if "length i = n" for i m
    using outs.fetch_store [OF Cons.prems(2), of i "locked_for l coin" m] that len key by simp
  have IH: "db_wf d' \<and> keyed n d' \<and> same_logs ?d d' \<and>
    (\<forall>i m. length i = n \<longrightarrow> db_fetch d' i m =
       (if (i, m) \<in> id_key ` set ids then map_option (locked_for l) (db_fetch ?d i m) else db_fetch ?d i m)) \<and>
    (\<forall>x \<in> set ids. db_fetch ?d (fst x) (fst (snd x)) \<noteq> None) \<and>
    vs' = map (\<lambda>x. out_value (the (db_fetch ?d (fst x) (fst (snd x))))) ids"
    by (rule Cons.IH [OF c(3) wf kd]) (use Cons.prems(4,5) in auto)
  have notin: "(i0, m0) \<notin> id_key ` set ids" using Cons.prems(4) by (simp add: x id_key_def image_iff)
  have same: "db_fetch ?d (fst y) (fst (snd y)) = db_fetch d (fst y) (fst (snd y))" if "y \<in> set ids" for y
  proof -
    have "(fst y, fst (snd y)) \<noteq> (i0, m0)" using notin that by (force simp: id_key_def)
    then show ?thesis using f [of "fst y" "fst (snd y)"] Cons.prems(5) that by auto
  qed
  have vs: "vs' = map (\<lambda>x. out_value (the (db_fetch d (fst x) (fst (snd x))))) ids"
    using IH same by (metis (mono_tags, lifting) map_eq_conv)
  have "same_logs d d'" using IH by (auto simp: same_logs_def)
  moreover have "\<forall>i m. length i = n \<longrightarrow> db_fetch d' i m =
      (if (i, m) \<in> id_key ` set (x # ids) then map_option (locked_for l) (db_fetch d i m) else db_fetch d i m)"
  proof (intro allI impI)
    fix i :: ident and m
    assume "length i = n"
    then show "db_fetch d' i m =
      (if (i, m) \<in> id_key ` set (x # ids) then map_option (locked_for l) (db_fetch d i m) else db_fetch d i m)"
      using IH f [of i m] notin c(1) by (auto simp: x id_key_def)
  qed
  moreover have "\<forall>y \<in> set (x # ids). db_fetch d (fst y) (fst (snd y)) \<noteq> None"
    using IH same c(1) by (auto simp: x)
  moreover have "vs = map (\<lambda>x. out_value (the (db_fetch d (fst x) (fst (snd x))))) (x # ids)"
    using vs c by (simp add: x)
  ultimately show ?case using IH by blast
qed

section \<open>Saving the change\<close>

lemma map_of_pairs:
  "map (\<lambda>(i, c, a). (i, a)) l = map (\<lambda>(i, m, a). (i, a)) outs \<Longrightarrow> distinct (map fst outs) \<Longrightarrow> (i, m, a) \<in> set outs \<Longrightarrow>
     \<exists>c. map_of (rev l) i = Some (c, a)"
proof -
  assume l: "map (\<lambda>(i, c, a). (i, a)) l = map (\<lambda>(i, m, a). (i, a)) outs" and dist: "distinct (map fst outs)"
    and mem: "(i, m, a) \<in> set outs"
  have "map fst l = map fst (map (\<lambda>(i, c, a). (i, a)) l)" by (simp add: split_def comp_def)
  then have "map fst l = map fst outs" by (simp add: l) (simp add: split_def comp_def)
  then have dl: "distinct (map fst (rev l))" using dist by (metis distinct_rev rev_map)
  have "(i, a) \<in> set (map (\<lambda>(i, c, a). (i, a)) l)" using mem by (force simp: l)
  then obtain c where "(i, c, a) \<in> set (rev l)" by auto
  then show ?thesis using map_of_is_SomeI [OF dl] by blast
qed

lemma save_change_Nil: "save_change X p commits h l [] d = (Ok vs, d') \<longleftrightarrow> vs = [] \<and> d' = d"
  by (auto simp: save_change_def res_simps)

lemma save_change_Cons:
  "save_change X p commits h l ((i, m, a) # outs) d = (Ok vs, d') \<longleftrightarrow>
     (\<exists>c a' vs'. map_of (rev commits) i = Some (c, a') \<and> vs = a' # vs' \<and>
        save_change X p commits h l outs (db_store (fresh_output X p i c a' h l) d) = (Ok vs', d'))"
  by (auto simp: save_change_def res_simps batch_save_eq)

lemma save_change_Ok:
  assumes "save_change X p commits h l outs d = (Ok vs, d')" "db_wf d" "keyed n d"
    and "\<forall>(i, m, a) \<in> set outs. length i = n \<and> (\<exists>c. map_of (rev commits) i = Some (c, a))" "distinct (map fst outs)"
  shows "db_wf d' \<and> keyed n d' \<and> same_logs d d' \<and> vs = map (\<lambda>(i, m, a). a) outs \<and>
    (\<forall>(i, m, a) \<in> set outs. \<exists>c. db_fetch d' i None = Some (fresh_output X p i c a h l)) \<and>
    (\<forall>i m. length i = n \<longrightarrow> (m \<noteq> None \<or> i \<notin> fst ` set outs) \<longrightarrow> db_fetch d' i m = db_fetch d i m)"
  using assms
proof (induction outs arbitrary: d vs)
  case Nil
  then show ?case by (auto simp: save_change_Nil)
next
  case (Cons x outs)
  obtain i0 m0 a0 where x: "x = (i0, m0, a0)" by (cases x)
  obtain c0 where c0: "map_of (rev commits) i0 = Some (c0, a0)" "length i0 = n" using Cons.prems(4) x by auto
  let ?out = "fresh_output X p i0 c0 a0 h l"
  obtain vs' where c: "vs = a0 # vs'" "save_change X p commits h l outs (db_store ?out d) = (Ok vs', d')"
    using Cons.prems(1) c0(1) unfolding x save_change_Cons by auto
  have key: "out_key_id ?out = i0" "out_mmr_index ?out = None" by (simp_all add: fresh_output_def)
  have wf: "db_wf (db_store ?out d)" using outs.good_store [OF Cons.prems(2)] .
  have kd: "keyed n (db_store ?out d)" using keyed_store [OF Cons.prems(2) _ Cons.prems(3)] key c0 by simp
  have f: "db_fetch (db_store ?out d) i m = (if (i, m) = (i0, None) then Some ?out else db_fetch d i m)"
    if "length i = n" for i m
    using outs.fetch_store [OF Cons.prems(2), of i ?out m] that c0 key by simp
  have IH: "db_wf d' \<and> keyed n d' \<and> same_logs (db_store ?out d) d' \<and> vs' = map (\<lambda>(i, m, a). a) outs \<and>
    (\<forall>(i, m, a) \<in> set outs. \<exists>c. db_fetch d' i None = Some (fresh_output X p i c a h l)) \<and>
    (\<forall>i m. length i = n \<longrightarrow> (m \<noteq> None \<or> i \<notin> fst ` set outs) \<longrightarrow> db_fetch d' i m = db_fetch (db_store ?out d) i m)"
    by (rule Cons.IH [OF c(2) wf kd]) (use Cons.prems(4,5) in auto)
  have notin: "i0 \<notin> fst ` set outs" using Cons.prems(5) x by (auto simp: image_iff)
  have "db_fetch d' i0 None = Some ?out" using IH f notin c0 by simp
  moreover have "same_logs d d'" using IH by (auto simp: same_logs_def)
  ultimately show ?case using IH f c by (auto simp: x)
qed

section \<open>Locking a transaction\<close>

text \<open>A well-formed context: its inputs are different outputs, its outputs different new keys.\<close>

definition context_ok :: "nat \<Rightarrow> context \<Rightarrow> bool" where
  "context_ok n c \<longleftrightarrow> distinct (map id_key (get_inputs c)) \<and> distinct (map fst (get_outputs c)) \<and>
     (\<forall>x \<in> set (get_inputs c) \<union> set (get_outputs c). length (fst x) = n) \<and>
     (\<forall>x \<in> set (get_inputs c). \<forall>y \<in> set (get_outputs c). id_key x \<noteq> (fst y, None))"

lemma next_tx_log_id_step:
  "next_tx_log_id p d = (Ok l, d') \<longleftrightarrow> l = current_tx_log_id d p \<and> d' = d\<lparr>db_tx_log_id := tbl_put p (l + 1) (db_tx_log_id d)\<rparr>"
  by (auto simp: next_tx_log_id_eq)

lemma db_tx_log_id_update:
  "db_fetch (d\<lparr>db_tx_log_id := t\<rparr>) i m = db_fetch d i m"
  "keyed n (d\<lparr>db_tx_log_id := t\<rparr>) = keyed n d"
  "db_wf d \<Longrightarrow> db_wf (d\<lparr>db_tx_log_id := tbl_put p v (db_tx_log_id d)\<rparr>)"
  by (simp_all add: db_fetch_def keyed_def db_wf_def tbl_simps)

lemma lock_tx_context_Ok:
  assumes "lock_tx_context X now km s h c ov w = (Ok u, w')"
  obtains commits k excess debited pf credited d1 d2 tx where
    "cached_outputs X km (get_outputs c) w = (Ok commits, w)" "wallet_keychain X km w = Ok k"
    "lock_inputs X (current_tx_log_id (w_db w) (ctx_parent_key_id c)) (get_inputs c)
       ((w_db w)\<lparr>db_tx_log_id := tbl_put (ctx_parent_key_id c)
         (current_tx_log_id (w_db w) (ctx_parent_key_id c) + 1) (db_tx_log_id (w_db w))\<rparr>) = (Ok debited, d1)"
    "proof_to_store X k c s = Ok pf"
    "save_change X (ctx_parent_key_id c) commits h (current_tx_log_id (w_db w) (ctx_parent_key_id c))
       (get_outputs c) d1 = (Ok credited, d2)"
    "sl_tx s = Some tx"
    "w' = w\<lparr>w_db := snd (save_tx_log_entry (sent_entry X now s c h
             (current_tx_log_id (w_db w) (ctx_parent_key_id c)) excess debited pf credited) (ctx_parent_key_id c) d2),
           w_files := (w_files w)(grintx (x_uuid_str X (sl_id s)) \<mapsto> x_tx_to_hex X tx)\<rparr>"
proof -
  obtain commits w1 where 1: "cached_outputs X km (get_outputs c) w = (Ok commits, w1)"
    using assms by (auto simp: lock_tx_context_def sbind_eq_Ok)
  then have w1: "w1 = w" by (rule cached_outputs_state)
  obtain k ex debited pf credited d1 d2 d tx where r: "wallet_keychain X km w = Ok k"
    "lock_inputs X (current_tx_log_id (w_db w) (ctx_parent_key_id c)) (get_inputs c)
       ((w_db w)\<lparr>db_tx_log_id := tbl_put (ctx_parent_key_id c)
         (current_tx_log_id (w_db w) (ctx_parent_key_id c) + 1) (db_tx_log_id (w_db w))\<rparr>) = (Ok debited, d1)"
    "proof_to_store X k c s = Ok pf"
    "save_change X (ctx_parent_key_id c) commits h (current_tx_log_id (w_db w) (ctx_parent_key_id c))
       (get_outputs c) d1 = (Ok credited, d2)"
    "sl_tx s = Some tx"
    "save_tx_log_entry (sent_entry X now s c h (current_tx_log_id (w_db w) (ctx_parent_key_id c))
       (if ov = None then ex else ov) debited pf credited) (ctx_parent_key_id c) d2 = (Ok (), d)"
    "w' = w\<lparr>w_db := d, w_files := (w_files w)(grintx (x_uuid_str X (sl_id s)) \<mapsto> x_tx_to_hex X tx)\<rparr>"
    using assms by (auto simp: lock_tx_context_def sbind_eq_Ok comp_eq_Ok 1 w1 with_batch_Ok
        the_keychain_def next_tx_log_id_step res_simps tx_or_err_def store_tx_def)
  show ?thesis
    by (rule that [OF 1 [unfolded w1] r(1-5), where excess = "if ov = None then ex else ov"]) (simp only: r(6,7) snd_conv)
qed

text \<open>What locking does to the wallet, in full\<close>

lemma lock_effect:
  assumes "lock_tx_context X now km s h c ov w = (Ok u, w')" "w_wf w" "keyed n (w_db w)" "context_ok n c"
    and l: "l = current_tx_log_id (w_db w) (ctx_parent_key_id c)"
  obtains t where
    "\<forall>(i, m, v) \<in> set (get_inputs c). \<exists>coin. db_fetch (w_db w) i m = Some coin \<and>
       db_fetch (w_db w') i m = Some (locked_for l coin)"
    "\<forall>(i, m, v) \<in> set (get_outputs c). \<exists>commit. db_fetch (w_db w') i None =
       Some (fresh_output X (ctx_parent_key_id c) i commit v h l)"
    "\<forall>i m. length i = n \<longrightarrow> (i, m) \<notin> id_key ` set (get_inputs c) \<longrightarrow> (m \<noteq> None \<or> i \<notin> fst ` set (get_outputs c)) \<longrightarrow>
       db_fetch (w_db w') i m = db_fetch (w_db w) i m"
    "db_tx_log (w_db w') = tbl_put (to_key_u64 (ctx_parent_key_id c) (ucast l)) (Some t) (db_tx_log (w_db w))"
    "txe_tx_type t = TxSent" "txe_id t = l" "txe_tx_slate_id t = Some (sl_id s)" "\<not> txe_confirmed t"
    "txe_parent_key_id t = ctx_parent_key_id c"
    "txe_amount_debited t = (\<Sum>x\<leftarrow>get_inputs c. out_value (the (db_fetch (w_db w) (fst x) (fst (snd x)))))"
    "txe_amount_credited t = (\<Sum>x\<leftarrow>get_outputs c. snd (snd x))"
    "w_files w' = (w_files w)(grintx (x_uuid_str X (sl_id s)) \<mapsto> x_tx_to_hex X (the (sl_tx s)))" "sl_tx s \<noteq> None"
    "current_tx_log_id (w_db w') (ctx_parent_key_id c) = l + 1"
    "w_wf w'" "keyed n (w_db w')"
proof -
  let ?p = "ctx_parent_key_id c" and ?d = "w_db w"
  let ?e = "?d\<lparr>db_tx_log_id := tbl_put ?p (l + 1) (db_tx_log_id ?d)\<rparr>"
  obtain commits excess debited pf credited d1 d2 tx where
    1: "cached_outputs X km (get_outputs c) w = (Ok commits, w)"
    and 2: "lock_inputs X l (get_inputs c) ?e = (Ok debited, d1)"
    and 3: "save_change X ?p commits h l (get_outputs c) d1 = (Ok credited, d2)"
    and 4: "sl_tx s = Some tx"
      "w' = w\<lparr>w_db := snd (save_tx_log_entry (sent_entry X now s c h l excess debited pf credited) ?p d2),
               w_files := (w_files w)(grintx (x_uuid_str X (sl_id s)) \<mapsto> x_tx_to_hex X tx)\<rparr>"
    using assms(1) unfolding l by (rule lock_tx_context_Ok)
  have ok: "distinct (map id_key (get_inputs c))" "distinct (map fst (get_outputs c))"
    "\<forall>x \<in> set (get_inputs c). length (fst x) = n" "\<forall>x \<in> set (get_outputs c). length (fst x) = n"
    "\<forall>x \<in> set (get_inputs c). \<forall>y \<in> set (get_outputs c). id_key x \<noteq> (fst y, None)"
    using assms(4) by (auto simp: context_ok_def)
  have wf: "db_wf ?e" and kd: "keyed n ?e"
    using assms(2,3) by (simp_all add: w_wf_def db_tx_log_id_update)
  note L = lock_inputs_Ok [OF 2 wf kd ok(1,3)]
  have "\<forall>(i, m, a) \<in> set (get_outputs c). length i = n \<and> (\<exists>co. map_of (rev commits) i = Some (co, a))"
    using map_of_pairs [OF conjunct2 [OF cached_outputs_Ok [OF 1]] ok(2)] ok(4) by auto
  note S = save_change_Ok [OF 3 L [THEN conjunct1] L [THEN conjunct2, THEN conjunct1] this ok(2)]
  have Lf: "length i = n \<Longrightarrow> db_fetch d1 i m = (if (i, m) \<in> id_key ` set (get_inputs c)
      then map_option (locked_for l) (db_fetch ?d i m) else db_fetch ?d i m)" for i m
    using L by (simp add: db_tx_log_id_update)
  have Lk: "(i, m, v) \<in> set (get_inputs c) \<Longrightarrow> db_fetch ?d i m \<noteq> None" for i m v
    using L by (force simp: db_tx_log_id_update)
  have Sf: "length i = n \<Longrightarrow> m \<noteq> None \<or> i \<notin> fst ` set (get_outputs c) \<Longrightarrow> db_fetch d2 i m = db_fetch d1 i m" for i m
    using S by blast
  have f: "db_fetch (w_db w') i m = db_fetch d2 i m" for i m
    by (simp add: 4 save_tx_log_entry_eq db_fetch_def)
  have in_out: "m \<noteq> None \<or> i \<notin> fst ` set (get_outputs c)" if "(i, m, v) \<in> set (get_inputs c)" for i m v
    using bspec [OF ok(5) that] by (auto simp: id_key_def)
  have inputs: "\<exists>coin. db_fetch ?d i m = Some coin \<and> db_fetch (w_db w') i m = Some (locked_for l coin)"
    if x: "(i, m, v) \<in> set (get_inputs c)" for i m v
  proof -
    have len: "length i = n" using bspec [OF ok(3) x] by simp
    have "(i, m) \<in> id_key ` set (get_inputs c)" using x by (force simp: id_key_def)
    then show ?thesis using Sf [OF len in_out [OF x]] Lf [OF len, of m] Lk [OF x] by (auto simp: f)
  qed
  have others: "db_fetch (w_db w') i m = db_fetch ?d i m"
    if "length i = n" "(i, m) \<notin> id_key ` set (get_inputs c)" "m \<noteq> None \<or> i \<notin> fst ` set (get_outputs c)" for i m
    using Sf [OF that(1,3)] Lf [OF that(1)] that(2) by (simp add: f)
  have outputs: "\<exists>commit. db_fetch (w_db w') i None = Some (fresh_output X ?p i commit v h l)"
    if "(i, m, v) \<in> set (get_outputs c)" for i m v
    using S that by (fastforce simp: f)
  have credited: "credited = map (\<lambda>x. snd (snd x)) (get_outputs c)"
    using S by (simp add: split_def)
  have debited: "debited = map (\<lambda>x. out_value (the (db_fetch ?d (fst x) (fst (snd x))))) (get_inputs c)"
    using L by (simp add: db_tx_log_id_update)
  have "db_tx_log_id (w_db w') = db_tx_log_id ?e"
    using S L by (simp add: 4 save_tx_log_entry_eq same_logs_def)
  then have "current_tx_log_id (w_db w') ?p = l + 1"
    by (simp add: current_tx_log_id_def tbl_get_put)
  moreover have logs: "db_tx_log d2 = db_tx_log ?d"
    using S L by (simp add: same_logs_def)
  define t where "t = sent_entry X now s c h l excess debited pf credited"
  have t: "txe_id t = l" "txe_tx_type t = TxSent" "txe_tx_slate_id t = Some (sl_id s)" "\<not> txe_confirmed t"
    "txe_parent_key_id t = ?p" "txe_amount_debited t = sum_list debited" "txe_amount_credited t = sum_list credited"
    by (simp_all add: t_def sent_entry_def tx_log_entry_new_def)
  have w': "w_db w' = d2\<lparr>db_tx_log := tbl_put (to_key_u64 ?p (ucast l)) (Some t) (db_tx_log ?d)\<rparr>"
    using logs by (simp add: 4 save_tx_log_entry_eq t_def [symmetric] t(1))
  have log: "db_tx_log (w_db w') = tbl_put (to_key_u64 ?p (ucast l)) (Some t) (db_tx_log ?d)" by (simp add: w')
  have ok': "w_wf w'" "keyed n (w_db w')"
    using S L assms(2) by (simp_all add: w' w_wf_def db_wf_def tbl_simps keyed_def db_fetch_def)
  have fs: "w_files w' = (w_files w)(grintx (x_uuid_str X (sl_id s)) \<mapsto> x_tx_to_hex X (the (sl_tx s)))" "sl_tx s \<noteq> None"
    by (simp_all add: 4)
  ultimately show ?thesis
    using inputs outputs others t(1-5) t(6) [unfolded debited] t(7) [unfolded credited]
    by (intro that [OF _ _ _ log _ _ _ _ _ _ _ fs _ ok']) (auto split: prod.splits)
qed

text \<open>C16: locking a transaction reserves exactly its coins: every input is locked for the
  new log entry, every change output is recorded as unconfirmed under its key, every other output is
  untouched; the entry, under the next identifier of the account, is of the sent type, names the
  slate and totals the inputs and the change; and the transaction is kept in the wallet's files.\<close>

theorem coins_are_locked:
  assumes "lock_tx_context X now km s h c ov w = (Ok (), w')" "w_wf w" "keyed n (w_db w)" "context_ok n c"
  shows "let l = current_tx_log_id (w_db w) (ctx_parent_key_id c) in
    (\<forall>(i, m, v) \<in> set (get_inputs c). \<exists>coin. db_fetch (w_db w) i m = Some coin \<and>
       db_fetch (w_db w') i m = Some (locked_for l coin)) \<and>
    (\<forall>(i, m, v) \<in> set (get_outputs c). \<exists>commit. db_fetch (w_db w') i None =
       Some (fresh_output X (ctx_parent_key_id c) i commit v h l)) \<and>
    (\<forall>i m. length i = n \<longrightarrow> (i, m) \<notin> id_key ` set (get_inputs c) \<longrightarrow> (m \<noteq> None \<or> i \<notin> fst ` set (get_outputs c)) \<longrightarrow>
       db_fetch (w_db w') i m = db_fetch (w_db w) i m) \<and>
    (\<exists>t. tbl_get (db_tx_log (w_db w')) (to_key_u64 (ctx_parent_key_id c) (ucast l)) = Some (Some t) \<and>
       txe_tx_type t = TxSent \<and> txe_id t = l \<and> txe_tx_slate_id t = Some (sl_id s) \<and> \<not> txe_confirmed t \<and>
       txe_amount_debited t = (\<Sum>x\<leftarrow>get_inputs c. out_value (the (db_fetch (w_db w) (fst x) (fst (snd x))))) \<and>
       txe_amount_credited t = (\<Sum>x\<leftarrow>get_outputs c. snd (snd x))) \<and>
    w_files w' (grintx (x_uuid_str X (sl_id s))) = map_option (x_tx_to_hex X) (sl_tx s) \<and>
    current_tx_log_id (w_db w') (ctx_parent_key_id c) = l + 1"
proof (rule lock_effect [OF assms refl], goal_cases)
  case (1 t)
  then show ?case
    unfolding Let_def by (intro conjI exI [of _ t]; (assumption | simp only: tbl_get_put simp_thms if_True)?) auto
qed

definition sending_context :: "context" where
  "sending_context = (context_new \<lparr>dr_key = replicate 32 3, dr_nonce = replicate 32 4\<rparr> (w_parent_key_id sample_wallet))
     \<lparr>ctx_output_ids := [(out_key_id (sample_output 9 0 Unspent), None, 60)],
      ctx_input_ids := [(out_key_id (sample_output 3 200 Unspent), None, 200)],
      ctx_amount := 100, ctx_fee := Some 40\<rparr>"

lemma sending_context_ok: "context_ok 17 sending_context"
  unfolding context_ok_def by code_simp

theorem coins_are_locked_witness:
  "\<exists>w'. lock_tx_context sample_ext 0 None (slate_blank sample_ext [7] 2 False) 50 sending_context None locked_wallet = (Ok (), w') \<and>
     (\<exists>coin. db_fetch (w_db w') (out_key_id (sample_output 3 200 Unspent)) None = Some coin \<and> out_status coin = Locked) \<and>
     current_tx_log_id (w_db w') (w_parent_key_id sample_wallet) = 1"
proof -
  let ?c = "lock_tx_context sample_ext 0 None (slate_blank sample_ext [7] 2 False) 50 sending_context None"
  have "is_Ok (fst (?c locked_wallet))" by code_simp
  then obtain u where "?c locked_wallet = (Ok u, snd (?c locked_wallet))" by (rule is_Ok_run [elim_format]) blast
  then have ok: "?c locked_wallet = (Ok (), snd (?c locked_wallet))" by simp
  have ins: "get_inputs sending_context = [(out_key_id (sample_output 3 200 Unspent), None, 200)]"
    and p: "ctx_parent_key_id sending_context = w_parent_key_id sample_wallet"
    by (simp_all add: sending_context_def get_inputs_def context_new_def context_with_excess_def)
  have "current_tx_log_id (w_db locked_wallet) (w_parent_key_id sample_wallet) = 0" by code_simp
  then show ?thesis
    using coins_are_locked [OF ok locked_wallet_wf locked_keyed sending_context_ok] ok by (auto simp: ins p Let_def)
qed



section \<open>Receiving\<close>

lemma add_transaction_elements_Ok:
  "add_transaction_elements X k es s = Ok (s', b) \<Longrightarrow> \<exists>tx. s' = s\<lparr>sl_tx := Some tx\<rparr>"
  by (auto simp: add_transaction_elements_def update_kernel_def res_simps split: if_splits)

lemma smust_Ok: "smust m w = (Ok a, w') \<longleftrightarrow> m w = (Ok a, w')"
  by (auto simp: smust_def split: prod.splits res.splits)

lemma received_effect:
  assumes "build_recipient_output X now km d s h p w = (Ok (s', key, c, t), w')" "w_wf w"
  shows "let l = current_tx_log_id (w_db w) p in
    (\<exists>commit. db_fetch (w_db w') key None = Some (fresh_output X p key commit (sl_amount s) h l)) \<and>
    (\<forall>i m. length i = length key \<longrightarrow> (i, m) \<noteq> (key, None) \<longrightarrow> db_fetch (w_db w') i m = db_fetch (w_db w) i m) \<and>
    db_tx_log (w_db w') = tbl_put (to_key_u64 p (ucast l)) (Some t) (db_tx_log (w_db w)) \<and>
    txe_parent_key_id t = p \<and> w_wf w' \<and>
    txe_id t = l \<and> txe_tx_type t = TxReceived \<and> txe_tx_slate_id t = Some (sl_id s) \<and>
    txe_amount_credited t = sl_amount s \<and> \<not> txe_confirmed t \<and>
    current_tx_log_id (w_db w') p = l + 1 \<and>
    get_outputs c = [(key, None, sl_amount s)] \<and> get_inputs c = [] \<and> ctx_amount c = sl_amount s \<and>
    (\<exists>rp. child_path (x_to_path X (w_parent_key_id w)) (current_child_index w (w_parent_key_id w)) = Ok rp \<and>
       key = x_from_path X rp) \<and>
    (\<exists>tx. s' = s\<lparr>sl_tx := Some tx\<rparr>)"
proof -
  define w1 where "w1 = snd (child_counter (w_parent_key_id w) w)"
  obtain rp k b commit ex where
    key: "key = x_from_path X rp" "child_path (x_to_path X (w_parent_key_id w)) (current_child_index w (w_parent_key_id w)) = Ok rp"
    and s': "add_transaction_elements X k [build_output (sl_amount s) key] s = Ok (s', b)"
    and c: "c = (add_output key None (sl_amount s) (context_new d p))\<lparr>ctx_amount := sl_amount s, ctx_fee := x_fee_as_opt X (sl_fee_fields s')\<rparr>"
    and t: "t = received_entry now s' p h (current_tx_log_id (w_db w1) p) ex"
    and w': "w' = w1\<lparr>w_db := snd (save_tx_log_entry t p (db_store (fresh_output X p key commit (sl_amount s) h
        (current_tx_log_id (w_db w1) p)) ((w_db w1)\<lparr>db_tx_log_id := tbl_put p (current_tx_log_id (w_db w1) p + 1) (db_tx_log_id (w_db w1))\<rparr>)))\<rparr>"
    using assms(1)
    by (auto simp: build_recipient_output_def Let_def smust_Ok next_available_key_def next_child_Ok res_simps
        with_batch_Ok the_keychain_def next_tx_log_id_step batch_save_eq save_tx_log_entry_eq w1_def
        dest!: calc_commit_state)
  have s1: "\<exists>tx. s' = s\<lparr>sl_tx := Some tx\<rparr>" using add_transaction_elements_Ok [OF s'] .
  have fr: "db_outputs (w_db w1) = db_outputs (w_db w)" "db_tx_log_id (w_db w1) = db_tx_log_id (w_db w)"
    by (simp_all add: w1_def child_counter_def Let_def run_batch_def save_child_index_def smodify_def)
  have l: "current_tx_log_id (w_db w1) p = current_tx_log_id (w_db w) p"
    by (simp add: current_tx_log_id_def fr)
  have "w_wf w1" using keepsD [OF keeps_run_batch [OF keeps_db_wf(4)] assms(2), of "w_parent_key_id w"]
    by (auto simp: w1_def child_counter_def Let_def prod_eq_iff)
  then have wf: "db_wf ((w_db w1)\<lparr>db_tx_log_id := tbl_put p (current_tx_log_id (w_db w1) p + 1) (db_tx_log_id (w_db w1))\<rparr>)"
    by (simp add: w_wf_def db_tx_log_id_update)
  have f: "db_fetch (w_db w') i m = (if i = key \<and> m = None then Some (fresh_output X p key commit (sl_amount s) h
      (current_tx_log_id (w_db w) p)) else db_fetch (w_db w) i m)" if "length i = length key" for i m
    using outs.fetch_store [OF wf, of i "fresh_output X p key commit (sl_amount s) h (current_tx_log_id (w_db w1) p)" m] that
    by (simp add: w' save_tx_log_entry_eq db_fetch_def fr l fresh_output_def)
  have t': "txe_id t = current_tx_log_id (w_db w) p" "txe_tx_type t = TxReceived" "txe_tx_slate_id t = Some (sl_id s)"
    "txe_amount_credited t = sl_amount s" "\<not> txe_confirmed t"
    using s1 by (auto simp: t received_entry_def tx_log_entry_new_def l)
  have c': "get_outputs c = [(key, None, sl_amount s)]" "get_inputs c = []" "ctx_amount c = sl_amount s"
    by (simp_all add: c get_outputs_def get_inputs_def add_output_def context_new_def context_with_excess_def)
  have "db_tx_log (w_db w1) = db_tx_log (w_db w)"
    by (simp add: w1_def child_counter_def Let_def run_batch_def save_child_index_def smodify_def)
  then have log: "db_tx_log (w_db w') = tbl_put (to_key_u64 p (ucast (current_tx_log_id (w_db w) p))) (Some t) (db_tx_log (w_db w))"
    by (simp add: w' save_tx_log_entry_eq t'(1))
  have ok': "w_wf w'" "txe_parent_key_id t = p"
    using outs.good_store [OF wf] by (simp_all add: w' w_wf_def save_tx_log_entry_eq db_wf_def tbl_simps t received_entry_def tx_log_entry_new_def)
  have cur: "current_tx_log_id (w_db w') p = current_tx_log_id (w_db w) p + 1"
    by (simp add: w' save_tx_log_entry_eq l) (simp add: current_tx_log_id_def tbl_get_put)
  have rp: "\<exists>rp. child_path (x_to_path X (w_parent_key_id w)) (current_child_index w (w_parent_key_id w)) = Ok rp \<and>
      key = x_from_path X rp"
    using key by blast
  show ?thesis
    unfolding Let_def using f [of key None] f t' c' log ok' cur rp s1 by auto
qed

text \<open>The recipient's output is recorded as unconfirmed, with the amount
  of the slate and a key that is the account's next child, and belongs to a new log entry of the
  received type for that amount and slate; the context remembers exactly this output, the slate
  changes in its transaction only, and no other output does.\<close>

theorem received_output_is_recorded:
  assumes "build_recipient_output X now km d s h p w = (Ok (s', key, c, t), w')" "w_wf w"
  shows "let l = current_tx_log_id (w_db w) p in
    (\<exists>commit. db_fetch (w_db w') key None = Some (fresh_output X p key commit (sl_amount s) h l)) \<and>
    (\<forall>i m. length i = length key \<longrightarrow> (i, m) \<noteq> (key, None) \<longrightarrow> db_fetch (w_db w') i m = db_fetch (w_db w) i m) \<and>
    tbl_get (db_tx_log (w_db w')) (to_key_u64 p (ucast l)) = Some (Some t) \<and>
    txe_id t = l \<and> txe_tx_type t = TxReceived \<and> txe_tx_slate_id t = Some (sl_id s) \<and>
    txe_amount_credited t = sl_amount s \<and> \<not> txe_confirmed t \<and>
    current_tx_log_id (w_db w') p = l + 1 \<and>
    get_outputs c = [(key, None, sl_amount s)] \<and> get_inputs c = [] \<and> ctx_amount c = sl_amount s \<and>
    (\<exists>rp. child_path (x_to_path X (w_parent_key_id w)) (current_child_index w (w_parent_key_id w)) = Ok rp \<and>
       key = x_from_path X rp) \<and>
    (\<exists>tx. s' = s\<lparr>sl_tx := Some tx\<rparr>)"
  using received_effect [OF assms] by (simp add: Let_def tbl_get_put)

theorem received_output_is_recorded_witness:
  "\<exists>s' key c t w'. build_recipient_output sample_ext 0 None \<lparr>dr_key = replicate 32 3, dr_nonce = replicate 32 4\<rparr>
      ((slate_blank sample_ext [7] 2 False)\<lparr>sl_amount := 100\<rparr>) 50 (w_parent_key_id sample_wallet) locked_wallet =
      (Ok (s', key, c, t), w') \<and> txe_amount_credited t = 100"
proof -
  let ?r = "build_recipient_output sample_ext 0 None \<lparr>dr_key = replicate 32 3, dr_nonce = replicate 32 4\<rparr>
      ((slate_blank sample_ext [7] 2 False)\<lparr>sl_amount := 100\<rparr>) 50 (w_parent_key_id sample_wallet) locked_wallet"
  have "is_Ok (fst ?r)" by code_simp
  then obtain s' key c t where ok: "?r = (Ok (s', key, c, t), snd ?r)"
    by (metis is_Ok_ex prod.collapse prod_cases4)
  have "txe_amount_credited t = 100"
    using received_output_is_recorded [OF ok locked_wallet_wf] by (simp add: Let_def)
  with ok show ?thesis by blast
qed

end
