(* ===== verification/Tx.thy ===== *)
theory Tx
  imports Send Updater
begin

text \<open>
  Transactions as operations of the wallet (\<open>libwallet/src/internal/tx.rs\<close>): a new slate, the
  parts the sender and the recipient add to it, completing and cancelling it, and the payment
  proof a sender stores and checks.
\<close>

section \<open>A new slate\<close>

definition ttl_after :: "u64 \<Rightarrow> u64 option \<Rightarrow> u64 \<Rightarrow> u64" where
  "ttl_after current_height ttl_blocks old = (case ttl_blocks of Some b \<Rightarrow> current_height + b | None \<Rightarrow> old)"

definition header_version_at :: "ext \<Rightarrow> u64 \<Rightarrow> u16 \<Rightarrow> u16" where
  "header_version_at X height v =
     fold (\<lambda>n v. if x_valid_header_version X height n then n else v) [1, 2, 3] v"

definition new_tx_slate :: "ext \<Rightarrow> node \<Rightarrow> uuid \<Rightarrow> u64 \<Rightarrow> bool \<Rightarrow> u8 \<Rightarrow> u64 option \<Rightarrow> slate result" where
  "new_tx_slate X N uuid amount is_invoice num_parts ttl_blocks =
     rbind (n_chain_tip N) (\<lambda>(current_height, _).
       let s = slate_blank X uuid num_parts is_invoice
       in Ok (s\<lparr>sl_ttl_cutoff_height := ttl_after current_height ttl_blocks (sl_ttl_cutoff_height s),
            sl_amount := amount,
            sl_version_info := (sl_version_info s)\<lparr>vci_block_header_version :=
              header_version_at X current_height (vci_block_header_version (sl_version_info s))\<rparr>,
            sl_kernel_features := 0\<rparr>))"

definition estimate_send_tx ::
  "ext \<Rightarrow> node \<Rightarrow> timestamp \<Rightarrow> secret_key option \<Rightarrow> u64 \<Rightarrow> bool \<Rightarrow> u64 \<Rightarrow> nat \<Rightarrow> nat \<Rightarrow> bool \<Rightarrow> bool \<Rightarrow> ident
    \<Rightarrow> (u64 \<times> u64) wop" where
  "estimate_send_tx X N now km amount amount_includes_fee minimum_confirmations max_outputs
       num_change_outputs selection_strategy_is_use_all refresh parent_key_id =
     sbind (slift (n_chain_tip N)) (\<lambda>(current_height, _).
     sbind (if refresh then refresh_outputs X N now km parent_key_id False else sret ()) (\<lambda>_.
     sbind (sread (\<lambda>w. select_coins_and_fee X w amount amount_includes_fee current_height
              minimum_confirmations max_outputs num_change_outputs selection_strategy_is_use_all parent_key_id)) (\<lambda>r.
     sbind (slift r) (\<lambda>(_, total, _, fee). sret (total, fee)))))"

section \<open>The parts of the parties\<close>

definition sign_unless_initiator ::
  "ext \<Rightarrow> secret_key option \<Rightarrow> bool \<Rightarrow> context \<Rightarrow> slate \<Rightarrow> (slate \<times> context) wop" where
  "sign_unless_initiator X km is_initiator c s =
     (if is_initiator then sret (s, c)
      else sbind (the_keychain X km) (\<lambda>_.
           sbind (slift (fill_round_2 X (ctx_sec_key c) (ctx_sec_nonce c) s)) (\<lambda>s. sret (s, c))))"

definition add_inputs_to_slate ::
  "ext \<Rightarrow> node \<Rightarrow> timestamp \<Rightarrow> secret_key option \<Rightarrow> draw \<Rightarrow> slate \<Rightarrow> u64 \<Rightarrow> u64 \<Rightarrow> nat \<Rightarrow> nat \<Rightarrow> bool \<Rightarrow> bool
    \<Rightarrow> ident \<Rightarrow> bool \<Rightarrow> bool \<Rightarrow> (slate \<times> context) wop" where
  "add_inputs_to_slate X N now km d s current_height minimum_confirmations max_outputs num_change_outputs
       selection_strategy_is_use_all refresh parent_key_id is_initiator amount_includes_fee =
     sbind (if refresh then refresh_outputs X N now km parent_key_id False else sret ()) (\<lambda>_.
     sbind (the_keychain X km) (\<lambda>k.
     sbind (build_send_tx X k km d s current_height minimum_confirmations max_outputs num_change_outputs
              selection_strategy_is_use_all None parent_key_id amount_includes_fee) (\<lambda>(s, c).
     sbind (the_keychain X km) (\<lambda>_.
     sbind (slift (fill_round_1 X c s)) (\<lambda>s.
       sign_unless_initiator X km is_initiator (c\<lparr>ctx_initial_sec_key := ctx_sec_key c\<rparr>) s)))))"

definition add_output_to_slate ::
  "ext \<Rightarrow> timestamp \<Rightarrow> secret_key option \<Rightarrow> draw \<Rightarrow> slate \<Rightarrow> u64 \<Rightarrow> ident \<Rightarrow> bool \<Rightarrow> (slate \<times> context) wop" where
  "add_output_to_slate X now km d s current_height parent_key_id is_initiator =
     sbind (the_keychain X km) (\<lambda>k.
     sbind (build_recipient_output X now km d s current_height parent_key_id) (\<lambda>(s, _, c, tx).
     sbind (slift (fill_round_1 X c s)) (\<lambda>s.
     let c = c\<lparr>ctx_initial_sec_key := ctx_sec_key c\<rparr>
     in if is_initiator then sret (s, c)
        else sbind (slift (fill_round_2 X (ctx_sec_key c) (ctx_sec_nonce c) s)) (\<lambda>s.
             sbind (with_batch X km (\<lambda>_.
                sbind (slift (calc_excess X s)) (\<lambda>e.
                  save_tx_log_entry (tx\<lparr>txe_kernel_excess := Some e\<rparr>) parent_key_id))) (\<lambda>_.
               sret (s, c))))))"

definition create_late_lock_context ::
  "ext \<Rightarrow> node \<Rightarrow> timestamp \<Rightarrow> secret_key option \<Rightarrow> draw \<Rightarrow> slate \<Rightarrow> u64 \<Rightarrow> init_tx_args \<Rightarrow> ident
    \<Rightarrow> (slate \<times> context) wop" where
  "create_late_lock_context X N now km d s current_height args parent_key_id =
     sbind (if ita_refresh_outputs_from_node args then refresh_outputs X N now km parent_key_id False else sret ()) (\<lambda>_.
     sbind (sread (\<lambda>w. select_coins_and_fee X w (ita_amount args)
              (case ita_amount_includes_fee args of Some b \<Rightarrow> b | None \<Rightarrow> False) current_height
              (ita_minimum_confirmations args) (unat (ita_max_outputs args)) (unat (ita_num_change_outputs args))
              (ita_selection_strategy_is_use_all args) parent_key_id)) (\<lambda>r.
     sbind (slift r) (\<lambda>(_, _, _, fee).
     sbind (slift (x_fee_new X 0 fee)) (\<lambda>ff.
     let s = s\<lparr>sl_fee_fields := ff\<rparr>
     in sbind (the_keychain X km) (\<lambda>_.
        let c = (context_new d parent_key_id)\<lparr>ctx_fee := Some (sl_fee_fields s), ctx_amount := sl_amount s,
              ctx_late_lock_args := Some args\<rparr>
        in sbind (the_keychain X km) (\<lambda>_.
           sbind (slift (fill_round_1 X c s)) (\<lambda>s. sret (s, c))))))))"

section \<open>Completing\<close>

text \<open>A party that pays itself by invoice signs with the key and nonce it issued with.\<close>

definition completing_keys :: "context \<Rightarrow> secret_key \<times> secret_key" where
  "completing_keys c =
     (if ctx_initial_sec_key c \<noteq> ctx_sec_key c \<and> ctx_initial_sec_nonce c \<noteq> ctx_sec_nonce c
      then (ctx_initial_sec_key c, ctx_initial_sec_nonce c) else (ctx_sec_key c, ctx_sec_nonce c))"

definition complete_tx :: "ext \<Rightarrow> secret_key option \<Rightarrow> slate \<Rightarrow> context \<Rightarrow> slate wop" where
  "complete_tx X km s c =
     (let (sec_key, sec_nonce) = completing_keys c in
      sbind (the_keychain X km) (\<lambda>_.
      sbind (slift (fill_round_2 X sec_key sec_nonce s)) (\<lambda>s.
      sbind (the_keychain X km) (\<lambda>_. slift (finalize X s)))))"

section \<open>Cancelling\<close>

definition cancel_tx :: "ext \<Rightarrow> secret_key option \<Rightarrow> ident \<Rightarrow> u32 option \<Rightarrow> uuid option \<Rightarrow> unit wop" where
  "cancel_tx X km parent_key_id tx_id tx_slate_id =
     (let tx_id_string = (case tx_id of Some i \<Rightarrow> nat_to_string (unat i)
           | None \<Rightarrow> (case tx_slate_id of Some u \<Rightarrow> x_uuid_str X u | None \<Rightarrow> ''''))
      in sbind (sread (\<lambda>w. retrieve_txs w tx_id tx_slate_id None (Some parent_key_id) False)) (\<lambda>tx_vec.
         case tx_vec of
           [tx] \<Rightarrow>
             if txe_tx_type tx \<notin> set [TxSent, TxReceived, TxReverted]
             then sfail (Txn (TransactionNotCancellable tx_id_string))
             else if txe_confirmed tx then sfail (Txn (TransactionNotCancellable tx_id_string))
             else sbind (retrieve_outputs X km False (Some (txe_id tx)) (Some parent_key_id)) (\<lambda>res.
                  cancel_tx_and_outputs X km tx (map ocm_output res) parent_key_id)
         | _ \<Rightarrow> sfail (Txn (TransactionDoesntExist tx_id_string))))"

section \<open>Payment proofs\<close>

definition payment_proof_message :: "u64 \<Rightarrow> commitment \<Rightarrow> dalek_pubkey \<Rightarrow> bytes" where
  "payment_proof_message amount kernel_commitment sender_address =
     be64 amount @ kernel_commitment @ sender_address"

definition decode_payment_proof_message :: "ext \<Rightarrow> bytes \<Rightarrow> (u64 \<times> commitment \<times> dalek_pubkey) result" where
  "decode_payment_proof_message X msg =
     (if length msg < 73 then Err (Lib (IO ''failed to fill whole buffer''))
      else let addr = take 32 (drop 41 msg) in
        if x_dalek_pk_valid X addr
        then Ok (of_be (take 8 msg), x_commit_from_vec X (take 33 (drop 8 msg)), addr)
        else Panic)"

definition create_payment_proof_signature ::
  "ext \<Rightarrow> u64 \<Rightarrow> commitment \<Rightarrow> dalek_pubkey \<Rightarrow> secret_key \<Rightarrow> dalek_sig result" where
  "create_payment_proof_signature X amount kernel_commitment sender_address sec_key =
     Ok (x_dalek_sign X sec_key (payment_proof_message amount kernel_commitment sender_address))"

text \<open>The entry the finalised slate belongs to: ours as sender, or as the issuer of an invoice\<close>

definition is_finalised_entry :: "bool \<Rightarrow> tx_log_entry \<Rightarrow> bool" where
  "is_finalised_entry is_invoiced t \<longleftrightarrow>
     (txe_tx_type t = TxSent \<and> \<not> is_invoiced) \<or> (txe_tx_type t = TxReceived \<and> is_invoiced)"

definition signed_proof :: "ext \<Rightarrow> keychain \<Rightarrow> ident \<Rightarrow> context \<Rightarrow> slate \<Rightarrow> stored_proof_info option result" where
  "signed_proof X k parent_key_id c s = (case sl_payment_proof s of
     None \<Rightarrow> Ok None
   | Some p \<Rightarrow>
       let derivation_index = (case ctx_payment_proof_derivation_index c of Some i \<Rightarrow> i | None \<Rightarrow> 0)
       in rbind (calc_excess X s) (\<lambda>excess.
          rbind (address_from_derivation_path X k parent_key_id derivation_index) (\<lambda>sender_key.
          let sender_address = ov3_from_private X sender_key
          in rbind (create_payment_proof_signature X (sl_amount s) excess (pi_sender_address p) sender_key) (\<lambda>sig.
             rbind (ov3_to_ed25519 X sender_address) (\<lambda>addr.
               Ok (Some \<lparr>spi_receiver_address = pi_receiver_address p,
                    spi_receiver_signature = pi_receiver_signature p, spi_sender_address_path = derivation_index,
                    spi_sender_address = addr, spi_sender_signature = Some sig\<rparr>))))))"

definition update_stored_tx :: "ext \<Rightarrow> secret_key option \<Rightarrow> context \<Rightarrow> slate \<Rightarrow> bool \<Rightarrow> unit wop" where
  "update_stored_tx X km c s is_invoiced =
     sbind (sread (\<lambda>w. find (is_finalised_entry is_invoiced) (retrieve_txs w None (Some (sl_id s)) None None False))) (\<lambda>tx.
     sbind (slift (ok_or (Txn (TransactionDoesntExist (x_uuid_str X (sl_id s)))) tx)) (\<lambda>tx.
     sbind (the_keychain X km) (\<lambda>k.
     sbind (slift (calc_excess X s)) (\<lambda>excess.
     sbind (sread w_parent_key_id) (\<lambda>active.
     sbind (slift (signed_proof X k active c s)) (\<lambda>pf.
     let tx' = tx\<lparr>txe_kernel_excess := Some excess,
           txe_payment_proof := (if sl_payment_proof s = None then txe_payment_proof tx else pf)\<rparr>
     in sbind (slift (unwrap (txe_tx_slate_id tx))) (\<lambda>slate_id.
        sbind (slift (tx_or_err s)) (\<lambda>t.
        sbind (store_tx X (x_uuid_str X slate_id) t) (\<lambda>_.
          with_batch X km (\<lambda>_. save_tx_log_entry tx' (txe_parent_key_id tx)))))))))))"

definition proof_error :: "string \<Rightarrow> error" where
  "proof_error msg = Txn (PaymentProof msg)"

definition verify_proof_of :: "ext \<Rightarrow> keychain \<Rightarrow> ident \<Rightarrow> context \<Rightarrow> slate \<Rightarrow> stored_proof_info \<Rightarrow> payment_info \<Rightarrow> unit result" where
  "verify_proof_of X k parent_key_id c s orig p =
     rbind (ok_or (proof_error ''Payment proof derivation index required'')
              (ctx_payment_proof_derivation_index c)) (\<lambda>index.
     rbind (address_from_derivation_path X k parent_key_id index) (\<lambda>sender_sk.
     let orig_sender_address = ov3_from_private X sender_sk
     in rbind (ov3_to_ed25519 X orig_sender_address) (\<lambda>addr.
        if pi_sender_address p \<noteq> addr
        then Err (proof_error ''Sender address on slate does not match original sender address'')
        else if spi_receiver_address orig \<noteq> pi_receiver_address p
        then Err (proof_error ''Recipient address on slate does not match original recipient address'')
        else rbind (calc_excess X s) (\<lambda>excess.
             rbind (ov3_to_ed25519 X orig_sender_address) (\<lambda>addr.
             let msg = payment_proof_message (sl_amount s) excess addr
             in rbind (ok_or (proof_error ''Recipient did not provide requested proof signature'')
                         (pi_receiver_signature p)) (\<lambda>sig.
                if x_dalek_verify X (pi_receiver_address p) msg sig then Ok ()
                else Err (proof_error ''Invalid proof signature'')))))))"

definition verify_slate_payment_proof :: "ext \<Rightarrow> secret_key option \<Rightarrow> ident \<Rightarrow> context \<Rightarrow> slate \<Rightarrow> unit wop" where
  "verify_slate_payment_proof X km parent_key_id c s =
     sbind (sread (\<lambda>w. retrieve_txs w None (Some (sl_id s)) None (Some parent_key_id) False)) (\<lambda>tx_vec.
       case tx_vec of
         [] \<Rightarrow> sfail (proof_error ''TxLogEntry with original proof info not found (is account correct?)'')
       | tx # _ \<Rightarrow>
           let orig = txe_payment_proof tx in
           if orig \<noteq> None \<and> sl_payment_proof s = None
           then sfail (proof_error ''Expected Payment Proof for this Transaction is not present'')
           else case sl_payment_proof s of
               None \<Rightarrow> sret ()
             | Some p \<Rightarrow>
                 (case orig of
                    None \<Rightarrow> sfail (proof_error ''Original proof info not stored in tx'')
                  | Some orig \<Rightarrow> sbind (the_keychain X km) (\<lambda>k. slift (verify_proof_of X k parent_key_id c s orig p))))"

end
