(* ===== verification/Keyed.thy ===== *)
theory Keyed
  imports Updater_Props
begin

text \<open>
  The invariant of the output table: every output is stored under its own identifier and
  position, and identifiers have one length. The iteration over the outputs is then a list
  without repetition of exactly the outputs that can be read back.
\<close>

definition out_wf :: "nat \<Rightarrow> db \<Rightarrow> bool" where
  "out_wf n d \<longleftrightarrow> (\<forall>(k, out) \<in> set (db_outputs d).
     k = output_key (out_key_id out) (out_mmr_index out) \<and> length (out_key_id out) = n)"

definition outs_ok :: "nat \<Rightarrow> db \<Rightarrow> bool" where
  "outs_ok n d \<longleftrightarrow> db_wf d \<and> out_wf n d"

lemma outs_ok_db_wf: "outs_ok n d \<Longrightarrow> db_wf d"
  by (simp add: outs_ok_def)

lemma outs_okD:
  "outs_ok n d \<Longrightarrow> tbl_get (db_outputs d) k = Some out \<Longrightarrow>
     k = output_key (out_key_id out) (out_mmr_index out) \<and> length (out_key_id out) = n"
  by (auto simp: outs_ok_def out_wf_def dest!: tbl_get_in)

lemma outs_ok_keyed: "outs_ok n d \<Longrightarrow> keyed n d"
  by (auto simp: keyed_def db_fetch_def out_key_def output_key_inject dest!: outs_okD)

lemma outs_ok_iter:
  assumes "outs_ok n d"
  shows "out \<in> set (batch_iter d) \<longleftrightarrow> length (out_key_id out) = n \<and> db_fetch d (out_key_id out) (out_mmr_index out) = Some out"
proof -
  have wf: "tbl_wf (db_outputs d)" using assms by (simp add: outs_ok_def db_wf_def)
  show ?thesis
    using outs_okD [OF assms] tbl.vals_iff [OF wf] by (auto simp: batch_iter_def db_fetch_def)
qed

lemma outs_ok_distinct:
  assumes "outs_ok n d"
  shows "distinct (map out_key (batch_iter d))"
proof -
  have "distinct (map fst (db_outputs d))"
    using assms strict_sorted_iff by (auto simp: outs_ok_def db_wf_def tbl_wf_def)
  moreover have "map fst (db_outputs d) = map ((\<lambda>k. output_key (fst k) (snd k)) \<circ> out_key) (batch_iter d)"
    using assms by (auto simp: outs_ok_def out_wf_def batch_iter_def tbl_vals_def out_key_def)
  ultimately have "distinct (map (\<lambda>k. output_key (fst k) (snd k)) (map out_key (batch_iter d)))"
    by (simp only: map_map)
  then show ?thesis using distinct_map by blast
qed

lemma tbl_put_set: "set (tbl_put k v t) \<subseteq> insert (k, v) (set t)"
  by (induction k v t rule: tbl_put.induct) auto

lemma tbl_del_set: "set (tbl_del k t) \<subseteq> set t"
  by (induction k t rule: tbl_del.induct) auto

lemma outs_ok_store: "outs_ok n d \<Longrightarrow> length (out_key_id out) = n \<Longrightarrow> outs_ok n (db_store out d)"
  using tbl_put_set [of "output_key (out_key_id out) (out_mmr_index out)" out "db_outputs d"]
  by (auto simp: outs_ok_def outs.good_store) (auto simp: out_wf_def db_store_def batch_save_def smodify_def)

lemma outs_ok_remove: "outs_ok n d \<Longrightarrow> outs_ok n (db_remove i m d)"
  using tbl_del_set [of "output_key i m" "db_outputs d"]
  by (auto simp: outs_ok_def outs.good_remove) (auto simp: out_wf_def db_remove_def batch_delete_def smodify_def)

lemma outs_ok_same: "outs_ok n d \<Longrightarrow> db_outputs d' = db_outputs d \<Longrightarrow> db_wf d' \<Longrightarrow> outs_ok n d'"
  by (simp add: outs_ok_def out_wf_def)

lemma outs_ok_logs:
  "outs_ok n d \<Longrightarrow> outs_ok n (d\<lparr>db_tx_log_id := tbl_put p v (db_tx_log_id d)\<rparr>)"
  "outs_ok n d \<Longrightarrow> outs_ok n (d\<lparr>db_tx_log := tbl_put k t (db_tx_log d)\<rparr>)"
  by (simp_all add: outs_ok_def out_wf_def db_wf_def tbl_simps)

lemma keeps_outs_ok:
  "length (out_key_id out) = n \<Longrightarrow> keeps (outs_ok n) (batch_save out)"
  "length (out_key_id out) = n \<Longrightarrow> keeps (outs_ok n) (lock_output out)"
  "keeps (outs_ok n) (batch_delete i m)"
  by (simp_all add: keeps_def lock_output_def output_lock_def batch_save_eq batch_delete_eq outs_ok_store outs_ok_remove)

lemma keeps_outs_ok_other:
  "keeps (outs_ok n) (batch_get X i m)" "keeps (outs_ok n) (save_child_index i j)"
  "keeps (outs_ok n) (save_last_confirmed_height i h)" "keeps (outs_ok n) (save_last_scanned_block b)"
  "keeps (outs_ok n) (save_init_status v)" "keeps (outs_ok n) (next_tx_log_id i)"
  "keeps (outs_ok n) (save_tx_log_entry t i)" "keeps (outs_ok n) (save_acct_path a)"
  "keeps (outs_ok n) (delete_private_context s)"
  by (auto simp: keeps_def batch_get_def save_child_index_def save_last_confirmed_height_def
      save_last_scanned_block_def save_init_status_def next_tx_log_id_eq save_tx_log_entry_def save_acct_path_def
      delete_private_context_def smodify_def outs_ok_def out_wf_def db_wf_def tbl_simps)

lemma keeps_outs_ok_context: "keeps (outs_ok n) (save_private_context X k s c)"
  unfolding save_private_context_def
  by (intro keeps_intros keeps_smodify) (auto simp: outs_ok_def out_wf_def db_wf_def tbl_simps)

lemmas keeps_tables = keeps_outs_ok keeps_outs_ok_other keeps_outs_ok_context

text \<open>The wallet's outputs, and the step from a batch to the wallet\<close>

definition wallet_ok :: "nat \<Rightarrow> wallet \<Rightarrow> bool" where
  "wallet_ok n w \<longleftrightarrow> outs_ok n (w_db w)"

lemma wallet_ok_wf: "wallet_ok n w \<Longrightarrow> w_wf w"
  by (simp add: wallet_ok_def w_wf_def outs_ok_def)

lemma keeps_run_batch_ok: "keeps (outs_ok n) b \<Longrightarrow> keeps (wallet_ok n) (run_batch b)"
  by (auto simp: keeps_def wallet_ok_def run_batch_def split: prod.splits res.splits)

lemma keeps_with_batch_ok: "(\<And>k. keeps (outs_ok n) (b k)) \<Longrightarrow> keeps (wallet_ok n) (with_batch X km b)"
  unfolding with_batch_def by (intro keeps_intros keeps_run_batch_ok)

lemma keeps_wallet_ok_reads:
  "keeps (wallet_ok n) (wallet_get X i m)" "keeps (wallet_ok n) (set_parent_key_id i)"
  "keeps (wallet_ok n) (store_tx X u t)" "keeps (wallet_ok n) close"
  by (auto simp: keeps_def wallet_ok_def wallet_get_def set_parent_key_id_def store_tx_def close_def smodify_def)

lemma keeps_wallet_ok_ops:
  "keeps (wallet_ok n) (next_child X km)" "keeps (wallet_ok n) (get_private_context X km s)"
  "keeps (wallet_ok n) (calc_commit_for_cache X km a i)" "keeps (wallet_ok n) (get_stored_tx X u)"
  unfolding next_child_def get_private_context_def calc_commit_for_cache_def get_stored_tx_def
  by (intro keeps_intros keeps_with_batch_ok keeps_tables)+

lemmas keeps_wallet_tables = keeps_tables keeps_with_batch_ok keeps_wallet_ok_reads keeps_wallet_ok_ops

text \<open>Steps whose behaviour depends on the state they start in\<close>

lemma keeps_sread_bind:
  "(\<And>s. P s \<Longrightarrow> P (snd (f (g s) s))) \<Longrightarrow> keeps P (sbind (sread g) f)"
  by (simp add: keeps_def sbind_simps)

end
