(* ===== verification/Tx_Props.thy ===== *)
theory Tx_Props
  imports Tx Send_Props Keyed
begin

text \<open>
  The properties of transactions: cancelling a locked transaction undoes the locking, the
  payment proof message determines what it attests, and a sender accepts a payment proof only
  for the addresses, the amount and the kernel it agreed to.
\<close>

section \<open>Cancelling what was locked\<close>

lemma retrieve_outputs_Ok:
  "retrieve_outputs X km spent tx_id p w = (Ok res, w') \<Longrightarrow>
     w' = w \<and> map ocm_output res = sort_key out_n_child
       (filter (\<lambda>o'. p = None \<or> Some (out_root_key_id o') = p)
          (filter (\<lambda>out. tx_id = None \<or> out_tx_log_entry out = tx_id)
             (filter (\<lambda>out. spent \<or> out_status out \<noteq> Spent) (wallet_iter w))))"
proof -
  have m: "rmap (\<lambda>output. rbind (f output) (\<lambda>c. Ok \<lparr>ocm_output = output, ocm_commit = c\<rparr>)) outs = Ok res \<Longrightarrow>
      map ocm_output res = outs" for f :: "output_data \<Rightarrow> commitment result" and outs res
    by (induction outs arbitrary: res) (auto simp: res_simps)
  have p: "(case p of None \<Rightarrow> xs | Some k \<Rightarrow> filter (\<lambda>o'. out_root_key_id o' = k) xs) =
      filter (\<lambda>o'. p = None \<or> Some (out_root_key_id o') = p) xs" for xs
    by (cases p) simp_all
  have t: "(case tx_id of None \<Rightarrow> xs | Some i \<Rightarrow> filter (\<lambda>out. out_tx_log_entry out = Some i) xs) =
      filter (\<lambda>out. tx_id = None \<or> out_tx_log_entry out = tx_id) xs" for xs
    by (cases tx_id) simp_all
  assume "retrieve_outputs X km spent tx_id p w = (Ok res, w')"
  then show ?thesis
    by (auto simp: retrieve_outputs_def Let_def p t res_simps the_keychain_def dest!: m)
qed

lemma lock_inputs_outs_ok:
  "lock_inputs X l ids d = (Ok vs, d') \<Longrightarrow> outs_ok n d \<Longrightarrow> outs_ok n d'"
proof (induction ids arbitrary: d vs)
  case (Cons x ids)
  obtain i m v where x: "x = (i, m, v)" by (cases x)
  obtain coin vs' where c: "db_fetch d i m = Some coin" "lock_inputs X l ids (db_store (locked_for l coin) d) = (Ok vs', d')"
    using Cons.prems(1) unfolding x lock_inputs_Cons by blast
  have "length (out_key_id (locked_for l coin)) = n"
    using outs_okD [OF Cons.prems(2)] c(1) by (simp add: db_fetch_def)
  from Cons.IH [OF c(2) outs_ok_store [OF Cons.prems(2) this]] show ?case .
qed (simp add: lock_inputs_Nil)

lemma save_change_outs_ok:
  "save_change X p cs h l outs d = (Ok vs, d') \<Longrightarrow> \<forall>x \<in> set outs. length (fst x) = n \<Longrightarrow> outs_ok n d \<Longrightarrow> outs_ok n d'"
proof (induction outs arbitrary: d vs)
  case (Cons x outs)
  obtain i m a where x: "x = (i, m, a)" by (cases x)
  obtain c a' vs' where c: "save_change X p cs h l outs (db_store (fresh_output X p i c a' h l) d) = (Ok vs', d')"
    using Cons.prems(1) unfolding x save_change_Cons by blast
  have "length (out_key_id (fresh_output X p i c a' h l)) = n"
    using Cons.prems(2) by (simp add: x fresh_output_def)
  from Cons.IH [OF c _ outs_ok_store [OF Cons.prems(3) this]] Cons.prems(2) show ?case by simp
qed (simp add: save_change_Nil)

lemma lock_wallet_ok:
  assumes "lock_tx_context X now km s h c ov w = (Ok u, w')" "wallet_ok n w" "\<forall>x \<in> set (get_outputs c). length (fst x) = n"
  shows "wallet_ok n w'"
proof (rule lock_tx_context_Ok [OF assms(1)], goal_cases)
  case (1 commits k excess debited pf credited d1 d2 tx)
  have "outs_ok n d2"
    using assms(2) by (intro save_change_outs_ok [OF 1(5) assms(3) lock_inputs_outs_ok [OF 1(3) outs_ok_logs(1)]])
      (simp add: wallet_ok_def)
  then show ?case
    by (simp add: 1(7) wallet_ok_def save_tx_log_entry_eq outs_ok_logs(2))
qed

lemma wallet_tx_log_iff:
  "w_wf w \<Longrightarrow> t \<in> set (wallet_tx_log w) \<longleftrightarrow> (\<exists>k. tbl_get (db_tx_log (w_db w)) k = Some (Some t))"
  by (auto simp: wallet_tx_log_def tx_log_def tx_log_iter_def List.map_filter_def w_wf_def image_iff
      tbl.vals_iff [OF db_wf_tables(5)] intro: bexI [of _ "Some t"])

text \<open>The single entry that a cancellation by identifier finds, and the outputs it releases\<close>

lemma cancel_tx_Ok:
  assumes "cancel_tx X km p (Some l) None w = (Ok u, w')"
  obtains tx outs where
    "txe_id tx = l" "txe_parent_key_id tx = p" "\<not> txe_confirmed tx" "txe_tx_type tx \<in> {TxSent, TxReceived, TxReverted}"
    "\<And>t. t \<in> set (wallet_tx_log w) \<Longrightarrow> txe_id t = l \<Longrightarrow> txe_parent_key_id t = p \<Longrightarrow> t = tx"
    "distinct (map out_key (wallet_iter w)) \<Longrightarrow> distinct (map out_key outs)"
    "\<And>out. out \<in> set outs \<longleftrightarrow> out \<in> set (wallet_iter w) \<and> out_status out \<noteq> Spent \<and> out_tx_log_entry out = Some l \<and>
       out_root_key_id out = p"
    "cancel_tx_and_outputs X km tx outs p w = (Ok (), w')"
proof -
  let ?txs = "retrieve_txs w (Some l) None None (Some p) False"
  have txs: "set ?txs = {t \<in> set (wallet_tx_log w). txe_parent_key_id t = p \<and> txe_id t = l}"
    by (auto simp: retrieve_txs_def bound_def)
  obtain tx where tx: "?txs = [tx]" "txe_tx_type tx \<in> {TxSent, TxReceived, TxReverted}" "\<not> txe_confirmed tx"
    and rest: "sbind (retrieve_outputs X km False (Some (txe_id tx)) (Some p))
       (\<lambda>res. cancel_tx_and_outputs X km tx (map ocm_output res) p) w = (Ok u, w')"
    using assms by (auto simp: cancel_tx_def sbind_simps sfail_def Let_def split: list.splits if_splits)
  then obtain res where res: "retrieve_outputs X km False (Some (txe_id tx)) (Some p) w = (Ok res, w)"
    "cancel_tx_and_outputs X km tx (map ocm_output res) p w = (Ok (), w')"
    by (auto simp: sbind_eq_Ok dest: retrieve_outputs_Ok)
  have id: "txe_id tx = l" "txe_parent_key_id tx = p" using txs by (auto simp: tx(1))
  have outs: "map ocm_output res = sort_key out_n_child
       (filter (\<lambda>o'. out_root_key_id o' = p) (filter (\<lambda>out. out_tx_log_entry out = Some l)
             (filter (\<lambda>out. out_status out \<noteq> Spent) (wallet_iter w))))"
    using retrieve_outputs_Ok [OF res(1)] by (simp add: id)
  have "distinct (map out_key (map ocm_output res))" if "distinct (map out_key (wallet_iter w))"
    using that unfolding outs distinct_map by (auto intro: inj_on_subset)
  moreover have "out \<in> set (map ocm_output res) \<longleftrightarrow> out \<in> set (wallet_iter w) \<and> out_status out \<noteq> Spent \<and>
      out_tx_log_entry out = Some l \<and> out_root_key_id out = p" for out
    unfolding outs set_sort by auto
  moreover have "t = tx" if "t \<in> set (wallet_tx_log w)" "txe_id t = l" "txe_parent_key_id t = p" for t
  proof -
    have "t \<in> set ?txs" using that txs by blast
    then show ?thesis by (simp add: tx(1))
  qed
  ultimately show ?thesis using that [OF id tx(3,2)] res(2) by blast
qed


lemma locked_wallet_ok: "wallet_ok 17 locked_wallet"
proof -
  have "outs_ok 17 db_empty" by (simp add: outs_ok_def db_empty_wf) (simp add: out_wf_def db_empty_def)
  then show ?thesis
    by (simp add: wallet_ok_def locked_wallet_def sample_wallet_def outs_ok_store sample_key_length)
qed

definition locked_once :: wallet where
  "locked_once = snd (lock_tx_context sample_ext 0 None (slate_blank sample_ext [7] 2 False) 50 sending_context None locked_wallet)"


section \<open>Payment proofs\<close>

text \<open>The message a payment proof signs determines the amount, the kernel and
  the sender: it is decoded to what it was made of, so that two different payments never share it.\<close>

theorem payment_proof_message_roundtrip:
  assumes "length kern = 33" "length addr = 32" "x_dalek_pk_valid X addr" "x_commit_from_vec X kern = kern"
  shows "decode_payment_proof_message X (payment_proof_message amount kern addr) = Ok (amount, kern, addr) \<and>
    (\<forall>amount' kern' addr'. length kern' = 33 \<longrightarrow>
       payment_proof_message amount' kern' addr' = payment_proof_message amount kern addr \<longrightarrow>
       amount' = amount \<and> kern' = kern \<and> addr' = addr)"
  using assms
  by (auto simp: decode_payment_proof_message_def payment_proof_message_def append_eq_append_conv)

theorem payment_proof_message_roundtrip_witness:
  "decode_payment_proof_message sample_ext (payment_proof_message 5 (replicate 33 2) (replicate 32 7)) =
     Ok (5, replicate 33 2, replicate 32 7)"
  by (rule conjunct1 [OF payment_proof_message_roundtrip]) (simp_all add: sample_ext_def pad_def)

text \<open>C23: a sender that finalises a slate for which a payment proof was promised accepts
  it only when the log has an entry of the account for this slate with the original proof, the
  slate names the sender's own address and the recipient agreed to, and the recipient's signature
  is over the slate's amount, its kernel excess and the sender's address; a proof cannot be dropped
  from the slate on the way. Checking changes nothing in the wallet.\<close>

theorem payment_proof_is_checked:
  assumes "verify_slate_payment_proof X km p c s w = (Ok u, w')"
  shows "w' = w \<and> (\<exists>tx \<in> set (wallet_tx_log w). txe_tx_slate_id tx = Some (sl_id s) \<and> txe_parent_key_id tx = p \<and>
    (case sl_payment_proof s of
       None \<Rightarrow> txe_payment_proof tx = None
     | Some pi \<Rightarrow> \<exists>orig sig excess k i sk.
         txe_payment_proof tx = Some orig \<and> spi_receiver_address orig = pi_receiver_address pi \<and>
         wallet_keychain X km w = Ok k \<and> ctx_payment_proof_derivation_index c = Some i \<and>
         address_from_derivation_path X k p i = Ok sk \<and> pi_sender_address pi = x_dalek_pk X sk \<and>
         calc_excess X s = Ok excess \<and> pi_receiver_signature pi = Some sig \<and>
         x_dalek_verify X (pi_receiver_address pi)
           (payment_proof_message (sl_amount s) excess (pi_sender_address pi)) sig))"
proof -
  let ?txs = "retrieve_txs w None (Some (sl_id s)) None (Some p) False"
  obtain tx txs where txs: "?txs = tx # txs"
    using assms by (cases ?txs) (auto simp: verify_slate_payment_proof_def sbind_simps sfail_def)
  have "set ?txs = {t \<in> set (wallet_tx_log w). txe_parent_key_id t = p \<and> txe_tx_slate_id t = Some (sl_id s)}"
    by (auto simp: retrieve_txs_def bound_def)
  then have tx: "tx \<in> set (wallet_tx_log w)" "txe_parent_key_id tx = p" "txe_tx_slate_id tx = Some (sl_id s)"
    by (auto simp: txs)
  have ov3: "ov3_to_ed25519 X (ov3_from_private X sk) = Ok a \<longleftrightarrow> a = x_dalek_pk X sk \<and> x_dalek_pk_valid X a" for sk a
    by (auto simp: ov3_to_ed25519_def ov3_from_private_def)
  show ?thesis
  proof (cases "sl_payment_proof s")
    case None
    then show ?thesis using assms tx
      by (auto simp: verify_slate_payment_proof_def sbind_simps txs sfail_def Let_def comp_eq_Ok split: if_splits)
  next
    case (Some pi)
    then obtain orig k where o: "txe_payment_proof tx = Some orig" "wallet_keychain X km w = Ok k" "w' = w"
      "verify_proof_of X k p c s orig pi = Ok u"
      using assms
      by (auto simp: verify_slate_payment_proof_def sbind_simps txs sfail_def Let_def comp_eq_Ok sbind_eq_Ok
          the_keychain_def split: option.splits)
    have "spi_receiver_address orig = pi_receiver_address pi \<and> (\<exists>sig excess i sk.
         ctx_payment_proof_derivation_index c = Some i \<and>
         address_from_derivation_path X k p i = Ok sk \<and> pi_sender_address pi = x_dalek_pk X sk \<and>
         calc_excess X s = Ok excess \<and> pi_receiver_signature pi = Some sig \<and>
         x_dalek_verify X (pi_receiver_address pi)
           (payment_proof_message (sl_amount s) excess (pi_sender_address pi)) sig)"
      using o(4) by (auto simp: verify_proof_of_def res_simps Let_def ov3 split: if_splits)
    then show ?thesis using o tx Some by auto
  qed
qed

text \<open>A wallet that was promised a proof, and the slate that brings it back\<close>

definition proof_sender :: dalek_pubkey where
  "proof_sender = the_Ok (address_from_derivation_path sample_ext (replicate 32 1) (w_parent_key_id sample_wallet) 0)"

definition proof_slate :: slate where
  "proof_slate = (let s = (slate_blank sample_ext [7] 2 False)\<lparr>sl_amount := 100, sl_participant_data :=
       [\<lparr>pd_public_blind_excess = 2 # replicate 32 3, pd_public_nonce = 2 # replicate 32 4, pd_part_sig = None\<rparr>]\<rparr>
     in s\<lparr>sl_payment_proof := Some \<lparr>pi_sender_address = proof_sender, pi_receiver_address = replicate 32 8,
        pi_receiver_signature = Some (replicate 32 8 @ payment_proof_message 100 (the_Ok (calc_excess sample_ext s)) proof_sender)\<rparr>\<rparr>)"

definition proof_wallet :: wallet where
  "proof_wallet = sample_wallet\<lparr>w_db := db_empty\<lparr>db_tx_log := [([1], Some ((tx_log_entry_new 0 (w_parent_key_id sample_wallet) TxSent 0)
     \<lparr>txe_tx_slate_id := Some [7], txe_payment_proof := Some \<lparr>spi_receiver_address = replicate 32 8, spi_receiver_signature = None,
        spi_sender_address_path = 0, spi_sender_address = proof_sender, spi_sender_signature = None\<rparr>\<rparr>))]\<rparr>\<rparr>"

definition proof_context :: "context" where
  "proof_context = sending_context\<lparr>ctx_payment_proof_derivation_index := Some 0\<rparr>"

theorem payment_proof_is_checked_witness:
  "\<exists>w'. verify_slate_payment_proof sample_ext None (w_parent_key_id sample_wallet) proof_context proof_slate proof_wallet = (Ok (), w') \<and>
     w' = proof_wallet \<and> (\<exists>tx \<in> set (wallet_tx_log proof_wallet). txe_payment_proof tx \<noteq> None)"
proof -
  let ?c = "verify_slate_payment_proof sample_ext None (w_parent_key_id sample_wallet) proof_context proof_slate"
  have "is_Ok (fst (?c proof_wallet))" by code_simp
  then obtain u where ok: "?c proof_wallet = (Ok u, snd (?c proof_wallet))" by (rule is_Ok_run [elim_format]) blast
  have "sl_payment_proof proof_slate \<noteq> None" by (simp add: proof_slate_def Let_def)
  then show ?thesis using payment_proof_is_checked [OF ok] ok by (auto split: option.splits)
qed

end
