(* ===== verification/Address.thy ===== *)
theory Address
  imports Codec Types
begin

text \<open>
  Slatepack addresses (\<open>libwallet/src/slatepack/address.rs\<close>): an ed25519 key under the prefix of
  the network, its bech32 text, and that text's binary form, as Slatepacks carry it.
\<close>

definition slatepack_hrp :: "ext \<Rightarrow> string" where
  "slatepack_hrp X = (if x_chain_type X = ''Mainnet'' then ''grin'' else ''tgrin'')"

definition valid_network :: "ext \<Rightarrow> string \<Rightarrow> bool" where
  "valid_network X hrp \<longleftrightarrow> slatepack_hrp X = hrp"

definition address_new :: "ext \<Rightarrow> dalek_pubkey \<Rightarrow> slatepack_address" where
  "address_new X pub_key = \<lparr>sa_hrp = slatepack_hrp X, sa_pub_key = pub_key\<rparr>"

definition address_valid_network :: "ext \<Rightarrow> slatepack_address \<Rightarrow> bool" where
  "address_valid_network X a = valid_network X (sa_hrp a)"

definition address_to_string :: "ext \<Rightarrow> slatepack_address \<Rightarrow> string result" where
  "address_to_string X a = x_bech32_encode X (sa_hrp a) (x_to_base32 X (sa_pub_key a))"

definition address_display :: "ext \<Rightarrow> slatepack_address \<Rightarrow> string" where
  "address_display X a = (case address_to_string X a of Ok e \<Rightarrow> e | _ \<Rightarrow> ''<invalid Slatepack address>'')"

definition address_of_string :: "ext \<Rightarrow> string \<Rightarrow> slatepack_address result" where
  "address_of_string X encoded =
     rbind (x_bech32_decode X encoded) (\<lambda>(hrp, data).
       if \<not> valid_network X hrp
       then Err (Slt (SlatepackAddress (''wrong address prefix for chain '' @ x_chain_type X)))
       else rbind (x_from_base32 X data) (\<lambda>bytes.
         if length bytes \<noteq> 32 then Err (Slt (SlatepackAddress ''Wrong encoded data''))
         else if x_dalek_pk_valid X bytes then Ok \<lparr>sa_hrp = hrp, sa_pub_key = bytes\<rparr>
         else Err (Lib (ED25519Key (x_dalek_err X bytes)))))"

definition address_of_secret :: "ext \<Rightarrow> secret_key \<Rightarrow> slatepack_address" where
  "address_of_secret X key = address_new X (x_dalek_pk X key)"

text \<open>The onion address of a Slatepack address has the same bytes.\<close>

definition address_to_ov3 :: "slatepack_address \<Rightarrow> bytes" where
  "address_to_ov3 a = sa_pub_key a"

definition address_encoded_len :: "ext \<Rightarrow> slatepack_address \<Rightarrow> nat result" where
  "address_encoded_len X a = rbind (address_to_string X a) (\<lambda>e. Ok (length e + 1))"

definition put_address :: "ext \<Rightarrow> slatepack_address \<Rightarrow> (ser_error, bytes) res" where
  "put_address X a = (case address_to_string X a of
     Ok e \<Rightarrow> (if length e > 255 then Err SE_CorruptedData else Ok (of_nat (length e) # map of_char e))
   | Err _ \<Rightarrow> Err SE_CorruptedData
   | Panic \<Rightarrow> Panic)"

text \<open>The bytes are \<open>str_of_utf8\<close>'s text; the reader's other errors all become corrupted data.\<close>

definition get_address :: "ext \<Rightarrow> (bytes \<Rightarrow> string option) \<Rightarrow> slatepack_address rd" where
  "get_address X str_of_utf8 =
     sbind read_u8 (\<lambda>len.
     sbind (read_fixed_bytes (unat len)) (\<lambda>b.
       case str_of_utf8 b of
         None \<Rightarrow> sfail SE_CorruptedData
       | Some encoded \<Rightarrow>
           (case address_of_string X encoded of
              Ok a \<Rightarrow> sret a | Err _ \<Rightarrow> sfail SE_CorruptedData | Panic \<Rightarrow> slift Panic)))"

text \<open>
  What is assumed of the bech32 library: decoding undoes encoding, and its texts are ASCII. An
  address is well formed when its key is a point and its text fits its length byte.
\<close>

definition bech32_ok :: "ext \<Rightarrow> (bytes \<Rightarrow> string option) \<Rightarrow> bool" where
  "bech32_ok X str_of_utf8 \<longleftrightarrow>
     (\<forall>h b e. x_bech32_encode X h b = Ok e \<longrightarrow> x_bech32_decode X e = Ok (h, b)) \<and>
     (\<forall>b. x_from_base32 X (x_to_base32 X b) = Ok b) \<and>
     (\<forall>h b e. x_bech32_encode X h b = Ok e \<longrightarrow> str_of_utf8 (map of_char e) = Some e)"

definition address_ok :: "ext \<Rightarrow> slatepack_address \<Rightarrow> bool" where
  "address_ok X a \<longleftrightarrow> valid_network X (sa_hrp a) \<and> length (sa_pub_key a) = 32 \<and>
     x_dalek_pk_valid X (sa_pub_key a) \<and> (\<exists>e. address_to_string X a = Ok e \<and> length e \<le> 255)"

lemma address_string_back:
  "bech32_ok X u \<Longrightarrow> address_ok X a \<Longrightarrow> address_to_string X a = Ok e \<Longrightarrow> address_of_string X e = Ok a"
  by (auto simp: bech32_ok_def address_ok_def address_to_string_def address_of_string_def)

lemma put_address_Ok:
  "address_ok X a \<Longrightarrow> \<exists>e. address_to_string X a = Ok e \<and> length e \<le> 255 \<and>
     put_address X a = Ok (of_nat (length e) # map of_char e)"
  by (auto simp: address_ok_def put_address_def)

text \<open>The writer as a codec, on well-formed addresses\<close>

definition the_put_address :: "ext \<Rightarrow> slatepack_address \<Rightarrow> bytes" where
  "the_put_address X a = the_Ok (put_address X a)"

definition addr_codec_ok :: "ext \<Rightarrow> (bytes \<Rightarrow> string option) \<Rightarrow> slatepack_address \<Rightarrow> bool" where
  "addr_codec_ok X u a \<longleftrightarrow> bech32_ok X u \<and> address_ok X a"

interpretation address: codec "the_put_address X" "get_address X u" "addr_codec_ok X u" for X u
proof
  fix a rest
  assume "addr_codec_ok X u a"
  then have ok: "bech32_ok X u" "address_ok X a" by (simp_all add: addr_codec_ok_def)
  obtain e where e: "address_to_string X a = Ok e" "length e \<le> 255"
    "put_address X a = Ok (of_nat (length e) # map of_char e)"
    using put_address_Ok [OF ok(2)] by blast
  have len: "unat (of_nat (length e) :: u8) = length e"
    using e(2) by (simp add: unsigned_of_nat take_bit_nat_eq_self)
  have "u (map of_char e) = Some e" using ok(1) e(1) by (auto simp: bech32_ok_def address_to_string_def)
  then show "get_address X u (the_put_address X a @ rest) = (Ok a, rest)"
    using address_string_back [OF ok e(1)] e(2)
    by (simp add: get_address_def the_put_address_def e(3) len MAX_FIXED_READ_def sret_def)
qed

end
