(* ===== verification/Exchange.thy ===== *)
theory Exchange
  imports Tx Address
begin

text \<open>
  The exchange of a slate between the parties (\<open>libwallet/src/api_impl/owner.rs\<close>, \<open>foreign.rs\<close> and
  \<open>types.rs\<close>): sending, receiving, invoicing, paying an invoice, locking and finalising. Each is
  the whole handler, with the checks that come first and the batches in their order.
\<close>

section \<open>Accounts, expiry and the state of a slate in the log\<close>

definition account_or_active :: "string option \<Rightarrow> wallet \<Rightarrow> ident" where
  "account_or_active name w = (case name of
     Some d \<Rightarrow> (case get_acct_path d w of Some p \<Rightarrow> acct_path p | None \<Rightarrow> w_parent_key_id w)
   | None \<Rightarrow> w_parent_key_id w)"

definition check_ttl :: "slate \<Rightarrow> wallet \<Rightarrow> unit result" where
  "check_ttl s w =
     (if sl_ttl_cutoff_height s \<noteq> 0 \<and> last_confirmed_height w \<ge> sl_ttl_cutoff_height s
      then Err (Txn TransactionExpired) else Ok ())"

definition ttl_checked :: "slate \<Rightarrow> unit wop" where
  "ttl_checked s = sbind (sread (check_ttl s)) slift"

text \<open>The first entry of the slate, of whatever account, is saved under the account given.\<close>

definition update_tx_slate_state :: "ext \<Rightarrow> secret_key option \<Rightarrow> ident \<Rightarrow> slate \<Rightarrow> unit wop" where
  "update_tx_slate_state X km parent_key_id s =
     sbind (sread (\<lambda>w. find (\<lambda>tx. txe_tx_slate_id tx = Some (sl_id s)) (wallet_tx_log w))) (\<lambda>tx.
     sbind (sread (\<lambda>w. length (filter (\<lambda>r. r = None) (tx_log_iter (w_db w))))) (\<lambda>bad_records.
       case tx of
         Some tx \<Rightarrow> with_batch X km (\<lambda>_.
           save_tx_log_entry (tx\<lparr>txe_tx_slate_state := Some (sl_state s)\<rparr>) parent_key_id)
       | None \<Rightarrow> sfail (Lib (Backend (''Tx log entry with slate id '' @ x_uuid_str X (sl_id s) @
           '' not found, there are '' @ nat_to_string bad_records @ '' bad tx log records'')))))"

definition post_tx :: "node \<Rightarrow> transaction \<Rightarrow> bool \<Rightarrow> unit result" where
  "post_tx N tx fluff = n_post_tx N tx fluff"

definition store_context :: "ext \<Rightarrow> secret_key option \<Rightarrow> uuid \<Rightarrow> context \<Rightarrow> unit wop" where
  "store_context X km slate_id c = with_batch X km (\<lambda>k. save_private_context X k slate_id c)"

definition drop_context :: "ext \<Rightarrow> secret_key option \<Rightarrow> uuid \<Rightarrow> unit wop" where
  "drop_context X km slate_id = with_batch X km (\<lambda>_. delete_private_context slate_id)"

section \<open>Sending\<close>

definition wrong_network :: "ext \<Rightarrow> init_tx_args \<Rightarrow> error option" where
  "wrong_network X args = (case ita_payment_proof_recipient_address args of
     None \<Rightarrow> None
   | Some a \<Rightarrow> if address_valid_network X a then None
              else Some (Txn (PaymentProofRetrieval (''Wrong network for address '' @ address_display X a))))"

text \<open>What the sender promises to be paid against: its own address and the recipient's\<close>

definition request_proof ::
  "ext \<Rightarrow> secret_key option \<Rightarrow> ident \<Rightarrow> slatepack_address option \<Rightarrow> slate \<Rightarrow> context \<Rightarrow> (slate \<times> context) wop" where
  "request_proof X km parent_key_id recipient s c = (case recipient of
     None \<Rightarrow> sret (s, c)
   | Some a \<Rightarrow>
       sbind (the_keychain X km) (\<lambda>k.
       sbind (slift (address_from_derivation_path X k parent_key_id 0)) (\<lambda>sec_addr_key.
       sbind (slift (ov3_to_ed25519 X (ov3_from_private X sec_addr_key))) (\<lambda>sender_address.
         sret (s\<lparr>sl_payment_proof := Some \<lparr>pi_sender_address = sender_address,
                  pi_receiver_address = sa_pub_key a, pi_receiver_signature = None\<rparr>\<rparr>,
               c\<lparr>ctx_payment_proof_derivation_index := Some 0\<rparr>)))))"

definition with_target_version :: "u16 option \<Rightarrow> slate \<Rightarrow> slate" where
  "with_target_version target s = (case target of
     Some v \<Rightarrow> s\<lparr>sl_version_info := (sl_version_info s)\<lparr>vci_version := v\<rparr>\<rparr> | None \<Rightarrow> s)"

definition or_false :: "bool option \<Rightarrow> bool" where
  "or_false b = (case b of Some b \<Rightarrow> b | None \<Rightarrow> False)"

definition init_send_tx ::
  "ext \<Rightarrow> node \<Rightarrow> timestamp \<Rightarrow> secret_key option \<Rightarrow> draw \<Rightarrow> uuid \<Rightarrow> init_tx_args \<Rightarrow> slate wop" where
  "init_send_tx X N now km d uuid args =
     sbind (slift (case wrong_network X args of Some e \<Rightarrow> Err e | None \<Rightarrow> Ok ())) (\<lambda>_.
     sbind (sread (account_or_active (ita_src_acct_name args))) (\<lambda>parent_key_id.
     sbind (slift (new_tx_slate X N uuid (ita_amount args) False 2 (ita_ttl_blocks args))) (\<lambda>s.
     let s = with_target_version (ita_target_slate_version args) s
     in if ita_estimate_only args = Some True then
          sbind (estimate_send_tx X N now km (ita_amount args) (or_false (ita_amount_includes_fee args))
                   (ita_minimum_confirmations args) (unat (ita_max_outputs args))
                   (unat (ita_num_change_outputs args)) (ita_selection_strategy_is_use_all args)
                   (ita_refresh_outputs_from_node args) parent_key_id) (\<lambda>(total, fee).
          sbind (slift (unwrap (x_fee_try_from X fee))) (\<lambda>ff.
            sret (s\<lparr>sl_amount := total, sl_fee_fields := ff\<rparr>)))
        else
          sbind (slift (n_chain_tip N)) (\<lambda>(height, _).
          sbind (if or_false (ita_late_lock args)
                 then create_late_lock_context X N now km d s height args parent_key_id
                 else add_inputs_to_slate X N now km d s height (ita_minimum_confirmations args)
                        (unat (ita_max_outputs args)) (unat (ita_num_change_outputs args))
                        (ita_selection_strategy_is_use_all args) (ita_refresh_outputs_from_node args)
                        parent_key_id True (or_false (ita_amount_includes_fee args))) (\<lambda>(s, c).
          sbind (request_proof X km parent_key_id (ita_payment_proof_recipient_address args) s c) (\<lambda>(s, c).
          sbind (store_context X km (sl_id s) c) (\<lambda>_. sret (compact s))))))))"

section \<open>Invoicing\<close>

definition issue_invoice_tx ::
  "ext \<Rightarrow> node \<Rightarrow> timestamp \<Rightarrow> secret_key option \<Rightarrow> draw \<Rightarrow> uuid \<Rightarrow> issue_invoice_tx_args \<Rightarrow> slate wop" where
  "issue_invoice_tx X N now km d uuid args =
     sbind (sread (account_or_active (iia_dest_acct_name args))) (\<lambda>parent_key_id.
     sbind (slift (new_tx_slate X N uuid (iia_amount args) True 2 None)) (\<lambda>s.
     sbind (slift (n_chain_tip N)) (\<lambda>(height, _).
     sbind (add_output_to_slate X now km d s height parent_key_id True) (\<lambda>(s, c).
     let s = with_target_version (iia_target_slate_version args) s
     in sbind (store_context X km (sl_id s) c) (\<lambda>_. sret (compact s))))))"

definition entries_of_slate :: "slate \<Rightarrow> ident \<Rightarrow> bool \<Rightarrow> wallet \<Rightarrow> tx_log_entry list" where
  "entries_of_slate s parent_key_id use_test_rng w =
     retrieve_txs w None (Some (sl_id s)) None (Some parent_key_id) use_test_rng"

text \<open>The first entry of the slate that forbids paying the invoice once more\<close>

fun refuse_paid :: "string \<Rightarrow> tx_log_entry list \<Rightarrow> unit result" where
  "refuse_paid i [] = Ok ()"
| "refuse_paid i (t # ts) =
     (if txe_tx_type t = TxSent then Err (Txn (TransactionAlreadyReceived i))
      else if txe_tx_type t = TxSentCancelled then Err (Txn (TransactionWasCancelled i))
      else refuse_paid i ts)"

definition merge_contexts :: "context \<Rightarrow> context \<Rightarrow> context" where
  "merge_contexts issued c = c\<lparr>ctx_initial_sec_key := ctx_initial_sec_key issued,
     ctx_initial_sec_nonce := ctx_initial_sec_nonce issued, ctx_fee := ctx_fee issued,
     ctx_amount := ctx_amount issued, ctx_output_ids := ctx_output_ids c @ ctx_output_ids issued,
     ctx_input_ids := ctx_input_ids c @ ctx_input_ids issued\<rparr>"

text \<open>\<open>attempt m\<close>: whether \<open>m\<close> returned a value; a panic is still a panic.\<close>

definition attempt :: "'a wop \<Rightarrow> 'a option wop" where
  "attempt m w = (case m w of (Ok a, w') \<Rightarrow> (Ok (Some a), w') | (Err _, w') \<Rightarrow> (Ok None, w') | (Panic, w') \<Rightarrow> (Panic, w'))"

definition process_invoice_tx ::
  "ext \<Rightarrow> node \<Rightarrow> timestamp \<Rightarrow> secret_key option \<Rightarrow> draw \<Rightarrow> slate \<Rightarrow> init_tx_args \<Rightarrow> bool \<Rightarrow> slate wop" where
  "process_invoice_tx X N now km d s args use_test_rng =
     sbind (ttl_checked s) (\<lambda>_.
     sbind (sread (account_or_active (ita_src_acct_name args))) (\<lambda>parent_key_id.
     sbind (sread (entries_of_slate s parent_key_id use_test_rng)) (\<lambda>txs.
     sbind (slift (refuse_paid (x_uuid_str X (sl_id s)) txs)) (\<lambda>_.
     sbind (slift (n_chain_tip N)) (\<lambda>(height, _).
     let r = s\<lparr>sl_ttl_cutoff_height := ttl_after height (ita_ttl_blocks args) (sl_ttl_cutoff_height s),
               sl_tx := Some (empty_transaction X)\<rparr>
     in sbind (attempt (get_private_context X km (sl_id s))) (\<lambda>issued.
        sbind (add_inputs_to_slate X N now km d r height (ita_minimum_confirmations args)
                 (unat (ita_max_outputs args)) (unat (ita_num_change_outputs args))
                 (ita_selection_strategy_is_use_all args) (ita_refresh_outputs_from_node args)
                 parent_key_id False False) (\<lambda>(r, c).
        sbind (the_keychain X km) (\<lambda>k.
        sbind (slift (adjust_offset X k (if issued \<noteq> None then c\<lparr>ctx_input_ids := [], ctx_output_ids := []\<rparr> else c) r)) (\<lambda>r.
        sbind (slift (calc_excess X r)) (\<lambda>excess.
        let c = c\<lparr>ctx_calculated_excess := Some excess\<rparr>;
            c = (case issued of Some i \<Rightarrow> merge_contexts i c | None \<Rightarrow> c)
        in sbind (repopulate_tx X km r c False) (\<lambda>r.
           sbind (store_context X km (sl_id s) c) (\<lambda>_.
           sbind (slift (remove_other_sigdata X (ctx_sec_nonce c) (ctx_sec_key c) (r\<lparr>sl_amount := 0\<rparr>))) (\<lambda>r.
             sret (r\<lparr>sl_state := Invoice2\<rparr>))))))))))))))"

section \<open>Locking\<close>

definition tx_lock_outputs :: "ext \<Rightarrow> node \<Rightarrow> timestamp \<Rightarrow> secret_key option \<Rightarrow> slate \<Rightarrow> unit wop" where
  "tx_lock_outputs X N now km s =
     sbind (get_private_context X km (sl_id s)) (\<lambda>c.
     sbind (if sl_tx s = None then repopulate_tx X km (s\<lparr>sl_tx := Some (empty_transaction X)\<rparr>) c True
            else sret s) (\<lambda>sl.
     sbind (slift (n_chain_tip N)) (\<lambda>(height, _).
       lock_tx_context X now km sl height c
         (if length (sl_participant_data s) = 1 then ctx_calculated_excess c else None))))"

section \<open>Receiving\<close>

definition FOREIGN_API_VERSION :: u16 where
  "FOREIGN_API_VERSION = 2"

datatype slate_version = SV4

record version_info =
  vi_foreign_api_version :: u16
  vi_supported_slate_versions :: "slate_version list"

definition check_version :: version_info where
  "check_version = \<lparr>vi_foreign_api_version = FOREIGN_API_VERSION, vi_supported_slate_versions = [SV4]\<rparr>"

definition foreign_build_coinbase :: "ext \<Rightarrow> secret_key option \<Rightarrow> block_fees \<Rightarrow> bool \<Rightarrow> cb_data wop" where
  "foreign_build_coinbase X km bf test_mode = build_coinbase X km bf test_mode"

definition sign_proof :: "ext \<Rightarrow> keychain \<Rightarrow> ident \<Rightarrow> slate \<Rightarrow> commitment \<Rightarrow> slate result" where
  "sign_proof X k parent_key_id s excess = (case sl_payment_proof s of
     None \<Rightarrow> Ok s
   | Some p \<Rightarrow>
       rbind (address_from_derivation_path X k parent_key_id 0) (\<lambda>key.
       rbind (create_payment_proof_signature X (sl_amount s) excess (pi_sender_address p) key) (\<lambda>sig.
         Ok (s\<lparr>sl_payment_proof := Some (p\<lparr>pi_receiver_signature := Some sig\<rparr>)\<rparr>))))"

definition receive_tx ::
  "ext \<Rightarrow> timestamp \<Rightarrow> secret_key option \<Rightarrow> draw \<Rightarrow> slate \<Rightarrow> string option \<Rightarrow> bool \<Rightarrow> slate wop" where
  "receive_tx X now km d s dest_acct_name use_test_rng =
     sbind (ttl_checked s) (\<lambda>_.
     sbind (sread (account_or_active dest_acct_name)) (\<lambda>parent_key_id.
     sbind (sread (entries_of_slate s parent_key_id use_test_rng)) (\<lambda>txs.
     if \<exists>t \<in> set txs. txe_tx_type t = TxReceived
     then sfail (Txn (TransactionAlreadyReceived (x_uuid_str X (sl_id s))))
     else
       sbind (sread (\<lambda>w. last_confirmed_height_for_parent w parent_key_id)) (\<lambda>height.
       sbind (the_keychain X km) (\<lambda>k.
       sbind (add_output_to_slate X now km d (s\<lparr>sl_tx := Some (empty_transaction X)\<rparr>) height parent_key_id False) (\<lambda>(r, c).
       sbind (slift (adjust_offset X k c r)) (\<lambda>r.
       sbind (slift (calc_excess X r)) (\<lambda>excess.
       sbind (slift (sign_proof X k parent_key_id r excess)) (\<lambda>r.
       sbind (slift (remove_other_sigdata X (ctx_sec_nonce c) (ctx_sec_key c) (r\<lparr>sl_amount := 0, sl_fee_fields := 0\<rparr>))) (\<lambda>r.
       let r = r\<lparr>sl_state := Standard2\<rparr>
       in sbind (update_tx_slate_state X km parent_key_id r) (\<lambda>_. sret r)))))))))))"

section \<open>Finalising\<close>

text \<open>A late locked transaction selects its inputs and change now, at the fee agreed before.\<close>

definition late_lock ::
  "ext \<Rightarrow> node \<Rightarrow> timestamp \<Rightarrow> secret_key option \<Rightarrow> keychain \<Rightarrow> draw \<Rightarrow> uuid \<Rightarrow> ident \<Rightarrow> slate \<Rightarrow> context \<Rightarrow> init_tx_args
    \<Rightarrow> context wop" where
  "late_lock X N now km k d uuid parent_key_id s c args =
     sbind (slift (n_chain_tip N)) (\<lambda>(current_height, _).
     sbind (slift (new_tx_slate X N uuid (ctx_amount c) False 2 (ita_ttl_blocks args))) (\<lambda>temp.
     sbind (build_send_tx X k km d temp current_height (ita_minimum_confirmations args)
              (unat (ita_max_outputs args)) (unat (ita_num_change_outputs args))
              (ita_selection_strategy_is_use_all args)
              (Some (case ctx_fee c of Some f \<Rightarrow> x_fee X f | None \<Rightarrow> 0)) parent_key_id False) (\<lambda>(_, temp_c).
     let c = c\<lparr>ctx_input_ids := ctx_input_ids temp_c, ctx_output_ids := ctx_output_ids temp_c\<rparr>
     in sbind (store_context X km (sl_id s) c) (\<lambda>_.
        sbind (tx_lock_outputs X N now km s) (\<lambda>_. sret c)))))"

definition finalize_invoice :: "ext \<Rightarrow> secret_key option \<Rightarrow> slate \<Rightarrow> context \<Rightarrow> slate wop" where
  "finalize_invoice X km s c =
     sbind (the_keychain X km) (\<lambda>k.
     sbind (slift (adjust_offset X k c s)) (\<lambda>s.
     sbind (repopulate_tx X km s (c\<lparr>ctx_sec_key := ctx_initial_sec_key c, ctx_sec_nonce := ctx_initial_sec_nonce c\<rparr>) False) (\<lambda>s.
     sbind (complete_tx X km s c) (\<lambda>s.
     sbind (update_stored_tx X km c s True) (\<lambda>_.
     sbind (drop_context X km (sl_id s)) (\<lambda>_.
     let s = s\<lparr>sl_state := Invoice3, sl_amount := 0\<rparr>
     in sbind (sread w_parent_key_id) (\<lambda>parent_key_id.
        sbind (update_tx_slate_state X km parent_key_id s) (\<lambda>_. sret s))))))))"

definition finalize_standard ::
  "ext \<Rightarrow> node \<Rightarrow> timestamp \<Rightarrow> secret_key option \<Rightarrow> draw \<Rightarrow> uuid \<Rightarrow> slate \<Rightarrow> context \<Rightarrow> slate wop" where
  "finalize_standard X N now km d uuid s c =
     sbind (the_keychain X km) (\<lambda>k.
     sbind (sread w_parent_key_id) (\<lambda>parent_key_id.
     sbind (case ctx_late_lock_args c of
         Some args \<Rightarrow> late_lock X N now km k d uuid parent_key_id s (c\<lparr>ctx_late_lock_args := None\<rparr>) args
       | None \<Rightarrow> sret c) (\<lambda>c.
     sbind (slift (adjust_offset X k c s)) (\<lambda>s.
     sbind (repopulate_tx X km s c True) (\<lambda>s.
     sbind (complete_tx X km s c) (\<lambda>s.
     sbind (verify_slate_payment_proof X km parent_key_id c s) (\<lambda>_.
     sbind (update_stored_tx X km c s False) (\<lambda>_.
     sbind (drop_context X km (sl_id s)) (\<lambda>_.
     let s = s\<lparr>sl_state := Standard3, sl_amount := 0\<rparr>
     in sbind (update_tx_slate_state X km parent_key_id s) (\<lambda>_. sret s))))))))))"

definition finalize_tx ::
  "ext \<Rightarrow> node \<Rightarrow> timestamp \<Rightarrow> secret_key option \<Rightarrow> draw \<Rightarrow> uuid \<Rightarrow> slate \<Rightarrow> bool \<Rightarrow> slate wop" where
  "finalize_tx X N now km d uuid s post_automatically =
     sbind (get_private_context X km (sl_id s)) (\<lambda>c.
     sbind (ttl_checked s) (\<lambda>_.
     sbind (if sl_state s = Invoice2 then finalize_invoice X km s c
            else if sl_state s = Standard2 then finalize_standard X N now km d uuid s c
            else sfail (Slt SlateState)) (\<lambda>sl.
     if post_automatically
     then sbind (slift (tx_or_err sl)) (\<lambda>tx. sbind (slift (post_tx N tx True)) (\<lambda>_. sret sl))
     else sret sl)))"

end
