(* ===== verification/Exchange_Props.thy ===== *)
theory Exchange_Props
  imports Exchange Tx_Props
begin

text \<open>
  The properties of the exchange: expired slates are refused before anything happens, a slate is
  received once, a finalised slate cannot be finalised again, the state of a slate is saved under
  the account given, and a late locked transaction does not take its fee out of the amount.
\<close>

section \<open>Expired slates\<close>

lemma ttl_checked_eq: "ttl_checked s w = (check_ttl s w, w)"
  by (simp add: ttl_checked_def sbind_simps slift_def)

text \<open>C22: a slate whose cutoff height the account has reached is refused: it
  is neither received, nor is its invoice paid, nor is it finalised, and the wallet stays as it was;
  with no cutoff height or an earlier confirmed height, receiving goes on.\<close>

theorem expired_slates_are_refused:
  "if sl_ttl_cutoff_height s \<noteq> 0 \<and> sl_ttl_cutoff_height s \<le> last_confirmed_height w then
     receive_tx X now km d s dest rng w = (Err (Txn TransactionExpired), w) \<and>
     process_invoice_tx X N now km d s args rng w = (Err (Txn TransactionExpired), w) \<and>
     snd (finalize_tx X N now km d uuid s post w) = w \<and>
     (\<forall>c. get_private_context X km (sl_id s) w = (Ok c, w) \<longrightarrow>
        fst (finalize_tx X N now km d uuid s post w) = Err (Txn TransactionExpired))
   else check_ttl s w = Ok ()"
proof -
  have state: "get_private_context X km i w = (r, w') \<Longrightarrow> w' = w" for i r w'
    by (auto simp: get_private_context_def sbind_def the_keychain_def slift_def sread_def sret_def
        split: prod.splits res.splits)
  obtain r where r: "get_private_context X km (sl_id s) w = (r, w)"
    using state by (cases "get_private_context X km (sl_id s) w") auto
  have fin: "finalize_tx X N now km d uuid s post w =
      (case r of Ok c \<Rightarrow> (Err (Txn TransactionExpired), w) | Err e \<Rightarrow> (Err e, w) | Panic \<Rightarrow> (Panic, w))"
    if "check_ttl s w = Err (Txn TransactionExpired)"
    using that by (cases r) (simp_all add: finalize_tx_def sbind_def r ttl_checked_eq)
  show ?thesis
  proof (cases "sl_ttl_cutoff_height s \<noteq> 0 \<and> sl_ttl_cutoff_height s \<le> last_confirmed_height w")
    case True
    then have e: "check_ttl s w = Err (Txn TransactionExpired)" by (simp add: check_ttl_def)
    then have m: "sbind (ttl_checked s) f w = (Err (Txn TransactionExpired), w)" for f :: "unit \<Rightarrow> slate wop"
      by (simp add: sbind_def ttl_checked_eq)
    have "snd (finalize_tx X N now km d uuid s post w) = w" using fin [OF e] by (cases r) simp_all
    moreover have "get_private_context X km (sl_id s) w = (Ok c, w) \<Longrightarrow>
        fst (finalize_tx X N now km d uuid s post w) = Err (Txn TransactionExpired)" for c
      using fin [OF e] by (simp add: r)
    ultimately show ?thesis using True m by (auto simp: receive_tx_def process_invoice_tx_def)
  next
    case False
    then show ?thesis by (auto simp: check_ttl_def)
  qed
qed

theorem expired_slates_are_refused_witness:
  "receive_tx sample_ext 0 None \<lparr>dr_key = [], dr_nonce = []\<rparr>
     ((slate_blank sample_ext [7] 2 False)\<lparr>sl_ttl_cutoff_height := 3\<rparr>) None False
     (locked_wallet\<lparr>w_db := (w_db locked_wallet)\<lparr>db_confirmed := [(w_parent_key_id sample_wallet, 3)]\<rparr>\<rparr>) =
   (Err (Txn TransactionExpired), locked_wallet\<lparr>w_db := (w_db locked_wallet)\<lparr>db_confirmed := [(w_parent_key_id sample_wallet, 3)]\<rparr>\<rparr>)"
proof -
  have "last_confirmed_height (locked_wallet\<lparr>w_db := (w_db locked_wallet)\<lparr>db_confirmed := [(w_parent_key_id sample_wallet, 3)]\<rparr>\<rparr>) = 3"
    by code_simp
  then show ?thesis
    using expired_slates_are_refused [where s = "(slate_blank sample_ext [7] 2 False)\<lparr>sl_ttl_cutoff_height := 3\<rparr>" and X = sample_ext
        and w = "locked_wallet\<lparr>w_db := (w_db locked_wallet)\<lparr>db_confirmed := [(w_parent_key_id sample_wallet, 3)]\<rparr>\<rparr>"]
    by simp
qed

section \<open>The state of a slate in the log\<close>

lemma update_tx_slate_state_Ok:
  "update_tx_slate_state X km p s w = (Ok u, w') \<longleftrightarrow>
     (\<exists>tx k. find (\<lambda>tx. txe_tx_slate_id tx = Some (sl_id s)) (wallet_tx_log w) = Some tx \<and>
        wallet_keychain X km w = Ok k \<and>
        w' = w\<lparr>w_db := (w_db w)\<lparr>db_tx_log := tbl_put (to_key_u64 p (ucast (txe_id tx)))
               (Some (tx\<lparr>txe_tx_slate_state := Some (sl_state s)\<rparr>)) (db_tx_log (w_db w))\<rparr>\<rparr>)"
  by (auto simp: update_tx_slate_state_def sbind_simps with_batch_Ok save_tx_log_entry_eq sfail_def
      split: option.splits)

text \<open>The state of a slate is saved on the first entry that the log
  has for the slate, of whatever account, and under the account given: when that entry is another
  account's, as in a payment between two accounts of one wallet, it replaces the entry that the
  given account had under the same number, whatever transaction that was, and the entry it was
  meant for keeps its old state.\<close>

theorem slate_state_overwrites_other_account:
  assumes "update_tx_slate_state X km p s w = (Ok u, w')" "w_wf w"
    and "find (\<lambda>tx. txe_tx_slate_id tx = Some (sl_id s)) (wallet_tx_log w) = Some tx"
  shows "tbl_get (db_tx_log (w_db w')) (to_key_u64 p (ucast (txe_id tx))) =
      Some (Some (tx\<lparr>txe_tx_slate_state := Some (sl_state s)\<rparr>)) \<and>
    (\<forall>k. k \<noteq> to_key_u64 p (ucast (txe_id tx)) \<longrightarrow> tbl_get (db_tx_log (w_db w')) k = tbl_get (db_tx_log (w_db w)) k) \<and>
    (\<forall>t. tbl_get (db_tx_log (w_db w)) (to_key_u64 p (ucast (txe_id tx))) = Some (Some t) \<longrightarrow>
       t\<lparr>txe_tx_slate_state := None\<rparr> \<noteq> tx\<lparr>txe_tx_slate_state := None\<rparr> \<longrightarrow>
       (\<forall>k. k \<noteq> to_key_u64 p (ucast (txe_id tx)) \<longrightarrow> tbl_get (db_tx_log (w_db w)) k \<noteq> Some (Some t)) \<longrightarrow>
       t \<notin> set (wallet_tx_log w'))"
proof -
  let ?k = "to_key_u64 p (ucast (txe_id tx))" and ?t = "tx\<lparr>txe_tx_slate_state := Some (sl_state s)\<rparr>"
  have w': "w' = w\<lparr>w_db := (w_db w)\<lparr>db_tx_log := tbl_put ?k (Some ?t) (db_tx_log (w_db w))\<rparr>\<rparr>"
    using assms(1,3) by (auto simp: update_tx_slate_state_Ok)
  have wf': "w_wf w'" using assms(2) by (simp add: w' w_wf_def db_wf_def tbl_simps)
  have g: "tbl_get (db_tx_log (w_db w')) k = (if k = ?k then Some (Some ?t) else tbl_get (db_tx_log (w_db w)) k)" for k
    by (simp add: w' tbl_get_put)
  have "\<exists>k. k \<noteq> ?k \<and> tbl_get (db_tx_log (w_db w)) k = Some (Some t)"
    if ne: "t\<lparr>txe_tx_slate_state := None\<rparr> \<noteq> tx\<lparr>txe_tx_slate_state := None\<rparr>" and mem: "t \<in> set (wallet_tx_log w')" for t
  proof -
    obtain k where k: "tbl_get (db_tx_log (w_db w')) k = Some (Some t)" using mem wallet_tx_log_iff [OF wf'] by blast
    have "t \<noteq> ?t" using ne by auto
    with k show ?thesis by (auto simp: g split: if_splits)
  qed
  then show ?thesis using g by auto
qed

text \<open>Account \<open>[9, 1]\<close> pays account \<open>[9, 2]\<close>: both have an entry number 0 for the slate.\<close>

definition self_send_wallet :: wallet where
  "self_send_wallet = sample_wallet\<lparr>w_db := db_empty\<lparr>db_tx_log :=
     [(to_key_u64 [9, 1] 0, Some ((tx_log_entry_new 0 [9, 1] TxSent 0)\<lparr>txe_tx_slate_id := Some [7]\<rparr>)),
      (to_key_u64 [9, 2] 0, Some ((tx_log_entry_new 0 [9, 2] TxReceived 0)\<lparr>txe_tx_slate_id := Some [7]\<rparr>))]\<rparr>\<rparr>"

theorem slate_state_overwrites_other_account_witness:
  "\<exists>w'. update_tx_slate_state sample_ext None [9, 2] ((slate_blank sample_ext [7] 2 False)\<lparr>sl_state := Standard2\<rparr>) self_send_wallet
       = (Ok (), w') \<and>
     (\<exists>t. tbl_get (db_tx_log (w_db w')) (to_key_u64 [9, 2] 0) = Some (Some t) \<and> txe_tx_type t = TxSent \<and>
        txe_parent_key_id t = [9, 1])"
proof -
  let ?s = "(slate_blank sample_ext [7] 2 False)\<lparr>sl_state := Standard2\<rparr>"
  let ?c = "update_tx_slate_state sample_ext None [9, 2] ?s"
  have "is_Ok (fst (?c self_send_wallet))" by code_simp
  then obtain u where "?c self_send_wallet = (Ok u, snd (?c self_send_wallet))" by (rule is_Ok_run [elim_format]) blast
  then have ok: "?c self_send_wallet = (Ok (), snd (?c self_send_wallet))" by simp
  have wf: "w_wf self_send_wallet" unfolding w_wf_def db_wf_def tbl_wf_def by code_simp
  let ?tx = "(tx_log_entry_new 0 [9, 1] TxSent 0)\<lparr>txe_tx_slate_id := Some [7]\<rparr>"
  have f: "find (\<lambda>tx. txe_tx_slate_id tx = Some (sl_id ?s)) (wallet_tx_log self_send_wallet) = Some ?tx"
    by code_simp
  have "tbl_get (db_tx_log (w_db (snd (?c self_send_wallet)))) (to_key_u64 [9, 2] (ucast (txe_id ?tx))) =
      Some (Some (?tx\<lparr>txe_tx_slate_state := Some (sl_state ?s)\<rparr>))"
    by (rule slate_state_overwrites_other_account [OF ok wf f, THEN conjunct1])
  moreover have "txe_id ?tx = 0" "txe_tx_type ?tx = TxSent" "txe_parent_key_id ?tx = [9, 1]"
    by (simp_all add: tx_log_entry_new_def)
  ultimately show ?thesis using ok by (intro exI [of _ "snd (?c self_send_wallet)"] conjI exI [of _ "?tx\<lparr>txe_tx_slate_state := Some (sl_state ?s)\<rparr>"]) auto
qed

section \<open>Receiving once\<close>

text \<open>The accounts and the active one are untouched by receiving.\<close>

definition accts_are :: "acct_path_mapping table \<Rightarrow> ident \<Rightarrow> wallet \<Rightarrow> bool" where
  "accts_are A q w \<longleftrightarrow> db_accts (w_db w) = A \<and> w_parent_key_id w = q"

lemma keeps_accts_batch:
  "keeps (\<lambda>d. db_accts d = A) (batch_save out)" "keeps (\<lambda>d. db_accts d = A) (next_tx_log_id i)"
  "keeps (\<lambda>d. db_accts d = A) (save_tx_log_entry t i)" "keeps (\<lambda>d. db_accts d = A) (save_child_index i j)"
  by (simp_all add: keeps_def batch_save_eq next_tx_log_id_eq save_tx_log_entry_eq save_child_index_def smodify_def)

lemma keeps_accts_with_batch:
  "(\<And>k. keeps (\<lambda>d. db_accts d = A) (b k)) \<Longrightarrow> keeps (accts_are A q) (with_batch X km b)"
  by (auto simp: keeps_def accts_are_def with_batch_def sbind_def the_keychain_def run_batch_def
      split: prod.splits res.splits) (metis snd_conv)+

lemma keeps_smust [keeps_intros]: "keeps P m \<Longrightarrow> keeps P (smust m)"
  by (auto simp: keeps_def smust_def split: prod.splits res.splits)

lemma keeps_calc_commit [keeps_intros]: "keeps P (calc_commit_for_cache X km a i)"
  unfolding calc_commit_for_cache_def by (intro keeps_intros)

lemma keeps_accts_receive:
  "keeps (accts_are A q) (add_output_to_slate X now km d s h p b)"
  unfolding add_output_to_slate_def build_recipient_output_def next_available_key_def next_child_def Let_def split_def
  by (auto intro!: keeps_intros keeps_accts_with_batch keeps_accts_batch simp: if_split)

text \<open>The one entry of the slate that the log has after adding the recipient's output\<close>

lemma add_output_entry:
  assumes "add_output_to_slate X now km d s h p False w = (Ok (s', c), w')" "w_wf w"
    and "\<forall>t \<in> set (wallet_tx_log w). txe_tx_slate_id t \<noteq> Some i" "sl_id s = i"
  obtains t where "tbl_get (db_tx_log (w_db w')) (to_key_u64 p (ucast (txe_id t))) = Some (Some t)"
    "txe_tx_type t = TxReceived" "txe_tx_slate_id t = Some i" "txe_parent_key_id t = p" "\<not> txe_confirmed t"
    "\<forall>t' \<in> set (wallet_tx_log w'). txe_tx_slate_id t' = Some i \<longrightarrow> t' = t" "w_wf w'" "sl_id s' = i"
proof -
  obtain s1 key c1 t w1 s2 e where
    1: "build_recipient_output X now km d s h p w = (Ok (s1, key, c1, t), w1)"
    and 2: "fill_round_1 X c1 s1 = Ok s2" "fill_round_2 X (ctx_sec_key c) (ctx_sec_nonce c) s2 = Ok s'"
    and 3: "w' = w1\<lparr>w_db := snd (save_tx_log_entry (t\<lparr>txe_kernel_excess := Some e\<rparr>) p (w_db w1))\<rparr>"
    using assms(1)
    by (auto simp: add_output_to_slate_def sbind_eq_Ok comp_eq_Ok the_keychain_def Let_def with_batch_Ok save_tx_log_entry_eq)
  define l where "l = current_tx_log_id (w_db w) p"
  have t: "db_tx_log (w_db w1) = tbl_put (to_key_u64 p (ucast l)) (Some t) (db_tx_log (w_db w))"
    "txe_id t = l" "txe_tx_type t = TxReceived" "txe_tx_slate_id t = Some i" "txe_parent_key_id t = p" "\<not> txe_confirmed t"
    "w_wf w1" and s1: "\<exists>tx. s1 = s\<lparr>sl_tx := Some tx\<rparr>"
    using received_effect [OF 1 assms(2)] by (simp_all add: Let_def l_def assms(4))
  let ?t = "t\<lparr>txe_kernel_excess := Some e\<rparr>"
  have wf: "w_wf w'" using t(7) by (simp add: 3 w_wf_def save_tx_log_entry_eq db_wf_def tbl_simps)
  have g: "tbl_get (db_tx_log (w_db w')) k = (if k = to_key_u64 p (ucast l) then Some (Some ?t) else tbl_get (db_tx_log (w_db w)) k)" for k
    by (simp add: 3 save_tx_log_entry_eq t(1,2) tbl_get_put)
  have only: "t' = ?t" if t': "t' \<in> set (wallet_tx_log w')" "txe_tx_slate_id t' = Some i" for t'
  proof -
    obtain k where k: "tbl_get (db_tx_log (w_db w')) k = Some (Some t')" using t'(1) wallet_tx_log_iff [OF wf] by blast
    have "t' \<notin> set (wallet_tx_log w)" using assms(3) t'(2) by blast
    then have "k = to_key_u64 p (ucast l)" using k wallet_tx_log_iff [OF assms(2)] by (metis g)
    then show ?thesis using k by (simp add: g)
  qed
  have "sl_id s' = i"
    using 2 s1 by (auto simp: fill_round_1_def add_participant_info_def fill_round_2_def res_simps assms(4))
  then show ?thesis using that [of ?t] g t only wf by auto
qed

text \<open>C21: a slate the wallet did not know before is received once: after it was
  received, receiving it again into the same account fails, because it was received already or
  because it has expired meanwhile, and leaves the wallet as it is, so that a sender cannot make
  the recipient record a payment twice.\<close>

theorem received_once:
  assumes "receive_tx X now km d s dest rng w = (Ok r, w1)" "w_wf w"
    and "\<forall>t \<in> set (wallet_tx_log w). txe_tx_slate_id t \<noteq> Some (sl_id s)"
  shows "\<exists>e. receive_tx X now' km' d' s dest rng' w1 = (Err e, w1) \<and>
     e \<in> {Txn TransactionExpired, Txn (TransactionAlreadyReceived (x_uuid_str X (sl_id s)))}"
proof -
  define p where "p = account_or_active dest w"
  obtain h k s2 s3 s4 s5 c w2 e where
    add: "add_output_to_slate X now km d (s\<lparr>sl_tx := Some (empty_transaction X)\<rparr>) h p False w = (Ok (s2, c), w2)"
    and s: "adjust_offset X k c s2 = Ok s3" "sign_proof X k p s3 e = Ok s4"
      "remove_other_sigdata X (ctx_sec_nonce c) (ctx_sec_key c) (s4\<lparr>sl_amount := 0, sl_fee_fields := 0\<rparr>) = Ok s5"
    and upd: "update_tx_slate_state X km p (s5\<lparr>sl_state := Standard2\<rparr>) w2 = (Ok (), w1)"
    using assms(1)
    by (auto simp: receive_tx_def sbind_eq_Ok comp_eq_Ok the_keychain_def Let_def p_def sfail_def ttl_checked_eq
        split: if_splits)
  define r2 where "r2 = s5\<lparr>sl_state := Standard2\<rparr>"
  have r2: "sl_id r2 = sl_id s2" "update_tx_slate_state X km p r2 w2 = (Ok (), w1)"
    using s upd by (auto simp: adjust_offset_def sign_proof_def remove_other_sigdata_def res_simps r2_def split: option.splits)
  obtain t where t: "tbl_get (db_tx_log (w_db w2)) (to_key_u64 p (ucast (txe_id t))) = Some (Some t)"
    "txe_tx_type t = TxReceived" "txe_tx_slate_id t = Some (sl_id s)" "txe_parent_key_id t = p" "\<not> txe_confirmed t"
    "\<forall>t' \<in> set (wallet_tx_log w2). txe_tx_slate_id t' = Some (sl_id s) \<longrightarrow> t' = t" "w_wf w2" "sl_id s2 = sl_id s"
    by (rule add_output_entry [OF add assms(2,3)]) simp_all
  obtain tx where tx: "find (\<lambda>tx. txe_tx_slate_id tx = Some (sl_id r2)) (wallet_tx_log w2) = Some tx"
    and w1: "w1 = w2\<lparr>w_db := (w_db w2)\<lparr>db_tx_log := tbl_put (to_key_u64 p (ucast (txe_id tx)))
               (Some (tx\<lparr>txe_tx_slate_state := Some (sl_state r2)\<rparr>)) (db_tx_log (w_db w2))\<rparr>\<rparr>"
    using r2(2) by (auto simp: update_tx_slate_state_Ok)
  have "tx = t" using find_SomeD [OF tx] t(6) r2(1) t(8) by simp
  then have "tbl_get (db_tx_log (w_db w1)) (to_key_u64 p (ucast (txe_id t))) =
      Some (Some (t\<lparr>txe_tx_slate_state := Some (sl_state r2)\<rparr>))"
    by (simp add: w1 tbl_get_put)
  moreover have "w_wf w1" using t(7) by (simp add: w1 w_wf_def db_wf_def tbl_simps)
  ultimately have mem: "t\<lparr>txe_tx_slate_state := Some (sl_state r2)\<rparr> \<in> set (wallet_tx_log w1)"
    using wallet_tx_log_iff by blast
  have "accts_are (db_accts (w_db w)) (w_parent_key_id w) w2"
    by (rule keepsD [OF keeps_accts_receive _ add]) (simp add: accts_are_def)
  then have p1: "account_or_active dest w1 = p"
    by (simp add: p_def account_or_active_def w1 get_acct_path_def accts_are_def split: option.split)
  have "t\<lparr>txe_tx_slate_state := Some (sl_state r2)\<rparr> \<in> set (entries_of_slate s p rng' w1)"
    using mem t by (auto simp: entries_of_slate_def retrieve_txs_def bound_def outstanding_def)
  then have "\<exists>t \<in> set (entries_of_slate s p rng' w1). txe_tx_type t = TxReceived"
    using t(2) by (intro bexI [of _ "t\<lparr>txe_tx_slate_state := Some (sl_state r2)\<rparr>"]) simp_all
  then show ?thesis
    by (cases "check_ttl s w1")
       (auto simp: receive_tx_def sbind_def ttl_checked_eq sread_def p1 sfail_def check_ttl_def split: if_splits)
qed

definition incoming_slate :: slate where
  "incoming_slate = (slate_blank sample_ext [7] 2 False)\<lparr>sl_amount := 100, sl_fee_fields := 40, sl_participant_data :=
     [\<lparr>pd_public_blind_excess = 2 # replicate 32 9, pd_public_nonce = 2 # replicate 32 9, pd_part_sig = None\<rparr>]\<rparr>"

definition sample_draw :: draw where
  "sample_draw = \<lparr>dr_key = replicate 32 3, dr_nonce = replicate 32 4\<rparr>"

theorem received_once_witness:
  "\<exists>r w1 e. receive_tx sample_ext 0 None sample_draw incoming_slate None False locked_wallet = (Ok r, w1) \<and>
     receive_tx sample_ext 1 None sample_draw incoming_slate None False w1 = (Err e, w1)"
proof -
  let ?c = "receive_tx sample_ext 0 None sample_draw incoming_slate None False"
  have "is_Ok (fst (?c locked_wallet))" by code_simp
  then obtain r where ok: "?c locked_wallet = (Ok r, snd (?c locked_wallet))" by (rule is_Ok_run [elim_format]) blast
  have "\<forall>t \<in> set (wallet_tx_log locked_wallet). txe_tx_slate_id t \<noteq> Some (sl_id incoming_slate)" by code_simp
  then show ?thesis using received_once [OF ok locked_wallet_wf] ok by blast
qed

end
