(* ===== verification/Final_Props.thy ===== *)
theory Final_Props
  imports Exchange_Props
begin

text \<open>
  What finalising a slate leaves behind (finalize_tx of api_impl/owner.rs and of
  api_impl/foreign.rs): the transaction was checked and is kept in the slate's file, and the
  private context that held the secrets of the signature is gone.
\<close>

section \<open>Finalising\<close>

lemma finalize_transaction_Ok:
  assumes "finalize_transaction X sig s = Ok s'"
  shows "sl_id s' = sl_id s \<and> (\<exists>tx k ks. sl_tx s' = Some tx \<and> t_kernels tx = k # ks \<and>
    x_kernel_verify X k = Ok () \<and> x_tx_validate X tx = Ok ())"
proof -
  obtain tx e where 1: "(case t_kernels tx of [kern] \<Rightarrow>
      (let final_tx = x_replace_kernel X tx (kern\<lparr>k_excess := e, k_excess_sig := sig\<rparr>) in
         case t_kernels final_tx of [] \<Rightarrow> Panic
         | k0 # _ \<Rightarrow> rbind (x_kernel_verify X k0) (\<lambda>_. rbind (x_tx_validate X final_tx) (\<lambda>_. Ok (s\<lparr>sl_tx := Some final_tx\<rparr>))))
      | _ \<Rightarrow> Panic) = Ok s'"
    using assms unfolding finalize_transaction_def rbind_eq_Ok by blast
  obtain kern where kern: "t_kernels tx = [kern]"
    using 1 by (cases "t_kernels tx"; cases "tl (t_kernels tx)") auto
  define f where "f = x_replace_kernel X tx (kern\<lparr>k_excess := e, k_excess_sig := sig\<rparr>)"
  show ?thesis
    using 1 kern by (cases "t_kernels f") (auto simp: f_def [symmetric] Let_def res_simps)
qed

lemma complete_tx_Ok:
  assumes "complete_tx X km s c w = (Ok s', w')"
  shows "w' = w \<and> sl_id s' = sl_id s \<and> (\<exists>tx k ks. sl_tx s' = Some tx \<and> t_kernels tx = k # ks \<and>
    x_kernel_verify X k = Ok () \<and> x_tx_validate X tx = Ok ())"
proof -
  obtain s2 where s2: "fill_round_2 X (fst (completing_keys c)) (snd (completing_keys c)) s = Ok s2"
    "finalize X s2 = Ok s'" "w' = w"
    using assms by (auto simp: complete_tx_def split_def Let_def sbind_eq_Ok comp_eq_Ok the_keychain_def)
  have "sl_id s2 = sl_id s" using s2(1) by (auto simp: fill_round_2_def res_simps)
  then show ?thesis
    using s2(2,3) by (auto simp: finalize_def res_simps dest!: finalize_transaction_Ok)
qed

lemma repopulate_tx_Ok: "repopulate_tx X km s c f w = (Ok s', w') \<Longrightarrow> w' = w \<and> sl_id s' = sl_id s"
  by (auto simp: repopulate_tx_def sbind_eq_Ok comp_eq_Ok the_keychain_def Let_def add_participant_info_def
      res_simps tx_or_err_def split: if_splits dest!: add_transaction_elements_Ok)

lemma verify_slate_payment_proof_state: "verify_slate_payment_proof X km p c s w = (r, w') \<Longrightarrow> w' = w"
  by (auto simp: verify_slate_payment_proof_def sbind_def sread_def sfail_def sret_def slift_def the_keychain_def
      Let_def split: list.splits if_splits option.splits prod.splits res.splits)

lemma update_stored_tx_Ok:
  assumes "update_stored_tx X km c s b w = (Ok u, w')"
  obtains tx where "sl_tx s = Some tx" "w_files w' (grintx (x_uuid_str X (sl_id s))) = Some (x_tx_to_hex X tx)"
proof -
  obtain t where t: "find (is_finalised_entry b) (retrieve_txs w None (Some (sl_id s)) None None False) = Some t"
    using assms by (auto simp: update_stored_tx_def sbind_eq_Ok comp_eq_Ok ok_or_eq_Ok)
  have "set (retrieve_txs w None (Some (sl_id s)) None None False) \<subseteq> {t. txe_tx_slate_id t = Some (sl_id s)}"
    by (auto simp: retrieve_txs_def bound_def)
  then have "txe_tx_slate_id t = Some (sl_id s)" using find_SomeD [OF t] by blast
  then show ?thesis
    using assms that
    by (auto simp: update_stored_tx_def sbind_eq_Ok comp_eq_Ok ok_or_eq_Ok t Let_def the_keychain_def store_tx_def
        tx_or_err_def with_batch_Ok)
qed

lemma drop_context_Ok: "drop_context X km i w = (Ok u, w') \<Longrightarrow>
    w_files w' = w_files w \<and> db_contexts (w_db w') = tbl_del (to_key_u64 i 0) (db_contexts (w_db w))"
  by (auto simp: drop_context_def with_batch_Ok delete_private_context_def smodify_def)

lemma update_state_frame: "update_tx_slate_state X km p s w = (Ok u, w') \<Longrightarrow>
    w_files w' = w_files w \<and> db_contexts (w_db w') = db_contexts (w_db w)"
  by (auto simp: update_tx_slate_state_Ok)

text \<open>What both ways of finalising end with\<close>

definition finished :: "ext \<Rightarrow> uuid \<Rightarrow> slate \<Rightarrow> wallet \<Rightarrow> wallet \<Rightarrow> bool" where
  "finished X i r w w1 \<longleftrightarrow> sl_id r = i \<and> sl_amount r = 0 \<and>
     (\<exists>tx k ks. sl_tx r = Some tx \<and> t_kernels tx = k # ks \<and> x_kernel_verify X k = Ok () \<and> x_tx_validate X tx = Ok () \<and>
        w_files w1 (grintx (x_uuid_str X i)) = Some (x_tx_to_hex X tx)) \<and>
     (\<exists>t. db_contexts (w_db w1) = tbl_del (to_key_u64 i 0) t \<and> (db_wf (w_db w) \<longrightarrow> tbl_wf t))"

lemma finishedI:
  assumes "complete_tx X km s1 c1 wa = (Ok s2, wa)" "update_stored_tx X km c2 s2 b wa = (Ok (), wb)"
    and "drop_context X km (sl_id s2) wb = (Ok (), wc)" "update_tx_slate_state X km p (s2\<lparr>sl_state := st, sl_amount := 0\<rparr>) wc = (Ok (), w1)"
    and "sl_id s1 = i" "db_wf (w_db w) \<Longrightarrow> w_wf wa"
  shows "finished X i (s2\<lparr>sl_state := st, sl_amount := 0\<rparr>) w w1"
proof -
  note c = complete_tx_Ok [OF assms(1)]
  obtain tx where tx: "sl_tx s2 = Some tx" "w_files wb (grintx (x_uuid_str X (sl_id s2))) = Some (x_tx_to_hex X tx)"
    by (rule update_stored_tx_Ok [OF assms(2)])
  have ctx: "db_contexts (w_db wb) = db_contexts (w_db wa)"
    using assms(2) by (auto simp: update_stored_tx_def sbind_eq_Ok comp_eq_Ok Let_def the_keychain_def store_tx_def
        with_batch_Ok save_tx_log_entry_eq)
  show ?thesis
    unfolding finished_def
    using c tx ctx assms(5,6) drop_context_Ok [OF assms(3)] update_state_frame [OF assms(4)]
    by (auto simp: w_wf_def db_wf_def)
qed

text \<open>Locking late keeps the tables well formed.\<close>

lemma keeps_lock [keeps_intros]: "keeps w_wf (lock_tx_context X now km s h c ov)"
  unfolding lock_tx_context_def cached_outputs_def lock_inputs_def save_change_def split_def
  by (intro keeps_intros)

lemma keeps_next_child_map [keeps_intros]: "keeps w_wf (inputs_and_change X coins km a f n b)"
  unfolding inputs_and_change_def Let_def split_def by (auto intro!: keeps_intros simp: if_split)

lemma keeps_build_send_tx [keeps_intros]: "keeps w_wf (build_send_tx X k km d s h mc mo co all ff p incl)"
  unfolding build_send_tx_def select_send_tx_def Let_def split_def by (auto intro!: keeps_intros simp: if_split)

lemma keeps_repopulate [keeps_intros]: "keeps P (repopulate_tx X km s c f)"
  unfolding repopulate_tx_def Let_def split_def by (intro keeps_intros)

lemma keeps_get_context [keeps_intros]: "keeps P (get_private_context X km i)"
  unfolding get_private_context_def by (intro keeps_intros)

lemma keeps_if [keeps_intros]: "(b \<Longrightarrow> keeps P m) \<Longrightarrow> (\<not> b \<Longrightarrow> keeps P n) \<Longrightarrow> keeps P (if b then m else n)"
  by simp

lemma keeps_store_context [keeps_intros]: "keeps w_wf (store_context X km i c)"
  unfolding store_context_def by (intro keeps_intros)

lemma keeps_late_lock [keeps_intros]: "keeps w_wf (late_lock X N now km k d uuid p s c args)"
  unfolding late_lock_def tx_lock_outputs_def Let_def split_def by (intro keeps_intros)

lemma finalize_invoice_Ok:
  assumes "finalize_invoice X km s c w = (Ok r, w1)"
  shows "finished X (sl_id s) r w w1 \<and> sl_state r = Invoice3"
proof -
  obtain k s0 s1 s2 wa w0 wb wc where
    0: "adjust_offset X k c s = Ok s0"
    and 1: "repopulate_tx X km s0 (c\<lparr>ctx_sec_key := ctx_initial_sec_key c, ctx_sec_nonce := ctx_initial_sec_nonce c\<rparr>) False w = (Ok s1, w0)"
    and 2: "complete_tx X km s1 c w0 = (Ok s2, wa)"
    and 3: "update_stored_tx X km c s2 True wa = (Ok (), wb)" "drop_context X km (sl_id s2) wb = (Ok (), wc)"
    and 4: "update_tx_slate_state X km (w_parent_key_id wc) (s2\<lparr>sl_state := Invoice3, sl_amount := 0\<rparr>) wc = (Ok (), w1)"
    and r: "r = s2\<lparr>sl_state := Invoice3, sl_amount := 0\<rparr>"
    using assms by (auto simp: finalize_invoice_def sbind_eq_Ok comp_eq_Ok Let_def the_keychain_def)
  have w: "w0 = w" "wa = w" using repopulate_tx_Ok [OF 1] complete_tx_Ok [OF 2] by simp_all
  have "sl_id s0 = sl_id s" using 0 by (auto simp: adjust_offset_def res_simps)
  then show ?thesis
    using finishedI [OF 2 [unfolded w] 3 [unfolded w] 4] repopulate_tx_Ok [OF 1] by (simp add: r w_wf_def)
qed

lemma finalize_standard_Ok:
  assumes "finalize_standard X N now km d uuid s c w = (Ok r, w1)"
  shows "finished X (sl_id s) r w w1 \<and> sl_state r = Standard3"
proof -
  obtain k c1 wa s0 s1 s2 w0 v v' u wb wc where
    l: "(case ctx_late_lock_args c of
         Some args \<Rightarrow> late_lock X N now km k d uuid (w_parent_key_id w) s (c\<lparr>ctx_late_lock_args := None\<rparr>) args
       | None \<Rightarrow> sret c) w = (Ok c1, wa)"
    and 0: "adjust_offset X k c1 s = Ok s0"
    and 1: "repopulate_tx X km s0 c1 True wa = (Ok s1, w0)"
    and 2: "complete_tx X km s1 c1 w0 = (Ok s2, v)"
    and p: "verify_slate_payment_proof X km (w_parent_key_id w) c1 s2 v = (Ok u, v')"
    and 3: "update_stored_tx X km c1 s2 False v' = (Ok (), wb)" "drop_context X km (sl_id s2) wb = (Ok (), wc)"
    and 4: "update_tx_slate_state X km (w_parent_key_id w) (s2\<lparr>sl_state := Standard3, sl_amount := 0\<rparr>) wc = (Ok (), w1)"
    and r: "r = s2\<lparr>sl_state := Standard3, sl_amount := 0\<rparr>"
    using assms by (auto simp: finalize_standard_def sbind_eq_Ok comp_eq_Ok Let_def the_keychain_def)
  have w: "w0 = wa" "v = wa" "v' = wa"
    using repopulate_tx_Ok [OF 1] complete_tx_Ok [OF 2] verify_slate_payment_proof_state [OF p] by simp_all
  have "sl_id s0 = sl_id s" using 0 by (auto simp: adjust_offset_def res_simps)
  moreover have k: "keeps w_wf (case ctx_late_lock_args c of
         Some args \<Rightarrow> late_lock X N now km k d uuid (w_parent_key_id w) s (c\<lparr>ctx_late_lock_args := None\<rparr>) args
       | None \<Rightarrow> sret c)"
    by (cases "ctx_late_lock_args c") (auto intro: keeps_intros)
  have "w_wf w \<Longrightarrow> w_wf wa" by (rule keepsD [OF k _ l])
  ultimately show ?thesis
    using finishedI [OF 2 [unfolded w] 3 [unfolded w] 4] repopulate_tx_Ok [OF 1] by (simp add: r w_wf_def)
qed

lemma finalize_tx_Ok:
  assumes "finalize_tx X N now km d uuid s post w = (Ok r, w1)"
  shows "finished X (sl_id s) r w w1 \<and>
    (sl_state s = Invoice2 \<and> sl_state r = Invoice3 \<or> sl_state s = Standard2 \<and> sl_state r = Standard3) \<and>
    (post \<longrightarrow> (\<exists>tx. sl_tx r = Some tx \<and> n_post_tx N tx True = Ok ()))"
proof -
  obtain c where c: "(if sl_state s = Invoice2 then finalize_invoice X km s c
            else if sl_state s = Standard2 then finalize_standard X N now km d uuid s c
            else sfail (Slt SlateState)) w = (Ok r, w1)"
    "post \<longrightarrow> (\<exists>tx. sl_tx r = Some tx \<and> n_post_tx N tx True = Ok ())"
    using assms
    by (auto simp: finalize_tx_def sbind_eq_Ok comp_eq_Ok get_private_context_def the_keychain_def ttl_checked_eq
        post_tx_def tx_or_err_def ok_or_eq_Ok split: if_splits)
  then show ?thesis
    by (auto simp: sfail_def split: if_splits dest: finalize_invoice_Ok finalize_standard_Ok)
qed

text \<open>C19: a slate is finalised only from the second state of its kind, to
  the third; the transaction it then holds has a kernel whose signature verified and passed the
  validation of the chain's rules, it is the one kept in the wallet's file of the slate, and, when
  posting was asked for, the one the node accepted; the amount is taken off the slate.\<close>

theorem finalised_transaction_is_valid:
  assumes "finalize_tx X N now km d uuid s post w = (Ok r, w1)"
  shows "sl_id r = sl_id s \<and> sl_amount r = 0 \<and>
    (sl_state s = Invoice2 \<and> sl_state r = Invoice3 \<or> sl_state s = Standard2 \<and> sl_state r = Standard3) \<and>
    (\<exists>tx k ks. sl_tx r = Some tx \<and> t_kernels tx = k # ks \<and> x_kernel_verify X k = Ok () \<and> x_tx_validate X tx = Ok () \<and>
       w_files w1 (grintx (x_uuid_str X (sl_id s))) = Some (x_tx_to_hex X tx) \<and>
       (post \<longrightarrow> n_post_tx N tx True = Ok ()))"
  using finalize_tx_Ok [OF assms] by (auto simp: finished_def)

text \<open>An invoice of 100 that the payer has filled in and signed\<close>

definition issued :: "slate result \<times> wallet" where
  "issued = issue_invoice_tx sample_ext quiet_node 0 None sample_draw [7]
     \<lparr>iia_dest_acct_name = None, iia_amount = 100, iia_target_slate_version = None\<rparr> locked_wallet"

definition paid_invoice :: slate where
  "paid_invoice = (the_Ok (fst issued))\<lparr>sl_state := Invoice2, sl_fee_fields := 40,
     sl_tx := Some (empty_transaction sample_ext),
     sl_participant_data := \<lparr>pd_public_blind_excess = 2 # replicate 32 9, pd_public_nonce = 2 # replicate 32 9,
        pd_part_sig = Some (replicate 32 9 @ replicate 32 13)\<rparr> # sl_participant_data (the_Ok (fst issued))\<rparr>"

definition finalised_invoice :: "slate result \<times> wallet" where
  "finalised_invoice = finalize_tx sample_ext quiet_node 0 None sample_draw [8] paid_invoice True (snd issued)"

lemma finalised_invoice_Ok:
  "finalize_tx sample_ext quiet_node 0 None sample_draw [8] paid_invoice True (snd issued) =
     (Ok (the_Ok (fst finalised_invoice)), snd finalised_invoice)"
proof -
  have "is_Ok (fst finalised_invoice)" by code_simp
  then show ?thesis by (cases "fst finalised_invoice") (auto simp: finalised_invoice_def prod_eq_iff)
qed

theorem finalised_transaction_is_valid_witness:
  "\<exists>r w1 tx. finalize_tx sample_ext quiet_node 0 None sample_draw [8] paid_invoice True (snd issued) = (Ok r, w1) \<and>
     sl_state r = Invoice3 \<and> sl_tx r = Some tx \<and> w_files w1 (grintx [CHR 0x07]) = Some (x_tx_to_hex sample_ext tx)"
proof -
  have "sl_state paid_invoice = Invoice2" "x_uuid_str sample_ext (sl_id paid_invoice) = [CHR 0x07]" by code_simp+
  then show ?thesis
    using finalised_transaction_is_valid [OF finalised_invoice_Ok] finalised_invoice_Ok by auto
qed

text \<open>C20: finalising ends the slate: its private context is gone, so that finalising
  a slate of that identifier again, in whatever state and with whatever content, fails and leaves
  the wallet as it is; the secret nonce of the first signature is never used a second time.\<close>

theorem finalised_once:
  assumes "finalize_tx X N now km d uuid s post w = (Ok r, w1)" "w_wf w" "sl_id s' = sl_id s"
  shows "tbl_get (db_contexts (w_db w1)) (to_key_u64 (sl_id s) 0) = None \<and>
    \<not> is_Ok (fst (finalize_tx X N' now' km' d' uuid' s' post' w1)) \<and>
    snd (finalize_tx X N' now' km' d' uuid' s' post' w1) = w1"
proof -
  have gone: "tbl_get (db_contexts (w_db w1)) (to_key_u64 (sl_id s) 0) = None"
    using finalize_tx_Ok [OF assms(1)] assms(2) by (auto simp: finished_def w_wf_def tbl_get_del)
  obtain q v where q: "get_private_context X km' (sl_id s) w1 = (q, v)" by (cases "get_private_context X km' (sl_id s) w1")
  have "v = w1 \<and> \<not> is_Ok q"
    using q gone by (auto simp: get_private_context_def sbind_def the_keychain_def slift_def sread_def sret_def ok_or_def
        split: prod.splits res.splits)
  then show ?thesis
    using gone q by (cases q) (auto simp: finalize_tx_def sbind_def assms(3))
qed

lemma keeps_issue: "keeps w_wf (issue_invoice_tx X N now km d uuid args)"
  unfolding issue_invoice_tx_def add_output_to_slate_def build_recipient_output_def Let_def split_def
  by (auto intro!: keeps_intros simp: if_split)

theorem finalised_once_witness:
  "tbl_get (db_contexts (w_db (snd issued))) (to_key_u64 [7] 0) \<noteq> None \<and>
     tbl_get (db_contexts (w_db (snd finalised_invoice))) (to_key_u64 [7] 0) = None \<and>
     \<not> is_Ok (fst (finalize_tx sample_ext quiet_node 1 None sample_draw [9] paid_invoice True (snd finalised_invoice)))"
proof -
  have i: "sl_id paid_invoice = [7]" "tbl_get (db_contexts (w_db (snd issued))) (to_key_u64 [7] 0) \<noteq> None" by code_simp+
  have wf: "w_wf (snd issued)"
    unfolding issued_def by (rule keepsD [OF keeps_issue locked_wallet_wf]) (simp add: prod_eq_iff)
  show ?thesis using finalised_once [OF finalised_invoice_Ok wf refl] i by auto
qed

section \<open>Locking late\<close>

text \<open>When the fee is to be included in the amount, an ordinary send takes it
  off the slate's amount, which with the fee is the amount asked for; a send that locks late
  offers the recipient the whole amount all the same, and records it in its context, so that when
  the slate is finalised the fee is selected on top of it.\<close>

theorem late_lock_pays_the_fee_on_top:
  assumes "ita_amount_includes_fee args = Some True"
    and "create_late_lock_context X N now km d s height args p w = (Ok (s1, c1), w1)"
    and "build_send_tx X k km d s height (ita_minimum_confirmations args) mo n all None p True w = (Ok (s2, c2), w2)"
  shows "sl_amount s1 = sl_amount s \<and> ctx_amount c1 = sl_amount s \<and> ctx_late_lock_args c1 = Some args \<and>
    ctx_fee c1 = Some (sl_fee_fields s1) \<and>
    (\<exists>fee. x_fee_try_from X fee = Some (sl_fee_fields s2) \<and> fee \<le> sl_amount s \<and> sl_amount s2 = sl_amount s - fee)"
proof -
  have "sl_amount s1 = sl_amount s \<and> ctx_amount c1 = sl_amount s \<and> ctx_late_lock_args c1 = Some args \<and>
    ctx_fee c1 = Some (sl_fee_fields s1)"
    using assms(2)
    by (auto simp: create_late_lock_context_def sbind_eq_Ok comp_eq_Ok split_def the_keychain_def Let_def
        fill_round_1_def add_participant_info_def res_simps)
  moreover have "\<exists>fee. x_fee_try_from X fee = Some (sl_fee_fields s2) \<and> fee \<le> sl_amount s \<and> sl_amount s2 = sl_amount s - fee"
    using assms(3)
    by (auto simp: build_send_tx_def sbind_eq_Ok comp_eq_Ok split_def Let_def res_simps
        dest!: add_transaction_elements_Ok checked_sub64_SomeD)
  ultimately show ?thesis by blast
qed

definition late_args :: init_tx_args where
  "late_args = \<lparr>ita_src_acct_name = None, ita_amount = 400, ita_amount_includes_fee = Some True,
     ita_minimum_confirmations = 1, ita_max_outputs = 10, ita_num_change_outputs = 1,
     ita_selection_strategy_is_use_all = False, ita_refresh_outputs_from_node = False,
     ita_target_slate_version = None, ita_ttl_blocks = None, ita_payment_proof_recipient_address = None,
     ita_estimate_only = None, ita_late_lock = Some True, ita_send_args = None\<rparr>"

definition offer :: slate where
  "offer = (slate_blank sample_ext [7] 2 False)\<lparr>sl_amount := 400\<rparr>"

theorem late_lock_pays_the_fee_on_top_witness:
  "\<exists>s1 c1 w1 s2 c2 w2. create_late_lock_context sample_ext quiet_node 0 None sample_draw offer 20 late_args
       (w_parent_key_id rich_wallet) rich_wallet = (Ok (s1, c1), w1) \<and>
     build_send_tx sample_ext (the_Ok (wallet_keychain sample_ext None rich_wallet)) None sample_draw offer 20 1 10 1 False None
       (w_parent_key_id rich_wallet) True rich_wallet = (Ok (s2, c2), w2) \<and>
     sl_amount s1 = 400 \<and> (\<exists>fee. 0 < fee \<and> sl_amount s2 = 400 - fee)"
proof -
  let ?l = "create_late_lock_context sample_ext quiet_node 0 None sample_draw offer 20 late_args
       (w_parent_key_id rich_wallet)"
  let ?b = "build_send_tx sample_ext (the_Ok (wallet_keychain sample_ext None rich_wallet)) None sample_draw offer 20
       (ita_minimum_confirmations late_args) 10 1 False None (w_parent_key_id rich_wallet) True"
  have "is_Ok (fst (?l rich_wallet))" "is_Ok (fst (?b rich_wallet))" by code_simp+
  then obtain s1 c1 s2 c2 where l: "?l rich_wallet = (Ok (s1, c1), snd (?l rich_wallet))"
    and b: "?b rich_wallet = (Ok (s2, c2), snd (?b rich_wallet))"
    using is_Ok_run [of ?l rich_wallet] is_Ok_run [of ?b rich_wallet] by (metis surj_pair)
  have a: "ita_amount_includes_fee late_args = Some True" "sl_amount offer = 400" "ita_minimum_confirmations late_args = 1"
    by code_simp+
  obtain fee where fee: "sl_amount s1 = 400" "x_fee_try_from sample_ext fee = Some (sl_fee_fields s2)" "sl_amount s2 = 400 - fee"
    using late_lock_pays_the_fee_on_top [OF a(1) l b] by (auto simp: a(2))
  have "0 < fee" using fee(2) by (auto simp: sample_ext_def word_gt_0 split: if_splits)
  with fee l b [unfolded a(3)] show ?thesis by blast
qed

end
