(* ===== verification/Loops.thy ===== *)
theory Loops
  imports Backend
begin

text \<open>
  Operations that contain a loop the code does not bound: \<open>None\<close> stands for a run that never
  returns. What such an operation does before and after the loop is lifted into them.
\<close>

type_synonym 'a lop = "wallet \<Rightarrow> ('a result \<times> wallet) option"

definition lwop :: "'a wop \<Rightarrow> 'a lop" where
  "lwop m w = Some (m w)"

definition lret :: "'a \<Rightarrow> 'a lop" where
  "lret a = lwop (sret a)"

definition lbind :: "'a lop \<Rightarrow> ('a \<Rightarrow> 'b lop) \<Rightarrow> 'b lop" where
  "lbind m f w = (case m w of
     None \<Rightarrow> None
   | Some (Ok a, w') \<Rightarrow> f a w'
   | Some (Err e, w') \<Rightarrow> Some (Err e, w')
   | Some (Panic, w') \<Rightarrow> Some (Panic, w'))"

text \<open>A computation outside the wallet that may not return\<close>

definition lloop :: "'a result option \<Rightarrow> 'a lop" where
  "lloop r w = map_option (\<lambda>r. (r, w)) r"

primrec lfor :: "'a list \<Rightarrow> ('a \<Rightarrow> unit lop) \<Rightarrow> unit lop" where
  "lfor [] f = lret ()"
| "lfor (x # xs) f = lbind (f x) (\<lambda>_. lfor xs f)"

lemma lbind_simps [simp]:
  "m w = None \<Longrightarrow> lbind m f w = None"
  "m w = Some (Ok a, w') \<Longrightarrow> lbind m f w = f a w'"
  "m w = Some (Err e, w') \<Longrightarrow> lbind m f w = Some (Err e, w')"
  "m w = Some (Panic, w') \<Longrightarrow> lbind m f w = Some (Panic, w')"
  by (simp_all add: lbind_def)

lemma lbind_eq_Ok:
  "lbind m f w = Some (Ok b, w'') \<longleftrightarrow> (\<exists>a w'. m w = Some (Ok a, w') \<and> f a w' = Some (Ok b, w''))"
  by (auto simp: lbind_def split: option.splits prod.splits res.splits)

lemma lop_eq_Ok:
  "lwop m w = Some (r, w') \<longleftrightarrow> m w = (r, w')"
  "lret a w = Some (Ok b, w') \<longleftrightarrow> b = a \<and> w' = w"
  "lloop x w = Some (Ok b, w') \<longleftrightarrow> x = Some (Ok b) \<and> w' = w"
  by (auto simp: lwop_def lret_def lloop_def sret_def)

text \<open>Every run that returns keeps a property of the wallet.\<close>

definition lkeeps :: "(wallet \<Rightarrow> bool) \<Rightarrow> 'a lop \<Rightarrow> bool" where
  "lkeeps P m \<longleftrightarrow> (\<forall>w r w'. P w \<longrightarrow> m w = Some (r, w') \<longrightarrow> P w')"

named_theorems lkeeps_intros

lemma lkeepsD: "lkeeps P m \<Longrightarrow> P w \<Longrightarrow> m w = Some (r, w') \<Longrightarrow> P w'"
  by (auto simp: lkeeps_def)

lemma lkeeps_lwop [lkeeps_intros]: "keeps P m \<Longrightarrow> lkeeps P (lwop m)"
  by (auto simp: lkeeps_def lwop_def keeps_def split: prod.splits)

lemma lkeeps_lret [lkeeps_intros]: "lkeeps P (lret a)"
  by (auto simp: lkeeps_def lret_def lwop_def sret_def)

lemma lkeeps_lloop [lkeeps_intros]: "lkeeps P (lloop r)"
  by (auto simp: lkeeps_def lloop_def)

lemma lkeeps_lbind [lkeeps_intros]: "lkeeps P m \<Longrightarrow> (\<And>a. lkeeps P (f a)) \<Longrightarrow> lkeeps P (lbind m f)"
  unfolding lkeeps_def
proof ( intro allI impI)
  fix w r w' assume m: "\<forall>w r w'. P w \<longrightarrow> m w = Some (r, w') \<longrightarrow> P w'"
    and f: "\<And>a. \<forall>w r w'. P w \<longrightarrow> f a w = Some (r, w') \<longrightarrow> P w'" and w: "P w" "lbind m f w = Some (r, w')"
  obtain x v where x: "m w = Some (x, v)" using w(2) by (cases "m w") auto
  have "P v" using x m w(1) by blast
  show "P w'"
  proof (cases x)
    case (Ok a)
    then show ?thesis using f [rule_format, OF \<open>P v\<close>] w(2) x by (simp add: lbind_def)
  qed (use w(2) x \<open>P v\<close> in \<open>simp_all add: lbind_def\<close>)
qed

lemma lkeeps_lfor [lkeeps_intros]: "(\<And>x. x \<in> set xs \<Longrightarrow> lkeeps P (f x)) \<Longrightarrow> lkeeps P (lfor xs f)"
  by (induction xs) (simp_all add: lkeeps_lret lkeeps_lbind)

lemma lkeeps_if [lkeeps_intros]: "(b \<Longrightarrow> lkeeps P m) \<Longrightarrow> (\<not> b \<Longrightarrow> lkeeps P n) \<Longrightarrow> lkeeps P (if b then m else n)"
  by simp

text \<open>Lists in pieces of a given length, the last one shorter (\<open>slice::chunks\<close>)\<close>

fun chunks :: "nat \<Rightarrow> 'a list \<Rightarrow> 'a list list" where
  "chunks n [] = []"
| "chunks n (x # xs) = (x # take (n - 1) xs) # chunks n (drop (n - 1) xs)"

lemma concat_chunks [simp]: "concat (chunks n xs) = xs"
  by (induction n xs rule: chunks.induct) simp_all

lemma length_chunk: "ys \<in> set (chunks n xs) \<Longrightarrow> 0 < n \<Longrightarrow> length ys \<le> n"
  by (induction n xs rule: chunks.induct) auto

end
