(* ===== verification/Scan.thy ===== *)
theory Scan
  imports Loops Updater "HOL-Library.AList"
begin

text \<open>
  Restoring a wallet from its seed and the chain (\<open>libwallet/src/internal/scan.rs\<close>): the outputs
  of the chain are read page by page, those that rewind to a key of the wallet are compared with
  what the wallet knows, and missing outputs, accounts and key counters are put back. The scan's
  progress messages are left out, and with them the percentages; an unexpected switch commitment
  is only reported there. The lock of the wallet is taken and released between the steps; a scan
  here is one that no other operation interrupts.
\<close>

section \<open>Outputs of the chain that are ours\<close>

record output_result =
  or_commit :: commitment
  or_key_id :: ident
  or_n_child :: u32
  or_mmr_index :: u64
  or_value :: u64
  or_height :: u64
  or_lock_height :: u64
  or_is_coinbase :: bool

definition locked_until :: "ext \<Rightarrow> bool \<Rightarrow> u64 \<Rightarrow> u64" where
  "locked_until X is_coinbase height = (if is_coinbase then height + x_coinbase_maturity X else height)"

definition rewind_output :: "ext \<Rightarrow> keychain \<Rightarrow> chain_output \<Rightarrow> (u64 \<times> ident \<times> switch_commitment) option result" where
  "rewind_output X k o' =
     rbind (if x_valid_header_version X (saturating_sub64 (co_height o') (2 * x_week_height X)) 1
            then x_rewind X k True (co_commit o') (co_proof o') else Ok None) (\<lambda>info_legacy.
       if info_legacy = None then x_rewind X k False (co_commit o') (co_proof o') else Ok info_legacy)"

definition identify_output :: "ext \<Rightarrow> keychain \<Rightarrow> chain_output \<Rightarrow> output_result option result" where
  "identify_output X k o' =
     rbind (rewind_output X k o') (\<lambda>info. Ok (map_option (\<lambda>(amount, key_id, _).
       \<lparr>or_commit = co_commit o', or_key_id = key_id,
        or_n_child = x_last_path_index X (x_to_path X key_id), or_mmr_index = co_mmr_index o',
        or_value = amount, or_height = co_height o',
        or_lock_height = locked_until X (co_is_coinbase o') (co_height o'),
        or_is_coinbase = co_is_coinbase o'\<rparr>) info))"

text \<open>Outputs are tried in parallel; of several errors one is returned, here the first.\<close>

definition identify_utxo_outputs :: "ext \<Rightarrow> keychain \<Rightarrow> chain_output list \<Rightarrow> output_result list result" where
  "identify_utxo_outputs X k outs =
     rbind (rmap (identify_output X k) outs) (\<lambda>identified. Ok (List.map_filter (\<lambda>o'. o') identified))"

section \<open>Reading the pages of a range of positions\<close>

definition batch_size :: u64 where
  "batch_size = 1000"

text \<open>The loop ends when the node has reached the end it reports; a node that never does, never ends it.\<close>

partial_function (option) collect_pages ::
  "ext \<Rightarrow> node \<Rightarrow> keychain \<Rightarrow> u64 \<Rightarrow> u64 \<Rightarrow> output_result list \<Rightarrow> (output_result list \<times> u64) result option" where
  "collect_pages X N k batch_end_index start_index result_vec =
     (case n_outputs_by_pmmr_index N start_index (Some batch_end_index) batch_size of
        Ok (highest_index, last_retrieved_index, outputs) \<Rightarrow>
          (case identify_utxo_outputs X k outputs of
             Ok found \<Rightarrow>
               if highest_index \<le> last_retrieved_index then Some (Ok (result_vec @ found, last_retrieved_index))
               else collect_pages X N k batch_end_index (last_retrieved_index + 1) (result_vec @ found)
           | Err e \<Rightarrow> Some (Err e)
           | Panic \<Rightarrow> Some Panic)
      | Err e \<Rightarrow> Some (Err e)
      | Panic \<Rightarrow> Some Panic)"

definition collect_chain_outputs ::
  "ext \<Rightarrow> node \<Rightarrow> keychain \<Rightarrow> u64 \<Rightarrow> u64 \<Rightarrow> (output_result list \<times> u64) result option" where
  "collect_chain_outputs X N k batch_start_index batch_end_index =
     collect_pages X N k batch_end_index batch_start_index []"

section \<open>The outputs of someone else's wallet\<close>

definition view_output :: "ext \<Rightarrow> string \<Rightarrow> chain_output \<Rightarrow> view_wallet_output_result option result" where
  "view_output X rewind_hash o' =
     rbind (ok_or (Wal (RewindHash ''Unable to decode rewind hash'')) (x_from_hex X rewind_hash)) (\<lambda>h.
       (case x_sk_from_slice X (x_blake2b X 32 (co_commit o') h) of
          Ok nonce \<Rightarrow> Ok (map_option (\<lambda>amount.
            \<lparr>vwo_commit = x_to_hex X (co_commit o'), vwo_value = amount, vwo_height = co_height o',
             vwo_mmr_index = co_mmr_index o', vwo_is_coinbase = co_is_coinbase o',
             vwo_lock_height = locked_until X (co_is_coinbase o') (co_height o')\<rparr>)
            (x_rewind_bp X (co_commit o') nonce (co_proof o')))
        | Err e \<Rightarrow> Err (Wal (Nonce ''Unable to create nonce''))
        | Panic \<Rightarrow> Panic))"

partial_function (option) collect_view ::
  "ext \<Rightarrow> node \<Rightarrow> u64 option \<Rightarrow> u64 \<Rightarrow> view_wallet \<Rightarrow> view_wallet result option" where
  "collect_view X N end_index start_index vw =
     (case n_outputs_by_pmmr_index N start_index end_index batch_size of
        Ok (highest_index, last_retrieved_index, outputs) \<Rightarrow>
          (case rmap (view_output X (vw_rewind_hash vw)) outputs of
             Ok found \<Rightarrow>
               let outs = List.map_filter (\<lambda>o'. o') found;
                   vw = vw\<lparr>vw_output_result := vw_output_result vw @ outs,
                           vw_total_balance := vw_total_balance vw + sum_list (map vwo_value outs)\<rparr>
               in if highest_index \<le> last_retrieved_index
                  then Some (Ok (vw\<lparr>vw_last_pmmr_index := last_retrieved_index\<rparr>))
                  else collect_view X N end_index (last_retrieved_index + 1) vw
           | Err e \<Rightarrow> Some (Err e)
           | Panic \<Rightarrow> Some Panic)
      | Err e \<Rightarrow> Some (Err e)
      | Panic \<Rightarrow> Some Panic)"

definition internal_scan_rewind_hash :: "ext \<Rightarrow> node \<Rightarrow> string \<Rightarrow> u64 \<Rightarrow> u64 \<Rightarrow> view_wallet lop" where
  "internal_scan_rewind_hash X N rewind_hash start_height end_height =
     lbind (lloop (Some (n_height_range_to_pmmr_indices N start_height (Some end_height)))) (\<lambda>(first, last).
       lloop (collect_view X N (Some last) first
         \<lparr>vw_rewind_hash = rewind_hash, vw_output_result = [], vw_total_balance = 0, vw_last_pmmr_index = 0\<rparr>))"

section \<open>Putting back missing outputs\<close>

definition MISSING_OUTPUTS_BATCH_SIZE :: nat where
  "MISSING_OUTPUTS_BATCH_SIZE = 1000"

type_synonym parents = "(ident \<times> u32) list"

definition restored_entry :: "timestamp \<Rightarrow> output_result \<Rightarrow> ident \<Rightarrow> u32 \<Rightarrow> tx_log_entry" where
  "restored_entry now o' parent_key_id log_id =
     update_confirmation_ts now ((tx_log_entry_new now parent_key_id
        (if or_is_coinbase o' then ConfirmedCoinbase else TxReceived) log_id)\<lparr>
          txe_confirmed := True, txe_amount_credited := or_value o', txe_num_outputs := 1\<rparr>)"

definition restored_output :: "ext \<Rightarrow> output_result \<Rightarrow> ident \<Rightarrow> u32 \<Rightarrow> output_data" where
  "restored_output X o' parent_key_id log_id = \<lparr>
     out_root_key_id = parent_key_id, out_key_id = or_key_id o', out_n_child = or_n_child o',
     out_commit = Some (x_to_hex X (or_commit o')), out_mmr_index = Some (or_mmr_index o'),
     out_value = or_value o', out_status = Unspent, out_height = or_height o',
     out_lock_height = or_lock_height o', out_is_coinbase = or_is_coinbase o', out_tx_log_entry = Some log_id\<rparr>"

text \<open>The greatest child index seen under each parent path\<close>

definition note_parent :: "ident \<Rightarrow> u32 \<Rightarrow> parents \<Rightarrow> parents" where
  "note_parent p n found =
     (let found = (if map_of found p = None then AList.update p 0 found else found)
      in if n \<ge> the (map_of found p) then AList.update p n found else found)"

definition restore_output :: "ext \<Rightarrow> timestamp \<Rightarrow> output_result \<Rightarrow> parents \<Rightarrow> parents batch" where
  "restore_output X now o' found =
     (let parent_key_id = x_parent_path X (or_key_id o') in
      sbind (next_tx_log_id parent_key_id) (\<lambda>log_id.
      sbind (save_tx_log_entry (restored_entry now o' parent_key_id log_id) parent_key_id) (\<lambda>_.
      sbind (batch_save (restored_output X o' parent_key_id log_id)) (\<lambda>_.
        sret (note_parent parent_key_id (or_n_child o') found)))))"

primrec restore_chunk :: "ext \<Rightarrow> timestamp \<Rightarrow> output_result list \<Rightarrow> parents \<Rightarrow> parents batch" where
  "restore_chunk X now [] found = sret found"
| "restore_chunk X now (o' # outs) found = sbind (restore_output X now o' found) (restore_chunk X now outs)"

primrec restore_chunks :: "ext \<Rightarrow> timestamp \<Rightarrow> secret_key option \<Rightarrow> output_result list list \<Rightarrow> parents \<Rightarrow> parents wop" where
  "restore_chunks X now km [] found = sret found"
| "restore_chunks X now km (c # cs) found =
     sbind (with_batch X km (\<lambda>_. restore_chunk X now c found)) (restore_chunks X now km cs)"

definition restore_missing_outputs ::
  "ext \<Rightarrow> timestamp \<Rightarrow> secret_key option \<Rightarrow> output_result list \<Rightarrow> parents \<Rightarrow> parents wop" where
  "restore_missing_outputs X now km outputs found_parents =
     restore_chunks X now km (chunks MISSING_OUTPUTS_BATCH_SIZE outputs) found_parents"

section \<open>Repairing outputs the wallet knows\<close>

definition cancelled_by_scan :: "tx_log_entry_type \<Rightarrow> tx_log_entry_type" where
  "cancelled_by_scan t = (case t of TxSent \<Rightarrow> TxSentCancelled | TxReceived \<Rightarrow> TxReceivedCancelled | _ \<Rightarrow> t)"

definition cancel_tx_log_entry :: "ext \<Rightarrow> secret_key option \<Rightarrow> output_data \<Rightarrow> unit wop" where
  "cancel_tx_log_entry X km output =
     (let parent_key_id = x_parent_path X (out_key_id output) in
      sbind (sread (\<lambda>w. case out_tx_log_entry output of
          None \<Rightarrow> None
        | Some i \<Rightarrow> (case retrieve_txs w (Some i) None None (Some parent_key_id) False of
            [] \<Rightarrow> None
          | entry # _ \<Rightarrow> Some (entry\<lparr>txe_tx_type := cancelled_by_scan (txe_tx_type entry)\<rparr>)))) (\<lambda>updated_tx_entry.
        with_batch X km (\<lambda>_. case updated_tx_entry of
            Some t \<Rightarrow> save_tx_log_entry t parent_key_id | None \<Rightarrow> sret ())))"

definition repair_output :: "ext \<Rightarrow> secret_key option \<Rightarrow> output_data \<Rightarrow> unit wop" where
  "repair_output X km out =
     (let o' = out\<lparr>out_status := Unspent\<rparr> in
      sbind (cancel_tx_log_entry X km o') (\<lambda>_. with_batch X km (\<lambda>_. batch_save o')))"

definition drop_unconfirmed :: "ext \<Rightarrow> secret_key option \<Rightarrow> output_data \<Rightarrow> unit wop" where
  "drop_unconfirmed X km out =
     sbind (cancel_tx_log_entry X km out) (\<lambda>_.
       with_batch X km (\<lambda>_. batch_delete (out_key_id out) (out_mmr_index out)))"

text \<open>How the outputs of the chain stand to those of the wallet\<close>

definition known_as :: "output_commit_mapping list \<Rightarrow> output_result \<Rightarrow> output_data option" where
  "known_as wallet_outputs deffo =
     map_option ocm_output (find (\<lambda>wo. ocm_commit wo = or_commit deffo) wallet_outputs)"

definition known_with :: "output_status \<Rightarrow> output_commit_mapping list \<Rightarrow> output_result list \<Rightarrow> output_data list" where
  "known_with st wallet_outputs chain_outs =
     filter (\<lambda>o'. out_status o' = st) (List.map_filter (known_as wallet_outputs) chain_outs)"

definition missing_from :: "output_commit_mapping list \<Rightarrow> output_result list \<Rightarrow> output_result list" where
  "missing_from wallet_outputs chain_outs = filter (\<lambda>o'. known_as wallet_outputs o' = None) chain_outs"

section \<open>Accounts and key counters\<close>

definition restore_child_index :: "ext \<Rightarrow> secret_key option \<Rightarrow> ident \<Rightarrow> u32 \<Rightarrow> unit wop" where
  "restore_child_index X km path max_child_index =
     sbind (sread (\<lambda>w. current_child_index w path)) (\<lambda>current.
       if max_child_index \<ge> current
       then with_batch X km (\<lambda>_. save_child_index path (max_child_index + 1)) else sret ())"

primrec restore_accounts ::
  "ext \<Rightarrow> secret_key option \<Rightarrow> ident list \<Rightarrow> parents \<Rightarrow> nat \<Rightarrow> unit wop" where
  "restore_accounts X km accts [] acct_no = sret ()"
| "restore_accounts X km accts (p # ps) acct_no =
     sbind (if fst p \<notin> set accts then set_acct_path X km (''account_'' @ nat_to_string acct_no) (fst p) else sret ()) (\<lambda>_.
     sbind (restore_child_index X km (fst p) (snd p)) (\<lambda>_.
       restore_accounts X km accts ps (if fst p \<notin> set accts then acct_no + 1 else acct_no)))"

section \<open>The scan of a batch of heights\<close>

definition apply_scan ::
  "ext \<Rightarrow> timestamp \<Rightarrow> secret_key option \<Rightarrow> bool \<Rightarrow> output_result list \<Rightarrow> unit wop" where
  "apply_scan X now km delete_unconfirmed chain_outs =
     sbind (retrieve_outputs X km True None None) (\<lambda>wallet_outputs.
     sbind (sfor (known_with Spent wallet_outputs chain_outs) (repair_output X km)) (\<lambda>_.
     sbind (restore_missing_outputs X now km (missing_from wallet_outputs chain_outs) []) (\<lambda>found_parents.
     sbind (if delete_unconfirmed
            then sbind (sfor (known_with Locked wallet_outputs chain_outs) (repair_output X km)) (\<lambda>_.
                 sfor (filter (\<lambda>o'. out_status o' = Unconfirmed) (map ocm_output wallet_outputs)) (drop_unconfirmed X km))
            else sret ()) (\<lambda>_.
     sbind (sread (\<lambda>w. map acct_path (acct_path_iter (w_db w)))) (\<lambda>accts.
       restore_accounts X km accts found_parents (length accts))))))"

definition internal_scan ::
  "ext \<Rightarrow> node \<Rightarrow> timestamp \<Rightarrow> secret_key option \<Rightarrow> bool \<Rightarrow> u64 \<Rightarrow> u64 \<Rightarrow> u64 \<Rightarrow> u64 \<Rightarrow> (u64 \<times> u64) option
    \<Rightarrow> (scanned_block_info \<times> (u64 \<times> u64)) lop" where
  "internal_scan X N now km delete_unconfirmed batch_start_height batch_end_height start_height end_height
       total_pmmr_range =
     lbind (lwop (the_keychain X km)) (\<lambda>k.
     lbind (lloop (Some (case total_pmmr_range of
         Some total_range \<Rightarrow> Ok total_range
       | None \<Rightarrow> n_height_range_to_pmmr_indices N start_height (Some end_height)))) (\<lambda>total_pmmr_range.
     lbind (lloop (Some (n_height_range_to_pmmr_indices N batch_start_height (Some batch_end_height)))) (\<lambda>pmmr_range.
     lbind (lloop (collect_chain_outputs X N k (fst pmmr_range) (snd pmmr_range))) (\<lambda>(chain_outs, last_index).
     lbind (lwop (apply_scan X now km delete_unconfirmed chain_outs)) (\<lambda>_.
       lret (\<lparr>sbi_height = batch_end_height, sbi_hash = '''', sbi_start_pmmr_index = fst pmmr_range,
              sbi_last_pmmr_index = last_index\<rparr>, total_pmmr_range))))))"

end
