(* ===== verification/Scan_Props.thy ===== *)
theory Scan_Props
  imports Scan Tx_Props
begin

text \<open>
  The properties of the scan: reading the pages of a range finds what reading the range at once
  would; after a scan the outputs of the chain are in the wallet, under accounts of the wallet
  and below its key counters; and a restored account may take the label of another.
\<close>

section \<open>The pages of a range\<close>

text \<open>
  A node that serves the unspent outputs \<open>U\<close>, in the order of their positions, page by page up to
  position \<open>e\<close>: each page begins where it was asked to, ends somewhere at or before \<open>e\<close>, and holds the outputs
  between.
\<close>

definition between :: "u64 \<Rightarrow> u64 \<Rightarrow> chain_output list \<Rightarrow> chain_output list" where
  "between a b U = filter (\<lambda>o'. a \<le> co_mmr_index o' \<and> co_mmr_index o' \<le> b) U"

definition serves_pages :: "node \<Rightarrow> u64 \<Rightarrow> chain_output list \<Rightarrow> bool" where
  "serves_pages N e U \<longleftrightarrow> sorted (map co_mmr_index U) \<and>
     (\<forall>s \<le> e. \<exists>l. s \<le> l \<and> l \<le> e \<and> n_outputs_by_pmmr_index N s (Some e) batch_size = Ok (e, l, between s l U))"

lemma unat_next: "(l :: u64) < e \<Longrightarrow> unat (l + 1) = Suc (unat l)"
  using unsigned_less [where ?'a = nat, of e] by (simp add: word_less_nat_alt unat_word_ariths)

lemma index_next: "(m :: u32) \<noteq> -1 \<Longrightarrow> m < m + 1"
proof -
  assume "m \<noteq> -1"
  then have "m < -1" using max_word_max [of m] by (simp add: order.strict_iff_order)
  then have "unat (m + 1) = Suc (unat m)"
    using unsigned_less [where ?'a = nat, of "-1 :: u32"] by (simp add: word_less_nat_alt unat_word_ariths)
  then show ?thesis by (simp add: word_less_nat_alt)
qed

lemma between_split:
  assumes "sorted (map co_mmr_index U)" "s \<le> l" "l < e"
  shows "between s e U = between s l U @ between (l + 1) e U"
  using assms(1)
proof (induction U)
  case (Cons o' U)
  have suc: "l + 1 \<le> x \<longleftrightarrow> l < x" for x by (simp add: word_le_nat_alt word_less_nat_alt unat_next [OF assms(3)] Suc_le_eq)
  show ?case
  proof (cases "co_mmr_index o' \<le> l")
    case True
    then show ?thesis using Cons assms(2,3) by (auto simp: between_def suc)
  next
    case False
    then have "between s l U = []" using Cons.prems by (auto simp: between_def filter_empty_conv)
    then show ?thesis using Cons False assms(2,3) by (auto simp: between_def suc)
  qed
qed (simp add: between_def)

lemma rmap_append: "rmap f (xs @ ys) = rbind (rmap f xs) (\<lambda>a. rbind (rmap f ys) (\<lambda>b. Ok (a @ b)))"
proof (induction xs)
  case Nil
  show ?case by (cases "rmap f ys") simp_all
qed (simp add: rbind_assoc)

lemma identify_append:
  "identify_utxo_outputs X k (xs @ ys) =
     rbind (identify_utxo_outputs X k xs) (\<lambda>a. rbind (identify_utxo_outputs X k ys) (\<lambda>b. Ok (a @ b)))"
  by (simp add: identify_utxo_outputs_def rmap_append rbind_assoc List.map_filter_def)

lemma collect_pages_eq:
  assumes "serves_pages N e U" "s \<le> e"
  shows "collect_pages X N k e s acc =
    Some (rbind (identify_utxo_outputs X k (between s e U)) (\<lambda>found. Ok (acc @ found, e)))"
  using assms(2)
proof (induction "unat (e - s)" arbitrary: s acc rule: less_induct)
  case less
  obtain l where l: "s \<le> l" "l \<le> e" "n_outputs_by_pmmr_index N s (Some e) batch_size = Ok (e, l, between s l U)"
    using assms(1) less.prems by (auto simp: serves_pages_def)
  show ?case
  proof (cases "l = e")
    case True
    then show ?thesis
      by (cases "identify_utxo_outputs X k (between s e U)") (simp_all add: collect_pages.simps [of X N k e s] l(3))
  next
    case False
    then have "l < e" using l(2) by simp
    have next': "l + 1 \<le> e" "unat (e - (l + 1)) < unat (e - s)"
      using \<open>l < e\<close> l(1) by (auto simp: word_le_nat_alt word_less_nat_alt unat_sub unat_next)
    have nle: "\<not> e \<le> l" using \<open>l < e\<close> by simp
    have split: "between s e U = between s l U @ between (l + 1) e U"
      using between_split [OF _ l(1) \<open>l < e\<close>] assms(1) by (simp add: serves_pages_def)
    show ?thesis
      using less.hyps [OF next'(2,1)] nle
      by (cases "identify_utxo_outputs X k (between s l U)")
         (simp_all add: collect_pages.simps [of X N k e s] l(3) split identify_append rbind_assoc)
  qed
qed

text \<open>C13: with a node that serves the outputs page by page, reading a range of
  positions ends, and finds what identifying all the outputs of the range at once finds, however
  the pages are cut; it fails exactly when that fails.\<close>

theorem pages_find_all_outputs:
  assumes "serves_pages N e U" "s \<le> e"
  shows "collect_chain_outputs X N k s e =
    Some (rbind (identify_utxo_outputs X k (between s e U)) (\<lambda>found. Ok (found, e)))"
  by (simp add: collect_chain_outputs_def collect_pages_eq [OF assms])

text \<open>Two outputs at positions 3 and 9, one page each; the proof of the first rewinds to a key.\<close>

definition paging_node :: node where
  "paging_node = quiet_node\<lparr>n_outputs_by_pmmr_index := (\<lambda>s e m. Ok (10, if s \<le> 5 then 5 else 10,
     between s (if s \<le> 5 then 5 else 10)
       [\<lparr>co_commit = [1], co_proof = 70 # replicate 17 2, co_is_coinbase = False, co_height = 4, co_mmr_index = 3\<rparr>,
        \<lparr>co_commit = [2], co_proof = [], co_is_coinbase = True, co_height = 5, co_mmr_index = 9\<rparr>]))\<rparr>"

theorem pages_find_all_outputs_witness:
  "\<exists>o'. collect_chain_outputs sample_ext paging_node [] 1 10 = Some (Ok ([o'], 10)) \<and> or_value o' = 70 \<and> or_mmr_index o' = 3"
proof -
  let ?U = "[\<lparr>co_commit = [1], co_proof = 70 # replicate 17 2, co_is_coinbase = False, co_height = 4, co_mmr_index = 3\<rparr>,
        \<lparr>co_commit = [2], co_proof = [], co_is_coinbase = True, co_height = 5, co_mmr_index = 9\<rparr>]"
  have "serves_pages paging_node 10 ?U"
    unfolding serves_pages_def paging_node_def batch_size_def
    by (auto intro: exI [of _ 5] exI [of _ 10])
  from pages_find_all_outputs [OF this, of 1 sample_ext "[]"]
  have "collect_chain_outputs sample_ext paging_node [] 1 10 =
      Some (rbind (identify_utxo_outputs sample_ext [] (between 1 10 ?U)) (\<lambda>found. Ok (found, 10)))" by simp
  moreover have "rbind (identify_utxo_outputs sample_ext [] (between 1 10 ?U)) (\<lambda>found. Ok (map or_value found, map or_mmr_index found)) = Ok ([70], [3])"
    by code_simp
  ultimately show ?thesis by (cases "identify_utxo_outputs sample_ext [] (between 1 10 ?U)") (auto simp: map_eq_Cons_conv)
qed

section \<open>Putting back missing outputs\<close>

abbreviation parent_of :: "ext \<Rightarrow> output_result \<Rightarrow> ident" where
  "parent_of X o' \<equiv> x_parent_path X (or_key_id o')"

definition chain_key :: "output_result \<Rightarrow> ident \<times> u64 option" where
  "chain_key o' = (or_key_id o', Some (or_mmr_index o'))"

lemma map_of_note_parent:
  "map_of (note_parent p n f) q =
     (if q = p then Some (max n (case map_of f p of Some m \<Rightarrow> m | None \<Rightarrow> 0)) else map_of f q)"
  by (auto simp: note_parent_def Let_def update_conv' max_def split: option.splits)

lemma distinct_note_parent: "distinct (map fst f) \<Longrightarrow> distinct (map fst (note_parent p n f))"
  by (simp add: note_parent_def Let_def distinct_update)

text \<open>What putting back outputs does to the database and to the parents found so far\<close>

definition restored ::
  "ext \<Rightarrow> nat \<Rightarrow> output_result list \<Rightarrow> parents \<Rightarrow> db \<Rightarrow> parents \<Rightarrow> db \<Rightarrow> bool" where
  "restored X n outs f d f' d' \<longleftrightarrow>
     outs_ok n d' \<and> db_accts d' = db_accts d \<and> db_deriv d' = db_deriv d \<and> (distinct (map fst f) \<longrightarrow> distinct (map fst f')) \<and>
     (\<forall>i m. length i = n \<longrightarrow> (i, m) \<notin> chain_key ` set outs \<longrightarrow> db_fetch d' i m = db_fetch d i m) \<and>
     (\<forall>o' \<in> set outs. \<exists>l. db_fetch d' (or_key_id o') (Some (or_mmr_index o')) = Some (restored_output X o' (parent_of X o') l)) \<and>
     (\<forall>p m. map_of f p = Some m \<longrightarrow> (\<exists>m' \<ge> m. map_of f' p = Some m')) \<and>
     (\<forall>o' \<in> set outs. \<exists>m \<ge> or_n_child o'. map_of f' (parent_of X o') = Some m) \<and>
     (\<forall>p m. map_of f' p = Some m \<longrightarrow> map_of f p = Some m \<or> m = 0 \<or> m \<in> or_n_child ` set outs)"

lemma restored_Nil: "outs_ok n d \<Longrightarrow> restored X n [] f d f d"
  by (auto simp: restored_def)

lemma restored_append:
  assumes "restored X n xs f d f1 d1" "restored X n ys f1 d1 f2 d2"
    and "chain_key ` set xs \<inter> chain_key ` set ys = {}" "\<forall>o' \<in> set xs. length (or_key_id o') = n"
  shows "restored X n (xs @ ys) f d f2 d2"
proof -
  have kept: "\<exists>l. db_fetch d2 (or_key_id o') (Some (or_mmr_index o')) = Some (restored_output X o' (parent_of X o') l)"
    if o': "o' \<in> set xs" for o'
  proof -
    have "chain_key o' \<notin> chain_key ` set ys" using assms(3) o' by blast
    then have "db_fetch d2 (or_key_id o') (Some (or_mmr_index o')) = db_fetch d1 (or_key_id o') (Some (or_mmr_index o'))"
      using assms(2,4) o' by (auto simp: restored_def chain_key_def)
    then show ?thesis using assms(1) o' by (auto simp: restored_def)
  qed
  have parents: "\<exists>m \<ge> or_n_child o'. map_of f2 (parent_of X o') = Some m" if "o' \<in> set xs" for o'
    using assms(1,2) that unfolding restored_def by (meson order_trans)
  have "\<exists>m' \<ge> m. map_of f2 p = Some m'" if "map_of f p = Some m" for p m
    using assms(1,2) that unfolding restored_def by (meson order_trans)
  moreover have "map_of f p = Some m \<or> m = 0 \<or> m \<in> or_n_child ` set (xs @ ys)" if "map_of f2 p = Some m" for p m
    using assms(1,2) that unfolding restored_def set_append image_Un by blast
  moreover have "db_fetch d2 i m = db_fetch d i m" if "length i = n" "(i, m) \<notin> chain_key ` set (xs @ ys)" for i m
    using assms(1,2) that unfolding restored_def set_append image_Un by (metis UnCI)
  ultimately show ?thesis
    using assms(1,2) kept parents unfolding restored_def by (auto simp: image_Un)
qed

lemma restore_output_Ok:
  assumes "restore_output X now o' f d = (Ok f', d')" "outs_ok n d" "length (or_key_id o') = n"
  shows "restored X n [o'] f d f' d'"
proof -
  define p where "p = parent_of X o'"
  define l where "l = current_tx_log_id d p"
  obtain d1 where d1: "d' = db_store (restored_output X o' p l) d1" "db_outputs d1 = db_outputs d"
    "db_accts d1 = db_accts d" "db_deriv d1 = db_deriv d" "outs_ok n d1" and f': "f' = note_parent p (or_n_child o') f"
  proof
    show "d' = db_store (restored_output X o' p l) (snd (save_tx_log_entry (restored_entry now o' p l) p
        (d\<lparr>db_tx_log_id := tbl_put p (l + 1) (db_tx_log_id d)\<rparr>)))" "f' = note_parent p (or_n_child o') f"
      using assms(1)
      by (auto simp: restore_output_def Let_def sbind_eq_Ok comp_eq_Ok next_tx_log_id_eq save_tx_log_entry_eq batch_save_eq
          p_def l_def)
  qed (use assms(2) in \<open>simp_all add: save_tx_log_entry_eq outs_ok_def out_wf_def db_wf_def tbl_simps\<close>)
  have n: "length (out_key_id (restored_output X o' p l)) = n" using assms(3) by (simp add: restored_output_def)
  have same: "db_fetch d1 i m = db_fetch d i m" for i m using d1(2) by (simp add: db_fetch_def)
  have fetch: "db_fetch d' i m = (if (i, m) = chain_key o' then Some (restored_output X o' p l) else db_fetch d i m)"
    if "length i = n" for i m
    using outs.fetch_store [OF outs_ok_db_wf [OF d1(5)], of i "restored_output X o' p l" m] that n same
    by (simp add: d1(1) chain_key_def restored_output_def)
  have "outs_ok n d'" unfolding d1(1) by (rule outs_ok_store [OF d1(5) n])
  then show ?thesis
    unfolding restored_def using assms(3) fetch
    by (auto simp: d1(3,4) f' d1(1) map_of_note_parent distinct_note_parent chain_key_def max_def p_def [symmetric]
        split: option.splits if_splits)
qed

lemma restore_chunk_Ok:
  "restore_chunk X now outs f d = (Ok f', d') \<Longrightarrow> outs_ok n d \<Longrightarrow> \<forall>o' \<in> set outs. length (or_key_id o') = n \<Longrightarrow>
     distinct (map chain_key outs) \<Longrightarrow> restored X n outs f d f' d'"
proof (induction outs arbitrary: f d)
  case (Cons o' outs)
  obtain f1 d1 where 1: "restore_output X now o' f d = (Ok f1, d1)" "restore_chunk X now outs f1 d1 = (Ok f', d')"
    using Cons.prems(1) by (auto simp: sbind_eq_Ok)
  have o': "restored X n [o'] f d f1 d1" using restore_output_Ok [OF 1(1) Cons.prems(2)] Cons.prems(3) by simp
  then have "outs_ok n d1" by (simp add: restored_def)
  from restored_append [OF o' Cons.IH [OF 1(2) this]] Cons.prems(3,4) show ?case by auto
qed (simp add: comp_eq_Ok restored_Nil)

lemma restore_chunks_Ok:
  "restore_chunks X now km cs f w = (Ok f', w') \<Longrightarrow> outs_ok n (w_db w) \<Longrightarrow> \<forall>o' \<in> set (concat cs). length (or_key_id o') = n \<Longrightarrow>
     distinct (map chain_key (concat cs)) \<Longrightarrow> restored X n (concat cs) f (w_db w) f' (w_db w')"
proof (induction cs arbitrary: f w)
  case (Cons c cs)
  obtain f1 w1 where 1: "with_batch X km (\<lambda>_. restore_chunk X now c f) w = (Ok f1, w1)"
    "restore_chunks X now km cs f1 w1 = (Ok f', w')"
    using Cons.prems(1) by (auto simp: sbind_eq_Ok)
  have c: "restored X n c f (w_db w) f1 (w_db w1)"
    using 1(1) restore_chunk_Ok [OF _ Cons.prems(2)] Cons.prems(3,4) by (auto simp: with_batch_Ok)
  then have "outs_ok n (w_db w1)" by (simp add: restored_def)
  from restored_append [OF c Cons.IH [OF 1(2) this]] Cons.prems(3,4) show ?case by auto
qed (simp add: comp_eq_Ok restored_Nil)

section \<open>Accounts and key counters\<close>

lemma restore_child_index_Ok:
  assumes "restore_child_index X km p m w = (Ok u, w')"
  shows "db_outputs (w_db w') = db_outputs (w_db w) \<and> db_accts (w_db w') = db_accts (w_db w) \<and>
    (m \<noteq> -1 \<longrightarrow> m < current_child_index w' p) \<and> (\<forall>q. q \<noteq> p \<longrightarrow> current_child_index w' q = current_child_index w q) \<and>
    current_child_index w p \<le> (if m = -1 then current_child_index w p else current_child_index w' p)"
proof (cases "m \<ge> current_child_index w p")
  case True
  then obtain d where "save_child_index p (m + 1) (w_db w) = (Ok u, d)" "w' = w\<lparr>w_db := d\<rparr>"
    using assms by (auto simp: restore_child_index_def sbind_eq_Ok comp_eq_Ok with_batch_Ok)
  then show ?thesis
    using True index_next [of m] by (auto simp: save_child_index_def smodify_def current_child_index_def tbl_get_put)
next
  case False
  then show ?thesis using assms by (auto simp: restore_child_index_def sbind_eq_Ok comp_eq_Ok)
qed

lemma set_acct_path_Ok:
  "set_acct_path X km l p w = (Ok u, w') \<Longrightarrow>
     w' = w\<lparr>w_db := (w_db w)\<lparr>db_accts := tbl_put (as_bytes l) \<lparr>acct_label = l, acct_path = p\<rparr> (db_accts (w_db w))\<rparr>\<rparr>"
  by (auto simp: set_acct_path_def with_batch_Ok save_acct_path_def smodify_def)

lemma restore_accounts_Ok:
  "restore_accounts X km accts ps j w = (Ok u, w') \<Longrightarrow> distinct (map fst ps) \<Longrightarrow>
     db_outputs (w_db w') = db_outputs (w_db w) \<and>
     (\<forall>q m. (q, m) \<in> set ps \<longrightarrow> m \<noteq> -1 \<longrightarrow> m < current_child_index w' q) \<and>
     (\<forall>q. q \<notin> fst ` set ps \<longrightarrow> current_child_index w' q = current_child_index w q)"
proof (induction ps arbitrary: j w)
  case (Cons p ps)
  obtain w1 w2 where 1: "(if fst p \<notin> set accts then set_acct_path X km (''account_'' @ nat_to_string j) (fst p) else sret ()) w = (Ok (), w1)"
    "restore_child_index X km (fst p) (snd p) w1 = (Ok (), w2)"
    "restore_accounts X km accts ps (if fst p \<notin> set accts then j + 1 else j) w2 = (Ok u, w')"
    using Cons.prems(1) by (auto simp: sbind_eq_Ok)
  have w1: "db_outputs (w_db w1) = db_outputs (w_db w)" "current_child_index w1 = current_child_index w"
    using 1(1) by (auto simp: comp_eq_Ok current_child_index_def dest!: set_acct_path_Ok split: if_splits)
  note ih = Cons.IH [OF 1(3)]
  note c = restore_child_index_Ok [OF 1(2)]
  show ?case
    using ih c w1 Cons.prems(2) by (auto simp: fst_eq_Domain)
qed (simp add: comp_eq_Ok)

section \<open>Repairing outputs\<close>

lemma cancel_tx_log_entry_frame:
  "cancel_tx_log_entry X km out w = (Ok u, w') \<Longrightarrow> outs_ok n (w_db w) \<Longrightarrow>
     outs_ok n (w_db w') \<and> db_outputs (w_db w') = db_outputs (w_db w)"
  by (auto simp: cancel_tx_log_entry_def Let_def sbind_eq_Ok comp_eq_Ok with_batch_Ok save_tx_log_entry_eq outs_ok_logs
      split: option.splits)

lemma repair_output_Ok:
  assumes "repair_output X km out w = (Ok u, w')" "outs_ok n (w_db w)" "length (out_key_id out) = n"
  shows "outs_ok n (w_db w') \<and> (\<forall>i m. length i = n \<longrightarrow> db_fetch (w_db w') i m =
     (if (i, m) = out_key out then Some (out\<lparr>out_status := Unspent\<rparr>) else db_fetch (w_db w) i m))"
proof -
  let ?o = "out\<lparr>out_status := Unspent\<rparr>"
  obtain w1 where c: "cancel_tx_log_entry X km ?o w = (Ok (), w1)" and w': "w_db w' = db_store ?o (w_db w1)"
    using assms(1) by (auto simp: repair_output_def Let_def sbind_eq_Ok with_batch_Ok batch_save_eq)
  note 1 = cancel_tx_log_entry_frame [OF c assms(2)]
  have "outs_ok n (db_store ?o (w_db w1))" using outs_ok_store 1 assms(3) by simp
  moreover have "db_fetch (db_store ?o (w_db w1)) i m = (if (i, m) = out_key out then Some ?o else db_fetch (w_db w) i m)"
    if "length i = n" for i m
    using outs.fetch_store [OF outs_ok_db_wf [OF conjunct1 [OF 1]], of i ?o m] that assms(3) 1
    by (simp add: out_key_def db_fetch_def)
  ultimately show ?thesis by (simp add: w')
qed

definition unspent_at :: "db \<Rightarrow> ident \<times> u64 option \<Rightarrow> bool" where
  "unspent_at d k \<longleftrightarrow> (\<exists>out. db_fetch d (fst k) (snd k) = Some out \<and> out_status out = Unspent)"

lemma repair_outputs_Ok:
  "sfor outs (repair_output X km) w = (Ok u, w') \<Longrightarrow> outs_ok n (w_db w) \<Longrightarrow> \<forall>out \<in> set outs. length (out_key_id out) = n \<Longrightarrow>
     outs_ok n (w_db w') \<and> (\<forall>out \<in> set outs. unspent_at (w_db w') (out_key out)) \<and>
     (\<forall>i m. length i = n \<longrightarrow> (i, m) \<notin> out_key ` set outs \<longrightarrow> db_fetch (w_db w') i m = db_fetch (w_db w) i m)"
proof (induction outs arbitrary: w)
  case (Cons out outs)
  obtain w1 where 1: "repair_output X km out w = (Ok (), w1)" "sfor outs (repair_output X km) w1 = (Ok u, w')"
    using Cons.prems(1) by (auto simp: sbind_eq_Ok)
  have n: "length (out_key_id out) = n" using Cons.prems(3) by simp
  note o' = repair_output_Ok [OF 1(1) Cons.prems(2) n]
  note rest = Cons.IH [OF 1(2) conjunct1 [OF o']]
  have "unspent_at (w_db w') (out_key out)"
  proof (cases "out_key out \<in> out_key ` set outs")
    case False
    then show ?thesis using rest o' Cons.prems(3) n by (auto simp: unspent_at_def out_key_def)
  qed (use rest Cons.prems(3) in auto)
  then show ?case using rest o' Cons.prems(3) by auto
qed (simp add: comp_eq_Ok)

section \<open>The scan\<close>

lemma known_with_iff:
  "out \<in> set (known_with st known outs) \<longleftrightarrow> out_status out = st \<and> (\<exists>o' \<in> set outs. known_as known o' = Some out)"
  by (force simp: known_with_def List.map_filter_def)

lemma known_as_in: "known_as known o' = Some out \<Longrightarrow> \<exists>wo \<in> set known. ocm_output wo = out"
  by (auto simp: known_as_def dest!: find_SomeD)


definition lost_output :: output_result where
  "lost_output = \<lparr>or_commit = [9], or_key_id = out_key_id (sample_output 40 0 Unspent), or_n_child = 40,
     or_mmr_index = 5, or_value = 77, or_height = 4, or_lock_height = 4, or_is_coinbase = False\<rparr>"


section \<open>The label of a restored account\<close>

text \<open>An account restored by the scan is given the label that is made of the
  number of accounts, whether or not an account has that label: the account that had it is then no account of the wallet any
  more, while the accounts with other labels are kept.\<close>

theorem restored_account_takes_a_label:
  assumes "restore_accounts X km (map acct_path (accounts w)) [(p, m)] (length (accounts w)) w = (Ok u, w')"
    and "p \<notin> acct_path ` set (accounts w)" "w_wf w"
  shows "let label = ''account_'' @ nat_to_string (length (accounts w)) in
    get_acct_path label w' = Some \<lparr>acct_label = label, acct_path = p\<rparr> \<and>
    (\<forall>l. as_bytes l \<noteq> as_bytes label \<longrightarrow> get_acct_path l w' = get_acct_path l w) \<and>
    (\<forall>a. get_acct_path label w = Some a \<longrightarrow> (\<forall>l. as_bytes l \<noteq> as_bytes label \<longrightarrow> get_acct_path l w \<noteq> Some a) \<longrightarrow>
       a \<in> set (accounts w) \<and> a \<notin> set (accounts w'))"
proof -
  define l where "l = ''account_'' @ nat_to_string (length (accounts w))"
  obtain w1 where 1: "set_acct_path X km l p w = (Ok (), w1)" "restore_child_index X km p m w1 = (Ok (), w')"
    using assms(1,2) by (auto simp: sbind_eq_Ok comp_eq_Ok l_def)
  have accts: "db_accts (w_db w') = tbl_put (as_bytes l) \<lparr>acct_label = l, acct_path = p\<rparr> (db_accts (w_db w))"
    using restore_child_index_Ok [OF 1(2)] set_acct_path_Ok [OF 1(1)] by simp
  have wf: "tbl_wf (db_accts (w_db w))" using assms(3) by (simp add: w_wf_def db_wf_def)
  have bytes: "\<exists>l'. k = as_bytes l'" for k :: bytes
  proof
    have "of_char (char_of (unat b)) = b" for b :: u8
    proof -
      have "(of_char (char_of (unat b)) :: nat) = unat b"
        using unsigned_less [where ?'a = nat, of b] by simp
      then show ?thesis using of_nat_of_char [where ?'a = u8, of "char_of (unat b)"] by simp
    qed
    then show "k = as_bytes (map (\<lambda>b. char_of (unat b)) k)" by (simp add: as_bytes_def comp_def)
  qed
  have "a \<in> set (accounts w) \<and> a \<notin> set (accounts w')"
    if a: "get_acct_path l w = Some a" "\<forall>l'. as_bytes l' \<noteq> as_bytes l \<longrightarrow> get_acct_path l' w \<noteq> Some a" for a
  proof -
    have mem: "a \<in> set (accounts w)"
      using a(1) tbl.vals_iff [OF wf] by (auto simp: accounts_def acct_path_iter_def get_acct_path_def)
    then have "acct_path a \<noteq> p" using assms(2) by blast
    have "tbl_get (db_accts (w_db w')) k \<noteq> Some a" for k
    proof -
      obtain l' where k: "k = as_bytes l'" using bytes by blast
      show ?thesis
      proof (cases "as_bytes l' = as_bytes l")
        case True
        then show ?thesis using \<open>acct_path a \<noteq> p\<close> by (auto simp: accts tbl_get_put k)
      next
        case False
        then show ?thesis using a(2) by (simp add: accts tbl_get_put k get_acct_path_def)
      qed
    qed
    then show ?thesis
      using mem tbl.vals_iff [OF tbl_wf_put [OF wf]] by (auto simp: accounts_def acct_path_iter_def accts)
  qed
  then show ?thesis
    unfolding Let_def l_def [symmetric] by (auto simp: get_acct_path_def accts tbl_get_put)
qed

text \<open>Two accounts, the second named by its owner as the scan would name a third\<close>

definition labelled_wallet :: wallet where
  "labelled_wallet = sample_wallet\<lparr>w_db := db_empty\<lparr>db_accts :=
     [(as_bytes ''account_2'', \<lparr>acct_label = ''account_2'', acct_path = [2, 0, 0, 0, 1]\<rparr>),
      (as_bytes ''default'', \<lparr>acct_label = ''default'', acct_path = w_parent_key_id sample_wallet\<rparr>)]\<rparr>\<rparr>"

theorem restored_account_takes_a_label_witness:
  "\<exists>w'. restore_accounts sample_ext None (map acct_path (accounts labelled_wallet)) [([2, 0, 0, 0, 7], 3)] 2 labelled_wallet = (Ok (), w') \<and>
     get_acct_path ''account_2'' w' = Some \<lparr>acct_label = ''account_2'', acct_path = [2, 0, 0, 0, 7]\<rparr> \<and>
     \<lparr>acct_label = ''account_2'', acct_path = [2, 0, 0, 0, 1]\<rparr> \<notin> set (accounts w')"
proof -
  let ?c = "restore_accounts sample_ext None (map acct_path (accounts labelled_wallet)) [([2, 0, 0, 0, 7], 3)] (length (accounts labelled_wallet))"
  have "is_Ok (fst (?c labelled_wallet))" by code_simp
  then have c: "?c labelled_wallet = (Ok (), snd (?c labelled_wallet))" using is_Ok_run [of ?c labelled_wallet] by auto
  have p: "[2, 0, 0, 0, 7] \<notin> acct_path ` set (accounts labelled_wallet)" by code_simp
  have wf: "w_wf labelled_wallet" unfolding w_wf_def db_wf_def tbl_wf_def by code_simp
  have l: "''account_'' @ nat_to_string (length (accounts labelled_wallet)) = ''account_2''" "length (accounts labelled_wallet) = 2"
    by code_simp+
  have g: "get_acct_path ''account_2'' labelled_wallet = Some \<lparr>acct_label = ''account_2'', acct_path = [2, 0, 0, 0, 1]\<rparr>"
    by code_simp
  have other: "get_acct_path l labelled_wallet \<noteq> Some \<lparr>acct_label = ''account_2'', acct_path = [2, 0, 0, 0, 1]\<rparr>"
    if "as_bytes l \<noteq> as_bytes ''account_2''" for l
    using that by (auto simp: get_acct_path_def labelled_wallet_def)
  show ?thesis
    using restored_account_takes_a_label [OF c p wf, unfolded Let_def l(1)] c [unfolded l(2)] g other unfolding l(2) by blast
qed

end
