(* ===== verification/Owner.thy ===== *)
theory Owner
  imports Scan Exchange
begin

text \<open>
  The owner's operations (\<open>libwallet/src/api_impl/owner.rs\<close>) besides the exchange of slates:
  bringing the wallet up to date with the chain, and the queries that do so first; scanning,
  cancelling, the stored transaction, payment proofs and fresh outputs. Status messages are left
  out. Errors of the node are passed on with the text of the code, without the one they embed.
\<close>

section \<open>Accounts and addresses\<close>

definition create_account_path :: "ext \<Rightarrow> secret_key option \<Rightarrow> string \<Rightarrow> ident wop" where
  "create_account_path X km label = new_acct_path X km label"

definition set_active_account :: "string \<Rightarrow> unit wop" where
  "set_active_account label = set_parent_key_id_by_name label"

definition get_rewind_hash :: "ext \<Rightarrow> secret_key option \<Rightarrow> string wop" where
  "get_rewind_hash X km = sbind (the_keychain X km) (\<lambda>k. sret (x_rewind_hash X k))"

definition get_slatepack_secret_key :: "ext \<Rightarrow> secret_key option \<Rightarrow> u32 \<Rightarrow> bytes wop" where
  "get_slatepack_secret_key X km index =
     sbind (sread w_parent_key_id) (\<lambda>parent_key_id.
     sbind (the_keychain X km) (\<lambda>k. slift (address_from_derivation_path X k parent_key_id index)))"

definition get_slatepack_address :: "ext \<Rightarrow> secret_key option \<Rightarrow> u32 \<Rightarrow> slatepack_address wop" where
  "get_slatepack_address X km index =
     sbind (sread w_parent_key_id) (\<lambda>parent_key_id.
     sbind (the_keychain X km) (\<lambda>k.
     sbind (slift (address_from_derivation_path X k parent_key_id index)) (\<lambda>sec_addr_key.
       sret (address_of_secret X sec_addr_key))))"

section \<open>Bringing the wallet up to date\<close>

text \<open>A refresh that fails is reported as not updated, but for a wrong mask.\<close>

definition update_outputs :: "ext \<Rightarrow> node \<Rightarrow> timestamp \<Rightarrow> secret_key option \<Rightarrow> bool \<Rightarrow> bool wop" where
  "update_outputs X N now km update_all =
     sbind (sread w_parent_key_id) (\<lambda>parent_key_id w.
       case refresh_outputs X N now km parent_key_id update_all w of
         (Ok _, w') \<Rightarrow> (Ok True, w')
       | (Err e, w') \<Rightarrow> (if e = Wal InvalidKeychainMask then Err e else Ok False, w')
       | (Panic, w') \<Rightarrow> (Panic, w'))"

text \<open>
  Entries without inputs or without outputs of ours are confirmed by their kernel. The entries
  come back as they are then; the flag is whether the node answered.
\<close>

definition no_lookup :: "tx_log_entry \<Rightarrow> bool" where
  "no_lookup tx \<longleftrightarrow> txe_confirmed tx \<or> (txe_amount_debited tx \<noteq> 0 \<and> txe_amount_credited tx \<noteq> 0)"

primrec confirm_by_kernel ::
  "ext \<Rightarrow> node \<Rightarrow> timestamp \<Rightarrow> secret_key option \<Rightarrow> ident \<Rightarrow> u64 \<Rightarrow> tx_log_entry list \<Rightarrow> (bool \<times> tx_log_entry list) wop" where
  "confirm_by_kernel X N now km parent_key_id height [] = sret (True, [])"
| "confirm_by_kernel X N now km parent_key_id height (tx # txs) =
     (let go_on = (\<lambda>tx. sbind (confirm_by_kernel X N now km parent_key_id height txs) (\<lambda>(b, txs'). sret (b, tx # txs')))
      in if no_lookup tx then go_on tx
         else case txe_kernel_excess tx of
           None \<Rightarrow> go_on tx
         | Some e \<Rightarrow>
             (case n_kernel N e (txe_kernel_lookup_min_height tx) (Some height) of
                Ok None \<Rightarrow> go_on tx
              | Ok (Some _) \<Rightarrow>
                  (let tx' = update_confirmation_ts now (tx\<lparr>txe_confirmed := True\<rparr>)
                   in sbind (with_batch X km (\<lambda>_. save_tx_log_entry tx' parent_key_id)) (\<lambda>_. go_on tx'))
              | Err _ \<Rightarrow> sret (False, tx # txs)
              | Panic \<Rightarrow> slift Panic))"

definition update_txs_via_kernel ::
  "ext \<Rightarrow> node \<Rightarrow> timestamp \<Rightarrow> secret_key option \<Rightarrow> tx_log_entry list \<Rightarrow> (bool \<times> tx_log_entry list) wop" where
  "update_txs_via_kernel X N now km txs =
     sbind (sread w_parent_key_id) (\<lambda>parent_key_id.
       case n_chain_tip N of
         Ok (height, _) \<Rightarrow> confirm_by_kernel X N now km parent_key_id height txs
       | Err _ \<Rightarrow> sret (False, txs)
       | Panic \<Rightarrow> slift Panic)"

text \<open>
  Heights are scanned in batches of ten thousand and one, and after each batch its end is saved;
  the wallet counts as initialised after the first batch of an update.
\<close>

definition batch_starts :: "u64 \<Rightarrow> u64 \<Rightarrow> u64 list" where
  "batch_starts start_height tip =
     (let past = tip + 1
      in if past \<le> start_height then []
         else map (\<lambda>i. start_height + of_nat (10001 * i)) [0 ..< (unat past - unat start_height + 10000) div 10001])"

definition save_progress :: "ext \<Rightarrow> secret_key option \<Rightarrow> bool \<Rightarrow> scanned_block_info \<Rightarrow> unit wop" where
  "save_progress X km init info = with_batch X km (\<lambda>_.
     sbind (save_last_scanned_block info) (\<lambda>_. if init then save_init_status InitComplete else sret ()))"

primrec scan_batches ::
  "ext \<Rightarrow> node \<Rightarrow> timestamp \<Rightarrow> secret_key option \<Rightarrow> bool \<Rightarrow> bool \<Rightarrow> u64 \<Rightarrow> u64 \<times> string \<Rightarrow> (u64 \<times> u64) option \<Rightarrow> u64 list \<Rightarrow> unit lop" where
  "scan_batches X N now km delete_unconfirmed init start_height tip pmmr [] = lret ()"
| "scan_batches X N now km delete_unconfirmed init start_height tip pmmr (h # hs) =
     (let batch_end_height = min (fst tip) (h + 10000) in
      lbind (internal_scan X N now km delete_unconfirmed h batch_end_height start_height (fst tip) pmmr) (\<lambda>(info, range).
      lbind (lwop (save_progress X km init
          (info\<lparr>sbi_hash := (if batch_end_height = fst tip then snd tip else '''')\<rparr>))) (\<lambda>_.
        scan_batches X N now km delete_unconfirmed init start_height tip (Some range) hs)))"

definition REORG_RESCAN_WINDOW :: u64 where
  "REORG_RESCAN_WINDOW = 24 * 60 * 2"

definition expired_at :: "u64 \<Rightarrow> tx_log_entry \<Rightarrow> bool" where
  "expired_at tip tx \<longleftrightarrow> (case txe_ttl_cutoff_height tx of Some e \<Rightarrow> tip \<ge> e | None \<Rightarrow> False)"

definition cancel_expired :: "ext \<Rightarrow> secret_key option \<Rightarrow> u64 \<Rightarrow> tx_log_entry list \<Rightarrow> unit wop" where
  "cancel_expired X km tip txs =
     sfor (filter (expired_at tip) txs) (\<lambda>tx.
       sbind (sread w_parent_key_id) (\<lambda>parent_key_id. cancel_tx X km parent_key_id (Some (txe_id tx)) None))"

definition bookmark :: "u64 \<times> string \<Rightarrow> wallet \<Rightarrow> scanned_block_info" where
  "bookmark tip w = (case init_status w of
     InitNoScanning \<Rightarrow> \<lparr>sbi_height = fst tip, sbi_hash = snd tip, sbi_start_pmmr_index = 0, sbi_last_pmmr_index = 0\<rparr>
   | _ \<Rightarrow> last_scanned_block w)"

definition update_wallet_state :: "ext \<Rightarrow> node \<Rightarrow> timestamp \<Rightarrow> secret_key option \<Rightarrow> bool \<Rightarrow> bool lop" where
  "update_wallet_state X N now km update_all =
     lbind (lwop (sread w_parent_key_id)) (\<lambda>parent_key_id.
     lbind (lwop (update_outputs X N now km update_all)) (\<lambda>result.
     if \<not> result then lret False
     else
       lbind (lwop (sread (\<lambda>w. retrieve_txs w None None None (Some parent_key_id) True))) (\<lambda>txs.
       lbind (lwop (update_txs_via_kernel X N now km txs)) (\<lambda>(result, txs).
       if \<not> result then lret False
       else case n_chain_tip N of
         Ok tip \<Rightarrow>
           lbind (lwop (sread (bookmark tip))) (\<lambda>last_scanned.
           let start_height = saturating_sub64 (sbi_height last_scanned) REORG_RESCAN_WINDOW
           in lbind (scan_batches X N now km False True start_height tip None (batch_starts start_height (fst tip))) (\<lambda>_.
              lbind (lwop (cancel_expired X km (fst tip) txs)) (\<lambda>_. lret True)))
       | Err _ \<Rightarrow> lret False
       | Panic \<Rightarrow> lwop (slift Panic)))))"

section \<open>Queries that bring the wallet up to date first\<close>

definition validated :: "ext \<Rightarrow> node \<Rightarrow> timestamp \<Rightarrow> secret_key option \<Rightarrow> bool \<Rightarrow> bool lop" where
  "validated X N now km refresh_from_node =
     (if refresh_from_node then update_wallet_state X N now km False else lret False)"

definition owner_retrieve_outputs ::
  "ext \<Rightarrow> node \<Rightarrow> timestamp \<Rightarrow> secret_key option \<Rightarrow> bool \<Rightarrow> bool \<Rightarrow> u32 option \<Rightarrow> (bool \<times> output_commit_mapping list) lop" where
  "owner_retrieve_outputs X N now km include_spent refresh_from_node tx_id =
     lbind (validated X N now km refresh_from_node) (\<lambda>v.
     lbind (lwop (sread w_parent_key_id)) (\<lambda>parent_key_id.
     lbind (lwop (retrieve_outputs X km include_spent tx_id (Some parent_key_id))) (\<lambda>outs. lret (v, outs))))"

text \<open>The most that can be sent: all spendable coins, or what the heaviest transaction can carry\<close>

definition max_sendable :: "ext \<Rightarrow> u64 \<Rightarrow> wallet \<Rightarrow> (u64 \<times> u64 \<times> u32) result" where
  "max_sendable X minimum_confirmations w =
     (let parent_key_id = w_parent_key_id w;
          info = retrieve_info w parent_key_id minimum_confirmations
      in case select_coins_and_fee X w (wi_amount_currently_spendable info) True
                (last_confirmed_height_for_parent w parent_key_id) minimum_confirmations 500 1 True parent_key_id of
           Ok (coins, _, amount, fee) \<Rightarrow> Ok (amount, fee, of_nat (length coins))
         | Err e \<Rightarrow> (case e of
             Wal (BigAmountError amount fee input_count) \<Rightarrow>
               rbind (ok_or (Lib (GenericError (''Transaction amount '' @ x_amount_hr X amount True @
                   '' is too small to include fee '' @ x_amount_hr X fee True @ '', send lower amount'')))
                 (checked_sub64 amount fee)) (\<lambda>amount. Ok (amount, fee, input_count))
           | _ \<Rightarrow> Err e)
         | Panic \<Rightarrow> Panic)"

definition estimate_max_sendable ::
  "ext \<Rightarrow> node \<Rightarrow> timestamp \<Rightarrow> secret_key option \<Rightarrow> bool \<Rightarrow> u64 \<Rightarrow> (bool \<times> u64 \<times> u64 \<times> u32) lop" where
  "estimate_max_sendable X N now km refresh_from_node minimum_confirmations =
     lbind (validated X N now km refresh_from_node) (\<lambda>v.
     lbind (lwop (sbind (sread (max_sendable X minimum_confirmations)) slift)) (\<lambda>r. lret (v, r)))"

definition owner_retrieve_txs ::
  "ext \<Rightarrow> node \<Rightarrow> timestamp \<Rightarrow> secret_key option \<Rightarrow> bool \<Rightarrow> u32 option \<Rightarrow> uuid option \<Rightarrow> retrieve_tx_query_args option
    \<Rightarrow> (bool \<times> tx_log_entry list) lop" where
  "owner_retrieve_txs X N now km refresh_from_node tx_id tx_slate_id query_args =
     lbind (validated X N now km refresh_from_node) (\<lambda>v.
     lbind (lwop (sread (\<lambda>w. retrieve_txs w tx_id tx_slate_id query_args (Some (w_parent_key_id w)) False))) (\<lambda>txs.
       lret (v, txs)))"

definition retrieve_summary_info ::
  "ext \<Rightarrow> node \<Rightarrow> timestamp \<Rightarrow> secret_key option \<Rightarrow> bool \<Rightarrow> u64 \<Rightarrow> (bool \<times> wallet_info) lop" where
  "retrieve_summary_info X N now km refresh_from_node minimum_confirmations =
     lbind (validated X N now km refresh_from_node) (\<lambda>v.
     lbind (lwop (sread (\<lambda>w. retrieve_info w (w_parent_key_id w) minimum_confirmations))) (\<lambda>i. lret (v, i)))"

text \<open>Cancelling needs a node that answers.\<close>

definition owner_cancel_tx ::
  "ext \<Rightarrow> node \<Rightarrow> timestamp \<Rightarrow> secret_key option \<Rightarrow> u32 option \<Rightarrow> uuid option \<Rightarrow> unit lop" where
  "owner_cancel_tx X N now km tx_id tx_slate_id =
     lbind (update_wallet_state X N now km False) (\<lambda>updated.
     if \<not> updated
     then lwop (sfail (Txn (TransactionCancellationError ''Can't contact running Grin node. Not Cancelling.'')))
     else lbind (lwop (sread w_parent_key_id)) (\<lambda>parent_key_id. lwop (cancel_tx X km parent_key_id tx_id tx_slate_id)))"

section \<open>Payment proofs\<close>

record payment_proof =
  pp_amount :: u64
  pp_excess :: commitment
  pp_recipient_address :: slatepack_address
  pp_recipient_sig :: dalek_sig
  pp_sender_address :: slatepack_address
  pp_sender_sig :: dalek_sig

definition no_proof :: "string \<Rightarrow> error" where
  "no_proof s = Txn (PaymentProofRetrieval s)"

text \<open>The amount an entry transfers, without the fee of its sender\<close>

definition net_amount :: "ext \<Rightarrow> tx_log_entry \<Rightarrow> u64" where
  "net_amount X tx =
     (if txe_amount_credited tx \<ge> txe_amount_debited tx then txe_amount_credited tx - txe_amount_debited tx
      else txe_amount_debited tx - txe_amount_credited tx - (case txe_fee tx of Some f \<Rightarrow> x_fee X f | None \<Rightarrow> 0))"

definition proof_of_entry :: "ext \<Rightarrow> tx_log_entry \<Rightarrow> payment_proof result" where
  "proof_of_entry X tx =
     rbind (ok_or (no_proof ''Transaction does not contain a payment proof'') (txe_payment_proof tx)) (\<lambda>p.
     rbind (ok_or (no_proof ''Transaction does not contain kernel excess'') (txe_kernel_excess tx)) (\<lambda>excess.
     rbind (ok_or (no_proof ''Proof does not contain receiver signature '') (spi_receiver_signature p)) (\<lambda>r_sig.
     rbind (ok_or (no_proof ''Proof does not contain sender signature '') (spi_sender_signature p)) (\<lambda>s_sig.
       Ok \<lparr>pp_amount = net_amount X tx, pp_excess = excess,
           pp_recipient_address = address_new X (spi_receiver_address p), pp_recipient_sig = r_sig,
           pp_sender_address = address_new X (spi_sender_address p), pp_sender_sig = s_sig\<rparr>))))"

definition retrieve_payment_proof ::
  "ext \<Rightarrow> node \<Rightarrow> timestamp \<Rightarrow> secret_key option \<Rightarrow> bool \<Rightarrow> u32 option \<Rightarrow> uuid option \<Rightarrow> payment_proof lop" where
  "retrieve_payment_proof X N now km refresh_from_node tx_id tx_slate_id =
     (if tx_id = None \<and> tx_slate_id = None
      then lwop (sfail (no_proof ''Transaction ID or Slate UUID must be specified''))
      else
        lbind (validated X N now km refresh_from_node) (\<lambda>_.
        lbind (owner_retrieve_txs X N now km refresh_from_node tx_id tx_slate_id None) (\<lambda>(_, txs).
          case txs of
            [tx] \<Rightarrow> lwop (slift (proof_of_entry X tx))
          | _ \<Rightarrow> lwop (sfail (no_proof ''Transaction doesn't exist'')))))"

definition bad_proof :: "string \<Rightarrow> error" where
  "bad_proof s = Txn (PaymentProof s)"

text \<open>Whether the wallet is the sender and whether it is the recipient of a proof that holds\<close>

definition verify_payment_proof ::
  "ext \<Rightarrow> node \<Rightarrow> secret_key option \<Rightarrow> payment_proof \<Rightarrow> (bool \<times> bool) wop" where
  "verify_payment_proof X N km p =
     (let sender_pubkey = sa_pub_key (pp_sender_address p);
          recipient_pubkey = sa_pub_key (pp_recipient_address p);
          msg = payment_proof_message (pp_amount p) (pp_excess p) sender_pubkey
      in sbind (sread w_parent_key_id) (\<lambda>parent_key_id.
         sbind (the_keychain X km) (\<lambda>k.
         sbind (slift (case n_kernel N (pp_excess p) None None of
             Err _ \<Rightarrow> Err (bad_proof ''Error retrieving kernel from chain'')
           | Ok None \<Rightarrow> Err (bad_proof ''Transaction kernel not found on chain'')
           | Ok (Some _) \<Rightarrow> Ok ()
           | Panic \<Rightarrow> Panic)) (\<lambda>_.
         if \<not> x_dalek_verify X recipient_pubkey msg (pp_recipient_sig p)
         then sfail (bad_proof ''Invalid recipient signature'')
         else if \<not> x_dalek_verify X sender_pubkey msg (pp_sender_sig p)
         then sfail (bad_proof ''Invalid sender signature'')
         else
           sbind (slift (address_from_derivation_path X k parent_key_id 0)) (\<lambda>sec_key.
           let my_address_pubkey = x_dalek_pk X sec_key
           in sret (my_address_pubkey = sender_pubkey, my_address_pubkey = recipient_pubkey))))))"

section \<open>Stored transactions, scans, heights and outputs\<close>

text \<open>An entry is looked up by its number in whatever account.\<close>

definition owner_get_stored_tx :: "ext \<Rightarrow> u32 option \<Rightarrow> uuid option \<Rightarrow> slate option wop" where
  "owner_get_stored_tx X tx_id slate_id =
     sbind (sread (\<lambda>w. case tx_id of
         Some i \<Rightarrow> (case find (\<lambda>t. txe_id t = i) (wallet_tx_log w) of Some t \<Rightarrow> txe_tx_slate_id t | None \<Rightarrow> None)
       | None \<Rightarrow> None)) (\<lambda>uuid.
     case (if uuid = None then slate_id else uuid) of
       None \<Rightarrow> sfail (Wal (StoredTx ''Both the provided Transaction Id and Slate UUID are invalid.''))
     | Some i \<Rightarrow>
         sbind (get_stored_tx X (x_uuid_str X i)) (\<lambda>tx_res.
           case tx_res of
             None \<Rightarrow> sret None
           | Some tx \<Rightarrow>
               sbind (slift (unwrap (x_aggregate_fee X tx))) (\<lambda>fee.
                 sret (Some ((slate_blank X i 2 False)\<lparr>sl_tx := Some tx, sl_fee_fields := fee,
                    sl_offset := t_offset tx, sl_state := Standard3\<rparr>)))))"

definition is_hexdigit :: "char \<Rightarrow> bool" where
  "is_hexdigit c \<longleftrightarrow> c \<in> set ''0123456789abcdefABCDEF''"

definition lower :: "char \<Rightarrow> char" where
  "lower c = (if c \<in> set ''ABCDEFGHIJKLMNOPQRSTUVWXYZ'' then char_of (of_char c + 32 :: nat) else c)"

definition scan_rewind_hash :: "ext \<Rightarrow> node \<Rightarrow> string \<Rightarrow> u64 option \<Rightarrow> view_wallet lop" where
  "scan_rewind_hash X N rewind_hash start_height =
     (let is_hex = (\<forall>c \<in> set rewind_hash. is_hexdigit c);
          rewind_hash = map lower rewind_hash
      in if \<not> (is_hex \<and> length rewind_hash = 64)
         then lwop (sfail (Wal (RewindHash ''Invalid Rewind Hash'')))
         else lbind (lwop (slift (n_chain_tip N))) (\<lambda>tip.
           internal_scan_rewind_hash X N rewind_hash (case start_height of Some h \<Rightarrow> h | None \<Rightarrow> 1) (fst tip)))"

definition owner_scan ::
  "ext \<Rightarrow> node \<Rightarrow> timestamp \<Rightarrow> secret_key option \<Rightarrow> u64 option \<Rightarrow> bool \<Rightarrow> unit lop" where
  "owner_scan X N now km start_height delete_unconfirmed =
     lbind (lwop (update_outputs X N now km True)) (\<lambda>_.
     lbind (lwop (slift (n_chain_tip N))) (\<lambda>tip.
     let start_height = (case start_height of Some h \<Rightarrow> h | None \<Rightarrow> 1)
     in scan_batches X N now km delete_unconfirmed False start_height tip None (batch_starts start_height (fst tip))))"

record node_height_result =
  nh_height :: u64
  nh_header_hash :: string
  nh_updated_from_node :: bool

definition node_height :: "ext \<Rightarrow> node \<Rightarrow> timestamp \<Rightarrow> secret_key option \<Rightarrow> node_height_result lop" where
  "node_height X N now km = (case n_chain_tip N of
     Ok r \<Rightarrow> lret \<lparr>nh_height = fst r, nh_header_hash = snd r, nh_updated_from_node = True\<rparr>
   | Err _ \<Rightarrow>
       lbind (owner_retrieve_outputs X N now km True False None) (\<lambda>(_, outputs).
         lret \<lparr>nh_height = foldl max 0 (map (\<lambda>m. out_height (ocm_output m)) outputs),
               nh_header_hash = '''', nh_updated_from_node = False\<rparr>)
   | Panic \<Rightarrow> lwop (slift Panic))"

record built_output =
  bo_blind :: blinding_factor
  bo_key_id :: ident
  bo_output :: tx_output

definition owner_build_output ::
  "ext \<Rightarrow> secret_key option \<Rightarrow> output_features \<Rightarrow> u64 \<Rightarrow> built_output wop" where
  "owner_build_output X km features amount =
     sbind (the_keychain X km) (\<lambda>k.
     sbind (next_available_key X km) (\<lambda>key_id.
     sbind (slift (x_derive_key X k amount key_id Switch_Regular)) (\<lambda>blind.
     sbind (slift (x_commit_blind X amount blind)) (\<lambda>commit.
     sbind (slift (x_proof_create X k amount key_id Switch_Regular commit)) (\<lambda>proof'.
       sret \<lparr>bo_blind = blind, bo_key_id = key_id,
             bo_output = \<lparr>ou_features = features, ou_commit = commit, ou_proof = proof'\<rparr>\<rparr>)))))"

end
