(* ===== verification/Owner_Props.thy ===== *)
theory Owner_Props
  imports Owner Scan_Props Final_Props
begin

text \<open>
  The properties of the owner's operations: an update returns when the node makes progress, its
  batches cover the heights exactly, a node that does not answer changes nothing, an entry that
  is confirmed by its kernel after its cutoff height stops the update, and a payment proof that was
  stored when finalising is accepted by whoever checks it.
\<close>

section \<open>Updates return\<close>

text \<open>
  A node makes progress when each page either reaches the end it reports or ends at or after its
  beginning and before the end of the range.
\<close>

definition progresses :: "node \<Rightarrow> bool" where
  "progresses N \<longleftrightarrow> (\<forall>s e h l outs. n_outputs_by_pmmr_index N s (Some e) batch_size = Ok (h, l, outs) \<longrightarrow>
     h \<le> l \<or> s \<le> l \<and> l < e)"

definition halts :: "'a lop \<Rightarrow> bool" where
  "halts m \<longleftrightarrow> (\<forall>w. m w \<noteq> None)"

named_theorems halts_intros

lemma halts_lwop [halts_intros]: "halts (lwop m)" "halts (lret a)"
  by (simp_all add: halts_def lwop_def lret_def)

lemma halts_lloop [halts_intros]: "r \<noteq> None \<Longrightarrow> halts (lloop r)"
  by (simp add: halts_def lloop_def)

lemma halts_lbind [halts_intros]: "halts m \<Longrightarrow> (\<And>a. halts (f a)) \<Longrightarrow> halts (lbind m f)"
  by (auto simp: halts_def lbind_def split: option.splits prod.splits res.splits)

lemma halts_if [halts_intros]: "(b \<Longrightarrow> halts m) \<Longrightarrow> (\<not> b \<Longrightarrow> halts n) \<Longrightarrow> halts (if b then m else n)"
  by simp

lemma collect_pages_halts:
  assumes "progresses N"
  shows "collect_pages X N k e s acc \<noteq> None"
proof (induction "unat e - unat s" arbitrary: s acc rule: less_induct)
  case less
  show ?case
  proof (cases "n_outputs_by_pmmr_index N s (Some e) batch_size")
    case (Ok r)
    obtain h l outs where r: "r = (h, l, outs)" by (cases r)
    show ?thesis
    proof (cases "h \<le> l")
      case False
      then have l: "s \<le> l" "l < e" using assms Ok r unfolding progresses_def by blast+
      then have "unat e - unat (l + 1) < unat e - unat s"
        by (simp add: unat_next word_le_nat_alt word_less_nat_alt)
      from less [OF this] Ok r False show ?thesis
        by (cases "identify_utxo_outputs X k outs") (simp_all add: collect_pages.simps [of X N k e s])
    qed (use Ok r in \<open>cases "identify_utxo_outputs X k outs"; simp add: collect_pages.simps [of X N k e s]\<close>)
  qed (simp_all add: collect_pages.simps [of X N k e s])
qed

lemma internal_scan_halts: "progresses N \<Longrightarrow> halts (internal_scan X N now km del a b c d p)"
  unfolding internal_scan_def collect_chain_outputs_def split_def
  by (intro halts_intros collect_pages_halts) simp_all

lemma scan_batches_halts: "progresses N \<Longrightarrow> halts (scan_batches X N now km del init start tip p hs)"
  by (induction hs arbitrary: p) (auto simp: Let_def split_def intro!: halts_intros internal_scan_halts)

lemma update_wallet_state_halts: "progresses N \<Longrightarrow> halts (update_wallet_state X N now km all)"
  unfolding update_wallet_state_def Let_def split_def
  by (cases "n_chain_tip N") (auto intro!: halts_intros scan_batches_halts)

text \<open>C15: with a node that makes progress, whatever it answers, bringing the wallet up to date,
  the queries that do so first, cancelling and scanning return.\<close>

theorem updates_return:
  assumes "progresses N"
  shows "update_wallet_state X N now km update_all w \<noteq> None \<and>
    owner_scan X N now km start_height delete_unconfirmed w \<noteq> None \<and>
    owner_cancel_tx X N now km tx_id tx_slate_id w \<noteq> None \<and>
    owner_retrieve_outputs X N now km include_spent refresh tx_id w \<noteq> None \<and>
    estimate_max_sendable X N now km refresh minimum_confirmations w \<noteq> None \<and>
    owner_retrieve_txs X N now km refresh tx_id tx_slate_id query_args w \<noteq> None \<and>
    retrieve_summary_info X N now km refresh minimum_confirmations w \<noteq> None \<and>
    retrieve_payment_proof X N now km refresh tx_id tx_slate_id w \<noteq> None"
proof -
  note u = update_wallet_state_halts [OF assms]
  have v: "halts (validated X N now km refresh)" unfolding validated_def by (intro halts_intros u)
  have txs: "halts (owner_retrieve_txs X N now km refresh tx_id tx_slate_id q)" for q
    unfolding owner_retrieve_txs_def by (intro halts_intros v)
  have proof_of: "halts (case txs of [tx] \<Rightarrow> lwop (slift (proof_of_entry X tx)) | _ \<Rightarrow> lwop (sfail e))" for txs e
    by (auto split: list.split intro: halts_intros)
  have "halts (owner_scan X N now km start_height delete_unconfirmed)"
    unfolding owner_scan_def Let_def by (intro halts_intros scan_batches_halts assms)
  moreover have "halts (owner_cancel_tx X N now km tx_id tx_slate_id)"
    unfolding owner_cancel_tx_def by (intro halts_intros u)
  moreover have "halts (owner_retrieve_outputs X N now km include_spent refresh tx_id)"
    "halts (estimate_max_sendable X N now km refresh minimum_confirmations)"
    "halts (retrieve_summary_info X N now km refresh minimum_confirmations)"
    unfolding owner_retrieve_outputs_def estimate_max_sendable_def retrieve_summary_info_def
    by (intro halts_intros v)+
  moreover have "halts (retrieve_payment_proof X N now km refresh tx_id tx_slate_id)"
    unfolding retrieve_payment_proof_def split_def by (intro halts_intros v txs proof_of)
  ultimately show ?thesis using u txs by (auto simp: halts_def)
qed

theorem updates_return_witness:
  "update_wallet_state sample_ext quiet_node 0 None False rich_wallet \<noteq> None"
proof -
  have "progresses quiet_node" by (simp add: progresses_def quiet_node_def)
  from updates_return [OF this] show ?thesis by blast
qed

section \<open>A node that does not answer\<close>

text \<open>When the node does not tell its tip, an update reports that it did not happen, a
  transaction is not cancelled, and the height is the greatest of the wallet's own outputs; none of them changes the
  wallet.\<close>

theorem silent_node_changes_nothing:
  assumes "n_chain_tip N = Err e" "e \<noteq> Wal InvalidKeychainMask"
  shows "update_wallet_state X N now km update_all w = Some (Ok False, w) \<and>
    owner_cancel_tx X N now km tx_id tx_slate_id w =
      Some (Err (Txn (TransactionCancellationError ''Can't contact running Grin node. Not Cancelling.'')), w) \<and>
    (\<forall>r w'. node_height X N now km w = Some (Ok r, w') \<longrightarrow> w' = w \<and> \<not> nh_updated_from_node r \<and>
       (\<forall>out \<in> set (wallet_iter w). out_root_key_id out = w_parent_key_id w \<longrightarrow> out_height out \<le> nh_height r))"
proof -
  have "refresh_outputs X N now km p a w = (Err e, w)" for p a
    using assms(1) by (simp add: refresh_outputs_def sbind_def slift_def)
  then have u: "update_outputs X N now km a w = (Ok False, w)" for a
    using assms(2) by (simp add: update_outputs_def sbind_simps)
  have s: "update_wallet_state X N now km a w = Some (Ok False, w)" for a
    by (simp add: update_wallet_state_def lbind_def lwop_def lret_def sread_def sret_def u)
  have le: "x \<le> foldl max b xs" if "x \<in> insert b (set xs)" for b x :: u64 and xs
    using that
  proof (induction xs arbitrary: b x)
    case (Cons y xs)
    have "max b y \<le> foldl max (max b y) xs" by (rule Cons.IH) simp
    moreover have "x \<in> set xs \<Longrightarrow> x \<le> foldl max (max b y) xs" by (rule Cons.IH) simp
    ultimately show ?case using Cons.prems by auto
  qed simp
  have "w' = w \<and> \<not> nh_updated_from_node r \<and>
       (\<forall>out \<in> set (wallet_iter w). out_root_key_id out = w_parent_key_id w \<longrightarrow> out_height out \<le> nh_height r)"
    if h: "node_height X N now km w = Some (Ok r, w')" for r w'
  proof -
    obtain outs where outs: "retrieve_outputs X km True None (Some (w_parent_key_id w)) w = (Ok outs, w')"
      and r: "r = \<lparr>nh_height = foldl max 0 (map (\<lambda>m. out_height (ocm_output m)) outs), nh_header_hash = '''', nh_updated_from_node = False\<rparr>"
      using h assms(1)
      by (auto simp: node_height_def lbind_eq_Ok lop_eq_Ok owner_retrieve_outputs_def validated_def comp_eq_Ok)
    note o' = retrieve_outputs_Ok [OF outs]
    have "out \<in> set (map ocm_output outs)" if "out \<in> set (wallet_iter w)" "out_root_key_id out = w_parent_key_id w" for out
      using o' that by auto
    then have "out_height out \<in> set (map (\<lambda>m. out_height (ocm_output m)) outs)"
      if "out \<in> set (wallet_iter w)" "out_root_key_id out = w_parent_key_id w" for out
      using that by (force simp: image_iff)
    then show ?thesis using o' le [of _ 0] by (simp add: r)
  qed
  then show ?thesis by (auto simp: s owner_cancel_tx_def lbind_def lwop_def sfail_def)
qed

theorem silent_node_changes_nothing_witness:
  "update_wallet_state sample_ext (quiet_node\<lparr>n_chain_tip := Err (Com Node)\<rparr>) 0 None False rich_wallet = Some (Ok False, rich_wallet)"
  using silent_node_changes_nothing [of "quiet_node\<lparr>n_chain_tip := Err (Com Node)\<rparr>" "Com Node" sample_ext 0 None False rich_wallet]
  by simp

section \<open>The batches of a scan\<close>

text \<open>The batches of a scan cover the heights from its start to the tip without
  gap or overlap: each of these heights lies in the batch of exactly one starting height, and no batch
  begins outside them.\<close>

theorem batches_cover_heights:
  assumes "start \<le> tip" "unat tip + 10001 < 2 ^ 64"
  shows "distinct (batch_starts start tip) \<and> (\<forall>h \<in> set (batch_starts start tip). start \<le> h \<and> h \<le> tip) \<and>
    (\<forall>x. start \<le> x \<and> x \<le> tip \<longrightarrow> (\<exists>!h. h \<in> set (batch_starts start tip) \<and> h \<le> x \<and> x \<le> min tip (h + 10000)))"
proof -
  define a where "a = unat start" define b where "b = unat tip"
  have ab: "a \<le> b" "b + 10001 < 2 ^ 64" using assms by (simp_all add: a_def b_def word_le_nat_alt)
  have past: "unat (tip + 1) = b + 1" "\<not> tip + 1 \<le> start"
    using ab by (auto simp: b_def a_def word_le_nat_alt unat_word_ariths)
  define n where "n = (b + 1 - a + 10000) div 10001"
  define H where "H i = start + of_nat (10001 * i)" for i
  have starts: "batch_starts start tip = map H [0..<n]"
    using past by (simp add: batch_starts_def n_def a_def H_def)
  have bound: "10001 * i + a \<le> b" if "i < n" for i
    using that ab by (auto simp: n_def)
  have u: "unat (H i) = a + 10001 * i" if "i < n" for i
    using bound [OF that] ab by (simp add: H_def a_def unat_word_ariths unat_of_nat)
  have inj: "inj_on H {0..<n}"
    by (rule inj_onI) (metis add_left_cancel atLeastLessThan_iff mult_cancel1 u zero_neq_numeral)
  have in_range: "start \<le> H i \<and> H i \<le> tip" if "i < n" for i
    using u [OF that] bound [OF that] by (simp add: word_le_nat_alt a_def b_def)
  have covers: "H i \<le> x \<and> x \<le> min tip (H i + 10000) \<longleftrightarrow> a + 10001 * i \<le> unat x \<and> unat x \<le> min b (a + 10001 * i + 10000)"
    if "i < n" for i x
    using u [OF that] bound [OF that] ab
    by (auto simp: word_le_nat_alt b_def min_def unat_word_ariths)
  have "\<exists>!h. h \<in> H ` {0..<n} \<and> h \<le> x \<and> x \<le> min tip (h + 10000)" if x: "start \<le> x" "x \<le> tip" for x
  proof -
    define i where "i = (unat x - a) div 10001"
    have x': "a \<le> unat x" "unat x \<le> b" using x by (simp_all add: word_le_nat_alt a_def b_def)
    then have i: "i < n" by (auto simp: i_def n_def less_eq_div_iff_mult_less_eq Suc_le_eq [symmetric])
    have pos: "a + 10001 * i \<le> unat x \<and> unat x \<le> min b (a + 10001 * i + 10000)"
      using x' by (auto simp: i_def)
    have unique: "j = i" if "a + 10001 * j \<le> unat x" "unat x \<le> a + 10001 * j + 10000" for j
      using that x' unfolding i_def by (auto intro!: div_nat_eqI [symmetric])
    show ?thesis
    proof (rule ex1I [of _ "H i"])
      fix h assume "h \<in> H ` {0..<n} \<and> h \<le> x \<and> x \<le> min tip (h + 10000)"
      then obtain j where j: "h = H j" "j < n" "H j \<le> x \<and> x \<le> min tip (H j + 10000)" by auto
      then have "j = i" using unique covers [OF j(2)] by auto
      then show "h = H i" using j(1) by simp
    qed (use covers [OF i] i pos in auto)
  qed
  then show ?thesis
    using inj in_range by (auto simp: starts distinct_map)
qed

theorem batches_cover_heights_witness:
  "batch_starts 5 25000 = [5, 10006, 20007] \<and> (\<exists>!h. h \<in> {5, 10006, 20007} \<and> h \<le> 10005 \<and> (10005 :: u64) \<le> min 25000 (h + 10000))"
proof -
  have b: "batch_starts 5 25000 = [5, 10006, 20007]" by (simp add: batch_starts_def upt_rec)
  have "\<exists>!h. h \<in> set (batch_starts 5 25000) \<and> h \<le> 10005 \<and> (10005 :: u64) \<le> min 25000 (h + 10000)"
    by (rule batches_cover_heights [THEN conjunct2, THEN conjunct2, rule_format]) simp_all
  then show ?thesis unfolding b list.set by blast
qed

section \<open>Payment proofs are accepted\<close>

lemma update_stored_tx_proof:
  assumes "update_stored_tx X km c s False w = (Ok u, w')" "w_wf w" "sl_payment_proof s = Some pi"
  obtains t k excess sk where
    "t \<in> set (wallet_tx_log w')" "txe_tx_slate_id t = Some (sl_id s)" "txe_kernel_excess t = Some excess"
    "wallet_keychain X km w = Ok k" "calc_excess X s = Ok excess"
    "address_from_derivation_path X k (w_parent_key_id w)
       (case ctx_payment_proof_derivation_index c of Some i \<Rightarrow> i | None \<Rightarrow> 0) = Ok sk"
    "\<exists>i. txe_payment_proof t = Some \<lparr>spi_receiver_address = pi_receiver_address pi,
       spi_receiver_signature = pi_receiver_signature pi, spi_sender_address_path = i, spi_sender_address = x_dalek_pk X sk,
       spi_sender_signature = Some (x_dalek_sign X sk (payment_proof_message (sl_amount s) excess (pi_sender_address pi)))\<rparr>"
proof -
  have ov3: "ov3_to_ed25519 X (ov3_from_private X sk) = Ok a \<longleftrightarrow> a = x_dalek_pk X sk \<and> x_dalek_pk_valid X a" for sk a
    by (auto simp: ov3_to_ed25519_def ov3_from_private_def)
  obtain t k excess sk w1 where
    t: "find (is_finalised_entry False) (retrieve_txs w None (Some (sl_id s)) None None False) = Some t"
    and k: "wallet_keychain X km w = Ok k" "calc_excess X s = Ok excess"
    and sk: "address_from_derivation_path X k (w_parent_key_id w)
       (case ctx_payment_proof_derivation_index c of Some i \<Rightarrow> i | None \<Rightarrow> 0) = Ok sk"
    and w': "w' = w1\<lparr>w_db := (w_db w1)\<lparr>db_tx_log := tbl_put (to_key_u64 (txe_parent_key_id t) (ucast (txe_id t)))
        (Some (t\<lparr>txe_kernel_excess := Some excess, txe_payment_proof :=
           Some \<lparr>spi_receiver_address = pi_receiver_address pi,
             spi_receiver_signature = pi_receiver_signature pi, spi_sender_address_path =
               (case ctx_payment_proof_derivation_index c of Some i \<Rightarrow> i | None \<Rightarrow> 0), spi_sender_address = x_dalek_pk X sk,
             spi_sender_signature = Some (x_dalek_sign X sk (payment_proof_message (sl_amount s) excess (pi_sender_address pi)))\<rparr>\<rparr>))
        (db_tx_log (w_db w1))\<rparr>\<rparr>" "w_db w1 = w_db w"
    using assms(1,3)
    by (auto simp: update_stored_tx_def sbind_eq_Ok comp_eq_Ok res_simps Let_def the_keychain_def signed_proof_def
        create_payment_proof_signature_def ov3 store_tx_def with_batch_Ok save_tx_log_entry_eq smodify_def)
  define t' where "t' = t\<lparr>txe_kernel_excess := Some excess, txe_payment_proof :=
           Some \<lparr>spi_receiver_address = pi_receiver_address pi,
             spi_receiver_signature = pi_receiver_signature pi, spi_sender_address_path =
               (case ctx_payment_proof_derivation_index c of Some i \<Rightarrow> i | None \<Rightarrow> 0), spi_sender_address = x_dalek_pk X sk,
             spi_sender_signature = Some (x_dalek_sign X sk (payment_proof_message (sl_amount s) excess (pi_sender_address pi)))\<rparr>\<rparr>"
  have "w_wf w'" using assms(2) w'(2) by (simp add: w'(1) w_wf_def db_wf_def tbl_simps)
  moreover have "tbl_get (db_tx_log (w_db w')) (to_key_u64 (txe_parent_key_id t) (ucast (txe_id t))) = Some (Some t')"
    by (simp add: w'(1) tbl_get_put t'_def)
  ultimately have "t' \<in> set (wallet_tx_log w')" using wallet_tx_log_iff by blast
  moreover have "txe_tx_slate_id t = Some (sl_id s)"
    using find_SomeD [OF t] by (auto simp: retrieve_txs_def bound_def)
  ultimately show ?thesis using that [of t' excess k sk] k sk by (simp add: t'_def)
qed

text \<open>C14: the payment proof that finalising stores, after it was checked, is
  the one retrieved from the entry of the slate, and it is accepted by every wallet whose node knows the kernel,
  provided the entry transfers the amount of the slate; it then tells the sender's and the
  recipient's wallet that the proof is theirs. (The hypothesis on ed25519 is that a signature verifies under the
  key that made it.)\<close>

theorem stored_proof_is_accepted:
  assumes "verify_slate_payment_proof X km (w_parent_key_id w) c s w = (Ok (), w)"
    and "update_stored_tx X km c s False w = (Ok (), w')" "w_wf w" "sl_payment_proof s = Some pi"
    and "\<And>sk m. x_dalek_verify X (x_dalek_pk X sk) m (x_dalek_sign X sk m)"
    and "wallet_keychain X km' v = Ok k" "address_from_derivation_path X k (w_parent_key_id v) 0 = Ok sk"
    and "\<And>e. calc_excess X s = Ok e \<Longrightarrow> n_kernel N e None None = Ok (Some kern)"
  shows "\<exists>t \<in> set (wallet_tx_log w'). txe_tx_slate_id t = Some (sl_id s) \<and>
    (net_amount X t = sl_amount s \<longrightarrow>
      (\<exists>p. proof_of_entry X t = Ok p \<and> pp_amount p = sl_amount s \<and>
         verify_payment_proof X N km' p v =
           (Ok (x_dalek_pk X sk = pi_sender_address pi, x_dalek_pk X sk = pi_receiver_address pi), v)))"
proof -
  obtain orig where o: "wallet_keychain X km w = wallet_keychain X km w" and
    orig: "\<exists>k0. wallet_keychain X km w = Ok k0 \<and> verify_proof_of X k0 (w_parent_key_id w) c s orig pi = Ok ()"
    using assms(1,4)
    by (auto simp: verify_slate_payment_proof_def sbind_eq_Ok comp_eq_Ok the_keychain_def Let_def
        split: list.splits if_splits option.splits)
  obtain t k0 excess sk0 where
    t: "t \<in> set (wallet_tx_log w')" "txe_tx_slate_id t = Some (sl_id s)" "txe_kernel_excess t = Some excess"
    and k: "wallet_keychain X km w = Ok k0" "calc_excess X s = Ok excess"
    "address_from_derivation_path X k0 (w_parent_key_id w)
       (case ctx_payment_proof_derivation_index c of Some i \<Rightarrow> i | None \<Rightarrow> 0) = Ok sk0"
    and p: "\<exists>i. txe_payment_proof t = Some \<lparr>spi_receiver_address = pi_receiver_address pi,
       spi_receiver_signature = pi_receiver_signature pi, spi_sender_address_path = i, spi_sender_address = x_dalek_pk X sk0,
       spi_sender_signature = Some (x_dalek_sign X sk0 (payment_proof_message (sl_amount s) excess (pi_sender_address pi)))\<rparr>"
    by (rule update_stored_tx_proof [OF assms(2,3,4)])
  have ov3: "ov3_to_ed25519 X (ov3_from_private X sk) = Ok a \<longleftrightarrow> a = x_dalek_pk X sk \<and> x_dalek_pk_valid X a" for sk a
    by (auto simp: ov3_to_ed25519_def ov3_from_private_def)
  have v: "verify_proof_of X k0 (w_parent_key_id w) c s orig pi = Ok ()" using orig k(1) by auto
  obtain sig where sig: "pi_receiver_signature pi = Some sig" "pi_sender_address pi = x_dalek_pk X sk0"
    "x_dalek_verify X (pi_receiver_address pi) (payment_proof_message (sl_amount s) excess (x_dalek_pk X sk0)) sig"
    using v k(2,3) by (auto simp: verify_proof_of_def res_simps Let_def ov3 split: if_splits)
  define q where "q = \<lparr>pp_amount = sl_amount s, pp_excess = excess,
      pp_recipient_address = address_new X (pi_receiver_address pi), pp_recipient_sig = sig,
      pp_sender_address = address_new X (x_dalek_pk X sk0),
      pp_sender_sig = x_dalek_sign X sk0 (payment_proof_message (sl_amount s) excess (x_dalek_pk X sk0))\<rparr>"
  have "proof_of_entry X t = Ok q" if "net_amount X t = sl_amount s"
    using p t(3) sig that by (auto simp: proof_of_entry_def q_def)
  moreover have "verify_payment_proof X N km' q v =
      (Ok (x_dalek_pk X sk = pi_sender_address pi, x_dalek_pk X sk = pi_receiver_address pi), v)"
    using assms(5,6,7) assms(8) [OF k(2)] sig
    by (simp add: verify_payment_proof_def q_def address_new_def sbind_simps the_keychain_def slift_def Let_def sret_def
        sbind_def sread_def)
  ultimately show ?thesis using t(1,2) by (auto simp: q_def)
qed

text \<open>The sender of 100 out of 200, with 60 back and a fee of 40; a node that knows every kernel\<close>

definition paying_wallet :: wallet where
  "paying_wallet = sample_wallet\<lparr>w_db := db_empty\<lparr>db_tx_log := [([1], Some ((tx_log_entry_new 0 (w_parent_key_id sample_wallet) TxSent 0)
     \<lparr>txe_tx_slate_id := Some [7], txe_amount_debited := 200, txe_amount_credited := 60, txe_fee := Some 40,
      txe_payment_proof := Some \<lparr>spi_receiver_address = replicate 32 8, spi_receiver_signature = None,
        spi_sender_address_path = 0, spi_sender_address = proof_sender, spi_sender_signature = None\<rparr>\<rparr>))]\<rparr>\<rparr>"

definition knowing_node :: node where
  "knowing_node = quiet_node\<lparr>n_kernel := (\<lambda>_ _ _. Ok (Some (sample_kernel KF_Coinbase, 0, 0)))\<rparr>"

definition stored_run :: "unit result \<times> wallet" where
  "stored_run = update_stored_tx sample_ext None proof_context (proof_slate\<lparr>sl_tx := Some sample_tx\<rparr>) False paying_wallet"

theorem stored_proof_is_accepted_witness:
  "\<exists>t \<in> set (wallet_tx_log (snd stored_run)). \<exists>p. proof_of_entry sample_ext t = Ok p \<and> pp_amount p = 100 \<and>
     verify_payment_proof sample_ext knowing_node None p paying_wallet = (Ok (True, False), paying_wallet)"
proof -
  let ?s = "proof_slate\<lparr>sl_tx := Some sample_tx\<rparr>" and ?p = "w_parent_key_id paying_wallet"
  let ?v = "verify_slate_payment_proof sample_ext None ?p proof_context ?s"
  have "is_Ok (fst (?v paying_wallet))" by code_simp
  then have v: "?v paying_wallet = (Ok (), snd (?v paying_wallet))" using is_Ok_run [of ?v paying_wallet] by auto
  then have v: "?v paying_wallet = (Ok (), paying_wallet)" using verify_slate_payment_proof_state by metis
  have "is_Ok (fst stored_run)" by code_simp
  then have u: "update_stored_tx sample_ext None proof_context ?s False paying_wallet = (Ok (), snd stored_run)"
    by (cases "fst stored_run") (auto simp: stored_run_def prod_eq_iff)
  have wf: "w_wf paying_wallet" by (simp add: paying_wallet_def w_wf_def db_wf_def db_empty_def tbl_wf_def)
  obtain pi where pi: "sl_payment_proof ?s = Some pi" "pi_sender_address pi = proof_sender" "pi_receiver_address pi = replicate 32 8"
    by (simp add: proof_slate_def Let_def)
  have dalek: "x_dalek_verify sample_ext (x_dalek_pk sample_ext sk) m (x_dalek_sign sample_ext sk m)" for sk m
    by (simp add: sample_ext_def)
  have kc: "wallet_keychain sample_ext None paying_wallet = Ok (replicate 32 1)" by code_simp
  have sk: "address_from_derivation_path sample_ext (replicate 32 1) ?p 0 = Ok proof_sender" by code_simp
  have net: "\<forall>t \<in> set (wallet_tx_log (snd stored_run)). net_amount sample_ext t = 100" by code_simp
  have a: "sl_amount ?s = 100" "x_dalek_pk sample_ext proof_sender = proof_sender" "proof_sender \<noteq> replicate 32 8" by code_simp+
  have kern: "n_kernel knowing_node e None None = Ok (Some (sample_kernel KF_Coinbase, 0, 0))" for e
    by (simp add: knowing_node_def)
  show ?thesis
    using stored_proof_is_accepted [OF v u wf pi(1) dalek kc sk kern] net by (auto simp: pi a)
qed

section \<open>Confirmed after its cutoff height\<close>

lemma single_entry:
  assumes "tbl_wf T" "tbl_get T k = Some (Some t)" "P t"
    and "\<forall>j t'. j \<noteq> k \<longrightarrow> tbl_get T j = Some (Some t') \<longrightarrow> \<not> P t'"
  shows "filter P (List.map_filter (\<lambda>r. r) (tbl_vals T)) = [t]"
proof -
  have "filter P (List.map_filter (\<lambda>r. r) (map snd L)) = (if k \<in> fst ` set L then [t] else [])"
    if "distinct (map fst L)" "set L \<subseteq> set T" for L
    using that
  proof (induction L)
    case (Cons x L)
    obtain j v where x: "x = (j, v)" by (cases x)
    have "tbl_get T j = Some v" using Cons.prems(2) assms(1) by (simp add: x tbl_get_Some_iff)
    then show ?case using Cons assms(2,3,4) by (cases v) (auto simp: x List.map_filter_def)
  qed (simp add: List.map_filter_def)
  moreover have "distinct (map fst T)" using assms(1) strict_sorted_iff by (auto simp: tbl_wf_def)
  moreover have "k \<in> fst ` set T" using assms(2) tbl_get_in by force
  ultimately show ?thesis by (simp add: tbl_vals_def)
qed

text \<open>An outstanding transaction whose kernel the node finds only when
  its cutoff height is reached is confirmed by the update and then, by the same update, cancelled for its
  cutoff height: the cancellation is refused because the entry is confirmed, and the update, with all its work done, ends in that
  error.\<close>

theorem late_confirmation_stops_update:
  assumes "n_chain_tip N = Ok (height, hash)" "\<not> no_lookup tx" "txe_kernel_excess tx = Some e"
    and "n_kernel N e (txe_kernel_lookup_min_height tx) (Some height) = Ok (Some kern)" "expired_at height tx"
    and "wallet_keychain X km w = Ok k" "w_wf w" "txe_parent_key_id tx = w_parent_key_id w"
    and "\<forall>j t. tbl_get (db_tx_log (w_db w)) j = Some (Some t) \<longrightarrow> txe_id t = txe_id tx \<longrightarrow>
        txe_parent_key_id t = txe_parent_key_id tx \<longrightarrow> j = to_key_u64 (w_parent_key_id w) (ucast (txe_id tx))"
    and "txe_tx_type tx \<in> {TxSent, TxReceived, TxReverted}"
  shows "\<exists>w1 tx'. update_txs_via_kernel X N now km [tx] w = (Ok (True, [tx']), w1) \<and> txe_confirmed tx' \<and>
    tx' \<in> set (wallet_tx_log w1) \<and>
    cancel_expired X km height [tx'] w1 = (Err (Txn (TransactionNotCancellable (nat_to_string (unat (txe_id tx))))), w1)"
proof -
  define tx' where "tx' = update_confirmation_ts now (tx\<lparr>txe_confirmed := True\<rparr>)"
  define key where "key = to_key_u64 (w_parent_key_id w) (ucast (txe_id tx))"
  define w1 where "w1 = w\<lparr>w_db := (w_db w)\<lparr>db_tx_log := tbl_put key (Some tx') (db_tx_log (w_db w))\<rparr>\<rparr>"
  have tx': "txe_id tx' = txe_id tx" "txe_parent_key_id tx' = txe_parent_key_id tx" "txe_confirmed tx'"
    "txe_tx_type tx' = txe_tx_type tx" "expired_at height tx'"
    using assms(5) by (simp_all add: tx'_def update_confirmation_ts_def expired_at_def)
  have "with_batch X km (\<lambda>_. save_tx_log_entry tx' (w_parent_key_id w)) w = (Ok (), w1)"
    using assms(6) tx'(1) by (simp add: with_batch_Ok save_tx_log_entry_eq w1_def key_def)
  then have upd: "update_txs_via_kernel X N now km [tx] w = (Ok (True, [tx']), w1)"
    using assms(1,2,3,4)
    by (simp add: update_txs_via_kernel_def sbind_simps Let_def tx'_def [symmetric] sbind_def sret_def sread_def)
  have wf: "tbl_wf (db_tx_log (w_db w1))" using assms(7) by (simp add: w1_def w_wf_def db_wf_def tbl_simps)
  have at: "tbl_get (db_tx_log (w_db w1)) key = Some (Some tx')" by (simp add: w1_def tbl_get_put)
  have "filter (\<lambda>t. txe_parent_key_id t = w_parent_key_id w1 \<and> txe_id t = txe_id tx) (wallet_tx_log w1) = [tx']"
    unfolding wallet_tx_log_def tx_log_def tx_log_iter_def
  proof (rule single_entry [OF wf at])
    show "\<forall>j t'. j \<noteq> key \<longrightarrow> tbl_get (db_tx_log (w_db w1)) j = Some (Some t') \<longrightarrow>
        \<not> (txe_parent_key_id t' = w_parent_key_id w1 \<and> txe_id t' = txe_id tx)"
      using assms(8,9) by (auto simp: w1_def tbl_get_put key_def)
  qed (use tx' assms(8) in \<open>simp add: w1_def\<close>)
  then have "retrieve_txs w1 (Some (txe_id tx)) None None (Some (w_parent_key_id w1)) False = [tx']"
    by (simp add: retrieve_txs_def bound_def)
  then have "cancel_expired X km height [tx'] w1 = (Err (Txn (TransactionNotCancellable (nat_to_string (unat (txe_id tx))))), w1)"
    using tx' assms(10) by (auto simp: cancel_expired_def cancel_tx_def sbind_def sread_def sfail_def Let_def)
  moreover have "tx' \<in> set (wallet_tx_log w1)"
    using at wf by (auto simp: wallet_tx_log_def tx_log_def tx_log_iter_def List.map_filter_def image_iff tbl.vals_iff
        intro: bexI [of _ "Some tx'"])
  ultimately show ?thesis using upd tx'(3) by blast
qed

definition late_entry :: tx_log_entry where
  "late_entry = (tx_log_entry_new 0 (w_parent_key_id sample_wallet) TxReceived 3)\<lparr>txe_kernel_excess := Some [1],
     txe_ttl_cutoff_height := Some 40, txe_amount_credited := 5\<rparr>"

definition late_wallet :: wallet where
  "late_wallet = sample_wallet\<lparr>w_db := db_empty\<lparr>db_tx_log :=
     [(to_key_u64 (w_parent_key_id sample_wallet) 3, Some late_entry)]\<rparr>\<rparr>"

theorem late_confirmation_stops_update_witness:
  "\<exists>w1 tx'. update_txs_via_kernel sample_ext knowing_node 9 None [late_entry] late_wallet = (Ok (True, [tx']), w1) \<and>
     cancel_expired sample_ext None 50 [tx'] w1 = (Err (Txn (TransactionNotCancellable ''3'')), w1)"
proof -
  have tip: "n_chain_tip knowing_node = Ok (50, '''')" by (simp add: knowing_node_def quiet_node_def)
  have e: "\<not> no_lookup late_entry" "txe_kernel_excess late_entry = Some [1]" "expired_at 50 late_entry"
    "txe_tx_type late_entry \<in> {TxSent, TxReceived, TxReverted}" "txe_parent_key_id late_entry = w_parent_key_id late_wallet"
    by (simp_all add: late_entry_def no_lookup_def tx_log_entry_new_def expired_at_def late_wallet_def)
  have kern: "n_kernel knowing_node [1] (txe_kernel_lookup_min_height late_entry) (Some 50) = Ok (Some (sample_kernel KF_Coinbase, 0, 0))"
    by (simp add: knowing_node_def)
  have kc: "wallet_keychain sample_ext None late_wallet = Ok (replicate 32 1)" by code_simp
  have wf: "w_wf late_wallet" by (simp add: late_wallet_def w_wf_def db_wf_def db_empty_def tbl_wf_def)
  have only: "\<forall>j t. tbl_get (db_tx_log (w_db late_wallet)) j = Some (Some t) \<longrightarrow> txe_id t = txe_id late_entry \<longrightarrow>
        txe_parent_key_id t = txe_parent_key_id late_entry \<longrightarrow> j = to_key_u64 (w_parent_key_id late_wallet) (ucast (txe_id late_entry))"
    by (auto simp: late_wallet_def late_entry_def tx_log_entry_new_def split: if_splits)
  have i: "nat_to_string (unat (txe_id late_entry)) = ''3''" by code_simp
  show ?thesis
    using late_confirmation_stops_update [OF tip e(1,2) kern e(3) kc wf e(5) only e(4), of 9] unfolding i by blast
qed

end
