(* ===== verification/Slatepack.thy ===== *)
theory Slatepack
  imports Address Slate_V4 Slate_Bin
begin

text \<open>
  Slatepacks (\<open>libwallet/src/slatepack/types.rs\<close>, \<open>armor.rs\<close> and \<open>packer.rs\<close>): the envelope of a
  slate with its binary form, encryption for recipients with the metadata that is encrypted
  along, the armored text form, and packing and unpacking. The libraries are parameters:
  \<open>age\<close> encryption, the hashes, base 58, UTF-8 and the JSON form.
\<close>

section \<open>The data\<close>

record slatepack_version =
  spv_major :: u8
  spv_minor :: u8

record slatepack_enc_metadata =
  sem_sender :: "slatepack_address option"
  sem_recipients :: "slatepack_address list"

record slatepack =
  sp_slatepack :: slatepack_version
  sp_mode :: u8
  sp_sender :: "slatepack_address option"
  sp_encrypted_meta :: slatepack_enc_metadata
  sp_payload :: bytes
  sp_future_test_mode :: bool

definition SLATEPACK_MAJOR_VERSION :: u8 where
  "SLATEPACK_MAJOR_VERSION = 1"

definition SLATEPACK_MINOR_VERSION :: u8 where
  "SLATEPACK_MINOR_VERSION = 0"

definition default_enc_metadata :: slatepack_enc_metadata where
  "default_enc_metadata = \<lparr>sem_sender = None, sem_recipients = []\<rparr>"

definition enc_metadata_is_empty :: "slatepack_enc_metadata \<Rightarrow> bool" where
  "enc_metadata_is_empty m \<longleftrightarrow> sem_sender m = None \<and> sem_recipients m = []"

definition slatepack_default :: slatepack where
  "slatepack_default = \<lparr>
     sp_slatepack = \<lparr>spv_major = SLATEPACK_MAJOR_VERSION, spv_minor = SLATEPACK_MINOR_VERSION\<rparr>,
     sp_mode = 0, sp_sender = None, sp_encrypted_meta = default_enc_metadata, sp_payload = [],
     sp_future_test_mode = False\<rparr>"

definition add_recipient :: "slatepack_address \<Rightarrow> slatepack \<Rightarrow> slatepack" where
  "add_recipient a sp = sp\<lparr>sp_encrypted_meta :=
     (sp_encrypted_meta sp)\<lparr>sem_recipients := sem_recipients (sp_encrypted_meta sp) @ [a]\<rparr>\<rparr>"

definition recipients :: "slatepack \<Rightarrow> slatepack_address list" where
  "recipients sp = sem_recipients (sp_encrypted_meta sp)"

text \<open>Whether the version of a Slatepack is above what the wallet knows\<close>

definition ver_check_warn :: "slatepack \<Rightarrow> bool" where
  "ver_check_warn sp \<longleftrightarrow> spv_major (sp_slatepack sp) > SLATEPACK_MAJOR_VERSION \<or>
     (spv_major (sp_slatepack sp) = SLATEPACK_MAJOR_VERSION \<and> spv_minor (sp_slatepack sp) > SLATEPACK_MINOR_VERSION)"

section \<open>Binary form\<close>

definition put_version :: "slatepack_version \<Rightarrow> bytes" where
  "put_version v = [spv_major v, spv_minor v]"

definition get_version :: "slatepack_version rd" where
  "get_version = sbind read_u8 (\<lambda>major. sbind read_u8 (\<lambda>minor. sret \<lparr>spv_major = major, spv_minor = minor\<rparr>))"

definition opt_fields_len :: "ext \<Rightarrow> slatepack \<Rightarrow> (ser_error, nat) res" where
  "opt_fields_len X sp = (case sp_sender sp of
     None \<Rightarrow> Ok 0
   | Some s \<Rightarrow> (case address_encoded_len X s of Ok n \<Rightarrow> Ok n | _ \<Rightarrow> Panic))"

text \<open>Byte strings behind their length\<close>

definition put_len_bytes :: "bytes \<Rightarrow> bytes" where
  "put_len_bytes b = be64 (of_nat (length b)) @ b"

definition get_len_bytes :: "bytes rd" where
  "get_len_bytes = sbind read_u64 (\<lambda>len. read_fixed_bytes (unat len))"

definition put_slatepack :: "ext \<Rightarrow> slatepack \<Rightarrow> (ser_error, bytes) res" where
  "put_slatepack X sp =
     rbind (opt_fields_len X sp) (\<lambda>len.
     rbind (case sp_sender sp of Some s \<Rightarrow> put_address X s | None \<Rightarrow> Ok []) (\<lambda>sender.
       Ok (put_version (sp_slatepack sp) @ [sp_mode sp] @
           be16 (if sp_sender sp \<noteq> None then 0x01 else 0) @ be32 (of_nat len) @ sender @
           put_len_bytes (sp_payload sp))))"

text \<open>Unknown bytes are read one by one; the number left is a 32 bit number that may have wrapped.\<close>

fun skip_bytes :: "nat \<Rightarrow> unit rd" where
  "skip_bytes 0 = sret ()"
| "skip_bytes (Suc n) = sbind read_u8 (\<lambda>_. skip_bytes n)"

definition get_counted_address :: "ext \<Rightarrow> (bytes \<Rightarrow> string option) \<Rightarrow> (slatepack_address \<times> u32) rd" where
  "get_counted_address X str_of_utf8 =
     sbind (get_address X str_of_utf8) (\<lambda>addr.
       case address_encoded_len X addr of
         Ok e \<Rightarrow> sret (addr, of_nat e)
       | Err _ \<Rightarrow> sfail SE_CorruptedData
       | Panic \<Rightarrow> slift Panic)"

definition get_slatepack :: "ext \<Rightarrow> (bytes \<Rightarrow> string option) \<Rightarrow> slatepack rd" where
  "get_slatepack X str_of_utf8 =
     sbind get_version (\<lambda>v.
     sbind read_u8 (\<lambda>mode.
     if mode > 1 then sfail (SE_Other ''UnexpectedData'')
     else
       sbind read_u16 (\<lambda>opt_flags.
       sbind read_u32 (\<lambda>bytes_to_payload.
       sbind (if opt_flags AND 0x01 > 0
              then sbind (get_counted_address X str_of_utf8) (\<lambda>(addr, len). sret (Some addr, bytes_to_payload - len))
              else sret (None, bytes_to_payload)) (\<lambda>(sender, left).
       sbind (skip_bytes (unat left)) (\<lambda>_.
       sbind get_len_bytes (\<lambda>payload.
         sret \<lparr>sp_slatepack = v, sp_mode = mode, sp_sender = sender, sp_encrypted_meta = default_enc_metadata,
               sp_payload = payload, sp_future_test_mode = False\<rparr>)))))))"

section \<open>Encrypted metadata\<close>

text \<open>The length without the four bytes that hold it\<close>

definition meta_encoded_len :: "ext \<Rightarrow> slatepack_enc_metadata \<Rightarrow> nat result" where
  "meta_encoded_len X m =
     rbind (case sem_sender m of Some s \<Rightarrow> address_encoded_len X s | None \<Rightarrow> Ok 0) (\<lambda>s.
     rbind (rmap (address_encoded_len X) (sem_recipients m)) (\<lambda>rs.
       Ok (2 + s + (if sem_recipients m \<noteq> [] then 2 + sum_list rs else 0))))"

text \<open>The number of recipients is cut to sixteen bits before it is compared with what they hold.\<close>

definition put_meta :: "ext \<Rightarrow> slatepack_enc_metadata \<Rightarrow> (ser_error, bytes) res" where
  "put_meta X m = (case meta_encoded_len X m of
     Ok len \<Rightarrow>
       rbind (case sem_sender m of Some s \<Rightarrow> put_address X s | None \<Rightarrow> Ok []) (\<lambda>sender.
       rbind (rmap (put_address X) (sem_recipients m)) (\<lambda>rs.
         Ok (be32 (of_nat len) @
             be16 ((if sem_sender m \<noteq> None then 0x01 else 0) OR (if sem_recipients m \<noteq> [] then 0x02 else 0)) @
             sender @
             (if sem_recipients m \<noteq> [] then be16 (of_nat (length (sem_recipients m))) @ concat rs else []))))
   | Err _ \<Rightarrow> Err SE_CorruptedData
   | Panic \<Rightarrow> Panic)"

primrec get_recipients ::
  "ext \<Rightarrow> (bytes \<Rightarrow> string option) \<Rightarrow> nat \<Rightarrow> u32 \<Rightarrow> (slatepack_address list \<times> u32) rd" where
  "get_recipients X str_of_utf8 0 left = sret ([], left)"
| "get_recipients X str_of_utf8 (Suc n) left =
     sbind (get_counted_address X str_of_utf8) (\<lambda>(addr, len).
     sbind (get_recipients X str_of_utf8 n (left - len)) (\<lambda>(addrs, left). sret (addr # addrs, left)))"

definition get_meta :: "ext \<Rightarrow> (bytes \<Rightarrow> string option) \<Rightarrow> slatepack_enc_metadata rd" where
  "get_meta X str_of_utf8 =
     sbind read_u32 (\<lambda>bytes_remaining.
     sbind read_u16 (\<lambda>opt_flags.
     let left = bytes_remaining - 2 in
     sbind (if opt_flags AND 0x01 > 0
            then sbind (get_counted_address X str_of_utf8) (\<lambda>(addr, len). sret (Some addr, left - len))
            else sret (None, left)) (\<lambda>(sender, left).
     sbind (if opt_flags AND 0x02 > 0
            then sbind read_u16 (\<lambda>count. get_recipients X str_of_utf8 (unat count) (left - 2))
            else sret ([], left)) (\<lambda>(recips, left).
     sbind (skip_bytes (unat left)) (\<lambda>_.
       sret \<lparr>sem_sender = sender, sem_recipients = recips\<rparr>)))))"

section \<open>Encryption\<close>

text \<open>
  What is used of \<open>age\<close>, \<open>sha2\<close> and \<open>curve25519-dalek\<close>. A payload that was opened is for
  recipients or for a passphrase; encryption draws its randomness from a seed.
\<close>

record age_ext =
  g_montgomery :: "dalek_pubkey \<Rightarrow> bytes option"
  g_recipient :: "string \<Rightarrow> bytes result"
  g_encrypt :: "bytes \<Rightarrow> bytes list \<Rightarrow> bytes \<Rightarrow> bytes result"
  g_sha512 :: "bytes \<Rightarrow> bytes"
  g_static_secret :: "bytes \<Rightarrow> bytes"
  g_identity :: "string \<Rightarrow> bytes result"
  g_for_recipients :: "bytes \<Rightarrow> bool result"
  g_decrypt :: "bytes \<Rightarrow> bytes \<Rightarrow> bytes result"

definition to_age_pubkey_str :: "ext \<Rightarrow> age_ext \<Rightarrow> slatepack_address \<Rightarrow> string result" where
  "to_age_pubkey_str X G a =
     rbind (ok_or (Lib (ED25519Key ''Can't decompress ed25519 Edwards Point'')) (g_montgomery G (sa_pub_key a))) (\<lambda>x_key.
       x_bech32_encode X ''age'' (x_to_base32 X x_key))"

definition age_recipient :: "ext \<Rightarrow> age_ext \<Rightarrow> slatepack_address \<Rightarrow> bytes result" where
  "age_recipient X G a = rbind (to_age_pubkey_str X G a) (g_recipient G)"

text \<open>In test mode the metadata is followed by unknown bytes, here \<open>junk\<close>, and its length grows by theirs.\<close>

definition pad_test_data :: "bytes \<Rightarrow> bytes \<Rightarrow> bytes" where
  "pad_test_data junk data = be32 (of_be (take 4 data) + of_nat (length junk)) @ drop 4 data @ junk"

definition try_encrypt_payload ::
  "ext \<Rightarrow> age_ext \<Rightarrow> bytes \<Rightarrow> bytes \<Rightarrow> slatepack_address list \<Rightarrow> slatepack \<Rightarrow> slatepack result" where
  "try_encrypt_payload X G seed junk recips sp =
     (if recips = [] then Ok sp
      else
        let meta = (sp_encrypted_meta sp)\<lparr>sem_sender := sp_sender sp\<rparr>
        in case put_meta X meta of
             Ok bin_meta \<Rightarrow>
               let to_encrypt = (if sp_future_test_mode sp then pad_test_data junk bin_meta else bin_meta) @ sp_payload sp
               in rbind (rmap (age_recipient X G) recips) (\<lambda>keys.
                  rbind (g_encrypt G seed keys to_encrypt) (\<lambda>encrypted.
                    Ok (sp\<lparr>sp_sender := None, sp_encrypted_meta := meta, sp_payload := encrypted, sp_mode := 1\<rparr>)))
           | Err _ \<Rightarrow> Err (Slt SlatepackSer)
           | Panic \<Rightarrow> Panic)"

definition decryption_identity :: "ext \<Rightarrow> age_ext \<Rightarrow> bytes \<Rightarrow> bytes result" where
  "decryption_identity X G dec_key =
     rbind (x_bech32_encode X ''age-secret-key-''
       (x_to_base32 X (g_static_secret G (take 32 (g_sha512 G (take 32 dec_key)))))) (g_identity G)"

definition bad_slatepack :: "string \<Rightarrow> error" where
  "bad_slatepack s = Slt (SlatepackDeser s)"

text \<open>
  A payload that is not for recipients is declared unreachable in the code. The addition that
  finds the start of the payload cannot overflow the size of an address.
\<close>

definition try_decrypt_payload ::
  "ext \<Rightarrow> age_ext \<Rightarrow> (bytes \<Rightarrow> string option) \<Rightarrow> bytes option \<Rightarrow> slatepack \<Rightarrow> slatepack result" where
  "try_decrypt_payload X G str_of_utf8 dec_key sp =
     (if sp_mode sp = 0 then Ok sp
      else case dec_key of
        None \<Rightarrow> Ok sp
      | Some dec_key \<Rightarrow>
          rbind (decryption_identity X G dec_key) (\<lambda>key.
          rbind (g_for_recipients G (sp_payload sp)) (\<lambda>r.
          if \<not> r then Panic
          else rbind (g_decrypt G key (sp_payload sp)) (\<lambda>decrypted.
            if length decrypted < 4
            then Err (bad_slatepack ''Encrypted payload missing metadata length'')
            else
              let payload_start = unat (of_be (take 4 decrypted) :: u32) + 4
              in if payload_start > length decrypted
                 then Err (bad_slatepack ''Encrypted metadata length exceeds payload'')
                 else case fst (get_meta X str_of_utf8 (take payload_start decrypted)) of
                     Ok meta \<Rightarrow>
                       Ok (sp\<lparr>sp_payload := drop payload_start decrypted, sp_sender := sem_sender meta,
                              sp_encrypted_meta := (sp_encrypted_meta sp)\<lparr>sem_recipients := sem_recipients meta\<rparr>,
                              sp_mode := 0\<rparr>)
                   | Err _ \<Rightarrow> Err (Slt SlatepackSer)
                   | Panic \<Rightarrow> Panic))))"

end
