(* ===== verification/Slatepacker.thy ===== *)
theory Slatepacker
  imports Slatepack Owner
begin

text \<open>
  The text form of Slatepacks (\<open>libwallet/src/slatepack/armor.rs\<close>), packing and unpacking slates
  (\<open>packer.rs\<close>) and the owner's Slatepack messages (\<open>api_impl/owner.rs\<close>). The hash, base 58,
  UTF-8 and the JSON form of a Slatepack belong to their libraries.
\<close>

record pack_ext = age_ext +
  g_sha256 :: "bytes \<Rightarrow> bytes"
  g_b58_encode :: "bytes \<Rightarrow> string"
  g_b58_decode :: "bytes \<Rightarrow> bytes option"
  g_str_of_utf8 :: "bytes \<Rightarrow> string option"
  g_slatepack_of_json :: "string \<Rightarrow> (string, slatepack) res"

section \<open>Armor\<close>

definition HEADER :: string where
  "HEADER = ''BEGINSLATEPACK.''"

definition FOOTER :: string where
  "FOOTER = ''. ENDSLATEPACK.''"

definition WORD_LENGTH :: nat where
  "WORD_LENGTH = 15"

definition WORDS_PER_LINE :: nat where
  "WORDS_PER_LINE = 200"

definition WEIGHT_RATIO :: u64 where
  "WEIGHT_RATIO = 32"

definition saturating_add64 :: "u64 \<Rightarrow> u64 \<Rightarrow> u64" where
  "saturating_add64 a b = (if unat a + unat b < 2 ^ 64 then a + b else - 1)"

definition saturating_mul64 :: "u64 \<Rightarrow> u64 \<Rightarrow> u64" where
  "saturating_mul64 a b = (if unat a * unat b < 2 ^ 64 then a * b else - 1)"

definition slatepack_max_size :: "ext \<Rightarrow> u64" where
  "slatepack_max_size X =
     saturating_add64 (saturating_add64 (saturating_mul64 (x_max_tx_weight X) WEIGHT_RATIO)
       (of_nat (length HEADER))) (of_nat (length FOOTER))"

definition slatepack_min_size :: u64 where
  "slatepack_min_size = of_nat (length HEADER)"

text \<open>The characters a framing may be surrounded with, and a payload interspersed: \<open>WHITESPACE_LIST\<close>\<close>

definition armor_space :: "char \<Rightarrow> bool" where
  "armor_space c \<longleftrightarrow> c \<in> set ''> '' \<or> of_char c \<in> {10, 13, 9 :: u8}"

definition armor_space_byte :: "u8 \<Rightarrow> bool" where
  "armor_space_byte b \<longleftrightarrow> b \<in> {62, 10, 13, 9, 32}"

text \<open>The regular expressions of the framings: the word with white space on both sides\<close>

definition framing_matches :: "string \<Rightarrow> string \<Rightarrow> bool" where
  "framing_matches word s \<longleftrightarrow>
     (let t = dropWhile armor_space s
      in take (length word) t = word \<and> list_all armor_space (drop (length word) t))"

definition bad_data :: "string \<Rightarrow> error" where
  "bad_data s = Slt (InvalidSlatepackData s)"

definition check_header :: "pack_ext \<Rightarrow> bytes \<Rightarrow> unit result" where
  "check_header G header =
     rbind (ok_or (bad_slatepack ''Bad bytes'') (g_str_of_utf8 G header)) (\<lambda>framing.
       if framing_matches ''BEGINSLATEPACK'' framing then Ok () else Err (bad_data ''Bad armor header''))"

definition check_footer :: "pack_ext \<Rightarrow> bytes \<Rightarrow> unit result" where
  "check_footer G footer =
     rbind (ok_or (bad_slatepack ''Bad bytes'') (g_str_of_utf8 G footer)) (\<lambda>framing.
       if framing_matches ''ENDSLATEPACK'' framing then Ok () else Err (bad_data ''Bad armor footer''))"

text \<open>The first four bytes of the hash of the hash\<close>

definition generate_check :: "pack_ext \<Rightarrow> bytes \<Rightarrow> bytes" where
  "generate_check G payload = take 4 (g_sha256 G (g_sha256 G payload))"

definition error_check :: "pack_ext \<Rightarrow> bytes \<Rightarrow> bytes \<Rightarrow> unit result" where
  "error_check G error_code slate_bytes =
     (if error_code = generate_check G slate_bytes then Ok ()
      else Err (bad_data ''Bad slate error code- some data was corrupted''))"

definition base58check :: "pack_ext \<Rightarrow> bytes \<Rightarrow> string" where
  "base58check G slate = g_b58_encode G (generate_check G slate @ slate)"

text \<open>What stands before character \<open>i\<close>: a line break after each line of words, a blank after each word\<close>

definition armor_break :: "nat \<Rightarrow> string" where
  "armor_break i =
     (if i \<noteq> 0 \<and> i mod WORD_LENGTH = 0
      then (if WORDS_PER_LINE \<noteq> 0 \<and> i mod (WORD_LENGTH * WORDS_PER_LINE) = 0 then [CHR 0x0A] else '' '')
      else [])"

definition format_slatepack :: "string \<Rightarrow> string" where
  "format_slatepack s = concat (map (\<lambda>(i, c). armor_break i @ [c]) (enumerate 0 s))"

definition upto_period :: "bytes \<Rightarrow> bytes" where
  "upto_period = takeWhile (\<lambda>b. b \<noteq> 46)"

definition bytes_from :: "nat \<Rightarrow> bytes \<Rightarrow> bytes option" where
  "bytes_from n b = (if n \<le> length b then Some (drop n b) else None)"

definition armor_decode :: "pack_ext \<Rightarrow> bytes \<Rightarrow> bytes result" where
  "armor_decode G armor_bytes =
     (let header_bytes = upto_period armor_bytes
      in rbind (check_header G header_bytes) (\<lambda>_.
         let header_len = length header_bytes + 1
         in rbind (ok_or (bad_data ''Bad armor header'') (bytes_from header_len armor_bytes)) (\<lambda>payload_source.
            let payload_bytes = upto_period payload_source;
                consumed_bytes = header_len + length payload_bytes + 1
            in rbind (ok_or (bad_data ''Bad armor footer'') (bytes_from consumed_bytes armor_bytes)) (\<lambda>footer_source.
               rbind (check_footer G (upto_period footer_source)) (\<lambda>_.
               rbind (ok_or (bad_slatepack ''Bad bytes'')
                 (g_b58_decode G (filter (\<lambda>b. \<not> armor_space_byte b) payload_bytes))) (\<lambda>base_decode.
                 if length base_decode < 4 then Err (bad_slatepack ''Payload too short'')
                 else rbind (error_check G (take 4 base_decode) (drop 4 base_decode)) (\<lambda>_.
                   Ok (drop 4 base_decode))))))))"

definition armor_encode :: "ext \<Rightarrow> pack_ext \<Rightarrow> slatepack \<Rightarrow> string result" where
  "armor_encode X G sp = (case put_slatepack X sp of
     Ok b \<Rightarrow> Ok (format_slatepack (HEADER @ base58check G b) @ FOOTER @ [CHR 0x0A])
   | Err _ \<Rightarrow> Err (Slt SlatepackSer)
   | Panic \<Rightarrow> Panic)"

section \<open>Packing and unpacking\<close>

record slatepacker_args =
  spa_sender :: "slatepack_address option"
  spa_recipients :: "slatepack_address list"
  spa_dec_key :: "bytes option"

text \<open>A Slatepack is read in its binary form, and in its JSON form when that fails.\<close>

definition slatepack_of_data :: "ext \<Rightarrow> pack_ext \<Rightarrow> bytes \<Rightarrow> slatepack result" where
  "slatepack_of_data X G data = (case fst (get_slatepack X (g_str_of_utf8 G) data) of
     Ok sp \<Rightarrow> Ok sp
   | Panic \<Rightarrow> Panic
   | Err _ \<Rightarrow>
       rbind (ok_or (bad_slatepack ''invalid utf-8 sequence'') (g_str_of_utf8 G data)) (\<lambda>content.
         case g_slatepack_of_json G content of
           Ok sp \<Rightarrow> Ok sp
         | Err e \<Rightarrow> Err (bad_slatepack (''Error reading JSON slatepack: '' @ e))
         | Panic \<Rightarrow> Panic))"

definition deser_slatepack ::
  "ext \<Rightarrow> pack_ext \<Rightarrow> slatepacker_args \<Rightarrow> bytes \<Rightarrow> bool \<Rightarrow> slatepack result" where
  "deser_slatepack X G args data decrypt =
     (let data_len = of_nat (length data) :: u64
      in if data_len < slatepack_min_size \<or> data_len > slatepack_max_size X
         then Err (bad_slatepack ''Data invalid length'')
         else
           rbind (if g_str_of_utf8 G (take (length HEADER) data) = Some HEADER
                  then armor_decode G data else Ok data) (\<lambda>data.
           rbind (slatepack_of_data X G data) (\<lambda>sp.
             if decrypt then try_decrypt_payload X (age_ext.truncate G) (g_str_of_utf8 G) (spa_dec_key args) sp
             else Ok sp)))"

text \<open>The seed is the randomness of the encryption.\<close>

definition create_slatepack ::
  "ext \<Rightarrow> ser_ext \<Rightarrow> pack_ext \<Rightarrow> bytes \<Rightarrow> slatepacker_args \<Rightarrow> slate \<Rightarrow> slatepack result" where
  "create_slatepack X E G seed args s =
     rbind (into_version s) (\<lambda>out_slate.
       case out_slate of VersionedV4 v \<Rightarrow>
         try_encrypt_payload X (age_ext.truncate G) seed [] (spa_recipients args)
           (slatepack_default\<lparr>sp_payload := put_slate E v, sp_sender := spa_sender args\<rparr>))"

definition armor_slatepack :: "ext \<Rightarrow> pack_ext \<Rightarrow> slatepack \<Rightarrow> string result" where
  "armor_slatepack X G sp = armor_encode X G sp"

definition slate_of_slatepack :: "ext \<Rightarrow> ser_ext \<Rightarrow> slatepack \<Rightarrow> slate result" where
  "slate_of_slatepack X E sp = (case fst (get_slate E (sp_payload sp)) of
     Ok v \<Rightarrow> slate_upgrade X (VersionedV4 v)
   | Err _ \<Rightarrow> Err (bad_slatepack ''data did not match any variant of untagged enum VersionedBinSlate'')
   | Panic \<Rightarrow> Panic)"

section \<open>Messages of the owner\<close>

definition no_packer_args :: slatepacker_args where
  "no_packer_args = \<lparr>spa_sender = None, spa_recipients = [], spa_dec_key = None\<rparr>"

definition create_slatepack_message ::
  "ext \<Rightarrow> ser_ext \<Rightarrow> pack_ext \<Rightarrow> bytes \<Rightarrow> secret_key option \<Rightarrow> slate \<Rightarrow> u32 option \<Rightarrow>
     slatepack_address list \<Rightarrow> string wop" where
  "create_slatepack_message X E G seed km s sender_index recips =
     sbind (case sender_index of
              Some i \<Rightarrow> sbind (get_slatepack_address X km i) (\<lambda>a. sret (Some a))
            | None \<Rightarrow> sret None) (\<lambda>sender.
     sbind (slift (create_slatepack X E G seed
              \<lparr>spa_sender = sender, spa_recipients = recips, spa_dec_key = None\<rparr> s)) (\<lambda>sp.
       slift (armor_slatepack X G sp)))"

text \<open>
  The keys of the indices are tried in turn, and a key that fails with an error is skipped; the
  first Slatepack that is read is returned, if there is one.
\<close>

primrec first_readable ::
  "ext \<Rightarrow> pack_ext \<Rightarrow> secret_key option \<Rightarrow> bytes \<Rightarrow> u32 list \<Rightarrow> slatepack option wop" where
  "first_readable X G km data [] = sret None"
| "first_readable X G km data (index # indices) =
     sbind (get_slatepack_secret_key X km index) (\<lambda>dec_key.
       case deser_slatepack X G (no_packer_args\<lparr>spa_dec_key := Some dec_key\<rparr>) data True of
         Ok sp \<Rightarrow> sret (Some sp)
       | Err _ \<Rightarrow> first_readable X G km data indices
       | Panic \<Rightarrow> slift Panic)"

definition slate_from_slatepack_message ::
  "ext \<Rightarrow> ser_ext \<Rightarrow> pack_ext \<Rightarrow> secret_key option \<Rightarrow> bytes \<Rightarrow> u32 list \<Rightarrow> slate wop" where
  "slate_from_slatepack_message X E G km data secret_indices =
     (if secret_indices = [] then
        sbind (slift (deser_slatepack X G no_packer_args data True)) (\<lambda>sp. slift (slate_of_slatepack X E sp))
      else
        sbind (first_readable X G km data secret_indices) (\<lambda>r. case r of
          Some sp \<Rightarrow> slift (slate_of_slatepack X E sp)
        | None \<Rightarrow> sfail (Slt (SlatepackDecryption
            ''Could not decrypt slatepack with any provided index on the address derivation path''))))"

definition decode_slatepack_message ::
  "ext \<Rightarrow> pack_ext \<Rightarrow> secret_key option \<Rightarrow> bytes \<Rightarrow> u32 list \<Rightarrow> slatepack wop" where
  "decode_slatepack_message X G km data secret_indices =
     (if secret_indices = [] then slift (deser_slatepack X G no_packer_args data False)
      else
        sbind (first_readable X G km data secret_indices) (\<lambda>r. case r of
          Some sp \<Rightarrow> sret sp
        | None \<Rightarrow> slift (deser_slatepack X G no_packer_args data False)))"

end
