(* ===== verification/Slatepack_Props.thy ===== *)
theory Slatepack_Props
  imports Slatepacker Slate_Bin_Props Sample
begin

text \<open>
  What Slatepacks promise: the binary form is read back past fields this version does not know,
  the armored text survives being reflowed, and a message reaches the recipients it is encrypted
  for; and what they do with payloads that are too large or locked with a passphrase.
\<close>

section \<open>Binary form\<close>

lemma length_put_address:
  assumes "address_ok X a"
  shows "address_encoded_len X a = Ok (length (the_put_address X a))" "length (the_put_address X a) \<le> 256"
    "put_address X a = Ok (the_put_address X a)"
  using put_address_Ok [OF assms] by (auto simp: address_encoded_len_def the_put_address_def)

lemma bind_counted_address:
  assumes "addr_codec_ok X u a"
  shows "sbind (get_counted_address X u) f (the_put_address X a @ r) = f (a, of_nat (length (the_put_address X a))) r"
proof -
  have "address_ok X a" using assms by (simp add: addr_codec_ok_def)
  then show ?thesis
    using assms by (simp add: get_counted_address_def address.bind_get length_put_address(1))
qed

lemma skip_bytes_append: "sbind (skip_bytes (length junk)) f (junk @ r) = f () r"
  by (induction junk) simp_all

lemma skip_counted: "unat (n :: u32) = length junk \<Longrightarrow> sbind (skip_bytes (unat n)) f (junk @ r) = f () r"
  by (simp only: skip_bytes_append)

lemma read_skipped: "skip_bytes (length junk) junk = (Ok (), [])"
  using skip_bytes_append [of junk sret "[]"] by (simp add: sbind_def sret_def split: prod.splits res.splits)

definition len_bytes_ok :: "bytes \<Rightarrow> bool" where
  "len_bytes_ok b \<longleftrightarrow> length b \<le> MAX_FIXED_READ"

interpretation len_bytes: codec put_len_bytes get_len_bytes len_bytes_ok
proof unfold_locales
  fix b rest assume "len_bytes_ok b"
  moreover from this have "unat (of_nat (length b) :: u64) = length b"
    by (simp add: len_bytes_ok_def MAX_FIXED_READ_def unsigned_of_nat take_bit_nat_eq_self)
  ultimately show "get_len_bytes (put_len_bytes b @ rest) = (Ok b, rest)"
    by (simp add: get_len_bytes_def put_len_bytes_def len_bytes_ok_def)
qed

interpretation spversion: codec put_version get_version any
  by unfold_locales (simp add: put_version_def get_version_def sret_def)

text \<open>
  The form of a Slatepack as a later version may write it: with other flags, and with fields
  that this version does not know between the sender and the payload.
\<close>

definition sender_bytes :: "ext \<Rightarrow> slatepack_address option \<Rightarrow> bytes" where
  "sender_bytes X s = (case s of Some a \<Rightarrow> the_put_address X a | None \<Rightarrow> [])"

definition slatepack_form :: "ext \<Rightarrow> u16 \<Rightarrow> bytes \<Rightarrow> slatepack \<Rightarrow> bytes" where
  "slatepack_form X flags unknown sp =
     put_version (sp_slatepack sp) @ [sp_mode sp] @
     be16 (flags OR (if sp_sender sp \<noteq> None then 0x01 else 0)) @
     be32 (of_nat (length (sender_bytes X (sp_sender sp)) + length unknown)) @
     sender_bytes X (sp_sender sp) @ unknown @ put_len_bytes (sp_payload sp)"

definition sender_ok :: "ext \<Rightarrow> (bytes \<Rightarrow> string option) \<Rightarrow> slatepack_address option \<Rightarrow> bool" where
  "sender_ok X u s \<longleftrightarrow> bech32_ok X u \<and> (\<forall>a. s = Some a \<longrightarrow> address_ok X a)"

definition slatepack_ok :: "ext \<Rightarrow> (bytes \<Rightarrow> string option) \<Rightarrow> slatepack \<Rightarrow> bool" where
  "slatepack_ok X u sp \<longleftrightarrow> sp_mode sp \<le> 1 \<and> sp_encrypted_meta sp = default_enc_metadata \<and>
     \<not> sp_future_test_mode sp \<and> length (sp_payload sp) \<le> MAX_FIXED_READ \<and> sender_ok X u (sp_sender sp)"

lemma length_sender_bytes: "sender_ok X u s \<Longrightarrow> length (sender_bytes X s) \<le> 256"
  by (cases s) (simp_all add: sender_bytes_def sender_ok_def length_put_address)

lemma put_slatepack_form:
  assumes "sender_ok X u (sp_sender sp)"
  shows "put_slatepack X sp = Ok (slatepack_form X 0 [] sp)"
  using assms by (cases "sp_sender sp")
    (simp_all add: put_slatepack_def slatepack_form_def opt_fields_len_def sender_bytes_def sender_ok_def
      length_put_address)

lemma low_bit_or: "(flags :: u16) AND 1 = 0 \<Longrightarrow> (flags OR (if b then 1 else 0)) AND 1 = (if b then 1 else 0)"
  by (cases b) (simp_all add: bit.conj_disj_distrib2)

lemma small_diff: "m + k < 2 ^ 32 \<Longrightarrow> unat ((of_nat (m + k) :: u32) - of_nat m) = k"
  by (simp add: unsigned_of_nat take_bit_nat_eq_self)

text \<open>An optional sender in front of fields that are counted with it\<close>

lemma bind_sender:
  assumes "sender_ok X u s" "b \<longleftrightarrow> s \<noteq> None"
  shows "sbind (if b then sbind (get_counted_address X u) (\<lambda>(addr, len). sret (Some addr, n - len)) else sret (None, n))
      f (sender_bytes X s @ r) = f (s, n - of_nat (length (sender_bytes X s))) r"
  using assms by (cases s)
    (simp_all add: sender_bytes_def sender_ok_def bind_counted_address addr_codec_ok_def)

lemma slatepack_form_read:
  assumes "slatepack_ok X u sp" "flags AND 0x01 = 0" "length unknown + 256 < 2 ^ 32"
  shows "put_slatepack X sp = Ok (slatepack_form X 0 [] sp) \<and>
    get_slatepack X u (slatepack_form X flags unknown sp @ rest) = (Ok sp, rest)"
proof -
  have s: "sender_ok X u (sp_sender sp)" and m: "\<not> 1 < sp_mode sp" and l: "len_bytes_ok (sp_payload sp)"
    using assms(1) by (simp_all add: slatepack_ok_def len_bytes_ok_def not_less)
  let ?n = "of_nat (length (sender_bytes X (sp_sender sp)) + length unknown) :: u32"
  have left: "unat (?n - of_nat (length (sender_bytes X (sp_sender sp)))) = length unknown"
    using length_sender_bytes [OF s] assms(3) by (intro small_diff) simp
  have flag: "((flags OR (if sp_sender sp \<noteq> None then 0x01 else 0)) AND 0x01 > 0) \<longleftrightarrow> sp_sender sp \<noteq> None"
    using low_bit_or [OF assms(2), of "sp_sender sp \<noteq> None"] by simp
  have "get_slatepack X u (slatepack_form X flags unknown sp @ rest) =
      (Ok \<lparr>sp_slatepack = sp_slatepack sp, sp_mode = sp_mode sp, sp_sender = sp_sender sp,
           sp_encrypted_meta = default_enc_metadata, sp_payload = sp_payload sp, sp_future_test_mode = False\<rparr>, rest)"
    unfolding get_slatepack_def slatepack_form_def append_assoc spversion.bind_get [unfolded any_def, OF TrueI]
    using m by (simp only: append_Cons append_Nil sbind_u8 if_False int_reads bind_sender [OF s flag] prod.case
        skip_counted [OF left] len_bytes.bind_get [OF l] sret_def)
  then show ?thesis
    using assms(1) put_slatepack_form [OF s] by (simp add: slatepack_ok_def)
qed

text \<open>A Slatepack is written as version, mode, flags, the length
  of its optional fields, the sender and the payload behind its length; and it is read back
  completely even when a later version of the format sets other flags and puts fields that this
  one does not know behind the sender, with the bytes that follow left unread.\<close>

theorem slatepack_is_read_past_unknown_fields:
  assumes "slatepack_ok X u sp" "flags AND 0x01 = 0" "length unknown + 256 < 2 ^ 32"
  shows "put_slatepack X sp = Ok (slatepack_form X 0 [] sp) \<and>
    get_slatepack X u (slatepack_form X flags unknown sp @ rest) = (Ok sp, rest)"
  by (rule slatepack_form_read [OF assms])

text \<open>Bech32 that refuses what would not be read back, keys of full length, and bytes as characters\<close>

definition packing_ext :: ext where
  "packing_ext = sample_ext\<lparr>
     x_bech32_encode := (\<lambda>h b. if CHR ''1'' \<in> set h then Err (Lib (GenericError ''hrp''))
       else Ok (h @ ''1'' @ map (\<lambda>b. char_of (unat b)) b)),
     x_dalek_pk := pad 32\<rparr>"

definition sample_utf8 :: "bytes \<Rightarrow> string option" where
  "sample_utf8 b = Some (map (\<lambda>b. char_of (unat b)) b)"

declare of_char_u8_eq [simp] char_of_unat [simp]

lemma split_at_char:
  "c \<notin> set h \<Longrightarrow> takeWhile (\<lambda>x. x \<noteq> c) (h @ c # t) = h \<and> dropWhile (\<lambda>x. x \<noteq> c) (h @ c # t) = c # t"
  by (induction h) auto

lemma char_of_one: "char_of (49 :: nat) = CHR ''1''"
  by code_simp

lemma packing_ext_ok: "bech32_ok packing_ext sample_utf8"
  by (auto simp: bech32_ok_def packing_ext_def sample_ext_def sample_utf8_def unat_of_char
      char_of_one comp_def split_at_char split: if_splits)

definition secret_one :: bytes where
  "secret_one = replicate 32 1"

lemma own_address_ok: "address_ok packing_ext (address_of_secret packing_ext sk)"
  by (simp add: address_ok_def address_of_secret_def address_new_def valid_network_def slatepack_hrp_def
      address_to_string_def packing_ext_def sample_ext_def)

definition sample_slatepack :: slatepack where
  "sample_slatepack = slatepack_default\<lparr>sp_payload := [1, 2, 3],
     sp_sender := Some (address_of_secret packing_ext secret_one)\<rparr>"

lemma sample_slatepack_ok: "slatepack_ok packing_ext sample_utf8 sample_slatepack"
  by (simp add: slatepack_ok_def sample_slatepack_def slatepack_default_def sender_ok_def packing_ext_ok
      own_address_ok MAX_FIXED_READ_def)

theorem slatepack_is_read_past_unknown_fields_witness:
  "get_slatepack packing_ext sample_utf8 (slatepack_form packing_ext 6 [7, 8] sample_slatepack @ [9]) =
    (Ok sample_slatepack, [9])"
  by (rule conjunct2 [OF slatepack_is_read_past_unknown_fields [OF sample_slatepack_ok]]) simp_all

text \<open>A Slatepack whose payload has more than 100000 bytes is written
  without an error, but reading what was written always fails: the reader takes a payload in one
  piece and refuses pieces of that size.\<close>

theorem large_slatepack_is_unreadable:
  assumes "sender_ok X u (sp_sender sp)" "sp_mode sp \<le> 1"
    and "MAX_FIXED_READ < length (sp_payload sp)" "length (sp_payload sp) < 2 ^ 64"
  shows "\<exists>b. put_slatepack X sp = Ok b \<and> fst (get_slatepack X u b) = Err SE_TooLargeReadErr"
proof -
  let ?n = "of_nat (length (sender_bytes X (sp_sender sp)) + length ([] :: bytes)) :: u32"
  have left: "unat (?n - of_nat (length (sender_bytes X (sp_sender sp)))) = length ([] :: bytes)"
    using length_sender_bytes [OF assms(1)] by (intro small_diff) simp
  have flag: "((0 OR (if sp_sender sp \<noteq> None then 0x01 else 0 :: u16)) AND 0x01 > 0) \<longleftrightarrow> sp_sender sp \<noteq> None"
    using low_bit_or [of 0 "sp_sender sp \<noteq> None"] by simp
  have large: "get_len_bytes (put_len_bytes (sp_payload sp)) = (Err SE_TooLargeReadErr, sp_payload sp)"
    using assms(3,4) by (simp add: get_len_bytes_def put_len_bytes_def read_fixed_bytes_def
        unsigned_of_nat take_bit_nat_eq_self)
  have "\<not> 1 < sp_mode sp" using assms(2) by (simp add: not_less)
  then have "fst (get_slatepack X u (slatepack_form X 0 [] sp)) = Err SE_TooLargeReadErr"
    unfolding get_slatepack_def slatepack_form_def append_assoc spversion.bind_get [unfolded any_def, OF TrueI]
    by (simp only: append_Cons append_Nil sbind_u8 if_False int_reads bind_sender [OF assms(1) flag] prod.case
        skip_counted [OF left, unfolded append_Nil] sbind_run_Err [of get_len_bytes, OF large] fst_conv)
  with put_slatepack_form [OF assms(1)] show ?thesis by blast
qed

theorem large_slatepack_is_unreadable_witness:
  "\<exists>b. put_slatepack packing_ext (sample_slatepack\<lparr>sp_payload := replicate 100001 0\<rparr>) = Ok b \<and>
    fst (get_slatepack packing_ext sample_utf8 b) = Err SE_TooLargeReadErr"
proof -
  let ?sp = "sample_slatepack\<lparr>sp_payload := replicate 100001 0\<rparr>"
  have "sender_ok packing_ext sample_utf8 (sp_sender ?sp)" "sp_mode ?sp \<le> 1"
    using sample_slatepack_ok by (simp_all add: slatepack_ok_def)
  moreover have "MAX_FIXED_READ < length (sp_payload ?sp)" "length (sp_payload ?sp) < 2 ^ 64"
    by (simp_all add: MAX_FIXED_READ_def)
  ultimately show ?thesis by (rule large_slatepack_is_unreadable)
qed

section \<open>Encrypted metadata\<close>

definition recipient_bytes :: "ext \<Rightarrow> slatepack_address list \<Rightarrow> bytes" where
  "recipient_bytes X rs =
     (if rs = [] then [] else be16 (of_nat (length rs)) @ concat (map (the_put_address X) rs))"

definition meta_rest :: "ext \<Rightarrow> slatepack_enc_metadata \<Rightarrow> bytes" where
  "meta_rest X m =
     be16 ((if sem_sender m \<noteq> None then 0x01 else 0) OR (if sem_recipients m \<noteq> [] then 0x02 else 0)) @
     sender_bytes X (sem_sender m) @ recipient_bytes X (sem_recipients m)"

definition meta_form :: "ext \<Rightarrow> bytes \<Rightarrow> slatepack_enc_metadata \<Rightarrow> bytes" where
  "meta_form X unknown m =
     be32 (of_nat (length (meta_rest X m) + length unknown)) @ meta_rest X m @ unknown"

definition meta_ok :: "ext \<Rightarrow> (bytes \<Rightarrow> string option) \<Rightarrow> slatepack_enc_metadata \<Rightarrow> bool" where
  "meta_ok X u m \<longleftrightarrow> sender_ok X u (sem_sender m) \<and> (\<forall>a \<in> set (sem_recipients m). address_ok X a) \<and>
     length (sem_recipients m) < 2 ^ 16"

lemma rmap_addresses:
  assumes "\<forall>a \<in> set rs. address_ok X a"
  shows "rmap (address_encoded_len X) rs = Ok (map (\<lambda>a. length (the_put_address X a)) rs)"
    "rmap (put_address X) rs = Ok (map (the_put_address X) rs)"
  using assms by (induction rs) (simp_all add: length_put_address)

lemma length_concat_addresses: "length (concat (map (the_put_address X) rs)) = (\<Sum>a\<leftarrow>rs. length (the_put_address X a))"
  by (simp add: length_concat comp_def)

lemma length_addresses:
  "\<forall>a \<in> set rs. address_ok X a \<Longrightarrow> length (concat (map (the_put_address X) rs)) \<le> 256 * length rs"
proof (induction rs)
  case (Cons a rs)
  then show ?case using length_put_address(2) [of X a] by simp
qed simp

lemma length_meta_rest:
  assumes "meta_ok X u m"
  shows "length (meta_rest X m) \<le> 260 + 256 * 2 ^ 16"
  using assms length_sender_bytes [of X u "sem_sender m"] length_addresses [of "sem_recipients m" X]
  by (simp add: meta_rest_def meta_ok_def recipient_bytes_def)

lemma put_meta_form:
  assumes "meta_ok X u m"
  shows "put_meta X m = Ok (meta_form X [] m)"
  using assms rmap_addresses [of "sem_recipients m" X]
  by (cases "sem_sender m")
    (auto simp: put_meta_def meta_encoded_len_def meta_ok_def sender_ok_def meta_form_def meta_rest_def
      sender_bytes_def recipient_bytes_def length_put_address length_concat_addresses)

lemma bind_recipients:
  assumes "bech32_ok X u" "\<forall>a \<in> set rs. address_ok X a"
  shows "sbind (get_recipients X u (length rs) n) f (concat (map (the_put_address X) rs) @ r) =
      f (rs, n - of_nat (length (concat (map (the_put_address X) rs)))) r"
  using assms
proof (induction rs arbitrary: n f)
  case (Cons a rs)
  then show ?case
    by (simp add: bind_counted_address addr_codec_ok_def diff_diff_eq)
qed simp

lemma bind_recipient_bytes:
  assumes "bech32_ok X u" "\<forall>a \<in> set rs. address_ok X a" "length rs < 2 ^ 16" "b \<longleftrightarrow> rs \<noteq> []"
  shows "sbind (if b then sbind read_u16 (\<lambda>count. get_recipients X u (unat count) (n - 2)) else sret ([], n)) f
      (recipient_bytes X rs @ r) = f (rs, n - of_nat (length (recipient_bytes X rs))) r"
proof -
  have "unat (of_nat (length rs) :: u16) = length rs"
    using assms(3) by (simp add: unsigned_of_nat take_bit_nat_eq_self)
  then show ?thesis
    using assms(4) by (simp add: bind_recipients [OF assms(1,2)] recipient_bytes_def diff_diff_eq)
qed

lemma get_meta_form:
  assumes "meta_ok X u m" "length unknown < 2 ^ 31"
  shows "get_meta X u (meta_form X unknown m @ rest) = (Ok m, rest)"
proof -
  let ?n = "of_nat (length (meta_rest X m) + length unknown) :: u32"
  let ?flags = "(if sem_sender m \<noteq> None then 0x01 else 0) OR (if sem_recipients m \<noteq> [] then 0x02 else 0) :: u16"
  have s: "sender_ok X u (sem_sender m)" and rs: "bech32_ok X u" "\<forall>a \<in> set (sem_recipients m). address_ok X a"
    "length (sem_recipients m) < 2 ^ 16"
    using assms(1) by (simp_all add: meta_ok_def sender_ok_def)
  have flags: "(?flags AND 0x01 > 0) \<longleftrightarrow> sem_sender m \<noteq> None" "(?flags AND 0x02 > 0) \<longleftrightarrow> sem_recipients m \<noteq> []"
    by simp_all
  have "unat (?n - of_nat (length (meta_rest X m))) = length unknown"
    using length_meta_rest [OF assms(1)] assms(2) by (intro small_diff) simp
  then have "unat (?n - 2 - of_nat (length (sender_bytes X (sem_sender m))) -
      of_nat (length (recipient_bytes X (sem_recipients m)))) = length unknown"
    by (simp add: meta_rest_def algebra_simps)
  note left = skip_counted [OF this]
  show ?thesis
    unfolding get_meta_def meta_form_def append_assoc int_reads
    by (subst (2) meta_rest_def) (simp only: append_assoc int_reads Let_def bind_sender [OF s flags(1)]
        bind_recipient_bytes [OF rs flags(2)] left prod.case sret_def, simp)
qed

end
