(* ===== verification/Message_Props.thy ===== *)
theory Message_Props
  imports Slatepack_Props Send_Props Backend_Props
begin

text \<open>
  Slatepacks as text and as messages between wallets: the armored text is read back however its
  white space was changed, a message encrypted for a wallet is opened by it, and what a payload
  does that is not encrypted for recipients.
\<close>

section \<open>Characters and bytes\<close>

lemma period_byte: "(of_char c :: u8) = 46 \<longleftrightarrow> c = CHR ''.''"
  using of_char_u8_eq [of c "CHR ''.''"] by simp

lemma space_byte: "armor_space_byte (of_char c) \<longleftrightarrow> armor_space c"
  using of_char_u8_eq [of c "CHR ''>''"] of_char_u8_eq [of c "CHR '' ''"]
  by (auto simp: armor_space_byte_def armor_space_def simp del: of_char_u8_eq)

lemma upto_period_text:
  "CHR ''.'' \<notin> set s \<Longrightarrow> upto_period (map of_char (s @ CHR ''.'' # rest)) = map of_char s"
  by (induction s) (auto simp: upto_period_def period_byte)

lemma filter_space_text:
  "filter (\<lambda>b. \<not> armor_space_byte b) (map of_char s) = map of_char (filter (\<lambda>c. \<not> armor_space c) s)"
  by (induction s) (simp_all add: space_byte)

section \<open>Armor\<close>

definition ascii :: "string \<Rightarrow> bool" where
  "ascii s \<longleftrightarrow> list_all (\<lambda>c. (of_char c :: u8) < 128) s"

definition b58_char :: "char \<Rightarrow> bool" where
  "b58_char c \<longleftrightarrow> c \<in> set ''123456789ABCDEFGHJKLMNPQRSTUVWXYZabcdefghijkmnopqrstuvwxyz''"

text \<open>
  What is assumed of the libraries: ASCII is its own UTF-8, a hash has 32 bytes, base 58 is read
  back, has its alphabet and is not shorter than its bytes, and bech32 texts are read back.
\<close>

definition pack_ok :: "ext \<Rightarrow> pack_ext \<Rightarrow> bool" where
  "pack_ok X G \<longleftrightarrow> bech32_ok X (g_str_of_utf8 G) \<and>
     (\<forall>s. ascii s \<longrightarrow> g_str_of_utf8 G (map of_char s) = Some s) \<and>
     (\<forall>b. length (g_sha256 G b) = 32) \<and>
     (\<forall>b. g_b58_decode G (map of_char (g_b58_encode G b)) = Some b \<and>
        list_all b58_char (g_b58_encode G b) \<and> length b \<le> length (g_b58_encode G b))"

lemma b58_char_plain: "b58_char c \<Longrightarrow> c \<noteq> CHR ''.'' \<and> \<not> armor_space c"
  by (auto simp: b58_char_def armor_space_def)

definition spaces :: "string \<Rightarrow> bool" where
  "spaces s \<longleftrightarrow> list_all armor_space s"

lemma space_not_period: "armor_space c \<Longrightarrow> c \<noteq> CHR ''.''"
  by (auto simp: armor_space_def)

lemma space_ascii: "armor_space c \<Longrightarrow> (of_char c :: u8) < 128"
  by (auto simp: armor_space_def)

lemma spaces_plain: "spaces s \<Longrightarrow> ascii s \<and> CHR ''.'' \<notin> set s"
  using space_not_period space_ascii by (auto simp: spaces_def ascii_def list_all_iff)

lemma framing_matches_spaces:
  assumes "spaces a" "spaces b" "word = c # cs" "\<not> armor_space c"
  shows "framing_matches word (a @ word @ b)"
  using assms by (simp add: framing_matches_def spaces_def list_all_iff dropWhile_append2)

lemma check_framings:
  assumes "pack_ok X G" "spaces a" "spaces b"
  shows "check_header G (map of_char (a @ ''BEGINSLATEPACK'' @ b)) = Ok ()"
    "check_footer G (map of_char (a @ ''ENDSLATEPACK'' @ b)) = Ok ()"
proof -
  have "framing_matches ''BEGINSLATEPACK'' (a @ ''BEGINSLATEPACK'' @ b)"
    "framing_matches ''ENDSLATEPACK'' (a @ ''ENDSLATEPACK'' @ b)"
    by (rule framing_matches_spaces [OF assms(2,3) refl]; simp add: armor_space_def)+
  moreover have "ascii (a @ ''BEGINSLATEPACK'' @ b)" "ascii (a @ ''ENDSLATEPACK'' @ b)"
    using spaces_plain [OF assms(2)] spaces_plain [OF assms(3)] by (simp_all add: ascii_def)
  ultimately show "check_header G (map of_char (a @ ''BEGINSLATEPACK'' @ b)) = Ok ()"
    "check_footer G (map of_char (a @ ''ENDSLATEPACK'' @ b)) = Ok ()"
    using assms(1) by (simp_all add: check_header_def check_footer_def pack_ok_def del: map_append)
qed

text \<open>An armored text, with its white space anywhere it may be\<close>

definition armored :: "string \<Rightarrow> string \<Rightarrow> string \<Rightarrow> string" where
  "armored h p f = h @ CHR ''.'' # p @ CHR ''.'' # f"

lemma bytes_from_append: "length a = n \<Longrightarrow> bytes_from n (a @ b) = Some b"
  by (simp add: bytes_from_def)

lemma armor_decode_framed:
  assumes G: "pack_ok X G" and plain: "CHR ''.'' \<notin> set h" "CHR ''.'' \<notin> set f"
    and h: "check_header G (map of_char h) = Ok ()" and f: "check_footer G (map of_char f) = Ok ()"
    and p: "filter (\<lambda>x. \<not> armor_space x) p = base58check G data"
  shows "armor_decode G (map of_char (armored h p (f @ CHR ''.'' # rest))) = Ok data"
proof -
  let ?t = "map of_char (armored h p (f @ CHR ''.'' # rest)) :: bytes"
  have b58: "g_b58_decode G (map of_char (base58check G data)) = Some (generate_check G data @ data)"
    "list_all b58_char (base58check G data)"
    using G by (simp_all add: pack_ok_def base58check_def)
  have "x \<noteq> CHR ''.''" if "x \<in> set p" for x
  proof (cases "armor_space x")
    case False
    with that p have "x \<in> set (base58check G data)" by (metis (mono_tags, lifting) mem_Collect_eq set_filter)
    with b58(2) b58_char_plain show ?thesis by (auto simp: list_all_iff)
  qed (rule space_not_period)
  then have "CHR ''.'' \<notin> set p" by blast
  note periods = upto_period_text [OF this] upto_period_text [OF plain(2)]
  have check: "length (generate_check G data) = 4" using G by (simp add: generate_check_def pack_ok_def)
  have shape: "?t = map of_char (h @ [CHR ''.'']) @ map of_char (p @ CHR ''.'' # f @ CHR ''.'' # rest)"
    "?t = map of_char (h @ CHR ''.'' # p @ [CHR ''.'']) @ map of_char (f @ CHR ''.'' # rest)"
    by (simp_all add: armored_def)
  have t: "upto_period ?t = map of_char h"
    "bytes_from (length h + 1) ?t = Some (map of_char (p @ CHR ''.'' # f @ CHR ''.'' # rest))"
    "bytes_from (length h + 1 + length p + 1) ?t = Some (map of_char (f @ CHR ''.'' # rest))"
    subgoal unfolding armored_def by (rule upto_period_text [OF plain(1)])
    subgoal unfolding shape(1) by (rule bytes_from_append) simp
    subgoal unfolding shape(2) by (rule bytes_from_append) simp
    done
  show ?thesis
    unfolding armor_decode_def Let_def t length_map h f rbind_simps ok_or_simps periods filter_space_text p b58(1)
    using check by (simp add: error_check_def)
qed

lemma armor_decode_text:
  assumes "pack_ok X G" "spaces a" "spaces b" "spaces c" "spaces d"
    "filter (\<lambda>x. \<not> armor_space x) p = base58check G data"
  shows "armor_decode G (map of_char (armored (a @ ''BEGINSLATEPACK'' @ b) p ((c @ ''ENDSLATEPACK'' @ d) @ CHR ''.'' # rest))) = Ok data"
proof -
  have "CHR ''.'' \<notin> set a" "CHR ''.'' \<notin> set b" "CHR ''.'' \<notin> set c" "CHR ''.'' \<notin> set d"
    using assms(2-5) by (blast dest: spaces_plain)+
  then have plain: "CHR ''.'' \<notin> set (a @ ''BEGINSLATEPACK'' @ b)" "CHR ''.'' \<notin> set (c @ ''ENDSLATEPACK'' @ d)"
    by (simp_all only: set_append Un_iff) simp_all
  show ?thesis
    by (rule armor_decode_framed [OF assms(1) plain check_framings(1) [OF assms(1-3)]
          check_framings(2) [OF assms(1,4,5)] assms(6)])
qed

text \<open>What the writer makes has this form.\<close>

lemma filter_breaks:
  "list_all b58_char s \<Longrightarrow>
    filter (\<lambda>x. \<not> armor_space x) (concat (map (\<lambda>(i, c). armor_break i @ [c]) (enumerate n s))) = s"
proof (induction s arbitrary: n)
  case (Cons c s)
  have "filter (\<lambda>x. \<not> armor_space x) (armor_break n) = []"
    by (simp add: armor_break_def armor_space_def)
  with Cons show ?case using b58_char_plain [of c] by simp
qed simp

lemma armor_break_small: "n < 15 \<Longrightarrow> armor_break n = []"
  by (auto simp: armor_break_def WORD_LENGTH_def)

lemma no_break_in_word:
  "n + length s \<le> 15 \<Longrightarrow> concat (map (\<lambda>(i, c). armor_break i @ [c]) (enumerate n s)) = s"
  by (induction s arbitrary: n) (simp_all add: armor_break_small)

lemma format_header:
  "format_slatepack (HEADER @ s) = HEADER @ concat (map (\<lambda>(i, c). armor_break i @ [c]) (enumerate 15 s))"
proof -
  have "length HEADER = 15" by (simp add: HEADER_def)
  then show ?thesis
    using no_break_in_word [of 0 HEADER] by (simp add: format_slatepack_def enumerate_append_eq)
qed

lemma armor_encode_shape:
  assumes "pack_ok X G" "put_slatepack X sp = Ok data"
  shows "\<exists>p. filter (\<lambda>x. \<not> armor_space x) p = base58check G data \<and> length (base58check G data) \<le> length p \<and>
    armor_encode X G sp = Ok (armored ''BEGINSLATEPACK'' p ('' ENDSLATEPACK.'' @ [CHR 0x0A]))"
proof -
  let ?p = "concat (map (\<lambda>(i, c). armor_break i @ [c]) (enumerate 15 (base58check G data)))"
  have "filter (\<lambda>x. \<not> armor_space x) ?p = base58check G data"
    using assms(1) by (intro filter_breaks) (simp add: pack_ok_def base58check_def)
  moreover from this have "length (base58check G data) \<le> length ?p" by (metis length_filter_le)
  moreover have "armor_encode X G sp = Ok (armored ''BEGINSLATEPACK'' ?p ('' ENDSLATEPACK.'' @ [CHR 0x0A]))"
    using assms(2) format_header [of "base58check G data"]
    by (simp add: armor_encode_def armored_def HEADER_def FOOTER_def)
  ultimately show ?thesis by blast
qed

text \<open>An armored Slatepack is decoded to the bytes it was made of, and so is
  every text that differs from it in white space only, anywhere around the two framing words and
  inside the payload, with whatever follows its last period.\<close>

theorem armor_survives_reflowing:
  assumes "pack_ok X G" "put_slatepack X sp = Ok data"
    and "list_all armor_space (a @ b @ c @ d)"
    and "filter (\<lambda>x. \<not> armor_space x) p = base58check G data"
  shows "(\<exists>t. armor_encode X G sp = Ok t \<and> armor_decode G (map of_char t) = Ok data) \<and>
    armor_decode G (map of_char (a @ ''BEGINSLATEPACK'' @ b @ ''.'' @ p @ ''.'' @ c @ ''ENDSLATEPACK'' @ d @ ''.'' @ rest)) = Ok data"
proof -
  have sp: "spaces a" "spaces b" "spaces c" "spaces d" "spaces []" "spaces '' ''"
    using assms(3) by (simp_all add: spaces_def armor_space_def)
  obtain q where q: "filter (\<lambda>x. \<not> armor_space x) q = base58check G data"
    "armor_encode X G sp = Ok (armored ''BEGINSLATEPACK'' q ('' ENDSLATEPACK.'' @ [CHR 0x0A]))"
    using armor_encode_shape [OF assms(1,2)] by blast
  show ?thesis
    using armor_decode_text [OF assms(1) sp(5,5,6,5) q(1), of "[CHR 0x0A]"]
      armor_decode_text [OF assms(1) sp(1-4) assms(4), of rest] q(2)
    by (simp add: armored_def)
qed

section \<open>Encryption\<close>

text \<open>
  What is assumed of \<open>age\<close> and the key conversions: what was encrypted for the recipient a key
  stands for is decrypted with the identity of that key and is refused to the identities of
  others, and it is a payload for recipients.
\<close>

definition age_ok :: "ext \<Rightarrow> age_ext \<Rightarrow> bool" where
  "age_ok X g \<longleftrightarrow> (\<forall>seed keys d c sk key r.
     decryption_identity X g sk = Ok key \<and> age_recipient X g (address_of_secret X sk) = Ok r \<and>
     g_encrypt g seed keys d = Ok c \<longrightarrow>
       g_for_recipients g c = Ok True \<and>
       (if r \<in> set keys then g_decrypt g key c = Ok d else \<exists>e. g_decrypt g key c = Err e))"

text \<open>A Slatepack with metadata encrypted along is sealed when its payload is the encryption of both.\<close>

definition sealed :: "ext \<Rightarrow> age_ext \<Rightarrow> bytes \<Rightarrow> slatepack_address list \<Rightarrow> slatepack \<Rightarrow> slatepack \<Rightarrow> bool" where
  "sealed X g seed recips plain sp \<longleftrightarrow> (\<exists>keys c.
     rmap (age_recipient X g) recips = Ok keys \<and>
     g_encrypt g seed keys (meta_form X [] \<lparr>sem_sender = sp_sender plain, sem_recipients = []\<rparr> @ sp_payload plain) = Ok c \<and>
     sp = plain\<lparr>sp_sender := None, sp_payload := c, sp_mode := 1\<rparr>)"

definition plain_ok :: "ext \<Rightarrow> (bytes \<Rightarrow> string option) \<Rightarrow> slatepack \<Rightarrow> bool" where
  "plain_ok X u sp \<longleftrightarrow> sp_mode sp = 0 \<and> sp_encrypted_meta sp = default_enc_metadata \<and> \<not> sp_future_test_mode sp \<and>
     sender_ok X u (sp_sender sp)"

lemma encrypted_is_sealed:
  assumes "plain_ok X u plain" "recips \<noteq> []" "try_encrypt_payload X g seed junk recips plain = Ok sp"
  shows "sealed X g seed recips plain (sp\<lparr>sp_encrypted_meta := default_enc_metadata\<rparr>)"
proof -
  let ?m = "\<lparr>sem_sender = sp_sender plain, sem_recipients = []\<rparr>"
  have m: "(sp_encrypted_meta plain)\<lparr>sem_sender := sp_sender plain\<rparr> = ?m"
    using assms(1) by (simp add: plain_ok_def default_enc_metadata_def)
  have "meta_ok X u ?m" using assms(1) by (simp add: plain_ok_def meta_ok_def)
  then have put: "put_meta X ?m = Ok (meta_form X [] ?m)" by (rule put_meta_form)
  have "plain = plain\<lparr>sp_encrypted_meta := default_enc_metadata\<rparr>"
    using assms(1) by (simp add: plain_ok_def)
  then show ?thesis
    using assms unfolding try_encrypt_payload_def m Let_def put sealed_def
    by (auto simp: rbind_eq_Ok plain_ok_def)
qed

lemma rmap_set: "rmap f xs = Ok ys \<Longrightarrow> Ok r \<in> f ` set xs \<longleftrightarrow> r \<in> set ys"
  by (induction xs arbitrary: ys) (auto simp: rbind_eq_Ok)

lemma decrypt_sealed:
  assumes "age_ok X g" "plain_ok X u plain" "sealed X g seed recips plain sp"
    and "decryption_identity X g sk = Ok key" "age_recipient X g (address_of_secret X sk) = Ok r"
  shows "if Ok r \<in> age_recipient X g ` set recips then try_decrypt_payload X g u (Some sk) sp = Ok plain
    else \<exists>e. try_decrypt_payload X g u (Some sk) sp = Err e"
proof -
  let ?m = "\<lparr>sem_sender = sp_sender plain, sem_recipients = []\<rparr>"
  let ?f = "meta_form X [] ?m"
  obtain keys c where keys: "rmap (age_recipient X g) recips = Ok keys"
    and c: "g_encrypt g seed keys (?f @ sp_payload plain) = Ok c"
    and sp: "sp = plain\<lparr>sp_sender := None, sp_payload := c, sp_mode := 1\<rparr>"
    using assms(3) by (auto simp: sealed_def)
  have opened: "g_for_recipients g c = Ok True"
    "if r \<in> set keys then g_decrypt g key c = Ok (?f @ sp_payload plain) else \<exists>e. g_decrypt g key c = Err e"
    using assms(1,4,5) c unfolding age_ok_def by blast+
  have key: "Ok r \<in> age_recipient X g ` set recips \<longleftrightarrow> r \<in> set keys"
    using keys by (rule rmap_set)
  have m: "meta_ok X u ?m" using assms(2) by (simp add: plain_ok_def meta_ok_def)
  have "length (meta_rest X ?m) \<le> 260"
    using length_sender_bytes [of X u "sp_sender plain"] assms(2)
    by (simp add: meta_rest_def recipient_bytes_def plain_ok_def)
  then have start: "unat (of_be (take 4 (?f @ sp_payload plain)) :: u32) + 4 = length ?f"
    by (simp add: meta_form_def unsigned_of_nat take_bit_nat_eq_self)
  have cut: "take (length ?f) (?f @ sp_payload plain) = ?f" "\<not> length ?f + length (sp_payload plain) < 4"
    by (simp_all add: meta_form_def)
  have meta: "get_meta X u ?f = (Ok ?m, [])"
    using get_meta_form [OF m, of "[]" "[]"] by simp
  have "plain\<lparr>sp_encrypted_meta := (sp_encrypted_meta plain)\<lparr>sem_recipients := []\<rparr>, sp_mode := 0\<rparr> = plain"
    using assms(2) by (cases plain) (simp add: plain_ok_def default_enc_metadata_def)
  then show ?thesis
    using opened unfolding key
    by (auto simp: try_decrypt_payload_def sp assms(4) start cut meta Let_def default_enc_metadata_def plain_ok_def
        simp del: take_append split: if_splits)
qed

section \<open>Messages\<close>

lemma put_slatepack_meta: "put_slatepack X (sp\<lparr>sp_encrypted_meta := m\<rparr>) = put_slatepack X sp"
  by (simp add: put_slatepack_def opt_fields_len_def)

lemma armored_slatepack_is_read:
  assumes G: "pack_ok X G" and sp: "sp_mode sp \<le> 1" "\<not> sp_future_test_mode sp" "sender_ok X (g_str_of_utf8 G) (sp_sender sp)"
    and t: "armor_encode X G sp = Ok t" "length t \<le> MAX_FIXED_READ" "length t \<le> unat (slatepack_max_size X)"
  shows "deser_slatepack X G args (map of_char t) decrypt =
    (if decrypt then try_decrypt_payload X (age_ext.truncate G) (g_str_of_utf8 G) (spa_dec_key args)
        (sp\<lparr>sp_encrypted_meta := default_enc_metadata\<rparr>)
     else Ok (sp\<lparr>sp_encrypted_meta := default_enc_metadata\<rparr>))"
proof -
  let ?sp = "sp\<lparr>sp_encrypted_meta := default_enc_metadata\<rparr>"
  let ?data = "slatepack_form X 0 [] sp"
  have put: "put_slatepack X sp = Ok ?data" by (rule put_slatepack_form [OF sp(3)])
  obtain p where p: "filter (\<lambda>x. \<not> armor_space x) p = base58check G ?data" "length (base58check G ?data) \<le> length p"
    "t = armored ''BEGINSLATEPACK'' p ('' ENDSLATEPACK.'' @ [CHR 0x0A])"
    using armor_encode_shape [OF G put] t(1) by auto
  have "length (generate_check G ?data @ ?data) \<le> length (base58check G ?data)"
    using G unfolding pack_ok_def base58check_def by blast
  then have "length (sp_payload sp) \<le> length t"
    using p(2,3) by (simp add: slatepack_form_def put_len_bytes_def armored_def)
  then have "slatepack_ok X (g_str_of_utf8 G) ?sp"
    using sp t(2) by (simp add: slatepack_ok_def)
  then have get: "get_slatepack X (g_str_of_utf8 G) (slatepack_form X 0 [] ?sp @ []) = (Ok ?sp, [])"
    by (intro conjunct2 [OF slatepack_form_read]) simp_all
  then have get: "get_slatepack X (g_str_of_utf8 G) ?data = (Ok ?sp, [])"
    by (simp add: slatepack_form_def)
  have "spaces []" "spaces '' ''" by (simp_all add: spaces_def armor_space_def)
  from armor_decode_text [OF G this(1,1,2,1) p(1), of "[CHR 0x0A]"]
  have decode: "armor_decode G (map of_char t) = Ok ?data" by (simp add: p(3))
  have "ascii HEADER" by (simp add: ascii_def HEADER_def)
  moreover have "take (length HEADER) (map of_char t) = (map of_char HEADER :: bytes)"
    by (simp add: p(3) armored_def HEADER_def)
  ultimately have header: "g_str_of_utf8 G (take (length HEADER) (map of_char t)) = Some HEADER"
    using G by (simp only: pack_ok_def)
  have "15 \<le> length t" by (simp add: p(3) armored_def)
  then have size: "\<not> (of_nat (length t) < slatepack_min_size \<or> of_nat (length t) > slatepack_max_size X)"
    using t(2,3) by (simp add: word_less_nat_alt slatepack_min_size_def HEADER_def MAX_FIXED_READ_def
        unsigned_of_nat take_bit_nat_eq_self)
  show ?thesis
    using size unfolding deser_slatepack_def length_map Let_def header decode
    by (simp add: slatepack_of_data_def get)
qed

lemma create_slatepack_Ok:
  assumes G: "pack_ok X G" and "slate_to_v4 s = Ok v" and sender: "\<forall>a. spa_sender args = Some a \<longrightarrow> address_ok X a"
    and ok: "create_slatepack X E G seed args s = Ok sp"
  obtains plain where "plain = slatepack_default\<lparr>sp_payload := put_slate E v, sp_sender := spa_sender args\<rparr>"
    "plain_ok X (g_str_of_utf8 G) plain"
    "if spa_recipients args = [] then sp = plain
     else sealed X (age_ext.truncate G) seed (spa_recipients args) plain (sp\<lparr>sp_encrypted_meta := default_enc_metadata\<rparr>)"
proof -
  let ?plain = "slatepack_default\<lparr>sp_payload := put_slate E v, sp_sender := spa_sender args\<rparr>"
  have plain: "plain_ok X (g_str_of_utf8 G) ?plain"
    using G sender by (simp add: plain_ok_def slatepack_default_def sender_ok_def pack_ok_def)
  have enc: "try_encrypt_payload X (age_ext.truncate G) seed [] (spa_recipients args) ?plain = Ok sp"
    using ok assms(2) by (simp add: create_slatepack_def into_version_def)
  show ?thesis
  proof (rule that [OF refl plain])
    show "if spa_recipients args = [] then sp = ?plain
      else sealed X (age_ext.truncate G) seed (spa_recipients args) ?plain (sp\<lparr>sp_encrypted_meta := default_enc_metadata\<rparr>)"
      using enc encrypted_is_sealed [OF plain _ enc] by (auto simp: try_encrypt_payload_def)
  qed
qed

text \<open>
  Whether one of the indices gives a key of the wallet the message is for, and those before it
  give keys at all
\<close>

primrec has_key_for :: "ext \<Rightarrow> age_ext \<Rightarrow> secret_key option \<Rightarrow> wallet \<Rightarrow> slatepack_address list \<Rightarrow> u32 list \<Rightarrow> bool" where
  "has_key_for X g km w recips [] = False"
| "has_key_for X g km w recips (i # indices) = (case fst (get_slatepack_secret_key X km i w) of
     Ok sk \<Rightarrow> is_Ok (decryption_identity X g sk) \<and> is_Ok (age_recipient X g (address_of_secret X sk)) \<and>
       (age_recipient X g (address_of_secret X sk) \<in> age_recipient X g ` set recips \<or>
        has_key_for X g km w recips indices)
   | _ \<Rightarrow> False)"

lemma secret_key_state: "snd (get_slatepack_secret_key X km i w) = w"
  by (auto simp: get_slatepack_secret_key_def sbind_def sread_def slift_def split: prod.splits res.splits
      dest: the_keychain_state)

lemma own_address_state: "snd (get_slatepack_address X km i w) = w"
  by (auto simp: get_slatepack_address_def sbind_def sread_def slift_def sret_def split: prod.splits res.splits
      dest: the_keychain_state)

lemma first_readable_opens:
  assumes "age_ok X (age_ext.truncate G)" "plain_ok X (g_str_of_utf8 G) plain"
    and "sealed X (age_ext.truncate G) seed recips plain sp"
    and "\<And>sk. deser_slatepack X G (no_packer_args\<lparr>spa_dec_key := Some sk\<rparr>) data True =
      try_decrypt_payload X (age_ext.truncate G) (g_str_of_utf8 G) (Some sk) sp"
    and "has_key_for X (age_ext.truncate G) km w recips indices"
  shows "first_readable X G km data indices w = (Ok (Some plain), w)"
  using assms(5)
proof (induction indices)
  case (Cons i indices)
  obtain sk where sk: "get_slatepack_secret_key X km i w = (Ok sk, w)"
    using Cons.prems secret_key_state [of X km i w]
    by (cases "get_slatepack_secret_key X km i w") (auto split: res.splits)
  obtain key r where k: "decryption_identity X (age_ext.truncate G) sk = Ok key"
    "age_recipient X (age_ext.truncate G) (address_of_secret X sk) = Ok r"
    using Cons.prems by (auto simp: sk is_Ok_ex)
  show ?case
    using decrypt_sealed [OF assms(1-3) k] Cons
    by (auto simp: sbind_def sk assms(4) k sret_def split: if_splits)
qed simp

definition sent_plain :: "ext \<Rightarrow> ser_ext \<Rightarrow> secret_key option \<Rightarrow> slate_v4 \<Rightarrow> u32 option \<Rightarrow> wallet \<Rightarrow> slatepack" where
  "sent_plain X E km v sender_index w = slatepack_default\<lparr>sp_payload := put_slate E v,
     sp_sender := (case sender_index of
         None \<Rightarrow> None | Some i \<Rightarrow> Some (the_Ok (fst (get_slatepack_address X km i w))))\<rparr>"

lemma slatepack_address_of_secret:
  assumes "get_slatepack_address X km i w = (Ok a, w1)"
  shows "\<exists>sk. a = address_of_secret X sk"
  using assms by (auto simp: get_slatepack_address_def sbind_eq_Ok comp_eq_Ok)

lemma sealed_shape:
  assumes "sealed X g seed recips plain (sp\<lparr>sp_encrypted_meta := m\<rparr>)"
  shows "sp_mode sp = 1" "sp_sender sp = None" "sp_future_test_mode sp = sp_future_test_mode plain"
proof -
  obtain c where "sp\<lparr>sp_encrypted_meta := m\<rparr> = plain\<lparr>sp_sender := None, sp_payload := c, sp_mode := 1\<rparr>"
    using assms unfolding sealed_def by blast
  from arg_cong [OF this, of sp_mode] arg_cong [OF this, of sp_sender] arg_cong [OF this, of sp_future_test_mode]
  show "sp_mode sp = 1" "sp_sender sp = None" "sp_future_test_mode sp = sp_future_test_mode plain"
    by simp_all
qed

lemma create_slatepack_message_Ok:
  assumes "create_slatepack_message X E G seed km s sender_index recips w = (Ok t, w1)"
  obtains sender sp where
    "sender = (case sender_index of None \<Rightarrow> None | Some i \<Rightarrow> Some (the_Ok (fst (get_slatepack_address X km i w))))"
    "\<forall>a. sender = Some a \<longrightarrow> (\<exists>sk. a = address_of_secret X sk)"
    "create_slatepack X E G seed \<lparr>spa_sender = sender, spa_recipients = recips, spa_dec_key = None\<rparr> s = Ok sp"
    "armor_encode X G sp = Ok t"
proof (cases sender_index)
  case None
  with assms that [of None] show ?thesis
    by (auto simp: create_slatepack_message_def sbind_eq_Ok comp_eq_Ok armor_slatepack_def)
next
  case (Some i)
  with assms obtain a w2 sp where a: "get_slatepack_address X km i w = (Ok a, w2)"
    and sp: "create_slatepack X E G seed \<lparr>spa_sender = Some a, spa_recipients = recips, spa_dec_key = None\<rparr> s = Ok sp"
      "armor_encode X G sp = Ok t"
    by (auto simp: create_slatepack_message_def sbind_eq_Ok comp_eq_Ok armor_slatepack_def)
  show ?thesis
    using slatepack_address_of_secret [OF a] by (intro that [OF _ _ sp]) (simp_all add: Some a)
qed

lemma sent_message:
  assumes "pack_ok X G" "\<forall>sk. address_ok X (address_of_secret X sk)"
    and "create_slatepack_message X E G seed km s sender_index recips w = (Ok t, w1)" "slate_to_v4 s = Ok v"
  obtains sp where "plain_ok X (g_str_of_utf8 G) (sent_plain X E km v sender_index w)" "armor_encode X G sp = Ok t"
    "if recips = [] then sp = sent_plain X E km v sender_index w
     else sealed X (age_ext.truncate G) seed recips (sent_plain X E km v sender_index w)
       (sp\<lparr>sp_encrypted_meta := default_enc_metadata\<rparr>)"
proof -
  obtain sender sp where
    sender: "sender = (case sender_index of None \<Rightarrow> None | Some i \<Rightarrow> Some (the_Ok (fst (get_slatepack_address X km i w))))"
    and own: "\<forall>a. sender = Some a \<longrightarrow> (\<exists>sk. a = address_of_secret X sk)"
    and sp: "create_slatepack X E G seed \<lparr>spa_sender = sender, spa_recipients = recips, spa_dec_key = None\<rparr> s = Ok sp"
      "armor_encode X G sp = Ok t"
    by (rule create_slatepack_message_Ok [OF assms(3)])
  have "\<forall>a. spa_sender \<lparr>spa_sender = sender, spa_recipients = recips, spa_dec_key = None\<rparr> = Some a \<longrightarrow> address_ok X a"
    using own assms(2) by auto
  then obtain plain where plain: "plain = slatepack_default\<lparr>sp_payload := put_slate E v, sp_sender := sender\<rparr>"
    "plain_ok X (g_str_of_utf8 G) plain"
    "if recips = [] then sp = plain
     else sealed X (age_ext.truncate G) seed recips plain (sp\<lparr>sp_encrypted_meta := default_enc_metadata\<rparr>)"
    using create_slatepack_Ok [OF assms(1,4) _ sp(1)] by (metis slatepacker_args.select_convs(1,2))
  have eq: "plain = sent_plain X E km v sender_index w"
    by (simp only: plain(1) sent_plain_def sender)
  from plain(2,3) [unfolded eq] show ?thesis by (rule that [OF _ sp(2)])
qed

lemma sent_is_read:
  assumes "pack_ok X G" "\<forall>sk. address_ok X (address_of_secret X sk)"
    and "create_slatepack_message X E G seed km s sender_index recips w = (Ok t, w1)" "slate_to_v4 s = Ok v"
    and "length t \<le> MAX_FIXED_READ" "length t \<le> unat (slatepack_max_size X)"
  obtains sp where "plain_ok X (g_str_of_utf8 G) (sent_plain X E km v sender_index w)"
    "if recips = [] then sp = sent_plain X E km v sender_index w
     else sealed X (age_ext.truncate G) seed recips (sent_plain X E km v sender_index w)
       (sp\<lparr>sp_encrypted_meta := default_enc_metadata\<rparr>)"
    "\<forall>args decrypt. deser_slatepack X G args (map of_char t) decrypt =
      (if decrypt then try_decrypt_payload X (age_ext.truncate G) (g_str_of_utf8 G) (spa_dec_key args)
          (sp\<lparr>sp_encrypted_meta := default_enc_metadata\<rparr>)
       else Ok (sp\<lparr>sp_encrypted_meta := default_enc_metadata\<rparr>))"
proof -
  let ?plain = "sent_plain X E km v sender_index w"
  obtain sp where plain: "plain_ok X (g_str_of_utf8 G) ?plain" and t: "armor_encode X G sp = Ok t"
    and sp: "if recips = [] then sp = ?plain
      else sealed X (age_ext.truncate G) seed recips ?plain (sp\<lparr>sp_encrypted_meta := default_enc_metadata\<rparr>)"
    by (rule sent_message [OF assms(1-4)])
  have "sp_mode sp \<le> 1 \<and> \<not> sp_future_test_mode sp \<and> sender_ok X (g_str_of_utf8 G) (sp_sender sp)"
  proof (cases "recips = []")
    case False
    with sp plain assms(1) show ?thesis
      using sealed_shape [of X "age_ext.truncate G" seed recips ?plain default_enc_metadata sp]
      by (simp add: plain_ok_def sender_ok_def pack_ok_def)
  qed (use sp plain in \<open>simp add: plain_ok_def\<close>)
  then show ?thesis
    using armored_slatepack_is_read [OF assms(1) _ _ _ t assms(5,6)] that [OF plain sp] by blast
qed

lemma plain_decrypts:
  assumes "plain_ok X u plain"
  shows "plain\<lparr>sp_encrypted_meta := default_enc_metadata\<rparr> = plain" "try_decrypt_payload X g u k plain = Ok plain"
  using assms by (simp_all add: plain_ok_def try_decrypt_payload_def)

lemma sent_slate:
  assumes "slate_bin_ok E v"
  shows "slate_of_slatepack X E (sent_plain X E km v sender_index w) = slate_of_v4 X (v\<lparr>v4_feat_args := bin_feat_args v\<rparr>)"
  using get_put_slate [OF assms, of "[]"]
  by (simp add: slate_of_slatepack_def sent_plain_def slate_upgrade_def)

text \<open>C24: a message that one wallet makes of a slate for some recipients is
  read by every wallet that has the key of one of them among the indices it tries: it gets back
  the slate in the version 4 form the sender wrote, in which only kernel arguments may be lost, and
  sees the sender, who is encrypted along; its wallet is unchanged. A message without recipients
  is read without a key. The text is at most 100000 characters and as long as the weight limit
  allows; armor, encryption and serialization libraries are assumed to invert themselves.\<close>

theorem slatepack_message_arrives:
  assumes "pack_ok X G" "age_ok X (age_ext.truncate G)" "\<forall>sk. address_ok X (address_of_secret X sk)"
    and "create_slatepack_message X E G seed km s sender_index recips w = (Ok t, w1)"
    and "slate_to_v4 s = Ok v" "slate_bin_ok E v"
    and "length t \<le> MAX_FIXED_READ" "length t \<le> unat (slatepack_max_size X)"
    and "if recips = [] then indices = [] else has_key_for X (age_ext.truncate G) km' w' recips indices"
  shows "slate_from_slatepack_message X E G km' (map of_char t) indices w' =
      (slate_of_v4 X (v\<lparr>v4_feat_args := bin_feat_args v\<rparr>), w') \<and>
    decode_slatepack_message X G km' (map of_char t) indices w' = (Ok (sent_plain X E km v sender_index w), w')"
proof -
  let ?plain = "sent_plain X E km v sender_index w"
  obtain sp where plain: "plain_ok X (g_str_of_utf8 G) ?plain"
    and sp: "if recips = [] then sp = ?plain
      else sealed X (age_ext.truncate G) seed recips ?plain (sp\<lparr>sp_encrypted_meta := default_enc_metadata\<rparr>)"
    and read: "\<forall>args decrypt. deser_slatepack X G args (map of_char t) decrypt =
      (if decrypt then try_decrypt_payload X (age_ext.truncate G) (g_str_of_utf8 G) (spa_dec_key args)
          (sp\<lparr>sp_encrypted_meta := default_enc_metadata\<rparr>)
       else Ok (sp\<lparr>sp_encrypted_meta := default_enc_metadata\<rparr>))"
    by (rule sent_is_read [OF assms(1,3-5,7,8)])
  note slate = sent_slate [OF assms(6), of X km sender_index w]
  show ?thesis
  proof (cases "recips = []")
    case True
    with assms(9) sp slate show ?thesis
      by (simp add: slate_from_slatepack_message_def decode_slatepack_message_def read plain_decrypts [OF plain]
          sbind_def comp_defs)
  next
    case False
    then have "first_readable X G km' (map of_char t) indices w' = (Ok (Some ?plain), w')" "indices \<noteq> []"
      using first_readable_opens [OF assms(2) plain, of seed recips _ "map of_char t"] sp assms(9)
      by (auto simp: read)
    with slate show ?thesis
      by (simp add: slate_from_slatepack_message_def decode_slatepack_message_def sbind_def comp_defs)
  qed
qed

section \<open>Payloads for a passphrase\<close>

text \<open>A Slatepack whose payload is encrypted with a passphrase instead of
  for recipients is accepted up to its decryption, which then panics: reading or viewing such a
  message with any key of the wallet ends the program instead of reporting an error.\<close>

theorem passphrase_message_panics:
  assumes "pack_ok X G" "sp_mode sp = 1" "\<not> sp_future_test_mode sp" "sender_ok X (g_str_of_utf8 G) (sp_sender sp)"
    and "armor_encode X G sp = Ok t" "length t \<le> MAX_FIXED_READ" "length t \<le> unat (slatepack_max_size X)"
    and "g_for_recipients G (sp_payload sp) = Ok False"
    and "get_slatepack_secret_key X km i w = (Ok sk, w)" "decryption_identity X (age_ext.truncate G) sk = Ok key"
  shows "fst (slate_from_slatepack_message X E G km (map of_char t) (i # indices) w) = Panic \<and>
    fst (decode_slatepack_message X G km (map of_char t) (i # indices) w) = Panic"
proof -
  have "deser_slatepack X G (no_packer_args\<lparr>spa_dec_key := Some sk\<rparr>) (map of_char t) True = Panic"
    using armored_slatepack_is_read [OF assms(1) _ assms(3-7)] assms(2,8,10)
    by (simp add: try_decrypt_payload_def age_ext.defs)
  then show ?thesis
    using assms(9) by (simp add: slate_from_slatepack_message_def decode_slatepack_message_def sbind_def comp_defs)
qed

section \<open>A sample of the libraries\<close>

text \<open>
  Base 58 by half bytes, and encryption that writes the keys of the recipients in front of the
  data; the first byte of a payload for a passphrase is 2.
\<close>

definition half_char :: "nat \<Rightarrow> char" where
  "half_char n = ''ABCDEFGHJKLMNPQR'' ! n"

definition char_half :: "char \<Rightarrow> nat" where
  "char_half c = length (takeWhile (\<lambda>x. x \<noteq> c) ''ABCDEFGHJKLMNPQR'')"

definition halves :: "bytes \<Rightarrow> string" where
  "halves b = concat (map (\<lambda>x. [half_char (unat x div 16), half_char (unat x mod 16)]) b)"

fun unhalves :: "bytes \<Rightarrow> bytes option" where
  "unhalves [] = Some []"
| "unhalves [a] = None"
| "unhalves (a # b # r) =
     map_option (Cons (of_nat (16 * char_half (char_of (unat a)) + char_half (char_of (unat b))))) (unhalves r)"

primrec seal_keys :: "bytes list \<Rightarrow> bytes \<Rightarrow> bytes" where
  "seal_keys [] d = 0 # d"
| "seal_keys (k # ks) d = 1 # k @ seal_keys ks d"

function open_with :: "bytes \<Rightarrow> bytes \<Rightarrow> bool \<times> bytes" where
  "open_with key [] = (False, [])"
| "open_with key (b # c) = (if b = 0 then (False, c)
     else let (found, d) = open_with key (drop 32 c) in (found \<or> take 32 c = key, d))"
  by pat_completeness auto
termination by (relation "measure (\<lambda>(_, c). length c)") auto

definition sample_pack :: pack_ext where
  "sample_pack = \<lparr>
     g_montgomery = (\<lambda>b. Some b),
     g_recipient = (\<lambda>s. Ok (map of_char (drop 4 s))),
     g_encrypt = (\<lambda>seed keys d. if \<forall>k \<in> set keys. length k = 32 then Ok (seal_keys keys d)
       else Err (Lib (GenericError ''recipient''))),
     g_sha512 = pad 64,
     g_static_secret = (\<lambda>b. b),
     g_identity = (\<lambda>s. Ok (map of_char (drop 16 s))),
     g_for_recipients = (\<lambda>c. Ok (c = [] \<or> hd c \<noteq> 2)),
     g_decrypt = (\<lambda>key c. case open_with key c of (found, d) \<Rightarrow>
       if found then Ok d else Err (Lib (GenericError ''No matching keys found''))),
     g_sha256 = (\<lambda>b. replicate 32 0),
     g_b58_encode = halves,
     g_b58_decode = unhalves,
     g_str_of_utf8 = sample_utf8,
     g_slatepack_of_json = (\<lambda>s. Err ''syntax'')\<rparr>"

lemma half_chars:
  assumes "n < 16"
  shows "char_half (half_char n) = n" "b58_char (half_char n)"
proof -
  have "list_all (\<lambda>n. char_half (half_char n) = n \<and> b58_char (half_char n)) [0..<16]" by code_simp
  with assms show "char_half (half_char n) = n" "b58_char (half_char n)" by (simp_all add: list_all_iff)
qed

lemma halves_back: "unhalves (map of_char (halves b)) = Some b"
proof (induction b)
  case (Cons x b)
  have x: "unat x < 256" using unsigned_less [of x] by simp
  then have "(of_nat (16 * (unat x div 16) + unat x mod 16) :: u8) = x" by simp
  with Cons x show ?case by (simp add: halves_def unat_of_char half_chars del: of_nat_add of_nat_mult)
qed (simp add: halves_def)

lemma halves_chars: "list_all b58_char (halves b) \<and> length b \<le> length (halves b)"
proof (induction b)
  case (Cons x b)
  have "unat x < 256" using unsigned_less [of x] by simp
  with Cons show ?case by (simp add: halves_def half_chars)
qed (simp add: halves_def)

lemma sample_pack_ok: "pack_ok packing_ext sample_pack"
  using halves_back halves_chars
  by (simp add: pack_ok_def sample_pack_def packing_ext_ok sample_utf8_def comp_def unat_of_char)

lemma open_sealed:
  "\<forall>k \<in> set keys. length k = 32 \<Longrightarrow> open_with key (seal_keys keys d) = (key \<in> set keys, d)"
  by (induction keys) auto

lemma pad_twice: "take 32 (pad 64 (take 32 sk)) = pad 32 sk"
  by (cases "length sk \<le> 32") (simp_all add: pad_def)

lemma sample_age_ok: "age_ok packing_ext (age_ext.truncate sample_pack)"
proof -
  have hd: "seal_keys keys d \<noteq> [] \<and> hd (seal_keys keys d) \<noteq> 2" for keys d by (cases keys) simp_all
  show ?thesis
    by (auto simp: age_ok_def sample_pack_def age_ext.defs decryption_identity_def age_recipient_def
        to_age_pubkey_str_def address_of_secret_def address_new_def packing_ext_def sample_ext_def
        open_sealed hd pad_twice split: if_splits)
qed

definition message_slate :: slate where
  "message_slate = sample_slate\<lparr>sl_id := replicate 16 7, sl_tx := None\<rparr>"

definition other_wallet :: wallet where
  "other_wallet = sample_wallet\<lparr>w_keychain := Some (replicate 32 2), w_master_checksum := Some (pad 32 (replicate 32 2))\<rparr>"

definition to_other :: slatepack_address where
  "to_other = the_Ok (fst (get_slatepack_address packing_ext None 0 other_wallet))"

definition sample_message :: "string result \<times> wallet" where
  "sample_message = create_slatepack_message packing_ext sample_ser sample_pack [] None message_slate (Some 0) [to_other]
     sample_wallet"

text \<open>The text is not evaluated; its length is bounded by that of the bytes.\<close>

lemma sample_bytes: "case create_slatepack packing_ext sample_ser sample_pack []
    \<lparr>spa_sender = Some (the_Ok (fst (get_slatepack_address packing_ext None 0 sample_wallet))),
     spa_recipients = [to_other], spa_dec_key = None\<rparr> message_slate of
      Ok sp \<Rightarrow> sp_sender sp = None \<and> length (sp_payload sp) < 500 | _ \<Rightarrow> False"
  by code_simp

lemma put_without_sender:
  "sp_sender sp = None \<Longrightarrow> \<exists>b. put_slatepack X sp = Ok b \<and> length b = 17 + length (sp_payload sp)"
  by (simp add: put_slatepack_def opt_fields_len_def put_version_def put_len_bytes_def)

lemma sample_message_sent: "\<exists>t. sample_message = (Ok t, sample_wallet)"
proof -
  have "is_Ok (fst (get_slatepack_address packing_ext None 0 sample_wallet))" by code_simp
  moreover have "snd (get_slatepack_address packing_ext None 0 sample_wallet) = sample_wallet"
    by (rule own_address_state)
  ultimately obtain a where a: "get_slatepack_address packing_ext None 0 sample_wallet = (Ok a, sample_wallet)"
    by (metis is_Ok_ex prod.collapse)
  obtain sp where sp: "create_slatepack packing_ext sample_ser sample_pack []
      \<lparr>spa_sender = Some a, spa_recipients = [to_other], spa_dec_key = None\<rparr> message_slate = Ok sp" "sp_sender sp = None"
    using sample_bytes unfolding a fst_conv res.sel by (auto split: res.splits)
  obtain b where b: "put_slatepack packing_ext sp = Ok b"
    using put_without_sender [OF sp(2)] by blast
  show ?thesis
    unfolding sample_message_def create_slatepack_message_def
    by (simp add: sbind_def comp_defs a sp(1) armor_slatepack_def armor_encode_def b)
qed

lemma length_breaks: "length (concat (map (\<lambda>(i, c). armor_break i @ [c]) (enumerate n s))) \<le> 2 * length s"
proof (induction s arbitrary: n)
  case (Cons c s)
  have "length (armor_break n) \<le> 1" by (simp add: armor_break_def)
  with Cons [of "Suc n"] show ?case by simp
qed simp

lemma length_halves: "length (halves b) = 2 * length b"
  by (induction b) (simp_all add: halves_def)

lemma sample_text_length:
  assumes "armor_encode packing_ext sample_pack sp = Ok t" "put_slatepack packing_ext sp = Ok b"
  shows "length t \<le> 62 + 4 * length b"
proof -
  have "length (generate_check sample_pack b) = 4" by (simp add: generate_check_def sample_pack_def)
  moreover have header: "length HEADER = 15" by (simp add: HEADER_def)
  ultimately have "length (base58check sample_pack b) = 8 + 2 * length b"
    by (simp add: base58check_def sample_pack_def length_halves)
  then show ?thesis
    using assms length_breaks [of 15 "base58check sample_pack b"]
    by (auto simp: armor_encode_def format_header header FOOTER_def)
qed

lemma sample_message_size:
  assumes "sample_message = (Ok t, w1)"
  shows "length t < 4062"
proof -
  let ?args = "\<lparr>spa_sender = Some (the_Ok (fst (get_slatepack_address packing_ext None 0 sample_wallet))),
     spa_recipients = [to_other], spa_dec_key = None\<rparr>"
  obtain sender sp where sender: "sender = (case Some 0 of None \<Rightarrow> None
      | Some i \<Rightarrow> Some (the_Ok (fst (get_slatepack_address packing_ext None i sample_wallet))))"
    and create: "create_slatepack packing_ext sample_ser sample_pack []
      \<lparr>spa_sender = sender, spa_recipients = [to_other], spa_dec_key = None\<rparr> message_slate = Ok sp"
    and t: "armor_encode packing_ext sample_pack sp = Ok t"
    by (rule create_slatepack_message_Ok [OF assms [unfolded sample_message_def]])
  have "sp_sender sp = None \<and> length (sp_payload sp) < 500"
    using sample_bytes unfolding create [unfolded sender option.case] res.case .
  then obtain b where "put_slatepack packing_ext sp = Ok b" "length b < 1000"
    using put_without_sender [of sp packing_ext] by auto
  with sample_text_length [OF t] show ?thesis by fastforce
qed

lemma sample_keys:
  "decryption_identity packing_ext (age_ext.truncate sample_pack) sk = Ok (pad 32 sk)"
  "age_recipient packing_ext (age_ext.truncate sample_pack) (address_of_secret packing_ext sk) = Ok (pad 32 sk)"
  by (simp_all add: sample_pack_def age_ext.defs decryption_identity_def age_recipient_def
      to_age_pubkey_str_def address_of_secret_def address_new_def packing_ext_def sample_ext_def pad_twice comp_def)

lemma other_key: "i = 0 \<or> i = 1 \<Longrightarrow> \<exists>sk. get_slatepack_secret_key packing_ext None i other_wallet = (Ok sk, other_wallet)"
proof -
  assume "i = 0 \<or> i = 1"
  then have "is_Ok (fst (get_slatepack_secret_key packing_ext None i other_wallet))"
    by (elim disjE; code_simp)
  then show ?thesis
    using secret_key_state [of packing_ext None i other_wallet] by (metis is_Ok_ex prod.collapse)
qed

lemma other_keys: "has_key_for packing_ext (age_ext.truncate sample_pack) None other_wallet [to_other] [1, 0]"
proof -
  obtain sk0 sk1 where sk: "get_slatepack_secret_key packing_ext None 0 other_wallet = (Ok sk0, other_wallet)"
    "get_slatepack_secret_key packing_ext None 1 other_wallet = (Ok sk1, other_wallet)"
    using other_key [of 0] other_key [of 1] by blast
  then have to: "to_other = address_of_secret packing_ext sk0"
    by (auto simp: to_other_def get_slatepack_address_def get_slatepack_secret_key_def sbind_def comp_defs
        split: prod.splits res.splits)
  show ?thesis unfolding to by (simp add: sk sample_keys)
qed

theorem slatepack_message_arrives_witness:
  "\<exists>v. slate_to_v4 message_slate = Ok v \<and>
    slate_from_slatepack_message packing_ext sample_ser sample_pack None (map of_char (the_Ok (fst sample_message))) [1, 0]
      other_wallet = (slate_of_v4 packing_ext (v\<lparr>v4_feat_args := bin_feat_args v\<rparr>), other_wallet)"
proof -
  obtain t where t: "sample_message = (Ok t, sample_wallet)"
    using sample_message_sent by blast
  then have len: "length t < 4062" by (rule sample_message_size)
  have fee: "0 < e_fee_of sample_ser 40" by (simp add: sample_ser_def)
  obtain v where v: "slate_to_v4 message_slate = Ok v" "slate_bin_ok sample_ser v"
    by (simp add: fee slate_to_v4_def coms_of_slate_def message_slate_def sample_slate_def slate_blank_def slate_bin_ok_def
        sample_ser_ok opt_structs_ok_def zero_blind_def participant_ok_def participant_to_v4_def
        sample_participant_def)
  have reader: "if [to_other] = [] then [1, 0] = []
      else has_key_for packing_ext (age_ext.truncate sample_pack) None other_wallet [to_other] [1, 0]"
    using other_keys by simp
  have size: "length t \<le> MAX_FIXED_READ" "length t \<le> unat (slatepack_max_size packing_ext)"
    using len by (simp_all add: MAX_FIXED_READ_def slatepack_max_size_def saturating_mul64_def saturating_add64_def
        WEIGHT_RATIO_def HEADER_def FOOTER_def packing_ext_def sample_ext_def)
  show ?thesis
    using slatepack_message_arrives [OF sample_pack_ok sample_age_ok _ t [unfolded sample_message_def] v size reader]
      own_address_ok v(1)
    unfolding t fst_conv res.sel by blast
qed

theorem armor_survives_reflowing_witness:
  "\<exists>data. put_slatepack packing_ext sample_slatepack = Ok data \<and>
    armor_decode sample_pack (map of_char (''> '' @ ''BEGINSLATEPACK'' @ [CHR 0x0A] @ ''.'' @ base58check sample_pack data @
      ''.'' @ '''' @ ''ENDSLATEPACK'' @ '' '' @ ''.'' @ ''bye'')) = Ok data"
proof -
  obtain data where data: "put_slatepack packing_ext sample_slatepack = Ok data"
    using put_slatepack_form sample_slatepack_ok by (auto simp: slatepack_ok_def)
  have "list_all b58_char (base58check sample_pack data)"
    using sample_pack_ok by (simp add: pack_ok_def base58check_def)
  then have "filter (\<lambda>x. \<not> armor_space x) (base58check sample_pack data) = base58check sample_pack data"
    using b58_char_plain by (auto simp: list_all_iff filter_id_conv)
  from armor_survives_reflowing [OF sample_pack_ok data _ this, of "''> ''" "[CHR 0x0A]" "''''" "'' ''" "''bye''"]
  have "armor_decode sample_pack (map of_char (''> '' @ ''BEGINSLATEPACK'' @ [CHR 0x0A] @ ''.'' @ base58check sample_pack data @
      ''.'' @ '''' @ ''ENDSLATEPACK'' @ '' '' @ ''.'' @ ''bye'')) = Ok data"
    by (simp add: armor_space_def)
  with data show ?thesis by blast
qed

definition locked_slatepack :: slatepack where
  "locked_slatepack = slatepack_default\<lparr>sp_mode := 1, sp_payload := [2, 9]\<rparr>"

theorem passphrase_message_panics_witness:
  "\<exists>t. armor_encode packing_ext sample_pack locked_slatepack = Ok t \<and>
    fst (slate_from_slatepack_message packing_ext sample_ser sample_pack None (map of_char t) [0] other_wallet) = Panic"
proof -
  have sp: "sp_mode locked_slatepack = 1" "\<not> sp_future_test_mode locked_slatepack" "sp_sender locked_slatepack = None"
    "sp_payload locked_slatepack = [2, 9]"
    by (simp_all add: locked_slatepack_def slatepack_default_def)
  then have sender: "sender_ok packing_ext (g_str_of_utf8 sample_pack) (sp_sender locked_slatepack)"
    using sample_pack_ok by (simp add: sender_ok_def pack_ok_def)
  obtain b where b: "put_slatepack packing_ext locked_slatepack = Ok b" "length b = 19"
    using put_without_sender [OF sp(3), of packing_ext] sp(4) by auto
  then obtain t where t: "armor_encode packing_ext sample_pack locked_slatepack = Ok t"
    by (simp add: armor_encode_def)
  have "length t \<le> 138" using sample_text_length [OF t b(1)] b(2) by simp
  then have size: "length t \<le> MAX_FIXED_READ" "length t \<le> unat (slatepack_max_size packing_ext)"
    by (simp_all add: MAX_FIXED_READ_def slatepack_max_size_def saturating_mul64_def saturating_add64_def
        WEIGHT_RATIO_def HEADER_def FOOTER_def packing_ext_def sample_ext_def)
  have locked: "g_for_recipients sample_pack (sp_payload locked_slatepack) = Ok False"
    by (simp add: sp(4) sample_pack_def)
  obtain sk where sk: "get_slatepack_secret_key packing_ext None 0 other_wallet = (Ok sk, other_wallet)"
    using other_key [of 0] by blast
  show ?thesis
    using passphrase_message_panics [OF sample_pack_ok sp(1,2) sender t size locked sk sample_keys(1), of sample_ser "[]"] t
    by blast
qed

end
