(* ===== verification/Files.thy ===== *)
theory Files
  imports Prelude "HOL-Library.AList"
begin

text \<open>
  The files the wallet keeps beside its database, as far as \<open>std::fs\<close> and \<open>std::path\<close> are used:
  a file has a path and a text, a directory a path. Calls fail where the library documents it
  for the paths involved; other failures of the disk are not modelled. Paths are those of a
  system whose separator is the slash.
\<close>

record filesys =
  fs_files :: "(string \<times> string) list"
  fs_dirs :: "string list"

type_synonym 'a fop = "(filesys, unit, 'a) comp"

definition file_text :: "filesys \<Rightarrow> string \<Rightarrow> string option" where
  "file_text fs p = map_of (fs_files fs) p"

definition path_exists :: "string \<Rightarrow> filesys \<Rightarrow> bool" where
  "path_exists p fs \<longleftrightarrow> file_text fs p \<noteq> None \<or> p \<in> set (fs_dirs fs)"

text \<open>\<open>PathBuf::push\<close> of a relative path\<close>

definition path_push :: "string \<Rightarrow> string \<Rightarrow> string" where
  "path_push d p = (if d = [] then p else if last d = CHR ''/'' then d @ p else d @ ''/'' @ p)"

text \<open>The path and the directories above it\<close>

definition path_prefixes :: "string \<Rightarrow> string list" where
  "path_prefixes p = p # [take i p. i \<leftarrow> [1..<length p], p ! i = CHR ''/'']"

definition parent_dir :: "string \<Rightarrow> string" where
  "parent_dir p = rev (tl (dropWhile (\<lambda>c. c \<noteq> CHR ''/'') (rev p)))"

definition create_dir_all :: "string \<Rightarrow> unit fop" where
  "create_dir_all d fs =
     (if \<exists>q \<in> set (path_prefixes d). file_text fs q \<noteq> None then (Err (), fs)
      else (Ok (), fs\<lparr>fs_dirs := filter (\<lambda>q. q \<notin> set (fs_dirs fs)) (path_prefixes d) @ fs_dirs fs\<rparr>))"

text \<open>\<open>File::create\<close> and writing the whole text: an existing file is replaced.\<close>

definition write_text :: "string \<Rightarrow> string \<Rightarrow> unit fop" where
  "write_text p t fs =
     (if parent_dir p \<notin> set (fs_dirs fs) \<or> p \<in> set (fs_dirs fs) then (Err (), fs)
      else (Ok (), fs\<lparr>fs_files := AList.update p t (fs_files fs)\<rparr>))"

definition read_text :: "string \<Rightarrow> string fop" where
  "read_text p fs = (case file_text fs p of Some t \<Rightarrow> (Ok t, fs) | None \<Rightarrow> (Err (), fs))"

definition rename_file :: "string \<Rightarrow> string \<Rightarrow> unit fop" where
  "rename_file p q fs = (case file_text fs p of
     None \<Rightarrow> (Err (), fs)
   | Some t \<Rightarrow>
       if parent_dir q \<notin> set (fs_dirs fs) \<or> q \<in> set (fs_dirs fs) then (Err (), fs)
       else (Ok (), fs\<lparr>fs_files := AList.update q t (AList.delete p (fs_files fs))\<rparr>))"

definition remove_file :: "string \<Rightarrow> unit fop" where
  "remove_file p fs =
     (if file_text fs p = None then (Err (), fs)
      else (Ok (), fs\<lparr>fs_files := AList.delete p (fs_files fs)\<rparr>))"

definition below :: "string \<Rightarrow> string \<Rightarrow> bool" where
  "below d p \<longleftrightarrow> p = d \<or> take (length d + 1) p = d @ ''/''"

definition remove_dir_all :: "string \<Rightarrow> unit fop" where
  "remove_dir_all d fs =
     (if d \<notin> set (fs_dirs fs) then (Err (), fs)
      else (Ok (), \<lparr>fs_files = filter (\<lambda>(p, t). \<not> below d p) (fs_files fs),
                    fs_dirs = filter (\<lambda>p. \<not> below d p) (fs_dirs fs)\<rparr>))"

section \<open>What the calls do\<close>

named_theorems file_simps

lemma file_text_update [file_simps]:
  "file_text (fs\<lparr>fs_files := AList.update p t (fs_files fs)\<rparr>) q = (if q = p then Some t else file_text fs q)"
  by (simp add: file_text_def update_conv')

lemma file_text_delete [file_simps]:
  "file_text (fs\<lparr>fs_files := AList.delete p (fs_files fs)\<rparr>) q = (if q = p then None else file_text fs q)"
  by (simp add: file_text_def delete_conv')

lemma file_text_rename [file_simps]:
  "file_text (fs\<lparr>fs_files := AList.update p' t (AList.delete p (fs_files fs))\<rparr>) q =
    (if q = p' then Some t else if q = p then None else file_text fs q)"
  by (simp add: file_text_def update_conv' delete_conv')

lemma file_text_dirs [file_simps]: "file_text (fs\<lparr>fs_dirs := ds\<rparr>) q = file_text fs q"
  by (simp add: file_text_def)

lemma create_dir_all_Ok:
  assumes "create_dir_all d fs = (r, fs')"
  shows "file_text fs' = file_text fs" "set (fs_dirs fs) \<subseteq> set (fs_dirs fs')"
    "r = Ok () \<Longrightarrow> d \<in> set (fs_dirs fs')"
  using assms by (auto simp: create_dir_all_def file_simps path_prefixes_def fun_eq_iff split: if_splits)

lemma create_dir_again:
  assumes "d \<in> set (fs_dirs fs)" "\<forall>q \<in> set (path_prefixes d). file_text fs q = None"
  shows "\<exists>fs'. create_dir_all d fs = (Ok (), fs') \<and> file_text fs' = file_text fs \<and> set (fs_dirs fs) \<subseteq> set (fs_dirs fs')"
  using assms by (auto simp: create_dir_all_def file_simps fun_eq_iff)

end
