(* ===== verification/Seed.thy ===== *)
theory Seed
  imports Files Errors External
begin

text \<open>
  The wallet seed (\<open>impls/src/lifecycle/seed.rs\<close>): made from a recovery phrase or drawn, kept in
  a file encrypted with the password, backed up under the next free name before it is replaced.
  The word list, key derivation, encryption, hexadecimal and JSON forms are parameters.
\<close>

text \<open>\<open>impls/src/error.rs\<close>\<close>

datatype impl_error =
    I_LibTX string
  | I_LibWallet error
  | I_Keychain string
  | I_OnionV3Address string
  | I_Obfs4proxyBin string
  | I_BridgeLine string
  | I_IO
  | I_Secp string
  | I_Format
  | I_WalletSeedExists string
  | I_WalletSeedDoesntExist
  | I_WalletDoesntExist string string
  | I_Encryption
  | I_Mnemonic
  | I_ArgumentError string
  | I_TorBridge string
  | I_TorProxy string
  | I_ED25519Key string
  | I_NotOnion string
  | I_GenericError string

type_synonym wallet_seed = bytes

text \<open>The encrypted seed, as the file holds it: seed, salt and nonce in hexadecimal\<close>

record encrypted_seed =
  es_encrypted_seed :: string
  es_salt :: string
  es_nonce :: string

record seed_ext =
  s_to_entropy :: "string \<Rightarrow> bytes option"
  s_from_entropy :: "bytes \<Rightarrow> string option"
  s_pbkdf2 :: "bytes \<Rightarrow> bytes \<Rightarrow> bytes"
  s_seal :: "bytes \<Rightarrow> bytes \<Rightarrow> bytes \<Rightarrow> bytes option"
  s_open :: "bytes \<Rightarrow> bytes \<Rightarrow> bytes \<Rightarrow> bytes option"
  s_to_json :: "encrypted_seed \<Rightarrow> string option"
  s_of_json :: "string \<Rightarrow> encrypted_seed option"
  s_keychain :: "bytes \<Rightarrow> bool \<Rightarrow> keychain option"

type_synonym 'a sres = "(impl_error, 'a) res"
type_synonym 'a sop = "(filesys, impl_error, 'a) comp"

definition SEED_FILE :: string where
  "SEED_FILE = ''wallet.seed''"

definition fmt_path :: "string \<Rightarrow> string" where
  "fmt_path p = map (\<lambda>c. if c = CHR 0x5C then CHR ''/'' else c) p"

definition utf8 :: "string \<Rightarrow> bytes" where
  "utf8 s = map of_char s"

section \<open>The seed\<close>

definition from_mnemonic :: "seed_ext \<Rightarrow> string \<Rightarrow> wallet_seed sres" where
  "from_mnemonic S word_list = ok_or I_Mnemonic (s_to_entropy S word_list)"

definition to_mnemonic :: "seed_ext \<Rightarrow> wallet_seed \<Rightarrow> string sres" where
  "to_mnemonic S seed = ok_or I_Mnemonic (s_from_entropy S seed)"

definition derive_keychain :: "seed_ext \<Rightarrow> wallet_seed \<Rightarrow> bool \<Rightarrow> keychain sres" where
  "derive_keychain S seed is_testnet = ok_or (I_Keychain ''seed'') (s_keychain S seed is_testnet)"

text \<open>The draw gives as many bytes as are asked for; a test wallet's seed is the hash of its password.\<close>

definition init_new :: "ext \<Rightarrow> (nat \<Rightarrow> bytes) \<Rightarrow> nat \<Rightarrow> bool \<Rightarrow> string option \<Rightarrow> wallet_seed sres" where
  "init_new X draw seed_length test_mode password =
     (if \<not> test_mode then Ok (draw seed_length)
      else rbind (unwrap password) (\<lambda>pw. Ok (x_blake2b X 32 [] (utf8 pw))))"

definition encrypt_seed :: "ext \<Rightarrow> seed_ext \<Rightarrow> bytes \<times> bytes \<Rightarrow> wallet_seed \<Rightarrow> string \<Rightarrow> encrypted_seed sres" where
  "encrypt_seed X S rand seed password = (case rand of (salt, nonce) \<Rightarrow>
     rbind (ok_or I_Encryption (s_seal S (s_pbkdf2 S salt (utf8 password)) nonce seed)) (\<lambda>enc_bytes.
       Ok \<lparr>es_encrypted_seed = x_to_hex X enc_bytes, es_salt = x_to_hex X salt, es_nonce = x_to_hex X nonce\<rparr>))"

text \<open>
  Opening in place leaves the tag behind the text; sixteen bytes are dropped from the end. A
  nonce of fewer than twelve bytes is out of the range of the copy.
\<close>

definition decrypt_seed :: "ext \<Rightarrow> seed_ext \<Rightarrow> encrypted_seed \<Rightarrow> string \<Rightarrow> wallet_seed sres" where
  "decrypt_seed X S e password =
     rbind (ok_or I_Encryption (x_from_hex X (es_encrypted_seed e))) (\<lambda>encrypted_seed.
     rbind (ok_or I_Encryption (x_from_hex X (es_salt e))) (\<lambda>salt.
     rbind (ok_or I_Encryption (x_from_hex X (es_nonce e))) (\<lambda>nonce.
       if length nonce < 12 then Panic
       else rbind (ok_or I_Encryption (s_open S (s_pbkdf2 S salt (utf8 password)) (take 12 nonce) encrypted_seed)) (\<lambda>opened.
         let buffer = opened @ drop (length opened) encrypted_seed
         in Ok (take (length buffer - 16) buffer)))))"

section \<open>Its file\<close>

text \<open>A call on the files with the error it becomes\<close>

definition or_io :: "impl_error \<Rightarrow> 'a fop \<Rightarrow> 'a sop" where
  "or_io e m fs = (case m fs of (Ok a, fs') \<Rightarrow> (Ok a, fs') | (Err _, fs') \<Rightarrow> (Err e, fs') | (Panic, fs') \<Rightarrow> (Panic, fs'))"

definition seed_path :: "string \<Rightarrow> string" where
  "seed_path data_file_dir = fmt_path data_file_dir @ ''/'' @ SEED_FILE"

definition seed_file_exists :: "string \<Rightarrow> filesys \<Rightarrow> bool" where
  "seed_file_exists data_file_dir fs \<longleftrightarrow> path_exists (seed_path data_file_dir) fs"

text \<open>The names tried for a backup; the first that does not exist is taken. The fuel is the number of paths and one.\<close>

definition backup_name :: "string \<Rightarrow> nat \<Rightarrow> string" where
  "backup_name data_file_dir i = data_file_dir @ ''/'' @ SEED_FILE @ ''.bak'' @
     (if i = 0 then [] else CHR ''.'' # nat_to_string i)"

fun free_backup :: "nat \<Rightarrow> string \<Rightarrow> nat \<Rightarrow> filesys \<Rightarrow> string option" where
  "free_backup 0 d i fs = None"
| "free_backup (Suc fuel) d i fs =
     (if path_exists (backup_name d i) fs then free_backup fuel d (Suc i) fs else Some (backup_name d i))"

definition backup_fuel :: "filesys \<Rightarrow> nat" where
  "backup_fuel fs = length (fs_files fs) + length (fs_dirs fs) + 1"

definition backup_seed :: "string \<Rightarrow> string sop" where
  "backup_seed data_file_dir fs =
     (let seed_file_name = data_file_dir @ ''/'' @ SEED_FILE
      in case free_backup (backup_fuel fs) data_file_dir 0 fs of
           None \<Rightarrow> (Panic, fs)
         | Some backup_seed_file_name \<Rightarrow>
             sbind (or_io (I_GenericError ''Can't rename wallet seed file'')
               (rename_file seed_file_name backup_seed_file_name)) (\<lambda>_. sret backup_seed_file_name) fs)"

definition write_seed :: "ext \<Rightarrow> seed_ext \<Rightarrow> bytes \<times> bytes \<Rightarrow> string \<Rightarrow> wallet_seed \<Rightarrow> string \<Rightarrow> unit sop" where
  "write_seed X S rand seed_file_path seed password =
     sbind (slift (encrypt_seed X S rand seed password)) (\<lambda>enc_seed.
     sbind (slift (ok_or I_Format (s_to_json S enc_seed))) (\<lambda>enc_seed_json.
       or_io I_IO (write_text seed_file_path enc_seed_json)))"

definition recover_from_phrase ::
  "ext \<Rightarrow> seed_ext \<Rightarrow> bytes \<times> bytes \<Rightarrow> string \<Rightarrow> string \<Rightarrow> string \<Rightarrow> unit sop" where
  "recover_from_phrase X S rand data_file_dir word_list password =
     sbind (sread (seed_file_exists data_file_dir)) (\<lambda>exists.
     sbind (if exists then sbind (backup_seed data_file_dir) (\<lambda>_. sret ()) else sret ()) (\<lambda>_.
     sbind (sread (path_exists data_file_dir)) (\<lambda>dir.
       if \<not> dir then sfail (I_WalletDoesntExist data_file_dir
         (''To create a new wallet from a recovery phrase, use 'grin-wallet init -r'' @ [CHR 0x27]))
       else
         sbind (slift (from_mnemonic S word_list)) (\<lambda>seed.
           write_seed X S rand (seed_path data_file_dir) seed password))))"

definition init_file ::
  "ext \<Rightarrow> seed_ext \<Rightarrow> (nat \<Rightarrow> bytes) \<Rightarrow> bytes \<times> bytes \<Rightarrow> string \<Rightarrow> nat \<Rightarrow> string option \<Rightarrow> string \<Rightarrow> bool \<Rightarrow> wallet_seed sop" where
  "init_file X S draw rand data_file_dir seed_length recovery_phrase password test_mode =
     sbind (or_io I_IO (create_dir_all data_file_dir)) (\<lambda>_.
     sbind (sread (seed_file_exists (fmt_path data_file_dir))) (\<lambda>exists.
       if exists \<and> \<not> test_mode
       then sfail (I_WalletSeedExists (''Wallet seed already exists at: '' @ fmt_path data_file_dir))
       else
         sbind (slift (case recovery_phrase of
             Some p \<Rightarrow> from_mnemonic S p
           | None \<Rightarrow> init_new X draw seed_length test_mode (Some password))) (\<lambda>seed.
         sbind (write_seed X S rand (seed_path data_file_dir) seed password) (\<lambda>_. sret seed))))"

definition seed_from_file :: "ext \<Rightarrow> seed_ext \<Rightarrow> string \<Rightarrow> string \<Rightarrow> wallet_seed sop" where
  "seed_from_file X S data_file_dir password =
     sbind (or_io I_IO (create_dir_all data_file_dir)) (\<lambda>_.
     sbind (sread (path_exists (seed_path data_file_dir))) (\<lambda>exists.
       if exists then
         sbind (or_io I_IO (read_text (seed_path data_file_dir))) (\<lambda>buffer.
         sbind (slift (ok_or I_Format (s_of_json S buffer))) (\<lambda>enc_seed.
           slift (decrypt_seed X S enc_seed password)))
       else sfail I_WalletSeedDoesntExist))"

definition delete_seed_file :: "string \<Rightarrow> unit sop" where
  "delete_seed_file data_file_dir =
     sbind (sread (path_exists (seed_path data_file_dir))) (\<lambda>exists.
       if exists then or_io I_IO (remove_file (seed_path data_file_dir)) else sret ())"

end
