(* ===== verification/Lifecycle.thy ===== *)
theory Lifecycle
  imports Backend Seed
begin

text \<open>
  The wallet's life cycle (\<open>impls/src/lifecycle/default.rs\<close>): creating, opening and closing a
  wallet below a top directory, its recovery phrase, changing the password and deleting it. The
  provider's state is the directory, the files, the databases and stored transactions on disk by
  data directory, and the open backend with its data directory. Writing the configuration file
  is not modelled.
\<close>

record provider =
  pr_data_dir :: string
  pr_fs :: filesys
  pr_disk :: "string \<Rightarrow> db \<times> (string \<Rightarrow> string option)"
  pr_backend :: "(string \<times> wallet) option"

type_synonym 'a pop = "(provider, error, 'a) comp"

definition GRIN_WALLET_DIR :: string where
  "GRIN_WALLET_DIR = ''wallet_data''"

definition DB_DIR :: string where
  "DB_DIR = ''db''"

definition TX_SAVE_DIR :: string where
  "TX_SAVE_DIR = ''saved_txs''"

definition provider_new :: "filesys \<Rightarrow> (string \<Rightarrow> db \<times> (string \<Rightarrow> string option)) \<Rightarrow> provider" where
  "provider_new fs disk = \<lparr>pr_data_dir = ''default'', pr_fs = fs, pr_disk = disk, pr_backend = None\<rparr>"

definition set_top_level_directory :: "string \<Rightarrow> unit pop" where
  "set_top_level_directory d = smodify (\<lambda>p. p\<lparr>pr_data_dir := d\<rparr>)"

definition get_top_level_directory :: "provider \<Rightarrow> string" where
  "get_top_level_directory p = fmt_path (pr_data_dir p)"

text \<open>The directory of the wallet's data, with its separators as they were given\<close>

definition wallet_dir :: "provider \<Rightarrow> string" where
  "wallet_dir p = path_push (pr_data_dir p) GRIN_WALLET_DIR"

text \<open>A seed operation on the provider's files, with all its errors replaced by one\<close>

definition with_files :: "error \<Rightarrow> 'a sop \<Rightarrow> 'a pop" where
  "with_files e m p = (case m (pr_fs p) of
     (Ok a, fs) \<Rightarrow> (Ok a, p\<lparr>pr_fs := fs\<rparr>)
   | (Err _, fs) \<Rightarrow> (Err e, p\<lparr>pr_fs := fs\<rparr>)
   | (Panic, fs) \<Rightarrow> (Panic, p\<lparr>pr_fs := fs\<rparr>))"

definition lifecycle :: "string \<Rightarrow> error" where
  "lifecycle msg = Wal (Lifecycle msg)"

text \<open>What a data directory holds on disk: the open backend's tables are on disk at once.\<close>

definition on_disk :: "provider \<Rightarrow> string \<Rightarrow> db \<times> (string \<Rightarrow> string option)" where
  "on_disk p d = (case pr_backend p of
     Some (d', w) \<Rightarrow> if d' = d then (w_db w, w_files w) else pr_disk p d
   | None \<Rightarrow> pr_disk p d)"

text \<open>\<open>WalletBackend::new\<close> in a data directory: it makes its directories and the default account.\<close>

definition open_backend :: "ext \<Rightarrow> string \<Rightarrow> wallet pop" where
  "open_backend X data_dir_name =
     sbind (with_files (Lib (IO ''database directory'')) (or_io I_IO (create_dir_all (path_push data_dir_name DB_DIR)))) (\<lambda>_.
     sbind (with_files (Lib (IO ''stored transactions'')) (or_io I_IO (create_dir_all (path_push data_dir_name TX_SAVE_DIR)))) (\<lambda>_.
     sbind (sread (\<lambda>p. on_disk p data_dir_name)) (\<lambda>(store, files).
       slift (backend_new X store files))))"

text \<open>A backend's state written to its place; one that is dropped leaves its tables there.\<close>

definition keep_on_disk :: "string \<Rightarrow> wallet \<Rightarrow> provider \<Rightarrow> provider" where
  "keep_on_disk d w p = (case pr_backend p of
     Some (d', w') \<Rightarrow> if d' = d then p\<lparr>pr_backend := Some (d', w'\<lparr>w_db := w_db w, w_files := w_files w\<rparr>)\<rparr>
                     else p\<lparr>pr_disk := (pr_disk p)(d := (w_db w, w_files w))\<rparr>
   | None \<Rightarrow> p\<lparr>pr_disk := (pr_disk p)(d := (w_db w, w_files w))\<rparr>)"

definition drop_backend :: "provider \<Rightarrow> provider" where
  "drop_backend p = (case pr_backend p of
     Some (d, w) \<Rightarrow> p\<lparr>pr_disk := (pr_disk p)(d := (w_db w, w_files w)), pr_backend := None\<rparr>
   | None \<Rightarrow> p)"

definition create_wallet ::
  "ext \<Rightarrow> seed_ext \<Rightarrow> (nat \<Rightarrow> bytes) \<Rightarrow> bytes \<times> bytes \<Rightarrow> string option \<Rightarrow> nat \<Rightarrow> string \<Rightarrow> bool \<Rightarrow> unit pop" where
  "create_wallet X S draw rand mnemonic mnemonic_length password test_mode =
     sbind (sread (\<lambda>p. fmt_path (wallet_dir p))) (\<lambda>data_dir_name.
     sbind (sread (\<lambda>p. seed_file_exists data_dir_name (pr_fs p))) (\<lambda>exists.
     if \<not> test_mode \<and> exists
     then sfail (Wal (WalletSeedExists (''Wallet seed already exists at: '' @ data_dir_name)))
     else
       sbind (with_files (lifecycle ''Error creating wallet seed (is mnemonic valid?)'')
         (init_file X S draw rand data_dir_name mnemonic_length mnemonic password test_mode)) (\<lambda>_.
       sbind (\<lambda>p. case open_backend X data_dir_name p of
                (Ok w, p') \<Rightarrow> (Ok w, p')
              | (Err _, p') \<Rightarrow> (Err (lifecycle ''Error creating wallet''), p')
              | (Panic, p') \<Rightarrow> (Panic, p')) (\<lambda>wallet.
         case with_batch_no_mask (save_init_status
                (if mnemonic \<noteq> None then InitNeedsScanning else InitNoScanning)) wallet of
           (r, w') \<Rightarrow> sbind (smodify (keep_on_disk data_dir_name w')) (\<lambda>_. slift r)))))"

text \<open>\<open>kmask\<close> is the drawn mask when one was asked for. The backend that was open is dropped.\<close>

definition open_wallet :: "ext \<Rightarrow> seed_ext \<Rightarrow> bool \<Rightarrow> string \<Rightarrow> secret_key option \<Rightarrow> secret_key option pop" where
  "open_wallet X S is_testnet password kmask =
     sbind (sread (\<lambda>p. fmt_path (wallet_dir p))) (\<lambda>data_dir_name.
     sbind (\<lambda>p. case open_backend X data_dir_name p of
              (Ok w, p') \<Rightarrow> (Ok w, keep_on_disk data_dir_name w p')
            | (Err _, p') \<Rightarrow> (Err (lifecycle ''Error opening wallet''), p')
            | (Panic, p') \<Rightarrow> (Panic, p')) (\<lambda>wallet.
     sbind (with_files (lifecycle ''Error opening wallet (is password correct?)'')
       (seed_from_file X S data_dir_name password)) (\<lambda>wallet_seed.
     sbind (slift (case derive_keychain S wallet_seed is_testnet of
         Ok k \<Rightarrow> Ok k | Err _ \<Rightarrow> Err (lifecycle ''Error deriving keychain'') | Panic \<Rightarrow> Panic)) (\<lambda>k.
       case set_keychain X k kmask wallet of
         (Ok m, w') \<Rightarrow> sbind (smodify drop_backend) (\<lambda>_.
           sbind (smodify (\<lambda>p. p\<lparr>pr_backend := Some (data_dir_name, w')\<rparr>)) (\<lambda>_. sret m))
       | (Err e, _) \<Rightarrow> sfail e
       | (Panic, _) \<Rightarrow> slift Panic))))"

text \<open>Closing clears the keychain and drops the backend.\<close>

definition close_wallet :: "unit pop" where
  "close_wallet =
     sbind (smodify (\<lambda>p. p\<lparr>pr_backend := map_option (\<lambda>(d, w). (d, snd (close w))) (pr_backend p)\<rparr>)) (\<lambda>_.
       smodify drop_backend)"

definition wallet_exists :: "provider \<Rightarrow> bool" where
  "wallet_exists p \<longleftrightarrow> seed_file_exists (wallet_dir p) (pr_fs p)"

definition get_mnemonic :: "ext \<Rightarrow> seed_ext \<Rightarrow> string \<Rightarrow> string pop" where
  "get_mnemonic X S password =
     sbind (sread (\<lambda>p. fmt_path (wallet_dir p))) (\<lambda>data_dir_name.
     sbind (with_files (lifecycle ''Error opening wallet seed file'')
       (seed_from_file X S data_dir_name password)) (\<lambda>wallet_seed.
       with_files (lifecycle ''Error recovering wallet seed'') (slift (to_mnemonic S wallet_seed))))"

definition validate_mnemonic :: "seed_ext \<Rightarrow> string \<Rightarrow> unit result" where
  "validate_mnemonic S mnemonic = (case from_mnemonic S mnemonic of
     Ok _ \<Rightarrow> Ok ()
   | Err _ \<Rightarrow> Err (Lib (GenericError ''Validating mnemonic''))
   | Panic \<Rightarrow> Panic)"

definition recover_from_mnemonic :: "ext \<Rightarrow> seed_ext \<Rightarrow> bytes \<times> bytes \<Rightarrow> string \<Rightarrow> string \<Rightarrow> unit pop" where
  "recover_from_mnemonic X S rand mnemonic password =
     sbind (sread wallet_dir) (\<lambda>data_dir_name.
       with_files (lifecycle ''Error recovering from mnemonic'')
         (recover_from_phrase X S rand data_dir_name mnemonic password))"

text \<open>The new file is written whatever becomes of it; what counts is whether it can be read.\<close>

definition ignoring :: "'a sop \<Rightarrow> unit sop" where
  "ignoring m fs = (case m fs of (Panic, fs') \<Rightarrow> (Panic, fs') | (_, fs') \<Rightarrow> (Ok (), fs'))"

definition change_password ::
  "ext \<Rightarrow> seed_ext \<Rightarrow> (nat \<Rightarrow> bytes) \<Rightarrow> bytes \<times> bytes \<Rightarrow> string \<Rightarrow> string \<Rightarrow> unit pop" where
  "change_password X S draw rand old new =
     sbind (sread wallet_dir) (\<lambda>data_dir_name.
     sbind (with_files (lifecycle ''Error opening wallet seed file'')
       (seed_from_file X S data_dir_name old)) (\<lambda>orig_wallet_seed.
     sbind (with_files (lifecycle ''Error recovering mnemonic'') (slift (to_mnemonic S orig_wallet_seed))) (\<lambda>orig_mnemonic.
     sbind (with_files (lifecycle ''Error temporarily backing up existing seed'') (backup_seed data_dir_name)) (\<lambda>backup_name.
     sbind (with_files (lifecycle ''Unable to delete seed file for password change'') (delete_seed_file data_dir_name)) (\<lambda>_.
     sbind (with_files (lifecycle '''')
       (ignoring (init_file X S draw rand data_dir_name 0 (Some orig_mnemonic) new False))) (\<lambda>_.
     sbind (with_files (lifecycle ''Error opening wallet seed file'') (seed_from_file X S data_dir_name new)) (\<lambda>new_wallet_seed.
       if orig_wallet_seed \<noteq> new_wallet_seed
       then sfail (lifecycle
         ''New and Old wallet seeds are not equal on password change, not removing backups.'')
       else with_files (Lib (IO ''remove'')) (or_io I_IO (remove_file backup_name)))))))))"

definition delete_wallet :: "unit pop" where
  "delete_wallet =
     sbind (sread pr_data_dir) (\<lambda>d. with_files (Lib (IO ''remove'')) (or_io I_IO (remove_dir_all d)))"

text \<open>An operation of the library on the open wallet\<close>

definition on_wallet :: "'a wop \<Rightarrow> 'a pop" where
  "on_wallet m p = (case pr_backend p of
     None \<Rightarrow> (Err (lifecycle ''Wallet has not been opened''), p)
   | Some (d, w) \<Rightarrow> (case m w of (r, w') \<Rightarrow> (r, p\<lparr>pr_backend := Some (d, w')\<rparr>)))"

end
