(* ===== verification/Lifecycle_Props.thy ===== *)
theory Lifecycle_Props
  imports Lifecycle Backend_Props Codec
begin

text \<open>
  What the life cycle promises about the seed: its file can be opened with its password only,
  no change of the password or recovery loses it, and a wallet that was created can be opened
  again; and what a recovery with a wrong phrase does.
\<close>

section \<open>Encryption of the seed\<close>

text \<open>
  What is assumed of the libraries: hexadecimal and JSON forms are read back, sealing appends a
  tag of sixteen bytes and is opened with its key and nonce only, and a phrase stands for its
  entropy.
\<close>

definition seed_lib_ok :: "ext \<Rightarrow> seed_ext \<Rightarrow> bool" where
  "seed_lib_ok X S \<longleftrightarrow>
     (\<forall>b. x_from_hex X (x_to_hex X b) = Some b) \<and>
     (\<forall>k n b c. s_seal S k n b = Some c \<longrightarrow> length c = length b + 16 \<and> s_open S k n c = Some b \<and>
        (\<forall>k'. k' \<noteq> k \<longrightarrow> s_open S k' n c = None)) \<and>
     (\<forall>e t. s_to_json S e = Some t \<longrightarrow> s_of_json S t = Some e) \<and>
     (\<forall>b s. s_from_entropy S b = Some s \<longrightarrow> s_to_entropy S s = Some b)"

lemma decrypt_encrypt:
  assumes "seed_lib_ok X S" "length nonce = 12" "encrypt_seed X S (salt, nonce) seed pw = Ok e"
  shows "decrypt_seed X S e pw' =
    (if s_pbkdf2 S salt (utf8 pw') = s_pbkdf2 S salt (utf8 pw) then Ok seed else Err I_Encryption)"
proof -
  obtain c where c: "s_seal S (s_pbkdf2 S salt (utf8 pw)) nonce seed = Some c"
    and e: "e = \<lparr>es_encrypted_seed = x_to_hex X c, es_salt = x_to_hex X salt, es_nonce = x_to_hex X nonce\<rparr>"
    using assms(3) by (auto simp: encrypt_seed_def res_simps)
  have lib: "x_from_hex X (x_to_hex X b) = Some b" "length c = length seed + 16"
    "s_open S (s_pbkdf2 S salt (utf8 pw)) nonce c = Some seed"
    "k' \<noteq> s_pbkdf2 S salt (utf8 pw) \<Longrightarrow> s_open S k' nonce c = None" for b k'
    using assms(1) c unfolding seed_lib_ok_def by blast+
  show ?thesis
    using lib(2,3) assms(2) lib(4) [of "s_pbkdf2 S salt (utf8 pw')"]
    by (auto simp: decrypt_seed_def e lib(1) Let_def)
qed

text \<open>A text that holds a seed under a password\<close>

definition holds :: "ext \<Rightarrow> seed_ext \<Rightarrow> string \<Rightarrow> string \<Rightarrow> wallet_seed \<Rightarrow> bool" where
  "holds X S t pw seed \<longleftrightarrow> (\<exists>e. s_of_json S t = Some e \<and> decrypt_seed X S e pw = Ok seed)"

section \<open>The files\<close>

lemma or_io_Ok [res_simps]: "or_io e m fs = (Ok a, fs') \<longleftrightarrow> m fs = (Ok a, fs')"
  by (auto simp: or_io_def split: prod.splits res.splits)

text \<open>Files outside a set are as they were.\<close>

definition same_but :: "string set \<Rightarrow> filesys \<Rightarrow> filesys \<Rightarrow> bool" where
  "same_but A fs0 fs \<longleftrightarrow> (\<forall>q. q \<notin> A \<longrightarrow> file_text fs q = file_text fs0 q)"

lemma same_but_refl [simp]: "same_but A fs fs"
  by (simp add: same_but_def)

lemma keeps_cond: "(b \<Longrightarrow> keeps P m) \<Longrightarrow> (\<not> b \<Longrightarrow> keeps P n) \<Longrightarrow> keeps P (if b then m else n)"
  by simp

lemma keeps_or_io: "keeps P m \<Longrightarrow> keeps P (or_io e m)"
  by (auto simp: keeps_def or_io_def split: prod.splits res.splits)

lemma keeps_files:
  "keeps (same_but A fs0) (create_dir_all d)" "keeps (same_but A fs0) (read_text q)"
  "p \<in> A \<Longrightarrow> keeps (same_but A fs0) (write_text p t)" "p \<in> A \<Longrightarrow> keeps (same_but A fs0) (remove_file p)"
  by (auto simp: keeps_def same_but_def create_dir_all_def read_text_def write_text_def remove_file_def file_simps
      split: option.splits)

lemmas keeps_fs = keeps_intros keeps_cond keeps_or_io keeps_files

lemma keeps_seed_files:
  "keeps (same_but A fs0) (seed_from_file X S d pw)"
  "p \<in> A \<Longrightarrow> keeps (same_but A fs0) (write_seed X S rand p seed pw)"
  "seed_path d \<in> A \<Longrightarrow> keeps (same_but A fs0) (init_file X S draw rand d n phrase pw test)"
  "seed_path d \<in> A \<Longrightarrow> keeps (same_but A fs0) (delete_seed_file d)"
  unfolding seed_from_file_def write_seed_def init_file_def delete_seed_file_def
  by (intro keeps_fs; simp)+

lemma seed_from_file_Ok:
  assumes "seed_from_file X S d pw fs = (Ok seed, fs')"
  shows "\<exists>t. file_text fs (seed_path d) = Some t \<and> holds X S t pw seed"
  using assms
  by (auto simp: seed_from_file_def holds_def read_text_def res_simps
      dest!: create_dir_all_Ok(1) split: option.splits if_splits)

section \<open>Backups\<close>

text \<open>The decimal text of a number determines it, so that the names tried are distinct.\<close>

lemma digit_inject: "i < 10 \<Longrightarrow> j < 10 \<Longrightarrow> char_of (48 + i) = char_of (48 + j :: nat) \<Longrightarrow> i = (j :: nat)"
proof -
  assume ij: "i < 10" "j < 10" and eq: "char_of (48 + i) = char_of (48 + j :: nat)"
  have "(of_char (char_of (48 + i)) :: nat) = of_char (char_of (48 + j))" by (simp only: eq)
  with ij show "i = j" by simp
qed

lemma nat_to_string_nonempty: "nat_to_string n \<noteq> []"
  by (subst nat_to_string.simps) simp

lemma nat_to_string_inject: "nat_to_string m = nat_to_string n \<Longrightarrow> m = n"
proof (induction m arbitrary: n rule: nat_to_string.induct)
  case (1 m)
  show ?case
  proof (cases "m < 10 \<or> n < 10")
    case True
    with 1(2) show ?thesis
      using digit_inject [of m n] nat_to_string_nonempty [of "m div 10"] nat_to_string_nonempty [of "n div 10"]
      by (auto simp: nat_to_string.simps [of m] nat_to_string.simps [of n] split: if_splits)
  next
    case False
    with 1(2) have "nat_to_string (m div 10) = nat_to_string (n div 10)"
      "char_of (48 + m mod 10) = char_of (48 + n mod 10 :: nat)"
      by (simp_all add: nat_to_string.simps [of m] nat_to_string.simps [of n])
    with 1(1) False digit_inject [of "m mod 10" "n mod 10"] have "m div 10 = n div 10" "m mod 10 = n mod 10"
      by simp_all
    then show ?thesis by (metis div_mult_mod_eq)
  qed
qed

lemma backup_name_inject: "backup_name d i = backup_name d j \<Longrightarrow> i = j"
  using nat_to_string_inject [of i j] by (auto simp: backup_name_def split: if_splits)

lemma free_backup_fresh: "free_backup fuel d i fs = Some b \<Longrightarrow> \<not> path_exists b fs \<and> (\<exists>j. b = backup_name d j)"
  by (induction fuel arbitrary: i) (auto split: if_splits)

lemma free_backup_None: "free_backup fuel d i fs = None \<Longrightarrow> \<forall>j \<in> {i..<i + fuel}. path_exists (backup_name d j) fs"
proof (induction fuel arbitrary: i)
  case (Suc fuel)
  then have "path_exists (backup_name d i) fs" "\<forall>j \<in> {Suc i..<Suc i + fuel}. path_exists (backup_name d j) fs"
    using Suc.IH [of "Suc i"] by (auto split: if_splits)
  moreover have "{i..<i + Suc fuel} = insert i {Suc i..<Suc i + fuel}" by auto
  ultimately show ?case by simp
qed simp

lemma free_backup_found: "\<exists>b. free_backup (backup_fuel fs) d 0 fs = Some b"
proof (rule ccontr)
  assume "\<not> ?thesis"
  then have all: "\<forall>j \<in> {0..<backup_fuel fs}. path_exists (backup_name d j) fs"
    using free_backup_None [of "backup_fuel fs" d 0 fs] by simp
  have "backup_name d ` {0..<backup_fuel fs} \<subseteq> set (map fst (fs_files fs) @ fs_dirs fs)"
    using all by (auto simp: path_exists_def file_text_def map_of_eq_None_iff)
  then have "card (backup_name d ` {0..<backup_fuel fs}) \<le> length (map fst (fs_files fs) @ fs_dirs fs)"
    by (meson List.finite_set card_length card_mono le_trans)
  moreover have "card (backup_name d ` {0..<backup_fuel fs}) = backup_fuel fs"
    using backup_name_inject by (subst card_image) (auto intro: inj_onI)
  ultimately show False by (simp add: backup_fuel_def)
qed

lemma backup_seed_effect:
  assumes "backup_seed d fs = (r, fs')" "fmt_path d = d"
  shows "r \<noteq> Panic"
    "r = Ok b \<Longrightarrow> \<exists>t. file_text fs (seed_path d) = Some t \<and> file_text fs b = None \<and> b \<noteq> seed_path d \<and>
      file_text fs' = (file_text fs)(seed_path d := None, b := Some t)"
    "r = Err e \<Longrightarrow> file_text fs' = file_text fs"
proof -
  obtain name where name: "free_backup (backup_fuel fs) d 0 fs = Some name"
    using free_backup_found by blast
  have fresh: "file_text fs name = None" "name \<noteq> seed_path d"
    using free_backup_fresh [OF name] by (auto simp: path_exists_def backup_name_def seed_path_def assms(2))
  have "d @ ''/'' @ SEED_FILE = seed_path d" by (simp add: seed_path_def assms(2))
  then show "r \<noteq> Panic"
    "r = Ok b \<Longrightarrow> \<exists>t. file_text fs (seed_path d) = Some t \<and> file_text fs b = None \<and> b \<noteq> seed_path d \<and>
      file_text fs' = (file_text fs)(seed_path d := None, b := Some t)"
    "r = Err e \<Longrightarrow> file_text fs' = file_text fs"
    using assms(1) fresh
    by (auto simp: backup_seed_def name Let_def sbind_def or_io_def rename_file_def comp_defs file_simps fun_eq_iff
        split: option.splits if_splits)
qed

section \<open>Changing the password\<close>

lemma sbind_stops:
  assumes "sbind m f s = (r, t)"
  obtains (goes_on) a s' where "m s = (Ok a, s')" "f a s' = (r, t)"
  | (stops) q where "m s = (q, t)" "\<not> is_Ok q" "\<not> is_Ok r"
  using assms by (auto simp: sbind_def split: prod.splits res.splits)

lemma with_files_Ok [res_simps]:
  "with_files e m p = (Ok a, p') \<longleftrightarrow> (\<exists>fs. m (pr_fs p) = (Ok a, fs) \<and> p' = p\<lparr>pr_fs := fs\<rparr>)"
  by (auto simp: with_files_def split: prod.splits res.splits)

text \<open>The files of the provider, outside a set of names, and its directory\<close>

definition files_but :: "string set \<Rightarrow> string \<Rightarrow> filesys \<Rightarrow> provider \<Rightarrow> bool" where
  "files_but A d fs p \<longleftrightarrow> same_but A fs (pr_fs p) \<and> pr_data_dir p = d"

lemma keeps_with_files: "keeps (same_but A fs) m \<Longrightarrow> keeps (files_but A d fs) (with_files e m)"
  by (auto simp: keeps_def files_but_def with_files_def split: prod.splits res.splits)

lemma with_files_frame:
  "with_files e m p = (q, p') \<Longrightarrow> keeps (same_but A fs) m \<Longrightarrow> files_but A d fs p \<Longrightarrow> files_but A d fs p'"
  using keeps_with_files [of A fs m d e] by (auto simp: keeps_def dest: spec [of _ p])

lemma keeps_ignoring: "keeps P m \<Longrightarrow> keeps P (ignoring m)"
  by (auto simp: keeps_def ignoring_def split: prod.splits res.splits)

lemmas keeps_pr = keeps_intros keeps_cond keeps_with_files keeps_seed_files keeps_ignoring keeps_or_io keeps_files

text \<open>The steps after the backup: a new file is written and read, and the backup removed if it is the same seed.\<close>

definition renewal ::
  "ext \<Rightarrow> seed_ext \<Rightarrow> (nat \<Rightarrow> bytes) \<Rightarrow> bytes \<times> bytes \<Rightarrow> string \<Rightarrow> string \<Rightarrow> string \<Rightarrow> wallet_seed pop" where
  "renewal X S draw rand d new m =
    sbind (with_files (lifecycle ''Unable to delete seed file for password change'') (delete_seed_file d)) (\<lambda>_.
    sbind (with_files (lifecycle '''') (ignoring (init_file X S draw rand d 0 (Some m) new False))) (\<lambda>_.
      with_files (lifecycle ''Error opening wallet seed file'') (seed_from_file X S d new)))"

definition confirm_change :: "string \<Rightarrow> wallet_seed \<Rightarrow> wallet_seed \<Rightarrow> unit pop" where
  "confirm_change b seed new_seed =
    (if seed \<noteq> new_seed
     then sfail (lifecycle ''New and Old wallet seeds are not equal on password change, not removing backups.'')
     else with_files (Lib (IO ''remove'')) (or_io I_IO (remove_file b)))"

lemma change_password_eq:
  "change_password X S draw rand old new p =
    (let d = wallet_dir p in
     sbind (with_files (lifecycle ''Error opening wallet seed file'') (seed_from_file X S d old)) (\<lambda>seed.
     sbind (with_files (lifecycle ''Error recovering mnemonic'') (slift (to_mnemonic S seed))) (\<lambda>m.
     sbind (with_files (lifecycle ''Error temporarily backing up existing seed'') (backup_seed d)) (\<lambda>b.
     sbind (renewal X S draw rand d new m) (confirm_change b seed)))) p)"
  by (simp add: change_password_def confirm_change_def [abs_def] renewal_def sbind_simps Let_def)

lemma keeps_renewal: "keeps (files_but {seed_path d} dir fs) (renewal X S draw rand d new m)"
  unfolding renewal_def by (intro keeps_pr; simp)

lemma renewal_Ok:
  assumes "renewal X S draw rand d new m p = (Ok seed, p')"
  shows "\<exists>t. file_text (pr_fs p') (seed_path d) = Some t \<and> holds X S t new seed"
proof -
  from assms obtain p1 fs where read: "seed_from_file X S d new (pr_fs p1) = (Ok seed, fs)" "p' = p1\<lparr>pr_fs := fs\<rparr>"
    by (auto simp: renewal_def sbind_eq_Ok with_files_Ok)
  then show ?thesis
    using seed_from_file_Ok [OF read(1)] keepsD [OF keeps_seed_files(1) [of "{}" "pr_fs p1"] same_but_refl read(1)]
    by (auto simp: same_but_def)
qed

lemma confirmed_change:
  assumes "sbind (renewal X S draw rand d new m) (confirm_change b seed) p = (r, p')"
    and "file_text (pr_fs p) b = Some t" "b \<noteq> seed_path d"
  shows "if is_Ok r then same_but {seed_path d, b} (pr_fs p) (pr_fs p') \<and> file_text (pr_fs p') b = None \<and>
      (\<exists>t'. file_text (pr_fs p') (seed_path d) = Some t' \<and> holds X S t' new seed)
    else same_but {seed_path d} (pr_fs p) (pr_fs p')"
proof -
  have same: "files_but {seed_path d} (pr_data_dir p) (pr_fs p) p" by (simp add: files_but_def)
  from assms(1) show ?thesis
  proof (cases rule: sbind_stops)
    case (stops q)
    with keepsD [OF keeps_renewal same stops(1)] show ?thesis by (simp add: files_but_def)
  next
    case (goes_on new_seed p1)
    have 1: "same_but {seed_path d} (pr_fs p) (pr_fs p1)"
      using keepsD [OF keeps_renewal same goes_on(1)] by (simp add: files_but_def)
    then have "file_text (pr_fs p1) b = Some t" using assms(2,3) by (simp add: same_but_def)
    with goes_on(2) 1 renewal_Ok [OF goes_on(1)] assms(3) show ?thesis
      by (auto simp: confirm_change_def sfail_def with_files_def or_io_def remove_file_def file_simps same_but_def
          split: if_splits)
  qed
qed

lemma backup_step:
  assumes "with_files e (backup_seed d) p = (q, p')" "fmt_path d = d"
  shows "case q of
      Ok b \<Rightarrow> \<exists>t. file_text (pr_fs p) (seed_path d) = Some t \<and> file_text (pr_fs p) b = None \<and> b \<noteq> seed_path d \<and>
        file_text (pr_fs p') = (file_text (pr_fs p))(seed_path d := None, b := Some t)
    | _ \<Rightarrow> file_text (pr_fs p') = file_text (pr_fs p)"
proof -
  obtain q' fs where b: "backup_seed d (pr_fs p) = (q', fs)" by fastforce
  show ?thesis
    using assms(1) backup_seed_effect [OF b assms(2)] by (cases q') (auto simp: with_files_def b)
qed

text \<open>
  A seed file that is read and whose new version is read as the same seed: the steps of the change
  in terms of the texts of the files
\<close>

lemma change_password_steps:
  assumes "change_password X S draw rand old new p = (r, p')" "fmt_path (wallet_dir p) = wallet_dir p"
    and t: "file_text (pr_fs p) (seed_path (wallet_dir p)) = Some t"
  obtains (unchanged) "\<not> is_Ok r" "file_text (pr_fs p') = file_text (pr_fs p)"
  | (backed_up) b where "\<not> is_Ok r" "file_text (pr_fs p) b = None" "b \<noteq> seed_path (wallet_dir p)"
      "same_but {seed_path (wallet_dir p), b} (pr_fs p) (pr_fs p')" "file_text (pr_fs p') b = Some t"
  | (changed) seed t' where "is_Ok r" "holds X S t old seed"
      "same_but {seed_path (wallet_dir p)} (pr_fs p) (pr_fs p')"
      "file_text (pr_fs p') (seed_path (wallet_dir p)) = Some t'" "holds X S t' new seed"
proof -
  let ?d = "wallet_dir p" and ?sp = "seed_path (wallet_dir p)"
  let ?same = "files_but {} (pr_data_dir p) (pr_fs p)"
  have same: "?same p" by (simp add: files_but_def)
  have none: "file_text (pr_fs p2) = file_text (pr_fs p)" if "?same p2" for p2
    using that by (auto simp: files_but_def same_but_def)
  from assms(1) [unfolded change_password_eq Let_def] show ?thesis
  proof (cases rule: sbind_stops)
    case (stops q)
    have "?same p'" by (intro with_files_frame [OF stops(1) _ same] keeps_pr)
    with stops(3) unchanged none show ?thesis by blast
  next
    case (goes_on seed p1)
    have 1: "?same p1" by (intro with_files_frame [OF goes_on(1) _ same] keeps_pr)
    have t0: "holds X S t old seed" using goes_on(1) t by (auto simp: res_simps dest!: seed_from_file_Ok)
    from goes_on(2) show ?thesis
    proof (cases rule: sbind_stops)
      case (stops q)
      have "?same p'" by (intro with_files_frame [OF stops(1) _ 1] keeps_pr)
      with stops(3) unchanged none show ?thesis by blast
    next
      case (goes_on m p2)
      have "?same p2" by (intro with_files_frame [OF goes_on(1) _ 1] keeps_pr)
      note text2 = none [OF this]
      from goes_on(2) show ?thesis
      proof (cases rule: sbind_stops)
        case (stops q)
        with backup_step [OF stops(1) assms(2)] text2 unchanged show ?thesis by (cases q) auto
      next
        case (goes_on b p3)
        have b: "file_text (pr_fs p) b = None" "b \<noteq> ?sp"
          "file_text (pr_fs p3) = (file_text (pr_fs p))(?sp := None, b := Some t)"
          using backup_step [OF goes_on(1) assms(2)] text2 t by auto
        then have "file_text (pr_fs p3) b = Some t" by simp
        note rest = confirmed_change [OF goes_on(2) this b(2)]
        show ?thesis
        proof (cases "is_Ok r")
          case True
          then have "file_text (pr_fs p') q = file_text (pr_fs p) q" if "q \<noteq> ?sp" for q
            using that rest b by (cases "q = b") (auto simp: same_but_def)
          then have "same_but {?sp} (pr_fs p) (pr_fs p')" by (simp add: same_but_def)
          with changed [OF True t0] rest True show ?thesis by auto
        next
          case False
          with rest b backed_up [of b] show ?thesis by (auto simp: same_but_def)
        qed
      qed
    qed
  qed
qed

text \<open>C25: a change of the password that succeeds leaves a seed file that the
  new password opens to the seed the old one opened, and every other file as it was. One that does
  not, for whatever reason and at whatever step, leaves the text of the old seed file in a file:
  in its place, or in a new backup; and every other file as it was.\<close>

theorem password_change_keeps_the_seed:
  assumes "change_password X S draw rand old new p = (r, p')" "fmt_path (wallet_dir p) = wallet_dir p"
    and "file_text (pr_fs p) (seed_path (wallet_dir p)) = Some t"
  shows "if r = Ok ()
    then (\<exists>seed t'. holds X S t old seed \<and> holds X S t' new seed \<and>
        file_text (pr_fs p') = (file_text (pr_fs p))(seed_path (wallet_dir p) := Some t'))
    else file_text (pr_fs p') = file_text (pr_fs p) \<or>
      (\<exists>b. file_text (pr_fs p) b = None \<and> file_text (pr_fs p') b = Some t \<and>
        (\<forall>q. q \<noteq> b \<and> q \<noteq> seed_path (wallet_dir p) \<longrightarrow> file_text (pr_fs p') q = file_text (pr_fs p) q))"
  using assms
proof (cases rule: change_password_steps)
  case (changed seed t')
  then have "r = Ok ()" by (cases r) simp_all
  moreover have "file_text (pr_fs p') = (file_text (pr_fs p))(seed_path (wallet_dir p) := Some t')"
    using changed by (auto simp: same_but_def)
  ultimately show ?thesis using changed by auto
qed (auto simp: same_but_def)

section \<open>Recovery with a wrong phrase\<close>

lemma digits_plain: "CHR ''/'' \<notin> set (nat_to_string n)"
proof (induction n rule: nat_to_string.induct)
  case (1 n)
  have digit: "char_of (48 + k) \<noteq> CHR ''/''" if "k < 10" for k :: nat
  proof
    assume "char_of (48 + k) = CHR ''/''"
    then have "(of_char (char_of (48 + k)) :: nat) = of_char (CHR ''/'')" by (simp only:)
    with that show False by simp
  qed
  show ?case
    using 1 digit [of n] digit [of "n mod 10"] by (subst nat_to_string.simps) auto
qed

lemma parent_dir_append:
  assumes "CHR ''/'' \<notin> set s"
  shows "parent_dir (d @ ''/'' @ s) = d"
proof -
  have "dropWhile (\<lambda>c. c \<noteq> CHR ''/'') (rev s @ CHR ''/'' # rev d) = CHR ''/'' # rev d"
    using assms by (subst dropWhile_append2) auto
  then show ?thesis by (simp add: parent_dir_def)
qed

lemma parent_of_backup: "parent_dir (backup_name d i) = d"
proof -
  have "CHR ''/'' \<notin> set (SEED_FILE @ ''.bak'' @ (if i = 0 then [] else CHR ''.'' # nat_to_string i))"
    using digits_plain by (simp add: SEED_FILE_def)
  from parent_dir_append [OF this] show ?thesis by (simp add: backup_name_def)
qed

lemma backup_seed_succeeds:
  assumes "fmt_path d = d" "file_text fs (seed_path d) = Some t" "d \<in> set (fs_dirs fs)"
  shows "\<exists>b fs'. backup_seed d fs = (Ok b, fs') \<and> fs_dirs fs' = fs_dirs fs"
proof -
  obtain b where b: "free_backup (backup_fuel fs) d 0 fs = Some b" using free_backup_found by blast
  then have "b \<notin> set (fs_dirs fs)" "parent_dir b = d"
    using free_backup_fresh [OF b] by (auto simp: path_exists_def parent_of_backup)
  moreover have "d @ ''/'' @ SEED_FILE = seed_path d" by (simp add: seed_path_def assms(1))
  ultimately show ?thesis
    using assms by (simp add: backup_seed_def b Let_def sbind_def or_io_def rename_file_def comp_defs)
qed

text \<open>Recovering over an existing wallet with a phrase that is not one
  fails, but only after the seed file was moved to a backup: the wallet does not exist any more
  until its owner renames the backup.\<close>

theorem wrong_phrase_moves_the_seed:
  assumes "s_to_entropy S phrase = None" "fmt_path (wallet_dir p) = wallet_dir p"
    and "file_text (pr_fs p) (seed_path (wallet_dir p)) = Some t"
    and "wallet_dir p \<in> set (fs_dirs (pr_fs p))" "seed_path (wallet_dir p) \<notin> set (fs_dirs (pr_fs p))"
  shows "wallet_exists p \<and> (\<exists>p' b. recover_from_mnemonic X S rand phrase pw p =
      (Err (lifecycle ''Error recovering from mnemonic''), p') \<and> \<not> wallet_exists p' \<and>
      b \<noteq> seed_path (wallet_dir p) \<and> file_text (pr_fs p') b = Some t)"
proof -
  let ?d = "wallet_dir p" and ?sp = "seed_path (wallet_dir p)"
  obtain b fs' where b: "backup_seed ?d (pr_fs p) = (Ok b, fs')" "fs_dirs fs' = fs_dirs (pr_fs p)"
    using backup_seed_succeeds [OF assms(2-4)] by blast
  have moved: "b \<noteq> ?sp" "file_text fs' b = Some t" "file_text fs' ?sp = None"
    using backup_seed_effect(2) [OF b(1) assms(2) refl] assms(3) by auto
  have dir: "path_exists ?d fs'" using assms(4) b(2) by (simp add: path_exists_def)
  have exists: "seed_file_exists ?d (pr_fs p)" "\<not> seed_file_exists ?d fs'"
    using moved(3) assms(3,5) b(2) by (simp_all add: seed_file_exists_def path_exists_def)
  have "recover_from_phrase X S rand ?d phrase pw (pr_fs p) = (Err I_Mnemonic, fs')"
    using dir by (simp add: recover_from_phrase_def exists sbind_def comp_defs b(1) from_mnemonic_def assms(1) ok_or_def)
  then have "recover_from_mnemonic X S rand phrase pw p =
      (Err (lifecycle ''Error recovering from mnemonic''), p\<lparr>pr_fs := fs'\<rparr>)"
    by (simp add: recover_from_mnemonic_def sbind_simps with_files_def)
  moreover have "\<not> wallet_exists (p\<lparr>pr_fs := fs'\<rparr>)"
    using exists(2) by (simp add: wallet_exists_def wallet_dir_def)
  ultimately show ?thesis using moved exists(1) by (auto simp: wallet_exists_def)
qed

section \<open>Creating and opening\<close>

definition unblocked :: "string \<Rightarrow> filesys \<Rightarrow> bool" where
  "unblocked d fs \<longleftrightarrow> (\<forall>q \<in> set (path_prefixes d). file_text fs q = None)"

lemma create_dir_all_iff: "(\<exists>fs'. create_dir_all d fs = (Ok (), fs')) \<longleftrightarrow> unblocked d fs"
  by (auto simp: create_dir_all_def unblocked_def)

lemma unblocked_text: "file_text fs' = file_text fs \<Longrightarrow> unblocked d fs' = unblocked d fs"
  by (simp add: unblocked_def)

lemma path_prefix_length: "q \<in> set (path_prefixes p) \<Longrightarrow> length q \<le> length p"
  by (auto simp: path_prefixes_def)

lemma length_seed_path [simp]: "length (seed_path d) = length d + 12"
  by (simp add: seed_path_def fmt_path_def SEED_FILE_def)

lemma unblocked_write:
  "length p < length q \<Longrightarrow> file_text fs' = (file_text fs)(q := t) \<Longrightarrow> unblocked p fs \<Longrightarrow> unblocked p fs'"
  using path_prefix_length by (fastforce simp: unblocked_def)

lemma length_data_dirs: "length (path_push d DB_DIR) < length (seed_path d)" "length (path_push d TX_SAVE_DIR) < length (seed_path d)"
  by (simp_all add: path_push_def DB_DIR_def TX_SAVE_DIR_def)

text \<open>A wallet directory with its seed file, and nothing in the way of its directories\<close>

definition wallet_on :: "provider \<Rightarrow> string \<Rightarrow> bool" where
  "wallet_on p t \<longleftrightarrow> (let d = wallet_dir p in
     fmt_path d = d \<and> file_text (pr_fs p) (seed_path d) = Some t \<and>
     unblocked d (pr_fs p) \<and> unblocked (path_push d DB_DIR) (pr_fs p) \<and> unblocked (path_push d TX_SAVE_DIR) (pr_fs p))"

lemma with_files_dirs:
  assumes "unblocked d (pr_fs p)"
  shows "\<exists>fs. with_files e (or_io e' (create_dir_all d)) p = (Ok (), p\<lparr>pr_fs := fs\<rparr>) \<and> file_text fs = file_text (pr_fs p)"
proof -
  from assms obtain fs where "create_dir_all d (pr_fs p) = (Ok (), fs)"
    using create_dir_all_iff by blast
  then show ?thesis
    using create_dir_all_Ok(1) by (auto simp: with_files_def or_io_def)
qed

lemma on_disk_files [simp]: "on_disk (p\<lparr>pr_fs := fs\<rparr>) d = on_disk p d"
  by (simp add: on_disk_def split: option.split)

lemma open_backend_Ok:
  assumes "unblocked (path_push d DB_DIR) (pr_fs p)" "unblocked (path_push d TX_SAVE_DIR) (pr_fs p)"
  shows "\<exists>w fs. open_backend X d p = (Ok w, p\<lparr>pr_fs := fs\<rparr>) \<and> file_text fs = file_text (pr_fs p) \<and>
    backend_new X (fst (on_disk p d)) (snd (on_disk p d)) = Ok w"
proof -
  obtain fs1 where fs1: "with_files (Lib (IO ''database directory'')) (or_io I_IO (create_dir_all (path_push d DB_DIR))) p =
      (Ok (), p\<lparr>pr_fs := fs1\<rparr>)" "file_text fs1 = file_text (pr_fs p)"
    using with_files_dirs [OF assms(1)] by blast
  have "unblocked (path_push d TX_SAVE_DIR) (pr_fs (p\<lparr>pr_fs := fs1\<rparr>))"
    using assms(2) by (simp add: unblocked_text [OF fs1(2)])
  then obtain fs2 where fs2: "with_files (Lib (IO ''stored transactions'')) (or_io I_IO (create_dir_all (path_push d TX_SAVE_DIR)))
      (p\<lparr>pr_fs := fs1\<rparr>) = (Ok (), p\<lparr>pr_fs := fs2\<rparr>)" "file_text fs2 = file_text fs1"
    using with_files_dirs [of _ "p\<lparr>pr_fs := fs1\<rparr>"] by fastforce
  obtain w where "backend_new X (fst (on_disk p d)) (snd (on_disk p d)) = Ok w"
    by (simp add: backend_new_def save_acct_path_def smodify_def)
  then show ?thesis
    using fs1 fs2 by (auto simp: open_backend_def sbind_def comp_defs split_beta)
qed

lemma seed_from_file_run:
  assumes "unblocked d fs" "fmt_path d = d" "file_text fs (seed_path d) = Some t" "s_of_json S t = Some e"
  shows "\<exists>fs'. seed_from_file X S d pw fs = (decrypt_seed X S e pw, fs') \<and> file_text fs' = file_text fs"
proof -
  from assms(1) obtain fs' where fs': "create_dir_all d fs = (Ok (), fs')" using create_dir_all_iff by blast
  from create_dir_all_Ok(1) [OF fs'] have same: "file_text fs' = file_text fs" .
  then have "path_exists (seed_path d) fs'" by (simp add: path_exists_def assms(3))
  then show ?thesis
    using same assms(3,4) by (simp add: seed_from_file_def sbind_def or_io_def fs' comp_defs read_text_def ok_or_def)
qed

text \<open>Opening a wallet, in terms of its seed file\<close>

lemma open_wallet_run:
  assumes "wallet_on p t" "s_of_json S t = Some e"
  shows "case decrypt_seed X S e pw of
      Ok seed \<Rightarrow> (\<forall>k sum k'. s_keychain S seed tn = Some k \<and> root_checksum X k = Ok sum \<and>
          (case kmask of None \<Rightarrow> Ok k | Some m \<Rightarrow> x_mask_key X k m) = Ok k' \<longrightarrow>
        (\<exists>p' w. open_wallet X S tn pw kmask p = (Ok kmask, p') \<and> pr_backend p' = Some (wallet_dir p, w) \<and>
          w_keychain w = Some k' \<and> w_master_checksum w = Some sum \<and>
          db_init_status (w_db w) = db_init_status (fst (on_disk p (wallet_dir p))) \<and>
          db_outputs (w_db w) = db_outputs (fst (on_disk p (wallet_dir p))) \<and>
          db_tx_log (w_db w) = db_tx_log (fst (on_disk p (wallet_dir p)))))
    | Err _ \<Rightarrow> (\<exists>p'. open_wallet X S tn pw kmask p = (Err (lifecycle ''Error opening wallet (is password correct?)''), p') \<and>
        map_option (w_keychain \<circ> snd) (pr_backend p') = map_option (w_keychain \<circ> snd) (pr_backend p))
    | Panic \<Rightarrow> True"
proof -
  let ?d = "wallet_dir p"
  have on: "fmt_path ?d = ?d" "file_text (pr_fs p) (seed_path ?d) = Some t" "unblocked ?d (pr_fs p)"
    "unblocked (path_push ?d DB_DIR) (pr_fs p)" "unblocked (path_push ?d TX_SAVE_DIR) (pr_fs p)"
    using assms(1) by (simp_all add: wallet_on_def Let_def)
  obtain w fs where w: "open_backend X ?d p = (Ok w, p\<lparr>pr_fs := fs\<rparr>)" "file_text fs = file_text (pr_fs p)"
    "backend_new X (fst (on_disk p ?d)) (snd (on_disk p ?d)) = Ok w"
    using open_backend_Ok [OF on(4,5)] by blast
  have tables: "db_init_status (w_db w) = db_init_status (fst (on_disk p ?d))"
    "db_outputs (w_db w) = db_outputs (fst (on_disk p ?d))" "db_tx_log (w_db w) = db_tx_log (fst (on_disk p ?d))"
    using w(3) by (auto simp: backend_new_def save_acct_path_def smodify_def)
  let ?p1 = "keep_on_disk ?d w (p\<lparr>pr_fs := fs\<rparr>)"
  have p1: "pr_fs ?p1 = fs" by (auto simp: keep_on_disk_def split: option.splits)
  have kept: "map_option (w_keychain \<circ> snd) (pr_backend ?p1) = map_option (w_keychain \<circ> snd) (pr_backend p)"
    by (auto simp: keep_on_disk_def split: option.splits)
  obtain fs' where fs': "seed_from_file X S ?d pw fs = (decrypt_seed X S e pw, fs')"
    using seed_from_file_run [of ?d fs t S e X pw] on(1-3) assms(2) w(2) unblocked_text [OF w(2)] by auto
  show ?thesis
  proof (cases "decrypt_seed X S e pw")
    case (Ok seed)
    then show ?thesis
      using tables
      by (auto simp: open_wallet_def on(1) sbind_def w(1) with_files_def p1 fs' comp_defs derive_keychain_def ok_or_def
          set_keychain_def drop_backend_def split: option.splits res.splits)
  next
    case (Err x)
    then show ?thesis
      using kept by (auto simp: open_wallet_def on(1) sbind_def w(1) with_files_def p1 fs' comp_defs)
  qed simp
qed

lemma relabelled_Ok:
  "(case r of (Ok a, p') \<Rightarrow> (Ok a, p') | (Err _, p') \<Rightarrow> (Err e, p') | (Panic, p') \<Rightarrow> (Panic, p')) = (Ok b, s) \<longleftrightarrow>
    r = (Ok b, s)"
  by (auto split: prod.splits res.splits)

lemma create_wallet_Ok:
  assumes "create_wallet X S draw rand phrase n pw False p = (Ok (), p')" "fmt_path (wallet_dir p) = wallet_dir p"
  shows "\<exists>seed e t. (case phrase of Some w \<Rightarrow> s_to_entropy S w = Some seed | None \<Rightarrow> seed = draw n) \<and>
    encrypt_seed X S rand seed pw = Ok e \<and> s_to_json S e = Some t \<and> wallet_on p' t \<and> wallet_dir p' = wallet_dir p \<and>
    db_init_status (fst (on_disk p' (wallet_dir p))) =
      Some (if phrase \<noteq> None then InitNeedsScanning else InitNoScanning)"
proof -
  let ?d = "wallet_dir p"
  from assms obtain seed fs w p1 where seed: "init_file X S draw rand ?d n phrase pw False (pr_fs p) = (Ok seed, fs)"
    and w: "open_backend X ?d (p\<lparr>pr_fs := fs\<rparr>) = (Ok w, p1)"
    and p': "p' = keep_on_disk ?d (w\<lparr>w_db := (w_db w)\<lparr>db_init_status :=
      Some (if phrase \<noteq> None then InitNeedsScanning else InitNoScanning)\<rparr>\<rparr>) p1"
    by (auto simp: create_wallet_def sbind_simps sbind_eq_Ok with_files_Ok comp_eq_Ok relabelled_Ok
        save_init_status_def with_batch_no_mask_def run_batch_def smodify_def split: if_splits)
  from seed obtain fs0 e t where dir: "create_dir_all ?d (pr_fs p) = (Ok (), fs0)"
    and s: "(case phrase of Some w \<Rightarrow> s_to_entropy S w = Some seed | None \<Rightarrow> seed = draw n)"
      "encrypt_seed X S rand seed pw = Ok e" "s_to_json S e = Some t"
    and wrote: "write_text (seed_path ?d) t fs0 = (Ok (), fs)"
    by (auto simp: init_file_def write_seed_def res_simps from_mnemonic_def init_new_def split: if_splits option.splits)
  have texts: "file_text fs = (file_text (pr_fs p))(seed_path ?d := Some t)"
    using wrote create_dir_all_Ok(1) [OF dir] by (auto simp: write_text_def file_simps fun_eq_iff split: if_splits)
  have "unblocked ?d (pr_fs p)" using dir create_dir_all_iff by blast
  then have "unblocked ?d fs" by (intro unblocked_write [OF _ texts]) simp_all
  obtain fs1 fs2 where c: "create_dir_all (path_push ?d DB_DIR) fs = (Ok (), fs1)"
    "create_dir_all (path_push ?d TX_SAVE_DIR) fs1 = (Ok (), fs2)" and p1: "p1 = p\<lparr>pr_fs := fs2\<rparr>"
    using w by (auto simp: open_backend_def sbind_eq_Ok with_files_Ok comp_eq_Ok or_io_Ok split_beta)
  note same = create_dir_all_Ok(1) [OF c(1)] create_dir_all_Ok(1) [OF c(2)]
  have "unblocked (path_push ?d DB_DIR) fs" "unblocked (path_push ?d TX_SAVE_DIR) fs1"
    using c create_dir_all_iff by blast+
  moreover have fs': "pr_fs p' = fs2" "wallet_dir p' = ?d"
    by (auto simp: p' p1 keep_on_disk_def wallet_dir_def split: option.splits)
  ultimately have "wallet_on p' t"
    using \<open>unblocked ?d fs\<close> texts assms(2) same unblocked_text [OF same(1)] unblocked_text [OF same(2)]
    by (simp add: wallet_on_def Let_def)
  moreover have "db_init_status (fst (on_disk p' ?d)) = Some (if phrase \<noteq> None then InitNeedsScanning else InitNoScanning)"
    by (auto simp: p' keep_on_disk_def on_disk_def split: option.splits)
  ultimately show ?thesis using s fs'(2) by blast
qed

text \<open>C26: a wallet that was created, from a phrase or with a new seed, is opened with
  its password and then has the keychain of that seed behind the mask that is returned, and is
  marked for a scan exactly when it came from a phrase. With a password that gives another key it
  is not opened and the caller learns that the password may be wrong.\<close>

theorem created_wallet_opens:
  assumes "seed_lib_ok X S" "length nonce = 12"
    and "create_wallet X S draw (salt, nonce) phrase n pw False p = (Ok (), p1)" "fmt_path (wallet_dir p) = wallet_dir p"
    and "case phrase of Some w \<Rightarrow> s_to_entropy S w = Some seed | None \<Rightarrow> seed = draw n"
  shows "(\<forall>k sum k'. s_keychain S seed tn = Some k \<and> root_checksum X k = Ok sum \<and>
        (case kmask of None \<Rightarrow> k' = k | Some m \<Rightarrow> x_mask_key X k m = Ok k' \<and> x_mask_key X k' m = Ok k) \<longrightarrow>
      (\<exists>p2 w. open_wallet X S tn pw kmask p1 = (Ok kmask, p2) \<and> pr_backend p2 = Some (wallet_dir p, w) \<and>
        wallet_keychain X kmask w = Ok k \<and>
        db_init_status (w_db w) = Some (if phrase \<noteq> None then InitNeedsScanning else InitNoScanning))) \<and>
    (\<forall>pw'. s_pbkdf2 S salt (utf8 pw') \<noteq> s_pbkdf2 S salt (utf8 pw) \<longrightarrow>
      (\<exists>p2. open_wallet X S tn pw' kmask p1 = (Err (lifecycle ''Error opening wallet (is password correct?)''), p2)))"
proof -
  obtain seed0 e t where s: "case phrase of Some w \<Rightarrow> s_to_entropy S w = Some seed0 | None \<Rightarrow> seed0 = draw n"
    "encrypt_seed X S (salt, nonce) seed0 pw = Ok e" "s_to_json S e = Some t" "wallet_on p1 t" "wallet_dir p1 = wallet_dir p"
    "db_init_status (fst (on_disk p1 (wallet_dir p))) = Some (if phrase \<noteq> None then InitNeedsScanning else InitNoScanning)"
    using create_wallet_Ok [OF assms(3,4)] by blast
  have "seed0 = seed" using s(1) assms(5) by (cases phrase) simp_all
  note decrypt = decrypt_encrypt [OF assms(1,2) s(2), unfolded this]
  have json: "s_of_json S t = Some e" using assms(1) s(3) by (simp add: seed_lib_ok_def)
  show ?thesis
  proof (intro conjI allI impI)
    fix k sum k'
    assume k: "s_keychain S seed tn = Some k \<and> root_checksum X k = Ok sum \<and>
      (case kmask of None \<Rightarrow> k' = k | Some m \<Rightarrow> x_mask_key X k m = Ok k' \<and> x_mask_key X k' m = Ok k)"
    then have "(case kmask of None \<Rightarrow> Ok k | Some m \<Rightarrow> x_mask_key X k m) = Ok k'" by (cases kmask) simp_all
    with k open_wallet_run [OF s(4) json, where X = X and pw = pw and tn = tn and kmask = kmask] obtain p2 w where
      w: "open_wallet X S tn pw kmask p1 = (Ok kmask, p2)" "pr_backend p2 = Some (wallet_dir p, w)"
        "w_keychain w = Some k'" "w_master_checksum w = Some sum"
        "db_init_status (w_db w) = db_init_status (fst (on_disk p1 (wallet_dir p)))"
      by (auto simp: decrypt s(5))
    moreover have "wallet_keychain X kmask w = Ok k"
      using w(3,4) k by (cases kmask) (simp_all add: wallet_keychain_Ok)
    ultimately show "\<exists>p2 w. open_wallet X S tn pw kmask p1 = (Ok kmask, p2) \<and> pr_backend p2 = Some (wallet_dir p, w) \<and>
        wallet_keychain X kmask w = Ok k \<and>
        db_init_status (w_db w) = Some (if phrase \<noteq> None then InitNeedsScanning else InitNoScanning)"
      using s(6) by auto
  next
    fix pw'
    assume "s_pbkdf2 S salt (utf8 pw') \<noteq> s_pbkdf2 S salt (utf8 pw)"
    then show "\<exists>p2. open_wallet X S tn pw' kmask p1 = (Err (lifecycle ''Error opening wallet (is password correct?)''), p2)"
      using open_wallet_run [OF s(4) json, where X = X and pw = pw' and tn = tn and kmask = kmask] by (auto simp: decrypt)
  qed
qed

section \<open>A sample of the libraries\<close>

definition sample_seed_ext :: seed_ext where
  "sample_seed_ext = \<lparr>
     s_to_entropy = (\<lambda>w. if w = [] then None else Some (map of_char w)),
     s_from_entropy = (\<lambda>b. if b = [] then None else Some (map (\<lambda>x. char_of (unat x)) b)),
     s_pbkdf2 = (\<lambda>salt pw. pad 16 pw),
     s_seal = (\<lambda>k n b. if length k = 16 then Some (b @ k) else None),
     s_open = (\<lambda>k n c. if length k = 16 \<and> drop (length c - 16) c = k then Some (take (length c - 16) c) else None),
     s_to_json = (\<lambda>e. if length (es_salt e) = 8 \<and> length (es_nonce e) = 12
       then Some (es_salt e @ es_nonce e @ es_encrypted_seed e) else None),
     s_of_json = (\<lambda>t. Some \<lparr>es_encrypted_seed = drop 20 t, es_salt = take 8 t, es_nonce = take 12 (drop 8 t)\<rparr>),
     s_keychain = (\<lambda>b t. Some (pad 32 b))\<rparr>"

lemma sample_seed_lib_ok: "seed_lib_ok sample_ext sample_seed_ext"
  by (auto simp: seed_lib_ok_def sample_ext_def sample_seed_ext_def comp_def char_of_unat split: if_splits)

definition no_wallet :: provider where
  "no_wallet = provider_new \<lparr>fs_files = [], fs_dirs = []\<rparr> (\<lambda>_. (db_empty, \<lambda>_. None))"

definition new_wallet :: "unit result \<times> provider" where
  "new_wallet = create_wallet sample_ext sample_seed_ext (\<lambda>n. replicate n 5) (replicate 8 1, replicate 12 2)
     (Some ''word'') 32 ''secret'' False no_wallet"

lemma new_wallet_eval: "is_Ok (fst new_wallet)" "is_Ok (root_checksum sample_ext (pad 32 (map of_char ''word'')))"
  by (code_simp, code_simp)

theorem created_wallet_opens_witness:
  "\<exists>p2 w. open_wallet sample_ext sample_seed_ext True ''secret'' None (snd new_wallet) = (Ok None, p2) \<and>
    pr_backend p2 = Some (wallet_dir no_wallet, w) \<and> wallet_keychain sample_ext None w = Ok (pad 32 (map of_char ''word'')) \<and>
    db_init_status (w_db w) = Some InitNeedsScanning"
proof -
  obtain p1 where p1: "new_wallet = (Ok (), p1)"
    using new_wallet_eval(1) by (metis is_Ok_ex old.unit.exhaust prod.collapse)
  have dir: "fmt_path (wallet_dir no_wallet) = wallet_dir no_wallet" by code_simp
  have seed: "case Some ''word'' of Some w \<Rightarrow> s_to_entropy sample_seed_ext w = Some (map of_char ''word'')
      | None \<Rightarrow> map of_char ''word'' = replicate 32 5"
    by (simp add: sample_seed_ext_def)
  obtain sum where sum: "root_checksum sample_ext (pad 32 (map of_char ''word'')) = Ok sum"
    using new_wallet_eval(2) by (auto simp: is_Ok_ex)
  have "s_keychain sample_seed_ext (map of_char ''word'') True = Some (pad 32 (map of_char ''word''))"
    by (simp add: sample_seed_ext_def)
  then show ?thesis
    unfolding p1 snd_conv
    using conjunct1 [OF created_wallet_opens [OF sample_seed_lib_ok _ p1 [unfolded new_wallet_def] dir seed,
        where tn = True and kmask = None], THEN spec, THEN spec, THEN spec, THEN mp,
        of "pad 32 (map of_char ''word'')" sum "pad 32 (map of_char ''word'')"] sum
    by simp
qed

lemma wallet_on_new:
  obtains p1 t where "new_wallet = (Ok (), p1)" "wallet_on p1 t" "wallet_dir p1 = wallet_dir no_wallet"
proof -
  obtain p1 where p1: "new_wallet = (Ok (), p1)"
    using new_wallet_eval(1) by (metis is_Ok_ex old.unit.exhaust prod.collapse)
  have "fmt_path (wallet_dir no_wallet) = wallet_dir no_wallet" by code_simp
  from create_wallet_Ok [OF p1 [unfolded new_wallet_def] this] show ?thesis
    using that [OF p1] by blast
qed

theorem password_change_keeps_the_seed_witness:
  "\<exists>t t' seed. holds sample_ext sample_seed_ext t ''secret'' seed \<and> holds sample_ext sample_seed_ext t' ''new'' seed \<and>
    file_text (pr_fs (snd new_wallet)) (seed_path (wallet_dir no_wallet)) = Some t \<and>
    file_text (pr_fs (snd (change_password sample_ext sample_seed_ext (\<lambda>n. replicate n 5) (replicate 8 3, replicate 12 4)
      ''secret'' ''new'' (snd new_wallet)))) (seed_path (wallet_dir no_wallet)) = Some t'"
proof -
  obtain p1 t where p1: "new_wallet = (Ok (), p1)" "wallet_on p1 t" "wallet_dir p1 = wallet_dir no_wallet"
    by (rule wallet_on_new)
  have on: "fmt_path (wallet_dir p1) = wallet_dir p1" "file_text (pr_fs p1) (seed_path (wallet_dir p1)) = Some t"
    using p1(2) by (simp_all add: wallet_on_def Let_def)
  have "fst (change_password sample_ext sample_seed_ext (\<lambda>n. replicate n 5) (replicate 8 3, replicate 12 4)
      ''secret'' ''new'' (snd new_wallet)) = Ok ()"
    by code_simp
  then obtain p2 where p2: "change_password sample_ext sample_seed_ext (\<lambda>n. replicate n 5) (replicate 8 3, replicate 12 4)
      ''secret'' ''new'' p1 = (Ok (), p2)"
    by (metis p1(1) prod.collapse snd_conv)
  show ?thesis
    using password_change_keeps_the_seed [OF p2 on] on(2) p1(3) unfolding p1(1) snd_conv p2 by auto
qed

theorem wrong_phrase_moves_the_seed_witness:
  "\<exists>p' t b. recover_from_mnemonic sample_ext sample_seed_ext (replicate 8 3, replicate 12 4) '''' ''new'' (snd new_wallet) =
      (Err (lifecycle ''Error recovering from mnemonic''), p') \<and> \<not> wallet_exists p' \<and> file_text (pr_fs p') b = Some t"
proof -
  obtain p1 t where p1: "new_wallet = (Ok (), p1)" "wallet_on p1 t" "wallet_dir p1 = wallet_dir no_wallet"
    by (rule wallet_on_new)
  have on: "fmt_path (wallet_dir p1) = wallet_dir p1" "file_text (pr_fs p1) (seed_path (wallet_dir p1)) = Some t"
    using p1(2) by (simp_all add: wallet_on_def Let_def)
  have "wallet_dir no_wallet \<in> set (fs_dirs (pr_fs (snd new_wallet)))"
    "seed_path (wallet_dir no_wallet) \<notin> set (fs_dirs (pr_fs (snd new_wallet)))"
    by (code_simp, code_simp)
  then have dirs: "wallet_dir p1 \<in> set (fs_dirs (pr_fs p1))" "seed_path (wallet_dir p1) \<notin> set (fs_dirs (pr_fs p1))"
    by (simp_all add: p1(1,3))
  have "s_to_entropy sample_seed_ext '''' = None" by (simp add: sample_seed_ext_def)
  from wrong_phrase_moves_the_seed [OF this on dirs, where X = sample_ext and rand = "(replicate 8 3, replicate 12 4)" and pw = "''new''"]
  show ?thesis unfolding p1(1) snd_conv by blast
qed

end
