(* ===== verification/Json.thy ===== *)
theory Json
  imports Prelude
begin

text \<open>
  JSON values as \<open>serde_json::Value\<close> has them (numbers are whole), and the JSON-RPC messages the
  wallet sends to its node (\<open>impls/src/client_utils/json_rpc.rs\<close>).
\<close>

datatype json =
    JNull
  | JBool bool
  | JNum int
  | JStr string
  | JArr "json list"
  | JObj "(string \<times> json) list"

text \<open>\<open>value["key"]\<close>: what is not an object, or has no such field, gives null.\<close>

fun jindex :: "json \<Rightarrow> string \<Rightarrow> json" where
  "jindex (JObj fs) k = (case map_of fs k of Some v \<Rightarrow> v | None \<Rightarrow> JNull)"
| "jindex _ k = JNull"

fun as_str :: "json \<Rightarrow> string option" where
  "as_str (JStr s) = Some s"
| "as_str _ = None"

fun is_object :: "json \<Rightarrow> bool" where
  "is_object (JObj _) = True"
| "is_object _ = False"

lemma jindex_simps [simp]:
  "jindex (JObj ((k, v) # fs)) k = v"
  "k \<noteq> l \<Longrightarrow> jindex (JObj ((l, v) # fs)) k = jindex (JObj fs) k"
  by simp_all

definition opt_num :: "u64 option \<Rightarrow> json" where
  "opt_num n = (case n of Some w \<Rightarrow> JNum (uint w) | None \<Rightarrow> JNull)"

text \<open>\<open>str::contains\<close>\<close>

fun str_contains :: "string \<Rightarrow> string \<Rightarrow> bool" where
  "str_contains [] p = (p = [])"
| "str_contains (c # cs) p = (take (length p) (c # cs) = p \<or> str_contains cs p)"

lemma not_contains: "p \<noteq> [] \<Longrightarrow> hd p \<notin> set s \<Longrightarrow> \<not> str_contains s p"
  by (induction s p rule: str_contains.induct) (auto simp: neq_Nil_conv)

text \<open>
  \<open>str::parse::<usize>\<close>: an optional plus sign and at least one digit, the number below the
  bound of the machine word.
\<close>

definition digit_of :: "char \<Rightarrow> nat option" where
  "digit_of c = (let n = of_char c :: nat in if 48 \<le> n \<and> n \<le> 57 then Some (n - 48) else None)"

fun parse_digits :: "nat \<Rightarrow> string \<Rightarrow> nat option" where
  "parse_digits acc [] = Some acc"
| "parse_digits acc (c # cs) = (case digit_of c of
     None \<Rightarrow> None
   | Some d \<Rightarrow> if acc * 10 + d < 2 ^ 64 then parse_digits (acc * 10 + d) cs else None)"

definition parse_usize :: "string \<Rightarrow> nat option" where
  "parse_usize s = (let t = (if s \<noteq> [] \<and> hd s = CHR ''+'' then tl s else s) in
     if t = [] then None else parse_digits 0 t)"

section \<open>Requests and responses\<close>

text \<open>A request, in the form it is sent\<close>

definition build_request :: "string \<Rightarrow> json \<Rightarrow> json" where
  "build_request name params =
     JObj [(''method'', JStr name), (''params'', params), (''id'', JNum 1), (''jsonrpc'', JStr ''2.0'')]"

record rpc_error =
  re_code :: "32 word"
  re_message :: string
  re_data :: "json option"

record rpc_response =
  rs_result :: "json option"
  rs_error :: "rpc_error option"
  rs_id :: json
  rs_jsonrpc :: "string option"

datatype rpc_fault =
    Fault_Json string
  | Fault_Rpc rpc_error

text \<open>
  The result of a response, read by \<open>dec\<close>: an error of the protocol comes first, then the field
  \<open>Ok\<close> of the result. The type a result is read as is the argument \<open>dec\<close>.
\<close>

definition response_result :: "(json \<Rightarrow> (string, 'a) res) \<Rightarrow> rpc_response \<Rightarrow> (rpc_fault, 'a) res" where
  "response_result dec r = (case rs_error r of
     Some e \<Rightarrow> Err (Fault_Rpc e)
   | None \<Rightarrow>
      (case dec (case rs_result r of Some v \<Rightarrow> jindex v ''Ok'' | None \<Rightarrow> JNull) of
         Ok a \<Rightarrow> Ok a | Err m \<Rightarrow> Err (Fault_Json m) | Panic \<Rightarrow> Panic))"

definition into_result :: "(json \<Rightarrow> (string, 'a) res) \<Rightarrow> rpc_response \<Rightarrow> (rpc_fault, 'a) res" where
  "into_result dec r = (case rs_error r of Some e \<Rightarrow> Err (Fault_Rpc e) | None \<Rightarrow> response_result dec r)"

lemma into_result_eq: "into_result dec r = response_result dec r"
  by (simp add: into_result_def response_result_def split: option.splits)

text \<open>A response that carries a result\<close>

definition ok_response :: "json \<Rightarrow> rpc_response" where
  "ok_response v = \<lparr>rs_result = Some (JObj [(''Ok'', v)]), rs_error = None, rs_id = JNum 1, rs_jsonrpc = Some ''2.0''\<rparr>"

lemma into_result_ok: "into_result dec (ok_response v) = (case dec v of
    Ok a \<Rightarrow> Ok a | Err m \<Rightarrow> Err (Fault_Json m) | Panic \<Rightarrow> Panic)"
  by (simp add: into_result_eq response_result_def ok_response_def)

end
