(* ===== verification/Http.thy ===== *)
theory Http
  imports Json External Errors Loops
begin

text \<open>
  The client of the node's JSON-RPC interface (\<open>impls/src/node_clients/http.rs\<close> over
  \<open>impls/src/client_utils/client.rs\<close>): what the wallet's \<open>node\<close> is in the running program. The
  transport, the reading of JSON and the printed forms of errors are parameters.
\<close>

section \<open>The HTTP client\<close>

datatype client_error =
    CE_Internal string
  | CE_Argument string
  | CE_NotFound
  | CE_RequestError string
  | CE_ResponseError string

fun show_client_error :: "client_error \<Rightarrow> string" where
  "show_client_error (CE_Internal s) = ''Internal error: '' @ s"
| "show_client_error (CE_Argument s) = ''Bad arguments: '' @ s"
| "show_client_error CE_NotFound = ''Not found.''"
| "show_client_error (CE_RequestError s) = ''Request error: '' @ s"
| "show_client_error (CE_ResponseError s) = ''ResponseError error: '' @ s"

text \<open>What the node says of an output, and a page of outputs (types of \<open>grin_api\<close>)\<close>

datatype output_type = OT_Coinbase | OT_Transaction

record output_printable =
  op_output_type :: output_type
  op_commit :: commitment
  op_spent :: bool
  op_proof :: "(string, range_proof) res"
  op_block_height :: "u64 option"
  op_mmr_index :: u64

record output_listing =
  ol_highest_index :: u64
  ol_last_retrieved_index :: u64
  ol_outputs :: "output_printable list"

record tip_resp =
  gt_height :: u64
  gt_last_block_pushed :: string
  gt_prev_block_to_last :: string
  gt_total_difficulty :: u64

record version_resp =
  gv_node_version :: string
  gv_block_header_version :: u16

record node_version_info =
  nv_node_version :: string
  nv_block_header_version :: u16
  nv_verified :: "bool option"

text \<open>
  The parameters: \<open>h_send\<close> posts a body to a URL with an authorisation header and gives the
  status and the text of the answer, or the reason there is none; \<open>h_arrive\<close> is the order in
  which the answers of a group of simultaneous requests come in.
\<close>

record http_ext =
  h_send :: "string \<Rightarrow> string option \<Rightarrow> json \<Rightarrow> (client_error, nat \<times> string) res"
  h_arrive :: "nat \<Rightarrow> (client_error, rpc_response) res list \<Rightarrow> (client_error, rpc_response) res list"
  h_base64 :: "string \<Rightarrow> string"
  h_parse :: "string \<Rightarrow> rpc_response option"
  h_query_size :: "string option"
  h_to_hex :: "bytes \<Rightarrow> string"
  h_tx_json :: "transaction \<Rightarrow> json"
  h_show_fault :: "rpc_fault \<Rightarrow> string"
  h_show_response :: "rpc_response \<Rightarrow> string"
  h_show_commit :: "commitment \<Rightarrow> string"
  h_show_output :: "output_printable \<Rightarrow> string"
  h_value :: "json \<Rightarrow> (string, json) res"
  h_tip :: "json \<Rightarrow> (string, tip_resp) res"
  h_version :: "json \<Rightarrow> (string, version_resp) res"
  h_kernel :: "json \<Rightarrow> (string, tx_kernel \<times> u64 \<times> u64) res"
  h_outputs :: "json \<Rightarrow> (string, output_printable list) res"
  h_listing :: "json \<Rightarrow> (string, output_listing) res"

definition auth_header :: "http_ext \<Rightarrow> string option \<Rightarrow> string option" where
  "auth_header H api_secret = map_option (\<lambda>s. ''Basic '' @ h_base64 H (''grin:'' @ s)) api_secret"

text \<open>The status of the answer is not looked at.\<close>

definition send_request ::
  "http_ext \<Rightarrow> string \<Rightarrow> string option \<Rightarrow> json \<Rightarrow> (client_error, string) res" where
  "send_request H url api_secret input =
     rbind (h_send H url (auth_header H api_secret) input) (\<lambda>(status, body). Ok body)"

definition client_post ::
  "http_ext \<Rightarrow> string \<Rightarrow> string option \<Rightarrow> json \<Rightarrow> (client_error, rpc_response) res" where
  "client_post H url api_secret input =
     rbind (send_request H url api_secret input) (\<lambda>data.
       ok_or (CE_ResponseError ''Cannot parse response'') (h_parse H data))"

section \<open>The node client\<close>

definition ENDPOINT :: string where
  "ENDPOINT = ''/v2/foreign''"

record http_client =
  hc_node_url :: string
  hc_node_api_secret :: "string option"
  hc_node_version_info :: "node_version_info option"

definition http_client_new :: "string \<Rightarrow> string option \<Rightarrow> http_client" where
  "http_client_new node_url node_api_secret =
     \<lparr>hc_node_url = node_url, hc_node_api_secret = node_api_secret, hc_node_version_info = None\<rparr>"

definition set_node_url :: "string \<Rightarrow> http_client \<Rightarrow> http_client" where
  "set_node_url url c = c\<lparr>hc_node_url := url\<rparr>"

definition set_node_api_secret :: "string option \<Rightarrow> http_client \<Rightarrow> http_client" where
  "set_node_api_secret secret c = c\<lparr>hc_node_api_secret := secret\<rparr>"

definition callback :: "string \<Rightarrow> error" where
  "callback report = Com (ClientCallback report)"

definition post_node :: "http_ext \<Rightarrow> http_client \<Rightarrow> string \<Rightarrow> json \<Rightarrow> (client_error, rpc_response) res" where
  "post_node H c m params =
     client_post H (hc_node_url c @ ENDPOINT) (hc_node_api_secret c) (build_request m params)"

definition send_json_request ::
  "http_ext \<Rightarrow> (json \<Rightarrow> (string, 'a) res) \<Rightarrow> http_client \<Rightarrow> string \<Rightarrow> json \<Rightarrow> 'a result" where
  "send_json_request H dec c m params = (case post_node H c m params of
     Err e \<Rightarrow> Err (callback (''Error calling '' @ m @ '': '' @ show_client_error e))
   | Panic \<Rightarrow> Panic
   | Ok inner \<Rightarrow> (case into_result dec inner of
        Ok r \<Rightarrow> Ok r
      | Panic \<Rightarrow> Panic
      | Err e \<Rightarrow> Err (callback (''Unable to parse response for '' @ m @ '': '' @ h_show_fault H e))))"

definition http_post_tx :: "http_ext \<Rightarrow> http_client \<Rightarrow> transaction \<Rightarrow> bool \<Rightarrow> unit result" where
  "http_post_tx H c tx fluff =
     rbind (send_json_request H (h_value H) c ''push_transaction'' (JArr [h_tx_json H tx, JBool fluff])) (\<lambda>_. Ok ())"

text \<open>The text of an error of the client interface, as the library prints it\<close>

definition show_callback :: "string \<Rightarrow> string" where
  "show_callback report = ''Client Callback Error: '' @ report"

definition get_version_info ::
  "http_ext \<Rightarrow> http_client \<Rightarrow> node_version_info option result \<times> http_client" where
  "get_version_info H c = (case hc_node_version_info c of
     Some v \<Rightarrow> (Ok (Some v), c)
   | None \<Rightarrow> (case send_json_request H (h_version H) c ''get_version'' JNull of
       Ok n \<Rightarrow> (let retval = \<lparr>nv_node_version = gv_node_version n,
                  nv_block_header_version = gv_block_header_version n, nv_verified = Some True\<rparr>
               in (Ok (Some retval), c\<lparr>hc_node_version_info := Some retval\<rparr>))
     | Err e \<Rightarrow>
         (case e of
            Com (ClientCallback report) \<Rightarrow>
              if str_contains (show_callback report) ''404''
              then (Ok (Some \<lparr>nv_node_version = ''1.0.0'', nv_block_header_version = 1, nv_verified = Some False\<rparr>), c)
              else (Ok None, c)
          | _ \<Rightarrow> (Ok None, c))
     | Panic \<Rightarrow> (Panic, c)))"

definition get_chain_tip :: "http_ext \<Rightarrow> http_client \<Rightarrow> (u64 \<times> string) result" where
  "get_chain_tip H c =
     rbind (send_json_request H (h_tip H) c ''get_tip'' JNull) (\<lambda>r. Ok (gt_height r, gt_last_block_pushed r))"

definition get_kernel ::
  "http_ext \<Rightarrow> http_client \<Rightarrow> commitment \<Rightarrow> u64 option \<Rightarrow> u64 option \<Rightarrow> (tx_kernel \<times> u64 \<times> u64) option result" where
  "get_kernel H c excess min_height max_height =
     (case post_node H c ''get_kernel'' (JArr [JStr (h_to_hex H excess), opt_num min_height, opt_num max_height]) of
        Err e \<Rightarrow> Err (callback (''Error calling get_kernel: '' @ show_client_error e))
      | Panic \<Rightarrow> Panic
      | Ok inner \<Rightarrow> (case into_result (h_kernel H) inner of
           Ok r \<Rightarrow> Ok (Some r)
         | Panic \<Rightarrow> Panic
         | Err e \<Rightarrow>
             if str_contains (h_show_response H inner) ''NotFound'' then Ok None
             else Err (callback (''Unable to parse response for get_kernel: '' @ h_show_fault H e))))"

section \<open>Many outputs at once\<close>

definition CHUNK_DEFAULT :: nat where
  "CHUNK_DEFAULT = 500"

definition chunk_size :: "http_ext \<Rightarrow> nat" where
  "chunk_size H = (case h_query_size H of
     Some s \<Rightarrow> (case parse_usize s of Some c \<Rightarrow> c | None \<Rightarrow> CHUNK_DEFAULT)
   | None \<Rightarrow> CHUNK_DEFAULT)"

definition MAX_NUM_REQUESTS :: nat where
  "MAX_NUM_REQUESTS = 16"

text \<open>
  The groups of requests one after the other; the answers of a group are taken in the order in
  which they arrive, and the first failure among them ends the whole.
\<close>

fun gather ::
  "http_ext \<Rightarrow> http_client \<Rightarrow> nat \<Rightarrow> json list list \<Rightarrow> (client_error, rpc_response list) res" where
  "gather H c i [] = Ok []"
| "gather H c i (g # gs) =
     rbind (rmap (\<lambda>r. r) (h_arrive H i (map (post_node H c ''get_outputs'') g))) (\<lambda>rs.
     rbind (gather H c (i + 1) gs) (\<lambda>rest. Ok (rs @ rest)))"

definition outputs_params :: "string list \<Rightarrow> json" where
  "outputs_params cs = JArr [JArr (map JStr cs), JNull, JNull, JBool False, JBool False]"

definition note_output ::
  "http_ext \<Rightarrow> output_printable \<Rightarrow> (commitment \<times> string \<times> u64 \<times> u64) list \<Rightarrow> (commitment \<times> string \<times> u64 \<times> u64) list result" where
  "note_output H out api_outputs = (case op_block_height out of
     Some height \<Rightarrow> Ok ((op_commit out, h_to_hex H (op_commit out), height, op_mmr_index out) # api_outputs)
   | None \<Rightarrow> Err (callback (''Missing block height for output '' @ h_show_commit H (op_commit out))))"

primrec note_outputs ::
  "http_ext \<Rightarrow> output_printable list \<Rightarrow> (commitment \<times> string \<times> u64 \<times> u64) list \<Rightarrow> (commitment \<times> string \<times> u64 \<times> u64) list result" where
  "note_outputs H [] m = Ok m"
| "note_outputs H (out # outs) m = rbind (note_output H out m) (note_outputs H outs)"

definition get_outputs_from_node ::
  "http_ext \<Rightarrow> http_client \<Rightarrow> commitment list \<Rightarrow> (commitment \<times> string \<times> u64 \<times> u64) list result" where
  "get_outputs_from_node H c wallet_outputs =
     (if wallet_outputs = [] then Ok []
      else if chunk_size H = 0 then Panic
      else (case gather H c 0 (chunks MAX_NUM_REQUESTS
                (map outputs_params (chunks (chunk_size H) (map (h_to_hex H) wallet_outputs)))) of
          Err e \<Rightarrow> Err (callback (''Getting outputs by id: '' @ show_client_error e))
        | Panic \<Rightarrow> Panic
        | Ok resps \<Rightarrow>
            (case rmap (into_result (h_outputs H)) resps of
               Err e \<Rightarrow> Err (callback (''Unable to parse response for get_outputs: '' @ h_show_fault H e))
             | Panic \<Rightarrow> Panic
             | Ok results \<Rightarrow> note_outputs H (concat results) [])))"

definition chain_output_of :: "http_ext \<Rightarrow> output_printable \<Rightarrow> chain_output result" where
  "chain_output_of H out = (case op_proof out of
     Err e \<Rightarrow> Err (callback (''Unexpected error in returned output (missing range proof): '' @
        h_show_commit H (op_commit out) @ ''. '' @ h_show_output H out @ '', '' @ e))
   | Panic \<Rightarrow> Panic
   | Ok range_proof \<Rightarrow> (case op_block_height out of
       None \<Rightarrow> Err (callback (''Unexpected error in returned output (missing block height): '' @
          h_show_commit H (op_commit out) @ ''. '' @ h_show_output H out))
     | Some block_height \<Rightarrow> Ok \<lparr>co_commit = op_commit out, co_proof = range_proof,
          co_is_coinbase = (case op_output_type out of OT_Coinbase \<Rightarrow> True | OT_Transaction \<Rightarrow> False), co_height = block_height,
          co_mmr_index = op_mmr_index out\<rparr>))"

definition get_outputs_by_pmmr_index ::
  "http_ext \<Rightarrow> http_client \<Rightarrow> u64 \<Rightarrow> u64 option \<Rightarrow> u64 \<Rightarrow> (u64 \<times> u64 \<times> chain_output list) result" where
  "get_outputs_by_pmmr_index H c start_index end_index max_outputs =
     rbind (send_json_request H (h_listing H) c ''get_unspent_outputs''
        (JArr [JNum (uint start_index), opt_num end_index, JNum (uint max_outputs), JBool True])) (\<lambda>r.
     rbind (rmap (chain_output_of H) (filter (\<lambda>out. \<not> op_spent out) (ol_outputs r))) (\<lambda>api_outputs.
       Ok (ol_highest_index r, ol_last_retrieved_index r, api_outputs)))"

definition height_range_to_pmmr_indices ::
  "http_ext \<Rightarrow> http_client \<Rightarrow> u64 \<Rightarrow> u64 option \<Rightarrow> (u64 \<times> u64) result" where
  "height_range_to_pmmr_indices H c start_height end_height =
     rbind (send_json_request H (h_listing H) c ''get_pmmr_indices''
        (JArr [JNum (uint start_height), opt_num end_height])) (\<lambda>r.
       Ok (ol_last_retrieved_index r, ol_highest_index r))"

text \<open>The client as the wallet's node\<close>

definition http_node :: "http_ext \<Rightarrow> http_client \<Rightarrow> node" where
  "http_node H c = \<lparr>
     n_chain_tip = get_chain_tip H c,
     n_version = (case fst (get_version_info H c) of Ok (Some v) \<Rightarrow> Some (nv_block_header_version v) | _ \<Rightarrow> None),
     n_outputs = get_outputs_from_node H c,
     n_kernel = get_kernel H c,
     n_outputs_by_pmmr_index = get_outputs_by_pmmr_index H c,
     n_height_range_to_pmmr_indices = height_range_to_pmmr_indices H c,
     n_post_tx = http_post_tx H c\<rparr>"

end
