(* ===== verification/Http_Props.thy ===== *)
theory Http_Props
  imports Http Updater_Props
begin

text \<open>
  The HTTP client refines the view of one state of the chain that the wallet's operations have of
  their node: however outputs are cut into requests and in whatever order the answers come, they
  give the same map of outputs, and an update through the client is the update with that view.
\<close>

section \<open>The state of the chain, and a server that shows it\<close>

record chain_state =
  ch_tip :: "u64 \<times> string"
  ch_version :: u16
  ch_output :: "commitment \<Rightarrow> (u64 \<times> u64) option"
  ch_kernel :: "commitment \<Rightarrow> u64 option \<Rightarrow> u64 option \<Rightarrow> (tx_kernel \<times> u64 \<times> u64) option"
  ch_page :: "u64 \<Rightarrow> u64 option \<Rightarrow> u64 \<Rightarrow> u64 \<times> u64 \<times> chain_output list"
  ch_indices :: "u64 \<Rightarrow> u64 option \<Rightarrow> u64 \<times> u64"
  ch_accepts :: "transaction \<Rightarrow> bool \<Rightarrow> unit result"

definition chain_outputs ::
  "(bytes \<Rightarrow> string) \<Rightarrow> chain_state \<Rightarrow> commitment list \<Rightarrow> (commitment \<times> string \<times> u64 \<times> u64) list" where
  "chain_outputs hex K cs = List.map_filter (\<lambda>x. map_option (\<lambda>(h, i). (x, hex x, h, i)) (ch_output K x)) cs"

definition chain_node :: "(bytes \<Rightarrow> string) \<Rightarrow> chain_state \<Rightarrow> node" where
  "chain_node hex K = \<lparr>
     n_chain_tip = Ok (ch_tip K), n_version = Some (ch_version K),
     n_outputs = (\<lambda>cs. Ok (chain_outputs hex K cs)),
     n_kernel = (\<lambda>e lo hi. Ok (ch_kernel K e lo hi)),
     n_outputs_by_pmmr_index = (\<lambda>s e m. Ok (ch_page K s e m)),
     n_height_range_to_pmmr_indices = (\<lambda>s e. Ok (ch_indices K s e)),
     n_post_tx = ch_accepts K\<rparr>"

definition answers ::
  "http_ext \<Rightarrow> http_client \<Rightarrow> (json \<Rightarrow> (string, 'a) res) \<Rightarrow> string \<Rightarrow> json \<Rightarrow> 'a \<Rightarrow> bool" where
  "answers H c dec m params v \<longleftrightarrow> (\<exists>r. post_node H c m params = Ok r \<and> into_result dec r = Ok v)"

definition shows_outputs :: "chain_state \<Rightarrow> commitment list \<Rightarrow> output_printable list \<Rightarrow> bool" where
  "shows_outputs K cs outs \<longleftrightarrow>
     (\<forall>out \<in> set outs. op_commit out \<in> set cs \<and>
        map_option (\<lambda>h. (h, op_mmr_index out)) (op_block_height out) = ch_output K (op_commit out) \<and>
        op_block_height out \<noteq> None) \<and>
     (\<forall>x \<in> set cs. ch_output K x \<noteq> None \<longrightarrow> x \<in> op_commit ` set outs)"

definition serves_outputs :: "http_ext \<Rightarrow> http_client \<Rightarrow> chain_state \<Rightarrow> bool" where
  "serves_outputs H c K \<longleftrightarrow>
     (\<forall>cs. \<exists>outs. answers H c (h_outputs H) ''get_outputs'' (outputs_params (map (h_to_hex H) cs)) outs \<and>
        shows_outputs K cs outs)"

definition serves_kernels :: "http_ext \<Rightarrow> http_client \<Rightarrow> chain_state \<Rightarrow> bool" where
  "serves_kernels H c K \<longleftrightarrow>
     (\<forall>e lo hi. let params = JArr [JStr (h_to_hex H e), opt_num lo, opt_num hi] in
        case ch_kernel K e lo hi of
          Some k \<Rightarrow> answers H c (h_kernel H) ''get_kernel'' params k
        | None \<Rightarrow> \<exists>r f. post_node H c ''get_kernel'' params = Ok r \<and> into_result (h_kernel H) r = Err f \<and>
                    str_contains (h_show_response H r) ''NotFound'')"

definition serves_pages :: "http_ext \<Rightarrow> http_client \<Rightarrow> chain_state \<Rightarrow> bool" where
  "serves_pages H c K \<longleftrightarrow>
     (\<forall>s e m. \<exists>l outs. answers H c (h_listing H) ''get_unspent_outputs''
          (JArr [JNum (uint s), opt_num e, JNum (uint m), JBool True]) l \<and>
        rmap (chain_output_of H) (filter (\<lambda>out. \<not> op_spent out) (ol_outputs l)) = Ok outs \<and>
        ch_page K s e m = (ol_highest_index l, ol_last_retrieved_index l, outs)) \<and>
     (\<forall>s e. \<exists>l. answers H c (h_listing H) ''get_pmmr_indices'' (JArr [JNum (uint s), opt_num e]) l \<and>
        ch_indices K s e = (ol_last_retrieved_index l, ol_highest_index l))"

definition serves :: "http_ext \<Rightarrow> http_client \<Rightarrow> chain_state \<Rightarrow> bool" where
  "serves H c K \<longleftrightarrow>
     (\<exists>t. answers H c (h_tip H) ''get_tip'' JNull t \<and> ch_tip K = (gt_height t, gt_last_block_pushed t)) \<and>
     (\<exists>v. answers H c (h_version H) ''get_version'' JNull v \<and> ch_version K = gv_block_header_version v) \<and>
     serves_outputs H c K \<and> serves_kernels H c K \<and> serves_pages H c K \<and>
     (\<forall>tx fluff. \<exists>v. ch_accepts K tx fluff = Ok () \<and>
        answers H c (h_value H) ''push_transaction'' (JArr [h_tx_json H tx, JBool fluff]) v)"

text \<open>The answers of a group arrive in some order.\<close>

definition arrives :: "http_ext \<Rightarrow> bool" where
  "arrives H \<longleftrightarrow> (\<forall>i xs. mset (h_arrive H i xs) = mset xs)"

section \<open>Requests for outputs\<close>

lemma answers_send: "answers H c dec m params v \<Longrightarrow> send_json_request H dec c m params = Ok v"
  by (auto simp: answers_def send_json_request_def)

lemma map_chunks: "chunks n (map f xs) = map (map f) (chunks n xs)"
  by (induction n xs rule: chunks.induct) (simp_all add: take_map drop_map)

lemma rmap_all_Ok:
  "(\<And>x. x \<in> set xs \<Longrightarrow> \<exists>y. f x = Ok y \<and> P x y) \<Longrightarrow> \<exists>ys. rmap f xs = Ok ys \<and> list_all2 P xs ys"
proof (induction xs)
  case (Cons x xs)
  obtain y ys where "f x = Ok y" "P x y" "rmap f xs = Ok ys" "list_all2 P xs ys"
    using Cons.IH Cons.prems by fastforce
  then show ?case by auto
qed simp

lemma rmap_id_oks: "(\<forall>x \<in> set xs. is_Ok x) \<Longrightarrow> rmap (\<lambda>r. r) xs = Ok (map the_Ok xs)"
  by (induction xs) (auto simp: is_Ok_ex)

lemma gather_all:
  assumes "arrives H" and "\<forall>g \<in> set gs. \<forall>q \<in> set g. is_Ok (post_node H c ''get_outputs'' q)"
  shows "\<exists>rs. gather H c i gs = Ok rs \<and>
    set rs = (\<lambda>q. the_Ok (post_node H c ''get_outputs'' q)) ` set (concat gs)"
  using assms(2)
proof (induction gs arbitrary: i)
  case (Cons g gs)
  define came where "came = h_arrive H i (map (post_node H c ''get_outputs'') g)"
  have "set_mset (mset came) = set_mset (mset (map (post_node H c ''get_outputs'') g))"
    using assms(1) by (simp add: arrives_def came_def)
  then have perm: "set came = post_node H c ''get_outputs'' ` set g" by simp
  have now: "rmap (\<lambda>r. r) came = Ok (map the_Ok came)"
    using Cons.prems perm by (intro rmap_id_oks) auto
  obtain rs where "gather H c (i + 1) gs = Ok rs"
      "set rs = (\<lambda>q. the_Ok (post_node H c ''get_outputs'' q)) ` set (concat gs)"
    using Cons.IH [of "i + 1"] Cons.prems by auto
  then have "gather H c i (g # gs) = Ok (map the_Ok came @ rs)"
      "set (map the_Ok came @ rs) = (\<lambda>q. the_Ok (post_node H c ''get_outputs'' q)) ` set (concat (g # gs))"
    using now perm by (simp_all add: came_def image_image image_Un)
  then show ?case by blast
qed simp

lemma note_outputs_Ok:
  "(\<forall>out \<in> set outs. op_block_height out \<noteq> None) \<Longrightarrow>
     note_outputs H outs m = Ok (rev (map (\<lambda>out. (op_commit out, h_to_hex H (op_commit out), the (op_block_height out), op_mmr_index out)) outs) @ m)"
  by (induction outs arbitrary: m) (auto simp: note_output_def)

lemma map_of_determined:
  assumes "\<forall>(k, v) \<in> set m. f k = Some v" and "\<forall>k. f k \<noteq> None \<longrightarrow> k \<in> fst ` set m"
  shows "map_of m = f"
proof
  fix k
  show "map_of m k = f k"
  proof (cases "map_of m k")
    case None
    then show ?thesis using assms(2) by (metis map_of_eq_None_iff)
  next
    case (Some v)
    then have "(k, v) \<in> set m" by (rule map_of_SomeD)
    then show ?thesis using assms(1) Some by auto
  qed
qed

lemma map_of_chain_outputs:
  "map_of (chain_outputs hex K cs) =
     (\<lambda>x. if x \<in> set cs then map_option (\<lambda>(h, i). (hex x, h, i)) (ch_output K x) else None)"
  by (rule map_of_determined)
     (auto simp: chain_outputs_def List.map_filter_def image_iff split: if_splits option.splits)

lemma outputs_requests:
  assumes "serves_outputs H c K" "arrives H" "0 < n"
  obtains resps outss where
    "gather H c 0 (chunks k (map outputs_params (chunks n (map (h_to_hex H) cs)))) = Ok resps"
    "rmap (into_result (h_outputs H)) resps = Ok outss" "shows_outputs K cs (concat outss)"
proof -
  let ?P = "outputs_params \<circ> map (h_to_hex H)"
  define post where "post = (\<lambda>piece. the_Ok (post_node H c ''get_outputs'' (?P piece)))"
  obtain outs where outs: "\<And>piece. answers H c (h_outputs H) ''get_outputs'' (?P piece) (outs piece)"
      "\<And>piece. shows_outputs K piece (outs piece)"
    using assms(1) unfolding serves_outputs_def comp_def by metis
  have posted: "post_node H c ''get_outputs'' (?P piece) = Ok (post piece)"
      "into_result (h_outputs H) (post piece) = Ok (outs piece)" for piece
    using outs(1) [of piece] unfolding post_def answers_def by auto
  have params: "map outputs_params (chunks n (map (h_to_hex H) cs)) = map ?P (chunks n cs)"
    by (simp add: map_chunks)
  have in_params: "q \<in> ?P ` set (chunks n cs)" if "g \<in> set (chunks k (map ?P (chunks n cs)))" "q \<in> set g" for g q
  proof -
    have "q \<in> set (concat (chunks k (map ?P (chunks n cs))))" using that by (auto simp only: set_concat)
    then show ?thesis by (simp only: concat_chunks list.set_map)
  qed
  obtain resps where resps: "gather H c 0 (chunks k (map ?P (chunks n cs))) = Ok resps"
      "set resps = (\<lambda>q. the_Ok (post_node H c ''get_outputs'' q)) ` set (map ?P (chunks n cs))"
  proof -
    have "\<forall>g \<in> set (chunks k (map ?P (chunks n cs))). \<forall>q \<in> set g. is_Ok (post_node H c ''get_outputs'' q)"
    proof (intro ballI)
      fix g q assume "g \<in> set (chunks k (map ?P (chunks n cs)))" "q \<in> set g"
      then obtain piece where "q = ?P piece" using in_params by blast
      then show "is_Ok (post_node H c ''get_outputs'' q)" using posted(1) by simp
    qed
    from gather_all [OF assms(2) this, of 0] show ?thesis using that unfolding concat_chunks by blast
  qed
  have res_set: "set resps = post ` set (chunks n cs)"
    using resps(2) posted(1) by (simp add: image_image post_def)
  have each: "\<exists>y. into_result (h_outputs H) r = Ok y \<and> (\<exists>piece \<in> set (chunks n cs). r = post piece \<and> y = outs piece)"
    if "r \<in> set resps" for r
    using that posted(2) unfolding res_set by blast
  obtain outss where outss: "rmap (into_result (h_outputs H)) resps = Ok outss"
      "list_all2 (\<lambda>r y. \<exists>piece \<in> set (chunks n cs). r = post piece \<and> y = outs piece) resps outss"
    using rmap_all_Ok [of resps "into_result (h_outputs H)" "\<lambda>r y. \<exists>piece \<in> set (chunks n cs). r = post piece \<and> y = outs piece"] each
    by blast
  have piece_of: "\<exists>piece \<in> set (chunks n cs). y = outs piece" if "y \<in> set outss" for y
    using that outss(2) by (auto simp: list_all2_conv_all_nth in_set_conv_nth)
  have out_of: "\<exists>y \<in> set outss. \<exists>piece'. post piece' = post piece \<and> y = outs piece'" if "piece \<in> set (chunks n cs)" for piece
    using that res_set outss(2) by (auto simp: list_all2_conv_all_nth in_set_conv_nth) (metis imageI in_set_conv_nth)
  have same: "outs piece' = outs piece" if "post piece' = post piece" for piece piece'
    using posted(2) [of piece] posted(2) [of piece'] that by simp
  have members: "set cs = \<Union> (set ` set (chunks n cs))" by (metis concat_chunks set_concat)
  have "shows_outputs K cs (concat outss)"
    unfolding shows_outputs_def
  proof (intro conjI ballI impI)
    fix out assume "out \<in> set (concat outss)"
    then obtain piece where "piece \<in> set (chunks n cs)" "out \<in> set (outs piece)" using piece_of by auto
    then show "op_commit out \<in> set cs" "op_block_height out \<noteq> None"
        "map_option (\<lambda>h. (h, op_mmr_index out)) (op_block_height out) = ch_output K (op_commit out)"
      using outs(2) [of piece] members unfolding shows_outputs_def by auto
  next
    fix x assume "x \<in> set cs" "ch_output K x \<noteq> None"
    then obtain piece where piece: "piece \<in> set (chunks n cs)" "x \<in> set piece" using members by auto
    then have "x \<in> op_commit ` set (outs piece)"
      using outs(2) [of piece] \<open>ch_output K x \<noteq> None\<close> unfolding shows_outputs_def by auto
    moreover have "outs piece \<in> set outss" using out_of [OF piece(1)] same by metis
    ultimately show "x \<in> op_commit ` set (concat outss)" by auto
  qed
  then show ?thesis using that resps(1) outss(1) params by metis
qed

lemma get_outputs_shown:
  assumes "serves_outputs H c K" "arrives H" "0 < chunk_size H"
  shows "\<exists>m. get_outputs_from_node H c cs = Ok m \<and> map_of m = map_of (chain_outputs (h_to_hex H) K cs)"
proof (cases "cs = []")
  case False
  obtain resps outss where r:
    "gather H c 0 (chunks MAX_NUM_REQUESTS (map outputs_params (chunks (chunk_size H) (map (h_to_hex H) cs)))) = Ok resps"
    "rmap (into_result (h_outputs H)) resps = Ok outss" "shows_outputs K cs (concat outss)"
    by (rule outputs_requests [OF assms])
  let ?m = "rev (map (\<lambda>out. (op_commit out, h_to_hex H (op_commit out), the (op_block_height out), op_mmr_index out)) (concat outss))"
  have noted: "note_outputs H (concat outss) [] = Ok ?m"
    using r(3) note_outputs_Ok [of "concat outss" H "[]"] by (simp add: shows_outputs_def)
  have "map_of ?m = map_of (chain_outputs (h_to_hex H) K cs)"
    unfolding map_of_chain_outputs
  proof (rule map_of_determined)
    show "\<forall>(k, v) \<in> set ?m. (if k \<in> set cs then map_option (\<lambda>(h, i). (h_to_hex H k, h, i)) (ch_output K k) else None) = Some v"
      using r(3) unfolding shows_outputs_def by (fastforce simp flip: option.map_comp)
    show "\<forall>k. (if k \<in> set cs then map_option (\<lambda>(h, i). (h_to_hex H k, h, i)) (ch_output K k) else None) \<noteq> None \<longrightarrow> k \<in> fst ` set ?m"
      using r(3) unfolding shows_outputs_def by (auto simp: image_image split: if_splits) 
  qed
  then show ?thesis using False assms(3) r(1,2) noted by (simp add: get_outputs_from_node_def)
qed (simp add: get_outputs_from_node_def chain_outputs_def List.map_filter_def)

section \<open>Refinement\<close>

text \<open>
  What a node of the wallet answers: two nodes are alike when they answer everything alike, up to
  the order of a map of outputs.
\<close>

definition node_alike :: "node \<Rightarrow> node \<Rightarrow> bool" where
  "node_alike N M \<longleftrightarrow>
     n_chain_tip N = n_chain_tip M \<and> n_version N = n_version M \<and> n_kernel N = n_kernel M \<and>
     n_outputs_by_pmmr_index N = n_outputs_by_pmmr_index M \<and>
     n_height_range_to_pmmr_indices N = n_height_range_to_pmmr_indices M \<and> n_post_tx N = n_post_tx M \<and>
     (\<forall>cs. rel_res (=) (\<lambda>a b. map_of a = map_of b) (n_outputs N cs) (n_outputs M cs))"

lemma answers_post: "answers H c dec m params v \<Longrightarrow>
    \<exists>r. post_node H c m params = Ok r \<and> into_result dec r = Ok v"
  by (simp add: answers_def)

lemma served_kernel: "serves_kernels H c K \<Longrightarrow> get_kernel H c e lo hi = Ok (ch_kernel K e lo hi)"
  unfolding serves_kernels_def Let_def
  by (drule spec [of _ e], drule spec [of _ lo], drule spec [of _ hi])
     (auto simp: get_kernel_def answers_def split: option.splits)

lemma served_page:
  assumes "serves_pages H c K"
  shows "get_outputs_by_pmmr_index H c s e m = Ok (ch_page K s e m)"
    and "height_range_to_pmmr_indices H c s e = Ok (ch_indices K s e)"
proof -
  obtain l outs where l: "answers H c (h_listing H) ''get_unspent_outputs''
        (JArr [JNum (uint s), opt_num e, JNum (uint m), JBool True]) l"
      "rmap (chain_output_of H) (filter (\<lambda>out. \<not> op_spent out) (ol_outputs l)) = Ok outs"
      "ch_page K s e m = (ol_highest_index l, ol_last_retrieved_index l, outs)"
    using assms unfolding serves_pages_def by blast
  then show "get_outputs_by_pmmr_index H c s e m = Ok (ch_page K s e m)"
    by (simp add: get_outputs_by_pmmr_index_def answers_send [OF l(1)])
next
  obtain l where l: "answers H c (h_listing H) ''get_pmmr_indices'' (JArr [JNum (uint s), opt_num e]) l"
      "ch_indices K s e = (ol_last_retrieved_index l, ol_highest_index l)"
    using assms unfolding serves_pages_def by blast
  then show "height_range_to_pmmr_indices H c s e = Ok (ch_indices K s e)"
    by (simp add: height_range_to_pmmr_indices_def answers_send [OF l(1)])
qed

lemma http_node_alike:
  assumes "serves H c K" "arrives H" "0 < chunk_size H" "hc_node_version_info c = None"
  shows "node_alike (http_node H c) (chain_node (h_to_hex H) K)"
proof -
  obtain t where t: "answers H c (h_tip H) ''get_tip'' JNull t" "ch_tip K = (gt_height t, gt_last_block_pushed t)"
    using assms(1) unfolding serves_def by blast
  have tip: "get_chain_tip H c = Ok (ch_tip K)"
    by (simp add: get_chain_tip_def answers_send [OF t(1)] t(2))
  obtain v where v: "answers H c (h_version H) ''get_version'' JNull v" "ch_version K = gv_block_header_version v"
    using assms(1) unfolding serves_def by blast
  have version: "\<exists>n. fst (get_version_info H c) = Ok (Some n) \<and> nv_block_header_version n = ch_version K"
    by (simp add: get_version_info_def assms(4) answers_send [OF v(1)] v(2) Let_def)
  have post: "http_post_tx H c = ch_accepts K"
  proof (intro ext)
    fix tx fluff
    obtain u where u: "ch_accepts K tx fluff = Ok ()"
        "answers H c (h_value H) ''push_transaction'' (JArr [h_tx_json H tx, JBool fluff]) u"
      using assms(1) unfolding serves_def by blast
    show "http_post_tx H c tx fluff = ch_accepts K tx fluff"
      by (simp add: http_post_tx_def answers_send [OF u(2)] u(1))
  qed
  have outs: "rel_res (=) (\<lambda>a b. map_of a = map_of b) (get_outputs_from_node H c cs) (Ok (chain_outputs (h_to_hex H) K cs))" for cs
    using get_outputs_shown [of H c K cs] assms by (auto simp: serves_def)
  have "get_kernel H c = (\<lambda>e lo hi. Ok (ch_kernel K e lo hi))"
    using assms(1) served_kernel by (force simp: serves_def)
  moreover have "get_outputs_by_pmmr_index H c = (\<lambda>s e m. Ok (ch_page K s e m))"
      "height_range_to_pmmr_indices H c = (\<lambda>s e. Ok (ch_indices K s e))"
    using assms(1) served_page by (force simp: serves_def)+
  ultimately show ?thesis
    using tip version post outs by (auto simp: node_alike_def http_node_def chain_node_def)
qed

text \<open>The update looks at the answers of its node only, and at a map of outputs only by key.\<close>

lemma apply_outputs_cong:
  assumes "map_of a = map_of b"
  shows "apply_api_outputs X now km wo a rk h p = apply_api_outputs X now km wo b rk h p"
    and "disappeared_txs wo a = disappeared_txs wo b"
proof -
  have same: "apply_api_output X now a = apply_api_output X now b"
    unfolding apply_api_output_def assms ..
  show "apply_api_outputs X now km wo a rk h p = apply_api_outputs X now km wo b rk h p"
    unfolding apply_api_outputs_def same ..
qed (simp add: disappeared_txs_def assms)

lemma refresh_alike:
  assumes "node_alike N M"
  shows "refresh_outputs X N now km p all = refresh_outputs X M now km p all"
proof -
  have reverted: "find_reverted_kernels N wo a p = find_reverted_kernels M wo b p" if "map_of a = map_of b" for wo a b
    using assms apply_outputs_cong(2) [OF that, of wo] by (simp add: find_reverted_kernels_def node_alike_def fun_eq_iff)
  have outs: "rel_res (=) (\<lambda>a b. map_of a = map_of b) (n_outputs N cs) (n_outputs M cs)" for cs
    using assms by (simp add: node_alike_def)
  have "refresh_output_state X N now km h p all = refresh_output_state X M now km h p all" for h
    unfolding refresh_output_state_def
  proof (intro arg_cong [where f = "sbind _"] ext)
    fix wo v
    show "sbind (slift (n_outputs N (map fst wo))) (\<lambda>api_outputs.
        sbind (find_reverted_kernels N wo api_outputs p) (\<lambda>rk.
        sbind (apply_api_outputs X now km wo api_outputs rk h p) (\<lambda>_. clean_old_unconfirmed X km h))) v =
      sbind (slift (n_outputs M (map fst wo))) (\<lambda>api_outputs.
        sbind (find_reverted_kernels M wo api_outputs p) (\<lambda>rk.
        sbind (apply_api_outputs X now km wo api_outputs rk h p) (\<lambda>_. clean_old_unconfirmed X km h))) v"
      using outs [of "map fst wo"]
    proof (cases rule: res.rel_cases)
      case (Ok a b)
      show ?thesis unfolding Ok(1,2) sbind_simps reverted [OF Ok(3)] apply_outputs_cong(1) [OF Ok(3)] ..
    qed (simp_all add: sbind_simps)
  qed
  then show ?thesis using assms by (simp add: refresh_outputs_def node_alike_def)
qed

text \<open>
  C11: with a server that shows one state of the chain, the HTTP client answers
  every question of the wallet as that state does, whatever the size of the requests for outputs
  and the order in which their answers arrive; so an update of the outputs of an account
  through the client does to the wallet what an update against the state of the chain does.
\<close>

theorem http_client_refines_chain:
  assumes "serves H c K" and "arrives H" and "0 < chunk_size H" and "hc_node_version_info c = None"
  shows "node_alike (http_node H c) (chain_node (h_to_hex H) K) \<and>
    refresh_outputs X (http_node H c) now km p all w =
      refresh_outputs X (chain_node (h_to_hex H) K) now km p all w"
  using http_node_alike [OF assms] refresh_alike by metis

text \<open>A server that knows one output and no kernel\<close>

definition sample_chain :: chain_state where
  "sample_chain = \<lparr>ch_tip = (50, ''aa''), ch_version = 3,
     ch_output = (\<lambda>x. if x = replicate 33 8 then Some (7, 3) else None),
     ch_kernel = (\<lambda>_ _ _. None), ch_page = (\<lambda>_ _ _. (9, 9, [])), ch_indices = (\<lambda>_ _. (9, 9)),
     ch_accepts = (\<lambda>_ _. Ok ())\<rparr>"

definition sample_http_output :: output_printable where
  "sample_http_output = \<lparr>op_output_type = OT_Transaction, op_commit = replicate 33 8, op_spent = False, op_proof = Ok [],
     op_block_height = Some 7, op_mmr_index = 3\<rparr>"

definition sample_server :: "string \<Rightarrow> string option \<Rightarrow> json \<Rightarrow> (client_error, nat \<times> string) res" where
  "sample_server url auth req =
     Ok (200, if jindex req ''method'' = JStr ''get_outputs'' \<and>
                 (case jindex req ''params'' of JArr (JArr cs # _) \<Rightarrow> JStr (replicate 33 (char_of (8::nat))) \<in> set cs | _ \<Rightarrow> False)
              then ''found'' else ''none'')"

definition sample_http :: http_ext where
  "sample_http = \<lparr>h_send = sample_server, h_arrive = (\<lambda>_. rev), h_base64 = (\<lambda>s. s),
     h_parse = (\<lambda>s. Some (ok_response (JStr s))), h_query_size = Some ''2'',
     h_to_hex = map (\<lambda>b. char_of (unat b)), h_tx_json = (\<lambda>_. JNull),
     h_show_fault = (\<lambda>_. ''''), h_show_response = (\<lambda>_. ''NotFound''), h_show_commit = (\<lambda>_. ''''), h_show_output = (\<lambda>_. ''''),
     h_value = (\<lambda>v. Ok v), h_tip = (\<lambda>_. Ok \<lparr>gt_height = 50, gt_last_block_pushed = ''aa'', gt_prev_block_to_last = '''', gt_total_difficulty = 0\<rparr>),
     h_version = (\<lambda>_. Ok \<lparr>gv_node_version = ''5'', gv_block_header_version = 3\<rparr>), h_kernel = (\<lambda>_. Err ''no kernel''),
     h_outputs = (\<lambda>j. Ok (if j = JStr ''found'' then [sample_http_output] else [])),
     h_listing = (\<lambda>_. Ok \<lparr>ol_highest_index = 9, ol_last_retrieved_index = 9, ol_outputs = []\<rparr>)\<rparr>"


definition sample_client :: http_client where
  "sample_client = http_client_new ''http://127.0.0.1:3413'' (Some ''secret'')"

lemma sample_posts:
  "post_node sample_http c m params =
     Ok (ok_response (JStr (if m = ''get_outputs'' \<and>
        (case params of JArr (JArr cs # _) \<Rightarrow> JStr (replicate 33 (char_of (8::nat))) \<in> set cs | _ \<Rightarrow> False)
        then ''found'' else ''none'')))"
  by (simp add: post_node_def client_post_def send_request_def sample_http_def sample_server_def build_request_def)

lemma sample_hex_inject: "map (\<lambda>b :: u8. char_of (unat b)) xs = map (\<lambda>b. char_of (unat b)) ys \<longleftrightarrow> xs = ys"
proof -
  have "inj (\<lambda>b :: u8. char_of (unat b) :: char)"
    by (rule inj_on_inverseI [of _ of_char]) (rule char_of_unat)
  then show ?thesis by (simp add: inj_map_eq_map)
qed

lemma sample_serves: "serves sample_http sample_client sample_chain"
proof -
  have hex: "JStr (replicate 33 (char_of (8::nat))) \<in> (\<lambda>x. JStr (map (\<lambda>b :: u8. char_of (unat b)) x)) ` set cs \<longleftrightarrow> replicate 33 8 \<in> set cs" for cs
  proof -
    have "replicate 33 (char_of (8::nat)) = map (\<lambda>b :: u8. char_of (unat b)) (replicate 33 8)" by simp
    then show ?thesis by (auto simp: image_iff sample_hex_inject simp del: map_replicate)
  qed
  have outs: "answers sample_http sample_client (h_outputs sample_http) ''get_outputs''
        (outputs_params (map (h_to_hex sample_http) cs)) (if replicate 33 8 \<in> set cs then [sample_http_output] else [])" for cs
    unfolding answers_def sample_posts
    by (simp add: outputs_params_def into_result_ok) (simp add: sample_http_def hex image_image)
  have shown: "shows_outputs sample_chain cs (if replicate 33 8 \<in> set cs then [sample_http_output] else [])" for cs
    by (simp add: shows_outputs_def sample_chain_def sample_http_output_def)
  have "serves_outputs sample_http sample_client sample_chain"
    unfolding serves_outputs_def using outs shown by blast
  moreover have "serves_kernels sample_http sample_client sample_chain"
    by (simp add: serves_kernels_def sample_chain_def sample_posts into_result_ok Let_def)
       (simp add: sample_http_def)
  moreover have "serves_pages sample_http sample_client sample_chain"
    by (simp add: serves_pages_def answers_def sample_posts into_result_ok sample_chain_def)
       (simp add: sample_http_def)
  ultimately show ?thesis
    by (simp add: serves_def answers_def sample_posts into_result_ok) (simp add: sample_http_def sample_chain_def)
qed

theorem http_client_refines_chain_witness:
  "node_alike (http_node sample_http sample_client) (chain_node (h_to_hex sample_http) sample_chain) \<and>
   fst (refresh_outputs sample_ext (http_node sample_http sample_client) 0 None [9] True locked_wallet) = Ok ()"
proof -
  have arr: "arrives sample_http" by (simp add: arrives_def sample_http_def)
  have hex: "h_to_hex sample_http = map (\<lambda>b. char_of (unat b))" and query: "h_query_size sample_http = Some ''2''"
    by (simp_all add: sample_http_def)
  have "parse_usize ''2'' = Some 2" by (simp add: parse_usize_def digit_of_def)
  then have size: "0 < chunk_size sample_http" by (simp add: chunk_size_def query)
  have none: "hc_node_version_info sample_client = None" by (simp add: sample_client_def http_client_new_def)
  note r = http_client_refines_chain [OF sample_serves arr size none, of sample_ext 0 None "[9]" True locked_wallet]
  have "fst (refresh_outputs sample_ext (chain_node (h_to_hex sample_http) sample_chain) 0 None [9] True locked_wallet) = Ok ()"
    unfolding hex by code_simp
  with r show ?thesis by simp
qed

text \<open>
  The size of a request for outputs is taken from the environment as it is
  written; where it is zero, asking for any output panics, and with it every update of a wallet
  that has an output to ask for.
\<close>

theorem zero_query_size_panics:
  assumes "h_query_size H = Some s" and "parse_usize s = Some 0" and "cs \<noteq> []"
  shows "get_outputs_from_node H c cs = Panic \<and> get_outputs_from_node H c [] = Ok []"
  using assms by (simp add: get_outputs_from_node_def chunk_size_def)

theorem zero_query_size_panics_witness:
  "get_outputs_from_node (sample_http\<lparr>h_query_size := Some ''+00''\<rparr>) sample_client [[1]] = Panic"
proof -
  have "parse_usize ''+00'' = Some 0" by (simp add: parse_usize_def digit_of_def)
  then show ?thesis
    using zero_query_size_panics [of "sample_http\<lparr>h_query_size := Some ''+00''\<rparr>" "''+00''" "[[1]]" sample_client] by simp
qed

text \<open>
  The status of an answer is ignored. A node that answers the request
  for its version with status 404 and a page that is not a response is taken for a node that can
  not be contacted, not for an old one, unless its text or address brings \<open>404\<close> into the error.
\<close>

theorem missing_version_call_is_not_seen:
  assumes "h_send H (hc_node_url c @ ENDPOINT) (auth_header H (hc_node_api_secret c))
      (build_request ''get_version'' JNull) = Ok (404, page)"
    and "h_parse H page = None" and "hc_node_version_info c = None"
  shows "get_version_info H c = (Ok None, c)"
proof -
  have "send_json_request H (h_version H) c ''get_version'' JNull =
      Err (callback (''Error calling get_version: '' @ show_client_error (CE_ResponseError ''Cannot parse response'')))"
    using assms by (simp add: send_json_request_def post_node_def client_post_def send_request_def)
  moreover have "\<not> str_contains (show_callback (''Error calling get_version: '' @
      show_client_error (CE_ResponseError ''Cannot parse response''))) ''404''"
    by (rule not_contains) (simp_all add: show_callback_def)
  ultimately show ?thesis
    using assms(3) by (simp add: get_version_info_def callback_def)
qed

theorem missing_version_call_is_not_seen_witness:
  "get_version_info (sample_http\<lparr>h_send := (\<lambda>_ _ _. Ok (404, ''<html>404</html>'')), h_parse := (\<lambda>_. None)\<rparr>) sample_client =
     (Ok None, sample_client)"
  using missing_version_call_is_not_seen
      [of "sample_http\<lparr>h_send := (\<lambda>_ _ _. Ok (404, ''<html>404</html>'')), h_parse := (\<lambda>_. None)\<rparr>" sample_client "''<html>404</html>''"]
  by (simp add: sample_client_def http_client_new_def)

end
