(* ===== verification/Tor_Sender.thy ===== *)
theory Tor_Sender
  imports Http Slate_V4 Address
begin

text \<open>
  Sending a slate to the other party over Tor (\<open>impls/src/adapters/tor.rs\<close>): its version is asked
  for first, then the slate is handed to its foreign interface, to be received or to be
  finalised, and the slate that comes back is read. The configuration is that of
  \<open>config/src/types.rs\<close>. Starting Tor, the transport and the reading of JSON are parameters.
\<close>

section \<open>The configuration of Tor\<close>

record tor_bridge_config =
  tb_bridge_bin_path :: "string option"
  tb_bridge_line :: "string option"
  tb_client_option :: "string option"

record tor_proxy_config =
  tp_transport :: "string option"
  tp_address :: "string option"
  tp_username :: "string option"
  tp_password :: "string option"
  tp_allowed_port :: "u16 list option"

record tor_config =
  tc_use_integrated :: "bool option"
  tc_skip_send_attempt :: "bool option"
  tc_use_tor_listener :: bool
  tc_socks_proxy_addr :: string
  tc_send_config_dir :: string
  tc_request_timeout_secs :: "u64 option"
  tc_bootstrap_timeout_secs :: "u64 option"
  tc_bridge :: tor_bridge_config
  tc_proxy :: tor_proxy_config

definition REQUEST_TIMEOUT_SECS :: u64 where
  "REQUEST_TIMEOUT_SECS = 60"

definition BOOTSTRAP_TIMEOUT_SECS :: u64 where
  "BOOTSTRAP_TIMEOUT_SECS = 60"

definition tor_bridge_config_default :: tor_bridge_config where
  "tor_bridge_config_default = \<lparr>tb_bridge_bin_path = None, tb_bridge_line = None, tb_client_option = None\<rparr>"

definition tor_proxy_config_default :: tor_proxy_config where
  "tor_proxy_config_default = \<lparr>tp_transport = None, tp_address = None, tp_username = None, tp_password = None,
     tp_allowed_port = None\<rparr>"

definition tor_config_default :: tor_config where
  "tor_config_default = \<lparr>tc_use_integrated = Some True, tc_skip_send_attempt = Some False,
     tc_use_tor_listener = True, tc_socks_proxy_addr = ''127.0.0.1:59050'', tc_send_config_dir = ''.'',
     tc_request_timeout_secs = Some REQUEST_TIMEOUT_SECS, tc_bootstrap_timeout_secs = Some BOOTSTRAP_TIMEOUT_SECS,
     tc_bridge = tor_bridge_config_default, tc_proxy = tor_proxy_config_default\<rparr>"

definition send_tor :: "tor_config \<Rightarrow> bool option \<Rightarrow> bool" where
  "send_tor c skip_arg = (case skip_arg of
     Some skip_tor \<Rightarrow> \<not> skip_tor
   | None \<Rightarrow> \<not> (case tc_skip_send_attempt c of Some b \<Rightarrow> b | None \<Rightarrow> False))"

definition positive_or :: "u64 \<Rightarrow> u64 option \<Rightarrow> u64" where
  "positive_or d s = (case s of Some n \<Rightarrow> if 0 < n then n else d | None \<Rightarrow> d)"

definition request_timeout :: "tor_config \<Rightarrow> u64" where
  "request_timeout c = positive_or REQUEST_TIMEOUT_SECS (tc_request_timeout_secs c)"

definition bootstrap_timeout :: "tor_config \<Rightarrow> u64" where
  "bootstrap_timeout c = positive_or BOOTSTRAP_TIMEOUT_SECS (tc_bootstrap_timeout_secs c)"

section \<open>The sender\<close>

record tor_ext =
  t_ov3_str :: "bytes \<Rightarrow> string"
  t_start_client :: "tor_config \<Rightarrow> unit result"
  t_launch :: "tor_config \<Rightarrow> string \<Rightarrow> unit result"
  t_socket_addr :: "string \<Rightarrow> bool"
  t_proxy_post :: "tor_config \<Rightarrow> string \<Rightarrow> json \<Rightarrow> (client_error, string) res"
  t_arti_post :: "tor_config \<Rightarrow> string \<Rightarrow> json \<Rightarrow> (string, string) res"
  t_json :: "string \<Rightarrow> json option"
  t_show_json :: "json \<Rightarrow> string"
  t_debug_text :: "string \<Rightarrow> string"
  t_debug_json :: "json \<Rightarrow> string"
  t_slate_json :: "slate_v4 \<Rightarrow> json"
  t_slate_of_json :: "json \<Rightarrow> slate_v4 option"

definition to_http_str :: "tor_ext \<Rightarrow> bytes \<Rightarrow> string" where
  "to_http_str T addr = ''http://'' @ t_ov3_str T addr @ ''.onion''"

record tor_slate_sender =
  ts_base_url :: string
  ts_config :: tor_config
  ts_tor_process :: bool

definition sender_dir :: "tor_config \<Rightarrow> string" where
  "sender_dir c = (let d = tc_send_config_dir c in
     (if d = [] \<or> last d = CHR ''/'' then d else d @ ''/'') @ ''tor/sender'')"

definition tor_slate_sender_new :: "tor_ext \<Rightarrow> string \<Rightarrow> tor_config \<Rightarrow> tor_slate_sender result" where
  "tor_slate_sender_new T base_url c =
     (if take 4 base_url \<noteq> ''http'' \<and> take 5 base_url \<noteq> ''https''
      then Err (Lib (GenericError ''Scheme must be http''))
      else
        rbind (if (case tc_use_integrated c of Some b \<Rightarrow> b | None \<Rightarrow> False)
               then rbind (t_start_client T c) (\<lambda>_. Ok False)
               else rbind (t_launch T c (sender_dir c)) (\<lambda>_. Ok True)) (\<lambda>tor.
          Ok \<lparr>ts_base_url = base_url, ts_config = c, ts_tor_process = tor\<rparr>))"

definition tor_post :: "tor_ext \<Rightarrow> tor_slate_sender \<Rightarrow> string \<Rightarrow> json \<Rightarrow> (client_error, string) res" where
  "tor_post T s url input =
     (if ts_tor_process s then
        (if t_socket_addr T (tc_socks_proxy_addr (ts_config s)) then t_proxy_post T (ts_config s) url input
         else Err (CE_Internal ''Socks proxy address is not set''))
      else (case t_arti_post T (ts_config s) url input of
          Ok r \<Rightarrow> Ok r | Err e \<Rightarrow> Err (CE_RequestError e) | Panic \<Rightarrow> Panic))"

definition rpc_request :: "string \<Rightarrow> json list \<Rightarrow> json" where
  "rpc_request m params =
     JObj [(''jsonrpc'', JStr ''2.0''), (''method'', JStr m), (''id'', JNum 1), (''params'', JArr params)]"

fun json_u16 :: "json \<Rightarrow> u16 option" where
  "json_u16 (JNum n) = (if 0 \<le> n \<and> n < 65536 then Some (word_of_int n) else None)"
| "json_u16 _ = None"

fun json_strings :: "json \<Rightarrow> string list option" where
  "json_strings (JArr vs) = (if \<forall>v \<in> set vs. as_str v \<noteq> None then Some (map (\<lambda>v. the (as_str v)) vs) else None)"
| "json_strings _ = None"

text \<open>The answer of the other party as JSON, unless it reports an error\<close>

definition read_answer :: "tor_ext \<Rightarrow> string \<Rightarrow> json result" where
  "read_answer T res = (case t_json T res of
     None \<Rightarrow> Err (callback (''Can not parse response '' @ t_debug_text T res))
   | Some v \<Rightarrow>
       if jindex v ''error'' \<noteq> JNull
       then Err (callback (''Posting transaction slate: Error: '' @ t_show_json T (jindex (jindex v ''error'') ''code'') @
          '', Message: '' @ t_show_json T (jindex (jindex v ''error'') ''message'')))
       else Ok v)"

definition version_report :: "client_error \<Rightarrow> string" where
  "version_report e =
     (if str_contains (show_client_error e) ''404''
      then ''Other wallet is incompatible and requires an upgrade. Please urge the other wallet owner to upgrade and try the transaction again.''
      else ''Performing version check (is recipient listening?): '' @ show_client_error e)"

definition check_other_version :: "tor_ext \<Rightarrow> tor_slate_sender \<Rightarrow> string \<Rightarrow> unit result" where
  "check_other_version T s url = (case tor_post T s url (rpc_request ''check_version'' []) of
     Err e \<Rightarrow> Err (callback (version_report e))
   | Panic \<Rightarrow> Panic
   | Ok res \<Rightarrow>
      rbind (read_answer T res) (\<lambda>v.
      let resp_value = jindex (jindex v ''result'') ''Ok'';
          cannot_parse = callback (''Can not parse response '' @ t_debug_json T v)
      in rbind (ok_or cannot_parse (json_u16 (jindex resp_value ''foreign_api_version''))) (\<lambda>foreign_api_version.
         rbind (ok_or cannot_parse (json_strings (jindex resp_value ''supported_slate_versions''))) (\<lambda>supported.
         if foreign_api_version < 2
         then Err (callback ''Other wallet reports unrecognized API format.'')
         else if ''V4'' \<in> set supported then Ok ()
         else Err (callback ''Unable to negotiate slate format with other wallet.'')))))"

definition foreign_url :: "string \<Rightarrow> string" where
  "foreign_url base = base @ (if base \<noteq> [] \<and> last base = CHR ''/'' then '''' else ''/'') @ ''v2/foreign''"

definition send_tx :: "ext \<Rightarrow> tor_ext \<Rightarrow> tor_slate_sender \<Rightarrow> slate \<Rightarrow> bool \<Rightarrow> slate result" where
  "send_tx X T s sl finalize' =
     (let url_str = foreign_url (ts_base_url s) in
      rbind (check_other_version T s url_str) (\<lambda>_.
      rbind (slate_to_v4 sl) (\<lambda>slate_send.
      let req = (if finalize' then rpc_request ''finalize_tx'' [t_slate_json T slate_send]
                 else rpc_request ''receive_tx'' [t_slate_json T slate_send, JNull, JNull])
      in (case tor_post T s url_str req of
           Err e \<Rightarrow> Err (callback (''Sending transaction slate to other wallet (is recipient listening?): '' @ show_client_error e))
         | Panic \<Rightarrow> Panic
         | Ok res \<Rightarrow>
            rbind (read_answer T res) (\<lambda>v.
              case t_slate_of_json T (jindex (jindex v ''result'') ''Ok'') of
                Some v4 \<Rightarrow> (case slate_upgrade X (VersionedV4 v4) of
                    Ok r \<Rightarrow> Ok r | Err _ \<Rightarrow> Err (Slt SlateDeser) | Panic \<Rightarrow> Panic)
              | None \<Rightarrow> Err (Slt SlateDeser))))))"

text \<open>\<open>try_slatepack_sync_workflow\<close>, with the sender it makes itself\<close>

definition try_slatepack_sync_workflow ::
  "ext \<Rightarrow> tor_ext \<Rightarrow> slate \<Rightarrow> slatepack_address \<Rightarrow> tor_config option \<Rightarrow> bool \<Rightarrow> slate result" where
  "try_slatepack_sync_workflow X T sl dest tor_config send_to_finalize = (case tor_config of
     None \<Rightarrow> Err (Com (TorConfig ''Tor config is not set''))
   | Some tc \<Rightarrow>
       rbind (tor_slate_sender_new T (to_http_str T (address_to_ov3 dest)) tc) (\<lambda>sender.
         send_tx X T sender sl send_to_finalize))"

end
