(* ===== verification/Config.thy ===== *)
theory Config
  imports Files Errors Tor_Sender
begin

text \<open>
  The wallet's configuration (\<open>config/src/types.rs\<close>, \<open>config/src/config.rs\<close>): its values and
  defaults, the file with its migration and the merging of new values into the text the owner
  wrote, and the instances a running program keeps of the files it has read, with those who listen
  to changes. TOML, the comments of a new file and the secrets drawn are parameters.
\<close>

section \<open>Values\<close>

datatype chain_type = AutomatedTesting | UserTesting | Testnet | Mainnet

record wallet_config =
  wc_chain_type :: "chain_type option"
  wc_api_listen_port :: u16
  wc_owner_api_listen_port :: "u16 option"
  wc_api_secret_path :: "string option"
  wc_node_api_secret_path :: "string option"
  wc_check_node_api_http_addr :: string
  wc_node_api_request_timeout_secs :: "u64 option"
  wc_owner_api_include_foreign :: "bool option"
  wc_data_file_dir :: string
  wc_no_commit_cache :: "bool option"
  wc_tls_certificate_file :: "string option"
  wc_tls_certificate_key :: "string option"
  wc_dark_background_color_scheme :: "bool option"
  wc_accept_fee_base :: "u64 option"

text \<open>The logging configuration is a type of \<open>grin_util\<close>: the path that is set here, and the rest.\<close>

record logging_config =
  lo_log_file_path :: string
  lo_rest :: string

record config_members =
  cm_config_file_version :: "u32 option"
  cm_wallet :: wallet_config
  cm_tor :: "tor_config option"
  cm_logging :: "logging_config option"

record global_config =
  gc_config_file_path :: string
  gc_members :: config_members

datatype config_error =
    ParseError string string
  | FileIOError string string
  | FileNotFoundError string
  | SerializationError string
  | PathNotFoundError string

fun show_config_error :: "config_error \<Rightarrow> string" where
  "show_config_error (ParseError file_name message) =
     ''Error parsing configuration file at '' @ file_name @ '' - '' @ message"
| "show_config_error (FileIOError file_name message) = message @ '' '' @ file_name"
| "show_config_error (FileNotFoundError file_name) = ''Configuration file not found: '' @ file_name"
| "show_config_error (SerializationError message) = ''Error serializing configuration: '' @ message"
| "show_config_error (PathNotFoundError message) = ''Path not found: '' @ message"

definition of_config :: "(config_error, 'a) res \<Rightarrow> 'a result" where
  "of_config r = (case r of Ok a \<Rightarrow> Ok a | Err e \<Rightarrow> Err (Lib (GenericError (show_config_error e))) | Panic \<Rightarrow> Panic)"

definition NODE_API_REQUEST_TIMEOUT_SECS :: u64 where
  "NODE_API_REQUEST_TIMEOUT_SECS = 60"

definition default_owner_api_listen_port :: u16 where
  "default_owner_api_listen_port = 3420"

definition default_accept_fee_base :: u64 where
  "default_accept_fee_base = 500000"

definition wallet_config_default :: wallet_config where
  "wallet_config_default = \<lparr>wc_chain_type = Some Mainnet, wc_api_listen_port = 3415,
     wc_owner_api_listen_port = Some default_owner_api_listen_port,
     wc_api_secret_path = Some ''.owner_api_secret'', wc_node_api_secret_path = Some ''.foreign_api_secret'',
     wc_check_node_api_http_addr = ''http://127.0.0.1:3413'',
     wc_node_api_request_timeout_secs = Some NODE_API_REQUEST_TIMEOUT_SECS,
     wc_owner_api_include_foreign = Some False, wc_data_file_dir = ''.'', wc_no_commit_cache = Some False,
     wc_tls_certificate_file = None, wc_tls_certificate_key = None,
     wc_dark_background_color_scheme = Some True, wc_accept_fee_base = None\<rparr>"

definition api_listen_addr :: "wallet_config \<Rightarrow> string" where
  "api_listen_addr c = ''127.0.0.1:'' @ nat_to_string (unat (wc_api_listen_port c))"

definition owner_api_listen_port :: "wallet_config \<Rightarrow> u16" where
  "owner_api_listen_port c = (case wc_owner_api_listen_port c of Some p \<Rightarrow> p | None \<Rightarrow> default_owner_api_listen_port)"

definition owner_api_listen_addr :: "wallet_config \<Rightarrow> string" where
  "owner_api_listen_addr c = ''127.0.0.1:'' @ nat_to_string (unat (owner_api_listen_port c))"

definition accept_fee_base :: "wallet_config \<Rightarrow> u64" where
  "accept_fee_base c = (case wc_accept_fee_base c of Some b \<Rightarrow> b | None \<Rightarrow> default_accept_fee_base)"

definition api_request_timeout :: "wallet_config \<Rightarrow> u64" where
  "api_request_timeout c = positive_or NODE_API_REQUEST_TIMEOUT_SECS (wc_node_api_request_timeout_secs c)"

definition WALLET_CONFIG_FILE_NAME :: string where
  "WALLET_CONFIG_FILE_NAME = ''grin-wallet.toml''"

definition WALLET_LOG_FILE_NAME :: string where
  "WALLET_LOG_FILE_NAME = ''grin-wallet.log''"

definition CONFIG_WALLET_DIR :: string where
  "CONFIG_WALLET_DIR = ''wallet_data''"

definition API_SECRET_FILE_NAME :: string where
  "API_SECRET_FILE_NAME = ''.foreign_api_secret''"

definition OWNER_API_SECRET_FILE_NAME :: string where
  "OWNER_API_SECRET_FILE_NAME = ''.owner_api_secret''"

definition config_members_default :: "logging_config \<Rightarrow> config_members" where
  "config_members_default logging = \<lparr>cm_config_file_version = Some 2, cm_wallet = wallet_config_default,
     cm_tor = Some tor_config_default, cm_logging = Some logging\<rparr>"

fun chain_ports :: "chain_type \<Rightarrow> wallet_config \<Rightarrow> wallet_config" where
  "chain_ports Testnet w = w\<lparr>wc_api_listen_port := 13415, wc_check_node_api_http_addr := ''http://127.0.0.1:13413''\<rparr>"
| "chain_ports UserTesting w = w\<lparr>wc_api_listen_port := 23415, wc_check_node_api_http_addr := ''http://127.0.0.1:23413''\<rparr>"
| "chain_ports _ w = w"

definition for_chain :: "logging_config \<Rightarrow> chain_type \<Rightarrow> string \<Rightarrow> global_config" where
  "for_chain logging c file_path = \<lparr>gc_config_file_path = file_path,
     gc_members = (config_members_default logging)\<lparr>cm_wallet := chain_ports c (wallet_config_default\<lparr>wc_chain_type := Some c\<rparr>)\<rparr>\<rparr>"

definition config_tor :: "global_config \<Rightarrow> tor_config" where
  "config_tor g = (case cm_tor (gc_members g) of
     Some t \<Rightarrow> t
   | None \<Rightarrow> tor_config_default\<lparr>tc_send_config_dir := wc_data_file_dir (cm_wallet (gc_members g))\<rparr>)"

text \<open>A configuration without a logging or a Tor part panics here.\<close>

definition update_paths :: "string \<Rightarrow> string \<Rightarrow> global_config \<Rightarrow> (config_error, global_config) res" where
  "update_paths wallet_home node_home g =
     (let m = gc_members g;
          w = (cm_wallet m)\<lparr>wc_data_file_dir := path_push wallet_home CONFIG_WALLET_DIR,
                wc_node_api_secret_path := Some (path_push node_home API_SECRET_FILE_NAME),
                wc_api_secret_path := Some (path_push wallet_home OWNER_API_SECRET_FILE_NAME)\<rparr>
      in rbind (unwrap (cm_logging m)) (\<lambda>l.
         rbind (unwrap (cm_tor m)) (\<lambda>t.
           Ok (g\<lparr>gc_members := m\<lparr>cm_wallet := w,
                cm_logging := Some (l\<lparr>lo_log_file_path := path_push wallet_home WALLET_LOG_FILE_NAME\<rparr>),
                cm_tor := Some (t\<lparr>tc_send_config_dir := wallet_home\<rparr>)\<rparr>\<rparr>))))"

section \<open>Texts\<close>

text \<open>\<open>str::replace\<close>: every occurrence, from the left, without overlaps (the pattern is not empty)\<close>

function str_replace :: "string \<Rightarrow> string \<Rightarrow> string \<Rightarrow> string" where
  "str_replace p t [] = []"
| "str_replace p t (c # cs) =
     (if p \<noteq> [] \<and> take (length p) (c # cs) = p then t @ str_replace p t (drop (length p) (c # cs))
      else c # str_replace p t cs)"
  by pat_completeness auto

termination by (relation "measure (\<lambda>(p, t, s). length s)") auto

text \<open>The lines of a text, each with its line break (\<open>split_inclusive\<close>)\<close>

function lines_of :: "string \<Rightarrow> string list" where
  "lines_of [] = []"
| "lines_of (c # cs) =
     (let l = takeWhile (\<lambda>c. c \<noteq> CHR 0x0A) (c # cs); rest = dropWhile (\<lambda>c. c \<noteq> CHR 0x0A) (c # cs)
      in case rest of [] \<Rightarrow> [l] | b # bs \<Rightarrow> (l @ [b]) # lines_of bs)"
  by pat_completeness auto

termination
proof (relation "measure length")
  fix c :: char and cs l rest b bs
  assume a: "l = takeWhile (\<lambda>c. c \<noteq> CHR 0x0A) (c # cs)" "rest = dropWhile (\<lambda>c. c \<noteq> CHR 0x0A) (c # cs)" "rest = b # bs"
  then have "length (b # bs) \<le> length (c # cs)" by (metis length_dropWhile_le)
  then show "(bs, c # cs) \<in> measure length" by simp
qed simp

definition trim_start :: "string \<Rightarrow> string" where
  "trim_start s = dropWhile (\<lambda>c. c = CHR '' '' \<or> c \<in> char_of ` {9 .. 13 :: nat}) s"

definition starts_with :: "string \<Rightarrow> string \<Rightarrow> bool" where
  "starts_with s p \<longleftrightarrow> take (length p) s = p"

definition replace_line :: "(string \<times> string) list \<Rightarrow> string \<Rightarrow> string" where
  "replace_line replacements l =
     (let t = trim_start l in
      if starts_with t ''stdout_log_level ='' \<or> starts_with t ''file_log_level =''
      then foldl (\<lambda>l (a, b). str_replace a b l) l replacements else l)"

definition replace_log_levels :: "(string \<times> string) list \<Rightarrow> string \<Rightarrow> string" where
  "replace_log_levels replacements conf = concat (map (replace_line replacements) (lines_of conf))"

definition fix_warning_level :: "string \<Rightarrow> string" where
  "fix_warning_level = replace_log_levels [(''Warning'', ''WARN'')]"

definition fix_log_level :: "string \<Rightarrow> string" where
  "fix_log_level = replace_log_levels [(''TRACE'', ''Trace''), (''DEBUG'', ''Debug''), (''INFO'', ''Info''),
     (''WARN'', ''Warning''), (''ERROR'', ''Error'')]"

section \<open>Documents\<close>

text \<open>
  A TOML document with its decoration: the white space and comments around keys, values and
  table headers. A table keeps the order of its keys.
\<close>

datatype toml_item =
    TValue (ti_decor: string) (ti_value: string)
  | TTable (ti_header: string) (ti_rows: "(string \<times> string \<times> toml_item) list")

type_synonym toml_table = "(string \<times> string \<times> toml_item) list"

definition row :: "toml_table \<Rightarrow> string \<Rightarrow> toml_item option" where
  "row t k = map_option snd (map_of t k)"

definition replace_row :: "string \<Rightarrow> toml_item \<Rightarrow> toml_table \<Rightarrow> toml_table" where
  "replace_row k i t = map (\<lambda>(k', d, j). if k' = k then (k', d, i) else (k', d, j)) t"

definition sub_table :: "toml_table option \<Rightarrow> string \<Rightarrow> toml_table option" where
  "sub_table known k = (case known of None \<Rightarrow> None | Some t \<Rightarrow> (case row t k of
     Some (TTable _ rows) \<Rightarrow> Some rows | _ \<Rightarrow> None))"

definition without_removed :: "toml_table option \<Rightarrow> toml_table \<Rightarrow> toml_table \<Rightarrow> toml_table" where
  "without_removed known new current = (case known of
     None \<Rightarrow> current
   | Some t \<Rightarrow> filter (\<lambda>(k, _). \<not> (k \<in> fst ` set t \<and> k \<notin> fst ` set new)) current)"

text \<open>
  The rows of the new table one after the other: a table goes into a table, a value takes the
  place of what is there and keeps its decoration, a new key comes last. Only the table
  \<open>logging\<close> of a file without a version gets its header anew.
\<close>

fun merge_rows ::
  "bool \<Rightarrow> string \<Rightarrow> toml_table option \<Rightarrow> toml_table \<Rightarrow> toml_table \<Rightarrow> toml_table" and
  merge_item ::
  "bool \<Rightarrow> string \<Rightarrow> toml_table option \<Rightarrow> toml_item \<Rightarrow> toml_item \<Rightarrow> toml_item" where
  "merge_rows b path known [] current = current"
| "merge_rows b path known ((k, d, i) # new) current =
     merge_rows b path known new
       (let item_path = (if path = [] then k else path @ ''.'' @ k) in
        case row current k of
          None \<Rightarrow> current @ [(k, d, i)]
        | Some j \<Rightarrow> replace_row k (merge_item b item_path (sub_table known k) i j) current)"
| "merge_item b path known (TTable h new) (TTable h' rows) =
     TTable (if b \<and> path = ''logging'' then h else h')
       (merge_rows b path known new (without_removed known new rows))"
| "merge_item b path known (TValue d v) (TValue d' v') = TValue d' v"
| "merge_item b path known i j = i"

definition merge_tables :: "bool \<Rightarrow> toml_table \<Rightarrow> toml_table \<Rightarrow> toml_table \<Rightarrow> toml_table" where
  "merge_tables b known new current = merge_rows b [] (Some known) new (without_removed (Some known) new current)"

section \<open>The file\<close>

record config_ext =
  k_members :: "string \<Rightarrow> config_members option"
  k_text :: "config_members \<Rightarrow> string option"
  k_document :: "string \<Rightarrow> toml_table option"
  k_document_text :: "toml_table \<Rightarrow> string"
  k_comments :: "string \<Rightarrow> string"
  k_logging :: logging_config

type_synonym 'a cres = "(config_error, 'a) res"
type_synonym 'a cop = "(filesys, config_error, 'a) comp"

definition io_error :: "config_error" where
  "io_error = FileIOError '''' ''Error loading config file''"

definition or_io_error :: "'a fop \<Rightarrow> 'a cop" where
  "or_io_error m fs = (case m fs of (Ok a, fs') \<Rightarrow> (Ok a, fs') | (Err _, fs') \<Rightarrow> (Err io_error, fs') | (Panic, fs') \<Rightarrow> (Panic, fs'))"

definition ser_config :: "config_ext \<Rightarrow> config_members \<Rightarrow> string cres" where
  "ser_config C m = ok_or (SerializationError ''toml'') (k_text C m)"

definition merge_config :: "config_ext \<Rightarrow> string \<Rightarrow> string \<Rightarrow> u32 option \<Rightarrow> string cres" where
  "merge_config C old_config new_config old_version =
     rbind (ok_or (SerializationError ''old document'') (k_document C old_config)) (\<lambda>current.
     rbind (ok_or (SerializationError ''new document'') (k_document C new_config)) (\<lambda>new.
     rbind (ok_or (SerializationError ''old values'') (k_members C (fix_warning_level old_config))) (\<lambda>known_members.
     rbind (ok_or (SerializationError ''known values'') (k_text C known_members)) (\<lambda>known_text.
     rbind (ok_or (SerializationError ''known document'') (k_document C known_text)) (\<lambda>known.
       Ok (k_document_text C (merge_tables (old_version = None) known new current)))))))"

definition config_text ::
  "config_ext \<Rightarrow> config_members \<Rightarrow> bool \<Rightarrow> string option \<Rightarrow> u32 option \<Rightarrow> string cres" where
  "config_text C m migration old_config old_version =
     rbind (ser_config C m) (\<lambda>t.
     let conf_out = fix_log_level t
     in if migration then
          rbind (unwrap old_config) (\<lambda>old. merge_config C old (k_comments C conf_out) old_version)
        else Ok (k_comments C conf_out))"

definition write_to_path ::
  "config_ext \<Rightarrow> config_members \<Rightarrow> string \<Rightarrow> bool \<Rightarrow> string option \<Rightarrow> u32 option \<Rightarrow> unit cop" where
  "write_to_path C m name migration old_config old_version =
     sbind (slift (config_text C m migration old_config old_version)) (\<lambda>t. or_io_error (write_text name t))"

text \<open>A file of the first version is rewritten with its version and the bridge and proxy parts.\<close>

definition migrate_config_file_version_none_to_2 :: "config_ext \<Rightarrow> string \<Rightarrow> string \<Rightarrow> string cop" where
  "migrate_config_file_version_none_to_2 C config_str path =
     sbind (slift (unwrap (k_members C (fix_warning_level config_str)))) (\<lambda>m.
       if cm_config_file_version m \<noteq> None then sret config_str
       else
         let tor = (case cm_tor m of Some t \<Rightarrow> t | None \<Rightarrow> tor_config_default)
               \<lparr>tc_bridge := tor_bridge_config_default, tc_proxy := tor_proxy_config_default\<rparr>
         in sbind (write_to_path C (m\<lparr>cm_config_file_version := Some 2, cm_tor := Some tor\<rparr>) path True
                     (Some config_str) (cm_config_file_version m)) (\<lambda>_.
            or_io_error (read_text path)))"

definition read_config :: "config_ext \<Rightarrow> string \<Rightarrow> global_config cop" where
  "read_config C path =
     sbind (or_io_error (read_text path)) (\<lambda>contents.
     sbind (migrate_config_file_version_none_to_2 C contents path) (\<lambda>migrated.
       slift (case k_members C (fix_warning_level migrated) of
         Some m \<Rightarrow> Ok \<lparr>gc_config_file_path = path, gc_members = m\<rparr>
       | None \<Rightarrow> Err (ParseError path ''toml''))))"

definition config_new :: "config_ext \<Rightarrow> string \<Rightarrow> global_config cop" where
  "config_new C path = sbind (sread (path_exists path)) (\<lambda>b.
     if \<not> b then sfail (FileNotFoundError path) else read_config C path)"

text \<open>The new text is written beside the file and takes its name; \<open>tmp\<close> is the drawn suffix.\<close>

definition save_file :: "config_ext \<Rightarrow> string \<Rightarrow> global_config \<Rightarrow> unit cop" where
  "save_file C tmp g =
     (let path = gc_config_file_path g; tmp_path = path @ ''-'' @ tmp @ ''.tmp''
      in sbind (or_io_error (read_text path)) (\<lambda>contents fs.
         if path_exists tmp_path fs then
           (Err io_error, case remove_file tmp_path fs of (_, fs') \<Rightarrow> fs')
         else
           (case sbind (or_io_error (write_text tmp_path '''')) (\<lambda>_.
                 sbind (write_to_path C (gc_members g) tmp_path True (Some contents)
                         (cm_config_file_version (gc_members g))) (\<lambda>_.
                   or_io_error (rename_file tmp_path path))) fs of
              (Err e, fs') \<Rightarrow> (Err e, case remove_file tmp_path fs' of (_, fs'') \<Rightarrow> fs'')
            | r \<Rightarrow> r)))"

section \<open>The instances of a running program\<close>

text \<open>
  By path, the configuration in use and the listeners with their channels; the files; and the
  channels that were sent a message.
\<close>

record config_world =
  wo_fs :: filesys
  wo_configs :: "(string \<times> global_config \<times> (string \<times> nat) list) list"
  wo_sent :: "nat list"

type_synonym 'a wcop = "(config_world, config_error, 'a) comp"

definition on_files :: "'a cop \<Rightarrow> 'a wcop" where
  "on_files m w = (case m (wo_fs w) of (r, fs) \<Rightarrow> (r, w\<lparr>wo_fs := fs\<rparr>))"

definition cache_loaded_config :: "string \<Rightarrow> global_config \<Rightarrow> global_config wcop" where
  "cache_loaded_config path g w = (case map_of (wo_configs w) path of
     None \<Rightarrow> (Ok g, w\<lparr>wo_configs := AList.update path (g, []) (wo_configs w)\<rparr>)
   | Some (g', _) \<Rightarrow> (Ok g', w))"

text \<open>\<open>alive\<close> are the channels that still have a receiver; the others are dropped.\<close>

definition set_global_config :: "(nat \<Rightarrow> bool) \<Rightarrow> global_config \<Rightarrow> config_world \<Rightarrow> config_world" where
  "set_global_config alive g w =
     (let path = gc_config_file_path g;
          listeners = (case map_of (wo_configs w) path of Some (_, l) \<Rightarrow> l | None \<Rightarrow> [])
      in w\<lparr>wo_configs := AList.update path (g, filter (\<lambda>(_, n). alive n) listeners) (wo_configs w),
           wo_sent := wo_sent w @ map snd (filter (\<lambda>(_, n). alive n) listeners)\<rparr>)"

definition reload_global_config :: "config_ext \<Rightarrow> (nat \<Rightarrow> bool) \<Rightarrow> string \<Rightarrow> global_config wcop" where
  "reload_global_config C alive path =
     sbind (on_files (config_new C path)) (\<lambda>g. sbind (smodify (set_global_config alive g)) (\<lambda>_. sret g))"

definition get_global_config :: "config_ext \<Rightarrow> string \<Rightarrow> global_config wcop" where
  "get_global_config C path w = (case map_of (wo_configs w) path of
     Some (g, _) \<Rightarrow> (Ok g, w)
   | None \<Rightarrow> sbind (on_files (config_new C path)) (cache_loaded_config path) w)"

definition save_locked :: "config_ext \<Rightarrow> (nat \<Rightarrow> bool) \<Rightarrow> string \<Rightarrow> global_config \<Rightarrow> unit wcop" where
  "save_locked C alive tmp g =
     sbind (on_files (save_file C tmp g)) (\<lambda>_. smodify (set_global_config alive g))"

definition update_global_config ::
  "config_ext \<Rightarrow> (nat \<Rightarrow> bool) \<Rightarrow> string \<Rightarrow> string \<Rightarrow> (global_config \<Rightarrow> global_config cres) \<Rightarrow> unit wcop" where
  "update_global_config C alive tmp path change =
     sbind (on_files (config_new C path)) (\<lambda>g.
     sbind (slift (change g)) (save_locked C alive tmp))"

definition add_global_config_listener :: "string \<Rightarrow> string \<Rightarrow> nat \<Rightarrow> config_world \<Rightarrow> config_world" where
  "add_global_config_listener path listener_id tx w = (case map_of (wo_configs w) path of
     None \<Rightarrow> w
   | Some (g, l) \<Rightarrow> w\<lparr>wo_configs := AList.update path (g, AList.update listener_id tx l) (wo_configs w)\<rparr>)"

definition remove_global_config_listener :: "string \<Rightarrow> string \<Rightarrow> config_world \<Rightarrow> config_world" where
  "remove_global_config_listener path listener_id w = (case map_of (wo_configs w) path of
     None \<Rightarrow> w
   | Some (g, l) \<Rightarrow> w\<lparr>wo_configs := AList.update path (g, AList.delete listener_id l) (wo_configs w)\<rparr>)"

section \<open>Setting up\<close>

definition config_file_exists :: "string \<Rightarrow> filesys \<Rightarrow> bool" where
  "config_file_exists path fs = path_exists (path_push path WALLET_CONFIG_FILE_NAME) fs"

text \<open>\<open>secret\<close> is the text of twenty characters drawn.\<close>

definition init_api_secret :: "string \<Rightarrow> string \<Rightarrow> unit cop" where
  "init_api_secret secret path = or_io_error (write_text path secret)"

text \<open>A file with a first line is left alone.\<close>

definition check_api_secret :: "string \<Rightarrow> string \<Rightarrow> unit cop" where
  "check_api_secret secret path =
     sbind (or_io_error (read_text path)) (\<lambda>t.
       if t = [] then sbind (or_io_error (remove_file path)) (\<lambda>_. init_api_secret secret path)
       else sret ())"

definition secret_file :: "string \<Rightarrow> string \<Rightarrow> unit cop" where
  "secret_file secret path =
     sbind (sread (path_exists path)) (\<lambda>b. if b then check_api_secret secret path else init_api_secret secret path)"

text \<open>
  \<open>create_config\<close> of the life cycle, with \<open>dir\<close> the top directory and \<open>cwd\<close> the working directory:
  an existing file is kept, unless there is wallet data beside it, which is an error.
\<close>

definition created_members ::
  "config_ext \<Rightarrow> chain_type \<Rightarrow> string \<Rightarrow> wallet_config option \<Rightarrow> logging_config option \<Rightarrow> tor_config option \<Rightarrow> config_members" where
  "created_members C chain file wallet logging tor =
     (let m = gc_members (for_chain (k_logging C) chain file)
      in \<lparr>cm_config_file_version = cm_config_file_version m,
          cm_wallet = (case wallet of Some w \<Rightarrow> w | None \<Rightarrow> cm_wallet m),
          cm_tor = (case tor of Some t \<Rightarrow> Some t | None \<Rightarrow> cm_tor m),
          cm_logging = (case logging of Some l \<Rightarrow> Some l | None \<Rightarrow> cm_logging m)\<rparr>)"

text \<open>\<open>PathBuf::push\<close>: an absolute path takes the place of what is there.\<close>

definition path_join :: "string \<Rightarrow> string \<Rightarrow> string" where
  "path_join d p = (if starts_with p ''/'' then p else path_push d p)"

text \<open>The directory is made, and the paths are set, only where it was missing.\<close>

definition paths_for_new_dir ::
  "string \<Rightarrow> string \<Rightarrow> wallet_config option \<Rightarrow> global_config \<Rightarrow> global_config cop" where
  "paths_for_new_dir cwd dir wallet g =
     sbind (sread (path_exists dir)) (\<lambda>there.
       if wallet \<noteq> None \<or> there then sret g
       else sbind (or_io_error (create_dir_all dir)) (\<lambda>_.
              slift (update_paths (path_join cwd dir) (path_join cwd dir) g)))"

definition create_config ::
  "config_ext \<Rightarrow> (nat \<Rightarrow> bool) \<Rightarrow> string \<Rightarrow> string \<Rightarrow> chain_type \<Rightarrow> string \<Rightarrow> string \<Rightarrow> wallet_config option \<Rightarrow>
     logging_config option \<Rightarrow> tor_config option \<Rightarrow> (config_world, error, unit) comp" where
  "create_config C alive secret cwd chain dir file_name wallet logging tor w =
     (let file = path_push dir file_name; fs = wo_fs w;
          failed = (\<lambda>r :: unit cres. case r of Ok _ \<Rightarrow> Ok () | Panic \<Rightarrow> Panic
             | Err e \<Rightarrow> Err (Wal (Lifecycle (''Error creating config file as ('' @ file @ ''): '' @ show_config_error e))))
      in if path_exists file fs \<and> path_exists (path_push dir CONFIG_WALLET_DIR) fs
         then (Err (Wal (Lifecycle (file_name @ '' already exists in the target directory ('' @ file @
                 ''). Please remove it first''))), w)
         else if path_exists file fs then (Ok (), w)
         else (case on_files (paths_for_new_dir cwd dir wallet
                  \<lparr>gc_config_file_path = file, gc_members = created_members C chain file wallet logging tor\<rparr>) w of
             (Err _, w) \<Rightarrow> (Err (Lib (IO ''directory'')), w)
           | (Panic, w) \<Rightarrow> (Panic, w)
           | (Ok g, w) \<Rightarrow>
              (case on_files (write_to_path C (gc_members g) file False None None) w of
                 (Ok _, w) \<Rightarrow>
                   (case sbind (reload_global_config C alive file) (\<lambda>_. sret ()) w of
                      (Ok _, w) \<Rightarrow>
                        (case on_files (secret_file secret (path_push dir API_SECRET_FILE_NAME)) w of
                           (Ok _, w) \<Rightarrow> (Ok (), w) | (_, w) \<Rightarrow> (Panic, w))
                    | (r, w) \<Rightarrow> (of_config r, w))
               | (r, w) \<Rightarrow> (failed r, w))))"

section \<open>The first start\<close>

text \<open>Where the program runs: working directory, home, names of chains, and the real path of a path\<close>

record places =
  pl_cwd :: string
  pl_home :: "string option"
  pl_shortname :: "chain_type \<Rightarrow> string"
  pl_canonical :: "string \<Rightarrow> string option"

definition GRIN_HOME :: string where
  "GRIN_HOME = ''.grin''"

definition home_path :: "places \<Rightarrow> chain_type \<Rightarrow> string" where
  "home_path L chain = path_push (path_push (case pl_home L of Some h \<Rightarrow> h | None \<Rightarrow> '''') GRIN_HOME) (pl_shortname L chain)"

definition get_wallet_path :: "places \<Rightarrow> chain_type \<Rightarrow> bool \<Rightarrow> string cop" where
  "get_wallet_path L chain create_path =
     sbind (sread (path_exists (path_push (pl_cwd L) WALLET_CONFIG_FILE_NAME))) (\<lambda>here.
       if \<not> create_path \<and> here then sret (pl_cwd L)
       else
         let wallet_path = home_path L chain
         in sbind (sread (path_exists wallet_path)) (\<lambda>there.
            sbind (if \<not> there \<and> create_path then or_io_error (create_dir_all wallet_path) else sret ()) (\<lambda>_.
            sbind (sread (path_exists wallet_path)) (\<lambda>there.
              if \<not> there then sfail (PathNotFoundError wallet_path) else sret wallet_path))))"

definition get_node_path :: "places \<Rightarrow> string option \<Rightarrow> chain_type \<Rightarrow> filesys \<Rightarrow> string" where
  "get_node_path L data_path chain fs = (case data_path of
     Some path \<Rightarrow>
       (let node_path = path_push (path_push path GRIN_HOME) (pl_shortname L chain)
        in if path_exists (path_push node_path API_SECRET_FILE_NAME) fs then node_path else home_path L chain)
   | None \<Rightarrow> home_path L chain)"

definition fixed_path :: "places \<Rightarrow> string \<Rightarrow> bool \<Rightarrow> string cop" where
  "fixed_path L p create_path =
     (let fixed = map (\<lambda>c. if c = CHR 0x5C then CHR ''/'' else c) p
      in sbind (if create_path then or_io_error (create_dir_all fixed) else sret ()) (\<lambda>_.
         sbind (slift (ok_or io_error (pl_canonical L (path_join (pl_cwd L) fixed)))) (\<lambda>absolute.
           sret (str_replace [CHR 0x5C, CHR 0x5C, CHR ''?'', CHR 0x5C] '''' absolute))))"

text \<open>The configuration of the start: the one of the file, or a new one that is written\<close>

definition start_config :: "config_ext \<Rightarrow> places \<Rightarrow> chain_type \<Rightarrow> string \<Rightarrow> bool \<Rightarrow> global_config cop" where
  "start_config C L chain wallet_path create_path =
     (let config_path = path_push wallet_path WALLET_CONFIG_FILE_NAME;
          data_dir = path_push wallet_path CONFIG_WALLET_DIR
      in sbind (sread (get_node_path L (Some wallet_path) chain)) (\<lambda>node_path.
         sbind (sread (path_exists config_path)) (\<lambda>there.
           if \<not> there then
             sbind (slift (update_paths wallet_path node_path (for_chain (k_logging C) chain config_path))) (\<lambda>g fs.
               case write_to_path C (gc_members g) config_path False None None fs of
                 (Ok _, fs') \<Rightarrow> (Ok g, fs')
               | (Err e, fs') \<Rightarrow> (Err (SerializationError (''Error creating config file as ('' @ config_path @ ''): '' @
                    show_config_error e)), fs')
               | (Panic, fs') \<Rightarrow> (Panic, fs'))
           else
             sbind (sread (path_exists data_dir)) (\<lambda>data.
               if data \<and> create_path
               then sfail (SerializationError (config_path @ '' already exists in the target directory ('' @ data_dir @
                      ''). Please remove it first''))
               else config_new C config_path))))"

definition initial_setup_wallet ::
  "config_ext \<Rightarrow> (nat \<Rightarrow> bool) \<Rightarrow> places \<Rightarrow> string \<times> string \<Rightarrow> chain_type \<Rightarrow> string option \<Rightarrow> bool \<Rightarrow> global_config wcop" where
  "initial_setup_wallet C alive L secrets chain data_path create_path =
     sbind (on_files (case data_path of
         Some p \<Rightarrow> fixed_path L p create_path | None \<Rightarrow> get_wallet_path L chain create_path)) (\<lambda>wallet_path.
     sbind (on_files (start_config C L chain wallet_path create_path)) (\<lambda>g.
     sbind (smodify (set_global_config alive g)) (\<lambda>_.
     sbind (on_files (secret_file (fst secrets) (path_push wallet_path OWNER_API_SECRET_FILE_NAME))) (\<lambda>_.
     sbind (on_files (secret_file (snd secrets) (path_push wallet_path API_SECRET_FILE_NAME))) (\<lambda>_.
       sret g)))))"

end
