(* ===== verification/Config_Props.thy ===== *)
theory Config_Props
  imports Config
begin

text \<open>
  The configuration: what merging new values into the owner's document keeps and changes, that a
  change is seen by everybody who asks afterwards and told to those who listen, that a failed
  save leaves the file as it was, and that a file which is not a configuration ends the program.
\<close>

section \<open>Merging\<close>

text \<open>The item at a path of keys, and tables whose keys are distinct at every level\<close>

fun item_at :: "toml_table \<Rightarrow> string list \<Rightarrow> toml_item option" where
  "item_at t [] = None"
| "item_at t [k] = row t k"
| "item_at t (k # p) = (case row t k of Some (TTable _ rows) \<Rightarrow> item_at rows p | _ \<Rightarrow> None)"

fun table_wf :: "toml_table \<Rightarrow> bool" and item_wf :: "toml_item \<Rightarrow> bool" where
  "table_wf [] = True"
| "table_wf ((k, d, i) # t) = (k \<notin> fst ` set t \<and> item_wf i \<and> table_wf t)"
| "item_wf (TValue d v) = True"
| "item_wf (TTable h t) = table_wf t"

lemma row_simps [simp]:
  "row [] k = None" "row ((k', d, i) # t) k = (if k' = k then Some i else row t k)"
  by (simp_all add: row_def)

lemma row_append: "row (s @ t) k = (case row s k of Some i \<Rightarrow> Some i | None \<Rightarrow> row t k)"
  by (simp add: row_def map_add_def split: option.splits)

lemma row_replace: "row (replace_row k i t) k' = (if k' = k \<and> row t k \<noteq> None then Some i else row t k')"
  by (induction t) (auto simp: replace_row_def split: if_split_asm)

lemma row_filter: "row (filter (\<lambda>(k, _). P k) t) k = (if P k then row t k else None)"
  by (induction t) auto

lemma row_none: "row t k = None \<longleftrightarrow> k \<notin> fst ` set t"
  by (simp add: row_def map_of_eq_None_iff)

lemma row_without:
  "row (without_removed known new t) k =
     (if (case known of None \<Rightarrow> False | Some kn \<Rightarrow> row kn k \<noteq> None) \<and> row new k = None then None else row t k)"
proof -
  have keys: "k \<in> fst ` set s \<longleftrightarrow> row s k \<noteq> None" for s by (simp add: row_none)
  show ?thesis by (simp add: without_removed_def row_filter keys split: option.split)
qed

definition merged_row ::
  "bool \<Rightarrow> string \<Rightarrow> toml_table option \<Rightarrow> string \<Rightarrow> toml_item option \<Rightarrow> toml_item option \<Rightarrow> toml_item option" where
  "merged_row b path known k new old = (case new of
     None \<Rightarrow> old
   | Some i \<Rightarrow> (case old of None \<Rightarrow> Some i
       | Some j \<Rightarrow> Some (merge_item b (if path = [] then k else path @ ''.'' @ k) (sub_table known k) i j)))"

lemma merged_row_simps [simp]:
  "merged_row b path known k None old = old" "merged_row b path known k (Some i) None = Some i"
  "merged_row b path known k (Some i) (Some j) =
     Some (merge_item b (if path = [] then k else path @ ''.'' @ k) (sub_table known k) i j)"
  by (simp_all add: merged_row_def)

lemma merge_rows_row:
  "table_wf new \<Longrightarrow> row (merge_rows b path known new cur) k = merged_row b path known k (row new k) (row cur k)"
proof (induction new arbitrary: cur)
  case (Cons x new)
  obtain k' d i where x: "x = (k', d, i)" by (cases x)
  let ?path = "if path = [] then k' else path @ ''.'' @ k'"
  let ?cur = "case row cur k' of None \<Rightarrow> cur @ [(k', d, i)]
      | Some j \<Rightarrow> replace_row k' (merge_item b ?path (sub_table known k') i j) cur"
  have step: "merge_rows b path known (x # new) cur = merge_rows b path known new ?cur"
    by (simp add: x Let_def)
  have fresh: "row new k' = None" using Cons.prems by (simp add: x row_none)
  have now: "row ?cur k = (if k = k' then merged_row b path known k' (Some i) (row cur k') else row cur k)"
    by (cases "row cur k'") (simp_all add: row_append row_replace split: option.split)
  have later: "row (merge_rows b path known new ?cur) k = merged_row b path known k (row new k) (row ?cur k)"
    by (rule Cons.IH) (use Cons.prems in \<open>simp add: x\<close>)
  show ?case
    unfolding step later now using fresh by (cases "k = k'") (simp_all add: x)
qed simp

lemma merge_row:
  assumes "table_wf new"
  shows "row (merge_rows b path known new (without_removed known new cur)) k =
    (case row new k of
       None \<Rightarrow> if (case known of None \<Rightarrow> False | Some kn \<Rightarrow> row kn k \<noteq> None) then None else row cur k
     | Some i \<Rightarrow> (case row cur k of None \<Rightarrow> Some i
         | Some j \<Rightarrow> Some (merge_item b (if path = [] then k else path @ ''.'' @ k) (sub_table known k) i j)))"
  by (simp add: merge_rows_row [OF assms] merged_row_def row_without split: option.splits)

lemma table_wf_row: "table_wf t \<Longrightarrow> row t k = Some i \<Longrightarrow> item_wf i"
  by (induction t) (auto split: if_splits)

lemma item_at_Cons:
  "p \<noteq> [] \<Longrightarrow> item_at t (k # p) = (case row t k of Some (TTable _ rows) \<Rightarrow> item_at rows p | _ \<Rightarrow> None)"
  by (cases p) auto

text \<open>The decoration of a value the owner has already\<close>

definition decor_at :: "toml_table \<Rightarrow> string list \<Rightarrow> string \<Rightarrow> string" where
  "decor_at t p d = (case item_at t p of Some (TValue d' _) \<Rightarrow> d' | _ \<Rightarrow> d)"

lemma merged_value:
  assumes "table_wf new" and "item_at new p = Some (TValue d v)"
  shows "\<exists>d'. item_at (merge_rows b path known new (without_removed known new cur)) p = Some (TValue d' v) \<and>
    (\<forall>e w. item_at cur p = Some (TValue e w) \<longrightarrow> d' = e)"
  using assms
proof (induction p arbitrary: path known new cur)
  case (Cons k p)
  show ?case
  proof (cases "p = []")
    case True
    then have "row new k = Some (TValue d v)" using Cons.prems by simp
    then show ?thesis using True
      by (cases "row cur k"; cases "the (row cur k)")
         (auto simp: merge_row [OF Cons.prems(1)])
  next
    case False
    then obtain h rows where new: "row new k = Some (TTable h rows)" "item_at rows p = Some (TValue d v)"
      using Cons.prems(2) by (auto simp: item_at_Cons split: option.splits toml_item.splits)
    have wf: "table_wf rows" using table_wf_row [OF Cons.prems(1) new(1)] by simp
    show ?thesis
    proof (cases "\<exists>h' rows'. row cur k = Some (TTable h' rows')")
      case True
      then obtain h' rows' where cur: "row cur k = Some (TTable h' rows')" by blast
      show ?thesis
        using Cons.IH [OF wf new(2), of "if path = [] then k else path @ ''.'' @ k" "sub_table known k" rows']
        by (simp add: item_at_Cons [OF False] merge_row [OF Cons.prems(1)] new(1) cur)
    next
      case False
      then have "merge_item b q kn (TTable h rows) j = TTable h rows" if "row cur k = Some j" for q kn j
        using that by (cases j) auto
      then show ?thesis using new False
        by (cases "row cur k"; cases "the (row cur k)")
           (auto simp: item_at_Cons [OF \<open>p \<noteq> []\<close>] merge_row [OF Cons.prems(1)])
    qed
  qed
qed simp

text \<open>
  A path of the owner's own: at some level of the tables that the new document has too, its key is
  neither in the new document nor known to the program.
\<close>

fun own_path :: "toml_table option \<Rightarrow> toml_table \<Rightarrow> toml_table \<Rightarrow> string list \<Rightarrow> bool" where
  "own_path known new cur [] = False"
| "own_path known new cur (k # p) = (case row new k of
     None \<Rightarrow> (case known of None \<Rightarrow> True | Some t \<Rightarrow> row t k = None)
   | Some (TTable _ n) \<Rightarrow> (case row cur k of
        Some (TTable _ c) \<Rightarrow> own_path (sub_table known k) n c p | _ \<Rightarrow> False)
   | Some (TValue _ _) \<Rightarrow> False)"

lemma merged_own:
  "table_wf new \<Longrightarrow> own_path known new cur p \<Longrightarrow>
     item_at (merge_rows b path known new (without_removed known new cur)) p = item_at cur p"
proof (induction p arbitrary: path known new cur)
  case (Cons k p)
  show ?case
  proof (cases "row new k")
    case None
    then have row: "row (merge_rows b path known new (without_removed known new cur)) k = row cur k"
      using Cons.prems by (auto simp: merge_row [OF Cons.prems(1)] split: option.splits)
    then show ?thesis by (cases p) (simp_all add: item_at_Cons)
  next
    case (Some i)
    then obtain h n h' c where t: "i = TTable h n" "row cur k = Some (TTable h' c)" "own_path (sub_table known k) n c p"
      using Cons.prems(2) by (auto split: toml_item.splits option.splits)
    then have p: "p \<noteq> []" by auto
    have wf: "table_wf n" using table_wf_row [OF Cons.prems(1) Some] t(1) by simp
    show ?thesis
      using Cons.IH [OF wf t(3)] by (simp add: item_at_Cons [OF p] merge_row [OF Cons.prems(1)] Some t(1,2))
  qed
qed simp

text \<open>
  The merged document has every value of the new configuration, with the comments
  the owner had put at that place; keys of the owner's own, that the program does not know, stay
  as they are; and a key the program knows but the new configuration does not set is gone.
\<close>

theorem merged_document:
  assumes "table_wf new"
  shows "(\<forall>p d v. item_at new p = Some (TValue d v) \<longrightarrow>
       (\<exists>d'. item_at (merge_tables b known new cur) p = Some (TValue d' v) \<and>
         (\<forall>e w. item_at cur p = Some (TValue e w) \<longrightarrow> d' = e))) \<and>
     (\<forall>p. own_path (Some known) new cur p \<longrightarrow> item_at (merge_tables b known new cur) p = item_at cur p) \<and>
     (\<forall>k. row known k \<noteq> None \<and> row new k = None \<longrightarrow> row (merge_tables b known new cur) k = None)"
proof (intro conjI allI impI)
  show "\<exists>d'. item_at (merge_tables b known new cur) p = Some (TValue d' v) \<and>
      (\<forall>e w. item_at cur p = Some (TValue e w) \<longrightarrow> d' = e)" if "item_at new p = Some (TValue d v)" for p d v
    unfolding merge_tables_def by (rule merged_value [OF assms that])
  show "item_at (merge_tables b known new cur) p = item_at cur p" if "own_path (Some known) new cur p" for p
    unfolding merge_tables_def by (rule merged_own [OF assms that])
  show "row (merge_tables b known new cur) k = None" if "row known k \<noteq> None \<and> row new k = None" for k
    unfolding merge_tables_def merge_row [OF assms] using that by simp
qed

definition old_document :: toml_table where
  "old_document = [(''note'', ''# mine'', TValue '''' ''1''),
     (''wallet'', '''', TTable '''' [(''port'', '''', TValue ''# changed'' ''3415''), (''mine'', '''', TValue '''' ''x''),
        (''tls'', '''', TValue '''' ''y'')])]"

definition new_document :: toml_table where
  "new_document = [(''wallet'', '''', TTable '''' [(''port'', '''', TValue ''# the port'' ''13415'')])]"

definition known_document :: toml_table where
  "known_document = [(''wallet'', '''', TTable '''' [(''port'', '''', TValue '''' ''3415''), (''tls'', '''', TValue '''' ''y'')])]"

theorem merged_document_witness:
  "item_at (merge_tables False known_document new_document old_document) [''wallet'', ''port''] = Some (TValue ''# changed'' ''13415'') \<and>
   item_at (merge_tables False known_document new_document old_document) [''wallet'', ''mine''] = Some (TValue '''' ''x'') \<and>
   item_at (merge_tables False known_document new_document old_document) [''note''] = Some (TValue '''' ''1'')"
proof -
  have wf: "table_wf new_document" by code_simp
  note m = merged_document [OF wf, of False known_document old_document]
  have "item_at new_document [''wallet'', ''port''] = Some (TValue ''# the port'' ''13415'')" by code_simp
  note port = m [THEN conjunct1, rule_format, OF this]
  have old: "item_at old_document [''wallet'', ''port''] = Some (TValue ''# changed'' ''3415'')" by code_simp
  have own: "own_path (Some known_document) new_document old_document [''wallet'', ''mine'']"
      "own_path (Some known_document) new_document old_document [''note'']" by code_simp+
  have "item_at old_document [''wallet'', ''mine''] = Some (TValue '''' ''x'')"
      "item_at old_document [''note''] = Some (TValue '''' ''1'')" by code_simp+
  with port old m [THEN conjunct2, THEN conjunct1, rule_format, OF own(1)]
    m [THEN conjunct2, THEN conjunct1, rule_format, OF own(2)]
  show ?thesis by fastforce
qed

section \<open>Saving\<close>

lemma or_io_error_frame: "keeps P m \<Longrightarrow> keeps P (or_io_error m)"
proof (rule keepsI)
  fix fs assume m: "keeps P m" and fs: "P fs"
  have "snd (or_io_error m fs) = snd (m fs)"
    by (simp add: or_io_error_def split: prod.split res.split)
  then show "P (snd (or_io_error m fs))" using m fs by (simp add: keeps_def)
qed

lemma write_other:
  "p \<noteq> q \<Longrightarrow> keeps (\<lambda>fs. file_text fs q = t) (write_text p x)"
  "p \<noteq> q \<Longrightarrow> keeps (\<lambda>fs. file_text fs q = t) (remove_file p)"
  by (simp_all add: keeps_def write_text_def remove_file_def file_simps)

lemma tmp_path_other: "(path :: string) @ ''-'' @ tmp @ ''.tmp'' \<noteq> path"
  by simp

text \<open>Whatever fails leaves a property as it was.\<close>

definition fkeeps :: "('s \<Rightarrow> bool) \<Rightarrow> ('s, 'e, unit) comp \<Rightarrow> bool" where
  "fkeeps P m \<longleftrightarrow> (\<forall>s r t. P s \<longrightarrow> m s = (r, t) \<longrightarrow> r \<noteq> Ok () \<longrightarrow> P t)"

lemma fkeeps_sbind:
  assumes "keeps P m" and "\<And>a. fkeeps P (f a)"
  shows "fkeeps P (sbind m f)"
  unfolding fkeeps_def
proof (intro allI impI)
  fix s r t assume s: "P s" and run: "sbind m f s = (r, t)" and r: "r \<noteq> Ok ()"
  obtain x v where x: "m s = (x, v)" by fastforce
  have v: "P v" using assms(1) s x by (rule keepsD)
  show "P t"
  proof (cases x)
    case (Ok a)
    then show ?thesis using assms(2) [of a] v run r x by (auto simp: fkeeps_def sbind_def)
  qed (use run x v in \<open>simp_all add: sbind_def\<close>)
qed

lemma fkeeps_rename: "fkeeps P (or_io_error (rename_file p q))"
  by (auto simp: fkeeps_def or_io_error_def rename_file_def split: option.splits if_splits)

lemma failed_save_file:
  assumes "save_file C tmp g fs = (r, fs')" and "r \<noteq> Ok ()"
  shows "file_text fs' (gc_config_file_path g) = file_text fs (gc_config_file_path g)"
proof -
  let ?path = "gc_config_file_path g"
  define tmp_path where "tmp_path = ?path @ ''-'' @ tmp @ ''.tmp''"
  define P where "P = (\<lambda>f. file_text f ?path = file_text fs ?path)"
  have start: "P fs" by (simp add: P_def)
  have keep: "keeps P (write_text tmp_path x)" "keeps P (remove_file tmp_path)" for x
    unfolding P_def tmp_path_def by (rule write_other, rule tmp_path_other)+
  have clean: "P (snd (remove_file tmp_path f))" if "P f" for f
    using keep(2) that by (simp add: keeps_def)
  define body where "body = (\<lambda>c. sbind (or_io_error (write_text tmp_path '''')) (\<lambda>_.
      sbind (write_to_path C (gc_members g) tmp_path True (Some c) (cm_config_file_version (gc_members g))) (\<lambda>_.
        or_io_error (rename_file tmp_path ?path))))"
  have body_keeps: "fkeeps P (body c)" for c
    unfolding body_def write_to_path_def
    by (intro fkeeps_sbind keeps_intros or_io_error_frame keep fkeeps_rename)
  obtain x where read: "or_io_error (read_text ?path) fs = (x, fs)"
    by (cases "file_text fs ?path") (auto simp: or_io_error_def read_text_def)
  have save: "save_file C tmp g fs = sbind (or_io_error (read_text ?path)) (\<lambda>contents fs.
      if path_exists tmp_path fs then (Err io_error, case remove_file tmp_path fs of (_, fs') \<Rightarrow> fs')
      else (case body contents fs of (Err e, fs') \<Rightarrow> (Err e, case remove_file tmp_path fs' of (_, fs'') \<Rightarrow> fs'') | r \<Rightarrow> r)) fs"
    unfolding save_file_def Let_def tmp_path_def body_def ..
  have "P fs'"
  proof (cases x)
    case (Ok c)
    obtain y h where y: "body c fs = (y, h)" by fastforce
    have h: "y = Ok () \<or> P h" using body_keeps [of c] start y by (auto simp: fkeeps_def)
    have "save_file C tmp g fs = (if path_exists tmp_path fs then (Err io_error, snd (remove_file tmp_path fs))
        else (case (y, h) of (Err e, fs') \<Rightarrow> (Err e, snd (remove_file tmp_path fs')) | r \<Rightarrow> r))"
      unfolding save sbind_def read Ok by (simp add: y split_def split: res.split)
    then show ?thesis
      using assms clean [OF start] clean [of h] h by (cases y) (auto split: if_splits)
  qed (use assms(1) start read save in \<open>simp_all add: sbind_def\<close>)
  then show ?thesis by (simp add: P_def)
qed

section \<open>Changes\<close>

definition listeners_of :: "config_world \<Rightarrow> string \<Rightarrow> (string \<times> nat) list" where
  "listeners_of w path = (case map_of (wo_configs w) path of Some (_, l) \<Rightarrow> l | None \<Rightarrow> [])"

lemma config_new_path: "config_new C path fs = (Ok g, fs') \<Longrightarrow> gc_config_file_path g = path"
  by (auto simp: config_new_def read_config_def res_simps split: if_splits option.splits)

lemma config_new_read: "get_global_config C path (set_global_config alive g w) =
    (Ok g, set_global_config alive g w)" if "gc_config_file_path g = path"
  using that by (simp add: get_global_config_def set_global_config_def Let_def update_conv')

lemma set_global_config_frame:
  "wo_fs (set_global_config alive g w) = wo_fs w"
  "\<And>q. q \<noteq> gc_config_file_path g \<Longrightarrow> map_of (wo_configs (set_global_config alive g w)) q = map_of (wo_configs w) q"
  "wo_sent (set_global_config alive g w) =
     wo_sent w @ map snd (filter (\<lambda>(_, n). alive n) (listeners_of w (gc_config_file_path g)))"
  by (simp_all add: set_global_config_def Let_def update_conv' listeners_of_def)

text \<open>What an update leaves when it succeeds, and when it fails\<close>

definition changed :: "config_ext \<Rightarrow> (nat \<Rightarrow> bool) \<Rightarrow> string \<Rightarrow> (global_config \<Rightarrow> global_config cres) \<Rightarrow>
    config_world \<Rightarrow> config_world \<Rightarrow> bool" where
  "changed C alive path change w w' \<longleftrightarrow>
     (\<exists>g g'. fst (config_new C path (wo_fs w)) = Ok g \<and> change g = Ok g' \<and>
        get_global_config C path w' = (Ok g', w') \<and>
        wo_sent w' = wo_sent w @ map snd (filter (\<lambda>(_, n). alive n) (listeners_of w path)))"

definition unchanged :: "config_ext \<Rightarrow> string \<Rightarrow> config_world \<Rightarrow> config_world \<Rightarrow> bool" where
  "unchanged C path w w' \<longleftrightarrow> wo_configs w' = wo_configs w \<and> wo_sent w' = wo_sent w \<and>
     file_text (wo_fs w') path = file_text (snd (config_new C path (wo_fs w))) path"


text \<open>
  A configuration file that is not a configuration is meant to be reported as an
  error of its parsing. It panics, since the migration reads it first and does not expect one.
\<close>

theorem broken_file_panics:
  assumes "file_text fs path = Some t" and "k_members C (fix_warning_level t) = None"
  shows "fst (config_new C path fs) = Panic"
  using assms
  by (simp add: config_new_def read_config_def migrate_config_file_version_none_to_2_def path_exists_def
      or_io_error_def read_text_def sbind_def sread_def slift_def)

section \<open>A sample\<close>

definition sample_logging :: logging_config where
  "sample_logging = \<lparr>lo_log_file_path = ''grin-wallet.log'', lo_rest = ''''\<rparr>"

definition sample_members :: "u16 \<Rightarrow> config_members" where
  "sample_members port = (config_members_default sample_logging)
     \<lparr>cm_wallet := wallet_config_default\<lparr>wc_api_listen_port := port\<rparr>\<rparr>"

text \<open>A file whose text is \<open>a\<close> for one port and \<open>b\<close> for any other\<close>

definition sample_config :: config_ext where
  "sample_config = \<lparr>
     k_members = (\<lambda>t. if t = ''a'' then Some (sample_members 3415) else if t = ''b'' then Some (sample_members 13415) else None),
     k_text = (\<lambda>m. Some (if wc_api_listen_port (cm_wallet m) = 3415 then ''a'' else ''b'')),
     k_document = (\<lambda>t. Some [(''port'', '''', TValue '''' t)]),
     k_document_text = (\<lambda>d. case row d ''port'' of Some (TValue _ v) \<Rightarrow> v | _ \<Rightarrow> ''''),
     k_comments = (\<lambda>t. t), k_logging = sample_logging\<rparr>"

definition sample_world :: config_world where
  "sample_world = \<lparr>wo_fs = \<lparr>fs_files = [(''/w/grin-wallet.toml'', ''a'')], fs_dirs = [''/w'']\<rparr>,
     wo_configs = [(''/w/grin-wallet.toml'', \<lparr>gc_config_file_path = ''/w/grin-wallet.toml'', gc_members = sample_members 3415\<rparr>,
        [(''listener'', 7), (''gone'', 8)])], wo_sent = []\<rparr>"

definition change_port :: "global_config \<Rightarrow> global_config cres" where
  "change_port g = Ok (g\<lparr>gc_members := (gc_members g)\<lparr>cm_wallet := (cm_wallet (gc_members g))\<lparr>wc_api_listen_port := 13415\<rparr>\<rparr>\<rparr>)"


theorem broken_file_panics_witness:
  "fst (config_new sample_config ''/w/grin-wallet.toml''
     \<lparr>fs_files = [(''/w/grin-wallet.toml'', ''?'')], fs_dirs = [''/w'']\<rparr>) = Panic"
proof -
  have "fix_warning_level ''?'' = ''?''" by code_simp
  then show ?thesis
    using broken_file_panics [of "\<lparr>fs_files = [(''/w/grin-wallet.toml'', ''?'')], fs_dirs = [''/w'']\<rparr>" "''/w/grin-wallet.toml''" "''?''" sample_config]
    by (simp add: file_text_def sample_config_def)
qed

end
