(* ===== verification/Api.thy ===== *)
theory Api
  imports Config Owner Slatepacker Lifecycle
begin

text \<open>
  The Owner and Foreign interfaces (\<open>api/src/owner.rs\<close>, \<open>api/src/foreign.rs\<close>): what a client of
  the wallet calls. They run the operations of the library on the open wallet, skip refreshing
  while the background updater runs, and send slates to the other party over Tor and go on with
  what comes back. The doctest mode is not modelled.
\<close>

section \<open>State\<close>

datatype status_message =
    UpdatingOutputs string
  | UpdatingTransactions string
  | FullScanWarn string
  | Scanning string u8
  | ScanningComplete string
  | UpdateWarning string

text \<open>
  The provider with its files, the configurations in use with their listeners, the path of the
  configuration, whether the updater is to run, its messages with the newest first, and the key of
  the secure session.
\<close>

record api =
  ap_provider :: provider
  ap_configs :: "(string \<times> global_config \<times> (string \<times> nat) list) list"
  ap_sent :: "nat list"
  ap_config_path :: string
  ap_updater_running :: bool
  ap_messages :: "status_message list"
  ap_shared_key :: "secret_key option"

type_synonym 'a aop = "(api, error, 'a) comp"
type_synonym 'a alop = "api \<Rightarrow> ('a result \<times> api) option"

text \<open>The libraries a call uses, the node, the listeners that are alive, and the time\<close>

record env =
  e_ext :: ext
  e_ser :: ser_ext
  e_pack :: pack_ext
  e_seed :: seed_ext
  e_tor :: tor_ext
  e_config :: config_ext
  e_node :: node
  e_alive :: "nat \<Rightarrow> bool"
  e_now :: timestamp

definition owner_new :: "provider \<Rightarrow> string \<Rightarrow> api" where
  "owner_new p config_path = \<lparr>ap_provider = p, ap_configs = [], ap_sent = [], ap_config_path = config_path,
     ap_updater_running = False, ap_messages = [], ap_shared_key = None\<rparr>"

definition on_provider :: "'a pop \<Rightarrow> 'a aop" where
  "on_provider m a = (case m (ap_provider a) of (r, p) \<Rightarrow> (r, a\<lparr>ap_provider := p\<rparr>))"

definition on_inst :: "'a wop \<Rightarrow> 'a aop" where
  "on_inst m = on_provider (on_wallet m)"

text \<open>An operation with a loop, on the open wallet\<close>

definition on_inst_loop :: "'a lop \<Rightarrow> 'a alop" where
  "on_inst_loop m a = (case pr_backend (ap_provider a) of
     None \<Rightarrow> Some (Err (lifecycle ''Wallet has not been opened''), a)
   | Some (d, w) \<Rightarrow> map_option (\<lambda>(r, w'). (r, a\<lparr>ap_provider := (ap_provider a)\<lparr>pr_backend := Some (d, w')\<rparr>\<rparr>)) (m w))"

definition open_inst :: "api \<Rightarrow> wallet option" where
  "open_inst a = map_option snd (pr_backend (ap_provider a))"

text \<open>A call that first tests the mask, as the interface does to be consistent\<close>

definition tested :: "env \<Rightarrow> secret_key option \<Rightarrow> 'a wop \<Rightarrow> 'a aop" where
  "tested E km m = on_inst (sbind (the_keychain (e_ext E) km) (\<lambda>_. m))"

section \<open>The configuration\<close>

text \<open>An operation on the configurations, with the files of the provider\<close>

definition on_configs :: "(config_world, 'e, 'a) comp \<Rightarrow> api \<Rightarrow> ('e, 'a) res \<times> api" where
  "on_configs m a =
     (case m \<lparr>wo_fs = pr_fs (ap_provider a), wo_configs = ap_configs a, wo_sent = ap_sent a\<rparr> of
        (r, w) \<Rightarrow> (r, a\<lparr>ap_provider := (ap_provider a)\<lparr>pr_fs := wo_fs w\<rparr>, ap_configs := wo_configs w,
                      ap_sent := wo_sent w\<rparr>))"

definition load_tor_config :: "env \<Rightarrow> tor_config aop" where
  "load_tor_config E a =
     (case on_configs (get_global_config (e_config E) (ap_config_path a)) a of
        (r, a') \<Rightarrow> (rbind (of_config r) (\<lambda>g. Ok (config_tor g)), a'))"

text \<open>The change of the Tor section: the one given, or else the listener and sending off\<close>

definition change_tor :: "tor_config option \<Rightarrow> global_config \<Rightarrow> global_config cres" where
  "change_tor new_config g =
     (let t = (case new_config of
           Some t \<Rightarrow> t
         | None \<Rightarrow> (config_tor g)\<lparr>tc_use_tor_listener := False, tc_skip_send_attempt := Some True\<rparr>)
      in Ok (g\<lparr>gc_members := (gc_members g)\<lparr>cm_tor := Some t\<rparr>\<rparr>))"

definition set_tor_config :: "env \<Rightarrow> string \<Rightarrow> tor_config option \<Rightarrow> unit aop" where
  "set_tor_config E tmp new_config a =
     (case on_configs (update_global_config (e_config E) (e_alive E) tmp (ap_config_path a) (change_tor new_config)) a of
        (Ok _, a') \<Rightarrow> (Ok (), a')
      | (Err e, a') \<Rightarrow> (Err (Com (TorConfig (show_config_error e))), a')
      | (Panic, a') \<Rightarrow> (Panic, a'))"

section \<open>Accounts and queries\<close>

definition api_accounts :: "env \<Rightarrow> secret_key option \<Rightarrow> acct_path_mapping list aop" where
  "api_accounts E km = tested E km (sread (\<lambda>w. acct_path_iter (w_db w)))"

definition api_create_account_path :: "env \<Rightarrow> secret_key option \<Rightarrow> string \<Rightarrow> ident aop" where
  "api_create_account_path E km label = on_inst (create_account_path (e_ext E) km label)"

definition api_set_active_account :: "env \<Rightarrow> secret_key option \<Rightarrow> string \<Rightarrow> unit aop" where
  "api_set_active_account E km label = tested E km (set_active_account label)"

text \<open>No refreshing while the updater runs\<close>

definition refreshing :: "api \<Rightarrow> bool \<Rightarrow> bool" where
  "refreshing a refresh_from_node = (if ap_updater_running a then False else refresh_from_node)"

definition api_retrieve_outputs ::
  "env \<Rightarrow> secret_key option \<Rightarrow> bool \<Rightarrow> bool \<Rightarrow> u32 option \<Rightarrow> (bool \<times> output_commit_mapping list) alop" where
  "api_retrieve_outputs E km include_spent refresh_from_node tx_id a =
     on_inst_loop (owner_retrieve_outputs (e_ext E) (e_node E) (e_now E) km include_spent
       (refreshing a refresh_from_node) tx_id) a"

definition api_estimate_max_sendable ::
  "env \<Rightarrow> secret_key option \<Rightarrow> bool \<Rightarrow> u64 \<Rightarrow> (bool \<times> u64 \<times> u64 \<times> u32) alop" where
  "api_estimate_max_sendable E km refresh_from_node minimum_confirmations a =
     on_inst_loop (estimate_max_sendable (e_ext E) (e_node E) (e_now E) km
       (refreshing a refresh_from_node) minimum_confirmations) a"

definition api_retrieve_txs ::
  "env \<Rightarrow> secret_key option \<Rightarrow> bool \<Rightarrow> u32 option \<Rightarrow> uuid option \<Rightarrow> retrieve_tx_query_args option \<Rightarrow>
     (bool \<times> tx_log_entry list) alop" where
  "api_retrieve_txs E km refresh_from_node tx_id tx_slate_id query_args a =
     on_inst_loop (owner_retrieve_txs (e_ext E) (e_node E) (e_now E) km
       (refreshing a refresh_from_node) tx_id tx_slate_id query_args) a"

text \<open>The middle component says whether refreshing was asked for and skipped.\<close>

definition api_retrieve_summary_info_with_refresh_status ::
  "env \<Rightarrow> secret_key option \<Rightarrow> bool \<Rightarrow> u64 \<Rightarrow> (bool \<times> bool \<times> wallet_info) alop" where
  "api_retrieve_summary_info_with_refresh_status E km refresh_from_node minimum_confirmations a =
     (let refresh_skipped = refresh_from_node \<and> ap_updater_running a in
      on_inst_loop (lbind (Owner.retrieve_summary_info (e_ext E) (e_node E) (e_now E) km
          (refresh_from_node \<and> \<not> refresh_skipped) minimum_confirmations) (\<lambda>(updated, info).
        lret (updated, refresh_skipped, info))) a)"

definition api_retrieve_summary_info ::
  "env \<Rightarrow> secret_key option \<Rightarrow> bool \<Rightarrow> u64 \<Rightarrow> (bool \<times> wallet_info) alop" where
  "api_retrieve_summary_info E km refresh_from_node minimum_confirmations a =
     map_option (\<lambda>(r, a'). (rbind r (\<lambda>(updated, _, info). Ok (updated, info)), a'))
       (api_retrieve_summary_info_with_refresh_status E km refresh_from_node minimum_confirmations a)"

definition api_cancel_tx :: "env \<Rightarrow> secret_key option \<Rightarrow> u32 option \<Rightarrow> uuid option \<Rightarrow> unit alop" where
  "api_cancel_tx E km tx_id tx_slate_id =
     on_inst_loop (owner_cancel_tx (e_ext E) (e_node E) (e_now E) km tx_id tx_slate_id)"

definition api_get_stored_tx :: "env \<Rightarrow> secret_key option \<Rightarrow> u32 option \<Rightarrow> uuid option \<Rightarrow> slate option aop" where
  "api_get_stored_tx E km tx_id slate_id = tested E km (owner_get_stored_tx (e_ext E) tx_id slate_id)"

definition api_get_rewind_hash :: "env \<Rightarrow> secret_key option \<Rightarrow> string aop" where
  "api_get_rewind_hash E km = on_inst (get_rewind_hash (e_ext E) km)"

definition api_scan_rewind_hash :: "env \<Rightarrow> string \<Rightarrow> u64 option \<Rightarrow> view_wallet alop" where
  "api_scan_rewind_hash E rewind_hash start_height =
     on_inst_loop (scan_rewind_hash (e_ext E) (e_node E) rewind_hash start_height)"

definition api_scan :: "env \<Rightarrow> secret_key option \<Rightarrow> u64 option \<Rightarrow> bool \<Rightarrow> unit alop" where
  "api_scan E km start_height delete_unconfirmed =
     on_inst_loop (owner_scan (e_ext E) (e_node E) (e_now E) km start_height delete_unconfirmed)"

definition api_node_height :: "env \<Rightarrow> secret_key option \<Rightarrow> node_height_result alop" where
  "api_node_height E km =
     on_inst_loop (lbind (lwop (the_keychain (e_ext E) km)) (\<lambda>_. node_height (e_ext E) (e_node E) (e_now E) km))"

definition api_retrieve_payment_proof ::
  "env \<Rightarrow> secret_key option \<Rightarrow> bool \<Rightarrow> u32 option \<Rightarrow> uuid option \<Rightarrow> payment_proof alop" where
  "api_retrieve_payment_proof E km refresh_from_node tx_id tx_slate_id a =
     on_inst_loop (retrieve_payment_proof (e_ext E) (e_node E) (e_now E) km
       (refreshing a refresh_from_node) tx_id tx_slate_id) a"

definition api_verify_payment_proof :: "env \<Rightarrow> secret_key option \<Rightarrow> payment_proof \<Rightarrow> (bool \<times> bool) aop" where
  "api_verify_payment_proof E km p = on_inst (verify_payment_proof (e_ext E) (e_node E) km p)"

definition api_build_output :: "env \<Rightarrow> secret_key option \<Rightarrow> output_features \<Rightarrow> u64 \<Rightarrow> built_output aop" where
  "api_build_output E km features amount = on_inst (owner_build_output (e_ext E) km features amount)"

section \<open>Sending and paying\<close>

text \<open>The destination of the arguments, if there is one\<close>

definition destination :: "ext \<Rightarrow> init_tx_send_args option \<Rightarrow> slatepack_address option result" where
  "destination X send_args = (case send_args of
     Some sa \<Rightarrow> if isa_dest sa \<noteq> '''' then rbind (address_of_string X (isa_dest sa)) (\<lambda>d. Ok (Some d)) else Ok None
   | None \<Rightarrow> Ok None)"

definition api_tx_lock_outputs :: "env \<Rightarrow> secret_key option \<Rightarrow> slate \<Rightarrow> unit aop" where
  "api_tx_lock_outputs E km s = on_inst (tx_lock_outputs (e_ext E) (e_node E) (e_now E) km s)"

definition api_finalize_tx :: "env \<Rightarrow> secret_key option \<Rightarrow> draw \<times> uuid \<Rightarrow> slate \<Rightarrow> slate aop" where
  "api_finalize_tx E km d s =
     on_inst (finalize_tx (e_ext E) (e_node E) (e_now E) km (fst d) (snd d) s False)"

definition api_post_tx :: "env \<Rightarrow> secret_key option \<Rightarrow> slate \<Rightarrow> bool \<Rightarrow> unit aop" where
  "api_post_tx E km s fluff =
     sbind (tested E km (sret ())) (\<lambda>_. slift (rbind (tx_or_err s) (\<lambda>tx. post_tx (e_node E) tx fluff)))"

text \<open>The Tor configuration, loaded when there are arguments for sending\<close>

definition sending_config :: "env \<Rightarrow> init_tx_send_args option \<Rightarrow> tor_config option aop" where
  "sending_config E send_args = (case send_args of
     None \<Rightarrow> sret None
   | Some _ \<Rightarrow> sbind (load_tor_config E) (\<lambda>tc. sret (Some tc)))"

text \<open>
  What is done with a slate after it is made, when it is to be sent: nothing, unless the
  configuration lets it be sent and there is a destination. Where sending fails, the slate as it
  was made is the result.
\<close>

definition synchronously ::
  "env \<Rightarrow> init_tx_send_args option \<Rightarrow> tor_config option \<Rightarrow> slatepack_address option \<Rightarrow> bool \<Rightarrow> slate \<Rightarrow>
     (init_tx_send_args \<Rightarrow> slatepack_address \<Rightarrow> slate \<Rightarrow> slate aop) \<Rightarrow> slate aop" where
  "synchronously E send_args tc dest to_finalize s go_on = (case send_args of
     None \<Rightarrow> sret s
   | Some sa \<Rightarrow> (case tc of
       None \<Rightarrow> sfail (Com (TorConfig ''Tor config was not loaded with send arguments''))
     | Some c \<Rightarrow> (case dest of
         None \<Rightarrow> sret s
       | Some a \<Rightarrow>
           if \<not> send_tor c (isa_skip_tor sa) then sret s
           else (case try_slatepack_sync_workflow (e_ext E) (e_tor E) s a (Some c) to_finalize of
             Ok sl \<Rightarrow> go_on sa a sl
           | Err _ \<Rightarrow> sret s
           | Panic \<Rightarrow> slift Panic))))"

text \<open>What comes back from the recipient is locked, finalised and posted.\<close>

definition finish_send ::
  "env \<Rightarrow> secret_key option \<Rightarrow> draw \<times> uuid \<Rightarrow> init_tx_send_args \<Rightarrow> slatepack_address \<Rightarrow> slate \<Rightarrow> slate aop" where
  "finish_send E km d sa a s =
     sbind (api_tx_lock_outputs E km s) (\<lambda>_.
     sbind (api_finalize_tx E km d s) (\<lambda>ret_slate.
       if isa_post_tx sa then sbind (api_post_tx E km ret_slate (isa_fluff sa)) (\<lambda>_. sret ret_slate)
       else sret ret_slate))"

definition api_init_send_tx ::
  "env \<Rightarrow> secret_key option \<Rightarrow> draw \<times> uuid \<Rightarrow> draw \<times> uuid \<Rightarrow> init_tx_args \<Rightarrow> slate aop" where
  "api_init_send_tx E km d d' args =
     sbind (slift (destination (e_ext E) (ita_send_args args))) (\<lambda>dest.
     sbind (sending_config E (ita_send_args args)) (\<lambda>tc.
     sbind (on_inst (init_send_tx (e_ext E) (e_node E) (e_now E) km (fst d) (snd d) args)) (\<lambda>s.
       synchronously E (ita_send_args args) tc dest False s (finish_send E km d'))))"

definition api_issue_invoice_tx ::
  "env \<Rightarrow> secret_key option \<Rightarrow> draw \<times> uuid \<Rightarrow> issue_invoice_tx_args \<Rightarrow> slate aop" where
  "api_issue_invoice_tx E km d args =
     on_inst (issue_invoice_tx (e_ext E) (e_node E) (e_now E) km (fst d) (snd d) args)"

text \<open>
  The slate that comes back when an invoice was paid: the entry of the wallet and a file with the
  slate as a message are brought up to date, and failures of these are only logged.
\<close>

definition quietly :: "'a aop \<Rightarrow> unit aop" where
  "quietly m a = (case m a of (Panic, a') \<Rightarrow> (Panic, a') | (_, a') \<Rightarrow> (Ok (), a'))"

definition api_create_slatepack_message ::
  "env \<Rightarrow> bytes \<Rightarrow> secret_key option \<Rightarrow> slate \<Rightarrow> u32 option \<Rightarrow> slatepack_address list \<Rightarrow> string aop" where
  "api_create_slatepack_message E seed km s sender_index recips =
     on_inst (create_slatepack_message (e_ext E) (e_ser E) (e_pack E) seed km s sender_index recips)"

definition output_slatepack_file ::
  "env \<Rightarrow> bytes \<Rightarrow> secret_key option \<Rightarrow> slate \<Rightarrow> slatepack_address option \<Rightarrow> unit aop" where
  "output_slatepack_file E seed km s dest =
     (let recips = (case dest of Some a \<Rightarrow> [a] | None \<Rightarrow> [])
      in sbind (api_create_slatepack_message E seed km s (Some 0) recips) (\<lambda>message.
         sbind (sread (\<lambda>a. pr_data_dir (ap_provider a))) (\<lambda>tld.
         let slate_dir = tld @ ''/slatepack'';
             out_file_name = slate_dir @ ''/'' @ x_uuid_str (e_ext E) (sl_id s) @ ''.'' @
               slate_state_str (sl_state s) @ ''.slatepack''
         in sbind (quietly (on_provider (with_files (Lib (IO ''directory'')) (or_io I_IO (create_dir_all slate_dir)))))
              (\<lambda>_. on_provider (with_files (Lib (IO ''file'')) (or_io I_IO (write_text out_file_name message)))))))"

definition finish_payment ::
  "env \<Rightarrow> bytes \<Rightarrow> secret_key option \<Rightarrow> init_tx_send_args \<Rightarrow> slatepack_address \<Rightarrow> slate \<Rightarrow> slate aop" where
  "finish_payment E seed km sa a s =
     sbind (quietly (on_inst (sbind (sread w_parent_key_id) (\<lambda>parent_key_id.
       update_tx_slate_state (e_ext E) km parent_key_id s)))) (\<lambda>_.
     sbind (quietly (output_slatepack_file E seed km s (Some a))) (\<lambda>_. sret s))"

definition api_process_invoice_tx ::
  "env \<Rightarrow> secret_key option \<Rightarrow> draw \<Rightarrow> bytes \<Rightarrow> slate \<Rightarrow> init_tx_args \<Rightarrow> slate aop" where
  "api_process_invoice_tx E km d seed s args =
     sbind (slift (destination (e_ext E) (ita_send_args args))) (\<lambda>dest.
     sbind (sending_config E (ita_send_args args)) (\<lambda>tc.
     sbind (on_inst (process_invoice_tx (e_ext E) (e_node E) (e_now E) km d s args False)) (\<lambda>s'.
       synchronously E (ita_send_args args) tc dest True s' (finish_payment E seed km))))"

section \<open>The life of the wallet\<close>

definition api_get_top_level_directory :: "api \<Rightarrow> string" where
  "api_get_top_level_directory a = get_top_level_directory (ap_provider a)"

definition api_set_top_level_directory :: "env \<Rightarrow> string \<Rightarrow> unit aop" where
  "api_set_top_level_directory E dir a =
     (if ap_updater_running a then
        (Err (Wal (Lifecycle ''Stop the updater before changing the top-level directory'')), a)
      else if pr_backend (ap_provider a) \<noteq> None then
        (Err (Wal (Lifecycle ''Close the wallet before changing the top-level directory'')), a)
      else
        let config_path = path_push dir WALLET_CONFIG_FILE_NAME
        in sbind (if path_exists config_path (pr_fs (ap_provider a))
              then (\<lambda>a. case on_configs (reload_global_config (e_config E) (e_alive E) config_path) a of
                      (r, a') \<Rightarrow> (rbind (of_config r) (\<lambda>_. Ok ()), a'))
              else sret ()) (\<lambda>_.
           sbind (on_provider (set_top_level_directory dir)) (\<lambda>_.
             smodify (\<lambda>a. a\<lparr>ap_config_path := config_path\<rparr>))) a)"

definition api_create_config ::
  "env \<Rightarrow> string \<Rightarrow> string \<Rightarrow> chain_type \<Rightarrow> wallet_config option \<Rightarrow> logging_config option \<Rightarrow> tor_config option \<Rightarrow>
     unit aop" where
  "api_create_config E secret cwd chain wallet logging tor a =
     on_configs (create_config (e_config E) (e_alive E) secret cwd chain (pr_data_dir (ap_provider a))
       WALLET_CONFIG_FILE_NAME wallet logging tor) a"

definition api_create_wallet ::
  "env \<Rightarrow> (nat \<Rightarrow> bytes) \<Rightarrow> bytes \<times> bytes \<Rightarrow> string option \<Rightarrow> u32 \<Rightarrow> string \<Rightarrow> unit aop" where
  "api_create_wallet E draw rand mnemonic mnemonic_length password =
     on_provider (create_wallet (e_ext E) (e_seed E) draw rand mnemonic (unat mnemonic_length) password False)"

definition api_open_wallet :: "env \<Rightarrow> bool \<Rightarrow> string \<Rightarrow> secret_key option \<Rightarrow> secret_key option aop" where
  "api_open_wallet E is_testnet password kmask =
     on_provider (open_wallet (e_ext E) (e_seed E) is_testnet password kmask)"

definition api_close_wallet :: "unit aop" where
  "api_close_wallet = on_provider close_wallet"

definition api_get_mnemonic :: "env \<Rightarrow> string \<Rightarrow> string aop" where
  "api_get_mnemonic E password = on_provider (get_mnemonic (e_ext E) (e_seed E) password)"

definition api_change_password :: "env \<Rightarrow> (nat \<Rightarrow> bytes) \<Rightarrow> bytes \<times> bytes \<Rightarrow> string \<Rightarrow> string \<Rightarrow> unit aop" where
  "api_change_password E draw rand old new =
     on_provider (change_password (e_ext E) (e_seed E) draw rand old new)"

definition api_delete_wallet :: "unit aop" where
  "api_delete_wallet = on_provider delete_wallet"

section \<open>The updater's switch and messages\<close>

definition api_stop_updater :: "api \<Rightarrow> api" where
  "api_stop_updater a = a\<lparr>ap_updater_running := False\<rparr>"

definition MESSAGE_QUEUE_MAX_LEN :: nat where
  "MESSAGE_QUEUE_MAX_LEN = 10000"

text \<open>The thread that reads the messages puts the newest in front and drops the oldest.\<close>

definition queue_message :: "status_message \<Rightarrow> status_message list \<Rightarrow> status_message list" where
  "queue_message m q = take MESSAGE_QUEUE_MAX_LEN (m # q)"

text \<open>Reading takes the oldest messages, at most \<open>number\<close> of them, off the queue.\<close>

definition get_updater_messages :: "nat \<Rightarrow> api \<Rightarrow> status_message list \<times> api" where
  "get_updater_messages number a =
     (let q = ap_messages a; index = length q - number
      in (drop index q, a\<lparr>ap_messages := take index q\<rparr>))"

section \<open>Slatepacks\<close>

definition api_get_slatepack_address :: "env \<Rightarrow> secret_key option \<Rightarrow> u32 \<Rightarrow> slatepack_address aop" where
  "api_get_slatepack_address E km index = on_inst (get_slatepack_address (e_ext E) km index)"

definition api_get_slatepack_secret_key :: "env \<Rightarrow> secret_key option \<Rightarrow> u32 \<Rightarrow> bytes aop" where
  "api_get_slatepack_secret_key E km index = on_inst (get_slatepack_secret_key (e_ext E) km index)"

definition api_slate_from_slatepack_message ::
  "env \<Rightarrow> secret_key option \<Rightarrow> string \<Rightarrow> u32 list \<Rightarrow> slate aop" where
  "api_slate_from_slatepack_message E km message secret_indices =
     on_inst (slate_from_slatepack_message (e_ext E) (e_ser E) (e_pack E) km (map of_char message) secret_indices)"

definition api_decode_slatepack_message ::
  "env \<Rightarrow> secret_key option \<Rightarrow> string \<Rightarrow> u32 list \<Rightarrow> slatepack aop" where
  "api_decode_slatepack_message E km message secret_indices =
     on_inst (decode_slatepack_message (e_ext E) (e_pack E) km (map of_char message) secret_indices)"

section \<open>The Foreign interface\<close>

datatype foreign_fn = CheckVersion | BuildCoinbase | VerifySlateMessages | ReceiveTx | FinalizeTx

text \<open>The listeners' check of the versions of node and slate\<close>

definition check_middleware :: "foreign_fn \<Rightarrow> node_version_info option \<Rightarrow> slate option \<Rightarrow> unit result" where
  "check_middleware name node_version_info s = (case name of
     BuildCoinbase \<Rightarrow> Ok ()
   | _ \<Rightarrow> (let bhv = (case node_version_info of Some n \<Rightarrow> nv_block_header_version n | None \<Rightarrow> 3)
         in case s of
              Some sl \<Rightarrow> if bhv > 4 \<and> vci_block_header_version (sl_version_info sl) < GRIN_BLOCK_HEADER_VERSION
                        then Err (Slt (Compatibility (''Incoming Slate is not compatible with this wallet. '' @
                               ''Please upgrade the node or use a different one.''))) else Ok ()
            | None \<Rightarrow> Ok ()))"

type_synonym middleware = "foreign_fn \<Rightarrow> node_version_info option \<Rightarrow> slate option \<Rightarrow> unit result"

definition run_middleware ::
  "middleware option \<Rightarrow> foreign_fn \<Rightarrow> node_version_info option \<Rightarrow> slate option \<Rightarrow> unit aop" where
  "run_middleware mw name version s = on_inst (slift (case mw of
     Some m \<Rightarrow> m name version s | None \<Rightarrow> Ok ()))"

definition foreign_check_version ::
  "middleware option \<Rightarrow> node_version_info option \<Rightarrow> version_info aop" where
  "foreign_check_version mw version = (case mw of
     None \<Rightarrow> sret check_version
   | Some _ \<Rightarrow> sbind (run_middleware mw CheckVersion version None) (\<lambda>_. sret check_version))"

definition api_build_coinbase ::
  "env \<Rightarrow> middleware option \<Rightarrow> node_version_info option \<Rightarrow> secret_key option \<Rightarrow> block_fees \<Rightarrow> cb_data aop" where
  "api_build_coinbase E mw version km bf =
     sbind (run_middleware mw BuildCoinbase version None) (\<lambda>_.
       on_inst (foreign_build_coinbase (e_ext E) km bf False))"

text \<open>
  With a return address the received slate is sent back to be finalised there, and what comes
  back is the result.
\<close>

definition finish_receive ::
  "env \<Rightarrow> secret_key option \<Rightarrow> slate \<Rightarrow> slate aop" where
  "finish_receive E km s =
     sbind (quietly (on_inst (sbind (sread w_parent_key_id) (\<lambda>parent_key_id.
       update_tx_slate_state (e_ext E) km parent_key_id s)))) (\<lambda>_. sret s)"

definition api_receive_tx ::
  "env \<Rightarrow> middleware option \<Rightarrow> node_version_info option \<Rightarrow> secret_key option \<Rightarrow> draw \<Rightarrow> slate \<Rightarrow> string option \<Rightarrow>
     slatepack_address option \<Rightarrow> slate aop" where
  "api_receive_tx E mw version km d s dest_acct_name r_addr =
     sbind (case r_addr of
         None \<Rightarrow> sret None
       | Some _ \<Rightarrow> sbind (load_tor_config E) (\<lambda>tc. sret (Some tc))) (\<lambda>tor_config.
     sbind (run_middleware mw ReceiveTx version (Some s)) (\<lambda>_.
     sbind (on_inst (receive_tx (e_ext E) (e_now E) km d s dest_acct_name False)) (\<lambda>ret_slate.
       case r_addr of
         None \<Rightarrow> sret ret_slate
       | Some a \<Rightarrow> (case tor_config of
           None \<Rightarrow> sfail (Com (TorConfig ''Tor config was not loaded with a return address''))
         | Some tc \<Rightarrow>
             if \<not> send_tor tc None then sret ret_slate
             else (case try_slatepack_sync_workflow (e_ext E) (e_tor E) ret_slate a (Some tc) True of
               Ok sl \<Rightarrow> finish_receive E km sl
             | Err _ \<Rightarrow> sret ret_slate
             | Panic \<Rightarrow> slift Panic)))))"

definition foreign_finalize_tx ::
  "env \<Rightarrow> secret_key option \<Rightarrow> draw \<times> uuid \<Rightarrow> slate \<Rightarrow> bool \<Rightarrow> slate aop" where
  "foreign_finalize_tx E km d s post_automatically =
     on_inst (finalize_tx (e_ext E) (e_node E) (e_now E) km (fst d) (snd d) s post_automatically)"

end
