(* ===== verification/Exchange_Sample.thy ===== *)
theory Exchange_Sample
  imports Api Final_Props Config_Props Message_Props Lifecycle_Props
begin

text \<open>
  A sample for the interface: a wallet with three coins makes a slate, a recipient that runs the
  same program answers it, and Tor carries the one to the other. The slates and the wallet after
  the first step are written out, so that the later steps evaluate.
\<close>

definition sample_send_args :: init_tx_send_args where
  "sample_send_args = \<lparr>isa_dest = ''grin1'' @ map (\<lambda>b. char_of (unat b)) (replicate 32 (9 :: u8)), isa_post_tx = True,
     isa_fluff = False, isa_skip_tor = None\<rparr>"

definition one_call_args :: init_tx_args where
  "one_call_args = late_args\<lparr>ita_amount_includes_fee := None, ita_late_lock := None, ita_send_args := Some sample_send_args\<rparr>"

definition other_draw :: draw where
  "other_draw = \<lparr>dr_key = replicate 32 13, dr_nonce = replicate 32 17\<rparr>"

definition made_slate :: slate where
  "made_slate = (slate_blank sample_ext [7] 2 False)\<lparr>sl_tx := None, sl_amount := 400, sl_fee_fields := 47,
     sl_participant_data := [\<lparr>pd_public_blind_excess = 2 # replicate 32 3, pd_public_nonce = 2 # replicate 32 4,
        pd_part_sig = None\<rparr>]\<rparr>"

definition made_context :: "context" where
  "made_context = \<lparr>ctx_parent_key_id = w_parent_key_id sample_wallet, ctx_sec_key = replicate 32 2,
     ctx_sec_nonce = replicate 32 5, ctx_initial_sec_key = replicate 32 3, ctx_initial_sec_nonce = replicate 32 4,
     ctx_output_ids = [([3, 0, 0, 0, 0, 0, 0, 0, 0, 0, 0, 0, 0, 0, 0, 0, 0], None, 53)],
     ctx_input_ids = [([3, 0, 0, 0, 0, 0, 0, 0, 0, 0, 0, 0, 3, 0, 0, 0, 0], None, 200),
        ([3, 0, 0, 0, 0, 0, 0, 0, 0, 0, 0, 0, 2, 0, 0, 0, 0], None, 300)],
     ctx_amount = 400, ctx_fee = Some 47, ctx_payment_proof_derivation_index = None,
     ctx_late_lock_args = None, ctx_calculated_excess = None\<rparr>"

definition sending_wallet :: wallet where
  "sending_wallet = rich_wallet\<lparr>w_db := (w_db rich_wallet)\<lparr>
     db_deriv := [(w_parent_key_id sample_wallet, 1)],
     db_contexts := [([7, 0, 0, 0, 0, 0, 0, 0, 0], made_context)]\<rparr>\<rparr>"

definition made :: "slate result \<times> wallet" where
  "made = init_send_tx sample_ext quiet_node 0 None sample_draw [7] one_call_args rich_wallet"

lemma made_run:
  "init_send_tx sample_ext quiet_node 0 None sample_draw [7] one_call_args rich_wallet = (Ok made_slate, sending_wallet)"
proof -
  have eq: "(case made of (r, w) \<Rightarrow> r = Ok made_slate \<and> w_db w = w_db sending_wallet \<and> w_files w f = w_files sending_wallet f \<and>
      w_keychain w = w_keychain sending_wallet \<and> w_master_checksum w = w_master_checksum sending_wallet \<and>
      w_parent_key_id w = w_parent_key_id sending_wallet)" for f
    by code_simp
  obtain r w where m: "made = (r, w)" by (cases made)
  have "r = Ok made_slate" "w = sending_wallet"
    using eq by (auto simp: m fun_eq_iff intro!: wallet.equality)
  with m show ?thesis by (simp add: made_def)
qed

definition received_slate :: slate where
  "received_slate = made_slate\<lparr>sl_state := Standard2, sl_amount := 0, sl_fee_fields := 0,
     sl_tx := Some \<lparr>t_offset = replicate 32 0, t_inputs = FeaturesAndCommit [],
       t_outputs = [\<lparr>ou_features = OF_Plain,
         ou_commit = [8, 3, 0, 0, 0, 0, 0, 0, 0, 0, 0, 0, 0, 0, 0, 0, 0, 0, 0, 0, 0, 0, 0, 0, 1, 144, 0, 0, 0, 0, 0, 0, 0],
         ou_proof = []\<rparr>],
       t_kernels = [\<lparr>k_features = KF_Plain 47, k_excess = replicate 33 0, k_excess_sig = replicate 64 0\<rparr>]\<rparr>,
     sl_offset := 247 # replicate 31 244,
     sl_participant_data := [\<lparr>pd_public_blind_excess = 2 # replicate 32 13, pd_public_nonce = 2 # replicate 32 17,
        pd_part_sig = Some (replicate 32 13 @ replicate 32 21)\<rparr>]\<rparr>"

lemma received_run:
  "fst (receive_tx sample_ext 0 None other_draw made_slate None False sample_wallet) = Ok received_slate"
  by code_simp

text \<open>Tor that brings back the answer \<open>s\<close>\<close>

definition tor_to :: "slate \<Rightarrow> tor_ext" where
  "tor_to s = \<lparr>t_ov3_str = map (\<lambda>b. char_of (unat b)), t_start_client = (\<lambda>_. Ok ()), t_launch = (\<lambda>_ _. Ok ()),
     t_socket_addr = (\<lambda>_. True), t_proxy_post = (\<lambda>_ _ _. Ok ''''),
     t_arti_post = (\<lambda>_ _ req. Ok (case jindex req ''method'' of JStr m \<Rightarrow> m | _ \<Rightarrow> '''')),
     t_json = (\<lambda>m. Some (JObj [(''result'', JObj [(''Ok'', if m = ''check_version''
        then JObj [(''foreign_api_version'', JNum 2), (''supported_slate_versions'', JArr [JStr ''V4''])] else JNull)])])),
     t_show_json = (\<lambda>_. ''''), t_debug_text = (\<lambda>t. t), t_debug_json = (\<lambda>_. ''''), t_slate_json = (\<lambda>_. JNull),
     t_slate_of_json = (\<lambda>_. case slate_to_v4 s of Ok v \<Rightarrow> Some v | _ \<Rightarrow> None)\<rparr>"

definition env_with :: "tor_ext \<Rightarrow> env" where
  "env_with T = \<lparr>e_ext = sample_ext, e_ser = sample_ser, e_pack = sample_pack, e_seed = sample_seed_ext, e_tor = T,
     e_config = sample_config, e_node = quiet_node, e_alive = (\<lambda>_. True), e_now = 0\<rparr>"

definition api_of :: "wallet \<Rightarrow> api" where
  "api_of w = owner_new (no_wallet\<lparr>pr_backend := Some (''/w/wallet_data'', w), pr_data_dir := ''/w'',
     pr_fs := \<lparr>fs_files = [(''/w/grin-wallet.toml'', ''a'')], fs_dirs = [''/w'']\<rparr>\<rparr>) ''/w/grin-wallet.toml''"

definition other_address :: slatepack_address where
  "other_address = \<lparr>sa_hrp = ''grin'', sa_pub_key = replicate 32 9\<rparr>"

lemma env_with_simps [simp]:
  "e_ext (env_with T) = sample_ext" "e_tor (env_with T) = T" "e_node (env_with T) = quiet_node"
  "e_now (env_with T) = 0" "e_config (env_with T) = sample_config" "e_ser (env_with T) = sample_ser"
  "e_pack (env_with T) = sample_pack" "e_seed (env_with T) = sample_seed_ext" "e_alive (env_with T) = (\<lambda>_. True)"
  by (simp_all add: env_with_def)

lemma sample_destination: "destination sample_ext (Some sample_send_args) = Ok (Some other_address)"
  by code_simp

text \<open>The answer as it is read: version 4 of the slate does not carry the kernel.\<close>

definition answer_slate :: slate where
  "answer_slate = received_slate\<lparr>sl_tx := Some \<lparr>t_offset = 247 # replicate 31 244, t_inputs = FeaturesAndCommit [],
       t_outputs = t_outputs (the (sl_tx received_slate)),
       t_kernels = [\<lparr>k_features = KF_Plain 0, k_excess = 2 # replicate 32 13, k_excess_sig = replicate 64 0\<rparr>]\<rparr>\<rparr>"

lemma tor_brings_answer:
  "try_slatepack_sync_workflow sample_ext (tor_to received_slate) made_slate other_address (Some tor_config_default) False =
     Ok answer_slate"
  by code_simp

definition locked_run :: "unit result \<times> wallet" where
  "locked_run = tx_lock_outputs sample_ext quiet_node 0 None answer_slate sending_wallet"

definition final_run :: "slate result \<times> wallet" where
  "final_run = finalize_tx sample_ext quiet_node 0 None sample_draw [8] answer_slate False (snd locked_run)"

lemma locked_run_Ok: "locked_run = (Ok (), snd locked_run)"
proof -
  have "fst locked_run = Ok ()" by code_simp
  then show ?thesis by (simp add: prod_eq_iff)
qed

lemma final_run_eval:
  "case final_run of (r, w) \<Rightarrow> is_Ok r \<and> sl_state (the_Ok r) = Standard3 \<and> is_Ok (wallet_keychain sample_ext None w)"
  by code_simp

lemma final_run_Ok: "final_run = (Ok (the_Ok (fst final_run)), snd final_run)"
  using final_run_eval by (simp add: prod_eq_iff split: prod.splits)

end
