(* ===== verification/Reach.thy ===== *)
theory Reach
  imports Owner_Props Final_Props
begin

text \<open>
  A wallet in use: created or opened over its tables, and then any of the operations of the
  interfaces, in any order, with whatever libraries, node, time and randomness, and whatever they
  return: a value, an error or a panic. Each record is then filed under the key its own fields give.
\<close>

section \<open>The steps of a wallet\<close>

text \<open>What an operation leaves, when it returns at all\<close>

definition leaves :: "'a lop \<Rightarrow> wallet \<Rightarrow> wallet \<Rightarrow> bool" where
  "leaves m w w' \<longleftrightarrow> (\<exists>r. m w = Some (r, w'))"

inductive wallet_step :: "wallet \<Rightarrow> wallet \<Rightarrow> bool" where
  opened_again: "backend_new X (w_db w) (w_files w) = Ok w' \<Longrightarrow> wallet_step w w'"
| key_set: "leaves (lwop (set_keychain X k kmask)) w w' \<Longrightarrow> wallet_step w w'"
| closed: "leaves (lwop close) w w' \<Longrightarrow> wallet_step w w'"
| account_made: "leaves (lwop (create_account_path X km label)) w w' \<Longrightarrow> wallet_step w w'"
| account_chosen: "leaves (lwop (set_active_account label)) w w' \<Longrightarrow> wallet_step w w'"
| outputs_read: "leaves (owner_retrieve_outputs X N now km spent refresh i) w w' \<Longrightarrow> wallet_step w w'"
| txs_read: "leaves (owner_retrieve_txs X N now km refresh i u q) w w' \<Longrightarrow> wallet_step w w'"
| summary_read: "leaves (retrieve_summary_info X N now km refresh mc) w w' \<Longrightarrow> wallet_step w w'"
| most_estimated: "leaves (estimate_max_sendable X N now km refresh mc) w w' \<Longrightarrow> wallet_step w w'"
| send_begun: "leaves (lwop (init_send_tx X N now km d u args)) w w' \<Longrightarrow> wallet_step w w'"
| invoice_issued: "leaves (lwop (issue_invoice_tx X N now km d u iargs)) w w' \<Longrightarrow> wallet_step w w'"
| invoice_paid: "leaves (lwop (process_invoice_tx X N now km d s args test)) w w' \<Longrightarrow> wallet_step w w'"
| outputs_locked: "leaves (lwop (tx_lock_outputs X N now km s)) w w' \<Longrightarrow> wallet_step w w'"
| tx_finalized: "leaves (lwop (finalize_tx X N now km d u s post)) w w' \<Longrightarrow> wallet_step w w'"
| tx_received: "leaves (lwop (receive_tx X now km d s acct test)) w w' \<Longrightarrow> wallet_step w w'"
| state_noted: "leaves (lwop (update_tx_slate_state X km p s)) w w' \<Longrightarrow> wallet_step w w'"
| coinbase_built: "leaves (lwop (foreign_build_coinbase X km bf test)) w w' \<Longrightarrow> wallet_step w w'"
| tx_cancelled: "leaves (owner_cancel_tx X N now km i u) w w' \<Longrightarrow> wallet_step w w'"
| proof_read: "leaves (retrieve_payment_proof X N now km refresh i u) w w' \<Longrightarrow> wallet_step w w'"
| proof_verified: "leaves (lwop (verify_payment_proof X N km pf)) w w' \<Longrightarrow> wallet_step w w'"
| stored_tx_read: "leaves (lwop (owner_get_stored_tx X i u)) w w' \<Longrightarrow> wallet_step w w'"
| scanned: "leaves (owner_scan X N now km h del) w w' \<Longrightarrow> wallet_step w w'"
| updated: "leaves (update_wallet_state X N now km all) w w' \<Longrightarrow> wallet_step w w'"
| height_read: "leaves (node_height X N now km) w w' \<Longrightarrow> wallet_step w w'"
| output_built: "leaves (lwop (owner_build_output X km fe amount)) w w' \<Longrightarrow> wallet_step w w'"

inductive wallet_reach :: "wallet \<Rightarrow> bool" where
  created: "backend_new X db_empty files = Ok w \<Longrightarrow> wallet_reach w"
| stepped: "wallet_reach w \<Longrightarrow> wallet_step w w' \<Longrightarrow> wallet_reach w'"

section \<open>Filed records\<close>

text \<open>
  Outputs under their identifier and position, accounts under their label, and entries of the log
  under some account and their own number.
\<close>

definition db_filed :: "db \<Rightarrow> bool" where
  "db_filed d \<longleftrightarrow> db_wf d \<and>
     (\<forall>(k, out) \<in> set (db_outputs d). k = output_key (out_key_id out) (out_mmr_index out)) \<and>
     (\<forall>(k, a) \<in> set (db_accts d). k = as_bytes (acct_label a)) \<and>
     (\<forall>(k, r) \<in> set (db_tx_log d). case r of Some t \<Rightarrow> \<exists>p. k = to_key_u64 p (ucast (txe_id t)) | None \<Rightarrow> True)"

definition filed :: "wallet \<Rightarrow> bool" where
  "filed w \<longleftrightarrow> db_filed (w_db w)"

lemma db_filed_put:
  "db_filed d \<Longrightarrow> db_filed (d\<lparr>db_outputs := tbl_put (output_key (out_key_id out) (out_mmr_index out)) out (db_outputs d)\<rparr>)"
  "db_filed d \<Longrightarrow> db_filed (d\<lparr>db_accts := tbl_put (as_bytes (acct_label a)) a (db_accts d)\<rparr>)"
  "db_filed d \<Longrightarrow> db_filed (d\<lparr>db_tx_log := tbl_put (to_key_u64 p (ucast (txe_id t))) (Some t) (db_tx_log d)\<rparr>)"
  using tbl_put_set [of "output_key (out_key_id out) (out_mmr_index out)" out "db_outputs d"]
    tbl_put_set [of "as_bytes (acct_label a)" a "db_accts d"]
    tbl_put_set [of "to_key_u64 p (ucast (txe_id t))" "Some t" "db_tx_log d"]
  by (auto simp: db_filed_def db_wf_def tbl_simps dest!: subsetD)

lemma db_filed_del:
  "db_filed d \<Longrightarrow> db_filed (d\<lparr>db_outputs := tbl_del k (db_outputs d)\<rparr>)"
  "db_filed d \<Longrightarrow> db_filed (d\<lparr>db_tx_log := tbl_del k (db_tx_log d)\<rparr>)"
  using tbl_del_set [of k "db_outputs d"] tbl_del_set [of k "db_tx_log d"]
  by (auto simp: db_filed_def db_wf_def tbl_simps)

lemma keeps_filed_batch [keeps_intros]:
  "keeps db_filed (batch_get X i m)" "keeps db_filed (batch_save out)" "keeps db_filed (batch_delete i m)"
  "keeps db_filed (save_child_index i n)" "keeps db_filed (save_last_confirmed_height i h)"
  "keeps db_filed (save_last_scanned_block b)" "keeps db_filed (save_init_status v)"
  "keeps db_filed (next_tx_log_id i)" "keeps db_filed (save_tx_log_entry t i)"
  "keeps db_filed (save_acct_path a)" "keeps db_filed (lock_output out)"
  "keeps db_filed (delete_private_context s)"
  by (simp_all add: keeps_def batch_get_def batch_save_def batch_delete_def save_child_index_def
      save_last_confirmed_height_def save_last_scanned_block_def save_init_status_def next_tx_log_id_eq
      save_tx_log_entry_def save_acct_path_def lock_output_def delete_private_context_def smodify_def
      db_filed_put db_filed_del)
    (simp_all add: db_filed_def db_wf_def tbl_simps)

lemma keeps_filed_context [keeps_intros]: "keeps db_filed (save_private_context X k s c)"
  unfolding save_private_context_def by (intro keeps_intros keeps_smodify) (simp add: db_filed_def db_wf_def tbl_simps)

lemma keeps_filed_run [keeps_intros]: "keeps db_filed b \<Longrightarrow> keeps filed (run_batch b)"
  by (auto simp: keeps_def filed_def run_batch_def split: prod.splits res.splits)

lemma keeps_filed_with [keeps_intros]: "(\<And>k. keeps db_filed (b k)) \<Longrightarrow> keeps filed (with_batch X km b)"
  unfolding with_batch_def by (intro keeps_intros)

section \<open>Every operation keeps the records filed\<close>

lemma keeps_filed_frame: "(\<And>w. w_db (h w) = w_db w) \<Longrightarrow> keeps filed (smodify h)"
  by (rule keeps_smodify) (simp add: filed_def)

lemma keeps_filed_wallet [keeps_intros]:
  "keeps filed (wallet_get X i m)" "keeps filed (set_parent_key_id i)" "keeps filed (store_tx X u t)"
  "keeps filed close" "keeps filed (set_parent_key_id_by_name l)" "keeps filed (set_keychain X k v)"
proof -
  show "keeps filed (set_keychain X k v)"
    unfolding set_keychain_def by (intro keeps_intros keeps_filed_frame) simp_all
qed (auto simp: keeps_def filed_def wallet_get_def set_parent_key_id_def store_tx_def close_def smodify_def
      set_parent_key_id_by_name_def split: option.splits)

lemma keeps_filed_keys [keeps_intros]:
  "keeps filed (next_child X km)" "keeps filed (get_stored_tx X u)" "keeps filed (new_acct_path X km l)"
  "keeps filed (set_acct_path X km l p)" "keeps filed (retrieve_existing_key X i m)"
  unfolding next_child_def get_stored_tx_def new_acct_path_def set_acct_path_def retrieve_existing_key_def Let_def
  by (intro keeps_intros)+

lemma keeps_filed_next [keeps_intros]: "keeps filed (next_available_key X km)"
  unfolding next_available_key_def by (intro keeps_intros)

lemma keeps_reads [keeps_intros]:
  "keeps P (retrieve_outputs X km b i p)" "keeps P (map_wallet_outputs X km p' b)"
  unfolding retrieve_outputs_def map_wallet_outputs_def Let_def by (intro keeps_intros)+

lemma keeps_find_reverted [keeps_intros]: "keeps P (find_reverted_kernels N os as p)"
  by (simp add: keeps_def find_reverted_kernels_def Let_def)

lemma keeps_option [keeps_intros]:
  "keeps P a \<Longrightarrow> (\<And>x. keeps P (f x)) \<Longrightarrow> keeps P (case_option a f v)" by (cases v) simp_all

lemma keeps_filed_confirm [keeps_intros]: "keeps db_filed (confirm_tx_of now p out)"
  by (simp add: keeps_def confirm_tx_of_def save_tx_log_entry_def smodify_def db_filed_put split: option.splits)

lemma keeps_filed_coinbase [keeps_intros]: "keeps db_filed (record_coinbase X now h p c out)"
  unfolding record_coinbase_def Let_def by (intro keeps_intros)

lemma keeps_filed_cancel [keeps_intros]:
  "keeps db_filed (cancel_output out)" "keeps filed (cancel_tx_and_outputs X km t outs p)"
  "keeps filed (clean_old_unconfirmed X km h)"
  unfolding cancel_tx_and_outputs_def clean_old_unconfirmed_def cancel_output_def
  by (intro keeps_intros)+

lemma keeps_snd: "keeps P m \<Longrightarrow> P s \<Longrightarrow> P (snd (m s))"
  by (simp add: keeps_def)

lemma keeps_filed_api_output [keeps_intros]: "keeps db_filed (apply_api_output X now as rs h p x)"
proof (rule keepsI)
  fix d assume d: "db_filed d"
  obtain c i m a where x: "x = (c, i, m, a)" by (cases x)
  show "db_filed (snd (apply_api_output X now as rs h p x d))"
  proof (cases "fst (batch_get X i m d)")
    case (Ok out)
    show ?thesis
      unfolding apply_api_output_def x prod.case split_def fst_conv snd_conv Ok res.case
      by (cases "map_of as c"; simp only: option.case split_def; rule keeps_snd [where P = db_filed, OF _ d]; intro keeps_intros)
  qed (simp_all add: apply_api_output_def x d)
qed

lemma keeps_filed_apply [keeps_intros]:
  "keeps filed (apply_api_outputs X now km os as rs h p)" "keeps filed (refresh_outputs X N now km p b)"
  unfolding refresh_outputs_def refresh_output_state_def apply_api_outputs_def
  by (intro keeps_intros)+

lemma keeps_list [keeps_intros]:
  "keeps P a \<Longrightarrow> (\<And>x xs. keeps P (f x xs)) \<Longrightarrow> keeps P (case_list a f v)" by (cases v) simp_all

lemma keeps_attempt [keeps_intros]: "keeps P m \<Longrightarrow> keeps P (attempt m)"
  by (auto simp: keeps_def attempt_def split: prod.splits res.splits)

lemma keeps_catching [keeps_intros]: "keeps P m \<Longrightarrow> keeps P h \<Longrightarrow> keeps P (catching m h)"
  by (auto simp: keeps_def catching_def split: prod.splits res.splits)

lemma keeps_filed_parts [keeps_intros]:
  "keeps filed (lock_tx_context X now km s h c ov)" "keeps filed (inputs_and_change X coins km a f n b)"
  "keeps filed (store_context X km i c)" "keeps filed (drop_context X km i)"
  "keeps filed (build_recipient_output X now km d s h p)" "keeps filed (receive_coinbase X km bf test)"
  "keeps filed (cancel_tx X km p tx_id u)"
  unfolding lock_tx_context_def cached_outputs_def lock_inputs_def save_change_def inputs_and_change_def
    store_context_def drop_context_def build_recipient_output_def receive_coinbase_def cancel_tx_def Let_def split_def
  by (intro keeps_intros)+

lemma keeps_filed_send [keeps_intros]:
  "keeps filed (build_send_tx X k km d s h mc mo co all ff p incl)"
  "keeps filed (estimate_send_tx X N now km a incl mc mo co all r p)"
  "keeps filed (add_output_to_slate X now km d s h p b)"
  "keeps filed (create_late_lock_context X N now km d s h args p)"
  unfolding build_send_tx_def select_send_tx_def estimate_send_tx_def add_output_to_slate_def
    create_late_lock_context_def Let_def split_def
  by (intro keeps_intros)+

lemma keeps_filed_add_inputs [keeps_intros]:
  "keeps filed (add_inputs_to_slate X N now km d s h mc mo co all r p b incl)"
  unfolding add_inputs_to_slate_def sign_unless_initiator_def Let_def split_def by (intro keeps_intros)

lemma keeps_requests [keeps_intros]:
  "keeps P (request_proof X km p a s c)" "keeps P (ttl_checked s)" "keeps P (complete_tx X km s c)"
  "keeps P (verify_slate_payment_proof X km p c s)"
  unfolding request_proof_def ttl_checked_def complete_tx_def verify_slate_payment_proof_def Let_def split_def
  by (intro keeps_intros)+

lemma keeps_filed_tx_state [keeps_intros]:
  "keeps filed (update_tx_slate_state X km p s)" "keeps filed (update_stored_tx X km c s b)"
  "keeps filed (tx_lock_outputs X N now km s)"
  unfolding update_tx_slate_state_def update_stored_tx_def tx_lock_outputs_def Let_def split_def
  by (intro keeps_intros)+

lemma keeps_filed_late [keeps_intros]: "keeps filed (late_lock X N now km k d uuid p s c args)"
  unfolding late_lock_def Let_def split_def by (intro keeps_intros)

lemma keeps_filed_final [keeps_intros]:
  "keeps filed (finalize_invoice X km s c)" "keeps filed (finalize_standard X N now km d uuid s c)"
  unfolding finalize_invoice_def finalize_standard_def Let_def split_def by (intro keeps_intros)+

text \<open>The handlers of the exchange\<close>

lemma keeps_filed_exchange [keeps_intros]:
  "keeps filed (init_send_tx X N now km d u args)" "keeps filed (issue_invoice_tx X N now km d u iargs)"
  "keeps filed (process_invoice_tx X N now km d s args test)" "keeps filed (finalize_tx X N now km d u s post)"
  "keeps filed (receive_tx X now km d s acct test)" "keeps filed (foreign_build_coinbase X km bf test)"
  unfolding init_send_tx_def issue_invoice_tx_def process_invoice_tx_def finalize_tx_def receive_tx_def
    foreign_build_coinbase_def build_coinbase_def Let_def split_def
  by (intro keeps_intros)+

lemma keeps_filed_owner [keeps_intros]:
  "keeps filed (owner_build_output X km fe amount)" "keeps filed (owner_get_stored_tx X tx_id u)"
  "keeps filed (verify_payment_proof X N km pf)" "keeps filed (create_account_path X km label)"
  "keeps filed (set_active_account label)"
  unfolding owner_build_output_def owner_get_stored_tx_def verify_payment_proof_def create_account_path_def
    set_active_account_def Let_def split_def
  by (intro keeps_intros)+

section \<open>The operations with loops\<close>

lemma keeps_filed_scan [keeps_intros]:
  "keeps filed (cancel_tx_log_entry X km out)" "keeps filed (restore_child_index X km p m)"
  "keeps filed (save_progress X km init info)"
  unfolding cancel_tx_log_entry_def restore_child_index_def save_progress_def Let_def split_def
  by (intro keeps_intros)+

lemma keeps_filed_repair [keeps_intros]:
  "keeps filed (repair_output X km out)" "keeps filed (drop_unconfirmed X km out)"
  unfolding repair_output_def drop_unconfirmed_def Let_def by (intro keeps_intros)+

lemma keeps_filed_restore_chunk [keeps_intros]: "keeps db_filed (restore_chunk X now outs found)"
  by (induction outs arbitrary: found) (auto simp: restore_output_def Let_def intro!: keeps_intros)

lemma keeps_filed_restore [keeps_intros]:
  "keeps filed (restore_chunks X now km cs found)" "keeps filed (restore_accounts X km accts ps no)"
  by (induction cs arbitrary: found, auto intro!: keeps_intros)
    (induction ps arbitrary: no, auto intro!: keeps_intros)

lemma keeps_filed_apply_scan [keeps_intros]: "keeps filed (apply_scan X now km del outs)"
  unfolding apply_scan_def restore_missing_outputs_def by (intro keeps_intros)

lemma keeps_filed_update_outputs [keeps_intros]: "keeps filed (update_outputs X N now km all)"
proof (rule keepsI)
  fix w assume w: "filed w"
  have "filed (snd (refresh_outputs X N now km (w_parent_key_id w) all w))"
    by (rule keeps_snd [where P = filed, OF keeps_filed_apply(2) w])
  then show "filed (snd (update_outputs X N now km all w))"
    by (auto simp: update_outputs_def sbind_simps split: prod.splits res.splits)
qed

lemma keeps_filed_confirm_by_kernel [keeps_intros]: "keeps filed (confirm_by_kernel X N now km p h txs)"
  by (induction txs)
    (auto simp: Let_def split_def intro!: keeps_intros split: option.split res.split)

lemma keeps_res [keeps_intros]:
  "(\<And>a. keeps P (f a)) \<Longrightarrow> (\<And>e. keeps P (g e)) \<Longrightarrow> keeps P q \<Longrightarrow> keeps P (case_res f g q r)" by (cases r) simp_all

lemma lkeeps_case [lkeeps_intros]:
  "(\<And>a. lkeeps P (f a)) \<Longrightarrow> (\<And>e. lkeeps P (g e)) \<Longrightarrow> lkeeps P q \<Longrightarrow> lkeeps P (case_res f g q r)"
  "(\<And>x xs. lkeeps P (i x xs)) \<Longrightarrow> lkeeps P n \<Longrightarrow> lkeeps P (case_list n i v)"
  "(\<And>a b. lkeeps P (j a b)) \<Longrightarrow> lkeeps P (case_prod j p)"
  by (cases r, simp_all) (cases v, simp_all, cases p, simp)

lemma lkeeps_filed_scan [lkeeps_intros]:
  "lkeeps filed (internal_scan X N now km del b e s t r)"
  unfolding internal_scan_def by (intro lkeeps_intros keeps_intros)

lemma lkeeps_filed_batches [lkeeps_intros]: "lkeeps filed (scan_batches X N now km del init s tip pmmr hs)"
  by (induction hs arbitrary: pmmr) (auto simp: Let_def intro!: lkeeps_intros keeps_intros)

lemma lkeeps_filed_update [lkeeps_intros]: "lkeeps filed (update_wallet_state X N now km all)"
  unfolding update_wallet_state_def update_txs_via_kernel_def cancel_expired_def Let_def split_def
  by (intro lkeeps_intros keeps_intros)

lemma lkeeps_filed_validated [lkeeps_intros]: "lkeeps filed (validated X N now km b)"
  unfolding validated_def by (intro lkeeps_intros)

lemma lkeeps_filed_queries [lkeeps_intros]:
  "lkeeps filed (owner_retrieve_outputs X N now km spent refresh i)"
  "lkeeps filed (owner_retrieve_txs X N now km refresh i u q)"
  "lkeeps filed (retrieve_summary_info X N now km refresh mc)"
  "lkeeps filed (estimate_max_sendable X N now km refresh mc)"
  "lkeeps filed (owner_cancel_tx X N now km i u)" "lkeeps filed (owner_scan X N now km h del)"
  unfolding owner_retrieve_outputs_def owner_retrieve_txs_def retrieve_summary_info_def estimate_max_sendable_def
    owner_cancel_tx_def owner_scan_def Let_def
  by (intro lkeeps_intros keeps_intros)+

lemma lkeeps_filed_more [lkeeps_intros]:
  "lkeeps filed (retrieve_payment_proof X N now km refresh i u)" "lkeeps filed (node_height X N now km)"
  unfolding retrieve_payment_proof_def node_height_def split_def
  by (intro lkeeps_intros keeps_intros)+

section \<open>Every reachable wallet\<close>

lemma leaves_lwop: "leaves (lwop m) w w' \<longleftrightarrow> w' = snd (m w)"
  by (auto simp: leaves_def lwop_def prod_eq_iff)

lemma keeps_leaves: "keeps filed m \<Longrightarrow> filed w \<Longrightarrow> leaves (lwop m) w w' \<Longrightarrow> filed w'"
  by (simp add: leaves_lwop keeps_def)

lemma lkeeps_leaves: "lkeeps filed m \<Longrightarrow> filed w \<Longrightarrow> leaves m w w' \<Longrightarrow> filed w'"
  by (auto simp: leaves_def dest: lkeepsD)

lemma filed_created:
  assumes "backend_new X d files = Ok w" "db_filed d"
  shows "filed w"
  using assms keepsD [OF keeps_filed_batch(10) assms(2)]
  by (auto simp: backend_new_def filed_def res_simps split: prod.splits)

lemma filed_step:
  assumes "wallet_step w w'" "filed w"
  shows "filed w'"
  using assms
proof cases
  case (opened_again X)
  then show ?thesis using assms(2) filed_created by (auto simp: filed_def)
qed (erule keeps_leaves [rotated 2] lkeeps_leaves [rotated 2], intro keeps_intros lkeeps_intros, assumption)+

lemma distinct_keyed: "distinct (map fst xs) \<Longrightarrow> \<forall>(k, v) \<in> set xs. k = f (g v) \<Longrightarrow> distinct (map (g \<circ> snd) xs)"
  by (induction xs) (auto simp: image_iff split_beta)

lemma filed_distinct:
  assumes "filed w"
  shows "distinct (map out_key (wallet_iter w))" "distinct (map acct_label (accounts w))"
proof -
  have d: "distinct (map fst (db_outputs (w_db w)))" "distinct (map fst (db_accts (w_db w)))"
    using assms strict_sorted_iff by (auto simp: filed_def db_filed_def db_wf_def tbl_wf_def)
  show "distinct (map out_key (wallet_iter w))"
    using distinct_keyed [OF d(1), of "\<lambda>(i, m). output_key i m" out_key] assms
    by (auto simp: filed_def db_filed_def wallet_iter_def batch_iter_def tbl_vals_def out_key_def)
  show "distinct (map acct_label (accounts w))"
    using distinct_keyed [OF d(2), of as_bytes acct_label] assms
    by (auto simp: filed_def db_filed_def accounts_def acct_path_iter_def tbl_vals_def)
qed

lemma filed_get:
  "filed w \<Longrightarrow> tbl_get (db_outputs (w_db w)) k = Some out \<Longrightarrow> k = output_key (out_key_id out) (out_mmr_index out)"
  "filed w \<Longrightarrow> get_acct_path l w = Some a \<Longrightarrow> acct_label a = l"
  by (auto simp: filed_def db_filed_def get_acct_path_def as_bytes_def inj_map_eq_map inj_on_def of_char_u8_eq
      dest!: tbl_get_in)


text \<open>A wallet that was created and opened, got a second account and mined a block\<close>

definition used_wallet :: wallet where
  "used_wallet =
     (let w0 = the_Ok (backend_new sample_ext db_empty (\<lambda>_. None));
          w1 = snd (set_keychain sample_ext (replicate 32 1) None w0);
          w2 = snd (create_account_path sample_ext None ''savings'' w1)
      in snd (foreign_build_coinbase sample_ext None \<lparr>bf_fees = 5, bf_height = 7, bf_key_id = None\<rparr> True w2))"

lemma reach_snd:
  "wallet_reach w \<Longrightarrow> wallet_reach (snd (set_keychain X k kmask w))"
  "wallet_reach w \<Longrightarrow> wallet_reach (snd (create_account_path X km label w))"
  "wallet_reach w \<Longrightarrow> wallet_reach (snd (foreign_build_coinbase X km bf test w))"
  by (blast intro: stepped key_set account_made coinbase_built leaves_lwop [THEN iffD2])+

lemma used_wallet_reach: "wallet_reach used_wallet"
proof -
  have "wallet_reach (the_Ok (backend_new sample_ext db_empty (\<lambda>_. None)))"
    by (rule created [of sample_ext "\<lambda>_. None"]) (simp add: backend_new_def save_acct_path_def smodify_def)
  then show ?thesis unfolding used_wallet_def Let_def by (intro reach_snd)
qed


end
