(* ===== verification/Api_Props.thy ===== *)
theory Api_Props
  imports Exchange_Sample Reach
begin

text \<open>
  What the interface does beyond the operations it wraps: the outcome of sending, paying and
  receiving in one call over Tor, and what these leave in the wallet.
\<close>

section \<open>The open wallet\<close>

lemma on_inst_OkD:
  "on_inst m a = (Ok r, a') \<Longrightarrow> \<exists>w w'. open_inst a = Some w \<and> m w = (Ok r, w') \<and> open_inst a' = Some w'"
  by (auto simp: on_inst_def on_provider_def on_wallet_def open_inst_def split: prod.splits option.splits)

lemma on_configs_open [simp]: "open_inst (snd (on_configs m a)) = open_inst a"
  by (simp add: on_configs_def open_inst_def split: prod.splits)

lemma load_tor_config_OkD: "load_tor_config E a = (Ok c, a') \<Longrightarrow> open_inst a' = open_inst a"
  by (auto simp: load_tor_config_def split: prod.splits) (metis on_configs_open snd_conv)

lemma sending_config_OkD: "sending_config E sa a = (Ok c, a') \<Longrightarrow> open_inst a' = open_inst a"
  by (auto simp: sending_config_def sbind_eq_Ok comp_eq_Ok dest!: load_tor_config_OkD split: option.splits)

text \<open>Something done quietly leaves the wallet as it was or as it left it.\<close>

lemma quietly_OkD:
  assumes "quietly m a = (Ok u, a')"
  obtains r where "m a = (r, a')" "r \<noteq> Panic"
  using assms by (auto simp: quietly_def split: prod.splits res.splits)

lemma keeps_on_inst: "keeps P m \<Longrightarrow> keeps (\<lambda>a. \<forall>w. open_inst a = Some w \<longrightarrow> P w) (on_inst m)"
  by (auto simp: keeps_def on_inst_def on_provider_def on_wallet_def open_inst_def split: prod.splits option.splits)

lemma keeps_quietly [keeps_intros]: "keeps P m \<Longrightarrow> keeps P (quietly m)"
  by (auto simp: keeps_def quietly_def split: prod.splits res.splits)

text \<open>The two ways a call that sends can end\<close>

lemma synchronously_Ok:
  assumes "synchronously E sargs tc dest f s go_on a = (Ok r, a')"
  obtains (as_made) "r = s" "a' = a"
  | (sent) sa addr c sl where "sargs = Some sa" "tc = Some c" "dest = Some addr" "send_tor c (isa_skip_tor sa)"
      "try_slatepack_sync_workflow (e_ext E) (e_tor E) s addr (Some c) f = Ok sl"
      "go_on sa addr sl a = (Ok r, a')"
  using assms by (auto simp: synchronously_def comp_eq_Ok split: option.splits if_splits res.splits)

lemma finish_send_Ok:
  assumes "finish_send E km d sa addr s a = (Ok r, a')"
  obtains w w1 w2 where "open_inst a = Some w" "tx_lock_outputs (e_ext E) (e_node E) (e_now E) km s w = (Ok (), w1)"
    "finalize_tx (e_ext E) (e_node E) (e_now E) km (fst d) (snd d) s False w1 = (Ok r, w2)"
    "open_inst a' = Some w2"
    "isa_post_tx sa \<longrightarrow> (\<exists>tx. sl_tx r = Some tx \<and> n_post_tx (e_node E) tx (isa_fluff sa) = Ok ())"
proof -
  obtain a1 a2 where 1: "api_tx_lock_outputs E km s a = (Ok (), a1)" and 2: "api_finalize_tx E km d s a1 = (Ok r, a2)"
    and 3: "(if isa_post_tx sa then sbind (api_post_tx E km r (isa_fluff sa)) (\<lambda>_. sret r) else sret r) a2 = (Ok r, a')"
    using assms by (auto simp: finish_send_def sbind_eq_Ok comp_eq_Ok split: if_splits)
  have "open_inst a' = open_inst a2 \<and>
      (isa_post_tx sa \<longrightarrow> (\<exists>tx. sl_tx r = Some tx \<and> n_post_tx (e_node E) tx (isa_fluff sa) = Ok ()))"
    using 3 by (auto simp: api_post_tx_def tested_def post_tx_def tx_or_err_def sbind_eq_Ok comp_eq_Ok rbind_eq_Ok
        ok_or_eq_Ok the_keychain_def dest!: on_inst_OkD split: if_splits)
  with on_inst_OkD [OF 1 [unfolded api_tx_lock_outputs_def]] on_inst_OkD [OF 2 [unfolded api_finalize_tx_def]]
  show ?thesis by (auto intro: that)
qed

section \<open>Sending in one call\<close>


section \<open>Paying an invoice in one call\<close>

text \<open>The coins and the log of a wallet\<close>

definition coins_and_log :: "output_data table \<Rightarrow> tx_log_entry option table \<Rightarrow> wallet \<Rightarrow> bool" where
  "coins_and_log outs txs w \<longleftrightarrow> db_outputs (w_db w) = outs \<and> db_tx_log (w_db w) = txs"

lemma keeps_coins_batch:
  "(\<And>k. keeps (\<lambda>d. db_outputs d = outs \<and> db_tx_log d = txs) (b k)) \<Longrightarrow> keeps (coins_and_log outs txs) (with_batch X km b)"
  by (auto simp: keeps_def coins_and_log_def with_batch_def sbind_def the_keychain_def run_batch_def
      split: prod.splits res.splits) (metis snd_conv)+

lemma keeps_coins_ops:
  "keeps (\<lambda>d. db_outputs d = outs \<and> db_tx_log d = txs) (save_child_index i j)"
  by (simp add: keeps_def save_child_index_def smodify_def)

lemma keeps_coins_context:
  "keeps (\<lambda>d. db_outputs d = outs \<and> db_tx_log d = txs) (save_private_context X k i c)"
  unfolding save_private_context_def by (intro keeps_intros keeps_smodify) simp

lemma keeps_coins_send: "keeps (coins_and_log outs txs) (build_send_tx X k km d s h mc mo co all ff p incl)"
  unfolding build_send_tx_def select_send_tx_def inputs_and_change_def next_child_def Let_def split_def
  by (auto intro!: keeps_intros keeps_coins_batch keeps_coins_ops simp: if_split)

lemma keeps_coins_pay:
  "keeps (coins_and_log outs txs)
     (process_invoice_tx X N now km d s (args\<lparr>ita_refresh_outputs_from_node := False\<rparr>) b)"
  unfolding process_invoice_tx_def ttl_checked_def add_inputs_to_slate_def sign_unless_initiator_def store_context_def
    Let_def split_def
  by (auto intro!: keeps_intros keeps_coins_send keeps_coins_batch keeps_coins_context simp: if_split)

lemma keeps_inst_is:
  "keeps (\<lambda>w. w = w0) m \<Longrightarrow> keeps (\<lambda>a. open_inst a = Some w0) (on_inst m)"
  by (auto simp: keeps_def on_inst_def on_provider_def on_wallet_def open_inst_def split: prod.splits option.splits)

lemma keeps_inst_files: "keeps (\<lambda>a. open_inst a = Some w0) (on_provider (with_files e m))"
  by (auto simp: keeps_def on_provider_def with_files_def open_inst_def split: prod.splits res.splits)

lemma keeps_message: "keeps P (create_slatepack_message X E G seed km s i rs)"
  unfolding create_slatepack_message_def get_slatepack_address_def
  by (cases i) (auto intro!: keeps_intros simp: the_keychain_def)

lemma finish_payment_Ok:
  assumes "finish_payment E seed km sa addr s a = (Ok r, a')" "open_inst a = Some w"
  obtains w' where "r = s" "open_inst a' = Some w'" "db_outputs (w_db w') = db_outputs (w_db w)"
    "(\<forall>t \<in> set (wallet_tx_log w). txe_tx_slate_id t \<noteq> Some (sl_id s)) \<longrightarrow> db_tx_log (w_db w') = db_tx_log (w_db w)"
proof -
  let ?upd = "sbind (sread w_parent_key_id) (\<lambda>p. update_tx_slate_state (e_ext E) km p s)"
  obtain a1 where 1: "quietly (on_inst ?upd) a = (Ok (), a1)"
    and 2: "quietly (output_slatepack_file E seed km s (Some addr)) a1 = (Ok (), a')" and r: "r = s"
    using assms(1) by (auto simp: finish_payment_def sbind_eq_Ok comp_eq_Ok)
  obtain w1 where w1: "open_inst a1 = Some w1" "w1 = snd (?upd w)"
    using 1 assms(2) by (auto simp: quietly_def on_inst_def on_provider_def on_wallet_def open_inst_def split: prod.splits res.splits)
  have upd: "db_outputs (w_db w1) = db_outputs (w_db w)"
    "(\<forall>t \<in> set (wallet_tx_log w). txe_tx_slate_id t \<noteq> Some (sl_id s)) \<longrightarrow> w1 = w"
    unfolding w1(2)
    by (auto simp: sbind_def sread_def update_tx_slate_state_def sfail_def with_batch_def the_keychain_def run_batch_def
        save_tx_log_entry_eq slift_def split: option.splits prod.splits res.splits dest!: find_SomeD)
  have "keeps (\<lambda>a. open_inst a = Some w1) (output_slatepack_file E seed km s (Some addr))"
    unfolding output_slatepack_file_def api_create_slatepack_message_def Let_def
    by (intro keeps_intros keeps_inst_is keeps_inst_files keeps_message)
  then have "open_inst a' = Some w1" using keepsD [OF keeps_quietly _ 2] w1(1) by blast
  with r upd show ?thesis by (auto intro: that)
qed


section \<open>The samples run\<close>

lemma sample_config_loaded:
  "\<exists>a. sending_config (env_with T) (Some sample_send_args) (api_of rich_wallet) = (Ok (Some tor_config_default), a) \<and>
     open_inst a = Some rich_wallet \<and> pr_backend (ap_provider a) = Some (''/w/wallet_data'', rich_wallet)"
proof -
  have "fst (load_tor_config (env_with T) (api_of w)) = Ok tor_config_default" for w
    unfolding load_tor_config_def env_with_simps by code_simp
  then obtain a where a: "load_tor_config (env_with T) (api_of rich_wallet) = (Ok tor_config_default, a)"
    by (metis prod.collapse)
  have "pr_backend (ap_provider (snd (load_tor_config E a))) = pr_backend (ap_provider a)" for E a
    by (simp add: load_tor_config_def on_configs_def split: prod.splits)
  from this [of "env_with T" "api_of rich_wallet"]
  have "pr_backend (ap_provider a) = Some (''/w/wallet_data'', rich_wallet)"
    unfolding a by (simp add: api_of_def owner_new_def)
  then show ?thesis unfolding open_inst_def by (simp add: sending_config_def sbind_def sret_def a)
qed

lemma on_inst_run:
  "pr_backend (ap_provider a) = Some (p, w) \<Longrightarrow> m w = (r, w') \<Longrightarrow>
     on_inst m a = (r, a\<lparr>ap_provider := (ap_provider a)\<lparr>pr_backend := Some (p, w')\<rparr>\<rparr>)"
  by (simp add: on_inst_def on_provider_def on_wallet_def)

lemma sample_sent:
  "\<exists>a. api_init_send_tx (env_with (tor_to received_slate)) None (sample_draw, [7]) (sample_draw, [8]) one_call_args
     (api_of rich_wallet) = (Ok (the_Ok (fst final_run)), a)"
proof -
  let ?E = "env_with (tor_to received_slate)"
  obtain a where a: "sending_config ?E (Some sample_send_args) (api_of rich_wallet) = (Ok (Some tor_config_default), a)"
    "pr_backend (ap_provider a) = Some (''/w/wallet_data'', rich_wallet)"
    using sample_config_loaded by blast
  have args: "ita_send_args one_call_args = Some sample_send_args" by (simp add: one_call_args_def)
  have send: "send_tor tor_config_default (isa_skip_tor sample_send_args)" "isa_post_tx sample_send_args" by code_simp+
  obtain tx where tx: "sl_tx (the_Ok (fst final_run)) = Some tx"
    using finalize_tx_Ok [OF final_run_Ok [unfolded final_run_def], folded final_run_def] by (auto simp: finished_def)
  obtain a1 where 1: "on_inst (init_send_tx sample_ext quiet_node 0 None sample_draw [7] one_call_args) a = (Ok made_slate, a1)"
    "pr_backend (ap_provider a1) = Some (''/w/wallet_data'', sending_wallet)"
    using on_inst_run [OF a(2), where m = "init_send_tx sample_ext quiet_node 0 None sample_draw [7] one_call_args"]
    by (simp add: made_run)
  obtain a2 where 2: "api_tx_lock_outputs ?E None answer_slate a1 = (Ok (), a2)"
    "pr_backend (ap_provider a2) = Some (''/w/wallet_data'', snd locked_run)"
    using on_inst_run [OF 1(2), where m = "tx_lock_outputs sample_ext quiet_node 0 None answer_slate"] locked_run_Ok
    by (simp add: api_tx_lock_outputs_def locked_run_def)
  obtain a3 where 3: "api_finalize_tx ?E None (sample_draw, [8]) answer_slate a2 = (Ok (the_Ok (fst final_run)), a3)"
    "pr_backend (ap_provider a3) = Some (''/w/wallet_data'', snd final_run)"
    using on_inst_run [OF 2(2), where m = "\<lambda>w. finalize_tx sample_ext quiet_node 0 None sample_draw [8] answer_slate False w"]
      final_run_Ok
    by (simp add: api_finalize_tx_def final_run_def)
  obtain k where "wallet_keychain sample_ext None (snd final_run) = Ok k"
    using final_run_eval by (auto simp: is_Ok_ex case_prod_beta)
  then obtain a4 where 4: "api_post_tx ?E None (the_Ok (fst final_run)) False a3 = (Ok (), a4)"
    using on_inst_run [OF 3(2), of "sbind (the_keychain sample_ext None) (\<lambda>_. sret ())"]
    by (auto simp: api_post_tx_def tested_def the_keychain_def sbind_def sret_def slift_def tx_or_err_def tx post_tx_def
        quiet_node_def)
  have "isa_fluff sample_send_args = False" by code_simp
  then show ?thesis
    by (simp add: api_init_send_tx_def args sbind_def slift_def sret_def sample_destination a 1 synchronously_def send
        tor_brings_answer finish_send_def 2 3 4)
qed


definition invoice_slate :: slate where
  "invoice_slate = (slate_blank sample_ext [9] 2 True)\<lparr>sl_tx := None, sl_amount := 100,
     sl_participant_data := [\<lparr>pd_public_blind_excess = 2 # replicate 32 13, pd_public_nonce = 2 # replicate 32 17,
        pd_part_sig = None\<rparr>]\<rparr>"

definition pay_args :: init_tx_args where
  "pay_args = one_call_args\<lparr>ita_amount := 100\<rparr>"

definition pay_run :: "slate result \<times> wallet" where
  "pay_run = process_invoice_tx sample_ext quiet_node 0 None sample_draw invoice_slate pay_args False rich_wallet"

definition issuer_slate :: slate where
  "issuer_slate = answer_slate\<lparr>sl_id := [9], sl_state := Invoice3\<rparr>"

text \<open>A library that can encrypt to nobody: saving the message fails, and is only logged.\<close>

definition no_age :: pack_ext where
  "no_age = sample_pack\<lparr>g_montgomery := (\<lambda>_. None)\<rparr>"

lemma pay_run_eval:
  "case pay_run of (r, w) \<Rightarrow> is_Ok r \<and> is_Ok (slate_to_v4 (the_Ok r)) \<and>
     is_Err (fst (update_tx_slate_state sample_ext None (w_parent_key_id w) issuer_slate w)) \<and>
     is_Err (fst (create_slatepack_message sample_ext sample_ser no_age [] None issuer_slate (Some 0) [other_address] w))"
  by code_simp

lemma issuer_slate_read: "rbind (slate_to_v4 issuer_slate) (\<lambda>v. slate_upgrade sample_ext (VersionedV4 v)) = Ok issuer_slate"
  by code_simp

definition sample_sender :: tor_slate_sender where
  "sample_sender = \<lparr>ts_base_url = ''http://'' @ map (\<lambda>b. char_of (unat b)) (replicate 32 (9 :: u8)) @ ''.onion'',
     ts_config = tor_config_default, ts_tor_process = False\<rparr>"

lemma tor_to_post: "tor_post (tor_to s) sample_sender url req = Ok (case jindex req ''method'' of JStr m \<Rightarrow> m | _ \<Rightarrow> '''')"
  by (simp add: tor_post_def tor_to_def sample_sender_def)

lemma tor_to_read: "m \<noteq> ''check_version'' \<Longrightarrow> read_answer (tor_to s) m = Ok (JObj [(''result'', JObj [(''Ok'', JNull)])])"
  by (simp add: read_answer_def tor_to_def)

lemma tor_to_slate: "slate_to_v4 s = Ok v \<Longrightarrow> t_slate_of_json (tor_to s) j = Some v"
  by (simp add: tor_to_def)

lemma tor_to_answers:
  assumes "slate_to_v4 sl = Ok v" "rbind (slate_to_v4 s) (\<lambda>v. slate_upgrade sample_ext (VersionedV4 v)) = Ok s"
  shows "try_slatepack_sync_workflow sample_ext (tor_to s) sl other_address (Some tor_config_default) f = Ok s"
proof -
  have sender: "tor_slate_sender_new (tor_to s) (to_http_str (tor_to s) (address_to_ov3 other_address)) tor_config_default =
      Ok sample_sender"
    by (simp add: tor_slate_sender_new_def to_http_str_def tor_to_def address_to_ov3_def other_address_def
        tor_config_default_def sample_sender_def)
  have version: "check_other_version (tor_to s) sample_sender url = Ok ()" for url
    by (simp add: check_other_version_def tor_post_def tor_to_def sample_sender_def rpc_request_def read_answer_def)
  obtain v' where v': "slate_to_v4 s = Ok v'" "slate_upgrade sample_ext (VersionedV4 v') = Ok s"
    using assms(2) by (auto simp: rbind_eq_Ok)
  have "send_tx sample_ext (tor_to s) sample_sender sl f = Ok s"
    by (simp add: send_tx_def version assms(1) Let_def tor_to_post tor_to_read tor_to_slate [OF v'(1)] v'(2) rpc_request_def)
  then show ?thesis by (simp add: try_slatepack_sync_workflow_def sender)
qed

lemma quietly_Err: "is_Err (fst (m a)) \<Longrightarrow> quietly m a = (Ok (), snd (m a))"
  by (cases "m a") (auto simp: quietly_def is_Err_def split: res.splits)

lemma update_state_Err:
  "is_Err (fst (update_tx_slate_state X km p s w)) \<Longrightarrow> snd (update_tx_slate_state X km p s w) = w"
  by (auto simp: update_tx_slate_state_def sbind_def sread_def sfail_def with_batch_def the_keychain_def run_batch_def
      save_tx_log_entry_eq slift_def split: option.splits prod.splits res.splits)

text \<open>Failures after the answer came back are only logged.\<close>

lemma finish_payment_fails:
  assumes "pr_backend (ap_provider a) = Some (d, w)"
    and "is_Err (fst (update_tx_slate_state (e_ext E) km (w_parent_key_id w) s w))"
    and "is_Err (fst (create_slatepack_message (e_ext E) (e_ser E) (e_pack E) seed km s (Some 0) [addr] w))"
  shows "\<exists>a'. finish_payment E seed km sa addr s a = (Ok s, a')"
proof -
  let ?m = "sbind (sread w_parent_key_id) (\<lambda>p. update_tx_slate_state (e_ext E) km p s)"
  have m: "is_Err (fst (?m w))" "snd (?m w) = w"
    using assms(2) update_state_Err [OF assms(2)] by (simp_all add: sbind_simps)
  have 1: "on_inst ?m a = (fst (?m w), a\<lparr>ap_provider := (ap_provider a)\<lparr>pr_backend := Some (d, w)\<rparr>\<rparr>)" (is "_ = (_, ?a)")
    using on_inst_run [OF assms(1), where m = ?m and r = "fst (?m w)" and w' = w] m(2) by (metis prod.collapse)
  have "pr_backend (ap_provider ?a) = Some (d, w)" by simp
  note 2 = on_inst_run [OF this prod.collapse [symmetric]]
  have "is_Err (fst (output_slatepack_file E seed km s (Some addr) ?a))"
    using assms(3)
    by (auto simp: output_slatepack_file_def api_create_slatepack_message_def sbind_def 2 is_Err_def split: prod.splits)
  from quietly_Err [where m = "output_slatepack_file E seed km s (Some addr)", OF this] quietly_Err [of "on_inst ?m" a] m(1) 1
  show ?thesis by (simp add: finish_payment_def sbind_def sret_def)
qed

end
