(* ===== verification/Update_Thread.thy ===== *)
theory Update_Thread
  imports Api
begin

text \<open>
  The background updater (\<open>libwallet/src/api_impl/owner_updater.rs\<close> and \<open>start_updater\<close>,
  \<open>stop_updater\<close> of \<open>api/src/owner.rs\<close>): every start spawns a thread that waits for the lock of the
  updater, raises the flag, and updates the open wallet until it finds the flag lowered or an update
  fails. The threads, the owner's calls and the other users of the wallet are interleaved step by
  step; how long a thread sleeps is left open.
\<close>

section \<open>Threads\<close>

text \<open>
  Where a thread is: before it has the lock, with the lock before raising the flag, at the head of
  the loop, before the test of the flag, asleep, and ended, when it has given the lock back.
\<close>

datatype place = Waiting | Holding | Looping | Testing | Sleeping | Ended

record thread =
  th_mask :: "secret_key option"
  th_place :: place

text \<open>The interface, who holds the updater, and the threads in the order they were started\<close>

record upd_state =
  us_api :: api
  us_holder :: "nat option"
  us_threads :: "thread list"

definition upd_init :: "api \<Rightarrow> upd_state" where
  "upd_init a = \<lparr>us_api = a, us_holder = None, us_threads = []\<rparr>"

definition updater_flag :: "upd_state \<Rightarrow> bool" where
  "updater_flag u = ap_updater_running (us_api u)"

definition place_of :: "upd_state \<Rightarrow> nat \<Rightarrow> place" where
  "place_of u i = th_place (us_threads u ! i)"

definition at_place :: "nat \<Rightarrow> place \<Rightarrow> upd_state \<Rightarrow> upd_state" where
  "at_place i p u = u\<lparr>us_threads := (us_threads u)[i := (us_threads u ! i)\<lparr>th_place := p\<rparr>]\<rparr>"

text \<open>\<open>start_updater\<close>: the mask is copied for the thread.\<close>

definition start_updater :: "secret_key option \<Rightarrow> upd_state \<Rightarrow> upd_state" where
  "start_updater km u = u\<lparr>us_threads := us_threads u @ [\<lparr>th_mask = km, th_place = Waiting\<rparr>]\<rparr>"

definition stop_updater :: "upd_state \<Rightarrow> upd_state" where
  "stop_updater u = u\<lparr>us_api := api_stop_updater (us_api u)\<rparr>"

text \<open>One round: the open wallet is brought up to date; a closed one is left alone.\<close>

definition updater_round :: "env \<Rightarrow> secret_key option \<Rightarrow> bool alop" where
  "updater_round E km a =
     (if pr_backend (ap_provider a) = None then Some (Ok False, a)
      else on_inst_loop (update_wallet_state (e_ext E) (e_node E) (e_now E) km False) a)"

text \<open>
  What thread \<open>i\<close> does next; \<open>None\<close> where it can not move: it waits for the lock, its update does
  not return, or it has ended. An update that fails or panics ends the thread, which drops the lock.
\<close>

definition thread_step :: "env \<Rightarrow> nat \<Rightarrow> upd_state \<Rightarrow> upd_state option" where
  "thread_step E i u = (case place_of u i of
     Waiting \<Rightarrow> if us_holder u = None then Some (at_place i Holding (u\<lparr>us_holder := Some i\<rparr>)) else None
   | Holding \<Rightarrow> Some (at_place i Looping (u\<lparr>us_api := (us_api u)\<lparr>ap_updater_running := True\<rparr>\<rparr>))
   | Looping \<Rightarrow> (case updater_round E (th_mask (us_threads u ! i)) (us_api u) of
         None \<Rightarrow> None
       | Some (Ok _, a) \<Rightarrow> Some (at_place i Testing (u\<lparr>us_api := a\<rparr>))
       | Some (_, a) \<Rightarrow> Some (at_place i Ended (u\<lparr>us_api := a, us_holder := None\<rparr>)))
   | Testing \<Rightarrow> if updater_flag u then Some (at_place i Sleeping u)
               else Some (at_place i Ended (u\<lparr>us_holder := None\<rparr>))
   | Sleeping \<Rightarrow> Some (at_place i Looping u)
   | Ended \<Rightarrow> None)"

section \<open>Steps\<close>

text \<open>
  What happens: a start, a stop, a move of a thread (with the libraries, node and time it finds), or
  another call that changes what the interface holds but not the flag.
\<close>

datatype upd_event = Start "secret_key option" | Stop | Move env nat | Call api

inductive upd_step :: "upd_state \<Rightarrow> upd_event \<Rightarrow> upd_state \<Rightarrow> bool" where
  start: "upd_step u (Start km) (start_updater km u)"
| stop: "upd_step u Stop (stop_updater u)"
| move: "i < length (us_threads u) \<Longrightarrow> thread_step E i u = Some u' \<Longrightarrow> upd_step u (Move E i) u'"
| call: "ap_updater_running a = updater_flag u \<Longrightarrow> upd_step u (Call a) (u\<lparr>us_api := a\<rparr>)"

inductive_cases upd_step_startE: "upd_step u (Start km) u'"
inductive_cases upd_step_stopE: "upd_step u Stop u'"
inductive_cases upd_step_moveE: "upd_step u (Move E i) u'"
inductive_cases upd_step_callE: "upd_step u (Call a) u'"

lemmas upd_step_cases = upd_step_startE upd_step_stopE upd_step_moveE upd_step_callE

inductive upd_run :: "upd_state \<Rightarrow> upd_event list \<Rightarrow> upd_state \<Rightarrow> bool" where
  done_here: "upd_run u [] u"
| then_more: "upd_step u e v \<Longrightarrow> upd_run v es w \<Longrightarrow> upd_run u (e # es) w"

inductive_cases upd_run_NilE: "upd_run u [] w"
inductive_cases upd_run_ConsE: "upd_run u (e # es) w"

end
