(* ===== verification/Update_Thread_Props.thy ===== *)
theory Update_Thread_Props
  imports Update_Thread Exchange_Sample
begin

text \<open>
  The updater's threads exclude one another, a stopped updater ends after at most three moves, and
  one that failed leaves the flag up.
\<close>

section \<open>Places and holders\<close>

definition running :: "place \<Rightarrow> bool" where
  "running p \<longleftrightarrow> p \<in> {Holding, Looping, Testing, Sleeping}"

lemma running_simps [simp]:
  "\<not> running Waiting" "running Holding" "running Looping" "running Testing" "running Sleeping" "\<not> running Ended"
  by (simp_all add: running_def)

lemma at_place_simps [simp]:
  "length (us_threads (at_place i p u)) = length (us_threads u)"
  "us_holder (at_place i p u) = us_holder u" "us_api (at_place i p u) = us_api u"
  "updater_flag (at_place i p u) = updater_flag u"
  by (simp_all add: at_place_def updater_flag_def)

lemma place_at_place: "i < length (us_threads u) \<Longrightarrow> place_of (at_place i p u) j = (if j = i then p else place_of u j)"
  by (auto simp: place_of_def at_place_def nth_list_update)

lemma place_frames [simp]:
  "place_of (u\<lparr>us_api := a\<rparr>) j = place_of u j" "place_of (u\<lparr>us_holder := h\<rparr>) j = place_of u j"
  "place_of (stop_updater u) j = place_of u j" "us_threads (stop_updater u) = us_threads u"
  "us_holder (stop_updater u) = us_holder u" "\<not> updater_flag (stop_updater u)"
  by (simp_all add: place_of_def stop_updater_def updater_flag_def api_stop_updater_def)

lemma place_start:
  "place_of (start_updater km u) j =
     (if j < length (us_threads u) then place_of u j else if j = length (us_threads u) then Waiting
      else place_of (start_updater km u) j)"
  by (simp add: place_of_def start_updater_def nth_append)

text \<open>The holder is the thread that is running.\<close>

definition held_by_runner :: "upd_state \<Rightarrow> bool" where
  "held_by_runner u \<longleftrightarrow> (\<forall>i < length (us_threads u). running (place_of u i) \<longleftrightarrow> us_holder u = Some i) \<and>
     (\<forall>i. us_holder u = Some i \<longrightarrow> i < length (us_threads u))"

text \<open>What a move does to the places, the holder and the flag\<close>

definition moved :: "nat \<Rightarrow> upd_state \<Rightarrow> upd_state \<Rightarrow> bool" where
  "moved i u v \<longleftrightarrow> (\<forall>j. j \<noteq> i \<longrightarrow> place_of v j = place_of u j) \<and> length (us_threads v) = length (us_threads u) \<and>
     (case (place_of u i, place_of v i) of
        (Waiting, Holding) \<Rightarrow> us_holder u = None \<and> us_holder v = Some i \<and> updater_flag v = updater_flag u
      | (Holding, Looping) \<Rightarrow> us_holder v = us_holder u \<and> updater_flag v
      | (Looping, Testing) \<Rightarrow> us_holder v = us_holder u \<and> updater_flag v = updater_flag u
      | (Looping, Ended) \<Rightarrow> us_holder v = None \<and> updater_flag v = updater_flag u
      | (Testing, Sleeping) \<Rightarrow> us_holder v = us_holder u \<and> updater_flag u \<and> updater_flag v
      | (Testing, Ended) \<Rightarrow> us_holder v = None \<and> \<not> updater_flag u \<and> \<not> updater_flag v
      | (Sleeping, Looping) \<Rightarrow> us_holder v = us_holder u \<and> updater_flag v = updater_flag u
      | _ \<Rightarrow> False)"

lemma round_flag: "updater_round E km a = Some (r, a') \<Longrightarrow> ap_updater_running a' = ap_updater_running a"
  by (auto simp: updater_round_def on_inst_loop_def split: if_splits option.splits)

lemma thread_step_moved:
  assumes "thread_step E i u = Some v" "i < length (us_threads u)"
  shows "moved i u v"
proof (cases "place_of u i")
  case Looping
  then obtain r a where "updater_round E (th_mask (us_threads u ! i)) (us_api u) = Some (r, a)"
    using assms(1) by (auto simp: thread_step_def split: option.splits)
  with Looping assms show ?thesis
    by (cases r) (auto simp: thread_step_def moved_def place_at_place updater_flag_def dest: round_flag)
qed (use assms in \<open>auto simp: thread_step_def moved_def place_at_place updater_flag_def split: if_splits\<close>)

lemma held_step:
  assumes "upd_step u e v" "held_by_runner u"
  shows "held_by_runner v"
  using assms(1)
proof (cases rule: upd_step.cases)
  case (start km)
  then show ?thesis
    using assms(2) by (auto simp: held_by_runner_def start_updater_def place_of_def nth_append less_Suc_eq)
next
  case (move i E)
  have "moved i u v" by (rule thread_step_moved [OF move(3,2)])
  then have at: "\<forall>j. j \<noteq> i \<longrightarrow> place_of v j = place_of u j" "length (us_threads v) = length (us_threads u)"
    and "us_holder v = us_holder u \<and> running (place_of u i) \<and> running (place_of v i) \<or>
      us_holder u = None \<and> us_holder v = Some i \<and> running (place_of v i) \<or>
      us_holder v = None \<and> running (place_of u i) \<and> \<not> running (place_of v i)"
    by (auto simp: moved_def split: place.splits)
  then show ?thesis using assms(2) move(2) unfolding held_by_runner_def by (metis option.inject option.distinct(1))
qed (use assms(2) in \<open>auto simp: held_by_runner_def\<close>)

lemma held_run: "upd_run u es v \<Longrightarrow> held_by_runner u \<Longrightarrow> held_by_runner v"
  by (induction rule: upd_run.induct) (auto dest: held_step)

text \<open>C31: whatever is started, stopped and called, and in whatever order the
  threads move, the thread that holds the updater is the one that is past the lock and has not ended;
  so no two of them are, and where nobody holds it every thread waits or has ended.\<close>

theorem one_updater_at_a_time:
  assumes "upd_run (upd_init a) es u"
  shows "(\<forall>i < length (us_threads u). running (place_of u i) \<longleftrightarrow> us_holder u = Some i) \<and>
     (\<forall>i < length (us_threads u). \<forall>j < length (us_threads u). running (place_of u i) \<and> running (place_of u j) \<longrightarrow> i = j)"
proof -
  have "held_by_runner u" by (rule held_run [OF assms]) (simp add: held_by_runner_def upd_init_def)
  then show ?thesis by (auto simp: held_by_runner_def)
qed

section \<open>A stopped updater ends\<close>

text \<open>No thread is still to raise the flag, and it is down.\<close>

definition stopped :: "upd_state \<Rightarrow> bool" where
  "stopped u \<longleftrightarrow> held_by_runner u \<and> \<not> updater_flag u \<and>
     (\<forall>i < length (us_threads u). place_of u i \<notin> {Waiting, Holding})"

fun moves_left :: "place \<Rightarrow> nat" where
  "moves_left Sleeping = 3"
| "moves_left Looping = 2"
| "moves_left Testing = 1"
| "moves_left _ = 0"

definition all_moves_left :: "upd_state \<Rightarrow> nat" where
  "all_moves_left u = (\<Sum>i < length (us_threads u). moves_left (place_of u i))"

lemma moves_left_running: "\<not> running p \<Longrightarrow> moves_left p = 0"
  by (cases p) simp_all

lemma all_moves_left_le: "held_by_runner u \<Longrightarrow> all_moves_left u \<le> 3"
proof -
  assume held: "held_by_runner u"
  have le: "moves_left p \<le> 3" for p by (cases p) simp_all
  show ?thesis
  proof (cases "us_holder u")
    case None
    with held have "\<forall>i < length (us_threads u). moves_left (place_of u i) = 0"
      by (simp add: held_by_runner_def moves_left_running)
    then show ?thesis by (simp add: all_moves_left_def)
  next
    case (Some h)
    then have "h < length (us_threads u)" using held by (simp add: held_by_runner_def)
    moreover have "moves_left (place_of u i) = 0" if "i < length (us_threads u)" "i \<noteq> h" for i
      using held that Some by (auto simp: held_by_runner_def intro!: moves_left_running)
    ultimately have "all_moves_left u = moves_left (place_of u h)"
      unfolding all_moves_left_def by (subst sum.remove [of _ h]) (auto intro!: sum.neutral)
    then show ?thesis using le by simp
  qed
qed

lemma all_moves_left_moved:
  assumes "moved i u v" "i < length (us_threads u)" "moves_left (place_of v i) < moves_left (place_of u i)"
  shows "all_moves_left v < all_moves_left u"
proof -
  let ?n = "{..<length (us_threads u)}"
  have "all_moves_left v = moves_left (place_of v i) + (\<Sum>j \<in> ?n - {i}. moves_left (place_of u j))"
    using assms(1,2) unfolding all_moves_left_def moved_def by (subst sum.remove [of _ i]) auto
  moreover have "all_moves_left u = moves_left (place_of u i) + (\<Sum>j \<in> ?n - {i}. moves_left (place_of u j))"
    using assms(2) unfolding all_moves_left_def by (subst sum.remove [of _ i]) auto
  ultimately show ?thesis using assms(3) by simp
qed

fun is_move :: "upd_event \<Rightarrow> bool" where
  "is_move (Move E i) = True"
| "is_move _ = False"

fun is_start :: "upd_event \<Rightarrow> bool" where
  "is_start (Start km) = True"
| "is_start _ = False"

lemma stopped_step:
  assumes "upd_step u e v" "stopped u" "\<not> is_start e"
  shows "stopped v" "if is_move e then all_moves_left v < all_moves_left u else all_moves_left v = all_moves_left u"
proof -
  have held: "held_by_runner v" using held_step [OF assms(1)] assms(2) by (simp add: stopped_def)
  from assms(1) have "stopped v \<and>
    (if is_move e then all_moves_left v < all_moves_left u else all_moves_left v = all_moves_left u)"
  proof (cases rule: upd_step.cases)
    case (move i E)
    have m: "moved i u v" by (rule thread_step_moved [OF move(3,2)])
    have "place_of u i \<notin> {Waiting, Holding}" using assms(2) move(2) by (simp add: stopped_def)
    then have v: "place_of v i \<notin> {Waiting, Holding}" "\<not> updater_flag v"
      "moves_left (place_of v i) < moves_left (place_of u i)"
      using m assms(2) by (auto simp: moved_def stopped_def split: place.splits)
    then have "stopped v" using m held assms(2) by (auto simp: stopped_def moved_def)
    with all_moves_left_moved [OF m move(2) v(3)] move(1) show ?thesis by simp
  next
    case (call a)
    then show ?thesis using assms held by (auto simp: stopped_def all_moves_left_def updater_flag_def)
  qed (use assms held in \<open>auto simp: stopped_def all_moves_left_def\<close>)
  then show "stopped v" "if is_move e then all_moves_left v < all_moves_left u else all_moves_left v = all_moves_left u"
    by simp_all
qed

lemma stopped_run:
  "upd_run u es v \<Longrightarrow> stopped u \<Longrightarrow> \<forall>e \<in> set es. \<not> is_start e \<Longrightarrow>
     stopped v \<and> length (filter is_move es) + all_moves_left v \<le> all_moves_left u"
proof (induction rule: upd_run.induct)
  case (then_more u e v es w)
  then show ?case using stopped_step [OF then_more(1)] by (auto split: if_splits)
qed simp


section \<open>A failed update\<close>

lemma ended_step:
  assumes "upd_step u e v" "e \<noteq> Stop" "\<not> is_start e" "updater_flag u" "\<forall>i < length (us_threads u). place_of u i = Ended"
  shows "updater_flag v \<and> (\<forall>i < length (us_threads v). place_of v i = Ended) \<and> \<not> is_move e"
  using assms(1)
proof (cases rule: upd_step.cases)
  case (move i E)
  then show ?thesis using assms(5) by (auto simp: thread_step_def)
qed (use assms in \<open>auto simp: updater_flag_def\<close>)

lemma ended_run:
  "upd_run u es v \<Longrightarrow> \<forall>e \<in> set es. e \<noteq> Stop \<and> \<not> is_start e \<Longrightarrow> updater_flag u \<Longrightarrow>
     \<forall>i < length (us_threads u). place_of u i = Ended \<Longrightarrow> updater_flag v \<and> filter is_move es = []"
proof (induction rule: upd_run.induct)
  case (then_more u e v es w)
  then show ?case using ended_step [OF then_more(1)] by auto
qed simp

text \<open>When an update of the only running thread fails, the thread ends
  but the flag stays up. From then on, until somebody stops the updater or starts another, no thread
  moves and the flag is up, so that every query of the owner skips the refresh it was asked for,
  although nothing updates the wallet.\<close>

theorem failed_update_leaves_flag:
  assumes "i < length (us_threads u)" "place_of u i = Looping" "updater_flag u"
    and "\<forall>j < length (us_threads u). j \<noteq> i \<longrightarrow> place_of u j = Ended"
    and "updater_round E (th_mask (us_threads u ! i)) (us_api u) = Some (Err e, a)"
  shows "\<exists>v. upd_step u (Move E i) v \<and> (\<forall>j < length (us_threads v). place_of v j = Ended) \<and>
     (\<forall>es w. upd_run v es w \<and> (\<forall>e \<in> set es. e \<noteq> Stop \<and> \<not> is_start e) \<longrightarrow>
        updater_flag w \<and> filter is_move es = [] \<and> \<not> refreshing (us_api w) True)"
proof -
  let ?v = "at_place i Ended (u\<lparr>us_api := a, us_holder := None\<rparr>)"
  have step: "thread_step E i u = Some ?v" using assms(2,5) by (simp add: thread_step_def)
  have "updater_flag ?v" using round_flag [OF assms(5)] assms(3) by (simp add: updater_flag_def at_place_def)
  moreover have ended: "\<forall>j < length (us_threads ?v). place_of ?v j = Ended"
    using assms(1,4) by (simp add: place_at_place)
  ultimately have "\<forall>es w. upd_run ?v es w \<and> (\<forall>e \<in> set es. e \<noteq> Stop \<and> \<not> is_start e) \<longrightarrow>
      updater_flag w \<and> filter is_move es = []"
    using ended_run by blast
  moreover have "upd_step u (Move E i) ?v" by (rule upd_step.move [OF assms(1) step])
  moreover have "refreshing (us_api w) True \<longleftrightarrow> \<not> updater_flag w" for w by (simp add: refreshing_def updater_flag_def)
  ultimately show ?thesis using ended by blast
qed

section \<open>Runs that evaluate\<close>

fun do_event :: "upd_event \<Rightarrow> upd_state \<Rightarrow> upd_state option" where
  "do_event (Start km) u = Some (start_updater km u)"
| "do_event Stop u = Some (stop_updater u)"
| "do_event (Move E i) u = (if i < length (us_threads u) then thread_step E i u else None)"
| "do_event (Call a) u = (if ap_updater_running a = updater_flag u then Some (u\<lparr>us_api := a\<rparr>) else None)"

lemma upd_step_iff: "upd_step u e v \<longleftrightarrow> do_event e u = Some v"
  by (cases e) (auto elim: upd_step_cases intro: upd_step.intros split: if_splits)

fun do_events :: "upd_event list \<Rightarrow> upd_state \<Rightarrow> upd_state option" where
  "do_events [] u = Some u"
| "do_events (e # es) u = (case do_event e u of Some v \<Rightarrow> do_events es v | None \<Rightarrow> None)"

inductive_simps upd_run_Nil: "upd_run u [] v"
inductive_simps upd_run_Cons: "upd_run u (e # es) v"

lemma upd_run_iff: "upd_run u es v \<longleftrightarrow> do_events es u = Some v"
  by (induction es arbitrary: u) (auto simp: upd_run_Nil upd_run_Cons upd_step_iff split: option.splits)

definition sample_env :: env where
  "sample_env = env_with (tor_to made_slate)"

definition closed_api :: api where
  "closed_api = owner_new no_wallet ''/w/grin-wallet.toml''"

theorem one_updater_at_a_time_witness:
  "\<exists>u. upd_run (upd_init closed_api) [Start None, Start None, Move sample_env 1, Move sample_env 1, Move sample_env 1] u \<and>
     place_of u 1 = Testing \<and> \<not> running (place_of u 0)"
proof -
  let ?es = "[Start None, Start None, Move sample_env 1, Move sample_env 1, Move sample_env 1]"
  have "map_option (\<lambda>u. (place_of u 1, length (us_threads u))) (do_events ?es (upd_init closed_api)) = Some (Testing, 2)"
    by (simp add: start_updater_def upd_init_def thread_step_def place_of_def at_place_def updater_round_def
        closed_api_def owner_new_def no_wallet_def provider_new_def)
  then obtain u where u: "upd_run (upd_init closed_api) ?es u" "place_of u 1 = Testing" "length (us_threads u) = 2"
    by (auto simp: upd_run_iff simp del: do_events.simps)
  have "\<not> running (place_of u 0)"
    using one_updater_at_a_time [OF u(1), THEN conjunct2, rule_format, of 0 1] u(2,3) by auto
  with u show ?thesis by blast
qed


text \<open>The updater was started with a mask that is not the one of the open wallet.\<close>

definition wrong_mask :: secret_key where
  "wrong_mask = replicate 32 5"

definition wrong_mask_state :: upd_state where
  "wrong_mask_state = \<lparr>us_api = (api_of sample_wallet)\<lparr>ap_updater_running := True\<rparr>, us_holder = Some 0,
     us_threads = [\<lparr>th_mask = Some wrong_mask, th_place = Looping\<rparr>]\<rparr>"

lemma wrong_mask_update:
  "fst (update_outputs sample_ext quiet_node 0 (Some wrong_mask) False sample_wallet) = Err (Wal InvalidKeychainMask)"
  by code_simp

lemma wrong_mask_round:
  "\<exists>a. updater_round sample_env (Some wrong_mask) (us_api wrong_mask_state) = Some (Err (Wal InvalidKeychainMask), a)"
proof -
  obtain w where "update_outputs sample_ext quiet_node 0 (Some wrong_mask) False sample_wallet = (Err (Wal InvalidKeychainMask), w)"
    using wrong_mask_update by (metis prod.collapse)
  then show ?thesis
    by (simp add: updater_round_def on_inst_loop_def wrong_mask_state_def sample_env_def api_of_def owner_new_def
        update_wallet_state_def lbind_def lwop_def sread_def)
qed

theorem failed_update_leaves_flag_witness:
  "\<exists>v. upd_step wrong_mask_state (Move sample_env 0) v \<and> place_of v 0 = Ended \<and> updater_flag v \<and>
     \<not> refreshing (us_api v) True"
proof -
  obtain a where a: "updater_round sample_env (Some wrong_mask) (us_api wrong_mask_state) = Some (Err (Wal InvalidKeychainMask), a)"
    using wrong_mask_round by blast
  have w: "length (us_threads wrong_mask_state) = 1" "th_mask (us_threads wrong_mask_state ! 0) = Some wrong_mask"
    "place_of wrong_mask_state 0 = Looping" "updater_flag wrong_mask_state"
    by (simp_all add: wrong_mask_state_def place_of_def updater_flag_def)
  obtain v where v: "upd_step wrong_mask_state (Move sample_env 0) v" "\<forall>j < length (us_threads v). place_of v j = Ended"
    "\<forall>es x. upd_run v es x \<and> (\<forall>e \<in> set es. e \<noteq> Stop \<and> \<not> is_start e) \<longrightarrow>
        updater_flag x \<and> filter is_move es = [] \<and> \<not> refreshing (us_api x) True"
    using failed_update_leaves_flag [of 0 wrong_mask_state sample_env "Wal InvalidKeychainMask" a] w a by auto
  have "length (us_threads v) = 1"
    using v(1) w(1) by (auto elim!: upd_step_moveE dest!: thread_step_moved simp: moved_def)
  then show ?thesis using v upd_run.done_here [of v] by fastforce
qed

end
