(* ===== verification/Session.thy ===== *)
theory Session
  imports Api
begin

text \<open>
  The secure session of the Owner interface (\<open>api/src/types.rs\<close> and \<open>OwnerAPIHandlerV3\<close> of
  \<open>controller/src/controller.rs\<close>): a client first agrees on a key, and every other request is
  encrypted under it. JSON texts, base 64, AES-GCM and the curve are parameters, and so is the
  dispatch of a request to the methods of the interface, which a macro of a library generates.
\<close>

section \<open>Encrypted bodies\<close>

text \<open>
  Printing and parsing of JSON, base 64, sealing (which fails for too much data) and opening under
  a key of 32 bytes, the order in which the fields of a hash map come, the two curve operations of
  the key agreement, and the texts of keys and parse errors.
\<close>

record session_ext =
  q_text :: "json \<Rightarrow> string"
  q_parse :: "string \<Rightarrow> json option"
  q_utf8 :: "bytes \<Rightarrow> string option"
  q_b64 :: "bytes \<Rightarrow> string"
  q_unb64 :: "string \<Rightarrow> bytes option"
  q_seal :: "bytes \<Rightarrow> bytes \<Rightarrow> bytes \<Rightarrow> bytes option"
  q_open :: "bytes \<Rightarrow> bytes \<Rightarrow> bytes \<Rightarrow> bytes option"
  q_order :: "string list \<Rightarrow> string list"
  q_mul :: "public_key \<Rightarrow> secret_key \<Rightarrow> public_key result"
  q_format_error :: "json \<Rightarrow> string"

datatype json_id = IntId u32 | StrId string

record encrypted_body =
  eb_nonce :: string
  eb_body_enc :: string

definition api_encryption :: "string \<Rightarrow> error" where
  "api_encryption s = Com (APIEncryption s)"

text \<open>\<open>nonce\<close> is the twelve bytes drawn. A key of another length panics.\<close>

definition body_from_json :: "ext \<Rightarrow> session_ext \<Rightarrow> bytes \<Rightarrow> json \<Rightarrow> secret_key \<Rightarrow> encrypted_body result" where
  "body_from_json X Q nonce json_in enc_key =
     (let to_encrypt = map of_char (q_text Q json_in)
      in if length enc_key \<noteq> 32 then Panic
         else rbind (ok_or (api_encryption ''EncryptedBody: encryption failed'') (q_seal Q enc_key nonce to_encrypt)) (\<lambda>c.
           Ok \<lparr>eb_nonce = x_to_hex X nonce, eb_body_enc = q_b64 Q c\<rparr>))"

definition body_decrypt :: "ext \<Rightarrow> session_ext \<Rightarrow> encrypted_body \<Rightarrow> secret_key \<Rightarrow> json result" where
  "body_decrypt X Q b dec_key =
     rbind (ok_or (api_encryption ''EncryptedBody Dec: Encrypted request contains invalid Base64'')
              (q_unb64 Q (eb_body_enc b))) (\<lambda>to_decrypt.
     rbind (ok_or (api_encryption ''EncryptedBody Dec: Invalid Nonce'') (x_from_hex X (eb_nonce b))) (\<lambda>nonce.
     if length nonce < 12 then Err (api_encryption ''EncryptedBody Dec: Invalid Nonce length'')
     else if length dec_key \<noteq> 32 then Panic
     else
       rbind (ok_or (api_encryption ''EncryptedBody: decryption failed'')
                (q_open Q dec_key (take 12 nonce) to_decrypt)) (\<lambda>plain.
       rbind (ok_or (api_encryption ''EncryptedBody Dec: Invalid UTF-8'') (q_utf8 Q plain)) (\<lambda>decrypted.
         ok_or (api_encryption ''EncryptedBody Dec: Invalid JSON'') (q_parse Q decrypted)))))"

definition body_json :: "encrypted_body \<Rightarrow> json" where
  "body_json b = JObj [(''nonce'', JStr (eb_nonce b)), (''body_enc'', JStr (eb_body_enc b))]"

record encrypted_request =
  er_jsonrpc :: string
  er_method :: string
  er_id :: json_id
  er_params :: encrypted_body

definition request_from_json ::
  "ext \<Rightarrow> session_ext \<Rightarrow> bytes \<Rightarrow> json_id \<Rightarrow> json \<Rightarrow> secret_key \<Rightarrow> encrypted_request result" where
  "request_from_json X Q nonce i json_in enc_key =
     rbind (body_from_json X Q nonce json_in enc_key) (\<lambda>b.
       Ok \<lparr>er_jsonrpc = ''2.0'', er_method = ''encrypted_request_v3'', er_id = i, er_params = b\<rparr>)"

fun id_json :: "json_id \<Rightarrow> json" where
  "id_json (IntId n) = JNum (uint n)"
| "id_json (StrId s) = JStr s"

definition request_json :: "encrypted_request \<Rightarrow> json" where
  "request_json r = JObj [(''jsonrpc'', JStr (er_jsonrpc r)), (''method'', JStr (er_method r)),
     (''id'', id_json (er_id r)), (''params'', body_json (er_params r))]"

text \<open>
  Reading the records back from JSON: an object with all the fields, whatever else it has, or an
  array of exactly the fields in order.
\<close>

fun fields_of :: "string list \<Rightarrow> json \<Rightarrow> json list option" where
  "fields_of ks (JObj fs) = (if \<forall>k \<in> set ks. map_of fs k \<noteq> None then Some (map (\<lambda>k. the (map_of fs k)) ks) else None)"
| "fields_of ks (JArr vs) = (if length vs = length ks then Some vs else None)"
| "fields_of ks _ = None"

fun id_of_json :: "json \<Rightarrow> json_id option" where
  "id_of_json (JNum n) = (if 0 \<le> n \<and> n < 2 ^ 32 then Some (IntId (word_of_int n)) else None)"
| "id_of_json (JStr s) = Some (StrId s)"
| "id_of_json _ = None"

definition body_of_json :: "json \<Rightarrow> encrypted_body option" where
  "body_of_json v = (case fields_of [''nonce'', ''body_enc''] v of
     Some [JStr n, JStr b] \<Rightarrow> Some \<lparr>eb_nonce = n, eb_body_enc = b\<rparr>
   | _ \<Rightarrow> None)"

definition request_of_json :: "json \<Rightarrow> encrypted_request option" where
  "request_of_json v = (case fields_of [''jsonrpc'', ''method'', ''id'', ''params''] v of
     Some [JStr j, JStr m, i, p] \<Rightarrow> (case (id_of_json i, body_of_json p) of
       (Some i, Some b) \<Rightarrow> Some \<lparr>er_jsonrpc = j, er_method = m, er_id = i, er_params = b\<rparr>
     | _ \<Rightarrow> None)
   | _ \<Rightarrow> None)"

text \<open>The response holds its body under the one key \<open>Ok\<close>.\<close>

record encrypted_response =
  ep_jsonrpc :: string
  ep_id :: json_id
  ep_result :: "(string \<times> encrypted_body) list"

definition response_from_json ::
  "ext \<Rightarrow> session_ext \<Rightarrow> bytes \<Rightarrow> json_id \<Rightarrow> json \<Rightarrow> secret_key \<Rightarrow> encrypted_response result" where
  "response_from_json X Q nonce i json_in enc_key =
     rbind (body_from_json X Q nonce json_in enc_key) (\<lambda>b.
       Ok \<lparr>ep_jsonrpc = ''2.0'', ep_id = i, ep_result = [(''Ok'', b)]\<rparr>)"

definition response_json :: "encrypted_response \<Rightarrow> json" where
  "response_json r = JObj [(''jsonrpc'', JStr (ep_jsonrpc r)), (''id'', id_json (ep_id r)),
     (''result'', JObj (map (\<lambda>(k, b). (k, body_json b)) (ep_result r)))]"

definition response_decrypt :: "ext \<Rightarrow> session_ext \<Rightarrow> encrypted_response \<Rightarrow> secret_key \<Rightarrow> json result" where
  "response_decrypt X Q r dec_key = (case map_of (ep_result r) ''Ok'' of
     Some b \<Rightarrow> body_decrypt X Q b dec_key | None \<Rightarrow> Panic)"

text \<open>The responses for what goes wrong with the encryption, under the identifier 1\<close>

definition encryption_error :: "int \<Rightarrow> string \<Rightarrow> json" where
  "encryption_error code message = JObj [(''jsonrpc'', JStr ''2.0''), (''id'', JStr ''1''),
     (''error'', JObj [(''code'', JNum code), (''message'', JStr message)])]"

section \<open>The helpers of the handler\<close>

definition is_init_secure_api :: "json \<Rightarrow> bool" where
  "is_init_secure_api val \<longleftrightarrow> as_str (jindex val ''method'') = Some ''init_secure_api''"

definition is_open_wallet :: "json \<Rightarrow> bool" where
  "is_open_wallet val \<longleftrightarrow> as_str (jindex val ''method'') = Some ''open_wallet''"

text \<open>The handler: the key of the session, the mask for the Foreign interface, and the interface\<close>

record owner_session =
  ss_key :: "secret_key option"
  ss_mask :: "secret_key option"
  ss_api :: api

definition session_new :: "secret_key option \<Rightarrow> api \<Rightarrow> owner_session" where
  "session_new kmask a = \<lparr>ss_key = None, ss_mask = kmask,
     ss_api = (owner_new (ap_provider a) (ap_config_path a))\<lparr>ap_configs := ap_configs a, ap_sent := ap_sent a\<rparr>\<rparr>"

definition check_encryption_started :: "secret_key option \<Rightarrow> (json, unit) res" where
  "check_encryption_started key =
     (if key \<noteq> None then Ok ()
      else Err (encryption_error (-32001) ''Encryption must be enabled. Please call 'init_secure_api` first''))"

fun enc_error_text :: "error \<Rightarrow> string" where
  "enc_error_text (Com (APIEncryption s)) = s"
| "enc_error_text _ = ''''"

definition decrypt_request :: "ext \<Rightarrow> session_ext \<Rightarrow> secret_key option \<Rightarrow> json \<Rightarrow> (json, json_id \<times> json) res" where
  "decrypt_request X Q key req =
     rbind (unwrap key) (\<lambda>shared_key.
     rbind (ok_or (encryption_error (-32002) (''Encrypted request format error: '' @ q_format_error Q req))
              (request_of_json req)) (\<lambda>enc_req.
       case body_decrypt X Q (er_params enc_req) shared_key of
         Ok v \<Rightarrow> Ok (er_id enc_req, v)
       | Err e \<Rightarrow> Err (encryption_error (-32002) (''Decryption error: '' @ enc_error_text e))
       | Panic \<Rightarrow> Panic))"

definition encrypt_response ::
  "ext \<Rightarrow> session_ext \<Rightarrow> bytes \<Rightarrow> secret_key option \<Rightarrow> json_id \<Rightarrow> json \<Rightarrow> (json, json) res" where
  "encrypt_response X Q nonce key i r =
     rbind (unwrap key) (\<lambda>shared_key.
       case response_from_json X Q nonce i r shared_key of
         Ok enc_res \<Rightarrow> Ok (response_json enc_res)
       | Err e \<Rightarrow> Err (encryption_error (-32003) (''EncryptionError: '' @ enc_error_text e))
       | Panic \<Rightarrow> Panic)"

text \<open>
  An error as a string, or as an object, of which the last field in the order of the hash map is
  shown: the value as it is where all values are strings, and as JSON text otherwise.
\<close>

fun error_string :: "session_ext \<Rightarrow> json \<Rightarrow> string option" where
  "error_string Q (JStr s) = Some s"
| "error_string Q (JObj fs) =
     (let strings = (\<forall>(k, v) \<in> set fs. as_str v \<noteq> None);
          ks = q_order Q (map fst fs)
      in Some (if ks = [] then ''''
               else let v = jindex (JObj fs) (last ks)
                    in last ks @ '': '' @ (if strings then the (as_str v) else q_text Q v)))"
| "error_string Q _ = None"

definition check_error_response :: "session_ext \<Rightarrow> json \<Rightarrow> bool \<times> json" where
  "check_error_response Q val = (case error_string Q (jindex (jindex val ''result'') ''Err'') of
     Some s \<Rightarrow> (True, JObj [(''jsonrpc'', JStr ''2.0''), (''id'', jindex val ''id''),
        (''error'', JObj [(''message'', JStr s), (''code'', JNum (-32099))])])
   | None \<Rightarrow> (False, val))"

definition update_owner_api_shared_key :: "json \<Rightarrow> secret_key option \<Rightarrow> owner_session \<Rightarrow> owner_session" where
  "update_owner_api_shared_key val new_key s =
     (if as_str (jindex (jindex val ''result'') ''Ok'') \<noteq> None then s\<lparr>ss_key := new_key\<rparr> else s)"

definition update_mask :: "ext \<Rightarrow> json \<Rightarrow> owner_session \<Rightarrow> owner_session" where
  "update_mask X val s = (case as_str (jindex (jindex val ''result'') ''Ok'') of
     None \<Rightarrow> s
   | Some key \<Rightarrow> (case x_from_hex X key of
       None \<Rightarrow> s
     | Some b \<Rightarrow> (case x_sk_from_slice X b of Ok sk \<Rightarrow> s\<lparr>ss_mask := Some sk\<rparr> | _ \<Rightarrow> s)))"

section \<open>A request\<close>

text \<open>
  The dispatch: the reply to a request, none for a notification, and the interface afterwards.
\<close>

type_synonym rpc = "json \<Rightarrow> api \<Rightarrow> json option \<times> api"

text \<open>What comes after the request was dispatched; \<open>encrypted\<close> is the identifier of an encrypted one.\<close>

definition send_reply ::
  "ext \<Rightarrow> session_ext \<Rightarrow> bytes \<Rightarrow> json_id option \<Rightarrow> bool \<Rightarrow> json \<Rightarrow> json \<Rightarrow> owner_session \<Rightarrow> (json, json) res \<times> owner_session" where
  "send_reply X Q nonce encrypted is_init r intercept s =
     (case (case encrypted of None \<Rightarrow> Ok r | Some i \<Rightarrow> encrypt_response X Q nonce (ss_key s) i intercept) of
        Err v \<Rightarrow> (Ok v, s)
      | Panic \<Rightarrow> (Panic, s)
      | Ok out \<Rightarrow> (Ok out, if is_init then update_owner_api_shared_key intercept (ap_shared_key (ss_api s)) s else s))"

definition handle_request ::
  "ext \<Rightarrow> session_ext \<Rightarrow> rpc \<Rightarrow> bool \<Rightarrow> bytes \<Rightarrow> json_id option \<Rightarrow> json \<Rightarrow> owner_session \<Rightarrow> (json, json) res \<times> owner_session" where
  "handle_request X Q h running_foreign nonce encrypted val s =
     (let (reply, a) = h val (ss_api s); s = s\<lparr>ss_api := a\<rparr>
      in case reply of
           None \<Rightarrow> (Ok (JArr []), s)
         | Some r \<Rightarrow>
             send_reply X Q nonce encrypted (is_init_secure_api val) r (snd (check_error_response Q r))
               (if is_open_wallet val \<and> running_foreign then update_mask X r s else s))"

definition call_api ::
  "ext \<Rightarrow> session_ext \<Rightarrow> rpc \<Rightarrow> bool \<Rightarrow> bytes \<Rightarrow> json \<Rightarrow> owner_session \<Rightarrow> (json, json) res \<times> owner_session" where
  "call_api X Q h running_foreign nonce val s =
     (if is_init_secure_api val then handle_request X Q h running_foreign nonce None val s
      else case check_encryption_started (ss_key s) of
        Err v \<Rightarrow> (Ok v, s)
      | Panic \<Rightarrow> (Panic, s)
      | Ok _ \<Rightarrow> (case decrypt_request X Q (ss_key s) val of
          Err v \<Rightarrow> (Ok v, s)
        | Panic \<Rightarrow> (Panic, s)
        | Ok (i, v) \<Rightarrow> handle_request X Q h running_foreign nonce (Some i) v s))"

text \<open>The key agreement; \<open>sec_key\<close> is drawn.\<close>

definition init_secure_api :: "ext \<Rightarrow> session_ext \<Rightarrow> secret_key \<Rightarrow> public_key \<Rightarrow> public_key aop" where
  "init_secure_api X Q sec_key ecdh_pubkey =
     sbind (slift (q_mul Q ecdh_pubkey sec_key)) (\<lambda>shared_pubkey.
     sbind (slift (x_sk_from_slice X (tl shared_pubkey))) (\<lambda>shared_key.
     sbind (smodify (\<lambda>a. a\<lparr>ap_shared_key := Some shared_key\<rparr>)) (\<lambda>_.
       slift (x_pk_of_sk X sec_key))))"

end
