(* ===== verification/Session_Props.thy ===== *)
theory Session_Props
  imports Session Exchange_Sample
begin

text \<open>
  The secure session: bodies are read back, nothing but the key agreement is done for a client that
  does not have the key, and with the key an encrypted request has the effect and the reply of the
  request it holds.
\<close>

section \<open>Bodies\<close>

text \<open>
  What the parameters are documented to do: JSON that was printed parses to the same value, base 64
  and hex are read back, and what was sealed under a key and a nonce of twelve bytes opens under them.
\<close>

definition text_ok :: "session_ext \<Rightarrow> json \<Rightarrow> bool" where
  "text_ok Q v \<longleftrightarrow> (\<exists>t. q_utf8 Q (map of_char (q_text Q v)) = Some t \<and> q_parse Q t = Some v)"

definition session_lib_ok :: "ext \<Rightarrow> session_ext \<Rightarrow> bool" where
  "session_lib_ok X Q \<longleftrightarrow>
     (\<forall>b. q_unb64 Q (q_b64 Q b) = Some b) \<and> (\<forall>b. x_from_hex X (x_to_hex X b) = Some b) \<and>
     (\<forall>k n d c. length n = 12 \<longrightarrow> q_seal Q k n d = Some c \<longrightarrow> q_open Q k n c = Some d)"

lemma body_roundtrip:
  assumes "session_lib_ok X Q" "body_from_json X Q nonce v key = Ok b" "length nonce = 12" "text_ok Q v"
  shows "body_decrypt X Q b key = Ok v"
proof -
  obtain c where c: "q_seal Q key nonce (map of_char (q_text Q v)) = Some c" "length key = 32"
    "b = \<lparr>eb_nonce = x_to_hex X nonce, eb_body_enc = q_b64 Q c\<rparr>"
    using assms(2) by (auto simp: body_from_json_def Let_def res_simps split: if_splits)
  have "q_open Q key nonce c = Some (map of_char (q_text Q v))"
    using assms(1,3) c(1) unfolding session_lib_ok_def by blast
  moreover obtain t where "q_utf8 Q (map of_char (q_text Q v)) = Some t" "q_parse Q t = Some v"
    using assms(4) by (auto simp: text_ok_def)
  moreover have "q_unb64 Q (q_b64 Q c) = Some c" "x_from_hex X (x_to_hex X nonce) = Some nonce"
    using assms(1) by (simp_all add: session_lib_ok_def)
  ultimately show ?thesis using assms(3) c(2) by (simp add: body_decrypt_def c(3))
qed

lemma body_of_body_json [simp]: "body_of_json (body_json b) = Some b"
  by (simp add: body_of_json_def body_json_def)

lemma id_of_id_json [simp]: "id_of_json (id_json i) = Some i"
proof (cases i)
  case (IntId x)
  have "uint x < 2 ^ LENGTH(32)" by (rule unsigned_less)
  then show ?thesis using IntId by simp
qed simp

lemma request_of_request_json [simp]: "request_of_json (request_json r) = Some r"
  by (simp add: request_of_json_def request_json_def)

section \<open>Without the key\<close>

text \<open>The client has the key of the session: the request's body opens under it.\<close>

definition has_key :: "ext \<Rightarrow> session_ext \<Rightarrow> owner_session \<Rightarrow> json \<Rightarrow> bool" where
  "has_key X Q s val \<longleftrightarrow> (\<exists>k r v. ss_key s = Some k \<and> request_of_json val = Some r \<and> body_decrypt X Q (er_params r) k = Ok v)"

text \<open>C33: a request that is not the agreement on a key, and whose body does not open
  under the key of the session, or for which there is no session, changes nothing: not the wallet, not
  the key, not the mask. It is answered, in the clear, that the session has to be opened first, or
  that its form or its encryption is wrong; no method of the interface is reached, whatever the
  dispatch would have done with it.\<close>

theorem nothing_without_the_key:
  assumes "\<not> is_init_secure_api val" "\<not> has_key X Q s val" "\<forall>k. ss_key s = Some k \<longrightarrow> length k = 32"
  shows "snd (call_api X Q h fg nonce val s) = s \<and>
     (\<exists>code m. fst (call_api X Q h fg nonce val s) = Ok (encryption_error code m) \<and>
        (ss_key s = None \<longrightarrow> code = -32001) \<and> (ss_key s \<noteq> None \<longrightarrow> code = -32002))"
proof (cases "ss_key s")
  case None
  then show ?thesis using assms(1) by (simp add: call_api_def check_encryption_started_def) blast
next
  case (Some k)
  have "body_decrypt X Q b k \<noteq> Panic" for b
    using assms(3) Some by (auto simp: body_decrypt_def res_simps ok_or_def split: option.splits if_splits)
  then show ?thesis
    using assms(1,2) Some
    by (cases "request_of_json val")
       (auto simp: call_api_def check_encryption_started_def decrypt_request_def has_key_def split: res.splits)
qed

section \<open>With the key\<close>

text \<open>The request in the clear that a client encrypts, and what it reads from the response\<close>

definition client_request :: "ext \<Rightarrow> session_ext \<Rightarrow> bytes \<Rightarrow> json_id \<Rightarrow> json \<Rightarrow> secret_key \<Rightarrow> json result" where
  "client_request X Q nonce i val key = rbind (request_from_json X Q nonce i val key) (\<lambda>r. Ok (request_json r))"

definition client_reads :: "ext \<Rightarrow> session_ext \<Rightarrow> secret_key \<Rightarrow> json \<Rightarrow> json result" where
  "client_reads X Q key resp =
     rbind (ok_or (api_encryption ''response'') (body_of_json (jindex (jindex resp ''result'') ''Ok''))) (\<lambda>b.
       body_decrypt X Q b key)"

text \<open>C34: a request encrypted under the key of the session is dispatched as
  the request it holds, and leaves the wallet, the interface and the mask as that one does. When the
  response can be sealed the client reads from it, with the key it used, the reply of the dispatch
  (with an error in the form of JSON-RPC), even where the request was to agree on a new key, which
  holds from the next request on; and the response carries the identifier of the request.\<close>

theorem encrypted_request_is_transparent:
  assumes lib: "session_lib_ok X Q" and printed: "text_ok Q val" "text_ok Q (snd (check_error_response Q r))"
    and n: "length nonce = 12" "length nonce' = 12"
    and key: "ss_key s = Some key" "length key = 32"
    and req: "client_request X Q nonce i val key = Ok enc"
    and reply: "h val (ss_api s) = (Some r, a)"
    and seal: "q_seal Q key nonce' (map of_char (q_text Q (snd (check_error_response Q r)))) \<noteq> None"
  shows "\<exists>resp s'. call_api X Q h fg nonce' enc s = (Ok resp, s') \<and>
     client_reads X Q key resp = Ok (snd (check_error_response Q r)) \<and> jindex resp ''id'' = id_json i \<and>
     ss_api s' = a \<and>
     ss_mask s' = (if is_open_wallet val \<and> fg then ss_mask (update_mask X r s) else ss_mask s) \<and>
     (\<not> is_init_secure_api val \<longrightarrow> ss_key s' = Some key)"
proof -
  let ?i = "snd (check_error_response Q r)"
  obtain q where q: "body_from_json X Q nonce val key = Ok q"
    "enc = request_json \<lparr>er_jsonrpc = ''2.0'', er_method = ''encrypted_request_v3'', er_id = i, er_params = q\<rparr>"
    using req by (auto simp: client_request_def request_from_json_def res_simps)
  have "decrypt_request X Q (Some key) enc = Ok (i, val)"
    using body_roundtrip [OF lib q(1) n(1) printed(1)] by (simp add: decrypt_request_def q(2))
  moreover have "\<not> is_init_secure_api enc" by (simp add: q(2) is_init_secure_api_def request_json_def)
  ultimately have call: "call_api X Q h fg nonce' enc s = handle_request X Q h fg nonce' (Some i) val s"
    by (simp add: call_api_def key(1) check_encryption_started_def)
  obtain b where b: "body_from_json X Q nonce' ?i key = Ok b"
    using seal key(2) by (auto simp: body_from_json_def Let_def)
  let ?resp = "response_json \<lparr>ep_jsonrpc = ''2.0'', ep_id = i, ep_result = [(''Ok'', b)]\<rparr>"
  let ?s1 = "if is_open_wallet val \<and> fg then update_mask X r (s\<lparr>ss_api := a\<rparr>) else s\<lparr>ss_api := a\<rparr>"
  let ?s2 = "if is_init_secure_api val then update_owner_api_shared_key ?i (ap_shared_key (ss_api ?s1)) ?s1 else ?s1"
  have s1: "ss_key ?s1 = Some key" "ss_api ?s1 = a"
    "ss_mask ?s1 = (if is_open_wallet val \<and> fg then ss_mask (update_mask X r s) else ss_mask s)"
    using key(1) by (auto simp: update_mask_def split: option.splits res.splits)
  have "encrypt_response X Q nonce' (Some key) i ?i = Ok ?resp"
    by (simp add: encrypt_response_def response_from_json_def b)
  then have "call_api X Q h fg nonce' enc s = (Ok ?resp, ?s2)"
    unfolding call handle_request_def reply by (simp add: send_reply_def s1(1) Let_def)
  moreover have "client_reads X Q key ?resp = Ok ?i" "jindex ?resp ''id'' = id_json i"
    using body_roundtrip [OF lib b n(2) printed(2)] by (simp_all add: client_reads_def response_json_def)
  moreover have "ss_api ?s2 = a" "ss_mask ?s2 = ss_mask ?s1" "\<not> is_init_secure_api val \<Longrightarrow> ss_key ?s2 = Some key"
    using s1(1,2) by (simp_all add: update_owner_api_shared_key_def)
  ultimately show ?thesis unfolding s1(3) by blast
qed

section \<open>A sample\<close>

definition accounts_request :: json where
  "accounts_request = JObj [(''jsonrpc'', JStr ''2.0''), (''method'', JStr ''accounts''), (''id'', JNum 7)]"

definition accounts_reply :: json where
  "accounts_reply = JObj [(''id'', JNum 7), (''jsonrpc'', JStr ''2.0''), (''result'', JObj [(''Ok'', JArr [])])]"

definition sample_session :: session_ext where
  "sample_session = \<lparr>q_text = (\<lambda>v. if v = accounts_request then ''q'' else ''r''),
     q_parse = (\<lambda>t. Some (if t = ''q'' then accounts_request else accounts_reply)),
     q_utf8 = (\<lambda>b. Some (map (\<lambda>x. char_of (unat x)) b)), q_b64 = map (\<lambda>x. char_of (unat x)),
     q_unb64 = (\<lambda>s. Some (map of_char s)), q_seal = (\<lambda>k n b. Some (b @ k)),
     q_open = (\<lambda>k n c. if drop (length c - length k) c = k then Some (take (length c - length k) c) else None),
     q_order = (\<lambda>ks. ks), q_mul = (\<lambda>p k. Ok p), q_format_error = (\<lambda>_. '''')\<rparr>"

lemma utf8_back: "map (\<lambda>x. char_of (unat x)) (map of_char t :: bytes) = t"
  by (simp add: comp_def unat_of_char)

lemma sample_session_ok: "session_lib_ok sample_ext sample_session" "text_ok sample_session accounts_request"
    "text_ok sample_session accounts_reply"
proof -
  have u: "q_utf8 sample_session (map of_char t) = Some t" for t by (simp only: sample_session_def session_ext.simps utf8_back)
  show "text_ok sample_session accounts_request" "text_ok sample_session accounts_reply"
    unfolding text_ok_def u by (simp_all add: sample_session_def accounts_request_def accounts_reply_def)
  show "session_lib_ok sample_ext sample_session"
    by (auto simp: session_lib_ok_def sample_session_def sample_ext_def comp_def char_of_unat)
qed

definition session_with :: "secret_key option \<Rightarrow> owner_session" where
  "session_with key = \<lparr>ss_key = key, ss_mask = None, ss_api = api_of sample_wallet\<rparr>"

theorem nothing_without_the_key_witness:
  "call_api sample_ext sample_session (\<lambda>_ a. (None, a\<lparr>ap_updater_running := True\<rparr>)) False [] accounts_request (session_with None) =
     (Ok (encryption_error (-32001) ''Encryption must be enabled. Please call 'init_secure_api` first''), session_with None)"
proof -
  let ?call = "call_api sample_ext sample_session (\<lambda>_ a. (None, a\<lparr>ap_updater_running := True\<rparr>)) False [] accounts_request (session_with None)"
  have init: "\<not> is_init_secure_api accounts_request" by (simp add: is_init_secure_api_def accounts_request_def)
  have "\<not> has_key sample_ext sample_session (session_with None) accounts_request" "\<forall>k. ss_key (session_with None) = Some k \<longrightarrow> length k = 32"
    by (simp_all add: has_key_def session_with_def)
  note p = nothing_without_the_key [OF init this, of "\<lambda>_ a. (None, a\<lparr>ap_updater_running := True\<rparr>)" False "[]"]
  have "fst ?call = Ok (encryption_error (-32001) ''Encryption must be enabled. Please call 'init_secure_api` first'')"
    by (simp add: call_api_def init check_encryption_started_def session_with_def)
  then show ?thesis using p by (simp add: prod_eq_iff)
qed

theorem encrypted_request_is_transparent_witness:
  "\<exists>enc resp s'. client_request sample_ext sample_session (replicate 12 1) (IntId 3) accounts_request (replicate 32 9) = Ok enc \<and>
     call_api sample_ext sample_session (\<lambda>_ a. (Some accounts_reply, a\<lparr>ap_updater_running := True\<rparr>)) False (replicate 12 2) enc
       (session_with (Some (replicate 32 9))) = (Ok resp, s') \<and>
     client_reads sample_ext sample_session (replicate 32 9) resp = Ok accounts_reply \<and> ap_updater_running (ss_api s')"
proof -
  let ?k = "replicate 32 9" and ?h = "\<lambda>(_ :: json) a. (Some accounts_reply, a\<lparr>ap_updater_running := True\<rparr>)"
  have "is_Ok (client_request sample_ext sample_session (replicate 12 1) (IntId 3) accounts_request ?k)"
    by (simp add: client_request_def request_from_json_def body_from_json_def sample_session_def)
  then obtain enc where enc: "client_request sample_ext sample_session (replicate 12 1) (IntId 3) accounts_request ?k = Ok enc"
    by (auto simp: is_Ok_ex)
  have reply: "snd (check_error_response sample_session accounts_reply) = accounts_reply"
    by (simp add: check_error_response_def accounts_reply_def)
  have "q_seal sample_session ?k (replicate 12 2) d \<noteq> None" for d by (simp add: sample_session_def)
  then show ?thesis
    using encrypted_request_is_transparent [OF sample_session_ok(1,2), where r = accounts_reply and nonce = "replicate 12 1"
        and nonce' = "replicate 12 2" and s = "session_with (Some ?k)" and key = ?k and i = "IntId 3" and enc = enc
        and h = ?h and fg = False and a = "(api_of sample_wallet)\<lparr>ap_updater_running := True\<rparr>"] sample_session_ok(3) enc
    by (fastforce simp: reply session_with_def)
qed

end
