(* ===== verification/Onion.thy ===== *)
theory Onion
  imports Slate_Bin Json
begin

text \<open>
  The onion of a mixnet swap (\<open>libwallet/src/mwixnet/onion/\<close>): one encrypted payload for each hop,
  wrapped in a layer of encryption for every hop before it, the peeling of a layer by a hop, the
  binary and JSON forms, and the commitment signature. The curve, the stream cipher and the message
  authentication code are parameters; a key stream gives one byte for each position.
\<close>

text \<open>
  \<open>o_dh\<close> and \<open>o_xpk\<close> are the X25519 exchange and public key, \<open>o_hmac\<close> the code under a key, which may
  refuse the length of the key, \<open>o_stream\<close> the key stream; \<open>o_sk_mul\<close>, \<open>o_sk_add\<close> and \<open>o_commit2\<close>
  calculate with scalars and commit to two of them; \<open>o_pk_of_commit\<close>, \<open>o_pk_mul\<close> with points.
\<close>

record onion_lib =
  o_dh :: "secret_key \<Rightarrow> bytes \<Rightarrow> bytes"
  o_xpk :: "secret_key \<Rightarrow> bytes"
  o_hmac :: "bytes \<Rightarrow> bytes \<Rightarrow> bytes option"
  o_stream :: "bytes \<Rightarrow> bytes \<Rightarrow> nat \<Rightarrow> u8"
  o_sk_mul :: "secret_key \<Rightarrow> secret_key \<Rightarrow> secret_key result"
  o_sk_add :: "secret_key \<Rightarrow> secret_key \<Rightarrow> secret_key result"
  o_commit2 :: "secret_key \<Rightarrow> secret_key \<Rightarrow> commitment result"
  o_pk_of_commit :: "commitment \<Rightarrow> public_key result"
  o_pk_mul :: "public_key \<Rightarrow> secret_key \<Rightarrow> public_key result"
  o_blind_key :: "blinding_factor \<Rightarrow> secret_key result"

definition CURRENT_ONION_VERSION :: u8 where
  "CURRENT_ONION_VERSION = 0"

record onion =
  on_ephemeral_pubkey :: bytes
  on_commit :: commitment
  on_enc_payloads :: "bytes list"

record payload =
  pl_next_ephemeral_pk :: bytes
  pl_excess :: secret_key
  pl_fee :: fee_fields
  pl_rangeproof :: "range_proof option"

record peeled_onion =
  pe_payload :: payload
  pe_onion :: onion

record hop =
  hp_server_pubkey :: bytes
  hp_excess :: secret_key
  hp_fee :: fee_fields
  hp_rangeproof :: "range_proof option"

datatype onion_error =
    InvalidKeyLength
  | SerializationError ser_error
  | DeserializationError ser_error
  | CalcBlindError error
  | CalcPubKeyError error
  | CalcCommitError error

section \<open>Payloads in binary\<close>

definition write_optional :: "('a \<Rightarrow> bytes) \<Rightarrow> 'a option \<Rightarrow> bytes" where
  "write_optional put v = (case v of Some a \<Rightarrow> 1 # put a | None \<Rightarrow> [0])"

definition read_optional :: "'a rd \<Rightarrow> 'a option rd" where
  "read_optional get = sbind read_u8 (\<lambda>b. if b = 0 then sret None else sbind get (\<lambda>a. sret (Some a)))"

definition vec_to_array :: "nat \<Rightarrow> bytes \<Rightarrow> (ser_error, bytes) res" where
  "vec_to_array n v = (if length v < n then Err (SE_Other ''CountError'') else Ok (take n v))"

definition read_secret_key :: "ext \<Rightarrow> secret_key rd" where
  "read_secret_key X = sbind (read_fixed_bytes 32) (\<lambda>b.
     case x_sk_from_slice X b of Ok k \<Rightarrow> sret k | Err _ \<Rightarrow> sfail SE_CorruptedData | Panic \<Rightarrow> slift Panic)"

definition put_payload :: "ser_ext \<Rightarrow> payload \<Rightarrow> bytes" where
  "put_payload E p = [CURRENT_ONION_VERSION] @ pl_next_ephemeral_pk p @ pl_excess p @ be64 (pl_fee p) @
     write_optional (e_put_rproof E) (pl_rangeproof p)"

definition get_payload :: "ext \<Rightarrow> ser_ext \<Rightarrow> payload rd" where
  "get_payload X E =
     sbind read_u8 (\<lambda>version.
     if version \<noteq> CURRENT_ONION_VERSION then sfail (SE_Other ''UnsupportedProtocolVersion'')
     else
       sbind (read_fixed_bytes 32) (\<lambda>b.
       sbind (slift (vec_to_array 32 b)) (\<lambda>next_ephemeral_pk.
       sbind (read_secret_key X) (\<lambda>excess.
       sbind read_u64 (\<lambda>f.
       sbind (slift (ok_or SE_CorruptedData (x_fee_try_from X f))) (\<lambda>fee.
       sbind (read_optional (e_get_rproof E)) (\<lambda>rangeproof.
         sret \<lparr>pl_next_ephemeral_pk = next_ephemeral_pk, pl_excess = excess, pl_fee = fee,
               pl_rangeproof = rangeproof\<rparr>)))))))"

text \<open>What follows the payload is not looked at.\<close>

definition payload_deserialize :: "ext \<Rightarrow> ser_ext \<Rightarrow> bytes \<Rightarrow> (ser_error, payload) res" where
  "payload_deserialize X E b = fst (get_payload X E b)"

section \<open>Layers\<close>

text \<open>\<open>apply_keystream\<close>: the cipher goes on where it stopped, from one text to the next.\<close>

definition xor_at :: "(nat \<Rightarrow> u8) \<Rightarrow> nat \<Rightarrow> bytes \<Rightarrow> bytes" where
  "xor_at ks pos b = map2 (XOR) b (map ks [pos ..< pos + length b])"

fun keystream_over :: "(nat \<Rightarrow> u8) \<Rightarrow> nat \<Rightarrow> bytes list \<Rightarrow> bytes list" where
  "keystream_over ks pos [] = []"
| "keystream_over ks pos (p # ps) = xor_at ks pos p # keystream_over ks (pos + length p) ps"

definition ascii :: "string \<Rightarrow> bytes" where
  "ascii s = map of_char s"

definition new_stream_cipher :: "onion_lib \<Rightarrow> bytes \<Rightarrow> (onion_error, nat \<Rightarrow> u8) res" where
  "new_stream_cipher O' shared_secret =
     rbind (ok_or InvalidKeyLength (o_hmac O' (ascii ''MWIXNET'') shared_secret)) (\<lambda>mukey.
       Ok (o_stream O' (take 32 mukey) (ascii ''NONCE1234567'')))"

text \<open>The shared secret and the plain payload of each hop; \<open>draw i\<close> is the ephemeral key of hop \<open>i\<close>.\<close>

fun hop_payloads :: "ser_ext \<Rightarrow> onion_lib \<Rightarrow> (nat \<Rightarrow> secret_key) \<Rightarrow> nat \<Rightarrow> hop list \<Rightarrow> (bytes \<times> bytes) list" where
  "hop_payloads E O' draw i [] = []"
| "hop_payloads E O' draw i (h # hs) =
     (o_dh O' (draw i) (hp_server_pubkey h),
      put_payload E \<lparr>
        pl_next_ephemeral_pk = (if hs \<noteq> [] then o_xpk O' (draw (Suc i)) else replicate 32 0),
        pl_excess = hp_excess h, pl_fee = hp_fee h, pl_rangeproof = hp_rangeproof h\<rparr>)
     # hop_payloads E O' draw (Suc i) hs"

text \<open>The layers, the innermost first: each cipher runs over the payloads from its hop on.\<close>

fun wrap_layers :: "onion_lib \<Rightarrow> (bytes \<times> bytes) list \<Rightarrow> (onion_error, bytes list) res" where
  "wrap_layers O' [] = Ok []"
| "wrap_layers O' ((s, p) # rest) =
     rbind (wrap_layers O' rest) (\<lambda>ps.
     rbind (new_stream_cipher O' s) (\<lambda>ks. Ok (keystream_over ks 0 (p # ps))))"

definition create_onion ::
  "ser_ext \<Rightarrow> onion_lib \<Rightarrow> (nat \<Rightarrow> secret_key) \<Rightarrow> commitment \<Rightarrow> hop list \<Rightarrow> (onion_error, onion) res" where
  "create_onion E O' draw commitment hops =
     (if hops = [] then Ok \<lparr>on_ephemeral_pubkey = replicate 32 0, on_commit = commitment, on_enc_payloads = []\<rparr>
      else rbind (wrap_layers O' (hop_payloads E O' draw 0 hops)) (\<lambda>enc_payloads.
        Ok \<lparr>on_ephemeral_pubkey = o_xpk O' (draw 0), on_commit = commitment, on_enc_payloads = enc_payloads\<rparr>))"

text \<open>Commitments with an excess added, and with a value taken off\<close>

definition add_excess :: "ext \<Rightarrow> commitment \<Rightarrow> secret_key \<Rightarrow> commitment result" where
  "add_excess X commitment excess =
     rbind (x_commit_blind X 0 excess) (\<lambda>excess_commit. x_commit_sum X [commitment, excess_commit] [])"

definition sub_value :: "ext \<Rightarrow> commitment \<Rightarrow> u64 \<Rightarrow> commitment result" where
  "sub_value X commitment v =
     rbind (x_commit_blind X v (replicate 32 0)) (\<lambda>neg_commit. x_commit_sum X [commitment] [neg_commit])"

definition as_error :: "('e \<Rightarrow> 'f) \<Rightarrow> ('e, 'a) res \<Rightarrow> ('f, 'a) res" where
  "as_error f r = (case r of Ok a \<Rightarrow> Ok a | Err e \<Rightarrow> Err (f e) | Panic \<Rightarrow> Panic)"

text \<open>\<open>unwrap\<close> of a result, where the error has another type than around it\<close>

definition unwrapped :: "('e, 'a) res \<Rightarrow> ('f, 'a) res" where
  "unwrapped r = (case r of Ok a \<Rightarrow> Ok a | _ \<Rightarrow> Panic)"

lemma unwrapped_eq_Ok [res_simps]: "unwrapped r = Ok a \<longleftrightarrow> r = Ok a"
  by (cases r) (simp_all add: unwrapped_def)

definition peel_layer :: "ext \<Rightarrow> ser_ext \<Rightarrow> onion_lib \<Rightarrow> secret_key \<Rightarrow> onion \<Rightarrow> (onion_error, peeled_onion) res" where
  "peel_layer X E O' server_key on =
     rbind (new_stream_cipher O' (o_dh O' server_key (on_ephemeral_pubkey on))) (\<lambda>ks.
       case keystream_over ks 0 (on_enc_payloads on) of
         [] \<Rightarrow> Panic
       | decrypted_bytes # enc_payloads \<Rightarrow>
           rbind (as_error DeserializationError (payload_deserialize X E decrypted_bytes)) (\<lambda>p.
           rbind (as_error CalcCommitError (add_excess X (on_commit on) (pl_excess p))) (\<lambda>c.
           rbind (as_error CalcCommitError (sub_value X c (pl_fee p))) (\<lambda>c.
             Ok \<lparr>pe_payload = p, pe_onion = \<lparr>on_ephemeral_pubkey = pl_next_ephemeral_pk p, on_commit = c,
                   on_enc_payloads = enc_payloads\<rparr>\<rparr>))))"

section \<open>Onions in binary and in JSON\<close>

definition put_len_payload :: "bytes \<Rightarrow> bytes" where
  "put_len_payload p = be64 (of_nat (length p)) @ p"

definition put_onion :: "onion \<Rightarrow> bytes" where
  "put_onion on = on_ephemeral_pubkey on @ on_commit on @ be64 (of_nat (length (on_enc_payloads on))) @
     concat (map put_len_payload (on_enc_payloads on))"

definition get_len_payload :: "bytes rd" where
  "get_len_payload = sbind read_u64 (\<lambda>size. read_fixed_bytes (unat size))"

definition get_onion :: "ser_ext \<Rightarrow> onion rd" where
  "get_onion E =
     sbind (read_fixed_bytes 32) (\<lambda>b.
     sbind (slift (vec_to_array 32 b)) (\<lambda>pubkey.
     sbind (e_get_commit E) (\<lambda>commit.
     sbind read_u64 (\<lambda>len.
     sbind (read_many (unat len) get_len_payload) (\<lambda>enc_payloads.
       sret \<lparr>on_ephemeral_pubkey = pubkey, on_commit = commit, on_enc_payloads = enc_payloads\<rparr>)))))"

definition onion_json :: "ext \<Rightarrow> onion \<Rightarrow> json" where
  "onion_json X on = JObj [(''pubkey'', JStr (x_to_hex X (on_ephemeral_pubkey on))),
     (''commit'', JStr (x_to_hex X (on_commit on))),
     (''data'', JArr (map (\<lambda>v. JStr (x_to_hex X v)) (on_enc_payloads on)))]"

text \<open>
  Reading JSON: the fields in their order, a later one over an earlier; another field, or a value
  that is not hexadecimal, is an error (whose text is the library's), and a missing field panics.
\<close>

type_synonym onion_fields = "bytes option \<times> commitment option \<times> bytes list option"

definition hex_str :: "ext \<Rightarrow> json \<Rightarrow> (unit, bytes) res" where
  "hex_str X v = ok_or () (case as_str v of Some s \<Rightarrow> x_from_hex X s | None \<Rightarrow> None)"

definition onion_field :: "ext \<Rightarrow> string \<times> json \<Rightarrow> onion_fields \<Rightarrow> (unit, onion_fields) res" where
  "onion_field X = (\<lambda>(key, v) (pubkey, commit, data).
     if key = ''pubkey'' then
       rbind (hex_str X v) (\<lambda>b. rbind (as_error (\<lambda>_. ()) (vec_to_array 32 b)) (\<lambda>b. Ok (Some b, commit, data)))
     else if key = ''commit'' then
       rbind (hex_str X v) (\<lambda>b. Ok (pubkey, Some (x_commit_from_vec X b), data))
     else if key = ''data'' then
       (case v of JArr vs \<Rightarrow> rbind (rmap (hex_str X) vs) (\<lambda>d. Ok (pubkey, commit, Some d)) | _ \<Rightarrow> Err ())
     else Err ())"

primrec onion_fields_of :: "ext \<Rightarrow> (string \<times> json) list \<Rightarrow> onion_fields \<Rightarrow> (unit, onion_fields) res" where
  "onion_fields_of X [] fs = Ok fs"
| "onion_fields_of X (f # rest) fs = rbind (onion_field X f fs) (onion_fields_of X rest)"

definition onion_of_json :: "ext \<Rightarrow> json \<Rightarrow> (unit, onion) res" where
  "onion_of_json X v = (case v of
     JObj fs \<Rightarrow>
       rbind (onion_fields_of X fs (None, None, None)) (\<lambda>(pubkey, commit, data).
       rbind (unwrap pubkey) (\<lambda>pubkey.
       rbind (unwrap commit) (\<lambda>commit.
       rbind (unwrap data) (\<lambda>data.
         Ok \<lparr>on_ephemeral_pubkey = pubkey, on_commit = commit, on_enc_payloads = data\<rparr>))))
   | _ \<Rightarrow> Err ())"

section \<open>The commitment signature\<close>

record com_signature =
  cs_pub_nonce :: commitment
  cs_s :: secret_key
  cs_t :: secret_key

datatype comsig_error = InvalidSig | ComSig_Secp error

definition com_signature_new :: "commitment \<Rightarrow> secret_key \<Rightarrow> secret_key \<Rightarrow> com_signature" where
  "com_signature_new pub_nonce s t = \<lparr>cs_pub_nonce = pub_nonce, cs_s = s, cs_t = t\<rparr>"

definition calc_challenge :: "ext \<Rightarrow> commitment \<Rightarrow> commitment \<Rightarrow> bytes \<Rightarrow> secret_key result" where
  "calc_challenge X commit nonce_commit msg =
     x_sk_from_slice X (x_blake2b X 32 [] (commit @ nonce_commit @ msg))"

text \<open>\<open>k1\<close> and \<open>k2\<close> are drawn.\<close>

definition comsig_sign ::
  "ext \<Rightarrow> onion_lib \<Rightarrow> secret_key \<times> secret_key \<Rightarrow> u64 \<Rightarrow> secret_key \<Rightarrow> bytes \<Rightarrow> (comsig_error, com_signature) res" where
  "comsig_sign X O' = (\<lambda>(k1, k2) amount blind msg. as_error ComSig_Secp (
     rbind (x_sk_from_slice X (replicate 24 0 @ be64 amount)) (\<lambda>k_amt.
     rbind (x_commit_blind X amount blind) (\<lambda>commitment.
     rbind (o_commit2 O' k1 k2) (\<lambda>nonce_commitment.
     rbind (calc_challenge X commitment nonce_commitment msg) (\<lambda>e.
     rbind (o_sk_mul O' k_amt e) (\<lambda>s.
     rbind (o_sk_add O' s k1) (\<lambda>s.
     rbind (o_sk_mul O' blind e) (\<lambda>t.
     rbind (o_sk_add O' t k2) (\<lambda>t.
       Ok (com_signature_new nonce_commitment s t)))))))))))"

definition comsig_verify :: "ext \<Rightarrow> onion_lib \<Rightarrow> com_signature \<Rightarrow> commitment \<Rightarrow> bytes \<Rightarrow> (comsig_error, unit) res" where
  "comsig_verify X O' sig commit msg =
     rbind (as_error ComSig_Secp (o_commit2 O' (cs_s sig) (cs_t sig))) (\<lambda>s1.
     rbind (as_error ComSig_Secp (
       rbind (o_pk_of_commit O' commit) (\<lambda>ce.
       rbind (calc_challenge X commit (cs_pub_nonce sig) msg) (\<lambda>e.
       rbind (o_pk_mul O' ce e) (\<lambda>ce.
       rbind (x_commit_of_pk X ce) (\<lambda>c. x_commit_sum X [c, cs_pub_nonce sig] [])))))) (\<lambda>s2.
       if s1 \<noteq> s2 then Err InvalidSig else Ok ()))"

definition put_comsig :: "com_signature \<Rightarrow> bytes" where
  "put_comsig sig = cs_pub_nonce sig @ cs_s sig @ cs_t sig"

definition get_comsig :: "ext \<Rightarrow> ser_ext \<Rightarrow> com_signature rd" where
  "get_comsig X E =
     sbind (e_get_commit E) (\<lambda>R. sbind (read_secret_key X) (\<lambda>s. sbind (read_secret_key X) (\<lambda>t.
       sret (com_signature_new R s t))))"

end
