(* ===== verification/Owner_Rpc.thy ===== *)
theory Owner_Rpc
  imports Session Update_Thread
begin

text \<open>
  The JSON-RPC methods (\<open>api/src/owner_rpc.rs\<close>, \<open>api/src/foreign_rpc.rs\<close>): the interface with the
  mask in a token, slates in the version they are exchanged in, and texts for what has no JSON form.
  The dispatch by name and the reading of the arguments are generated by a macro and not modelled.
\<close>

type_synonym token = "secret_key option"

definition in_version :: "(api \<Rightarrow> slate result \<times> api) \<Rightarrow> versioned_slate aop" where
  "in_version m = sbind m (\<lambda>s. slift (into_version s))"

text \<open>A slate that was sent; reading it may panic.\<close>

definition with_slate :: "env \<Rightarrow> versioned_slate \<Rightarrow> (slate \<Rightarrow> 'a aop) \<Rightarrow> 'a aop" where
  "with_slate E v f = sbind (slift (slate_upgrade (e_ext E) v)) f"

section \<open>The Owner methods\<close>

definition rpc_retrieve_txs :: "env \<Rightarrow> token \<Rightarrow> bool \<Rightarrow> u32 option \<Rightarrow> uuid option \<Rightarrow> (bool \<times> tx_log_entry list) alop" where
  "rpc_retrieve_txs E token refresh_from_node tx_id tx_slate_id =
     api_retrieve_txs E token refresh_from_node tx_id tx_slate_id None"

definition rpc_query_txs :: "env \<Rightarrow> token \<Rightarrow> bool \<Rightarrow> retrieve_tx_query_args \<Rightarrow> (bool \<times> tx_log_entry list) alop" where
  "rpc_query_txs E token refresh_from_node query =
     api_retrieve_txs E token refresh_from_node None None (Some query)"

definition rpc_init_send_tx :: "env \<Rightarrow> token \<Rightarrow> draw \<times> uuid \<Rightarrow> draw \<times> uuid \<Rightarrow> init_tx_args \<Rightarrow> versioned_slate aop" where
  "rpc_init_send_tx E token d d' args = in_version (api_init_send_tx E token d d' args)"

definition rpc_issue_invoice_tx :: "env \<Rightarrow> token \<Rightarrow> draw \<times> uuid \<Rightarrow> issue_invoice_tx_args \<Rightarrow> versioned_slate aop" where
  "rpc_issue_invoice_tx E token d args = in_version (api_issue_invoice_tx E token d args)"

definition rpc_process_invoice_tx ::
  "env \<Rightarrow> token \<Rightarrow> draw \<Rightarrow> bytes \<Rightarrow> versioned_slate \<Rightarrow> init_tx_args \<Rightarrow> versioned_slate aop" where
  "rpc_process_invoice_tx E token d seed in_slate args =
     with_slate E in_slate (\<lambda>s. in_version (api_process_invoice_tx E token d seed s args))"

definition rpc_tx_lock_outputs :: "env \<Rightarrow> token \<Rightarrow> versioned_slate \<Rightarrow> unit aop" where
  "rpc_tx_lock_outputs E token in_slate = with_slate E in_slate (api_tx_lock_outputs E token)"

definition rpc_finalize_tx :: "env \<Rightarrow> token \<Rightarrow> draw \<times> uuid \<Rightarrow> versioned_slate \<Rightarrow> versioned_slate aop" where
  "rpc_finalize_tx E token d in_slate = with_slate E in_slate (\<lambda>s. in_version (api_finalize_tx E token d s))"

definition rpc_post_tx :: "env \<Rightarrow> token \<Rightarrow> versioned_slate \<Rightarrow> bool \<Rightarrow> unit aop" where
  "rpc_post_tx E token s fluff = with_slate E s (\<lambda>s. api_post_tx E token s fluff)"

definition rpc_get_stored_tx :: "env \<Rightarrow> token \<Rightarrow> u32 option \<Rightarrow> uuid option \<Rightarrow> versioned_slate option aop" where
  "rpc_get_stored_tx E token i slate_id =
     sbind (api_get_stored_tx E token i slate_id) (\<lambda>s. case s of
         Some s \<Rightarrow> slift (rbind (into_version s) (\<lambda>v. Ok (Some v)))
       | None \<Rightarrow> sret None)"

definition rpc_create_wallet ::
  "env \<Rightarrow> (nat \<Rightarrow> bytes) \<Rightarrow> bytes \<times> bytes \<Rightarrow> string option \<Rightarrow> u32 \<Rightarrow> string \<Rightarrow> unit aop" where
  "rpc_create_wallet E draw rand mnemonic mnemonic_length password =
     api_create_wallet E draw rand mnemonic mnemonic_length password"

text \<open>Over the network the wallet is always opened under a mask, here \<open>kmask\<close> that was drawn.\<close>

definition rpc_open_wallet :: "env \<Rightarrow> bool \<Rightarrow> string \<Rightarrow> secret_key \<Rightarrow> token aop" where
  "rpc_open_wallet E is_testnet password kmask = api_open_wallet E is_testnet password (Some kmask)"

definition rpc_start_updater :: "token \<Rightarrow> upd_state \<Rightarrow> upd_state" where
  "rpc_start_updater token = start_updater token"

definition rpc_get_updater_messages :: "u32 \<Rightarrow> api \<Rightarrow> status_message list \<times> api" where
  "rpc_get_updater_messages number = get_updater_messages (unat number)"

definition is_white :: "char \<Rightarrow> bool" where
  "is_white c \<longleftrightarrow> of_char c \<in> {9, 10, 11, 12, 13, 32 :: nat}"

definition str_trim :: "string \<Rightarrow> string" where
  "str_trim s = rev (dropWhile is_white (rev (dropWhile is_white s)))"

definition rpc_create_slatepack_message ::
  "env \<Rightarrow> bytes \<Rightarrow> token \<Rightarrow> versioned_slate \<Rightarrow> u32 option \<Rightarrow> slatepack_address list \<Rightarrow> string aop" where
  "rpc_create_slatepack_message E seed token s sender_index recips =
     with_slate E s (\<lambda>s. sbind (api_create_slatepack_message E seed token s sender_index recips) (\<lambda>m.
       sret (str_trim m)))"

definition rpc_slate_from_slatepack_message :: "env \<Rightarrow> token \<Rightarrow> string \<Rightarrow> u32 list \<Rightarrow> versioned_slate aop" where
  "rpc_slate_from_slatepack_message E token message secret_indices =
     in_version (api_slate_from_slatepack_message E token message secret_indices)"

definition rpc_build_output :: "env \<Rightarrow> token \<Rightarrow> output_features \<Rightarrow> u64 \<Rightarrow> built_output aop" where
  "rpc_build_output E token features amount = api_build_output E token features amount"

section \<open>The Foreign methods\<close>

text \<open>A return address that can not be parsed counts as none.\<close>

definition rpc_receive_tx ::
  "env \<Rightarrow> middleware option \<Rightarrow> node_version_info option \<Rightarrow> token \<Rightarrow> draw \<Rightarrow> versioned_slate \<Rightarrow> string option \<Rightarrow>
     string option \<Rightarrow> versioned_slate aop" where
  "rpc_receive_tx E mw version km d in_slate dest_acct_name dest =
     with_slate E in_slate (\<lambda>s.
       in_version (api_receive_tx E mw version km d s dest_acct_name
         (case dest of
            None \<Rightarrow> None
          | Some a \<Rightarrow> (case address_of_string (e_ext E) a of Ok d \<Rightarrow> Some d | _ \<Rightarrow> None))))"

definition rpc_foreign_finalize_tx :: "env \<Rightarrow> token \<Rightarrow> draw \<times> uuid \<Rightarrow> versioned_slate \<Rightarrow> versioned_slate aop" where
  "rpc_foreign_finalize_tx E km d in_slate =
     with_slate E in_slate (\<lambda>s. in_version (foreign_finalize_tx E km d s True))"

text \<open>A coinbase in version 4\<close>

record coinbase_v4 =
  cb4_output :: tx_output
  cb4_kernel :: tx_kernel
  cb4_key_id :: "ident option"

definition coinbase_to_v4 :: "cb_data \<Rightarrow> coinbase_v4" where
  "coinbase_to_v4 cb = \<lparr>cb4_output = cb_output cb, cb4_kernel = cb_kernel cb, cb4_key_id = cb_key_id cb\<rparr>"

definition rpc_build_coinbase ::
  "env \<Rightarrow> middleware option \<Rightarrow> node_version_info option \<Rightarrow> token \<Rightarrow> block_fees \<Rightarrow> coinbase_v4 aop" where
  "rpc_build_coinbase E mw version km bf = sbind (api_build_coinbase E mw version km bf) (\<lambda>cb. sret (coinbase_to_v4 cb))"

end
