(* ===== verification/Mixnet.thy ===== *)
theory Mixnet
  imports Onion Owner_Rpc
begin

text \<open>
  The request for a mixnet swap (\<open>create_mwixnet_req\<close> in \<open>libwallet/src/api_impl/owner.rs\<close>,
  \<open>api/src/owner.rs\<close> and \<open>api/src/owner_rpc.rs\<close>; \<open>libwallet/src/mwixnet/types.rs\<close>): an output of the
  wallet, a new output of its value without the fees of the hops, the onion that turns the one into
  the other, and a signature over the onion with the keys of the output.
\<close>

record swap_req =
  sr_comsig :: com_signature
  sr_onion :: onion

record mixnet_params =
  mx_server_keys :: "secret_key list"
  mx_fee_per_hop :: u64

text \<open>What is drawn: the excess of each hop, the ephemeral keys, and the nonces of the signature\<close>

record mix_draw =
  md_excess :: "nat \<Rightarrow> blinding_factor"
  md_ephemeral :: "nat \<Rightarrow> secret_key"
  md_nonces :: "secret_key \<times> secret_key"

definition fee_of_u32 :: "u32 \<Rightarrow> fee_fields" where
  "fee_of_u32 f = ucast f"

text \<open>Each hop takes a random excess, the last one what is left; it has the proof of the new output.\<close>

fun mix_hops ::
  "ext \<Rightarrow> onion_lib \<Rightarrow> (nat \<Rightarrow> blinding_factor) \<Rightarrow> u64 \<Rightarrow> range_proof \<Rightarrow> nat \<Rightarrow> blinding_factor \<Rightarrow> bytes list \<Rightarrow> hop list result" where
  "mix_hops X O' hop_excess fee proof' i blind_sum [] = Ok []"
| "mix_hops X O' hop_excess fee proof' i blind_sum [p] =
     rbind (must (o_blind_key O' blind_sum)) (\<lambda>k.
       Ok [\<lparr>hp_server_pubkey = p, hp_excess = k, hp_fee = fee_of_u32 (ucast fee), hp_rangeproof = Some proof'\<rparr>])"
| "mix_hops X O' hop_excess fee proof' i blind_sum (p # q # ps) =
     rbind (must (x_blind_split X blind_sum (hop_excess i))) (\<lambda>blind_sum.
     rbind (must (o_blind_key O' (hop_excess i))) (\<lambda>k.
     rbind (mix_hops X O' hop_excess fee proof' (Suc i) blind_sum (q # ps)) (\<lambda>hops.
       Ok (\<lparr>hp_server_pubkey = p, hp_excess = k, hp_fee = fee_of_u32 (ucast fee), hp_rangeproof = None\<rparr> # hops))))"

text \<open>The output is looked up once more to be locked, by its identifier without a position.\<close>

definition lock_swapped :: "ext \<Rightarrow> secret_key option \<Rightarrow> output_data \<Rightarrow> unit wop" where
  "lock_swapped X km output = with_batch X km (\<lambda>_.
     sbind (batch_get X (out_key_id output) None) (\<lambda>update_output. lock_output (output_lock update_output)))"

definition create_mwixnet_req ::
  "ext \<Rightarrow> ser_ext \<Rightarrow> onion_lib \<Rightarrow> mix_draw \<Rightarrow> secret_key option \<Rightarrow> mixnet_params \<Rightarrow> commitment \<Rightarrow> bool \<Rightarrow> swap_req wop" where
  "create_mwixnet_req X E O' d km params commitment lock_out =
     sbind (sread w_parent_key_id) (\<lambda>parent_key_id.
     sbind (the_keychain X km) (\<lambda>k.
     sbind (retrieve_outputs X km False None (Some parent_key_id)) (\<lambda>outputs.
     sbind (slift (ok_or (Lib (GenericError ''output not found''))
              (map_option ocm_output (find (\<lambda>o'. ocm_commit o' = commitment) outputs)))) (\<lambda>output.
     let amount = out_value output
     in sbind (slift (x_derive_key X k amount (out_key_id output) Switch_Regular)) (\<lambda>input_blind.
        let server_pubkeys = map (o_xpk O') (mx_server_keys params);
            fee = x_tx_fee X 1 1 1;
            new_amount = amount - fee * of_nat (length server_pubkeys)
        in sbind (owner_build_output X km OF_Plain new_amount) (\<lambda>new_output.
           sbind (slift (x_blind_split X (bo_blind new_output) input_blind)) (\<lambda>blind_sum.
           sbind (slift (mix_hops X O' (md_excess d) fee (ou_proof (bo_output new_output)) 0 blind_sum server_pubkeys)) (\<lambda>hops.
           sbind (slift (unwrapped (create_onion E O' (md_ephemeral d) commitment hops))) (\<lambda>onion.
           sbind (slift (unwrapped (comsig_sign X O' (md_nonces d) amount input_blind (put_onion onion)))) (\<lambda>comsig.
           sbind (if lock_out then lock_swapped X km output else sret ()) (\<lambda>_.
             sret \<lparr>sr_comsig = comsig, sr_onion = onion\<rparr>)))))))))))"

section \<open>The interfaces\<close>

definition api_create_mwixnet_req ::
  "env \<Rightarrow> onion_lib \<Rightarrow> mix_draw \<Rightarrow> token \<Rightarrow> mixnet_params \<Rightarrow> commitment \<Rightarrow> bool \<Rightarrow> swap_req aop" where
  "api_create_mwixnet_req E O' d km params commitment lock_out =
     on_inst (create_mwixnet_req (e_ext E) (e_ser E) O' d km params commitment lock_out)"

text \<open>\<open>parse::<u64>\<close>: decimal digits, with a plus sign or without, that fit\<close>

definition is_digit :: "char \<Rightarrow> bool" where
  "is_digit c \<longleftrightarrow> c \<in> set ''0123456789''"

definition parse_u64 :: "string \<Rightarrow> u64 option" where
  "parse_u64 s =
     (let digits = (case s of CHR ''+'' # t \<Rightarrow> t | _ \<Rightarrow> s);
          n = foldl (\<lambda>n c. 10 * n + (of_char c - 48)) (0 :: nat) digits
      in if digits \<noteq> [] \<and> list_all is_digit digits \<and> n < 2 ^ 64 then Some (of_nat n) else None)"

text \<open>The texts of the library's errors in hexadecimal are left out.\<close>

definition rpc_create_mwixnet_req ::
  "env \<Rightarrow> onion_lib \<Rightarrow> mix_draw \<Rightarrow> token \<Rightarrow> string \<Rightarrow> string \<Rightarrow> bool \<Rightarrow> string list \<Rightarrow> swap_req aop" where
  "rpc_create_mwixnet_req E O' d km commitment fee_per_hop lock_out server_keys =
     (let X = e_ext E in
      sbind (slift (rbind (ok_or (Com (CommitDeser '''')) (x_from_hex X commitment)) (\<lambda>b. Ok (x_commit_from_vec X b)))) (\<lambda>commit.
      sbind (slift (rmap (\<lambda>key. rbind (ok_or (Com (ServerKeyDeser '''')) (x_from_hex X key)) (x_sk_from_slice X)) server_keys)) (\<lambda>keys.
      sbind (slift (ok_or (Com (U64Deser fee_per_hop)) (parse_u64 fee_per_hop))) (\<lambda>fee.
        api_create_mwixnet_req E O' d km \<lparr>mx_server_keys = keys, mx_fee_per_hop = fee\<rparr> commit lock_out))))"

end
