(* ===== verification/Onion_Props.thy ===== *)
theory Onion_Props
  imports Onion Slate_Bin_Props Sample
begin

text \<open>
  The onion: its forms are read back, and the hops, each with its own key and in their order, read
  exactly the payloads that were meant for them.
\<close>

section \<open>The binary forms\<close>

definition payload_ok :: "ext \<Rightarrow> ser_ext \<Rightarrow> payload \<Rightarrow> bool" where
  "payload_ok X E p \<longleftrightarrow> ser_ok E \<and> length (pl_next_ephemeral_pk p) = 32 \<and> length (pl_excess p) = 32 \<and>
     x_sk_from_slice X (pl_excess p) = Ok (pl_excess p) \<and> x_fee_try_from X (pl_fee p) = Some (pl_fee p) \<and>
     (\<forall>r. pl_rangeproof p = Some r \<longrightarrow> length r \<le> 675)"

lemma bind_secret_key:
  "length k = 32 \<Longrightarrow> x_sk_from_slice X k = Ok k \<Longrightarrow> sbind (read_secret_key X) f (k @ r) = f k r"
  by (simp add: read_secret_key_def sbind_def sret_def MAX_FIXED_READ_def)

interpretation onion_payload: codec "put_payload E" "get_payload X E" "payload_ok X E" for X E
proof unfold_locales
  fix p rest assume p: "payload_ok X E p"
  then have proof': "read_optional (e_get_rproof E) (write_optional (e_put_rproof E) (pl_rangeproof p) @ rest) =
      (Ok (pl_rangeproof p), rest)"
    by (cases "pl_rangeproof p") (auto simp: read_optional_def write_optional_def payload_ok_def ser_ok_def sbind_def sret_def)
  have bind_proof: "sbind (read_optional (e_get_rproof E)) f (write_optional (e_put_rproof E) (pl_rangeproof p) @ rest) =
      f (pl_rangeproof p) rest" for f :: "range_proof option \<Rightarrow> 'a rd"
    by (simp add: sbind_def proof')
  show "get_payload X E (put_payload E p @ rest) = (Ok p, rest)"
    using p
    by (simp add: get_payload_def put_payload_def payload_ok_def CURRENT_ONION_VERSION_def vec_to_array_def MAX_FIXED_READ_def
        bind_secret_key bind_proof slift_def sret_def
        sbind_def [of "slift _"])
qed

definition comsig_ok :: "ext \<Rightarrow> ser_ext \<Rightarrow> com_signature \<Rightarrow> bool" where
  "comsig_ok X E s \<longleftrightarrow> e_get_commit E = read_fixed_bytes 33 \<and> length (cs_pub_nonce s) = 33 \<and>
     length (cs_s s) = 32 \<and> x_sk_from_slice X (cs_s s) = Ok (cs_s s) \<and>
     length (cs_t s) = 32 \<and> x_sk_from_slice X (cs_t s) = Ok (cs_t s)"

interpretation comsig: codec put_comsig "get_comsig X E" "comsig_ok X E" for X E
  by unfold_locales
    (simp add: get_comsig_def put_comsig_def comsig_ok_def MAX_FIXED_READ_def com_signature_new_def
      bind_secret_key sret_def)

definition len_payload_ok :: "bytes \<Rightarrow> bool" where
  "len_payload_ok p \<longleftrightarrow> length p \<le> MAX_FIXED_READ"

interpretation len_payload: codec put_len_payload get_len_payload len_payload_ok
  by unfold_locales
    (simp add: get_len_payload_def put_len_payload_def len_payload_ok_def MAX_FIXED_READ_def unsigned_of_nat
      take_bit_nat_eq_self)

definition onion_ok :: "ser_ext \<Rightarrow> onion \<Rightarrow> bool" where
  "onion_ok E on \<longleftrightarrow> e_get_commit E = read_fixed_bytes 33 \<and> length (on_ephemeral_pubkey on) = 32 \<and>
     length (on_commit on) = 33 \<and> length (on_enc_payloads on) < 2 ^ 64 \<and>
     (\<forall>p \<in> set (on_enc_payloads on). len_payload_ok p)"

interpretation onion_bin: codec put_onion "get_onion E" "onion_ok E" for E
proof unfold_locales
  fix on rest assume on: "onion_ok E on"
  have n: "unat (of_nat (length (on_enc_payloads on)) :: u64) = length (on_enc_payloads on)"
    using on by (simp add: onion_ok_def unsigned_of_nat take_bit_nat_eq_self)
  show "get_onion E (put_onion on @ rest) = (Ok on, rest)"
    using on
    by (simp add: get_onion_def put_onion_def onion_ok_def vec_to_array_def MAX_FIXED_READ_def n
        len_payload.bind_read_many slift_def sret_def sbind_def [of "slift _"])
qed

section \<open>Layers come off\<close>

lemma length_xor_at [simp]: "length (xor_at ks pos b) = length b"
  by (simp add: xor_at_def)

lemma xor_at_twice [simp]: "xor_at ks pos (xor_at ks pos b) = b"
  by (rule nth_equalityI) (simp_all add: xor_at_def xor.assoc)

lemma keystream_twice [simp]: "keystream_over ks pos (keystream_over ks pos ps) = ps"
  by (induction ps arbitrary: pos) simp_all

lemma length_keystream [simp]: "length (keystream_over ks pos ps) = length ps"
  by (induction ps arbitrary: pos) simp_all

text \<open>What the wallet relies on of the exchange of keys and of the cipher\<close>

definition onion_lib_ok :: "onion_lib \<Rightarrow> bool" where
  "onion_lib_ok O' \<longleftrightarrow> (\<forall>a b. o_dh O' a (o_xpk O' b) = o_dh O' b (o_xpk O' a)) \<and> (\<forall>a. length (o_xpk O' a) = 32) \<and>
     (\<forall>k d. o_hmac O' k d \<noteq> None)"

lemma cipher_Ok: "onion_lib_ok O' \<Longrightarrow> \<exists>ks. new_stream_cipher O' s = Ok ks"
  by (auto simp: new_stream_cipher_def onion_lib_ok_def res_simps dest: spec)

definition hop_ok :: "ext \<Rightarrow> ser_ext \<Rightarrow> hop \<Rightarrow> bool" where
  "hop_ok X E h \<longleftrightarrow> ser_ok E \<and> length (hp_excess h) = 32 \<and> x_sk_from_slice X (hp_excess h) = Ok (hp_excess h) \<and>
     x_fee_try_from X (hp_fee h) = Some (hp_fee h) \<and> (\<forall>r. hp_rangeproof h = Some r \<longrightarrow> length r \<le> 675)"

text \<open>The hops peel in turn, each with its key: their payloads, and the onion that is left\<close>

fun peel_all :: "ext \<Rightarrow> ser_ext \<Rightarrow> onion_lib \<Rightarrow> secret_key list \<Rightarrow> onion \<Rightarrow> (onion_error, payload list \<times> onion) res" where
  "peel_all X E O' [] on = Ok ([], on)"
| "peel_all X E O' (k # ks) on =
     rbind (peel_layer X E O' k on) (\<lambda>peeled.
     rbind (peel_all X E O' ks (pe_onion peeled)) (\<lambda>(ps, last). Ok (pe_payload peeled # ps, last)))"

text \<open>What the hops do to the commitment\<close>

fun hop_commits :: "ext \<Rightarrow> commitment \<Rightarrow> hop list \<Rightarrow> commitment result" where
  "hop_commits X c [] = Ok c"
| "hop_commits X c (h # hs) =
     rbind (add_excess X c (hp_excess h)) (\<lambda>c. rbind (sub_value X c (hp_fee h)) (\<lambda>c. hop_commits X c hs))"

definition meant_for :: "payload \<Rightarrow> hop \<Rightarrow> bool" where
  "meant_for p h \<longleftrightarrow> pl_excess p = hp_excess h \<and> pl_fee p = hp_fee h \<and> pl_rangeproof p = hp_rangeproof h"

lemma wrap_Ok: "onion_lib_ok O' \<Longrightarrow> \<exists>ps. wrap_layers O' lays = Ok ps"
  using cipher_Ok by (induction lays) (force simp: res_simps)+

lemma peel_wrapped:
  assumes "onion_lib_ok O'" "list_all2 (\<lambda>h k. hp_server_pubkey h = o_xpk O' k) hops keys"
    and "\<forall>h \<in> set hops. hop_ok X E h"
    and "wrap_layers O' (hop_payloads E O' draw i hops) = Ok ps" "hop_commits X c hops = Ok c'"
    and "on = \<lparr>on_ephemeral_pubkey = pk, on_commit = c, on_enc_payloads = ps\<rparr>"
    and "hops \<noteq> [] \<longrightarrow> pk = o_xpk O' (draw i)"
  shows "\<exists>pls last. peel_all X E O' keys on = Ok (pls, last) \<and> list_all2 meant_for pls hops \<and>
    on_enc_payloads last = [] \<and> on_commit last = c'"
  using assms
proof (induction hops arbitrary: keys i ps c pk on)
  case Nil
  then show ?case by auto
next
  case (Cons h hs)
  obtain k ks where k: "keys = k # ks" "hp_server_pubkey h = o_xpk O' k"
    "list_all2 (\<lambda>h k. hp_server_pubkey h = o_xpk O' k) hs ks"
    using Cons.prems(2) by (auto simp: list_all2_Cons1)
  let ?p = "\<lparr>pl_next_ephemeral_pk = (if hs \<noteq> [] then o_xpk O' (draw (Suc i)) else replicate 32 0),
        pl_excess = hp_excess h, pl_fee = hp_fee h, pl_rangeproof = hp_rangeproof h\<rparr>"
  obtain qs st where w: "wrap_layers O' (hop_payloads E O' draw (Suc i) hs) = Ok qs"
      "new_stream_cipher O' (o_dh O' (draw i) (hp_server_pubkey h)) = Ok st"
      "ps = keystream_over st 0 (put_payload E ?p # qs)"
    using Cons.prems(4) by (auto simp: res_simps)
  obtain c1 c2 where c: "add_excess X c (hp_excess h) = Ok c1" "sub_value X c1 (hp_fee h) = Ok c2"
      "hop_commits X c2 hs = Ok c'"
    using Cons.prems(5) by (auto simp: res_simps)
  have "payload_ok X E ?p"
    using Cons.prems(1,3) by (simp add: payload_ok_def hop_ok_def onion_lib_ok_def)
  then have p: "payload_deserialize X E (put_payload E ?p) = Ok ?p"
    by (simp add: payload_deserialize_def onion_payload.get_put_end)
  have dh: "o_dh O' k pk = o_dh O' (draw i) (hp_server_pubkey h)"
    using Cons.prems(1,7) k(2) by (simp add: onion_lib_ok_def)
  have dec: "keystream_over st 0 (on_enc_payloads on) = put_payload E ?p # qs"
    by (simp only: Cons.prems(6) onion.simps w(3) keystream_twice)
  have peel: "peel_layer X E O' k on = Ok \<lparr>pe_payload = ?p,
      pe_onion = \<lparr>on_ephemeral_pubkey = pl_next_ephemeral_pk ?p, on_commit = c2, on_enc_payloads = qs\<rparr>\<rparr>"
    unfolding peel_layer_def using Cons.prems(6) dh w(2) dec p c(1,2) by (simp add: as_error_def)
  obtain pls last where IH: "peel_all X E O' ks
        \<lparr>on_ephemeral_pubkey = pl_next_ephemeral_pk ?p, on_commit = c2, on_enc_payloads = qs\<rparr> = Ok (pls, last)"
      "list_all2 meant_for pls hs" "on_enc_payloads last = []" "on_commit last = c'"
    using Cons.IH [OF Cons.prems(1) k(3) _ w(1) c(3) refl, of "pl_next_ephemeral_pk ?p"] Cons.prems(3) by auto
  show ?case
    using peel IH by (simp add: k(1)) (simp add: meant_for_def [where h = h])
qed

lemma onion_is_peeled_all:
  assumes "onion_lib_ok O'" "list_all2 (\<lambda>h k. hp_server_pubkey h = o_xpk O' k) hops keys"
    and "\<forall>h \<in> set hops. hop_ok X E h" "hop_commits X c hops = Ok c'"
  shows "\<exists>on pls last. create_onion E O' draw c hops = Ok on \<and> peel_all X E O' keys on = Ok (pls, last) \<and>
    list_all2 meant_for pls hops \<and> on_enc_payloads last = [] \<and> on_commit last = c'"
proof (cases "hops = []")
  case True
  then show ?thesis using assms(2,4) by (auto simp: create_onion_def)
next
  case False
  obtain ps where ps: "wrap_layers O' (hop_payloads E O' draw 0 hops) = Ok ps" using wrap_Ok [OF assms(1)] by blast
  show ?thesis
    using peel_wrapped [OF assms(1-3) ps assms(4) refl] ps False by (simp add: create_onion_def)
qed

section \<open>Onions\<close>

text \<open>C35: an onion made for some hops is peeled by them in order, each with the secret key
  of its address, whatever ephemeral keys were drawn: every hop reads the excess, the fee and the
  range proof meant for it, nothing is left to peel after the last one, and the commitment that is
  left is the first one with every excess added and every fee taken off.\<close>

theorem onion_is_peeled:
  assumes "onion_lib_ok O'" "list_all2 (\<lambda>h k. hp_server_pubkey h = o_xpk O' k) hops keys"
    and "\<forall>h \<in> set hops. hop_ok X E h" "hop_commits X c hops = Ok c'"
  shows "\<exists>on pls last. create_onion E O' draw c hops = Ok on \<and> peel_all X E O' keys on = Ok (pls, last) \<and>
    list_all2 meant_for pls hops \<and> on_enc_payloads last = [] \<and> on_commit last = c'"
  by (rule onion_is_peeled_all [OF assms])

text \<open>What is left after the last hop, and any onion without payloads, panics when
  it is peeled once more.\<close>

theorem empty_onion_panics:
  "onion_lib_ok O' \<Longrightarrow> on_enc_payloads on = [] \<Longrightarrow> peel_layer X E O' k on = Panic"
  using cipher_Ok [of O' "o_dh O' k (on_ephemeral_pubkey on)"] by (auto simp: peel_layer_def)

text \<open>The JSON form, read back; and one without a field\<close>

lemma onion_json_roundtrip:
  assumes "\<forall>b. x_from_hex X (x_to_hex X b) = Some b" "length (on_ephemeral_pubkey on) = 32"
    and "x_commit_from_vec X (on_commit on) = on_commit on"
  shows "onion_of_json X (onion_json X on) = Ok on"
proof -
  have "rmap (hex_str X) (map (\<lambda>v. JStr (x_to_hex X v)) ps) = Ok ps" for ps
    using assms(1) by (induction ps) (simp_all add: hex_str_def)
  then show ?thesis
    using assms by (simp add: onion_of_json_def onion_json_def onion_field_def hex_str_def vec_to_array_def as_error_def)
qed

lemma onion_without_data_panics:
  assumes "\<forall>b. x_from_hex X (x_to_hex X b) = Some b" "length pk = 32"
  shows "onion_of_json X (JObj [(''pubkey'', JStr (x_to_hex X pk)), (''commit'', JStr (x_to_hex X c))]) = Panic"
  using assms by (simp add: onion_of_json_def onion_field_def hex_str_def vec_to_array_def as_error_def)

section \<open>A sample\<close>

text \<open>Keys are exchanged by adding them, the key stream mixes the key with the position.\<close>

definition sample_onion :: onion_lib where
  "sample_onion = \<lparr>o_dh = (\<lambda>k p. map2 (+) (pad 32 k) p), o_xpk = (\<lambda>k. pad 32 k), o_hmac = (\<lambda>k d. Some (pad 32 d)),
     o_stream = (\<lambda>k n i. of_nat (7 * i) + (k ! (i mod 32))), o_sk_mul = (\<lambda>a b. Ok (map2 (*) a b)),
     o_sk_add = (\<lambda>a b. Ok (map2 (+) a b)), o_commit2 = (\<lambda>a b. Ok (pad 33 (map2 (+) a b))),
     o_pk_of_commit = (\<lambda>c. Ok c), o_pk_mul = (\<lambda>p k. Ok p), o_blind_key = (\<lambda>b. if length b = 32 then Ok b else Err (Lib (Secp ''key'')))\<rparr>"

text \<open>A commitment is the value, cut to a byte, in front of the blinding factor.\<close>

definition mix_ext :: ext where
  "mix_ext = sample_ext\<lparr>x_commit_blind := (\<lambda>v b. Ok (ucast v # b)), x_fee_try_from := (\<lambda>f. Some f),
     x_commit := (\<lambda>k v i s. Ok (ucast v # map2 (+) (pad 32 k) (pad 32 i))), x_proof_create := (\<lambda>k v i s c. Ok [1, 2, 3])\<rparr>"

definition sample_hops :: "hop list" where
  "sample_hops =
     [\<lparr>hp_server_pubkey = replicate 32 5, hp_excess = replicate 32 1, hp_fee = 2, hp_rangeproof = None\<rparr>,
      \<lparr>hp_server_pubkey = replicate 32 6, hp_excess = replicate 32 3, hp_fee = 2, hp_rangeproof = Some [9, 8, 7]\<rparr>]"

lemma sample_onion_ok: "onion_lib_ok sample_onion"
  by (simp add: onion_lib_ok_def sample_onion_def add.commute list_eq_iff_nth_eq)

lemma sample_hops_ok: "\<forall>h \<in> set sample_hops. hop_ok mix_ext sample_ser h"
  by (simp add: sample_hops_def hop_ok_def mix_ext_def sample_ext_def sample_ser_ok)

theorem onion_is_peeled_witness:
  "\<exists>on pls last. create_onion sample_ser sample_onion (\<lambda>i. replicate 32 (of_nat i)) (200 # replicate 32 7) sample_hops = Ok on \<and>
     peel_all mix_ext sample_ser sample_onion [replicate 32 5, replicate 32 6] on = Ok (pls, last) \<and>
     map pl_rangeproof pls = [None, Some [9, 8, 7]] \<and> on_commit last = 196 # replicate 32 11"
proof -
  have k: "list_all2 (\<lambda>h k. hp_server_pubkey h = o_xpk sample_onion k) sample_hops [replicate 32 5, replicate 32 6]"
    by (simp add: sample_hops_def sample_onion_def pad_def)
  have c: "hop_commits mix_ext (200 # replicate 32 7) sample_hops = Ok (196 # replicate 32 11)" by code_simp
  obtain on pls last where o':
      "create_onion sample_ser sample_onion (\<lambda>i. replicate 32 (of_nat i)) (200 # replicate 32 7) sample_hops = Ok on"
      "peel_all mix_ext sample_ser sample_onion [replicate 32 5, replicate 32 6] on = Ok (pls, last)"
      "list_all2 meant_for pls sample_hops" "on_commit last = 196 # replicate 32 11"
    using onion_is_peeled [OF sample_onion_ok k sample_hops_ok c] by blast
  have "map pl_rangeproof pls = map hp_rangeproof sample_hops"
    using o'(3) by (induction rule: list_all2_induct) (simp_all add: meant_for_def)
  then show ?thesis using o' by (auto simp: sample_hops_def)
qed

theorem empty_onion_panics_witness:
  "peel_layer mix_ext sample_ser sample_onion (replicate 32 5)
     \<lparr>on_ephemeral_pubkey = replicate 32 0, on_commit = replicate 33 1, on_enc_payloads = []\<rparr> = Panic"
  by (rule empty_onion_panics [OF sample_onion_ok]) simp

end
