(* ===== verification/Mixnet_Props.thy ===== *)
theory Mixnet_Props
  imports Mixnet Onion_Props Exchange_Sample
begin

text \<open>
  A mixnet swap: the onion of the request leads the hops from the commitment of the output to that
  of the new one, and an output whose position is known can not be locked with the request.
\<close>

section \<open>From the output to the new one\<close>

text \<open>
  Commitments \<open>com v b\<close> to a value under a blinding factor add up, and splitting a factor undoes
  adding to it; a key made of a blinding factor has its bytes.
\<close>

definition swap_lib_ok :: "ext \<Rightarrow> ser_ext \<Rightarrow> onion_lib \<Rightarrow> (u64 \<Rightarrow> bytes \<Rightarrow> commitment) \<Rightarrow> (bytes \<Rightarrow> bytes \<Rightarrow> bytes) \<Rightarrow> bool" where
  "swap_lib_ok X E O' com badd \<longleftrightarrow> ser_ok E \<and> onion_lib_ok O' \<and>
     (\<forall>v b. length b = 32 \<longrightarrow> x_commit_blind X v b = Ok (com v b)) \<and>
     (\<forall>v b e. length b = 32 \<and> length e = 32 \<longrightarrow> x_commit_sum X [com v b, com 0 e] [] = Ok (com v (badd b e))) \<and>
     (\<forall>v b f. length b = 32 \<longrightarrow> x_commit_sum X [com v b] [com f (replicate 32 0)] = Ok (com (v - f) b)) \<and>
     (\<forall>a b. length a = 32 \<and> length b = 32 \<longrightarrow> length (badd a b) = 32) \<and>
     (\<forall>a b c. length a = 32 \<and> length b = 32 \<and> length c = 32 \<longrightarrow> badd (badd a b) c = badd a (badd b c)) \<and>
     (\<forall>a b d. length a = 32 \<and> length b = 32 \<and> x_blind_split X a b = Ok d \<longrightarrow> length d = 32 \<and> badd b d = a) \<and>
     (\<forall>b k. o_blind_key O' b = Ok k \<longrightarrow> k = b \<and> x_sk_from_slice X k = Ok k) \<and>
     (\<forall>k v i s b. x_derive_key X k v i s = Ok b \<longrightarrow> length b = 32) \<and>
     (\<forall>k v i s c p. x_proof_create X k v i s c = Ok p \<longrightarrow> length p \<le> 675) \<and>
     x_tx_fee X 1 1 1 < 2 ^ 32 \<and> x_fee_try_from X (x_tx_fee X 1 1 1) = Some (x_tx_fee X 1 1 1)"

lemma swap_libD:
  assumes "swap_lib_ok X E O' com badd"
  shows "ser_ok E" "onion_lib_ok O'"
    "length b = 32 \<Longrightarrow> x_commit_blind X v b = Ok (com v b)"
    "length b = 32 \<Longrightarrow> length e = 32 \<Longrightarrow> x_commit_sum X [com v b, com 0 e] [] = Ok (com v (badd b e))"
    "length b = 32 \<Longrightarrow> x_commit_sum X [com v b] [com f (replicate 32 0)] = Ok (com (v - f) b)"
    "length a = 32 \<Longrightarrow> length b = 32 \<Longrightarrow> length (badd a b) = 32"
    "length a = 32 \<Longrightarrow> length b = 32 \<Longrightarrow> length c = 32 \<Longrightarrow> badd (badd a b) c = badd a (badd b c)"
    "x_blind_split X a b = Ok d \<Longrightarrow> length a = 32 \<Longrightarrow> length b = 32 \<Longrightarrow> length d = 32 \<and> badd b d = a"
    "o_blind_key O' b = Ok k \<Longrightarrow> k = b \<and> x_sk_from_slice X k = Ok k"
    "x_derive_key X kc v i s = Ok b \<Longrightarrow> length b = 32"
    "x_proof_create X kc v i s p' = Ok p \<Longrightarrow> length p \<le> 675"
    "x_tx_fee X 1 1 1 < 2 ^ 32" "x_fee_try_from X (x_tx_fee X 1 1 1) = Some (x_tx_fee X 1 1 1)"
  by (insert assms, unfold swap_lib_ok_def, elim conjE, meson)+

lemma fee_fits: "f < 2 ^ 32 \<Longrightarrow> fee_of_u32 (ucast (f :: u64)) = f"
  by (rule unsigned_word_eqI [where 'a = nat])
    (simp add: fee_of_u32_def unsigned_ucast_eq word_less_nat_alt unsigned_take_bit_eq take_bit_nat_eq_self)

lemma hop_step:
  assumes "swap_lib_ok X E O' com badd" "length b = 32" "length (hp_excess h) = 32" "hp_fee h = f"
  shows "hop_commits X (com v b) (h # hs) = hop_commits X (com (v - f) (badd b (hp_excess h))) hs"
proof -
  note l = swap_libD(3-6) [OF assms(1)]
  have "add_excess X (com v b) (hp_excess h) = Ok (com v (badd b (hp_excess h)))"
    by (simp only: add_excess_def l(1) [OF assms(3)] rbind_simps l(2) [OF assms(2,3)])
  moreover have "sub_value X (com v (badd b (hp_excess h))) f = Ok (com (v - f) (badd b (hp_excess h)))"
    by (simp only: sub_value_def l(1) [OF length_replicate] rbind_simps l(3) [OF l(4) [OF assms(2,3)]])
  ultimately show ?thesis by (simp add: assms(4))
qed

lemma mixed_hop_ok:
  assumes "swap_lib_ok X E O' com badd" "o_blind_key O' b = Ok k" "length b = 32" "\<forall>r. proof' = Some r \<longrightarrow> length r \<le> 675"
  shows "hop_ok X E \<lparr>hp_server_pubkey = p, hp_excess = k, hp_fee = x_tx_fee X 1 1 1, hp_rangeproof = proof'\<rparr>"
  using swap_libD(1,13) [OF assms(1)] swap_libD(9) [OF assms(1,2)] assms(3,4) by (auto simp: hop_ok_def)

lemma mix_hops_Ok:
  assumes "mix_hops X O' hop_excess f proof' i bs ps = Ok hops" "swap_lib_ok X E O' com badd"
    and "f = x_tx_fee X 1 1 1" "length b = 32" "length bs = 32" "\<forall>i. length (hop_excess i) = 32"
    and "length proof' \<le> 675" "ps \<noteq> []"
  shows "hop_commits X (com v b) hops = Ok (com (v - f * of_nat (length ps)) (badd b bs)) \<and>
    map hp_server_pubkey hops = ps \<and> (\<forall>h \<in> set hops. hop_ok X E h) \<and> hops \<noteq> [] \<and> hp_rangeproof (last hops) = Some proof'"
  using assms
proof (induction X O' hop_excess f proof' i bs ps arbitrary: hops v b rule: mix_hops.induct)
  case (2 X O' hop_excess fee proof' i bs p)
  note lib = "2.prems"(2)
  have f: "fee_of_u32 (ucast fee) = fee" using fee_fits [OF swap_libD(12) [OF lib]] "2.prems"(3) by simp
  obtain k where k: "o_blind_key O' bs = Ok k"
      "hops = [\<lparr>hp_server_pubkey = p, hp_excess = k, hp_fee = fee, hp_rangeproof = Some proof'\<rparr>]"
    using "2.prems"(1) f by (auto simp: res_simps)
  have "hop_commits X (com v b) hops = Ok (com (v - fee) (badd b bs))"
    using swap_libD(9) [OF lib k(1)] "2.prems"(4,5) by (simp add: k(2) hop_step [OF lib] del: hop_commits.simps(2))
  moreover have "hop_ok X E (hd hops)"
    using mixed_hop_ok [OF lib k(1) "2.prems"(5), of "Some proof'" p] "2.prems"(3,7) by (simp add: k(2))
  ultimately show ?case by (simp add: k(2))
next
  case (3 X O' hop_excess fee proof' i bs p q ps)
  note lib = "3.prems"(2)
  have f: "fee_of_u32 (ucast fee) = fee" using fee_fits [OF swap_libD(12) [OF lib]] "3.prems"(3) by simp
  obtain d k rest where d: "x_blind_split X bs (hop_excess i) = Ok d" "o_blind_key O' (hop_excess i) = Ok k"
      "mix_hops X O' hop_excess fee proof' (Suc i) d (q # ps) = Ok rest"
      "hops = \<lparr>hp_server_pubkey = p, hp_excess = k, hp_fee = fee, hp_rangeproof = None\<rparr> # rest"
    using "3.prems"(1) f by (auto simp: res_simps)
  have e: "k = hop_excess i" "length (hop_excess i) = 32"
    using swap_libD(9) [OF lib d(2)] "3.prems"(6) by simp_all
  have l: "length d = 32" "badd (hop_excess i) d = bs" "length (badd b (hop_excess i)) = 32"
    using swap_libD(8) [OF lib d(1)] swap_libD(6) [OF lib "3.prems"(4) e(2)] "3.prems"(5) e by simp_all
  have IH: "hop_commits X (com (v - fee) (badd b (hop_excess i))) rest =
        Ok (com (v - fee - fee * of_nat (length (q # ps))) (badd (badd b (hop_excess i)) d)) \<and>
      map hp_server_pubkey rest = q # ps \<and> (\<forall>h \<in> set rest. hop_ok X E h) \<and> rest \<noteq> [] \<and> hp_rangeproof (last rest) = Some proof'"
    by (rule "3.IH") (use d(1-3) "3.prems" l in \<open>simp_all add: must_def\<close>)
  have b: "badd (badd b (hop_excess i)) d = badd b bs"
    using swap_libD(7) [OF lib "3.prems"(4) e(2) l(1)] l(2) by simp
  have v: "v - fee - fee * of_nat (length (q # ps)) = v - fee * of_nat (length (p # q # ps))"
    by (simp add: algebra_simps)
  have "hop_commits X (com v b) hops = Ok (com (v - fee * of_nat (length (p # q # ps))) (badd b bs))"
    using IH [THEN conjunct1] unfolding d(4) e(1) b v by (subst hop_step [OF lib]) (simp_all add: "3.prems"(4) e)
  moreover have "hop_ok X E (hd hops)"
    using mixed_hop_ok [OF lib d(2) e(2), of None p] "3.prems"(3) by (simp add: d(4))
  ultimately show ?case using IH by (auto simp: d(4))
qed simp

lemma rmap_in: "rmap f xs = Ok ys \<Longrightarrow> y \<in> set ys \<Longrightarrow> \<exists>x \<in> set xs. f x = Ok y"
  by (induction xs arbitrary: ys) (auto simp: res_simps)

lemma keychainD: "the_keychain X km w = (Ok k, v) \<Longrightarrow> v = w \<and> wallet_keychain X km w = Ok k"
  by (auto simp add: the_keychain_def)

text \<open>What a request that was returned is made of\<close>

lemma create_Ok:
  assumes "create_mwixnet_req X E O' d km params c lock_out w = (Ok req, w')"
  obtains k out input_blind new w1 bs hops where
    "out \<in> set (wallet_iter w)" "cached_commit X k out = Ok c" "wallet_keychain X km w = Ok k"
    "x_derive_key X k (out_value out) (out_key_id out) Switch_Regular = Ok input_blind"
    "owner_build_output X km OF_Plain
       (out_value out - x_tx_fee X 1 1 1 * of_nat (length (mx_server_keys params))) w = (Ok new, w1)"
    "x_blind_split X (bo_blind new) input_blind = Ok bs"
    "mix_hops X O' (md_excess d) (x_tx_fee X 1 1 1) (ou_proof (bo_output new)) 0 bs
       (map (o_xpk O') (mx_server_keys params)) = Ok hops"
    "create_onion E O' (md_ephemeral d) c hops = Ok (sr_onion req)"
    "lock_out \<longrightarrow> (\<exists>w2. lock_swapped X km out w1 = (Ok (), w2))"
proof -
  have listed: "\<exists>out \<in> set xs. o' = \<lparr>ocm_output = out, ocm_commit = c'\<rparr> \<and> cached_commit X k out = Ok c'"
    if "rmap (\<lambda>output. rbind (cached_commit X k output) (\<lambda>c. Ok \<lparr>ocm_output = output, ocm_commit = c\<rparr>)) xs = Ok outs"
      "o' \<in> set outs" "ocm_commit o' = c'" for xs outs o' c' k
    using rmap_in [OF that(1,2)] that(3) by (auto simp: res_simps)
  have read: "v = w \<and> (\<exists>k out. wallet_keychain X km w = Ok k \<and> out \<in> set (wallet_iter w) \<and> ocm_output o' = out \<and>
      cached_commit X k out = Ok c)"
    if r: "retrieve_outputs X km False None p w = (Ok outs, v)" and f: "find (\<lambda>o'. ocm_commit o' = c) outs = Some o'"
    for p outs v o'
  proof -
    have o': "o' \<in> set outs" "ocm_commit o' = c" using f by (auto simp: find_Some_iff)
    obtain k where k: "wallet_keychain X km w = Ok k" "v = w" "\<exists>xs. set xs \<subseteq> set (wallet_iter w) \<and>
        rmap (\<lambda>output. rbind (cached_commit X k output) (\<lambda>c. Ok \<lparr>ocm_output = output, ocm_commit = c\<rparr>)) xs = Ok outs"
    proof (cases p)
      case None
      then show ?thesis using r that
        by (fastforce simp: retrieve_outputs_def Let_def res_simps the_keychain_def)
    next
      case (Some x)
      then show ?thesis using r that
        by (fastforce simp: retrieve_outputs_def Let_def res_simps the_keychain_def)
    qed
    then show ?thesis using listed [OF _ o'] by fastforce
  qed
  show ?thesis
    using assms unfolding create_mwixnet_req_def Let_def
    apply (simp only: sbind_simps)
    apply (simp only: sbind_eq_Ok comp_eq_Ok res_simps)
    apply clarify
    apply (drule keychainD, clarify)
    apply (drule (1) read, clarsimp simp del: One_nat_def)
    apply (rule that, assumption+)
    apply (cases lock_out, auto)
    done
qed

text \<open>The new output is on its way: a commitment to its value under its blinding factor.\<close>

lemma build_output_Ok:
  assumes "owner_build_output X km fe amount w = (Ok new, w1)" "swap_lib_ok X E O' com badd"
  shows "length (bo_blind new) = 32 \<and> ou_commit (bo_output new) = com amount (bo_blind new) \<and>
    length (ou_proof (bo_output new)) \<le> 675"
proof -
  obtain k i cm where 1: "x_derive_key X k amount i Switch_Regular = Ok (bo_blind new)"
      "x_commit_blind X amount (bo_blind new) = Ok cm" "ou_commit (bo_output new) = cm"
      "x_proof_create X k amount i Switch_Regular cm = Ok (ou_proof (bo_output new))"
    using assms(1) by (auto simp: owner_build_output_def res_simps)
  then show ?thesis
    using swap_libD(10) [OF assms(2) 1(1)] swap_libD(3) [OF assms(2), of "bo_blind new" amount]
      swap_libD(11) [OF assms(2) 1(4)] by simp
qed

text \<open>C36: when a request for a swap is returned, then for an output of the wallet with
  the commitment asked for, the hops, each with its secret key and in their order, can peel the onion
  to its end; what they are left with is the commitment of the new output that was built, whose value
  is that of the output without a fee for each hop, and the last hop has read its range proof.\<close>

theorem swap_ends_in_new_output:
  assumes "create_mwixnet_req X E O' d km params c lock_out w = (Ok req, w')" "mx_server_keys params \<noteq> []"
    and lib: "swap_lib_ok X E O' com badd" and draw: "\<forall>i. length (md_excess d i) = 32"
    and ours: "\<forall>out \<in> set (wallet_iter w). \<forall>k b. cached_commit X k out = Ok c \<longrightarrow>
      x_derive_key X k (out_value out) (out_key_id out) Switch_Regular = Ok b \<longrightarrow> c = com (out_value out) b"
  shows "\<exists>out new w1 pls last. out \<in> set (wallet_iter w) \<and>
    owner_build_output X km OF_Plain
      (out_value out - x_tx_fee X 1 1 1 * of_nat (length (mx_server_keys params))) w = (Ok new, w1) \<and>
    peel_all X E O' (mx_server_keys params) (sr_onion req) = Ok (pls, last) \<and> on_enc_payloads last = [] \<and>
    on_commit last = ou_commit (bo_output new) \<and> pl_rangeproof (List.last pls) = Some (ou_proof (bo_output new))"
proof -
  let ?fee = "x_tx_fee X 1 1 1" and ?keys = "mx_server_keys params"
  obtain k out b new w1 bs hops where r: "out \<in> set (wallet_iter w)" "cached_commit X k out = Ok c"
      "x_derive_key X k (out_value out) (out_key_id out) Switch_Regular = Ok b"
      "owner_build_output X km OF_Plain (out_value out - ?fee * of_nat (length ?keys)) w = (Ok new, w1)"
      "x_blind_split X (bo_blind new) b = Ok bs"
      "mix_hops X O' (md_excess d) ?fee (ou_proof (bo_output new)) 0 bs (map (o_xpk O') ?keys) = Ok hops"
      "create_onion E O' (md_ephemeral d) c hops = Ok (sr_onion req)"
    using assms(1) by (rule create_Ok)
  have b: "length b = 32" "c = com (out_value out) b" using swap_libD(10) [OF lib r(3)] ours r(1-3) by auto
  note new = build_output_Ok [OF r(4) lib]
  have bs: "length bs = 32" "badd b bs = bo_blind new" using swap_libD(8) [OF lib r(5)] new b(1) by auto
  have h: "hop_commits X c hops = Ok (ou_commit (bo_output new))" "map hp_server_pubkey hops = map (o_xpk O') ?keys"
      "\<forall>h \<in> set hops. hop_ok X E h" "hops \<noteq> []" "hp_rangeproof (List.last hops) = Some (ou_proof (bo_output new))"
    using mix_hops_Ok [OF r(6) lib refl b(1) bs(1) draw, of "out_value out"] new assms(2) bs(2) by (auto simp: b(2))
  have "list_all2 (\<lambda>h k. hp_server_pubkey h = o_xpk O' k) hops ?keys"
    using h(2) by (simp add: list_all2_conv_all_nth list_eq_iff_nth_eq)
  from onion_is_peeled_all [OF swap_libD(2) [OF lib] this h(3,1), of "md_ephemeral d"] r(7)
  obtain pls last where p: "peel_all X E O' ?keys (sr_onion req) = Ok (pls, last)" "list_all2 meant_for pls hops"
      "on_enc_payloads last = []" "on_commit last = ou_commit (bo_output new)" by auto
  have "meant_for (List.last pls) (List.last hops)"
    using p(2) h(4) by (metis list_all2_lengthD last_conv_nth length_0_conv list_all2_nthD2 One_nat_def diff_less length_greater_0_conv zero_less_one)
  then show ?thesis using r(1,4) p h(5) by (auto simp: meant_for_def)
qed

section \<open>Locking the output\<close>

text \<open>C37: when the outputs with the commitment asked for are stored under their
  identifier and position only, as those are that a scan restored, a request that is to lock the
  output is never returned; without locking it can be.\<close>

theorem known_position_is_not_locked:
  assumes "\<forall>out \<in> set (wallet_iter w). \<forall>k. cached_commit X k out = Ok c \<longrightarrow>
      tbl_get (db_outputs (w_db w)) (output_key (out_key_id out) None) = None"
  shows "\<not> is_Ok (fst (create_mwixnet_req X E O' d km params c True w))"
proof
  assume "is_Ok (fst (create_mwixnet_req X E O' d km params c True w))"
  then obtain req w' where "create_mwixnet_req X E O' d km params c True w = (Ok req, w')"
    by (auto simp: is_Ok_ex) (metis prod.collapse)
  then obtain k out w1 w2 a new where r: "out \<in> set (wallet_iter w)" "cached_commit X k out = Ok c"
      "owner_build_output X km OF_Plain a w = (Ok new, w1)" "lock_swapped X km out w1 = (Ok (), w2)"
    by (rule create_Ok) blast
  have "db_outputs (w_db w1) = db_outputs (w_db w)"
    using r(3) by (auto simp: owner_build_output_def next_available_key_def next_child_def res_simps with_batch_def
        run_batch_def save_child_index_def smodify_def the_keychain_def split: prod.splits res.splits)
  then have "tbl_get (db_outputs (w_db w1)) (output_key (out_key_id out) None) = None" using assms r(1,2) by auto
  then show False
    using r(4) by (auto simp: lock_swapped_def with_batch_def run_batch_def batch_get_def res_simps the_keychain_def sbind_def
        split: prod.splits res.splits)
qed

section \<open>Witnesses\<close>

lemma sample_swap_ok: "swap_lib_ok mix_ext sample_ser sample_onion (\<lambda>v b. ucast v # b) (map2 (+))"
proof -
  have add: "map2 (+) (map2 (+) a b) c = map2 (+) a (map2 (+) b c)" for a b c :: bytes
    by (simp add: list_eq_iff_nth_eq add.assoc)
  have sub: "map2 (+) b (map2 (-) a b) = a" if "length a = length b" for a b :: bytes
    using that by (simp add: list_eq_iff_nth_eq)
  have pad: "pad n b = b" if "length b = n" for n b using that by (simp add: pad_def)
  have zero: "map2 (+) b (replicate n 0) = b" "map2 (-) b (replicate n 0) = b" if "length b = n" for n and b :: bytes
    using that by (simp_all add: list_eq_iff_nth_eq)
  have u: "(ucast (v - f) :: u8) = ucast v - ucast f" for v f :: u64
    by transfer (simp, simp add: take_bit_eq_mod, rule mod_diff_cong, simp_all add: mod_mod_cancel)
  have sum: "x_commit_sum mix_ext [ucast v # b, 0 # e] [] = Ok (ucast v # map2 (+) b e)"
      "x_commit_sum mix_ext [ucast v # b] [ucast f # replicate 32 0] = Ok (ucast (v - f) # b)"
    if "length b = 32" "length e = 32" for v f :: u64 and b e
    using that by (simp_all add: mix_ext_def sample_ext_def pad zero u)
  have split: "length d = 32 \<and> map2 (+) b d = a" if "x_blind_split mix_ext a b = Ok d" "length a = 32" "length b = 32" for a b d
    using that by (auto simp: mix_ext_def sample_ext_def pad sub)
  have key: "k = b \<and> x_sk_from_slice mix_ext k = Ok k" if "o_blind_key sample_onion b = Ok k" for b k
    using that by (auto simp: sample_onion_def mix_ext_def sample_ext_def split: if_splits)
  have other: "x_commit_blind mix_ext v b = Ok (ucast v # b)" "x_derive_key mix_ext k v i s = Ok c \<Longrightarrow> length c = 32"
      "x_proof_create mix_ext k v i s c = Ok p \<Longrightarrow> length p \<le> 675" "x_tx_fee mix_ext 1 1 1 = 25"
      "x_fee_try_from mix_ext = Some" for v b k i s c p
    by (auto simp: mix_ext_def sample_ext_def)
  show ?thesis
    unfolding swap_lib_ok_def
    using split key other sum(1) sum(2) [OF _ length_replicate] sample_ser_ok sample_onion_ok
    by (intro conjI allI impI; (elim conjE)?) (simp_all add: add)
qed

text \<open>A wallet with one output of a thousand, at a position or not, that is swapped by two hops\<close>

definition swap_wallet :: "u64 option \<Rightarrow> wallet" where
  "swap_wallet m = sample_wallet\<lparr>w_db := db_store ((sample_output 1 1000 Unspent)\<lparr>out_mmr_index := m\<rparr>) db_empty\<rparr>"

definition swap_draw :: mix_draw where
  "swap_draw = \<lparr>md_excess = (\<lambda>i. replicate 32 (of_nat i)), md_ephemeral = (\<lambda>i. replicate 32 (3 + of_nat i)),
     md_nonces = (replicate 32 1, replicate 32 2)\<rparr>"

definition swap_params :: mixnet_params where
  "swap_params = \<lparr>mx_server_keys = [replicate 32 5, replicate 32 6], mx_fee_per_hop = 0\<rparr>"

definition swap_commit :: commitment where
  "swap_commit = ucast (1000 :: u64) # map2 (+) (replicate 32 1) (pad 32 (out_key_id (sample_output 1 1000 Unspent)))"

definition swapped :: "u64 option \<Rightarrow> bool \<Rightarrow> swap_req result \<times> wallet" where
  "swapped m lock_out = create_mwixnet_req mix_ext sample_ser sample_onion swap_draw None swap_params swap_commit lock_out (swap_wallet m)"

lemma swapped_Ok: "is_Ok (fst (swapped None True))" "is_Ok (fst (swapped (Some 7) False))"
  by code_simp+

lemma swap_wallet_iter: "wallet_iter (swap_wallet m) = [(sample_output 1 1000 Unspent)\<lparr>out_mmr_index := m\<rparr>]"
  by (simp add: wallet_iter_def batch_iter_def swap_wallet_def db_store_def batch_save_def smodify_def db_empty_def tbl_vals_def)

lemma swap_commit_ours:
  "\<forall>out \<in> set (wallet_iter (swap_wallet m)). \<forall>k b. cached_commit mix_ext k out = Ok swap_commit \<longrightarrow>
      x_derive_key mix_ext k (out_value out) (out_key_id out) Switch_Regular = Ok b \<longrightarrow> swap_commit = ucast (out_value out) # b"
  by (auto simp: swap_wallet_iter cached_commit_def must_def mix_ext_def sample_ext_def sample_output_def)

theorem swap_ends_in_new_output_witness:
  "\<exists>req w' new w1 pls last. swapped None True = (Ok req, w') \<and>
     owner_build_output mix_ext None OF_Plain 950 (swap_wallet None) = (Ok new, w1) \<and>
     peel_all mix_ext sample_ser sample_onion [replicate 32 5, replicate 32 6] (sr_onion req) = Ok (pls, last) \<and>
     on_commit last = ou_commit (bo_output new)"
proof -
  obtain req w' where r: "swapped None True = (Ok req, w')"
    using swapped_Ok(1) by (auto simp: is_Ok_ex) (metis prod.collapse)
  have d: "\<forall>i. length (md_excess swap_draw i) = 32" "mx_server_keys swap_params \<noteq> []"
    by (simp_all add: swap_draw_def swap_params_def)
  have fee: "x_tx_fee mix_ext 1 1 1 = 25" by (simp add: mix_ext_def sample_ext_def)
  show ?thesis
    using swap_ends_in_new_output [OF r [unfolded swapped_def] d(2) sample_swap_ok d(1) swap_commit_ours] r
    by (auto simp: swap_wallet_iter swap_params_def fee sample_output_def simp del: One_nat_def)
qed

theorem known_position_is_not_locked_witness:
  "is_Ok (fst (swapped (Some 7) False)) \<and> \<not> is_Ok (fst (swapped (Some 7) True))"
proof -
  have "tbl_get (db_outputs (w_db (swap_wallet (Some 7)))) (output_key (out_key_id (sample_output 1 1000 Unspent)) None) = None"
    by code_simp
  then have "\<forall>out \<in> set (wallet_iter (swap_wallet (Some 7))). \<forall>k. cached_commit mix_ext k out = Ok swap_commit \<longrightarrow>
      tbl_get (db_outputs (w_db (swap_wallet (Some 7)))) (output_key (out_key_id out) None) = None"
    by (simp add: swap_wallet_iter)
  from known_position_is_not_locked [OF this] show ?thesis using swapped_Ok(2) by (simp add: swapped_def)
qed

end
