(* ===== verification/Commands.thy ===== *)
theory Commands
  imports Api
begin

text \<open>
  The commands of the wallet (\<open>controller/src/command.rs\<close>): each runs calls of the interfaces and
  shows what came of them. What is shown is kept as a list of the values handed to the tables of
  \<open>display.rs\<close> and of the lines that carry news; headings, blank lines and the log are left out, and
  so are the pauses. The commands that start a server are not modelled.
\<close>

section \<open>The console\<close>

text \<open>\<open>controller/src/error.rs\<close>\<close>

datatype cmd_error =
    CT_LibTX string
  | CT_Impls string
  | LibWallet error
  | CT_Keychain string
  | CT_Transaction string
  | CT_Secp
  | FileWallet string
  | CT_IO
  | CT_Format
  | CT_Node string
  | CT_Hyper
  | CT_Uri
  | CT_DuplicateTransactionId
  | CT_WalletSeedExists string
  | CT_WalletSeedDoesntExist
  | CT_Encryption
  | CT_Mnemonic
  | ArgumentError string
  | ListenerError
  | CT_GenericError string

datatype shown =
    ShownText string
  | ShownPhrase string
  | ShownRewindHash string
  | ShownAddress string slatepack_address
  | ShownAccounts "acct_path_mapping list"
  | ShownEstimate u64 "(string \<times> u64 \<times> fee_fields) list"
  | ShownInfo string wallet_info bool
  | ShownOutputs string u64 bool "output_commit_mapping list"
  | ShownTxs string u64 bool "tx_log_entry list" bool
  | ShownProof tx_log_entry
  | ShownViewOutputs view_wallet u64
  | ShownViewBalance view_wallet u64
  | ShownMessage string
  | ShownSlatepack slatepack
  | ShownSlate slate

text \<open>What the user types: a line, an interrupt or another signal; past the last one is the end\<close>

datatype typed = Interrupt | OtherSignal | Line string

record console =
  cn_api :: api
  cn_typed :: "typed list"
  cn_passwords :: "string list"
  cn_shown :: "shown list"

text \<open>A command may not return, as the calls it makes\<close>

type_synonym 'a cmd = "console \<Rightarrow> ((cmd_error, 'a) res \<times> console) option"

text \<open>The text forms a command uses of other crates\<close>

record text_ext =
  l_qr :: "string \<Rightarrow> string option"
  l_tx_json :: "transaction \<Rightarrow> string"
  l_proof_json :: "payment_proof \<Rightarrow> string"
  l_proof_of_json :: "string \<Rightarrow> payment_proof option"
  l_amount_of_hr :: "string \<Rightarrow> (string, u64) res"
  l_uuid_of_str :: "string \<Rightarrow> (string, uuid) res"
  l_first_line :: "string option \<Rightarrow> string option"

definition cret :: "'a \<Rightarrow> 'a cmd" where
  "cret a c = Some (Ok a, c)"

definition clift :: "(cmd_error, 'a) res \<Rightarrow> 'a cmd" where
  "clift r c = Some (r, c)"

definition cfail :: "cmd_error \<Rightarrow> 'a cmd" where
  "cfail e c = Some (Err e, c)"

definition cread :: "(api \<Rightarrow> 'a) \<Rightarrow> 'a cmd" where
  "cread f c = Some (Ok (f (cn_api c)), c)"

definition show_it :: "shown \<Rightarrow> unit cmd" where
  "show_it x c = Some (Ok (), c\<lparr>cn_shown := cn_shown c @ [x]\<rparr>)"

definition cbind :: "'a cmd \<Rightarrow> ('a \<Rightarrow> 'b cmd) \<Rightarrow> 'b cmd" where
  "cbind m f c = (case m c of
     None \<Rightarrow> None
   | Some (Ok a, c') \<Rightarrow> f a c'
   | Some (Err e, c') \<Rightarrow> Some (Err e, c')
   | Some (Panic, c') \<Rightarrow> Some (Panic, c'))"

text \<open>The outcome of a call as a value, to be told apart afterwards\<close>

definition attempt :: "'a cmd \<Rightarrow> (cmd_error, 'a) res cmd" where
  "attempt m c = (case m c of
     None \<Rightarrow> None
   | Some (Panic, c') \<Rightarrow> Some (Panic, c')
   | Some (r, c') \<Rightarrow> Some (Ok r, c'))"

primrec cmap :: "('a \<Rightarrow> 'b cmd) \<Rightarrow> 'a list \<Rightarrow> 'b list cmd" where
  "cmap f [] = cret []"
| "cmap f (x # xs) = cbind (f x) (\<lambda>y. cbind (cmap f xs) (\<lambda>ys. cret (y # ys)))"

definition lib_err :: "'a result \<Rightarrow> (cmd_error, 'a) res" where
  "lib_err r = (case r of Ok a \<Rightarrow> Ok a | Err e \<Rightarrow> Err (LibWallet e) | Panic \<Rightarrow> Panic)"

definition on_api_loop :: "'a alop \<Rightarrow> 'a cmd" where
  "on_api_loop m c = map_option (\<lambda>(r, a). (lib_err r, c\<lparr>cn_api := a\<rparr>)) (m (cn_api c))"

definition on_api :: "'a aop \<Rightarrow> 'a cmd" where
  "on_api m = on_api_loop (\<lambda>a. Some (m a))"

text \<open>Files, with the error a failure stands for\<close>

definition on_file_system :: "error \<Rightarrow> 'a fop \<Rightarrow> 'a aop" where
  "on_file_system e m = on_provider (with_files e (or_io I_IO m))"

definition write_or_generic :: "string \<Rightarrow> string \<Rightarrow> unit cmd" where
  "write_or_generic file t =
     cbind (attempt (on_api (on_file_system (Lib (IO file)) (write_text file t)))) (\<lambda>r. case r of
       Ok _ \<Rightarrow> cret ()
     | _ \<Rightarrow> cfail (CT_GenericError file))"

section \<open>Making and recovering a wallet\<close>

record init_args =
  ina_list_length :: nat
  ina_password :: string
  ina_config :: wallet_config
  ina_recovery_phrase :: "string option"
  ina_restore :: bool

text \<open>The configuration is written to the top directory, below the directory of the process \<open>cwd\<close>.\<close>

definition cmd_init ::
  "env \<Rightarrow> string \<Rightarrow> string \<Rightarrow> chain_type \<Rightarrow> (nat \<Rightarrow> bytes) \<Rightarrow> bytes \<times> bytes \<Rightarrow> init_args \<Rightarrow> bool \<Rightarrow> unit cmd" where
  "cmd_init E secret cwd chain draw rand args test_mode =
     cbind (on_api (api_create_config E secret cwd chain None None None)) (\<lambda>_.
     cbind (on_api (on_provider (create_wallet (e_ext E) (e_seed E) draw rand (ina_recovery_phrase args)
       (ina_list_length args) (ina_password args) test_mode))) (\<lambda>_.
     cbind (on_api (api_get_mnemonic E (ina_password args))) (\<lambda>m. show_it (ShownPhrase m))))"

definition cmd_recover :: "env \<Rightarrow> string \<Rightarrow> unit cmd" where
  "cmd_recover E passphrase =
     cbind (on_api (api_get_mnemonic E passphrase)) (\<lambda>m. show_it (ShownPhrase m))"

section \<open>Watching by rewind hash\<close>

definition cmd_rewind_hash :: "env \<Rightarrow> secret_key option \<Rightarrow> unit cmd" where
  "cmd_rewind_hash E km =
     cbind (on_api (api_get_rewind_hash E km)) (\<lambda>h. show_it (ShownRewindHash h))"

record view_wallet_scan_args =
  vsa_rewind_hash :: string
  vsa_start_height :: "u64 option"
  vsa_backwards_from_tip :: "u64 option"

definition scan_start :: "u64 \<Rightarrow> u64 option \<Rightarrow> u64 option \<Rightarrow> u64" where
  "scan_start tip_height backwards_from_tip start_height = (case backwards_from_tip of
     Some b \<Rightarrow> saturating_sub64 tip_height b
   | None \<Rightarrow> (case start_height of Some h \<Rightarrow> h | None \<Rightarrow> 1))"

definition cmd_scan_rewind_hash :: "env \<Rightarrow> view_wallet_scan_args \<Rightarrow> unit cmd" where
  "cmd_scan_rewind_hash E args =
     cbind (on_api_loop (api_node_height E None)) (\<lambda>nh.
     let tip_height = nh_height nh;
         start_height = scan_start tip_height (vsa_backwards_from_tip args) (vsa_start_height args)
     in cbind (on_api_loop (api_scan_rewind_hash E (vsa_rewind_hash args) (Some start_height))) (\<lambda>res.
        cbind (if vw_total_balance res \<noteq> 0 then show_it (ShownViewOutputs res tip_height) else cret ()) (\<lambda>_.
          show_it (ShownViewBalance res tip_height))))"

section \<open>Accounts\<close>

definition cmd_account :: "env \<Rightarrow> secret_key option \<Rightarrow> string option \<Rightarrow> unit cmd" where
  "cmd_account E km create = (case create of
     None \<Rightarrow> cbind (on_api (api_accounts E km)) (\<lambda>acct_mappings. show_it (ShownAccounts acct_mappings))
   | Some label \<Rightarrow> cbind (on_api (api_create_account_path E km label)) (\<lambda>_. cret ()))"

section \<open>Handing out a slate\<close>

definition address_option :: "env \<Rightarrow> string option \<Rightarrow> (cmd_error, slatepack_address option) res" where
  "address_option E s = (case s of
     None \<Rightarrow> Ok None
   | Some t \<Rightarrow> lib_err (rbind (address_of_string (e_ext E) t) (\<lambda>a. Ok (Some a))))"

definition slate_file :: "env \<Rightarrow> api \<Rightarrow> slate \<Rightarrow> string option \<Rightarrow> string \<times> string" where
  "slate_file E a s out_file_override =
     (let slate_dir = api_get_top_level_directory a @ ''/slatepack''
      in (slate_dir, case out_file_override of
           None \<Rightarrow> slate_dir @ ''/'' @ x_uuid_str (e_ext E) (sl_id s) @ ''.'' @ slate_state_str (sl_state s) @ ''.slatepack''
         | Some f \<Rightarrow> f))"

text \<open>
  The coins are locked before the file is made, and the message is shown after it is written.
\<close>

definition output_slatepack ::
  "env \<Rightarrow> text_ext \<Rightarrow> bytes \<Rightarrow> secret_key option \<Rightarrow> slate \<Rightarrow> slatepack_address option \<Rightarrow> string option \<Rightarrow>
     bool \<Rightarrow> bool \<Rightarrow> bool \<Rightarrow> unit cmd" where
  "output_slatepack E L seed km s dest out_file_override lock finalizing show_qr =
     cbind (on_api (api_create_slatepack_message E seed km s (Some 0)
       (case dest of Some a \<Rightarrow> [a] | None \<Rightarrow> []))) (\<lambda>message.
     cbind (cread (\<lambda>a. slate_file E a s out_file_override)) (\<lambda>(slate_dir, out_file_name).
     cbind (on_api (quietly (on_file_system (Lib (IO ''directory'')) (create_dir_all slate_dir)))) (\<lambda>_.
     cbind (if lock then on_api (api_tx_lock_outputs E km s) else cret ()) (\<lambda>_.
     cbind (show_it (ShownText out_file_name)) (\<lambda>_.
     cbind (on_api (on_file_system (Lib (IO ''file'')) (write_text out_file_name message))) (\<lambda>_.
     cbind (show_it (ShownText (if finalizing then ''Slatepack data follows.''
       else ''Slatepack data follows. Please provide this output to the other party''))) (\<lambda>_.
     cbind (show_it (ShownMessage message)) (\<lambda>_.
     cbind (show_it (ShownText out_file_name)) (\<lambda>_.
     cbind (case (if show_qr then l_qr L message else None) of
         Some q \<Rightarrow> show_it (ShownText q) | None \<Rightarrow> cret ()) (\<lambda>_.
       show_it (ShownText (if dest \<noteq> None then ''The slatepack data is encrypted for the recipient only''
         else ''The slatepack data is NOT encrypted''))))))))))))"

text \<open>
  A slate goes out by hand when it is not to be sent over Tor, when there is no address, or when
  sending fails.
\<close>

definition sent_or_output ::
  "env \<Rightarrow> tor_config \<Rightarrow> bool option \<Rightarrow> bool \<Rightarrow> slate \<Rightarrow> slatepack_address option \<Rightarrow> bool \<Rightarrow> unit cmd \<Rightarrow>
     (slatepack_address \<Rightarrow> slate \<Rightarrow> unit cmd) \<Rightarrow> unit cmd" where
  "sent_or_output E tc skip_tor test_mode s dest to_finalize output_sp sent = (case dest of
     None \<Rightarrow> output_sp
   | Some a \<Rightarrow>
       if test_mode \<or> \<not> send_tor tc skip_tor then output_sp
       else (case try_slatepack_sync_workflow (e_ext E) (e_tor E) s a (Some tc) to_finalize of
         Ok r \<Rightarrow> sent a r
       | Err _ \<Rightarrow> output_sp
       | Panic \<Rightarrow> clift Panic))"

definition with_bridge :: "string option \<Rightarrow> tor_config \<Rightarrow> tor_config" where
  "with_bridge bridge tc = (case bridge of
     Some b \<Rightarrow> tc\<lparr>tc_bridge := (tc_bridge tc)\<lparr>tb_bridge_line := Some b\<rparr>\<rparr>
   | None \<Rightarrow> tc)"

section \<open>Sending\<close>

record send_args =
  sna_amount :: u64
  sna_amount_includes_fee :: bool
  sna_use_max_amount :: bool
  sna_minimum_confirmations :: u64
  sna_selection_strategy :: string
  sna_estimate_selection_strategies :: bool
  sna_late_lock :: bool
  sna_dest :: "string option"
  sna_change_outputs :: nat
  sna_fluff :: bool
  sna_max_outputs :: nat
  sna_target_slate_version :: "u16 option"
  sna_payment_proof_address :: "string option"
  sna_ttl_blocks :: "u64 option"
  sna_skip_tor :: "bool option"
  sna_outfile :: "string option"
  sna_bridge :: "string option"
  sna_slatepack_qr :: bool

definition max_retry_args :: "init_tx_args \<Rightarrow> u64 \<Rightarrow> u32 \<Rightarrow> init_tx_args" where
  "max_retry_args init_args amount max_inputs =
     init_args\<lparr>ita_amount := amount, ita_max_outputs := max_inputs, ita_selection_strategy_is_use_all := True\<rparr>"

definition estimate_strategies :: "bool \<Rightarrow> string list" where
  "estimate_strategies use_max_amount = (if use_max_amount then [''all''] else [''smallest'', ''all''])"

text \<open>
  An amount too big for one transaction is lowered to what the heaviest one carries, when the most
  is to be sent. The amount is returned with the slate.
\<close>

definition init_or_retry ::
  "env \<Rightarrow> secret_key option \<Rightarrow> (nat \<Rightarrow> draw \<times> uuid) \<Rightarrow> bool \<Rightarrow> init_tx_args \<Rightarrow> (slate \<times> u64) cmd" where
  "init_or_retry E km D use_max_amount init_args =
     cbind (attempt (on_api (api_init_send_tx E km (D 0) (D 1) init_args))) (\<lambda>r. case r of
       Ok s \<Rightarrow> cret (s, ita_amount init_args)
     | Panic \<Rightarrow> clift Panic
     | Err e \<Rightarrow> (case e of
         LibWallet (Wal (BigAmountError a _ max_inputs)) \<Rightarrow>
           if use_max_amount
           then cbind (on_api (api_init_send_tx E km (D 2) (D 3) (max_retry_args init_args a max_inputs)))
                  (\<lambda>s. cret (s, a))
           else cfail e
       | _ \<Rightarrow> cfail e))"

definition estimate_args :: "send_args \<Rightarrow> u64 \<Rightarrow> bool \<Rightarrow> string \<Rightarrow> init_tx_args" where
  "estimate_args args amount info_updated strategy = init_tx_args_default\<lparr>
     ita_amount := amount,
     ita_amount_includes_fee := Some (sna_amount_includes_fee args),
     ita_minimum_confirmations := sna_minimum_confirmations args,
     ita_max_outputs := of_nat (sna_max_outputs args),
     ita_num_change_outputs := of_nat (sna_change_outputs args),
     ita_selection_strategy_is_use_all := (strategy = ''all''),
     ita_refresh_outputs_from_node := \<not> info_updated,
     ita_estimate_only := Some True\<rparr>"

definition sending_args :: "send_args \<Rightarrow> u64 \<Rightarrow> bool \<Rightarrow> slatepack_address option \<Rightarrow> init_tx_args" where
  "sending_args args amount info_updated proof_address = init_tx_args_default\<lparr>
     ita_amount := amount,
     ita_amount_includes_fee := Some (sna_amount_includes_fee args),
     ita_minimum_confirmations := sna_minimum_confirmations args,
     ita_max_outputs := of_nat (sna_max_outputs args),
     ita_num_change_outputs := of_nat (sna_change_outputs args),
     ita_selection_strategy_is_use_all := (sna_selection_strategy args = ''all''),
     ita_refresh_outputs_from_node := \<not> info_updated,
     ita_target_slate_version := sna_target_slate_version args,
     ita_payment_proof_recipient_address := proof_address,
     ita_ttl_blocks := sna_ttl_blocks args,
     ita_send_args := None,
     ita_late_lock := Some (sna_late_lock args)\<rparr>"

text \<open>
  An amount once lowered is that of the strategies that follow and of the display.
\<close>

primrec estimates ::
  "env \<Rightarrow> secret_key option \<Rightarrow> (nat \<Rightarrow> draw \<times> uuid) \<Rightarrow> send_args \<Rightarrow> bool \<Rightarrow> u64 \<Rightarrow> string list \<Rightarrow>
     (u64 \<times> (string \<times> u64 \<times> fee_fields) list) cmd" where
  "estimates E km D args info_updated amount [] = cret (amount, [])"
| "estimates E km D args info_updated amount (strategy # rest) =
     cbind (init_or_retry E km D (sna_use_max_amount args) (estimate_args args amount info_updated strategy))
       (\<lambda>(s, amount).
     cbind (estimates E km (\<lambda>i. D (i + 4)) args info_updated amount rest) (\<lambda>(amount, es).
       cret (amount, (strategy, sl_amount s, sl_fee_fields s) # es)))"

text \<open>What the recipient sent back is locked, finalised and posted.\<close>

definition finish_command ::
  "env \<Rightarrow> secret_key option \<Rightarrow> draw \<times> uuid \<Rightarrow> bool \<Rightarrow> slatepack_address \<Rightarrow> slate \<Rightarrow> unit cmd" where
  "finish_command E km d fluff a s =
     cbind (on_api (api_tx_lock_outputs E km s)) (\<lambda>_.
     cbind (on_api (api_finalize_tx E km d s)) (\<lambda>ret_slate.
     cbind (on_api (api_post_tx E km ret_slate fluff)) (\<lambda>_.
       show_it (ShownText ''Tx sent successfully''))))"

definition cmd_send ::
  "env \<Rightarrow> text_ext \<Rightarrow> secret_key option \<Rightarrow> (nat \<Rightarrow> draw \<times> uuid) \<Rightarrow> bytes \<Rightarrow> send_args \<Rightarrow> tor_config \<Rightarrow> bool \<Rightarrow>
     unit cmd" where
  "cmd_send E L km D seed args tc test_mode =
     cbind (clift (if sna_estimate_selection_strategies args then Ok None
       else address_option E (sna_dest args))) (\<lambda>dest.
     cbind (on_api_loop (api_retrieve_summary_info_with_refresh_status E km True (sna_minimum_confirmations args)))
       (\<lambda>(info_updated, _, wallet_info).
     let amount = (if sna_use_max_amount args then wi_amount_currently_spendable wallet_info
           else sna_amount args)
     in if sna_estimate_selection_strategies args then
          cbind (estimates E km D args info_updated amount (estimate_strategies (sna_use_max_amount args)))
            (\<lambda>(amount, strategies). show_it (ShownEstimate amount strategies))
        else
          cbind (clift (address_option E (sna_payment_proof_address args))) (\<lambda>proof_address.
          cbind (init_or_retry E km D (sna_use_max_amount args) (sending_args args amount info_updated proof_address))
            (\<lambda>(s, _).
          sent_or_output E (with_bridge (sna_bridge args) tc) (sna_skip_tor args) test_mode s dest False
            (output_slatepack E L seed km s dest (sna_outfile args) True False (sna_slatepack_qr args))
            (finish_command E km (D 4) (sna_fluff args))))))"

section \<open>Reading a slate\<close>

text \<open>\<open>PathToSlatepack\<close> of \<open>impls/src/adapters/slatepack.rs\<close>\<close>

definition get_slatepack_file_contents :: "env \<Rightarrow> string \<Rightarrow> api \<Rightarrow> bytes result" where
  "get_slatepack_file_contents E path a = (case file_text (pr_fs (ap_provider a)) path of
     None \<Rightarrow> Err (Lib (IO path))
   | Some t \<Rightarrow>
       let len = of_nat (length t) :: u64;
           min_len = slatepack_min_size;
           max_len = slatepack_max_size (e_ext E)
       in if len < min_len \<or> len > max_len
          then Err (bad_slatepack (''Data is invalid length: '' @ nat_to_string (unat len) @ '' | min: '' @
            nat_to_string (unat min_len) @ '', max: '' @ nat_to_string (unat max_len) @ '' |''))
          else Ok (map of_char t))"

definition file_get_slatepack :: "env \<Rightarrow> slatepacker_args \<Rightarrow> string \<Rightarrow> bool \<Rightarrow> api \<Rightarrow> slatepack result" where
  "file_get_slatepack E packer path decrypt a =
     rbind (get_slatepack_file_contents E path a) (\<lambda>data.
       deser_slatepack (e_ext E) (e_pack E) packer data decrypt)"

definition file_get_tx :: "env \<Rightarrow> slatepacker_args \<Rightarrow> string \<Rightarrow> api \<Rightarrow> slate result" where
  "file_get_tx E packer path a =
     rbind (get_slatepack_file_contents E path a) (\<lambda>data.
     rbind (deser_slatepack (e_ext E) (e_pack E) packer data True) (\<lambda>sp.
       slate_of_slatepack (e_ext E) (e_ser E) sp))"

definition parse_slatepack ::
  "env \<Rightarrow> secret_key option \<Rightarrow> string option \<Rightarrow> string option \<Rightarrow> (slate \<times> slatepack_address option) cmd" where
  "parse_slatepack E km filename message = (case filename of
     Some f \<Rightarrow>
       cbind (on_api (api_get_slatepack_secret_key E km 0)) (\<lambda>dec_key.
       let packer = no_packer_args\<lparr>spa_dec_key := Some dec_key\<rparr>
       in cbind (on_api (sbind (sread (file_get_tx E packer f)) slift)) (\<lambda>s.
          cbind (on_api (sbind (sread (file_get_slatepack E packer f True)) slift)) (\<lambda>sp.
            cret (s, sp_sender sp))))
   | None \<Rightarrow> (case message of
       Some m \<Rightarrow>
         cbind (on_api (api_slate_from_slatepack_message E km m [0])) (\<lambda>s.
         cbind (on_api (api_decode_slatepack_message E km m [0])) (\<lambda>sp.
           cret (s, sp_sender sp)))
     | None \<Rightarrow> cfail (CT_GenericError ''No slate provided via file or direct input'')))"

section \<open>Receiving\<close>

record receive_args =
  rca_input_file :: "string option"
  rca_input_slatepack_message :: "string option"
  rca_skip_tor :: "bool option"
  rca_outfile :: "string option"
  rca_bridge :: "string option"
  rca_slatepack_qr :: bool

text \<open>The state of the entry is brought up to date, and a failure of this is only logged.\<close>

definition note_sent_back :: "env \<Rightarrow> secret_key option \<Rightarrow> slate \<Rightarrow> unit cmd" where
  "note_sent_back E km s =
     on_api (quietly (on_inst (sbind (sread w_parent_key_id) (\<lambda>parent_key_id.
       update_tx_slate_state (e_ext E) km parent_key_id s))))"

definition cmd_receive ::
  "env \<Rightarrow> text_ext \<Rightarrow> secret_key option \<Rightarrow> string \<Rightarrow> node_version_info option \<Rightarrow> draw \<Rightarrow> bytes \<Rightarrow> receive_args \<Rightarrow>
     tor_config \<Rightarrow> bool \<Rightarrow> unit cmd" where
  "cmd_receive E L km account version d seed args tc test_mode =
     cbind (parse_slatepack E km (rca_input_file args) (rca_input_slatepack_message args)) (\<lambda>(s, ret_address).
     cbind (on_api (api_receive_tx E (Some check_middleware) version km d s (Some account) None)) (\<lambda>s.
       sent_or_output E (with_bridge (rca_bridge args) tc) (rca_skip_tor args) test_mode s ret_address True
         (output_slatepack E L seed km s ret_address (rca_outfile args) False False (rca_slatepack_qr args))
         (\<lambda>a r. cbind (note_sent_back E km r) (\<lambda>_.
           show_it (ShownAddress ''Transaction received and sent back to sender for finalization'' a)))))"

definition cmd_unpack :: "env \<Rightarrow> secret_key option \<Rightarrow> receive_args \<Rightarrow> unit cmd" where
  "cmd_unpack E km args =
     cbind (case rca_input_file args of
         Some f \<Rightarrow> on_api (sbind (sread (file_get_slatepack E no_packer_args f False)) slift)
       | None \<Rightarrow> (case rca_input_slatepack_message args of
           Some mes \<Rightarrow> on_api (api_decode_slatepack_message E km mes [])
         | None \<Rightarrow> cfail (ArgumentError ''Invalid Slatepack Input''))) (\<lambda>sp.
     cbind (show_it (ShownSlatepack sp)) (\<lambda>_.
     if sp_mode sp = 1 then
       cbind (on_api (api_get_slatepack_secret_key E km 0)) (\<lambda>dec_key.
         case try_decrypt_payload (e_ext E) (age_ext.truncate (e_pack E)) (g_str_of_utf8 (e_pack E))
                (Some dec_key) sp of
           Ok sp \<Rightarrow>
             cbind (show_it (ShownText ''Slatepack is encrypted for this wallet'')) (\<lambda>_.
             cbind (show_it (ShownSlatepack sp)) (\<lambda>_.
             cbind (on_api (slift (slate_of_slatepack (e_ext E) (e_ser E) sp))) (\<lambda>s. show_it (ShownSlate s))))
         | Err _ \<Rightarrow> show_it (ShownText ''Slatepack payload cannot be decrypted by this wallet'')
         | Panic \<Rightarrow> clift Panic)
     else
       cbind (on_api (slift (slate_of_slatepack (e_ext E) (e_ser E) sp))) (\<lambda>s.
       cbind (show_it (ShownText ''Slatepack is not encrypted'')) (\<lambda>_. show_it (ShownSlate s)))))"

section \<open>Finalising and invoices\<close>

record finalize_args =
  fza_input_file :: "string option"
  fza_input_slatepack_message :: "string option"
  fza_fluff :: bool
  fza_nopost :: bool
  fza_outfile :: "string option"
  fza_slatepack_qr :: bool

text \<open>Whose slate it is shows in its state.\<close>

definition cmd_finalize ::
  "env \<Rightarrow> text_ext \<Rightarrow> secret_key option \<Rightarrow> draw \<times> uuid \<Rightarrow> bytes \<Rightarrow> finalize_args \<Rightarrow> unit cmd" where
  "cmd_finalize E L km d seed args =
     cbind (parse_slatepack E km (fza_input_file args) (fza_input_slatepack_message args)) (\<lambda>(s, _).
     cbind (if sl_state s = Invoice2 then on_api (foreign_finalize_tx E km d s False)
            else on_api (api_finalize_tx E km d s)) (\<lambda>s.
     cbind (if \<not> fza_nopost args then
              cbind (on_api (api_post_tx E km s (fza_fluff args))) (\<lambda>_. show_it (ShownText ''Transaction posted''))
            else cret ()) (\<lambda>_.
     cbind (show_it (ShownText ''Transaction finalized successfully'')) (\<lambda>_.
       output_slatepack E L seed km s None (fza_outfile args) False True (fza_slatepack_qr args)))))"

record issue_invoice_args =
  iva_dest :: "string option"
  iva_issue_args :: issue_invoice_tx_args
  iva_outfile :: "string option"
  iva_slatepack_qr :: bool

definition cmd_issue_invoice_tx ::
  "env \<Rightarrow> text_ext \<Rightarrow> secret_key option \<Rightarrow> draw \<times> uuid \<Rightarrow> bytes \<Rightarrow> issue_invoice_args \<Rightarrow> unit cmd" where
  "cmd_issue_invoice_tx E L km d seed args =
     cbind (clift (address_option E (iva_dest args))) (\<lambda>dest.
     cbind (on_api (api_issue_invoice_tx E km d (iva_issue_args args))) (\<lambda>s.
       output_slatepack E L seed km s dest (iva_outfile args) False False (iva_slatepack_qr args)))"

record process_invoice_args =
  pia_minimum_confirmations :: u64
  pia_selection_strategy :: string
  pia_ret_address :: "string option"
  pia_max_outputs :: nat
  pia_slate :: slate
  pia_estimate_selection_strategies :: bool
  pia_ttl_blocks :: "u64 option"
  pia_skip_tor :: "bool option"
  pia_outfile :: "string option"
  pia_bridge :: "string option"
  pia_slatepack_qr :: bool

definition invoice_estimate_args :: "process_invoice_args \<Rightarrow> bool \<Rightarrow> string \<Rightarrow> init_tx_args" where
  "invoice_estimate_args args info_updated strategy = init_tx_args_default\<lparr>
     ita_amount := sl_amount (pia_slate args),
     ita_minimum_confirmations := pia_minimum_confirmations args,
     ita_max_outputs := of_nat (pia_max_outputs args),
     ita_num_change_outputs := 1,
     ita_selection_strategy_is_use_all := (strategy = ''all''),
     ita_refresh_outputs_from_node := \<not> info_updated,
     ita_estimate_only := Some True\<rparr>"

definition paying_args :: "process_invoice_args \<Rightarrow> bool \<Rightarrow> init_tx_args" where
  "paying_args args info_updated = init_tx_args_default\<lparr>
     ita_amount := 0,
     ita_minimum_confirmations := pia_minimum_confirmations args,
     ita_max_outputs := of_nat (pia_max_outputs args),
     ita_num_change_outputs := 1,
     ita_selection_strategy_is_use_all := (pia_selection_strategy args = ''all''),
     ita_refresh_outputs_from_node := \<not> info_updated,
     ita_ttl_blocks := pia_ttl_blocks args,
     ita_send_args := None\<rparr>"

text \<open>After an estimate the command goes on with the invoice as it came.\<close>

definition cmd_process_invoice ::
  "env \<Rightarrow> text_ext \<Rightarrow> secret_key option \<Rightarrow> (nat \<Rightarrow> draw \<times> uuid) \<Rightarrow> bytes \<Rightarrow> tor_config \<Rightarrow> process_invoice_args \<Rightarrow>
     bool \<Rightarrow> unit cmd" where
  "cmd_process_invoice E L km D seed tc args test_mode =
     cbind (clift (address_option E (pia_ret_address args))) (\<lambda>ret_address.
     cbind (on_api_loop (api_retrieve_summary_info_with_refresh_status E km True (pia_minimum_confirmations args)))
       (\<lambda>(info_updated, _, _).
     cbind (if pia_estimate_selection_strategies args then
              cbind (cmap (\<lambda>(i, strategy).
                  cbind (on_api (api_init_send_tx E km (D i) (D (i + 1)) (invoice_estimate_args args info_updated strategy)))
                    (\<lambda>s. cret (strategy, sl_amount s, sl_fee_fields s))) [(0, ''smallest''), (2, ''all'')]) (\<lambda>strategies.
              cbind (show_it (ShownEstimate (sl_amount (pia_slate args)) strategies)) (\<lambda>_. cret (pia_slate args)))
            else
              on_api (api_process_invoice_tx E km (fst (D 0)) seed (pia_slate args) (paying_args args info_updated)))
       (\<lambda>s.
     sent_or_output E (with_bridge (pia_bridge args) tc) (pia_skip_tor args) test_mode s ret_address True
       (output_slatepack E L seed km s ret_address (pia_outfile args) True False (pia_slatepack_qr args))
       (\<lambda>a r. cbind (note_sent_back E km r) (\<lambda>_.
         show_it (ShownAddress ''Transaction paid and sent back to initiator for finalization'' a))))))"

section \<open>Looking at the wallet\<close>

definition cmd_info :: "env \<Rightarrow> secret_key option \<Rightarrow> string \<Rightarrow> u64 \<Rightarrow> unit cmd" where
  "cmd_info E km account minimum_confirmations =
     cbind (cread ap_updater_running) (\<lambda>updater_running.
     cbind (on_api_loop (api_retrieve_summary_info E km True minimum_confirmations)) (\<lambda>(validated, wallet_info).
       show_it (ShownInfo account wallet_info (validated \<or> updater_running))))"

definition cmd_outputs :: "env \<Rightarrow> secret_key option \<Rightarrow> string \<Rightarrow> bool \<Rightarrow> unit cmd" where
  "cmd_outputs E km account show_spent =
     cbind (cread ap_updater_running) (\<lambda>updater_running.
     cbind (on_api_loop (api_node_height E km)) (\<lambda>res.
     cbind (on_api_loop (api_retrieve_outputs E km show_spent True None)) (\<lambda>(validated, outputs).
       show_it (ShownOutputs account (nh_height res) (validated \<or> updater_running) outputs))))"

record txs_args =
  txa_id :: "u32 option"
  txa_tx_slate_id :: "uuid option"
  txa_count :: "u32 option"

text \<open>The newest entries, as many as were asked for\<close>

definition last_txs :: "u32 option \<Rightarrow> 'a list \<Rightarrow> 'a list" where
  "last_txs number txs = drop (case number of Some c \<Rightarrow> length txs - unat c | None \<Rightarrow> 0) txs"

text \<open>The entry whose outputs are shown too: \<open>None\<close> when the search for its slate fails\<close>

definition chosen_tx :: "txs_args \<Rightarrow> tx_log_entry list \<Rightarrow> u32 option" where
  "chosen_tx args txs =
     (if txa_id args \<noteq> None then txa_id args
      else if txa_tx_slate_id args \<noteq> None then
        map_option txe_id (find (\<lambda>t. txe_tx_slate_id t = txa_tx_slate_id args) txs)
      else None)"

primrec show_proofs :: "tx_log_entry list \<Rightarrow> unit cmd" where
  "show_proofs [] = cret ()"
| "show_proofs (tx # txs) = cbind (show_it (ShownProof tx)) (\<lambda>_. show_proofs txs)"

definition cmd_txs :: "env \<Rightarrow> secret_key option \<Rightarrow> string \<Rightarrow> txs_args \<Rightarrow> unit cmd" where
  "cmd_txs E km account args =
     cbind (cread ap_updater_running) (\<lambda>updater_running.
     cbind (on_api_loop (api_node_height E km)) (\<lambda>res.
     cbind (on_api_loop (api_retrieve_txs E km True (txa_id args) (txa_tx_slate_id args) None)) (\<lambda>(validated, txs).
     let include_status = (txa_id args = None \<and> txa_tx_slate_id args = None);
         id' = chosen_tx args txs
     in cbind (show_it (ShownTxs account (nh_height res) (validated \<or> updater_running)
          (last_txs (txa_count args) txs) include_status)) (\<lambda>_.
        cbind (if txa_id args = None \<and> txa_tx_slate_id args \<noteq> None \<and> id' = None
               then show_it (ShownText ''Could not find a transaction matching given txid.'') else cret ()) (\<lambda>_.
        if id' \<noteq> None then
          cbind (on_api_loop (api_retrieve_outputs E km True False id')) (\<lambda>(_, outputs).
          cbind (show_it (ShownOutputs account (nh_height res) (validated \<or> updater_running) outputs)) (\<lambda>_.
            show_proofs txs))
        else cret ())))))"

section \<open>Posting, cancelling and scanning\<close>

record post_args =
  poa_input_file :: "string option"
  poa_input_slatepack_message :: "string option"
  poa_fluff :: bool

definition cmd_post :: "env \<Rightarrow> secret_key option \<Rightarrow> post_args \<Rightarrow> unit cmd" where
  "cmd_post E km args =
     cbind (parse_slatepack E km (poa_input_file args) (poa_input_slatepack_message args)) (\<lambda>(s, _).
       on_api (api_post_tx E km s (poa_fluff args)))"

record repost_args =
  rpa_id :: u32
  rpa_dump_file :: "string option"
  rpa_fluff :: bool

definition sig_is_blank :: "signature \<Rightarrow> bool" where
  "sig_is_blank s \<longleftrightarrow> list_all (\<lambda>b. b = 0) s"

text \<open>
  Nothing is posted again that is confirmed or not finalised, and a failure to post is only logged.
  The entry is looked up in the active account, the stored transaction in all.
\<close>

definition cmd_repost :: "env \<Rightarrow> text_ext \<Rightarrow> secret_key option \<Rightarrow> repost_args \<Rightarrow> unit cmd" where
  "cmd_repost E L km args =
     cbind (on_api (api_get_stored_tx E km (Some (rpa_id args)) None)) (\<lambda>stored. case stored of
       None \<Rightarrow> cret ()
     | Some s \<Rightarrow>
         cbind (on_api_loop (api_retrieve_txs E km True (Some (rpa_id args)) None None)) (\<lambda>(_, txs).
         case rpa_dump_file args of
           None \<Rightarrow> (case txs of
               [] \<Rightarrow> clift Panic
             | tx # _ \<Rightarrow>
                 if txe_confirmed tx then cret ()
                 else (case sl_tx s of
                     None \<Rightarrow> clift Panic
                   | Some t \<Rightarrow> (case t_kernels t of
                       [] \<Rightarrow> clift Panic
                     | k # _ \<Rightarrow>
                         if sig_is_blank (k_excess_sig k) then cret ()
                         else cbind (attempt (on_api (api_post_tx E km s (rpa_fluff args)))) (\<lambda>_. cret ()))))
         | Some f \<Rightarrow> (case sl_tx s of
               None \<Rightarrow> cbind (write_or_generic f '''') (\<lambda>_. clift Panic)
             | Some t \<Rightarrow> write_or_generic f (l_tx_json L t))))"

definition cmd_cancel :: "env \<Rightarrow> secret_key option \<Rightarrow> u32 option \<Rightarrow> uuid option \<Rightarrow> unit cmd" where
  "cmd_cancel E km tx_id tx_slate_id = on_api_loop (api_cancel_tx E km tx_id tx_slate_id)"

record check_args =
  cka_delete_unconfirmed :: bool
  cka_start_height :: "u64 option"
  cka_backwards_from_tip :: "u64 option"

definition cmd_scan :: "env \<Rightarrow> secret_key option \<Rightarrow> check_args \<Rightarrow> unit cmd" where
  "cmd_scan E km args =
     cbind (on_api_loop (api_node_height E km)) (\<lambda>nh.
       on_api_loop (api_scan E km
         (Some (scan_start (nh_height nh) (cka_backwards_from_tip args) (cka_start_height args)))
         (cka_delete_unconfirmed args)))"

section \<open>Addresses and payment proofs\<close>

definition cmd_address :: "env \<Rightarrow> string \<Rightarrow> secret_key option \<Rightarrow> unit cmd" where
  "cmd_address E account km =
     cbind (on_api (api_get_slatepack_address E km 0)) (\<lambda>a. show_it (ShownAddress account a))"

record proof_export_args =
  pea_output_file :: string
  pea_id :: "u32 option"
  pea_tx_slate_id :: "uuid option"

definition cmd_proof_export :: "env \<Rightarrow> text_ext \<Rightarrow> secret_key option \<Rightarrow> proof_export_args \<Rightarrow> unit cmd" where
  "cmd_proof_export E L km args =
     cbind (on_api_loop (api_retrieve_payment_proof E km True (pea_id args) (pea_tx_slate_id args))) (\<lambda>p.
       write_or_generic (pea_output_file args) (l_proof_json L p))"

text \<open>A directory is opened, but not read.\<close>

definition read_proof :: "text_ext \<Rightarrow> string \<Rightarrow> filesys \<Rightarrow> (cmd_error, payment_proof) res" where
  "read_proof L input_file fs =
     (if input_file \<in> set (fs_dirs fs) then Err (CT_GenericError input_file)
      else (case file_text fs input_file of
        None \<Rightarrow> Err (LibWallet (Txn (PaymentProofParsing input_file)))
      | Some t \<Rightarrow> ok_or (LibWallet (Txn (PaymentProofParsing t))) (l_proof_of_json L t)))"

definition cmd_proof_verify :: "env \<Rightarrow> text_ext \<Rightarrow> secret_key option \<Rightarrow> string \<Rightarrow> unit cmd" where
  "cmd_proof_verify E L km input_file =
     cbind (cread (\<lambda>a. pr_fs (ap_provider a))) (\<lambda>fs.
     cbind (clift (read_proof L input_file fs)) (\<lambda>proof'.
     cbind (on_api (api_verify_payment_proof E km proof')) (\<lambda>(iam_sender, iam_recipient).
     cbind (show_it (ShownText ''Payment proof's signatures are valid.'')) (\<lambda>_.
     cbind (if iam_sender then show_it (ShownText ''The proof's sender address belongs to this wallet.'')
            else cret ()) (\<lambda>_.
     cbind (if iam_recipient then show_it (ShownText ''The proof's recipient address belongs to this wallet.'')
            else cret ()) (\<lambda>_.
     if \<not> iam_recipient \<and> \<not> iam_sender then
       show_it (ShownText ''Neither the proof's sender nor recipient address belongs to this wallet.'')
     else cret ()))))))"

end
