(* ===== verification/Wallet_Args.thy ===== *)
theory Wallet_Args
  imports Commands
begin

text \<open>
  The command line (\<open>src/cmd/wallet_args.rs\<close>): the arguments of each command, what the user is asked
  for, and the command that is run. Splitting the line into arguments is done by \<open>clap\<close>; its matches
  are functions of the name. The texts of other libraries' errors are left out of the messages.
\<close>

section \<open>Arguments\<close>

record arg_matches =
  am_value_of :: "string \<Rightarrow> string option"
  am_is_present :: "string \<Rightarrow> bool"

datatype parse_error =
    PE_ArgumentError string
  | PE_IOError string
  | PE_WalletExists string
  | PE_CancelledError

fun show_parse_error :: "parse_error \<Rightarrow> string" where
  "show_parse_error (PE_ArgumentError s) = ''Invalid Arguments: '' @ s"
| "show_parse_error (PE_IOError s) = ''Parsing IO error: '' @ s"
| "show_parse_error (PE_WalletExists s) = ''Wallet configuration already exists: '' @ s"
| "show_parse_error PE_CancelledError = ''User Cancelled''"

type_synonym 'a pres = "(parse_error, 'a) res"

text \<open>Reading arguments may ask the user.\<close>

type_synonym 'a ask = "(console, parse_error, 'a) comp"

definition needed :: "string \<Rightarrow> parse_error" where
  "needed name = PE_ArgumentError (''Value for argument '' @ [CHR 0x27] @ name @ [CHR 0x27] @ '' is required in this context'')"

definition parse_required :: "arg_matches \<Rightarrow> string \<Rightarrow> string pres" where
  "parse_required args name = ok_or (needed name) (am_value_of args name)"

definition parse_optional :: "arg_matches \<Rightarrow> string \<Rightarrow> string option pres" where
  "parse_optional args name =
     (if \<not> am_is_present args name then Ok None
      else rbind (ok_or (needed name) (am_value_of args name)) (\<lambda>ar. Ok (Some ar)))"

text \<open>\<open>str::parse\<close> of an unsigned number: digits with an optional plus sign, within the width\<close>

definition digit_value :: "char \<Rightarrow> nat option" where
  "digit_value c = (if c \<in> set ''0123456789'' then Some (of_char c - 48) else None)"

fun digits_value :: "nat \<Rightarrow> string \<Rightarrow> nat option" where
  "digits_value acc [] = Some acc"
| "digits_value acc (c # cs) = (case digit_value c of
     Some d \<Rightarrow> digits_value (10 * acc + d) cs | None \<Rightarrow> None)"

definition parse_nat :: "nat \<Rightarrow> string \<Rightarrow> nat option" where
  "parse_nat bits s =
     (let t = (case s of c # cs \<Rightarrow> if c = CHR ''+'' then cs else s | [] \<Rightarrow> [])
      in if t = [] then None
         else (case digits_value 0 t of Some n \<Rightarrow> if n < 2 ^ bits then Some n else None | None \<Rightarrow> None))"

definition parse_u64 :: "string \<Rightarrow> string \<Rightarrow> u64 pres" where
  "parse_u64 arg name = (case parse_nat 64 arg of
     Some n \<Rightarrow> Ok (of_nat n)
   | None \<Rightarrow> Err (PE_ArgumentError (''Could not parse '' @ name @ '' as a whole number. e='')))"

definition parse_u64_or_none :: "string option \<Rightarrow> u64 option" where
  "parse_u64_or_none arg = (case arg of
     Some a \<Rightarrow> map_option of_nat (parse_nat 64 a)
   | None \<Rightarrow> None)"

text \<open>An optional number, cut to the width it is used with, as \<open>as\<close> does\<close>

definition parse_narrow :: "arg_matches \<Rightarrow> string \<Rightarrow> 'a::len word option pres" where
  "parse_narrow args name = (case am_value_of args name of
     None \<Rightarrow> Ok None
   | Some t \<Rightarrow> rbind (parse_u64 t name) (\<lambda>n. Ok (Some (ucast n))))"

definition parse_txid :: "text_ext \<Rightarrow> arg_matches \<Rightarrow> uuid option pres" where
  "parse_txid L args = (case am_value_of args ''txid'' of
     None \<Rightarrow> Ok None
   | Some t \<Rightarrow> (case l_uuid_of_str L t of
       Ok u \<Rightarrow> Ok (Some u)
     | Err e \<Rightarrow> Err (PE_ArgumentError (''Could not parse txid parameter. e='' @ e))
     | Panic \<Rightarrow> Panic))"

definition parse_amount :: "text_ext \<Rightarrow> string \<Rightarrow> u64 pres" where
  "parse_amount L t = (case l_amount_of_hr L t of
     Ok a \<Rightarrow> Ok a
   | Err e \<Rightarrow> Err (PE_ArgumentError (''Could not parse amount as a number with optional decimal point. e='' @ e))
   | Panic \<Rightarrow> Panic)"

definition parse_slate_version :: "arg_matches \<Rightarrow> u16 option pres" where
  "parse_slate_version args =
     (if am_is_present args ''slate_version''
      then rbind (parse_required args ''slate_version'') (\<lambda>v.
           rbind (parse_u64 v ''slate_version'') (\<lambda>n. Ok (Some (ucast n))))
      else Ok None)"

definition skip_tor_of :: "arg_matches \<Rightarrow> bool option" where
  "skip_tor_of args = (if am_is_present args ''manual'' then Some True else None)"

section \<open>Asking the user\<close>

definition tell :: "shown \<Rightarrow> unit ask" where
  "tell x = smodify (\<lambda>c. c\<lparr>cn_shown := cn_shown c @ [x]\<rparr>)"

text \<open>The lines typed are taken one by one until one of them settles the question, or they end.\<close>

definition with_typed :: "(typed list \<Rightarrow> 'a pres \<times> typed list) \<Rightarrow> 'a ask" where
  "with_typed f c = (case f (cn_typed c) of (r, ts) \<Rightarrow> (r, c\<lparr>cn_typed := ts\<rparr>))"

text \<open>Passwords are read without showing them; reading past the end is an error.\<close>

definition prompt_password_internal :: "(console, cmd_error, string) comp" where
  "prompt_password_internal c = (case cn_passwords c of
     [] \<Rightarrow> (Err (CT_GenericError ''unexpected end of file''), c)
   | p # ps \<Rightarrow> (Ok p, c\<lparr>cn_passwords := ps\<rparr>))"

definition prompt_password :: "string option \<Rightarrow> (console, cmd_error, string) comp" where
  "prompt_password password = (case password of
     None \<Rightarrow> prompt_password_internal
   | Some p \<Rightarrow> sret p)"

fun confirmed_password :: "string list \<Rightarrow> (cmd_error, string) res \<times> string list" where
  "confirmed_password (p # q # ps) = (if p = q then (Ok p, ps) else confirmed_password ps)"
| "confirmed_password _ = (Err (CT_GenericError ''unexpected end of file''), [])"

definition prompt_password_confirm :: "(console, cmd_error, string) comp" where
  "prompt_password_confirm c = (case confirmed_password (cn_passwords c) of
     (r, ps) \<Rightarrow> (r, c\<lparr>cn_passwords := ps\<rparr>))"

text \<open>A phrase that is valid, or the empty one at the end\<close>

fun recovery_phrase_typed :: "seed_ext \<Rightarrow> typed list \<Rightarrow> string pres \<times> typed list" where
  "recovery_phrase_typed S [] = (Ok '''', [])"
| "recovery_phrase_typed S (Interrupt # ts) = (Err PE_CancelledError, ts)"
| "recovery_phrase_typed S (OtherSignal # ts) = recovery_phrase_typed S ts"
| "recovery_phrase_typed S (Line l # ts) =
     (if is_Ok (validate_mnemonic S l) then (Ok l, ts) else recovery_phrase_typed S ts)"

definition prompt_recovery_phrase :: "seed_ext \<Rightarrow> string ask" where
  "prompt_recovery_phrase S = with_typed (recovery_phrase_typed S)"

fun slatepack_typed :: "pack_ext \<Rightarrow> typed list \<Rightarrow> string pres \<times> typed list" where
  "slatepack_typed G [] = (Ok '''', [])"
| "slatepack_typed G (Interrupt # ts) = (Err PE_CancelledError, ts)"
| "slatepack_typed G (OtherSignal # ts) = slatepack_typed G ts"
| "slatepack_typed G (Line l # ts) =
     (if is_Ok (armor_decode G (map of_char l)) then (Ok l, ts) else slatepack_typed G ts)"

definition prompt_slatepack :: "pack_ext \<Rightarrow> string ask" where
  "prompt_slatepack G = with_typed (slatepack_typed G)"

text \<open>\<open>str::trim\<close>, of the white space among the ASCII characters\<close>

definition is_space :: "char \<Rightarrow> bool" where
  "is_space c \<longleftrightarrow> (of_char c :: nat) \<in> {9, 10, 11, 12, 13, 32}"

definition trim :: "string \<Rightarrow> string" where
  "trim s = rev (dropWhile is_space (rev (dropWhile is_space s)))"

text \<open>Whether the amount was typed; \<open>False\<close> at the end of what was typed\<close>

fun pay_typed :: "string \<Rightarrow> typed list \<Rightarrow> bool pres \<times> typed list" where
  "pay_typed amount [] = (Ok False, [])"
| "pay_typed amount (Interrupt # ts) = (Err PE_CancelledError, ts)"
| "pay_typed amount (OtherSignal # ts) = pay_typed amount ts"
| "pay_typed amount (Line l # ts) =
     (if trim l = ''Q'' \<or> trim l = ''q'' then (Err PE_CancelledError, ts)
      else if trim l = amount then (Ok True, ts)
      else pay_typed amount ts)"

definition prompt_pay_invoice :: "ext \<Rightarrow> slate \<Rightarrow> string \<Rightarrow> bool ask" where
  "prompt_pay_invoice X s dest =
     (let amount = x_amount_hr X (sl_amount s) False
      in sbind (tell (ShownText amount)) (\<lambda>_.
         sbind (if dest \<noteq> '''' then tell (ShownText dest) else sret ()) (\<lambda>_.
           with_typed (pay_typed amount))))"

text \<open>A file that is there, or else the message that is asked for\<close>

definition given_file :: "arg_matches \<Rightarrow> string option ask" where
  "given_file args =
     (if am_is_present args ''input''
      then (case am_value_of args ''input'' of
          None \<Rightarrow> slift Panic
        | Some file \<Rightarrow> sbind (sread (\<lambda>c. file_text (pr_fs (ap_provider (cn_api c))) file)) (\<lambda>t.
            if t = None then sfail (PE_ArgumentError (''File '' @ file @ '' not found.'')) else sret (Some file)))
      else sret None)"

definition file_or_message :: "env \<Rightarrow> arg_matches \<Rightarrow> (string option \<times> string option) ask" where
  "file_or_message E args =
     sbind (given_file args) (\<lambda>input_file.
     sbind (if input_file = None then sbind (prompt_slatepack (e_pack E)) (\<lambda>m. sret (Some m)) else sret None)
       (\<lambda>input_slatepack_message. sret (input_file, input_slatepack_message)))"

section \<open>The arguments of each command\<close>

record tls_config =
  tls_certificate :: string
  tls_private_key :: string

record global_args =
  gla_account :: string
  gla_api_secret :: "string option"
  gla_node_api_secret :: "string option"
  gla_show_spent :: bool
  gla_password :: "string option"
  gla_tls_conf :: "tls_config option"

definition parse_global_args :: "text_ext \<Rightarrow> wallet_config \<Rightarrow> arg_matches \<Rightarrow> global_args pres" where
  "parse_global_args L config args =
     rbind (parse_required args ''account'') (\<lambda>account.
     rbind (case wc_tls_certificate_file config of
         None \<Rightarrow> Ok None
       | Some file \<Rightarrow> rbind (ok_or (PE_ArgumentError ''Private key for certificate is not set'')
             (wc_tls_certificate_key config)) (\<lambda>key.
           Ok (Some \<lparr>tls_certificate = file, tls_private_key = key\<rparr>))) (\<lambda>tls_conf.
       Ok \<lparr>gla_account = account, gla_api_secret = l_first_line L (wc_api_secret_path config),
           gla_node_api_secret = l_first_line L (wc_node_api_secret_path config),
           gla_show_spent = am_is_present args ''show_spent'', gla_password = am_value_of args ''pass'',
           gla_tls_conf = tls_conf\<rparr>))"

definition parse_init_args ::
  "env \<Rightarrow> wallet_config \<Rightarrow> global_args \<Rightarrow> arg_matches \<Rightarrow> (console, cmd_error, init_args) comp" where
  "parse_init_args E config g_args args =
     (let list_length = (if am_is_present args ''short_wordlist'' then 16 else 32)
      in sbind (if am_is_present args ''recover''
           then (\<lambda>c. case prompt_recovery_phrase (e_seed E) c of
               (Ok p, c') \<Rightarrow> (Ok (Some p), c')
             | (Err e, c') \<Rightarrow> (Err (CT_GenericError (show_parse_error e)), c')
             | (Panic, c') \<Rightarrow> (Panic, c'))
           else sret None) (\<lambda>recovery_phrase.
         sbind (smodify (\<lambda>c. c\<lparr>cn_shown := cn_shown c @ [ShownText (if recovery_phrase \<noteq> None
             then ''Please provide a new password for the recovered wallet''
             else ''Please enter a password for your new wallet'')]\<rparr>)) (\<lambda>_.
         sbind (case gla_password g_args of Some p \<Rightarrow> sret p | None \<Rightarrow> prompt_password_confirm) (\<lambda>password.
           sret \<lparr>ina_list_length = list_length, ina_password = password, ina_config = config,
                 ina_recovery_phrase = recovery_phrase, ina_restore = False\<rparr>))))"

definition parse_recover_args :: "global_args \<Rightarrow> (console, cmd_error, string) comp" where
  "parse_recover_args g_args = prompt_password (gla_password g_args)"

definition parse_scan_rewind_hash_args :: "arg_matches \<Rightarrow> view_wallet_scan_args pres" where
  "parse_scan_rewind_hash_args args =
     rbind (parse_required args ''rewind_hash'') (\<lambda>rewind_hash.
     let start_height = parse_u64_or_none (am_value_of args ''start_height'');
         backwards_from_tip = parse_u64_or_none (am_value_of args ''backwards_from_tip'')
     in if backwards_from_tip \<noteq> None \<and> start_height \<noteq> None
        then Err (PE_ArgumentError ''backwards_from tip and start_height cannot both be present'')
        else Ok \<lparr>vsa_rewind_hash = rewind_hash, vsa_start_height = start_height,
                 vsa_backwards_from_tip = backwards_from_tip\<rparr>)"

definition parse_account_args :: "arg_matches \<Rightarrow> string option" where
  "parse_account_args account_args = am_value_of account_args ''create''"

text \<open>The amount and whether it is the most there is\<close>

definition parse_send_amount :: "text_ext \<Rightarrow> string \<Rightarrow> (u64 \<times> bool) pres" where
  "parse_send_amount L t =
     (if map lower t = ''max'' then Ok (0, True) else rbind (parse_amount L t) (\<lambda>a. Ok (a, False)))"

text \<open>The recipient of a payment proof, unless none is wanted\<close>

definition payment_proof_address :: "arg_matches \<Rightarrow> string option \<Rightarrow> string option" where
  "payment_proof_address args dest = (case dest of
     Some a \<Rightarrow> if am_is_present args ''no_payment_proof'' then None else Some a
   | None \<Rightarrow> None)"

definition parse_send_args :: "text_ext \<Rightarrow> arg_matches \<Rightarrow> send_args ask" where
  "parse_send_args L args =
     sbind (slift (rbind (parse_required args ''amount'') (parse_send_amount L))) (\<lambda>(amount, spend_max).
     sbind (slift (rbind (parse_required args ''minimum_confirmations'') (\<lambda>t.
       parse_u64 t ''minimum_confirmations''))) (\<lambda>min_c.
     sbind (slift (parse_required args ''selection_strategy'')) (\<lambda>selection_strategy.
     let estimate = am_is_present args ''estimate_selection_strategies'';
         dest = am_value_of args ''dest''
     in sbind (slift (rbind (parse_required args ''change_outputs'') (\<lambda>t.
          parse_u64 t ''change_outputs''))) (\<lambda>change_outputs.
        sbind (slift (parse_slate_version args)) (\<lambda>target_slate_version.
        sbind (if dest = None \<and> \<not> estimate then tell (ShownText
            ''No recipient Slatepack address or provided address invalid. No payment proof will be requested.'')
          else sret ()) (\<lambda>_.
        sbind (slift (parse_optional args ''outfile'')) (\<lambda>outfile.
          sret \<lparr>sna_amount = amount,
                sna_amount_includes_fee = (am_is_present args ''amount_includes_fee'' \<or> spend_max),
                sna_use_max_amount = spend_max,
                sna_minimum_confirmations = min_c,
                sna_selection_strategy = selection_strategy,
                sna_estimate_selection_strategies = estimate,
                sna_late_lock = am_is_present args ''late_lock'',
                sna_dest = dest,
                sna_change_outputs = unat change_outputs,
                sna_fluff = am_is_present args ''fluff'',
                sna_max_outputs = 500,
                sna_target_slate_version = target_slate_version,
                sna_payment_proof_address = payment_proof_address args dest,
                sna_ttl_blocks = parse_u64_or_none (am_value_of args ''ttl_blocks''),
                sna_skip_tor = skip_tor_of args,
                sna_outfile = outfile,
                sna_bridge = am_value_of args ''bridge'',
                sna_slatepack_qr = am_is_present args ''slatepack_qr''\<rparr>)))))))"

definition parse_receive_args :: "env \<Rightarrow> arg_matches \<Rightarrow> receive_args ask" where
  "parse_receive_args E args =
     sbind (file_or_message E args) (\<lambda>(input_file, message).
     sbind (slift (parse_optional args ''outfile'')) (\<lambda>outfile.
     sbind (slift (parse_optional args ''bridge'')) (\<lambda>bridge.
       sret \<lparr>rca_input_file = input_file, rca_input_slatepack_message = message,
             rca_skip_tor = skip_tor_of args, rca_outfile = outfile, rca_bridge = bridge,
             rca_slatepack_qr = am_is_present args ''slatepack_qr''\<rparr>)))"

definition parse_unpack_args :: "env \<Rightarrow> arg_matches \<Rightarrow> receive_args ask" where
  "parse_unpack_args E args =
     sbind (file_or_message E args) (\<lambda>(input_file, message).
     sbind (slift (parse_optional args ''outfile'')) (\<lambda>outfile.
     sbind (slift (parse_optional args ''bridge'')) (\<lambda>bridge.
       sret \<lparr>rca_input_file = input_file, rca_input_slatepack_message = message,
             rca_skip_tor = skip_tor_of args, rca_outfile = outfile, rca_bridge = bridge,
             rca_slatepack_qr = am_is_present args ''slatepack_qr''\<rparr>)))"

definition parse_finalize_args :: "env \<Rightarrow> arg_matches \<Rightarrow> finalize_args ask" where
  "parse_finalize_args E args =
     sbind (file_or_message E args) (\<lambda>(input_file, message).
     sbind (slift (parse_optional args ''outfile'')) (\<lambda>outfile.
       sret \<lparr>fza_input_file = input_file, fza_input_slatepack_message = message,
             fza_fluff = am_is_present args ''fluff'', fza_nopost = am_is_present args ''nopost'',
             fza_outfile = outfile, fza_slatepack_qr = am_is_present args ''slatepack_qr''\<rparr>))"

definition parse_issue_invoice_args :: "text_ext \<Rightarrow> arg_matches \<Rightarrow> issue_invoice_args pres" where
  "parse_issue_invoice_args L args =
     rbind (parse_required args ''amount'') (\<lambda>t.
     rbind (parse_amount L t) (\<lambda>amount.
     rbind (parse_slate_version args) (\<lambda>target_slate_version.
     rbind (parse_optional args ''outfile'') (\<lambda>outfile.
       Ok \<lparr>iva_dest = am_value_of args ''dest'',
           iva_issue_args = \<lparr>iia_dest_acct_name = None, iia_amount = amount,
             iia_target_slate_version = target_slate_version\<rparr>,
           iva_outfile = outfile, iva_slatepack_qr = am_is_present args ''slatepack_qr''\<rparr>))))"

text \<open>The slate to pay, where a failure to get it is a generic error\<close>

definition pay_slate ::
  "env \<Rightarrow> secret_key option \<Rightarrow> arg_matches \<Rightarrow> (slate \<times> slatepack_address option) cmd" where
  "pay_slate E km args c = (case file_or_message E args c of
     (Ok (input_file, message), c') \<Rightarrow> parse_slatepack E km input_file message c'
   | (Err (PE_ArgumentError m), c') \<Rightarrow> cfail (CT_GenericError m) c'
   | (Err e, c') \<Rightarrow> cfail (CT_GenericError (show_parse_error e)) c'
   | (Panic, c') \<Rightarrow> clift Panic c')"

text \<open>The answer of the user to the question is dropped: only cancelling ends the command.\<close>

definition parse_process_invoice_args ::
  "env \<Rightarrow> arg_matches \<Rightarrow> bool \<Rightarrow> slate \<Rightarrow> slatepack_address option \<Rightarrow> process_invoice_args ask" where
  "parse_process_invoice_args E args prompt s ret_address =
     sbind (slift (rbind (parse_required args ''minimum_confirmations'') (\<lambda>t.
       parse_u64 t ''minimum_confirmations''))) (\<lambda>min_c.
     sbind (slift (parse_required args ''selection_strategy'')) (\<lambda>selection_strategy.
     sbind (if prompt then
         sbind (slift (case ret_address of
             Some a \<Rightarrow> (case address_to_string (e_ext E) a of Ok d \<Rightarrow> Ok d | _ \<Rightarrow> Panic)
           | None \<Rightarrow> Ok '''')) (\<lambda>dest.
         sbind (prompt_pay_invoice (e_ext E) s dest) (\<lambda>_. sret ()))
       else sret ()) (\<lambda>_.
     sbind (slift (parse_optional args ''outfile'')) (\<lambda>outfile.
     sbind (slift (parse_optional args ''bridge'')) (\<lambda>bridge.
       sret \<lparr>pia_minimum_confirmations = min_c, pia_selection_strategy = selection_strategy,
             pia_ret_address = map_option (address_display (e_ext E)) ret_address, pia_max_outputs = 500,
             pia_slate = s,
             pia_estimate_selection_strategies = am_is_present args ''estimate_selection_strategies'',
             pia_ttl_blocks = parse_u64_or_none (am_value_of args ''ttl_blocks''),
             pia_skip_tor = skip_tor_of args, pia_outfile = outfile, pia_bridge = bridge,
             pia_slatepack_qr = am_is_present args ''slatepack_qr''\<rparr>)))))"

definition parse_info_args :: "arg_matches \<Rightarrow> u64 pres" where
  "parse_info_args args =
     rbind (parse_required args ''minimum_confirmations'') (\<lambda>t. parse_u64 t ''minimum_confirmations'')"

definition parse_check_args :: "arg_matches \<Rightarrow> check_args pres" where
  "parse_check_args args =
     (let start_height = parse_u64_or_none (am_value_of args ''start_height'');
          backwards_from_tip = parse_u64_or_none (am_value_of args ''backwards_from_tip'')
      in if backwards_from_tip \<noteq> None \<and> start_height \<noteq> None
         then Err (PE_ArgumentError ''backwards_from tip and start_height cannot both be present'')
         else Ok \<lparr>cka_delete_unconfirmed = am_is_present args ''delete_unconfirmed'',
                  cka_start_height = start_height, cka_backwards_from_tip = backwards_from_tip\<rparr>)"

definition both_ids :: parse_error where
  "both_ids = PE_ArgumentError ''At most one of 'id' (-i) or 'txid' (-t) may be provided.''"

definition parse_txs_args :: "text_ext \<Rightarrow> arg_matches \<Rightarrow> txs_args pres" where
  "parse_txs_args L args =
     rbind (parse_narrow args ''id'') (\<lambda>tx_id.
     rbind (parse_txid L args) (\<lambda>tx_slate_id.
     if tx_id \<noteq> None \<and> tx_slate_id \<noteq> None then Err both_ids
     else rbind (parse_narrow args ''count'') (\<lambda>count.
       Ok \<lparr>txa_id = tx_id, txa_tx_slate_id = tx_slate_id, txa_count = count\<rparr>)))"

definition parse_post_args :: "env \<Rightarrow> arg_matches \<Rightarrow> post_args ask" where
  "parse_post_args E args =
     sbind (file_or_message E args) (\<lambda>(input_file, message).
       sret \<lparr>poa_input_file = input_file, poa_input_slatepack_message = message,
             poa_fluff = am_is_present args ''fluff''\<rparr>)"

definition parse_repost_args :: "arg_matches \<Rightarrow> repost_args pres" where
  "parse_repost_args args =
     rbind (parse_narrow args ''id'') (\<lambda>tx_id.
     rbind (unwrap tx_id) (\<lambda>i.
       Ok \<lparr>rpa_id = i, rpa_dump_file = am_value_of args ''dumpfile'',
           rpa_fluff = am_is_present args ''fluff''\<rparr>))"

definition parse_cancel_args :: "text_ext \<Rightarrow> arg_matches \<Rightarrow> (u32 option \<times> uuid option) pres" where
  "parse_cancel_args L args =
     rbind (parse_narrow args ''id'') (\<lambda>tx_id.
     rbind (parse_txid L args) (\<lambda>tx_slate_id.
     if (tx_id = None \<and> tx_slate_id = None) \<or> (tx_id \<noteq> None \<and> tx_slate_id \<noteq> None)
     then Err (PE_ArgumentError '''id' (-i) or 'txid' (-t) argument is required.'')
     else Ok (tx_id, tx_slate_id)))"

definition parse_export_proof_args :: "text_ext \<Rightarrow> arg_matches \<Rightarrow> proof_export_args pres" where
  "parse_export_proof_args L args =
     rbind (parse_required args ''output'') (\<lambda>output_file.
     rbind (parse_narrow args ''id'') (\<lambda>tx_id.
     rbind (parse_txid L args) (\<lambda>tx_slate_id.
     if tx_id \<noteq> None \<and> tx_slate_id \<noteq> None then Err both_ids
     else if tx_id = None \<and> tx_slate_id = None
     then Err (PE_ArgumentError ''Either 'id' (-i) or 'txid' (-t) must be provided.'')
     else Ok \<lparr>pea_output_file = output_file, pea_id = tx_id, pea_tx_slate_id = tx_slate_id\<rparr>)))"

definition parse_verify_proof_args :: "arg_matches \<Rightarrow> string pres" where
  "parse_verify_proof_args args = parse_required args ''input''"

section \<open>The command that is run\<close>

text \<open>What goes into a command besides its arguments: the files, libraries and what is drawn\<close>

record surroundings =
  su_env :: env
  su_text :: text_ext
  su_secret :: string
  su_cwd :: string
  su_chain :: chain_type
  su_testnet :: bool
  su_version :: "node_version_info option"
  su_draws :: "nat \<Rightarrow> draw \<times> uuid"
  su_seed :: bytes
  su_salts :: "nat \<Rightarrow> bytes"
  su_nonces :: "bytes \<times> bytes"
  su_server :: "string \<Rightarrow> unit cmd"

definition argued :: "'a pres \<Rightarrow> ('a \<Rightarrow> 'b cmd) \<Rightarrow> 'b cmd" where
  "argued r f = (case r of
     Ok a \<Rightarrow> f a
   | Err e \<Rightarrow> cfail (ArgumentError (show_parse_error e))
   | Panic \<Rightarrow> clift Panic)"

definition asked :: "'a ask \<Rightarrow> ('a \<Rightarrow> 'b cmd) \<Rightarrow> 'b cmd" where
  "asked m f c = (case m c of (r, c') \<Rightarrow> argued r f c')"

text \<open>The errors of asking for a password or a phrase, the only ones of these readers\<close>

definition show_ask_error :: "cmd_error \<Rightarrow> string" where
  "show_ask_error e = (case e of CT_GenericError s \<Rightarrow> ''Generic error: '' @ s | _ \<Rightarrow> '''')"

definition asked_generic :: "(console, cmd_error, 'a) comp \<Rightarrow> ('a \<Rightarrow> 'b cmd) \<Rightarrow> 'b cmd" where
  "asked_generic m f c = (case m c of
     (Ok a, c') \<Rightarrow> f a c'
   | (Err e, c') \<Rightarrow> cfail (ArgumentError (show_ask_error e)) c'
   | (Panic, c') \<Rightarrow> clift Panic c')"

definition pay :: "surroundings \<Rightarrow> secret_key option \<Rightarrow> tor_config \<Rightarrow> arg_matches \<Rightarrow> unit cmd" where
  "pay U km tc args =
     (let E = su_env U in
      cbind (pay_slate E km args) (\<lambda>(s, address).
      asked (parse_process_invoice_args E args True s address) (\<lambda>a.
        cmd_process_invoice E (su_text U) km (su_draws U) (su_seed U) tc a False)))"

text \<open>
  The commands that start a server, \<open>listen\<close>, \<open>owner_api\<close> and \<open>web\<close>, are a parameter. There is no
  test mode here: it would put the interface into its doctest mode.
\<close>

definition parse_and_execute ::
  "surroundings \<Rightarrow> secret_key option \<Rightarrow> wallet_config \<Rightarrow> tor_config \<Rightarrow> global_args \<Rightarrow>
     string \<times> arg_matches option \<Rightarrow> unit cmd" where
  "parse_and_execute U km wallet_config tc g sub =
     (let E = su_env U; L = su_text U; D = su_draws U; seed = su_seed U; account = gla_account g
      in case sub of
        (name, None) \<Rightarrow> cfail (ArgumentError ''Unknown wallet command, use 'grin-wallet help' for details'')
      | (name, Some args) \<Rightarrow>
          if name = ''init'' then
            asked_generic (parse_init_args E wallet_config g args) (\<lambda>a.
              cmd_init E (su_secret U) (su_cwd U) (su_chain U) (su_salts U) (su_nonces U) a False)
          else if name = ''recover'' then asked_generic (parse_recover_args g) (cmd_recover E)
          else if name \<in> {''listen'', ''owner_api'', ''web''} then su_server U name
          else if name = ''rewind_hash'' then cmd_rewind_hash E km
          else if name = ''scan_rewind_hash'' then
            argued (parse_scan_rewind_hash_args args) (cmd_scan_rewind_hash E)
          else if name = ''account'' then cmd_account E km (parse_account_args args)
          else if name = ''send'' then
            asked (parse_send_args L args) (\<lambda>a. cmd_send E L km D seed a tc False)
          else if name = ''receive'' then
            asked (parse_receive_args E args) (\<lambda>a.
              cmd_receive E L km account (su_version U) (fst (D 0)) seed a tc False)
          else if name = ''unpack'' then asked (parse_unpack_args E args) (cmd_unpack E km)
          else if name = ''finalize'' then
            asked (parse_finalize_args E args) (cmd_finalize E L km (D 0) seed)
          else if name = ''invoice'' then
            argued (parse_issue_invoice_args L args) (cmd_issue_invoice_tx E L km (D 0) seed)
          else if name = ''pay'' then pay U km tc args
          else if name = ''info'' then argued (parse_info_args args) (cmd_info E km account)
          else if name = ''outputs'' then cmd_outputs E km account (gla_show_spent g)
          else if name = ''txs'' then argued (parse_txs_args L args) (cmd_txs E km account)
          else if name = ''post'' then asked (parse_post_args E args) (cmd_post E km)
          else if name = ''repost'' then argued (parse_repost_args args) (cmd_repost E L km)
          else if name = ''cancel'' then
            argued (parse_cancel_args L args) (\<lambda>(tx_id, tx_slate_id). cmd_cancel E km tx_id tx_slate_id)
          else if name = ''export_proof'' then
            argued (parse_export_proof_args L args) (cmd_proof_export E L km)
          else if name = ''verify_proof'' then
            argued (parse_verify_proof_args args) (cmd_proof_verify E L km)
          else if name = ''address'' then cmd_address E account km
          else if name = ''scan'' then argued (parse_check_args args) (cmd_scan E km)
          else if name \<in> {''open'', ''close''} then cret ()
          else cfail (ArgumentError ''Unknown wallet command, use 'grin-wallet help' for details''))"

section \<open>Starting\<close>

text \<open>A path without the slashes at its end, its last component, and what is above it\<close>

definition unslashed :: "string \<Rightarrow> string" where
  "unslashed p = rev (dropWhile (\<lambda>c. c = CHR ''/'') (rev p))"

definition last_component :: "string \<Rightarrow> string" where
  "last_component p = rev (takeWhile (\<lambda>c. c \<noteq> CHR ''/'') (rev (unslashed p)))"

definition path_pop :: "string \<Rightarrow> string" where
  "path_pop p =
     (let q = rev (dropWhile (\<lambda>c. c \<noteq> CHR ''/'') (rev (unslashed p)))
      in if unslashed q = [] then take 1 q else unslashed q)"

definition top_level_wallet_dir :: "string \<Rightarrow> string" where
  "top_level_wallet_dir d = (if last_component d = GRIN_WALLET_DIR then path_pop d else d)"

definition effective_config :: "arg_matches \<Rightarrow> wallet_config \<Rightarrow> wallet_config" where
  "effective_config wallet_args config =
     (let c = (case am_value_of wallet_args ''top_level_dir'' of
           Some d \<Rightarrow> config\<lparr>wc_data_file_dir := d\<rparr> | None \<Rightarrow> config)
      in case am_value_of wallet_args ''api_server_address'' of
           Some sa \<Rightarrow> c\<lparr>wc_check_node_api_http_addr := sa\<rparr> | None \<Rightarrow> c)"

definition opens_wallet :: "arg_matches \<Rightarrow> string \<times> arg_matches option \<Rightarrow> provider \<Rightarrow> bool" where
  "opens_wallet wallet_args sub p =
     (if fst sub = ''init'' \<and> snd sub \<noteq> None then False
      else if fst sub = ''recover'' \<or> fst sub = ''cli'' then False
      else if fst sub = ''owner_api'' then am_is_present wallet_args ''pass'' \<and> wallet_exists p
      else True)"

definition opened_for_command ::
  "surroundings \<Rightarrow> global_args \<Rightarrow> arg_matches \<Rightarrow> secret_key option cmd" where
  "opened_for_command U g wallet_args =
     cbind (\<lambda>c. case prompt_password (gla_password g) c of (r, c') \<Rightarrow> Some (r, c')) (\<lambda>password.
     cbind (on_api (api_open_wallet (su_env U) (su_testnet U) password None)) (\<lambda>mask.
     cbind (case am_value_of wallet_args ''account'' of
         Some account \<Rightarrow> on_api (on_inst (set_parent_key_id_by_name account))
       | None \<Rightarrow> cret ()) (\<lambda>_. cret mask)))"

text \<open>
  A run of the program on the files it finds: the wallet of the directory is opened, unless the
  command does without, and the command is run. The loop of commands, \<open>cli\<close>, is a parameter.
\<close>

definition wallet_command ::
  "surroundings \<Rightarrow> unit cmd \<Rightarrow> arg_matches \<Rightarrow> string \<times> arg_matches option \<Rightarrow> global_config \<Rightarrow>
     filesys \<Rightarrow> (string \<Rightarrow> db \<times> (string \<Rightarrow> string option)) \<Rightarrow> typed list \<Rightarrow> string list \<Rightarrow>
     ((cmd_error, string) res \<times> console) option" where
  "wallet_command U command_loop wallet_args sub config fs disk typed passwords =
     (let c1 = effective_config wallet_args (cm_wallet (gc_members config));
          c2 = c1\<lparr>wc_data_file_dir := top_level_wallet_dir (wc_data_file_dir c1)\<rparr>;
          p = (provider_new fs disk)\<lparr>pr_data_dir := wc_data_file_dir c2\<rparr>;
          console = \<lparr>cn_api = owner_new p (gc_config_file_path config), cn_typed = typed,
            cn_passwords = passwords, cn_shown = []\<rparr>
      in argued (parse_global_args (su_text U) c1 wallet_args) (\<lambda>g.
         cbind (if opens_wallet wallet_args sub p then opened_for_command U g wallet_args else cret None) (\<lambda>km.
         cbind (if fst sub = ''cli'' \<and> snd sub \<noteq> None then command_loop
                else parse_and_execute U km c2 (config_tor config) g sub) (\<lambda>_.
           cret (fst sub)))) console)"

end
