(* ===== verification/Commands_Props.thy ===== *)
theory Commands_Props
  imports Commands Api_Props
begin

text \<open>
  What the commands leave behind: the file a slate is handed out in and what the other party reads
  from it, and the coins when that file cannot be made.
\<close>

section \<open>Steps of a command\<close>

lemma cbind_eq_Ok:
  "cbind m f c = Some (Ok b, c'') \<longleftrightarrow> (\<exists>a c'. m c = Some (Ok a, c') \<and> f a c' = Some (Ok b, c''))"
  by (auto simp: cbind_def split: option.splits prod.splits res.splits)

lemma cbind_simps:
  "m c = Some (Ok a, c') \<Longrightarrow> cbind m f c = f a c'"
  "m c = Some (Err e, c') \<Longrightarrow> cbind m f c = Some (Err e, c')"
  by (simp_all add: cbind_def)

lemma lib_err_eq_Ok: "lib_err r = Ok a \<longleftrightarrow> r = Ok a"
  by (cases r) (simp_all add: lib_err_def)

lemma on_api_eq_Ok:
  "on_api m c = Some (Ok x, c') \<longleftrightarrow> (\<exists>a. m (cn_api c) = (Ok x, a) \<and> c' = c\<lparr>cn_api := a\<rparr>)"
  by (cases "m (cn_api c)") (auto simp: on_api_def on_api_loop_def lib_err_eq_Ok)

lemma cop_eq_Ok:
  "cret x c = Some (Ok y, c') \<longleftrightarrow> y = x \<and> c' = c"
  "cread g c = Some (Ok z, c') \<longleftrightarrow> z = g (cn_api c) \<and> c' = c"
  "show_it i c = Some (Ok u, c') \<longleftrightarrow> c' = c\<lparr>cn_shown := cn_shown c @ [i]\<rparr>"
  by (auto simp: cret_def cread_def show_it_def)

lemmas cop_Ok = cbind_eq_Ok on_api_eq_Ok cop_eq_Ok

section \<open>What a call leaves of the provider\<close>

text \<open>An operation on the wallet changes nothing but the wallet.\<close>

definition same_but_wallet :: "api \<Rightarrow> api \<Rightarrow> bool" where
  "same_but_wallet a b \<longleftrightarrow> pr_fs (ap_provider b) = pr_fs (ap_provider a) \<and>
     pr_data_dir (ap_provider b) = pr_data_dir (ap_provider a)"

lemma on_inst_provider: "on_inst m a = (r, b) \<Longrightarrow> same_but_wallet a b"
  by (auto simp: same_but_wallet_def on_inst_def on_provider_def on_wallet_def split: prod.splits option.splits)

lemma slate_file_same: "same_but_wallet a b \<Longrightarrow> slate_file E b s f = slate_file E a s f"
  by (simp add: same_but_wallet_def slate_file_def api_get_top_level_directory_def get_top_level_directory_def)

lemma on_file_system_eq:
  "on_file_system e m a = (r, b) \<Longrightarrow> \<exists>r' fs. m (pr_fs (ap_provider a)) = (r', fs) \<and>
     b = a\<lparr>ap_provider := (ap_provider a)\<lparr>pr_fs := fs\<rparr>\<rparr> \<and> (r = Ok x \<longleftrightarrow> r' = Ok x) \<and> (r' = Err () \<longrightarrow> r = Err e)"
  by (auto simp: on_file_system_def on_provider_def with_files_def or_io_def split: prod.splits res.splits)

lemma write_textD:
  assumes "on_file_system e (write_text f t) a = (Ok (), b)"
  shows "file_text (pr_fs (ap_provider b)) f = Some t" "open_inst b = open_inst a"
proof -
  from on_file_system_eq [OF assms, where x = "()"] obtain fs where
    fs: "write_text f t (pr_fs (ap_provider a)) = (Ok (), fs)" "b = a\<lparr>ap_provider := (ap_provider a)\<lparr>pr_fs := fs\<rparr>\<rparr>"
    by auto
  have "file_text fs f = Some t" using fs(1) by (auto simp: write_text_def file_text_update split: if_splits)
  then show "file_text (pr_fs (ap_provider b)) f = Some t" "open_inst b = open_inst a"
    by (simp_all add: fs(2) open_inst_def)
qed

text \<open>Making a directory quietly leaves the wallet, and the directories and files there are.\<close>

lemma quiet_dir:
  assumes "quietly (on_file_system e (create_dir_all d)) a = (r, b)"
  shows "r = Ok ()" "open_inst b = open_inst a" "pr_data_dir (ap_provider b) = pr_data_dir (ap_provider a)"
proof -
  obtain r1 b1 where 1: "on_file_system e (create_dir_all d) a = (r1, b1)" by fastforce
  from on_file_system_eq [OF this, where x = "()"] obtain r2 fs where
    2: "create_dir_all d (pr_fs (ap_provider a)) = (r2, fs)" "b1 = a\<lparr>ap_provider := (ap_provider a)\<lparr>pr_fs := fs\<rparr>\<rparr>"
    "r1 = Ok () \<longleftrightarrow> r2 = Ok ()" "r2 = Err () \<longrightarrow> r1 = Err e" by auto
  from 2(1) have "r2 = Ok () \<or> r2 = Err ()" by (auto simp: create_dir_all_def split: if_splits)
  with 2(3,4) have "r1 = Ok () \<or> r1 = Err e" by auto
  with assms 1 have "r = Ok ()" "b = b1" by (auto simp: quietly_def)
  then show "r = Ok ()" "open_inst b = open_inst a" "pr_data_dir (ap_provider b) = pr_data_dir (ap_provider a)"
    by (simp_all add: 2(2) open_inst_def)
qed

section \<open>Handing out a slate\<close>

lemma output_slatepack_Ok:
  assumes "output_slatepack E L seed km s dest out lock fin qr c = Some (Ok (), c1)"
  obtains message w where "open_inst (cn_api c) = Some w"
    "fst (create_slatepack_message (e_ext E) (e_ser E) (e_pack E) seed km s (Some 0)
       (case dest of Some a \<Rightarrow> [a] | None \<Rightarrow> []) w) = Ok message"
    "file_text (pr_fs (ap_provider (cn_api c1))) (snd (slate_file E (cn_api c) s out)) = Some message"
    "ShownMessage message \<in> set (cn_shown c1)"
    "lock \<longrightarrow> (\<exists>w1 w2. tx_lock_outputs (e_ext E) (e_node E) (e_now E) km s w1 = (Ok (), w2) \<and> open_inst (cn_api c1) = Some w2)"
proof -
  let ?dir = "fst (slate_file E (cn_api c) s out)" and ?f = "snd (slate_file E (cn_api c) s out)"
  obtain message a1 where 1: "api_create_slatepack_message E seed km s (Some 0)
      (case dest of Some a \<Rightarrow> [a] | None \<Rightarrow> []) (cn_api c) = (Ok message, a1)"
    and rest: "cbind (cread (\<lambda>a. slate_file E a s out)) (\<lambda>(slate_dir, out_file_name).
     cbind (on_api (quietly (on_file_system (Lib (IO ''directory'')) (create_dir_all slate_dir)))) (\<lambda>_.
     cbind (if lock then on_api (api_tx_lock_outputs E km s) else cret ()) (\<lambda>_.
     cbind (show_it (ShownText out_file_name)) (\<lambda>_.
     cbind (on_api (on_file_system (Lib (IO ''file'')) (write_text out_file_name message))) (\<lambda>_.
     cbind (show_it (ShownText (if fin then ''Slatepack data follows.''
       else ''Slatepack data follows. Please provide this output to the other party''))) (\<lambda>_.
     cbind (show_it (ShownMessage message)) (\<lambda>_.
     cbind (show_it (ShownText out_file_name)) (\<lambda>_.
     cbind (case (if qr then l_qr L message else None) of
         Some q \<Rightarrow> show_it (ShownText q) | None \<Rightarrow> cret ()) (\<lambda>_.
       show_it (ShownText (if dest \<noteq> None then ''The slatepack data is encrypted for the recipient only''
         else ''The slatepack data is NOT encrypted'')))))))))))
     (c\<lparr>cn_api := a1\<rparr>) = Some (Ok (), c1)"
    using assms unfolding output_slatepack_def cbind_eq_Ok [of "on_api _"] on_api_eq_Ok by blast
  have same: "slate_file E a1 s out = (?dir, ?f)"
    using slate_file_same [OF on_inst_provider [OF 1 [unfolded api_create_slatepack_message_def]]] by simp
  obtain a2 c3 a4 where 2: "quietly (on_file_system (Lib (IO ''directory'')) (create_dir_all ?dir)) a1 = (Ok (), a2)"
    and 3: "(if lock then on_api (api_tx_lock_outputs E km s) else cret ()) (c\<lparr>cn_api := a2\<rparr>) = Some (Ok (), c3)"
    and 4: "on_file_system (Lib (IO ''file'')) (write_text ?f message) (cn_api c3) = (Ok (), a4)"
    and 5: "cn_api c1 = a4" "ShownMessage message \<in> set (cn_shown c1)"
    using rest by (auto simp: cop_Ok same split_beta split: option.splits)
  obtain w w' where w: "open_inst (cn_api c) = Some w" "create_slatepack_message (e_ext E) (e_ser E) (e_pack E) seed km s (Some 0)
      (case dest of Some a \<Rightarrow> [a] | None \<Rightarrow> []) w = (Ok message, w')"
    using on_inst_OkD [OF 1 [unfolded api_create_slatepack_message_def]] by auto
  have "\<exists>w1 w2. tx_lock_outputs (e_ext E) (e_node E) (e_now E) km s w1 = (Ok (), w2) \<and> open_inst (cn_api c1) = Some w2"
    if lock
    using 3 that write_textD(2) [OF 4] 5(1)
    by (auto simp: cop_Ok api_tx_lock_outputs_def dest!: on_inst_OkD)
  then show ?thesis
    using w write_textD(1) [OF 4] 5 by (intro that [of w message]) simp_all
qed

text \<open>What \<open>parse_slatepack\<close> makes of a file with a message of another wallet\<close>

lemma file_is_parsed:
  assumes "file_text (pr_fs (ap_provider (cn_api c))) f = Some t"
    and "api_get_slatepack_secret_key E km 0 (cn_api c) = (Ok sk, cn_api c)"
    and "deser_slatepack (e_ext E) (e_pack E) (no_packer_args\<lparr>spa_dec_key := Some sk\<rparr>) (map of_char t) True = Ok sp"
    and "slate_of_slatepack (e_ext E) (e_ser E) sp = Ok s"
    and "length t \<le> MAX_FIXED_READ" "length t \<le> unat (slatepack_max_size (e_ext E))"
  shows "parse_slatepack E km (Some f) None c = Some (Ok (s, sp_sender sp), c)"
proof -
  have "15 \<le> length t"
  proof (rule ccontr)
    assume "\<not> 15 \<le> length t"
    then have "(of_nat (length t) :: u64) < slatepack_min_size"
      by (simp add: word_less_nat_alt slatepack_min_size_def HEADER_def unsigned_of_nat take_bit_nat_eq_self)
    with assms(3) show False by (simp add: deser_slatepack_def)
  qed
  then have "\<not> (of_nat (length t) < slatepack_min_size \<or> of_nat (length t) > slatepack_max_size (e_ext E))"
    using assms(5,6) by (simp add: word_less_nat_alt slatepack_min_size_def HEADER_def MAX_FIXED_READ_def
        unsigned_of_nat take_bit_nat_eq_self)
  then have "get_slatepack_file_contents E f (cn_api c) = Ok (map of_char t)"
    by (simp add: get_slatepack_file_contents_def assms(1))
  then have "file_get_tx E (no_packer_args\<lparr>spa_dec_key := Some sk\<rparr>) f (cn_api c) = Ok s"
    "file_get_slatepack E (no_packer_args\<lparr>spa_dec_key := Some sk\<rparr>) f True (cn_api c) = Ok sp"
    using assms(3,4) by (simp_all add: file_get_tx_def file_get_slatepack_def)
  then show ?thesis
    using assms(2) by (simp add: parse_slatepack_def cbind_def on_api_def on_api_loop_def lib_err_def sbind_def comp_defs
        cret_def Let_def)
qed

section \<open>The slate that was handed out is read back\<close>

lemma unchanged_inst:
  assumes "open_inst a = Some w" "m w = (r, w)"
  shows "on_inst m a = (r, a)"
  using assms by (auto simp: on_inst_def on_provider_def on_wallet_def open_inst_def)

lemma decrypts_with_own_key:
  assumes "age_ok X (age_ext.truncate G)" "plain_ok X (g_str_of_utf8 G) plain"
    and "sealed X (age_ext.truncate G) seed recips plain sp"
    and "get_slatepack_secret_key X km i w = (Ok sk, w)" "has_key_for X (age_ext.truncate G) km w recips [i]"
  shows "try_decrypt_payload X (age_ext.truncate G) (g_str_of_utf8 G) (Some sk) sp = Ok plain"
proof -
  obtain key r where "decryption_identity X (age_ext.truncate G) sk = Ok key"
    "age_recipient X (age_ext.truncate G) (address_of_secret X sk) = Ok r" "Ok r \<in> age_recipient X (age_ext.truncate G) ` set recips"
    using assms(4,5) by (auto simp: is_Ok_ex) (metis imageI)
  then show ?thesis using decrypt_sealed [OF assms(1-3)] by simp
qed

text \<open>C38: when a command has handed out a slate, the file it named holds a message
  from which every wallet that has the file, and for an encrypted one the key of the recipient, gets
  the slate back in the version 4 form the sender wrote, in which only kernel arguments may be lost, with
  the sender's address to answer to; reading changes nothing. (Message and weight limit as for
  messages; the libraries invert themselves.)\<close>

theorem slate_file_is_read_back:
  assumes "pack_ok (e_ext E) (e_pack E)" "age_ok (e_ext E) (age_ext.truncate (e_pack E))"
    and "\<forall>sk. address_ok (e_ext E) (address_of_secret (e_ext E) sk)"
    and "output_slatepack E L seed km s dest out lock fin qr c = Some (Ok (), c1)" "open_inst (cn_api c) = Some w"
    and "slate_to_v4 s = Ok v" "slate_bin_ok (e_ser E) v"
    and "slate_of_v4 (e_ext E) (v\<lparr>v4_feat_args := bin_feat_args v\<rparr>) = Ok s'"
    and "f = snd (slate_file E (cn_api c) s out)"
    and "\<forall>t. file_text (pr_fs (ap_provider (cn_api c1))) f = Some t \<longrightarrow>
        length t \<le> MAX_FIXED_READ \<and> length t \<le> unat (slatepack_max_size (e_ext E))"
    and "file_text (pr_fs (ap_provider (cn_api c2))) f = file_text (pr_fs (ap_provider (cn_api c1))) f"
    and "open_inst (cn_api c2) = Some w2" "get_slatepack_secret_key (e_ext E) km2 0 w2 = (Ok sk, w2)"
    and "case dest of None \<Rightarrow> True
      | Some a \<Rightarrow> has_key_for (e_ext E) (age_ext.truncate (e_pack E)) km2 w2 [a] [0]"
  shows "parse_slatepack E km2 (Some f) None c2 =
    Some (Ok (s', Some (the_Ok (fst (get_slatepack_address (e_ext E) km 0 w)))), c2)"
proof -
  let ?recips = "case dest of Some a \<Rightarrow> [a] | None \<Rightarrow> []"
  let ?plain = "sent_plain (e_ext E) (e_ser E) km v (Some 0) w"
  obtain t w' where create: "create_slatepack_message (e_ext E) (e_ser E) (e_pack E) seed km s (Some 0) ?recips w = (Ok t, w')"
    and t: "file_text (pr_fs (ap_provider (cn_api c1))) f = Some t"
    using output_slatepack_Ok [OF assms(4)] assms(5,9) by (metis option.inject prod.collapse)
  have size: "length t \<le> MAX_FIXED_READ" "length t \<le> unat (slatepack_max_size (e_ext E))"
    using assms(10) t by auto
  obtain sp where plain: "plain_ok (e_ext E) (g_str_of_utf8 (e_pack E)) ?plain"
    and sp: "if ?recips = [] then sp = ?plain
      else sealed (e_ext E) (age_ext.truncate (e_pack E)) seed ?recips ?plain (sp\<lparr>sp_encrypted_meta := default_enc_metadata\<rparr>)"
    and read: "\<forall>args decrypt. deser_slatepack (e_ext E) (e_pack E) args (map of_char t) decrypt =
      (if decrypt then try_decrypt_payload (e_ext E) (age_ext.truncate (e_pack E)) (g_str_of_utf8 (e_pack E)) (spa_dec_key args)
          (sp\<lparr>sp_encrypted_meta := default_enc_metadata\<rparr>)
       else Ok (sp\<lparr>sp_encrypted_meta := default_enc_metadata\<rparr>))"
    by (rule sent_is_read [OF assms(1,3) create assms(6) size])
  have opened: "deser_slatepack (e_ext E) (e_pack E) (no_packer_args\<lparr>spa_dec_key := Some sk\<rparr>) (map of_char t) True = Ok ?plain"
  proof (cases dest)
    case None
    then show ?thesis using sp by (simp add: read plain_decrypts [OF plain])
  next
    case (Some a)
    then show ?thesis
      using decrypts_with_own_key [OF assms(2) plain _ assms(13), of seed "[a]"] sp assms(14) by (simp add: read)
  qed
  have "api_get_slatepack_secret_key E km2 0 (cn_api c2) = (Ok sk, cn_api c2)"
    unfolding api_get_slatepack_secret_key_def using assms(12,13) by (intro unchanged_inst)
  from file_is_parsed [OF _ this opened _ size, of f] show ?thesis
    using t assms(8,11) by (simp add: sent_slate [OF assms(7)]) (simp add: sent_plain_def)
qed

section \<open>A file that cannot be made\<close>

text \<open>C39: when the file for a slate cannot be made, since it is a directory
  or its directory is missing, the command ends in an error after it has locked the coins: the
  wallet is left as locking left it, and the message that the other party needs is neither written
  nor shown.\<close>

theorem failed_output_keeps_coins_locked:
  assumes "open_inst (cn_api c) = Some w"
    and "create_slatepack_message (e_ext E) (e_ser E) (e_pack E) seed km s (Some 0)
       (case dest of Some a \<Rightarrow> [a] | None \<Rightarrow> []) w = (Ok message, w)"
    and "tx_lock_outputs (e_ext E) (e_node E) (e_now E) km s w = (Ok (), w1)"
    and "dir = fst (slate_file E (cn_api c) s (Some f))"
    and "f \<in> set (fs_dirs (pr_fs (ap_provider (cn_api c)))) \<or>
      parent_dir f \<notin> set (fs_dirs (pr_fs (ap_provider (cn_api c)))) \<union> set (path_prefixes dir)"
  shows "\<exists>c1. output_slatepack E L seed km s dest (Some f) True fin qr c = Some (Err (LibWallet (Lib (IO ''file''))), c1) \<and>
    open_inst (cn_api c1) = Some w1 \<and> cn_shown c1 = cn_shown c @ [ShownText f] \<and>
    file_text (pr_fs (ap_provider (cn_api c1))) = file_text (pr_fs (ap_provider (cn_api c)))"
proof -
  let ?a = "cn_api c"
  have made: "api_create_slatepack_message E seed km s (Some 0) (case dest of Some a \<Rightarrow> [a] | None \<Rightarrow> []) ?a = (Ok message, ?a)"
    unfolding api_create_slatepack_message_def using assms(1,2) by (intro unchanged_inst)
  have name: "slate_file E ?a s (Some f) = (dir, f)" by (simp add: assms(4) slate_file_def Let_def)
  obtain r2 fs where fs: "create_dir_all dir (pr_fs (ap_provider ?a)) = (r2, fs)" by fastforce
  define a2 where "a2 = ?a\<lparr>ap_provider := (ap_provider ?a)\<lparr>pr_fs := fs\<rparr>\<rparr>"
  have dirs: "quietly (on_file_system (Lib (IO ''directory'')) (create_dir_all dir)) ?a = (Ok (), a2)"
    using fs by (auto simp: quietly_def on_file_system_def on_provider_def with_files_def or_io_def a2_def
        create_dir_all_def split: if_splits)
  have "set (fs_dirs fs) \<subseteq> set (fs_dirs (pr_fs (ap_provider ?a))) \<union> set (path_prefixes dir)"
    "set (fs_dirs (pr_fs (ap_provider ?a))) \<subseteq> set (fs_dirs fs)" "file_text fs = file_text (pr_fs (ap_provider ?a))"
    using fs by (auto simp: create_dir_all_def file_text_dirs fun_eq_iff split: if_splits)
  with assms(5) have fails: "write_text f message fs = (Err (), fs)" and files: "file_text fs = file_text (pr_fs (ap_provider ?a))"
    by (auto simp: write_text_def)
  obtain d where d: "pr_backend (ap_provider ?a) = Some (d, w)" using assms(1) by (auto simp: open_inst_def)
  define a3 where "a3 = a2\<lparr>ap_provider := (ap_provider a2)\<lparr>pr_backend := Some (d, w1)\<rparr>\<rparr>"
  have lock: "api_tx_lock_outputs E km s a2 = (Ok (), a3)"
    using assms(3) d by (simp add: api_tx_lock_outputs_def on_inst_def on_provider_def on_wallet_def a2_def a3_def)
  have a3: "open_inst a3 = Some w1" "pr_fs (ap_provider a3) = fs" by (simp_all add: a3_def a2_def open_inst_def)
  have wrote: "on_file_system (Lib (IO ''file'')) (write_text f message) a3 = (Err (Lib (IO ''file'')), a3)"
    using fails by (simp add: on_file_system_def on_provider_def with_files_def or_io_def a3(2))
  define c1 where "c1 = c\<lparr>cn_api := a3, cn_shown := cn_shown c @ [ShownText f]\<rparr>"
  have "output_slatepack E L seed km s dest (Some f) True fin qr c = Some (Err (LibWallet (Lib (IO ''file''))), c1)"
    by (simp add: output_slatepack_def cbind_def cread_def show_it_def on_api_def on_api_loop_def lib_err_def
        made name dirs lock wrote c1_def)
  then show ?thesis using a3 files by (auto simp: c1_def)
qed

section \<open>Samples\<close>

text \<open>A console of a wallet, with the libraries that pack messages\<close>

definition packing_env :: env where
  "packing_env = (env_with (tor_to received_slate))\<lparr>e_ext := packing_ext\<rparr>"

definition console_of :: "wallet \<Rightarrow> console" where
  "console_of w = \<lparr>cn_api = api_of w, cn_typed = [], cn_passwords = [], cn_shown = []\<rparr>"

definition plain_text :: text_ext where
  "plain_text = \<lparr>l_qr = (\<lambda>_. None), l_tx_json = (\<lambda>_. ''tx''), l_proof_json = (\<lambda>_. ''proof''), l_proof_of_json = (\<lambda>_. None),
     l_amount_of_hr = (\<lambda>s. if s = ''4'' then Ok 4 else Err ''amount''), l_uuid_of_str = (\<lambda>s. Ok (map of_char s)),
     l_first_line = (\<lambda>s. s)\<rparr>"

lemma packing_env_simps [simp]:
  "e_ext packing_env = packing_ext" "e_ser packing_env = sample_ser" "e_pack packing_env = sample_pack"
  "e_node packing_env = quiet_node" "e_now packing_env = 0"
  by (simp_all add: packing_env_def)

lemma console_of_simps [simp]:
  "open_inst (cn_api (console_of w)) = Some w" "cn_shown (console_of w) = []"
  "pr_fs (ap_provider (cn_api (console_of w))) = \<lparr>fs_files = [(''/w/grin-wallet.toml'', ''a'')], fs_dirs = [''/w'']\<rparr>"
  by (simp_all add: console_of_def api_of_def owner_new_def open_inst_def)

text \<open>A message is made when its Slatepack can be put into bytes.\<close>

lemma message_is_made:
  assumes "get_slatepack_address packing_ext None 0 w = (Ok a, w)"
    and "create_slatepack packing_ext sample_ser sample_pack []
      \<lparr>spa_sender = Some a, spa_recipients = recips, spa_dec_key = None\<rparr> s = Ok sp"
    and "put_slatepack packing_ext sp = Ok b"
  shows "\<exists>t. create_slatepack_message packing_ext sample_ser sample_pack [] None s (Some 0) recips w = (Ok t, w) \<and>
    length t \<le> 62 + 4 * length b"
  using sample_text_length [OF _ assms(3)] assms
  by (auto simp: create_slatepack_message_def sbind_def comp_defs armor_slatepack_def armor_encode_def)

lemma written_text:
  assumes "parent_dir f \<in> set (fs_dirs fs)" "f \<notin> set (fs_dirs fs)"
  shows "write_text f t fs = (Ok (), fs\<lparr>fs_files := AList.update f t (fs_files fs)\<rparr>)"
  using assms by (simp add: write_text_def)

text \<open>The wallet that has made a slate locks its coins, but cannot write to a directory.\<close>

definition made_text_locked :: "unit result \<times> wallet" where
  "made_text_locked = tx_lock_outputs packing_ext quiet_node 0 None made_slate sending_wallet"

theorem failed_output_keeps_coins_locked_witness:
  "\<exists>c1. output_slatepack packing_env plain_text [] None made_slate None (Some ''/x/f'') True False False
      (console_of sending_wallet) = Some (Err (LibWallet (Lib (IO ''file''))), c1) \<and>
    open_inst (cn_api c1) = Some (snd made_text_locked) \<and> cn_shown c1 = [ShownText ''/x/f''] \<and>
    map out_status (tbl_vals (db_outputs (w_db (snd made_text_locked)))) \<noteq>
      map out_status (tbl_vals (db_outputs (w_db sending_wallet)))"
proof -
  have "fst made_text_locked = Ok ()" by code_simp
  then have lock: "tx_lock_outputs (e_ext packing_env) (e_node packing_env) (e_now packing_env) None made_slate sending_wallet =
      (Ok (), snd made_text_locked)"
    by (simp add: made_text_locked_def prod_eq_iff)
  have "case get_slatepack_address packing_ext None 0 sending_wallet of (Ok a, _) \<Rightarrow>
      (case create_slatepack packing_ext sample_ser sample_pack []
         \<lparr>spa_sender = Some a, spa_recipients = [], spa_dec_key = None\<rparr> made_slate of
         Ok sp \<Rightarrow> is_Ok (put_slatepack packing_ext sp) | _ \<Rightarrow> False) | _ \<Rightarrow> False"
    by code_simp
  then obtain a sp b where "get_slatepack_address packing_ext None 0 sending_wallet = (Ok a, sending_wallet)"
    "create_slatepack packing_ext sample_ser sample_pack []
      \<lparr>spa_sender = Some a, spa_recipients = [], spa_dec_key = None\<rparr> made_slate = Ok sp" "put_slatepack packing_ext sp = Ok b"
    using own_address_state [of packing_ext None 0 sending_wallet] by (auto simp: is_Ok_ex split: prod.splits res.splits)
  from message_is_made [OF this] obtain t where
    made: "create_slatepack_message packing_ext sample_ser sample_pack [] None made_slate (Some 0) [] sending_wallet =
      (Ok t, sending_wallet)" by blast
  have dir: "fst (slate_file packing_env (cn_api (console_of sending_wallet)) made_slate (Some ''/x/f'')) = ''/w/slatepack''"
    by code_simp
  have parents: "parent_dir ''/x/f'' = ''/x''" "''/x'' \<notin> set (path_prefixes ''/w/slatepack'')" by code_simp+
  have changed: "map out_status (tbl_vals (db_outputs (w_db (snd made_text_locked)))) \<noteq>
      map out_status (tbl_vals (db_outputs (w_db sending_wallet)))" by code_simp
  show ?thesis
    using failed_output_keeps_coins_locked [OF console_of_simps(1) _ lock refl, where dest = None and seed = "[]" and
        message = t and f = "''/x/f''" and L = plain_text and fin = False and qr = False]
      made parents dir changed by auto
qed

text \<open>A slate for another wallet, handed out in a file that the other reads\<close>

definition handed_out :: "((cmd_error, unit) res \<times> console) option" where
  "handed_out = output_slatepack packing_env plain_text [] None message_slate (Some to_other) (Some ''/w/f'') False False False
     (console_of sample_wallet)"

lemma handed_out_Ok:
  "\<exists>c1 t. handed_out = Some (Ok (), c1) \<and> file_text (pr_fs (ap_provider (cn_api c1))) ''/w/f'' = Some t \<and> length t < 4062"
proof -
  let ?a = "cn_api (console_of sample_wallet)"
  obtain t where t: "sample_message = (Ok t, sample_wallet)" using sample_message_sent by blast
  have made: "api_create_slatepack_message packing_env [] None message_slate (Some 0) [to_other] ?a = (Ok t, ?a)"
    unfolding api_create_slatepack_message_def using t by (intro unchanged_inst) (simp_all add: sample_message_def)
  have file': "slate_file packing_env ?a message_slate (Some ''/w/f'') = (''/w/slatepack'', ''/w/f'')" by code_simp
  define a2 where "a2 = snd (quietly (on_file_system (Lib (IO ''directory'')) (create_dir_all ''/w/slatepack'')) ?a)"
  have dirs: "quietly (on_file_system (Lib (IO ''directory'')) (create_dir_all ''/w/slatepack'')) ?a = (Ok (), a2)"
    using quiet_dir(1) by (simp add: a2_def prod_eq_iff)
  have fs: "fs_dirs (pr_fs (ap_provider a2)) = [''/w/slatepack'', ''/w'']" "parent_dir ''/w/f'' = ''/w''"
    unfolding a2_def by code_simp+
  define a3 where "a3 = a2\<lparr>ap_provider := (ap_provider a2)\<lparr>pr_fs := (pr_fs (ap_provider a2))
    \<lparr>fs_files := AList.update ''/w/f'' t (fs_files (pr_fs (ap_provider a2)))\<rparr>\<rparr>\<rparr>"
  have wrote: "on_file_system (Lib (IO ''file'')) (write_text ''/w/f'' t) a2 = (Ok (), a3)"
    using fs by (simp add: on_file_system_def on_provider_def with_files_def or_io_def written_text a3_def)
  have "\<exists>c1. handed_out = Some (Ok (), c1) \<and> cn_api c1 = a3"
    by (simp add: handed_out_def output_slatepack_def cbind_def cread_def show_it_def cret_def on_api_def on_api_loop_def
        lib_err_def made file' dirs wrote)
  then show ?thesis
    using sample_message_size [OF t] by (auto simp: a3_def file_text_update)
qed

theorem slate_file_is_read_back_witness:
  "\<exists>c1 v s'. handed_out = Some (Ok (), c1) \<and> slate_to_v4 message_slate = Ok v \<and>
    slate_of_v4 packing_ext (v\<lparr>v4_feat_args := bin_feat_args v\<rparr>) = Ok s' \<and>
    (let c2 = (console_of other_wallet)\<lparr>cn_api := (api_of other_wallet)\<lparr>ap_provider :=
         (ap_provider (api_of other_wallet))\<lparr>pr_fs := pr_fs (ap_provider (cn_api c1))\<rparr>\<rparr>\<rparr>
     in parse_slatepack packing_env None (Some ''/w/f'') None c2 =
       Some (Ok (s', Some (the_Ok (fst (get_slatepack_address packing_ext None 0 sample_wallet)))), c2))"
proof -
  obtain c1 t where c1: "handed_out = Some (Ok (), c1)"
    and t: "file_text (pr_fs (ap_provider (cn_api c1))) ''/w/f'' = Some t" "length t < 4062"
    using handed_out_Ok by blast
  let ?c2 = "(console_of other_wallet)\<lparr>cn_api := (api_of other_wallet)\<lparr>ap_provider :=
         (ap_provider (api_of other_wallet))\<lparr>pr_fs := pr_fs (ap_provider (cn_api c1))\<rparr>\<rparr>\<rparr>"
  have fee: "0 < e_fee_of sample_ser 40" by (simp add: sample_ser_def)
  obtain v where v: "slate_to_v4 message_slate = Ok v" "slate_bin_ok sample_ser v"
    by (simp add: fee slate_to_v4_def coms_of_slate_def message_slate_def sample_slate_def slate_blank_def slate_bin_ok_def
        sample_ser_ok opt_structs_ok_def zero_blind_def participant_ok_def participant_to_v4_def
        sample_participant_def)
  have "case slate_to_v4 message_slate of Ok v \<Rightarrow> is_Ok (slate_of_v4 packing_ext (v\<lparr>v4_feat_args := bin_feat_args v\<rparr>)) | _ \<Rightarrow> False"
    by code_simp
  then obtain s' where s': "slate_of_v4 packing_ext (v\<lparr>v4_feat_args := bin_feat_args v\<rparr>) = Ok s'"
    by (auto simp: v(1) is_Ok_ex)
  obtain sk where sk: "get_slatepack_secret_key packing_ext None 0 other_wallet = (Ok sk, other_wallet)"
    using other_key [of 0] by blast
  have key: "has_key_for packing_ext (age_ext.truncate sample_pack) None other_wallet [to_other] [0]"
    using sk by (auto simp: to_other_def get_slatepack_address_def get_slatepack_secret_key_def sbind_def comp_defs sample_keys
        split: prod.splits res.splits)
  have size: "\<forall>t. file_text (pr_fs (ap_provider (cn_api c1))) ''/w/f'' = Some t \<longrightarrow>
      length t \<le> MAX_FIXED_READ \<and> length t \<le> unat (slatepack_max_size packing_ext)"
    using t by (simp add: MAX_FIXED_READ_def slatepack_max_size_def saturating_mul64_def saturating_add64_def
        WEIGHT_RATIO_def HEADER_def FOOTER_def packing_ext_def sample_ext_def)
  have name: "''/w/f'' = snd (slate_file packing_env (cn_api (console_of sample_wallet)) message_slate (Some ''/w/f''))"
    by (simp add: slate_file_def Let_def)
  have w: "open_inst (cn_api ?c2) = Some other_wallet" by (simp add: open_inst_def api_of_def owner_new_def)
  have "parse_slatepack packing_env None (Some ''/w/f'') None ?c2 =
      Some (Ok (s', Some (the_Ok (fst (get_slatepack_address packing_ext None 0 sample_wallet)))), ?c2)"
    using slate_file_is_read_back [where E = packing_env and s' = s' and ?km2.0 = None and sk = sk, OF _ _ _ c1 [unfolded handed_out_def] console_of_simps(1) v(1) _ _ name _ _ w]
      sample_pack_ok sample_age_ok own_address_ok v(2) s' size sk key by auto
  with c1 v(1) s' show ?thesis unfolding Let_def by blast
qed

end
