(* ===== verification/Wallet_Args_Props.thy ===== *)
theory Wallet_Args_Props
  imports Wallet_Args Commands_Props
begin

text \<open>
  What the command line makes of its arguments and of what the user types: numbers are read back,
  identifiers are cut to their width, and the end of the input does not stop a payment.
\<close>

section \<open>Numbers\<close>

lemma digit_value_of_nat: "d < 10 \<Longrightarrow> digit_value (char_of (48 + d)) = Some d"
proof -
  assume "d < 10"
  moreover have "list_all (\<lambda>d. digit_value (char_of (48 + d)) = Some d) [0..<10]" by code_simp
  ultimately show ?thesis by (simp add: list_all_iff)
qed

lemma digits_value_append:
  "digits_value acc (xs @ ys) = (case digits_value acc xs of Some v \<Rightarrow> digits_value v ys | None \<Rightarrow> None)"
  by (induction acc xs rule: digits_value.induct) (auto split: option.splits)

lemma digits_value_nat: "digits_value 0 (nat_to_string n) = Some n"
proof (induction n rule: nat_to_string.induct)
  case (1 n)
  show ?case
  proof (cases "n < 10")
    case True
    then show ?thesis by (subst nat_to_string.simps) (simp add: digit_value_of_nat)
  next
    case False
    then show ?thesis
      using 1 by (subst nat_to_string.simps) (simp add: digits_value_append digit_value_of_nat)
  qed
qed

lemma nat_to_string_shape: "nat_to_string n \<noteq> [] \<and> hd (nat_to_string n) \<noteq> CHR ''+''"
proof (induction n rule: nat_to_string.induct)
  case (1 n)
  have "list_all (\<lambda>d. char_of (48 + d :: nat) \<noteq> CHR ''+'') [0..<10]" by code_simp
  then have "n < 10 \<Longrightarrow> char_of (48 + n) \<noteq> CHR ''+''" by (simp add: list_all_iff)
  with 1 show ?case by (cases "n < 10") (subst nat_to_string.simps; simp add: hd_append)+
qed

lemma parse_nat_back: "n < 2 ^ bits \<Longrightarrow> parse_nat bits (nat_to_string n) = Some n"
  using nat_to_string_shape [of n] digits_value_nat [of n]
  by (cases "nat_to_string n") (simp_all add: parse_nat_def)

text \<open>The number of the transaction to cancel is read as 64 bits and cut to
  32 without a word: the command with any number below \<open>2 ^ 64\<close> is the call that cancels the
  transaction with that number modulo \<open>2 ^ 32\<close>.\<close>

theorem cancel_number_is_cut:
  assumes "n < 2 ^ 64" "am_value_of args ''id'' = Some (nat_to_string n)" "am_value_of args ''txid'' = None"
  shows "parse_and_execute U km wallet_config tc g (''cancel'', Some args) =
    on_api_loop (api_cancel_tx (su_env U) km (Some (of_nat (n mod 2 ^ 32))) None)"
proof -
  have "(ucast (of_nat n :: u64) :: u32) = of_nat (n mod 2 ^ 32)"
    by (simp add: unsigned_of_nat word_of_nat_eq_iff take_bit_eq_mod mod_mod_cancel)
  then have "parse_cancel_args (su_text U) args = Ok (Some (of_nat (n mod 2 ^ 32)), None)"
    using assms by (simp add: parse_cancel_args_def parse_narrow_def parse_u64_def parse_nat_back parse_txid_def)
  then show ?thesis by (simp add: parse_and_execute_def argued_def cmd_cancel_def Let_def)
qed

section \<open>Paying an invoice\<close>

text \<open>A step that does not look at what is typed\<close>

definition unasked :: "'a cmd \<Rightarrow> bool" where
  "unasked m \<longleftrightarrow> (\<forall>c ts. m (c\<lparr>cn_typed := ts\<rparr>) = map_option (\<lambda>(r, c'). (r, c'\<lparr>cn_typed := ts\<rparr>)) (m c))"

lemma typed_api: "c\<lparr>cn_typed := ts, cn_api := a\<rparr> = c\<lparr>cn_api := a, cn_typed := ts\<rparr>"
  by simp

lemma unasked_on_api_loop: "unasked (on_api_loop m)"
  by (auto simp: unasked_def on_api_loop_def typed_api map_option_case split: option.splits)

lemma unasked_on_api: "unasked (on_api m)"
  unfolding on_api_def by (rule unasked_on_api_loop)

lemma unasked_basic: "unasked (cret a)" "unasked (cfail e)" "unasked (clift r)"
  by (simp_all add: unasked_def cret_def cfail_def clift_def)

lemma unasked_cbind: "unasked m \<Longrightarrow> (\<And>a. unasked (f a)) \<Longrightarrow> unasked (cbind m f)"
  by (auto simp: unasked_def cbind_def split: option.splits prod.splits res.splits)

lemma unasked_parse_slatepack: "unasked (parse_slatepack E km f m)"
  by (auto simp: parse_slatepack_def Let_def unasked_basic split: option.splits
      intro!: unasked_cbind unasked_on_api unasked_basic)

lemma unasked_pay_slate:
  assumes "am_is_present args ''input''" "pay_slate E km args c = Some (r, c')"
  shows "pay_slate E km args (c\<lparr>cn_typed := ts\<rparr>) = Some (r, c'\<lparr>cn_typed := ts\<rparr>)"
proof (cases "am_value_of args ''input''")
  case None
  then show ?thesis
    using assms by (auto simp: pay_slate_def file_or_message_def given_file_def sbind_def comp_defs clift_def)
next
  case (Some f)
  show ?thesis
  proof (cases "file_text (pr_fs (ap_provider (cn_api c))) f")
    case None
    then show ?thesis
      using assms Some by (auto simp: pay_slate_def file_or_message_def given_file_def sbind_def comp_defs cfail_def)
  next
    case (Some t)
    then show ?thesis
      using assms \<open>am_value_of args ''input'' = Some f\<close> unasked_parse_slatepack [of E km "Some f" None]
      by (auto simp: pay_slate_def file_or_message_def given_file_def sbind_def comp_defs unasked_def)
  qed
qed

lemma prompt_ended:
  assumes "trim amount = amount" "amount \<noteq> ''Q''" "amount \<noteq> ''q''" "amount = x_amount_hr X (sl_amount s) False"
  shows "sbind (prompt_pay_invoice X s dest) (\<lambda>_. f) (c\<lparr>cn_typed := []\<rparr>) =
    sbind (prompt_pay_invoice X s dest) (\<lambda>_. f) (c\<lparr>cn_typed := [Line amount]\<rparr>)"
  using assms by (auto simp: prompt_pay_invoice_def with_typed_def tell_def sbind_def comp_defs Let_def)

lemma sbind_from: "m s = m t \<Longrightarrow> sbind m f s = sbind m f t"
  by (simp add: sbind_def)

text \<open>Either the arguments fail before the question, or the two answers to it come to the same.\<close>

lemma arguments_ended:
  assumes "trim amount = amount" "amount \<noteq> ''Q''" "amount \<noteq> ''q''" "amount = x_amount_hr (e_ext E) (sl_amount s) False"
  obtains (early) r where "\<not> is_Ok r"
      "\<And>ts. parse_process_invoice_args E args True s address (c\<lparr>cn_typed := ts\<rparr>) = (r, c\<lparr>cn_typed := ts\<rparr>)"
  | (same) "parse_process_invoice_args E args True s address (c\<lparr>cn_typed := []\<rparr>) =
      parse_process_invoice_args E args True s address (c\<lparr>cn_typed := [Line amount]\<rparr>)"
proof -
  let ?m = "rbind (parse_required args ''minimum_confirmations'') (\<lambda>t. parse_u64 t ''minimum_confirmations'')"
  let ?s = "parse_required args ''selection_strategy''"
  let ?d = "(case address of
      Some a \<Rightarrow> (case address_to_string (e_ext E) a of Ok d \<Rightarrow> Ok d | _ \<Rightarrow> Panic) | None \<Rightarrow> Ok '''') :: string pres"
  note ended = prompt_ended [OF assms, of _ "sret ()" c]
  show ?thesis
  proof (cases "is_Ok ?m \<and> is_Ok ?s \<and> is_Ok ?d")
    case True
    then obtain m st d where ok: "?m = Ok m" "?s = Ok st" "?d = Ok d" by (auto simp: is_Ok_ex)
    show ?thesis
      by (rule same, simp only: parse_process_invoice_args_def ok sbind_simps if_True, rule sbind_from)
        (simp only: sbind_simps ended)
  next
    case False
    then have "\<exists>r. \<not> is_Ok r \<and> (\<forall>c. parse_process_invoice_args E args True s address c = (r, c))"
      by (cases ?m; cases ?s; cases ?d) (simp_all add: parse_process_invoice_args_def sbind_def comp_defs)
    then show ?thesis using early by blast
  qed
qed

text \<open>C40: when an invoice is read from a file, the payment whose question is met
  with the end of the input, nothing having been typed, is the payment whose exact amount was typed:
  the same result, wallet, files and output, whatever is left to type.\<close>

theorem end_of_input_pays:
  assumes "am_is_present args ''input''" "pay_slate (su_env U) km args c = Some (Ok (s, address), c')"
    and "amount = x_amount_hr (e_ext (su_env U)) (sl_amount s) False"
    and "trim amount = amount" "amount \<noteq> ''Q''" "amount \<noteq> ''q''"
  shows "map_option (\<lambda>(r, c). (r, cn_api c, cn_shown c)) (pay U km tc args (c\<lparr>cn_typed := []\<rparr>)) =
    map_option (\<lambda>(r, c). (r, cn_api c, cn_shown c)) (pay U km tc args (c\<lparr>cn_typed := [Line amount]\<rparr>))"
proof (cases rule: arguments_ended [OF assms(4-6,3), of args address c', case_names early same])
  case (early r)
  then show ?thesis
    using unasked_pay_slate [OF assms(1,2)]
    by (cases r) (simp_all add: pay_def Let_def cbind_def asked_def argued_def cfail_def clift_def)
next
  case same
  then show ?thesis
    using unasked_pay_slate [OF assms(1,2)] by (simp add: pay_def Let_def cbind_def asked_def)
qed

section \<open>Samples\<close>

text \<open>A file with a Slatepack in its JSON form\<close>

definition invoice_pack :: slatepack where
  "invoice_pack = slatepack_default\<lparr>sp_payload := put_slate sample_ser (the_Ok (slate_to_v4 message_slate))\<rparr>"

definition invoice_env :: env where
  "invoice_env = packing_env\<lparr>e_pack := sample_pack\<lparr>g_slatepack_of_json := (\<lambda>_. Ok invoice_pack)\<rparr>\<rparr>"

definition invoice_console :: console where
  "invoice_console = (console_of other_wallet)\<lparr>cn_api := (api_of other_wallet)\<lparr>ap_provider :=
     (ap_provider (api_of other_wallet))\<lparr>pr_fs := \<lparr>fs_files = [(''/w/i'', ''{a slatepack in JSON}'')], fs_dirs = [''/w'']\<rparr>\<rparr>\<rparr>\<rparr>"

definition sample_surroundings :: surroundings where
  "sample_surroundings = \<lparr>su_env = invoice_env, su_text = plain_text, su_secret = ''secret'', su_cwd = ''/w'',
     su_chain = Mainnet, su_testnet = False, su_version = None,
     su_draws = (\<lambda>_. (sample_draw, [8])), su_seed = [], su_salts = (\<lambda>_. []), su_nonces = ([], []),
     su_server = (\<lambda>_. cret ())\<rparr>"

definition matches :: "(string \<times> string) list \<Rightarrow> arg_matches" where
  "matches vs = \<lparr>am_value_of = map_of vs, am_is_present = (\<lambda>n. map_of vs n \<noteq> None)\<rparr>"

definition sample_global_args :: global_args where
  "sample_global_args = \<lparr>gla_account = ''default'', gla_api_secret = None, gla_node_api_secret = None,
     gla_show_spent = False, gla_password = Some ''pw'', gla_tls_conf = None\<rparr>"

theorem cancel_number_is_cut_witness:
  "parse_and_execute sample_surroundings None wallet_config_default tor_config_default sample_global_args
     (''cancel'', Some (matches [(''id'', nat_to_string (2 ^ 32 + 5))])) =
   on_api_loop (api_cancel_tx invoice_env None (Some 5) None)"
  using cancel_number_is_cut [of "2 ^ 32 + 5" "matches [(''id'', nat_to_string (2 ^ 32 + 5))]" sample_surroundings]
  by (simp add: matches_def sample_surroundings_def)

definition pay_matches :: arg_matches where
  "pay_matches = matches [(''input'', ''/w/i''), (''minimum_confirmations'', ''1''), (''selection_strategy'', ''all'')]"

lemma invoice_env_simps [simp]:
  "e_ext invoice_env = packing_ext" "e_ser invoice_env = sample_ser"
  "e_pack invoice_env = sample_pack\<lparr>g_slatepack_of_json := (\<lambda>_. Ok invoice_pack)\<rparr>"
  by (simp_all add: invoice_env_def)

definition invoice_bytes :: bytes where
  "invoice_bytes = map of_char ''{a slatepack in JSON}''"

lemma invoice_data:
  "case slatepack_of_data packing_ext (e_pack invoice_env) invoice_bytes of Ok sp \<Rightarrow> sp = invoice_pack | _ \<Rightarrow> False"
  "g_str_of_utf8 sample_pack (take (length HEADER) invoice_bytes) \<noteq> Some HEADER"
  "length invoice_bytes = 21" "sp_mode invoice_pack = 0" "sp_sender invoice_pack = None"
  by code_simp+

lemma invoice_slate: "\<exists>s. slate_of_slatepack packing_ext sample_ser invoice_pack = Ok s \<and> sl_amount s = 100"
proof -
  have fee: "0 < e_fee_of sample_ser 40" by (simp add: sample_ser_def)
  obtain v where v: "slate_to_v4 message_slate = Ok v" "slate_bin_ok sample_ser v"
    by (simp add: fee slate_to_v4_def coms_of_slate_def message_slate_def sample_slate_def slate_blank_def slate_bin_ok_def
        sample_ser_ok opt_structs_ok_def zero_blind_def participant_ok_def participant_to_v4_def
        sample_participant_def)
  have "case slate_to_v4 message_slate of
      Ok v \<Rightarrow> (case slate_of_v4 packing_ext (v\<lparr>v4_feat_args := bin_feat_args v\<rparr>) of Ok s \<Rightarrow> sl_amount s = 100 | _ \<Rightarrow> False)
    | _ \<Rightarrow> False"
    by code_simp
  moreover have "slate_of_slatepack packing_ext sample_ser invoice_pack =
      slate_of_v4 packing_ext (v\<lparr>v4_feat_args := bin_feat_args v\<rparr>)"
    using get_put_slate [OF v(2), of "[]"]
    by (simp add: slate_of_slatepack_def invoice_pack_def slate_upgrade_def v(1))
  ultimately show ?thesis by (auto simp: v(1) split: res.splits)
qed

lemma invoice_is_read:
  "\<exists>s. pay_slate invoice_env None pay_matches invoice_console = Some (Ok (s, None), invoice_console) \<and> sl_amount s = 100"
proof -
  let ?G = "e_pack invoice_env" and ?t = "''{a slatepack in JSON}''"
  obtain sk where sk: "get_slatepack_secret_key packing_ext None 0 other_wallet = (Ok sk, other_wallet)"
    using other_key [of 0] by blast
  have inst: "open_inst (cn_api invoice_console) = Some other_wallet"
    "file_text (pr_fs (ap_provider (cn_api invoice_console))) ''/w/i'' = Some ?t"
    by (simp_all add: invoice_console_def open_inst_def api_of_def owner_new_def file_text_def)
  have key: "api_get_slatepack_secret_key invoice_env None 0 (cn_api invoice_console) = (Ok sk, cn_api invoice_console)"
    unfolding api_get_slatepack_secret_key_def using inst(1) sk by (intro unchanged_inst) simp_all
  have size: "length ?t \<le> MAX_FIXED_READ" "length ?t \<le> unat (slatepack_max_size (e_ext invoice_env))"
    by (simp_all add: MAX_FIXED_READ_def slatepack_max_size_def saturating_mul64_def saturating_add64_def
        WEIGHT_RATIO_def HEADER_def FOOTER_def packing_ext_def sample_ext_def)
  have "\<not> (of_nat (length invoice_bytes) < slatepack_min_size \<or> of_nat (length invoice_bytes) > slatepack_max_size packing_ext)"
    by (simp add: invoice_data slatepack_min_size_def HEADER_def slatepack_max_size_def saturating_mul64_def
        saturating_add64_def WEIGHT_RATIO_def FOOTER_def packing_ext_def sample_ext_def)
  moreover have "slatepack_of_data packing_ext ?G invoice_bytes = Ok invoice_pack"
    using invoice_data(1) by (auto split: res.splits)
  ultimately have deser: "deser_slatepack (e_ext invoice_env) ?G (no_packer_args\<lparr>spa_dec_key := Some sk\<rparr>) (map of_char ?t) True =
      Ok invoice_pack"
    using invoice_data(2,4) unfolding invoice_bytes_def [symmetric]
    by (simp add: deser_slatepack_def Let_def try_decrypt_payload_def)
  obtain s where s: "slate_of_slatepack packing_ext sample_ser invoice_pack = Ok s" "sl_amount s = 100"
    using invoice_slate by blast
  have "parse_slatepack invoice_env None (Some ''/w/i'') None invoice_console = Some (Ok (s, None), invoice_console)"
    using file_is_parsed [OF inst(2) key deser _ size, of s] s(1) by (simp add: invoice_data)
  then show ?thesis
    using inst(2) s(2) by (simp add: pay_slate_def file_or_message_def given_file_def pay_matches_def matches_def
        sbind_def comp_defs)
qed

theorem end_of_input_pays_witness:
  "map_option (\<lambda>(r, c). (r, cn_api c, cn_shown c))
     (pay sample_surroundings None tor_config_default pay_matches (invoice_console\<lparr>cn_typed := []\<rparr>)) =
   map_option (\<lambda>(r, c). (r, cn_api c, cn_shown c))
     (pay sample_surroundings None tor_config_default pay_matches (invoice_console\<lparr>cn_typed := [Line ''100'']\<rparr>))"
proof -
  have env: "su_env sample_surroundings = invoice_env" by (simp add: sample_surroundings_def)
  obtain s where read: "pay_slate invoice_env None pay_matches invoice_console = Some (Ok (s, None), invoice_console)"
    and "sl_amount s = 100"
    using invoice_is_read by blast
  moreover have "x_amount_hr (e_ext invoice_env) 100 False = ''100''" by code_simp
  ultimately have amount: "x_amount_hr (e_ext invoice_env) (sl_amount s) False = ''100''" by simp
  have "trim ''100'' = ''100''" "am_is_present pay_matches ''input''" by code_simp+
  from end_of_input_pays [of _ sample_surroundings, unfolded env, OF this(2) read, of "''100''"] this(1) amount
  show ?thesis by simp
qed

end
