(* ===== verification/Spec2Isabelle.thy ===== *)
theory Spec2Isabelle
  imports Backend_Props Selection_Props Updater_Props Slate_Props Slate_Bin_Props Send_Props Tx_Props Exchange_Props Final_Props Scan_Props Owner_Props Slatepack_Props Message_Props Lifecycle_Props Http_Props Config_Props Api_Props Reach Update_Thread_Props Session_Props Mixnet_Props Wallet_Args_Props
begin

text \<open>
  The grin wallet: its library, interfaces, life cycle and configuration modelled in Isabelle/HOL
  after the Rust sources, with the theorems that make them correct.

  THE PROGRAM. A wallet keeps outputs, key counters, accounts, the private contexts of running
  transactions and a log in a database, under a keychain made from an encrypted seed. Two parties
  build a transaction by exchanging a slate: the sender selects coins (\<open>init_send_tx\<close>), the
  recipient adds an output and signs (\<open>receive_tx\<close>), the sender locks the coins (\<open>tx_lock_outputs\<close>),
  signs, aggregates the signatures and posts (\<open>finalize_tx\<close>); or the other way round by invoice.
  Slates travel as JSON, in binary form or as armored Slatepack messages, by hand or over Tor. From
  its node the wallet learns what became of its outputs (the updater), or finds them all again (the
  scan). Owners and other wallets reach this through the Owner and the Foreign interface, the
  former over an encrypted session; a background thread can keep the wallet up to date.

  THE THEORIES, each with the sources it follows; names are those of the code but for suffixes
  where a name is taken.

  \<open>Prelude\<close>, \<open>Errors\<close> (\<open>libwallet/src/error.rs\<close>), \<open>External\<close> (what the code uses of other crates),
  \<open>Ordered_Store\<close> (the database as an ordered key-value store), \<open>Codec\<close> (binary readers and writers),
  \<open>Json\<close>, \<open>Files\<close> (\<open>std::fs\<close> and paths) and \<open>Loops\<close> (operations that may not return) are shared.

  \<open>Types\<close> (\<open>libwallet/src/types.rs\<close>, \<open>api_impl/types.rs\<close>) has the data; \<open>Backend\<close> (\<open>backend.rs\<close>) the
  tables, the write batch and the wallet that owns them, and \<open>Backend_Laws\<close>, \<open>Backend_Props\<close>, \<open>Keyed\<close>
  what they guarantee; \<open>Keys\<close> (\<open>internal/keys.rs\<close>, \<open>address.rs\<close>) keys and accounts; \<open>Selection\<close>
  (\<open>internal/selection.rs\<close>) the choice of coins, with \<open>Selection_Laws\<close> and \<open>Selection_Props\<close>; \<open>Updater\<close>
  (\<open>internal/updater.rs\<close>) listing, refreshing, cancelling and the summary; \<open>Slate\<close>, \<open>Slate_V4\<close>,
  \<open>Slate_Bin\<close> (\<open>slate.rs\<close>, \<open>slate_versions/\<close>) the slate and its exchanged forms; \<open>Send\<close> and \<open>Tx\<close>
  (\<open>internal/selection.rs\<close>, \<open>internal/tx.rs\<close>) the parts each party adds; \<open>Exchange\<close>
  (\<open>api_impl/owner.rs\<close>, \<open>api_impl/foreign.rs\<close>) the handlers of the exchange; \<open>Scan\<close>
  (\<open>internal/scan.rs\<close>); \<open>Owner\<close> (\<open>api_impl/owner.rs\<close>) the updates and queries; \<open>Address\<close>,
  \<open>Slatepack\<close>, \<open>Slatepacker\<close> (\<open>slatepack/\<close>) messages; \<open>Seed\<close> and \<open>Lifecycle\<close> (\<open>impls/src/lifecycle/\<close>);
  \<open>Http\<close> (\<open>impls/src/node_clients/http.rs\<close>, \<open>client_utils/\<close>) the client of the node; \<open>Tor_Sender\<close>
  (\<open>impls/src/adapters/tor.rs\<close>); \<open>Config\<close> (\<open>config/src/\<close>); \<open>Api\<close> (\<open>api/src/owner.rs\<close>, \<open>foreign.rs\<close>) the
  two interfaces; \<open>Update_Thread\<close> (\<open>api_impl/owner_updater.rs\<close>) the updater's threads; \<open>Session\<close>
  (\<open>api/src/types.rs\<close>, \<open>controller/src/controller.rs\<close>) the encrypted session; \<open>Owner_Rpc\<close>
  (\<open>api/src/owner_rpc.rs\<close>, \<open>foreign_rpc.rs\<close>) the methods of the JSON interface; \<open>Onion\<close> and \<open>Mixnet\<close>
  (\<open>libwallet/src/mwixnet/\<close>, \<open>create_mwixnet_req\<close> of \<open>api_impl/owner.rs\<close>) the requests for a swap of
  outputs by the servers of a mixing network; \<open>Commands\<close> (\<open>controller/src/command.rs\<close>) the commands of
  the program with what they show; \<open>Wallet_Args\<close> (\<open>src/cmd/wallet_args.rs\<close>) the command line with its
  arguments and questions. \<open>Reach\<close> is the wallet
  in use, as a step relation over the operations. A theory with the suffix Props holds the
  properties of its component; \<open>Sample\<close> and \<open>Exchange_Sample\<close> hold the concrete libraries, wallets
  and slates on which the theorems with hypotheses are evaluated, and are no part of the model.

  STATE AND OPERATIONS. A handler takes the state and returns a result with the new state: \<open>Ok\<close>, \<open>Err\<close>
  or \<open>Panic\<close> (an \<open>unwrap\<close> of nothing, an index out of range, a division by zero, an explicit panic).
  The state survives an error, since what was committed before stays. A write batch (\<open>with_batch\<close>)
  works on a copy of the tables, which becomes the database only when its body succeeds. The types
  \<open>batch\<close>, \<open>wop\<close>, \<open>lop\<close>, \<open>aop\<close>, \<open>alop\<close> are computations over the tables, the wallet and the interface;
  the l stands for a loop the code does not bound, whose value is \<open>None\<close> when it never returns.
  Integers are words of their width and wrap as in a release build; \<open>usize\<close> is \<open>nat\<close>, timestamps are
  integers, \<open>FeeFields\<close> the raw number. Hash maps are association lists, whose order stands for the
  arbitrary one. Randomness and the time are arguments.

  PARAMETERS. Code of other crates is a field of a record: \<open>ext\<close> (keychain, curve, transactions), \<open>node\<close>
  (answers of the node about one state of its chain), \<open>ser_ext\<close> (binary forms), \<open>pack_ext\<close> and \<open>age_ext\<close>
  (armor and encryption), \<open>seed_ext\<close>, \<open>http_ext\<close>, \<open>tor_ext\<close>, \<open>config_ext\<close>, \<open>session_ext\<close>, \<open>onion_lib\<close>, \<open>text_ext\<close>. A theorem
  names what it needs of them (\<open>ser_ok\<close>: each writer has its reader; \<open>session_lib_ok\<close>: what is sealed
  can be opened; and so on), and its witness evaluates it on an instance.

  THE LEMMAS. The locales are \<open>kv_store\<close> (an ordered store), \<open>output_store\<close> (outputs by identifier and
  position), \<open>counter\<close> (numbers not given before), \<open>codec\<close> (a reader that undoes a writer) and
  \<open>reselection\<close> (each round of the fee loop picks more coins or all); each is interpreted on the
  model. Lemmas collected in \<open>keeps_intros\<close> and \<open>lkeeps_intros\<close> carry an invariant through a handler.
  The properties say: coin selection pays and the amounts balance; locking is all or nothing and
  cancelling undoes it; outputs move along their state machine only; a slate is received and
  finalised once, its signatures are checked and the final transaction validates; each written form
  is read back; a scan restores the outputs of the chain; updates return; the seed survives a change
  of password; configuration changes reach every listener; one updater runs at a time and ends when
  stopped; nothing is reached without the key of the session, and with it the session is
  transparent; each server of a mixing network peels its own layer off an onion, and the last one
  finds the output the owner keeps; a slate handed out in a file is read back by the other party;
  records stay filed under their own keys in every reachable wallet.

  BOUNDS. The fee loop has fuel for two rounds more than there are coins, which \<open>fee_loop_enough\<close> shows
  to suffice; the search for a free backup name has one try more than there are files. A binary
  reader takes at most 100000 bytes at once, as the library's does. Loops over the pages of the chain
  have no bound: they are partial functions, and the theorems about them state when they return.

  NOT MODELLED. The starting of Tor and its bridges, processes and embedded client (\<open>impls/src/tor/\<close>),
  the file adapter and the test client (input and output only); the HTTP servers and listeners
  (\<open>controller/src/controller.rs\<close>) with the commands that start them, the layout of the printed tables
  (\<open>display.rs\<close>), the interactive shell and the main function (\<open>src/cli/\<close>, \<open>src/bin/\<close>); the field encodings
  of serde (\<open>slate_versions/ser.rs\<close>, \<open>util/src/byte_ser.rs\<close>), since JSON forms of records are
  parameters but for those of the session; the comments of a configuration file (\<open>comments.rs\<close>).
  Within the modelled parts: failures of the disk other than missing paths and unreadable log
  records; log and status messages but for the updater's; the doctest mode; the random test flag,
  which selects what is drawn; other operations between the steps of one scan or update, for which
  the code releases the wallet's lock; the texts that libraries give their errors, where the code
  embeds them.
\<close>

end
